(* ===== verification/Prelude.thy ===== *)
theory Prelude
  imports Main "HOL-Library.Word" "HOL-Library.List_Lexorder" "HOL-Library.Char_ord"
    "HOL-Library.Product_Lexorder"
begin

text \<open>
  Shared vocabulary of the development: machine integers with Rust's release-mode
  arithmetic, byte strings, and Rust's ordered containers.

  \<^item> Rust's unsigned integers are words of their width; \<open>+\<close>, \<open>-\<close> and \<open>*\<close> wrap, as the
    release profile of the workspace (no \<open>overflow-checks\<close>) compiles them. The operations
    \<open>checked_add\<close>, \<open>saturating_add\<close> and \<open>saturating_sub\<close> are written out.
  \<^item> A fixed array \<open>[u8; 32]\<close> is a byte list; its lexicographic order is Rust's order on
    arrays. A \<open>String\<close> is a \<open>string\<close>, that is its UTF-8 bytes, so \<open>length\<close> is Rust's \<open>len()\<close>.
  \<^item> \<open>BTreeMap<K, V>\<close> is the type \<open>('k, 'v) btree\<close> of association lists that are strictly
    sorted by key; iteration order is list order, and equality is extensional.
  The interface of ordered maps is the locale \<open>ordered_map\<close>; its clients (sums over the
  values of a map, frame laws) are proved once in the locale and reach the components through
  its interpretation on \<open>btree\<close>.
\<close>

section \<open>Machine integers\<close>

type_synonym u8 = "8 word"
type_synonym u16 = "16 word"
type_synonym u32 = "32 word"
type_synonym u64 = "64 word"
type_synonym u128 = "128 word"
type_synonym byte = u8
type_synonym bytes = "byte list"
type_synonym address = bytes
type_synonym hash32 = bytes
type_synonym signature64 = bytes

named_theorems map_laws \<open>how lookups and sums see the updates of an ordered map\<close>
named_theorems frame_laws \<open>which parts of the state an operation leaves alone\<close>

definition checked_add :: "'a::len word \<Rightarrow> 'a word \<Rightarrow> 'a word option" where
  "checked_add a b = (if unat a + unat b < 2 ^ LENGTH('a) then Some (a + b) else None)"

definition saturating_add :: "'a::len word \<Rightarrow> 'a word \<Rightarrow> 'a word" where
  "saturating_add a b = (if unat a + unat b < 2 ^ LENGTH('a) then a + b else - 1)"

definition saturating_sub :: "'a::len word \<Rightarrow> 'a word \<Rightarrow> 'a word" where
  "saturating_sub a b = (if b \<le> a then a - b else 0)"

lemma unat_add_exact:
  fixes a b :: "'a::len word"
  assumes "unat a + unat b < 2 ^ LENGTH('a)"
  shows "unat (a + b) = unat a + unat b"
  using assms by (simp add: unat_word_ariths)

lemma unat_sub_exact:
  fixes a b :: "'a::len word"
  assumes "b \<le> a"
  shows "unat (a - b) = unat a - unat b"
  using assms by (rule unat_sub)

lemma uint_add_exact:
  fixes a b :: "'a::len word"
  assumes "unat a + unat b < 2 ^ LENGTH('a)"
  shows "uint (a + b) = uint a + uint b"
  using unat_add_exact[OF assms] by (metis of_nat_add uint_nat)

lemma uint_sub_exact:
  fixes a b :: "'a::len word"
  assumes "b \<le> a"
  shows "uint (a - b) = uint a - uint b"
  using assms by (simp add: uint_sub_lem[THEN iffD1] word_le_def)

lemma unat_mult_exact:
  fixes a b :: "'a::len word"
  assumes "unat a * unat b < 2 ^ LENGTH('a)"
  shows "unat (a * b) = unat a * unat b"
  using assms by (simp add: unat_word_ariths)

lemma checked_add_SomeD:
  fixes a b c :: "'a::len word"
  assumes "checked_add a b = Some c"
  shows "c = a + b" and "unat c = unat a + unat b"
  using assms by (auto simp: checked_add_def unat_add_exact split: if_splits)

lemma checked_add_Some_le:
  fixes a b c :: "'a::len word"
  assumes "checked_add a b = Some c"
  shows "a \<le> c"
  using checked_add_SomeD(2)[OF assms] by (simp add: word_le_nat_alt)

lemma unat_saturating_add:
  fixes a b :: "'a::len word"
  shows "unat (saturating_add a b) = min (unat a + unat b) (2 ^ LENGTH('a) - 1)"
proof (cases "unat a + unat b < 2 ^ LENGTH('a)")
  case True
  then show ?thesis by (simp add: saturating_add_def unat_add_exact)
next
  case False
  moreover have "unat (- 1 :: 'a word) = 2 ^ LENGTH('a) - 1"
    by (simp add: unsigned_minus_1_eq_mask mask_eq_exp_minus_1)
  ultimately show ?thesis by (simp add: saturating_add_def)
qed

lemma unat_saturating_sub:
  fixes a b :: "'a::len word"
  shows "unat (saturating_sub a b) = unat a - unat b"
  by (auto simp: saturating_sub_def unat_sub_exact word_le_nat_alt)

lemma word_nonzero_pos:
  fixes a :: "'a::len word"
  shows "a \<noteq> 0 \<longleftrightarrow> 0 < a"
  by (simp add: word_neq_0_conv)

text \<open>The little-endian byte images \<open>to_le_bytes\<close> and \<open>from_le_bytes\<close> of the integer types.\<close>

definition to_le_bytes :: "'a::len word \<Rightarrow> bytes" where
  "to_le_bytes w = map (\<lambda>i. ucast (drop_bit (8 * i) w)) [0..<LENGTH('a) div 8]"

fun from_le_bytes :: "bytes \<Rightarrow> 'a::len word" where
  "from_le_bytes [] = 0"
| "from_le_bytes (b # bs) = ucast b + 256 * from_le_bytes bs"

lemma length_to_le_bytes [simp]: "length (to_le_bytes (w :: 'a::len word)) = LENGTH('a) div 8"
  by (simp add: to_le_bytes_def)

text \<open>Reading back the bytes of a word.\<close>

lemma le_bytes_step:
  fixes x :: "'a::len word"
  shows "ucast (ucast x :: byte) + 256 * take_bit (8 * m) (drop_bit 8 x) = take_bit (8 * Suc m) x"
proof -
  let ?y = "take_bit (8 * Suc m) x"
  have "push_bit 8 (drop_bit 8 ?y) + take_bit 8 ?y = ?y" by (rule bits_ident)
  moreover have "drop_bit 8 ?y = take_bit (8 * m) (drop_bit 8 x)"
    by (simp add: drop_bit_take_bit)
  moreover have "take_bit 8 ?y = take_bit 8 x" by (simp add: min_def)
  moreover have "ucast (ucast x :: byte) = take_bit 8 x" 
    by (rule bit_word_eqI) (auto simp: bit_take_bit_iff bit_ucast_iff exp_eq_zero_iff)
  ultimately show ?thesis by (simp add: push_bit_eq_mult mult.commute add.commute)
qed

lemma from_le_bytes_part:
  "from_le_bytes (map (\<lambda>i. ucast (drop_bit (8 * (k + i)) w)) [0..<m]) = take_bit (8 * m) (drop_bit (8 * k) w)"
proof (induction m arbitrary: k)
  case (Suc m)
  have "map (\<lambda>i. ucast (drop_bit (8 * (k + i)) w)) [0..<Suc m] 
    = (ucast (drop_bit (8 * k) w) :: byte) # map (\<lambda>i. ucast (drop_bit (8 * (Suc k + i)) w)) [0..<m]"
    by (simp add: upt_conv_Cons map_Suc_upt[symmetric] comp_def ac_simps del: upt_Suc)
  then show ?case
    using Suc.IH[of "Suc k"] le_bytes_step[of "drop_bit (8 * k) w" m] by (simp add: add.commute del: upt_Suc)
qed simp

lemma from_to_le_bytes [simp]:
  assumes "8 dvd LENGTH('a::len)"
  shows "from_le_bytes (to_le_bytes w) = (w :: 'a word)"
  using from_le_bytes_part[of 0 w "LENGTH('a) div 8"] assms by (simp add: to_le_bytes_def)

text \<open>Decimal rendering of \<open>format!("{}", n)\<close>, for the error messages that carry numbers.\<close>

fun dec_digits :: "nat \<Rightarrow> string" where
  "dec_digits n = (if n < 10 then [char_of (48 + n)]
     else dec_digits (n div 10) @ [char_of (48 + n mod 10)])"

declare dec_digits.simps [simp del]

definition show_word :: "'a::len word \<Rightarrow> string" where
  "show_word w = dec_digits (unat w)"

definition string_bytes :: "string \<Rightarrow> bytes" where
  "string_bytes s = map of_char s"

section \<open>Ordered maps\<close>

text \<open>
  Association lists sorted by key: \<open>al_insert\<close> and \<open>al_remove\<close> are the list images of
  \<open>BTreeMap::insert\<close> and \<open>BTreeMap::remove\<close>.
\<close>

abbreviation keys_sorted :: "('k::linorder \<times> 'v) list \<Rightarrow> bool" where
  "keys_sorted ps \<equiv> sorted_wrt (<) (map fst ps)"

fun al_insert :: "'k::linorder \<Rightarrow> 'v \<Rightarrow> ('k \<times> 'v) list \<Rightarrow> ('k \<times> 'v) list" where
  "al_insert k v [] = [(k, v)]"
| "al_insert k v (p # ps) =
     (if k = fst p then (k, v) # ps
      else if k < fst p then (k, v) # p # ps
      else p # al_insert k v ps)"

definition al_remove :: "'k \<Rightarrow> ('k \<times> 'v) list \<Rightarrow> ('k \<times> 'v) list" where
  "al_remove k ps = filter (\<lambda>p. fst p \<noteq> k) ps"

lemma fst_set_al_insert: "fst ` set (al_insert k v ps) = insert k (fst ` set ps)"
  by (induction ps) auto

lemma keys_sorted_al_insert: "keys_sorted ps \<Longrightarrow> keys_sorted (al_insert k v ps)"
proof (induction ps)
  case (Cons p ps)
  have "\<forall>x\<in>fst ` set (al_insert k v ps). fst p < x" if "fst p < k"
    using Cons.prems that by (simp add: fst_set_al_insert)
  then show ?case
    using Cons by (auto simp: not_less intro: less_trans)
qed simp

lemma keys_sorted_filter: "keys_sorted ps \<Longrightarrow> keys_sorted (filter P ps)"
  by (induction ps) auto

lemma keys_sorted_distinct: "keys_sorted ps \<Longrightarrow> distinct (map fst ps)"
  by (simp add: strict_sorted_iff)

lemma map_of_al_insert:
  "keys_sorted ps \<Longrightarrow> map_of (al_insert k v ps) = (map_of ps)(k \<mapsto> v)"
  by (induction ps) (auto simp: fun_eq_iff)

lemma map_of_al_remove: "map_of (al_remove k ps) = (map_of ps)(k := None)"
  by (induction ps) (auto simp: al_remove_def fun_eq_iff)

lemma keys_sorted_map_values:
  "keys_sorted ps \<Longrightarrow> keys_sorted (map (\<lambda>p. (fst p, f (fst p) (snd p))) ps)"
  by (simp add: comp_def)

lemma keys_sorted_rebuild:
  assumes "keys_sorted ps"
  shows "map (\<lambda>k. (k, the (map_of ps k))) (map fst ps) = ps"
proof -
  have "(fst p, the (map_of ps (fst p))) = p" if "p \<in> set ps" for p
    using that assms by (metis keys_sorted_distinct map_of_eq_Some_iff option.sel prod.collapse)
  then show ?thesis by (simp add: comp_def map_idI)
qed

lemma keys_sorted_eqI:
  assumes "keys_sorted ps" and "keys_sorted qs" and "map_of ps = map_of qs"
  shows "ps = qs"
proof -
  have "set (map fst ps) = set (map fst qs)"
    using assms(3) by (metis dom_map_of_conv_image_fst list.set_map)
  then have "map fst ps = map fst qs"
    using assms(1,2) by (simp add: strict_sorted_equal)
  then show ?thesis
    using assms keys_sorted_rebuild by metis
qed

typedef (overloaded) ('k::linorder, 'v) btree = "{ps :: ('k \<times> 'v) list. keys_sorted ps}"
  morphisms entries Btree
proof
  show "[] \<in> {ps :: ('k \<times> 'v) list. keys_sorted ps}" by simp
qed

setup_lifting type_definition_btree

lift_definition bt_empty :: "('k::linorder, 'v) btree" is "[]" by simp

lift_definition bt_get :: "('k::linorder, 'v) btree \<Rightarrow> 'k \<Rightarrow> 'v option" is map_of .

lift_definition bt_insert :: "'k::linorder \<Rightarrow> 'v \<Rightarrow> ('k, 'v) btree \<Rightarrow> ('k, 'v) btree" is al_insert
  by (rule keys_sorted_al_insert)

lift_definition bt_remove :: "'k::linorder \<Rightarrow> ('k, 'v) btree \<Rightarrow> ('k, 'v) btree" is al_remove
  unfolding al_remove_def by (rule keys_sorted_filter)

text \<open>A loop over \<open>values_mut()\<close>: every value is replaced, the keys stay.\<close>

lift_definition bt_map_values :: "('k \<Rightarrow> 'v \<Rightarrow> 'w) \<Rightarrow> ('k::linorder, 'v) btree \<Rightarrow> ('k, 'w) btree" is
  "\<lambda>f ps. map (\<lambda>p. (fst p, f (fst p) (snd p))) ps"
  by (rule keys_sorted_map_values)

definition bt_contains :: "('k::linorder, 'v) btree \<Rightarrow> 'k \<Rightarrow> bool" where
  "bt_contains m k = (bt_get m k \<noteq> None)"

text \<open>\<open>m.get(&k).copied().unwrap_or(d)\<close>.\<close>

definition bt_get_or :: "('k::linorder, 'v) btree \<Rightarrow> 'v \<Rightarrow> 'k \<Rightarrow> 'v" where
  "bt_get_or m d k = (case bt_get m k of None \<Rightarrow> d | Some v \<Rightarrow> v)"

text \<open>\<open>*m.entry(k).or_insert(d) = f(..)\<close>: read or create the entry, then update it.\<close>

definition bt_entry :: "'k::linorder \<Rightarrow> 'v \<Rightarrow> ('v \<Rightarrow> 'v) \<Rightarrow> ('k, 'v) btree \<Rightarrow> ('k, 'v) btree" where
  "bt_entry k d f m = bt_insert k (f (bt_get_or m d k)) m"

text \<open>\<open>if let Some(x) = m.get_mut(&k) { *x = f(x) }\<close>: update an entry that exists.\<close>

definition bt_modify :: "'k::linorder \<Rightarrow> ('v \<Rightarrow> 'v) \<Rightarrow> ('k, 'v) btree \<Rightarrow> ('k, 'v) btree" where
  "bt_modify k f m = (case bt_get m k of None \<Rightarrow> m | Some v \<Rightarrow> bt_insert k (f v) m)"

definition bt_keys :: "('k::linorder, 'v) btree \<Rightarrow> 'k list" where
  "bt_keys m = map fst (entries m)"

definition bt_values :: "('k::linorder, 'v) btree \<Rightarrow> 'v list" where
  "bt_values m = map snd (entries m)"

definition bt_len :: "('k::linorder, 'v) btree \<Rightarrow> nat" where
  "bt_len m = length (entries m)"

definition bt_is_empty :: "('k::linorder, 'v) btree \<Rightarrow> bool" where
  "bt_is_empty m = (entries m = [])"

definition bt_sum :: "('k \<Rightarrow> 'v \<Rightarrow> 'a::comm_monoid_add) \<Rightarrow> ('k::linorder, 'v) btree \<Rightarrow> 'a" where
  "bt_sum f m = sum_list (map (\<lambda>p. f (fst p) (snd p)) (entries m))"

lemma entries_bt_empty [simp]: "entries bt_empty = []"
  by (rule bt_empty.rep_eq)

lemma entries_bt_insert [simp]: "entries (bt_insert k v m) = al_insert k v (entries m)"
  by (rule bt_insert.rep_eq)

lemma entries_bt_remove [simp]: "entries (bt_remove k m) = al_remove k (entries m)"
  by (rule bt_remove.rep_eq)

lemma keys_sorted_entries: "keys_sorted (entries m)"
  using entries[of m] by simp

subsection \<open>The interface of ordered maps\<close>

text \<open>
  What the components rely on: lookups see the last write, and the entries are sorted by key,
  without duplicates, and determine the map.
\<close>

locale ordered_map =
  fixes emp :: "'m"
    and get :: "'m \<Rightarrow> 'k::linorder \<Rightarrow> 'v option"
    and ins :: "'k \<Rightarrow> 'v \<Rightarrow> 'm \<Rightarrow> 'm"
    and rem :: "'k \<Rightarrow> 'm \<Rightarrow> 'm"
    and ents :: "'m \<Rightarrow> ('k \<times> 'v) list"
  assumes get_emp: "get emp k = None"
    and get_ins: "get (ins k v m) = (get m)(k \<mapsto> v)"
    and get_rem: "get (rem k m) = (get m)(k := None)"
    and get_ents: "get m = map_of (ents m)"
    and ents_sorted: "keys_sorted (ents m)"
    and ents_inject: "ents m = ents n \<Longrightarrow> m = n"
begin

lemma extensional: "get m = get n \<Longrightarrow> m = n"
  using ents_inject ents_sorted get_ents keys_sorted_eqI by metis

lemma ins_same: "get m k = Some v \<Longrightarrow> ins k v m = m"
  by (rule extensional) (auto simp: get_ins fun_eq_iff)

lemma ins_ins: "ins k v (ins k w m) = ins k v m"
  by (rule extensional) (simp add: get_ins)

lemma ins_commute: "k \<noteq> l \<Longrightarrow> ins k v (ins l w m) = ins l w (ins k v m)"
  by (rule extensional) (auto simp: get_ins fun_eq_iff)

lemma rem_absent: "get m k = None \<Longrightarrow> rem k m = m"
  by (rule extensional) (auto simp: get_rem fun_eq_iff)

lemma ents_mem: "(k, v) \<in> set (ents m) \<longleftrightarrow> get m k = Some v"
  using ents_sorted[of m] by (simp add: get_ents keys_sorted_distinct map_of_eq_Some_iff)

lemma finite_dom: "finite (dom (get m))"
  by (simp add: get_ents finite_dom_map_of)

lemma total_dom:
  fixes f :: "'k \<Rightarrow> 'v \<Rightarrow> 'a::comm_monoid_add"
  shows "sum_list (map (\<lambda>p. f (fst p) (snd p)) (ents m)) = (\<Sum>k\<in>dom (get m). f k (the (get m k)))"
proof -
  have d: "distinct (ents m)" "inj_on fst (set (ents m))"
    using ents_sorted[of m] keys_sorted_distinct distinct_map by blast+
  have "sum_list (map (\<lambda>p. f (fst p) (snd p)) (ents m)) = (\<Sum>p\<in>set (ents m). f (fst p) (snd p))"
    using d(1) by (simp add: sum_list_distinct_conv_sum_set)
  also have "\<dots> = (\<Sum>p\<in>set (ents m). f (fst p) (the (get m (fst p))))"
    by (rule sum.cong) (auto dest: ents_mem[THEN iffD1])
  also have "\<dots> = (\<Sum>k\<in>fst ` set (ents m). f k (the (get m k)))"
    using d(2) by (simp add: sum.reindex)
  also have "fst ` set (ents m) = dom (get m)"
    by (simp add: get_ents dom_map_of_conv_image_fst)
  finally show ?thesis .
qed

lemma total_rem:
  fixes f :: "'k \<Rightarrow> 'v \<Rightarrow> 'a::comm_monoid_add"
  shows "sum_list (map (\<lambda>p. f (fst p) (snd p)) (ents m)) =
    sum_list (map (\<lambda>p. f (fst p) (snd p)) (ents (rem k m))) + (case get m k of None \<Rightarrow> 0 | Some v \<Rightarrow> f k v)"
proof (cases "get m k")
  case None
  then show ?thesis by (simp add: rem_absent)
next
  case (Some v)
  have dom: "dom (get (rem k m)) = dom (get m) - {k}"
    by (auto simp: get_rem)
  have "(\<Sum>l\<in>dom (get m). f l (the (get m l))) =
      f k v + (\<Sum>l\<in>dom (get m) - {k}. f l (the (get m l)))"
    using Some finite_dom[of m] by (subst sum.remove[of _ k]) auto
  also have "(\<Sum>l\<in>dom (get m) - {k}. f l (the (get m l))) =
      (\<Sum>l\<in>dom (get m) - {k}. f l (the (get (rem k m) l)))"
    by (rule sum.cong) (auto simp: get_rem)
  finally show ?thesis
    using Some dom by (simp only: total_dom) (simp add: add.commute)
qed

lemma total_ins:
  fixes f :: "'k \<Rightarrow> 'v \<Rightarrow> 'a::comm_monoid_add"
  shows "sum_list (map (\<lambda>p. f (fst p) (snd p)) (ents (ins k v m))) =
    sum_list (map (\<lambda>p. f (fst p) (snd p)) (ents (rem k m))) + f k v"
proof -
  have "rem k (ins k v m) = rem k m"
    by (rule extensional) (auto simp: get_rem get_ins fun_eq_iff)
  then show ?thesis
    using total_rem[of f "ins k v m" k] by (simp add: get_ins)
qed

end

interpretation bt: ordered_map bt_empty bt_get bt_insert bt_remove entries
proof unfold_locales
  fix k :: "'k::linorder" and v :: 'v and m n :: "('k, 'v) btree"
  show "bt_get bt_empty k = (None :: 'v option)" by transfer simp
  show "bt_get (bt_insert k v m) = (bt_get m)(k \<mapsto> v)" by transfer (rule map_of_al_insert)
  show "bt_get (bt_remove k m) = (bt_get m)(k := None)" by transfer (rule map_of_al_remove)
  show "bt_get m = map_of (entries m)" by transfer simp
  show "keys_sorted (entries m)" by (rule keys_sorted_entries)
  show "entries m = entries n \<Longrightarrow> m = n" by (simp add: entries_inject)
qed

lemma bt_get_map_values: "bt_get (bt_map_values f m) k = map_option (f k) (bt_get m k)"
proof -
  have "map_of (map (\<lambda>p. (fst p, f (fst p) (snd p))) ps) k = map_option (f k) (map_of ps k)" for ps
    by (induction ps) auto
  then show ?thesis by transfer simp
qed

lemma bt_sum_insert [map_laws]:
  fixes f :: "'k::linorder \<Rightarrow> 'v \<Rightarrow> 'a::ab_group_add"
  shows "bt_sum f (bt_insert k v m) =
    bt_sum f m + f k v - (case bt_get m k of None \<Rightarrow> 0 | Some w \<Rightarrow> f k w)"
  using bt.total_ins[of f k v m] bt.total_rem[of f m k] by (simp add: bt_sum_def algebra_simps)

lemma bt_sum_remove [map_laws]:
  fixes f :: "'k::linorder \<Rightarrow> 'v \<Rightarrow> 'a::ab_group_add"
  shows "bt_sum f (bt_remove k m) = bt_sum f m - (case bt_get m k of None \<Rightarrow> 0 | Some w \<Rightarrow> f k w)"
  using bt.total_rem[of f m k] by (simp add: bt_sum_def algebra_simps)

lemma bt_sum_empty [simp]: "bt_sum f bt_empty = 0"
  by (simp add: bt_sum_def)

lemma bt_get_insert [simp, map_laws]:
  "bt_get (bt_insert k v m) l = (if l = k then Some v else bt_get m l)"
  by (simp add: bt.get_ins)

lemma bt_get_remove [simp, map_laws]:
  "bt_get (bt_remove k m) l = (if l = k then None else bt_get m l)"
  by (simp add: bt.get_rem)

lemma bt_get_empty [simp, map_laws]: "bt_get bt_empty k = None"
  by (rule bt.get_emp)

lemma bt_get_or_insert [simp, map_laws]:
  "bt_get_or (bt_insert k v m) d l = (if l = k then v else bt_get_or m d l)"
  by (simp add: bt_get_or_def)

lemma bt_get_or_remove [simp, map_laws]:
  "bt_get_or (bt_remove k m) d l = (if l = k then d else bt_get_or m d l)"
  by (simp add: bt_get_or_def)

lemma bt_get_or_empty [simp]: "bt_get_or bt_empty d k = d"
  by (simp add: bt_get_or_def)

lemma bt_contains_insert [simp]: "bt_contains (bt_insert k v m) l \<longleftrightarrow> l = k \<or> bt_contains m l"
  by (simp add: bt_contains_def)

lemma bt_contains_empty [simp]: "\<not> bt_contains bt_empty k"
  by (simp add: bt_contains_def)

lemma bt_get_or_entry [simp, map_laws]:
  "bt_get_or (bt_entry k d f m) d l = (if l = k then f (bt_get_or m d k) else bt_get_or m d l)"
  by (simp add: bt_entry_def)

lemma bt_keys_distinct: "distinct (bt_keys m)"
  using keys_sorted_distinct[OF keys_sorted_entries] by (simp add: bt_keys_def)

lemma bt_keys_mem: "k \<in> set (bt_keys m) \<longleftrightarrow> (\<exists>v. bt_get m k = Some v)"
  by (force simp: bt_keys_def bt.ents_mem[symmetric])

end
