(* ===== verification/Types.thy ===== *)
theory Types
  imports Prelude
begin

text \<open>
  The data of the \<open>claw-types\<close> and \<open>claw-vm\<close> crates: transactions and their payloads, blocks
  and block events, receipts, the entries of the world state, contract instances and the
  context and result of a contract execution. Each struct is a record (its fields carry a
  short prefix because record fields share one name space), each enum a datatype, each
  constant a definition collected in \<open>claw_consts\<close>. The two shapes of miner records that old
  snapshots carry are here with their conversions.
\<close>

named_theorems claw_consts \<open>values of the protocol constants\<close>

section \<open>Transactions (types/src/transaction.rs)\<close>

datatype TxType =
    AgentRegister
  | TokenTransfer
  | TokenCreate
  | TokenMintTransfer
  | ReputationAttest
  | ServiceRegister
  | ContractDeploy
  | ContractCall
  | StakeDeposit
  | StakeWithdraw
  | StakeClaim
  | PlatformActivityReport
  | TokenApprove
  | TokenBurn
  | ChangeDelegation
  | MinerRegister
  | MinerHeartbeat
  | ContractUpgradeAnnounce
  | ContractUpgradeExecute

text \<open>The \<open>repr(u8)\<close> discriminant, \<open>tx_type as u8\<close>.\<close>

fun tx_type_u8 :: "TxType \<Rightarrow> u8" where
  "tx_type_u8 AgentRegister = 0"
| "tx_type_u8 TokenTransfer = 1"
| "tx_type_u8 TokenCreate = 2"
| "tx_type_u8 TokenMintTransfer = 3"
| "tx_type_u8 ReputationAttest = 4"
| "tx_type_u8 ServiceRegister = 5"
| "tx_type_u8 ContractDeploy = 6"
| "tx_type_u8 ContractCall = 7"
| "tx_type_u8 StakeDeposit = 8"
| "tx_type_u8 StakeWithdraw = 9"
| "tx_type_u8 StakeClaim = 10"
| "tx_type_u8 PlatformActivityReport = 11"
| "tx_type_u8 TokenApprove = 12"
| "tx_type_u8 TokenBurn = 13"
| "tx_type_u8 ChangeDelegation = 14"
| "tx_type_u8 MinerRegister = 15"
| "tx_type_u8 MinerHeartbeat = 16"
| "tx_type_u8 ContractUpgradeAnnounce = 17"
| "tx_type_u8 ContractUpgradeExecute = 18"

record Transaction =
  tx_type :: TxType
  tx_from :: address
  tx_nonce :: u64
  tx_payload :: bytes
  tx_signature :: signature64

record AgentRegisterPayload =
  arp_name :: string
  arp_metadata :: "(string, string) btree"

record TokenTransferPayload =
  ttp_to :: address
  ttp_amount :: u128

record TokenCreatePayload =
  tcp_name :: string
  tcp_symbol :: string
  tcp_decimals :: u8
  tcp_total_supply :: u128

record TokenMintTransferPayload =
  tmp_token_id :: hash32
  tmp_to :: address
  tmp_amount :: u128

record ServiceRegisterPayload =
  srp_service_type :: string
  srp_description :: string
  srp_price_token :: hash32
  srp_price_amount :: u128
  srp_endpoint :: string
  srp_active :: bool

record ContractDeployPayload =
  cdp_code :: bytes
  cdp_init_method :: string
  cdp_init_args :: bytes

record ContractCallPayload =
  ccp_contract :: address
  ccp_method :: string
  ccp_args :: bytes
  ccp_value :: u128

record StakeDepositPayload =
  sdp_amount :: u128
  sdp_validator :: address
  sdp_commission_bps :: u16

record StakeWithdrawPayload =
  swp_amount :: u128
  swp_validator :: address

record TokenApprovePayload =
  tap_token_id :: hash32
  tap_spender :: address
  tap_amount :: u128

record TokenBurnPayload =
  tbp_token_id :: hash32
  tbp_amount :: u128

record ChangeDelegationPayload =
  cgp_validator :: address
  cgp_new_owner :: address
  cgp_commission_bps :: u16

record ActivityEntry =
  ae_agent :: address
  ae_action_count :: u32
  ae_action_type :: string

record PlatformActivityReportPayload =
  prp_reports :: "ActivityEntry list"

record MinerRegisterPayload =
  mrp_tier :: u8
  mrp_ip_addr :: bytes
  mrp_name :: string

record MinerHeartbeatPayload =
  mhp_latest_block_hash :: hash32
  mhp_latest_height :: u64

record ContractUpgradeAnnouncePayload =
  uap_contract :: address
  uap_new_code_hash :: hash32

record ContractUpgradeExecutePayload =
  uep_contract :: address
  uep_new_code :: bytes
  uep_migrate_method :: "string option"
  uep_migrate_args :: bytes

text \<open>The bytes a transaction signature covers: everything except the signature.\<close>

definition tx_signable_bytes :: "Transaction \<Rightarrow> bytes" where
  "tx_signable_bytes tx =
     [tx_type_u8 (tx_type tx)] @ tx_from tx @ to_le_bytes (tx_nonce tx) @ tx_payload tx"

section \<open>Entries of the world state (types/src/state.rs)\<close>

record AgentIdentity =
  ai_address :: address
  ai_name :: string
  ai_metadata :: "(string, string) btree"
  ai_registered_at :: u64

record TokenDef =
  td_id :: hash32
  td_name :: string
  td_symbol :: string
  td_decimals :: u8
  td_total_supply :: u128
  td_issuer :: address

record ReputationAttestation =
  ra_from :: address
  ra_to :: address
  ra_category :: string
  ra_score :: u16 \<comment> \<open>an \<open>i16\<close>, read with \<open>sint\<close>\<close>
  ra_platform :: string
  ra_memo :: string
  ra_block_height :: u64

record ServiceEntry =
  se_provider :: address
  se_service_type :: string
  se_description :: string
  se_price_token :: hash32
  se_price_amount :: u128
  se_endpoint :: string
  se_active :: bool

record UnbondingEntry =
  ub_address :: address
  ub_amount :: u128
  ub_release_height :: u64

record ActivityStats =
  st_tx_count :: u32
  st_contract_deploys :: u32
  st_contract_calls :: u32
  st_tokens_created :: u32
  st_services_registered :: u32
  st_gas_consumed :: u64

record ValidatorUptime =
  vu_signed_blocks :: u64
  vu_expected_blocks :: u64
  vu_produced_blocks :: u64

record PlatformActivityAgg =
  pa_total_actions :: u64
  pa_platform_count :: u32

text \<open>The \<open>Default\<close> instances the \<open>or_default()\<close> calls use.\<close>

definition ActivityStats_default :: ActivityStats where
  "ActivityStats_default = \<lparr>st_tx_count = 0, st_contract_deploys = 0, st_contract_calls = 0,
     st_tokens_created = 0, st_services_registered = 0, st_gas_consumed = 0\<rparr>"

definition ValidatorUptime_default :: ValidatorUptime where
  "ValidatorUptime_default = \<lparr>vu_signed_blocks = 0, vu_expected_blocks = 0, vu_produced_blocks = 0\<rparr>"

definition PlatformActivityAgg_default :: PlatformActivityAgg where
  "PlatformActivityAgg_default = \<lparr>pa_total_actions = 0, pa_platform_count = 0\<rparr>"

definition UNBONDING_PERIOD_BLOCKS :: u64 where
  [claw_consts]: "UNBONDING_PERIOD_BLOCKS = 201600"

definition MAX_ACTION_TYPE_LEN :: nat where
  [claw_consts]: "MAX_ACTION_TYPE_LEN = 64"

definition PLATFORM_AGENT_MIN_STAKE :: u128 where
  [claw_consts]: "PLATFORM_AGENT_MIN_STAKE = 50000000000000"

definition MAX_ACTIVITY_ENTRIES :: nat where
  [claw_consts]: "MAX_ACTIVITY_ENTRIES = 100"

definition NATIVE_TOKEN_ID :: hash32 where
  [claw_consts]: "NATIVE_TOKEN_ID = replicate 32 0"

definition GAS_FEE :: u128 where
  [claw_consts]: "GAS_FEE = 1000000"

datatype MinerTier = Online

record MinerInfoV1 =
  m1_address :: address
  m1_tier :: MinerTier
  m1_name :: string
  m1_registered_at :: u64
  m1_last_heartbeat :: u64
  m1_ip_prefix :: bytes
  m1_active :: bool
  m1_reputation_bps :: u16

record MinerInfoV2 =
  m2_address :: address
  m2_tier :: MinerTier
  m2_name :: string
  m2_registered_at :: u64
  m2_last_heartbeat :: u64
  m2_ip_prefix :: bytes
  m2_active :: bool
  m2_reputation_bps :: u16
  m2_pending_rewards :: u128
  m2_pending_epoch :: u64
  m2_epoch_attendance :: u16
  m2_consecutive_misses :: u16

record MinerInfo =
  mi_address :: address
  mi_tier :: MinerTier
  mi_name :: string
  mi_registered_at :: u64
  mi_last_heartbeat :: u64
  mi_ip_prefix :: bytes
  mi_active :: bool
  mi_reputation_bps :: u16
  mi_pending_rewards :: u128
  mi_pending_epoch :: u64
  mi_epoch_attendance :: u16
  mi_consecutive_misses :: u16
  mi_last_checkin_epoch :: u64

record MinerCheckinWitness =
  w_miner :: address
  w_epoch :: u64
  w_ref_block_hash :: hash32
  w_ref_block_height :: u64
  w_signature :: signature64

definition MINER_HEARTBEAT_INTERVAL_V1 :: u64 where
  [claw_consts]: "MINER_HEARTBEAT_INTERVAL_V1 = 1000"

definition MAX_MINERS_PER_SUBNET :: nat where
  [claw_consts]: "MAX_MINERS_PER_SUBNET = 3"

definition MINER_GRACE_BLOCKS :: u64 where
  [claw_consts]: "MINER_GRACE_BLOCKS = 2000"

definition MINER_EPOCH_LENGTH :: u64 where
  [claw_consts]: "MINER_EPOCH_LENGTH = 100"

definition MINER_MIN_UPTIME_FOR_REWARD :: nat where
  [claw_consts]: "MINER_MIN_UPTIME_FOR_REWARD = 6"

definition MINER_GRACE_EPOCHS :: u16 where
  [claw_consts]: "MINER_GRACE_EPOCHS = 6"

definition REPUTATION_DECAY_BPS :: u16 where
  [claw_consts]: "REPUTATION_DECAY_BPS = 100"

definition HEARTBEAT_V2_HEIGHT :: u64 where
  [claw_consts]: "HEARTBEAT_V2_HEIGHT = 225900"

definition REPUTATION_NEWCOMER_BPS :: u16 where
  [claw_consts]: "REPUTATION_NEWCOMER_BPS = 2000"

definition REPUTATION_ESTABLISHED_BPS :: u16 where
  [claw_consts]: "REPUTATION_ESTABLISHED_BPS = 5000"

definition REPUTATION_VETERAN_BPS :: u16 where
  [claw_consts]: "REPUTATION_VETERAN_BPS = 10000"

definition BLOCKS_7_DAYS :: u64 where
  [claw_consts]: "BLOCKS_7_DAYS = 201600"

definition BLOCKS_30_DAYS :: u64 where
  [claw_consts]: "BLOCKS_30_DAYS = 864000"

definition CHECKIN_V3_HEIGHT :: u64 where
  [claw_consts]: "CHECKIN_V3_HEIGHT = 280500"

definition CHECKIN_V3_1_HEIGHT :: u64 where
  [claw_consts]: "CHECKIN_V3_1_HEIGHT = 384500"

text \<open>Conversions of old miner records (\<open>MinerInfoV2::into_v3\<close>, \<open>From<MinerInfoV1>\<close>).\<close>

definition into_v3 :: "MinerInfoV2 \<Rightarrow> MinerInfo" where
  "into_v3 m = \<lparr>
     mi_address = m2_address m,
     mi_tier = m2_tier m,
     mi_name = m2_name m,
     mi_registered_at = m2_registered_at m,
     mi_last_heartbeat = m2_last_heartbeat m,
     mi_ip_prefix = m2_ip_prefix m,
     mi_active = m2_active m,
     mi_reputation_bps = m2_reputation_bps m,
     mi_pending_rewards = m2_pending_rewards m,
     mi_pending_epoch = m2_pending_epoch m,
     mi_epoch_attendance = m2_epoch_attendance m,
     mi_consecutive_misses = m2_consecutive_misses m,
     mi_last_checkin_epoch = m2_last_heartbeat m div MINER_EPOCH_LENGTH\<rparr>"

definition MinerInfo_from_v1 :: "MinerInfoV1 \<Rightarrow> MinerInfo" where
  "MinerInfo_from_v1 v1 = \<lparr>
     mi_address = m1_address v1,
     mi_tier = m1_tier v1,
     mi_name = m1_name v1,
     mi_registered_at = m1_registered_at v1,
     mi_last_heartbeat = m1_last_heartbeat v1,
     mi_ip_prefix = m1_ip_prefix v1,
     mi_active = m1_active v1,
     mi_reputation_bps = m1_reputation_bps v1,
     mi_pending_rewards = 0,
     mi_pending_epoch = 0,
     mi_epoch_attendance = 0,
     mi_consecutive_misses = 0,
     mi_last_checkin_epoch = 0\<rparr>"

text \<open>Uptime tier multiplier, out of 100, of an attendance count.\<close>

definition miner_uptime_multiplier :: "nat \<Rightarrow> u128" where
  "miner_uptime_multiplier attendance_count =
     (if attendance_count = 12 then 100
      else if 9 \<le> attendance_count \<and> attendance_count \<le> 11 then 80
      else if 6 \<le> attendance_count \<and> attendance_count \<le> 8 then 50
      else 0)"

section \<open>Contracts (vm/src/types.rs, vm/src/constants.rs, vm/src/error.rs)\<close>

record PendingUpgrade =
  pu_new_code_hash :: hash32
  pu_announced_at :: u64
  pu_ready_at :: u64

record ContractInstance =
  ci_address :: address
  ci_code_hash :: hash32
  ci_creator :: address
  ci_deployed_at :: u64
  ci_admin :: address
  ci_previous_code_hash :: "hash32 option"
  ci_upgrade_height :: "u64 option"
  ci_pending_upgrade :: "PendingUpgrade option"

record ContractEvent =
  ce_topic :: string
  ce_data :: bytes

record ExecutionResult =
  er_return_data :: bytes
  er_fuel_consumed :: u64
  er_storage_changes :: "(bytes \<times> bytes option) list"
  er_logs :: "string list"
  er_transfers :: "(address \<times> u128) list"
  er_events :: "ContractEvent list"

record ExecutionContext =
  ctx_caller :: address
  ctx_contract_address :: address
  ctx_block_height :: u64
  ctx_block_timestamp :: u64
  ctx_value :: u128
  ctx_fuel_limit :: u64
  ctx_read_only :: bool
  ctx_call_depth :: u32
  ctx_executing_contracts :: "address set"

definition new_top_level ::
  "address \<Rightarrow> address \<Rightarrow> u64 \<Rightarrow> u64 \<Rightarrow> u128 \<Rightarrow> u64 \<Rightarrow> bool \<Rightarrow> ExecutionContext" where
  "new_top_level caller contract_address block_height block_timestamp value fuel_limit read_only = \<lparr>
     ctx_caller = caller,
     ctx_contract_address = contract_address,
     ctx_block_height = block_height,
     ctx_block_timestamp = block_timestamp,
     ctx_value = value,
     ctx_fuel_limit = fuel_limit,
     ctx_read_only = read_only,
     ctx_call_depth = 0,
     ctx_executing_contracts = {contract_address}\<rparr>"

datatype VmError =
    CompilationFailed string
  | InstantiationFailed string
  | ExecutionFailed string
  | OutOfFuel u64 u64
  | InvalidModule string
  | MemoryError string
  | HostError string
  | MethodNotFound string
  | CodeTooLarge nat nat
  | ContractAbort string u64
  | MemoryLimitExceeded u32 u32

definition MAX_CONTRACT_CODE_SIZE :: nat where
  [claw_consts]: "MAX_CONTRACT_CODE_SIZE = 512 * 1024"

definition DEFAULT_FUEL_LIMIT :: u64 where
  [claw_consts]: "DEFAULT_FUEL_LIMIT = 10000000"

section \<open>Blocks and receipts (types/src/block.rs, types/src/receipt.rs)\<close>

datatype BlockEvent =
    RewardDistributed address u128 string
  | ContractEventB address u32 string bytes

record Block =
  bl_height :: u64
  bl_prev_hash :: hash32
  bl_timestamp :: u64
  bl_validator :: address
  bl_transactions :: "Transaction list"
  bl_state_root :: hash32
  bl_hash :: hash32
  bl_signatures :: "(address \<times> signature64) list"
  bl_events :: "BlockEvent list"
  bl_checkin_witnesses :: "MinerCheckinWitness list"

record ReceiptEvent =
  re_topic :: string
  re_data :: bytes

record TransactionReceipt =
  tr_tx_hash :: hash32
  tr_success :: bool
  tr_fuel_consumed :: u64
  tr_fuel_limit :: u64
  tr_return_data :: bytes
  tr_error_message :: "string option"
  tr_events :: "ReceiptEvent list"
  tr_logs :: "string list"

end
