(* ===== verification/Merkle.thy ===== *)
theory Merkle
  imports Prelude
begin

text \<open>
  The Merkle tree of state roots (\<open>crypto/src/merkle.rs\<close>). The hash function is a parameter
  \<open>H\<close> (the code calls the \<open>blake3\<close> crate). Shown here: the root of a perfect tree is the
  recursive two-child hash; two leaf lists of one length with the same root exhibit a hash
  collision between the inputs the two computations feed to \<open>H\<close>; and the self-pairing of an
  odd last node makes a list and its extension by a copy of its last leaf share a root.
\<close>

section \<open>The algorithm\<close>

text \<open>The inputs hashed to build the next level: \<open>current.chunks(2)\<close>, an odd node with itself.\<close>

fun level_inputs :: "hash32 list \<Rightarrow> bytes list" where
  "level_inputs [] = []"
| "level_inputs [a] = [1 # a @ a]"
| "level_inputs (a # b # rest) = (1 # a @ b) # level_inputs rest"

definition merkle_level :: "(bytes \<Rightarrow> hash32) \<Rightarrow> hash32 list \<Rightarrow> hash32 list" where
  "merkle_level H current = map H (level_inputs current)"

lemma length_level_inputs: "length (level_inputs xs) = (length xs + 1) div 2"
  by (induction xs rule: level_inputs.induct) auto

lemma length_merkle_level [simp]: "length (merkle_level H xs) = (length xs + 1) div 2"
  by (simp add: merkle_level_def length_level_inputs)

text \<open>
  The \<open>while current.len() > 1\<close> loop. It is entered with a non-empty list only; the value on
  the empty list (where \<open>current[0]\<close> would panic) is never used.
\<close>

function merkle_loop :: "(bytes \<Rightarrow> hash32) \<Rightarrow> hash32 list \<Rightarrow> hash32" where
  "merkle_loop H current =
     (if 1 < length current then merkle_loop H (merkle_level H current)
      else case current of [] \<Rightarrow> replicate 32 0 | c # _ \<Rightarrow> c)"
  by pat_completeness auto
termination
  by (relation "measure (\<lambda>(H, current). length current)") auto

declare merkle_loop.simps [simp del]

definition merkle_root :: "(bytes \<Rightarrow> hash32) \<Rightarrow> hash32 list \<Rightarrow> hash32" where
  "merkle_root H leaves =
     (if leaves = [] then replicate 32 0
      else merkle_loop H (map (\<lambda>leaf. H (0 # leaf)) leaves))"

lemma merkle_loop_single [simp]: "merkle_loop H [a] = a"
  by (simp add: merkle_loop.simps)

lemma merkle_loop_step: "1 < length xs \<Longrightarrow> merkle_loop H xs = merkle_loop H (merkle_level H xs)"
  by (subst merkle_loop.simps) simp

section \<open>Perfect trees\<close>

text \<open>The reference: a perfect tree of depth \<open>k\<close> over the leaf hashes.\<close>

fun perfect_root :: "(bytes \<Rightarrow> hash32) \<Rightarrow> nat \<Rightarrow> hash32 list \<Rightarrow> hash32" where
  "perfect_root H 0 xs = hd xs"
| "perfect_root H (Suc k) xs =
     H (1 # perfect_root H k (take (2 ^ k) xs) @ perfect_root H k (drop (2 ^ k) xs))"

lemma level_inputs_append:
  "even (length xs) \<Longrightarrow> level_inputs (xs @ ys) = level_inputs xs @ level_inputs ys"
  by (induction xs rule: level_inputs.induct) auto

lemma merkle_level_append:
  "even (length xs) \<Longrightarrow> merkle_level H (xs @ ys) = merkle_level H xs @ merkle_level H ys"
  by (simp add: merkle_level_def level_inputs_append)

lemma merkle_loop_append:
  assumes "length xs = 2 ^ k" and "length ys = 2 ^ k"
  shows "merkle_loop H (xs @ ys) = H (1 # merkle_loop H xs @ merkle_loop H ys)"
  using assms
proof (induction k arbitrary: xs ys)
  case 0
  then obtain a b where "xs = [a]" "ys = [b]"
    by (auto simp: length_Suc_conv)
  then show ?case by (simp add: merkle_loop_step merkle_level_def)
next
  case (Suc k)
  have two: "1 < length xs" "1 < length ys" "even (length xs)"
    using Suc.prems one_less_power[of "2::nat" "Suc k"] by simp_all
  have lens: "length (merkle_level H xs) = 2 ^ k" "length (merkle_level H ys) = 2 ^ k"
    using Suc.prems by simp_all
  have "merkle_loop H (xs @ ys) = merkle_loop H (merkle_level H xs @ merkle_level H ys)"
    using two by (simp add: merkle_loop_step merkle_level_append)
  also have "\<dots> = H (1 # merkle_loop H (merkle_level H xs) @ merkle_loop H (merkle_level H ys))"
    using lens by (rule Suc.IH)
  finally show ?case
    using two by (simp flip: merkle_loop_step)
qed

lemma merkle_loop_perfect: "length xs = 2 ^ k \<Longrightarrow> merkle_loop H xs = perfect_root H k xs"
proof (induction k arbitrary: xs)
  case 0
  then show ?case by (auto simp: length_Suc_conv)
next
  case (Suc k)
  have "merkle_loop H (take (2 ^ k) xs @ drop (2 ^ k) xs) =
      H (1 # merkle_loop H (take (2 ^ k) xs) @ merkle_loop H (drop (2 ^ k) xs))"
    using Suc.prems by (intro merkle_loop_append) auto
  then show ?case using Suc by simp
qed

text \<open>
  On \<open>2 ^ k\<close> leaves the level-by-level loop of \<open>merkle_root\<close> computes the root of the
  perfect binary tree, with leaves hashed under the tag 0 and inner nodes under the tag 1.
\<close>

theorem merkle_root_perfect:
  assumes "length leaves = 2 ^ k"
  shows "merkle_root H leaves = perfect_root H k (map (\<lambda>leaf. H (0 # leaf)) leaves)"
  using assms by (cases leaves) (auto simp: merkle_root_def intro!: merkle_loop_perfect)

theorem merkle_root_perfect_witness:
  "merkle_root id [[7], [8]] = perfect_root id 1 (map (\<lambda>leaf. id (0 # leaf)) [[7], [8]])
   \<and> merkle_root id [[7], [8]] = [1, 0, 7, 0, 8]"
  using merkle_root_perfect[of "[[7], [8]]" 1 id] by simp

section \<open>Binding\<close>

text \<open>All inputs that the computation of a root feeds to the hash function.\<close>

function loop_inputs :: "(bytes \<Rightarrow> hash32) \<Rightarrow> hash32 list \<Rightarrow> bytes list" where
  "loop_inputs H xs =
     (if 1 < length xs then level_inputs xs @ loop_inputs H (merkle_level H xs) else [])"
  by pat_completeness auto
termination
  by (relation "measure (\<lambda>(H, xs). length xs)") auto

declare loop_inputs.simps [simp del]

definition merkle_inputs :: "(bytes \<Rightarrow> hash32) \<Rightarrow> hash32 list \<Rightarrow> bytes list" where
  "merkle_inputs H leaves =
     map (\<lambda>leaf. 0 # leaf) leaves @ loop_inputs H (map (\<lambda>leaf. H (0 # leaf)) leaves)"

definition collision_between :: "(bytes \<Rightarrow> hash32) \<Rightarrow> bytes list \<Rightarrow> bytes list \<Rightarrow> bool" where
  "collision_between H us vs = (\<exists>u\<in>set us. \<exists>v\<in>set vs. u \<noteq> v \<and> H u = H v)"

lemma collision_between_mono:
  "collision_between H us vs \<Longrightarrow> set us \<subseteq> set us' \<Longrightarrow> set vs \<subseteq> set vs' \<Longrightarrow>
    collision_between H us' vs'"
  by (auto simp: collision_between_def)

lemma map_H_eq_or_collision:
  assumes "map H us = map H vs"
  shows "us = vs \<or> collision_between H us vs"
proof (cases "us = vs")
  case False
  have len: "length us = length vs"
    using assms by (rule map_eq_imp_length_eq)
  with False obtain i where i: "i < length us" "us ! i \<noteq> vs ! i"
    using nth_equalityI by blast
  moreover have "H (us ! i) = H (vs ! i)"
    using assms i(1) len by (metis nth_map)
  ultimately show ?thesis
    using len by (metis collision_between_def nth_mem)
qed simp

lemma level_inputs_inject:
  assumes "length xs = length ys" and "\<forall>x\<in>set xs \<union> set ys. length x = n"
    and "level_inputs xs = level_inputs ys"
  shows "xs = ys"
  using assms
proof (induction xs arbitrary: ys rule: level_inputs.induct)
  case (2 a)
  then obtain b where "ys = [b]"
    by (cases ys) auto
  then show ?case using 2 by simp
next
  case (3 a b rest)
  then obtain c d rest' where ys: "ys = c # d # rest'"
    by (cases ys rule: level_inputs.cases) auto
  then show ?case using 3 by auto
qed simp

lemma merkle_loop_binding:
  assumes "length xs = length ys" and "xs \<noteq> []"
    and "\<forall>x\<in>set xs \<union> set ys. length x = n" and "\<And>u. length (H u) = n"
    and "merkle_loop H xs = merkle_loop H ys"
  shows "xs = ys \<or> collision_between H (loop_inputs H xs) (loop_inputs H ys)"
  using assms
proof (induction H xs arbitrary: ys rule: merkle_loop.induct)
  case (1 H xs)
  show ?case
  proof (cases "1 < length xs")
    case False
    then obtain a where a: "xs = [a]"
      using "1.prems"(2) by (cases xs) auto
    then obtain b where b: "ys = [b]"
      using "1.prems"(1) by (cases ys) auto
    show ?thesis using "1.prems"(5) by (simp add: a b)
  next
    case True
    let ?x = "merkle_level H xs" and ?y = "merkle_level H ys"
    have ne: "?x \<noteq> []" using True by (auto simp flip: length_greater_0_conv)
    have sizes: "\<forall>x\<in>set ?x \<union> set ?y. length x = n"
      using "1.prems"(4) by (auto simp: merkle_level_def)
    have roots: "merkle_loop H ?x = merkle_loop H ?y"
      using True "1.prems" by (simp flip: merkle_loop_step)
    have "?x = ?y \<or> collision_between H (loop_inputs H ?x) (loop_inputs H ?y)"
      using "1.IH"[OF True _ ne sizes "1.prems"(4) roots] "1.prems"(1) by simp
    moreover have "xs = ys \<or> collision_between H (level_inputs xs) (level_inputs ys)" if "?x = ?y"
      using map_H_eq_or_collision[of H "level_inputs xs" "level_inputs ys"] that
        level_inputs_inject[OF "1.prems"(1,3)] by (auto simp: merkle_level_def)
    moreover have "collision_between H (loop_inputs H xs) (loop_inputs H ys)"
      if "collision_between H (level_inputs xs) (level_inputs ys) \<or>
        collision_between H (loop_inputs H ?x) (loop_inputs H ?y)"
      using that True "1.prems"(1) loop_inputs.simps[of H xs] loop_inputs.simps[of H ys]
      by (auto elim: collision_between_mono)
    ultimately show ?thesis by blast
  qed
qed

text \<open>
  C37. State roots bind their leaves: two leaf lists of one length with the same root are
  equal, or the two computations themselves contain two different inputs with the same hash.
\<close>

theorem merkle_root_binding:
  assumes "length xs = length ys" and "\<And>u. length (H u) = n"
    and "merkle_root H xs = merkle_root H ys"
  shows "xs = ys \<or> collision_between H (merkle_inputs H xs) (merkle_inputs H ys)"
proof (cases "xs = []")
  case True
  then show ?thesis using assms(1) by simp
next
  case False
  let ?lx = "map (\<lambda>leaf. H (0 # leaf)) xs" and ?ly = "map (\<lambda>leaf. H (0 # leaf)) ys"
  have "merkle_loop H ?lx = merkle_loop H ?ly"
    using assms(1,3) False by (auto simp: merkle_root_def split: if_splits)
  then have "?lx = ?ly \<or> collision_between H (loop_inputs H ?lx) (loop_inputs H ?ly)"
    using merkle_loop_binding[of ?lx ?ly n H] assms(1,2) False by auto
  moreover have "xs = ys \<or> collision_between H (map (\<lambda>l. 0 # l) xs) (map (\<lambda>l. 0 # l) ys)"
    if "?lx = ?ly"
  proof -
    have "map H (map (\<lambda>l. 0 # l) xs) = map H (map (\<lambda>l. 0 # l) ys)"
      using that by (simp add: comp_def)
    then have "map (\<lambda>l. (0::byte) # l) xs = map (\<lambda>l. 0 # l) ys \<or> collision_between H (map (\<lambda>l. 0 # l) xs) (map (\<lambda>l. 0 # l) ys)"
      by (rule map_H_eq_or_collision)
    then show ?thesis by (auto simp: inj_map_eq_map inj_def)
  qed
  ultimately show ?thesis
    by (auto simp: merkle_inputs_def intro: collision_between_mono)
qed

theorem merkle_root_binding_witness:
  "collision_between (\<lambda>_. [0]) (merkle_inputs (\<lambda>_. [0]) [[1]]) (merkle_inputs (\<lambda>_. [0]) [[2]])"
  using merkle_root_binding[of "[[1]]" "[[2]]" "\<lambda>_. [0]" 1] by (simp add: merkle_root_def)

section \<open>Malleability of odd levels\<close>

lemma merkle_level_repeat_last:
  "odd (length xs) \<Longrightarrow> merkle_level H (xs @ [last xs]) = merkle_level H xs"
proof -
  have "odd (length xs) \<Longrightarrow> level_inputs (xs @ [last xs]) = level_inputs xs"
    by (induction xs rule: level_inputs.induct) auto
  then show "odd (length xs) \<Longrightarrow> merkle_level H (xs @ [last xs]) = merkle_level H xs"
    by (simp add: merkle_level_def)
qed

text \<open>
  The length hypothesis of the binding property is needed: for every odd number of
  leaves greater than one, appending a copy of the last leaf leaves the root unchanged.
\<close>

theorem merkle_root_odd_malleable:
  assumes "odd (length leaves)" and "1 < length leaves"
  shows "merkle_root H (leaves @ [last leaves]) = merkle_root H leaves"
proof -
  let ?f = "\<lambda>leaf. H (0 # leaf)"
  have ne: "leaves \<noteq> []" using assms by auto
  have "merkle_loop H (map ?f leaves @ [last (map ?f leaves)]) = merkle_loop H (map ?f leaves)"
    using assms ne merkle_level_repeat_last[of "map ?f leaves" H]
      merkle_loop_step[of "map ?f leaves @ [last (map ?f leaves)]" H]
      merkle_loop_step[of "map ?f leaves" H] by simp
  then show ?thesis using ne by (simp add: merkle_root_def last_map)
qed

theorem merkle_root_odd_malleable_witness:
  "merkle_root id [[1], [2], [3], [3]] = merkle_root id [[1], [2], [3]]"
  using merkle_root_odd_malleable[of "[[1], [2], [3]]" id] by simp

end
