(* ===== verification/World.thy ===== *)
theory World
  imports Types Merkle
begin

text \<open>
  The world state (\<open>state/src/world.rs\<close>) and its errors (\<open>state/src/error.rs\<close>): the record
  of all on-chain maps, the snapshot migrations from the two older layouts, the read
  accessors, the supply audit and the state root.

  Third-party code is reached through one record of parameters, \<open>externals\<close>: the blake3 hash,
  Ed25519 verification, hex encoding, the Borsh encoders and decoders that the derive macros
  generate, the wasmer compiler and the outcome of running a Wasm method. Nothing is assumed
  about these functions here; a property that needs a fact about one states it.
\<close>

section \<open>Errors\<close>

datatype (plugins only: code size) StateError =
    InvalidSignature
  | InvalidNonce u64 u64
  | InsufficientBalance u128 u128
  | AgentAlreadyRegistered
  | AgentNotRegistered
  | TokenAlreadyExists
  | TokenNotFound
  | SelfAttestation
  | ScoreOutOfRange u16
  | ZeroAmount
  | NameTooLong nat nat
  | NativeTokenIdForCustom
  | PayloadDeserialize string
  | ZeroSupply
  | PayloadTooLarge nat nat
  | BalanceOverflow u128 u128
  | DescriptionTooLong nat nat
  | SymbolTooLong nat nat
  | EndpointTooLong nat nat
  | MetadataTooLarge nat nat
  | MemoTooLong nat nat
  | AttestationLimitReached nat
  | ContractNotFound string
  | ContractExecutionFailed string
  | ContractCodeTooLarge nat nat
  | InvalidContractMethod string
  | ContractAlreadyExists
  | StakeError string
  | NoClaimableUnbonding
  | PlatformStakeTooLow u128 u128
  | PlatformReportAlreadySubmitted
  | ActionTypeTooLong nat nat
  | TooManyActivityEntries nat nat
  | DuplicateAgentInReport string
  | ActionCountTooHigh u32 u32
  | ContractTransferInsufficientBalance u128 u128
  | SelfApproval
  | BurnExceedsSupply u128 u128
  | MinerAlreadyRegistered
  | MinerNotRegistered
  | MinerNameTooLong nat nat
  | SubnetLimitReached nat
  | HeartbeatTooEarly u64 u64
  | HeartbeatDeprecated
  | InvalidMinerTier u8
  | InvalidIpLength nat
  | VmConcurrencyLimitReached
  | Unauthorized
  | NoPendingUpgrade
  | UpgradeNotReady u64 u64
  | UpgradeCodeHashMismatch

section \<open>The world state\<close>

record WorldState =
  balances :: "(address, u128) btree"
  token_balances :: "(address \<times> hash32, u128) btree"
  nonces :: "(address, u64) btree"
  agents :: "(address, AgentIdentity) btree"
  tokens :: "(hash32, TokenDef) btree"
  reputation :: "ReputationAttestation list"
  services :: "(address \<times> string, ServiceEntry) btree"
  block_height :: u64
  block_timestamp :: u64
  contracts :: "(address, ContractInstance) btree"
  contract_storage :: "(address \<times> bytes, bytes) btree"
  contract_code :: "(address, bytes) btree"
  stakes :: "(address, u128) btree"
  unbonding_queue :: "UnbondingEntry list"
  activity_stats :: "(address, ActivityStats) btree"
  validator_uptime :: "(address, ValidatorUptime) btree"
  platform_activity :: "(address, PlatformActivityAgg) btree"
  platform_report_tracker :: "(address \<times> u64, bool) btree"
  stake_delegations :: "(address, address) btree"
  stake_commissions :: "(address, u16) btree"
  token_allowances :: "(address \<times> address \<times> hash32, u128) btree"
  jailed_validators :: "(address, u64) btree"
  validator_missed_slots :: "(address, u64) btree"
  validator_assigned_slots :: "(address, u64) btree"
  processed_evidence :: "(hash32, unit) btree"
  miners :: "(address, MinerInfo) btree"
  miner_heartbeat_tracker :: "(address \<times> u64, bool) btree"
  epoch_checkins :: "(address, bool) btree"
  epoch_reward_bucket :: u128
  receipts :: "(hash32, TransactionReceipt) btree"
  user_delegations :: "(address, (address, u128) btree) btree"

text \<open>\<open>WorldState::default()\<close>: every map empty, every number zero.\<close>

definition WorldState_default :: WorldState where
  "WorldState_default = \<lparr>balances = bt_empty, token_balances = bt_empty, nonces = bt_empty,
     agents = bt_empty, tokens = bt_empty, reputation = [], services = bt_empty,
     block_height = 0, block_timestamp = 0, contracts = bt_empty, contract_storage = bt_empty,
     contract_code = bt_empty, stakes = bt_empty, unbonding_queue = [], activity_stats = bt_empty,
     validator_uptime = bt_empty, platform_activity = bt_empty, platform_report_tracker = bt_empty,
     stake_delegations = bt_empty, stake_commissions = bt_empty, token_allowances = bt_empty,
     jailed_validators = bt_empty, validator_missed_slots = bt_empty,
     validator_assigned_slots = bt_empty, processed_evidence = bt_empty, miners = bt_empty,
     miner_heartbeat_tracker = bt_empty, epoch_checkins = bt_empty, epoch_reward_bucket = 0,
     receipts = bt_empty, user_delegations = bt_empty\<rparr>"

section \<open>Third-party code\<close>

text \<open>
  Outcome of the detached thread that runs a contract (\<open>execute_with_timeout\<close>): no permit was
  free, the thread did not answer in time, or the engine's result arrived.
\<close>

datatype VmOutcome = NoPermit | TimedOut | Answered "VmError + ExecutionResult"

text \<open>The owned snapshot of chain state that the thread gets (\<open>ChainStateSnapshot\<close>).\<close>

record ChainStateSnapshot =
  cs_balances :: "(address, u128) btree"
  cs_agent_scores :: "(address, u64) btree"
  cs_registered_agents :: "(address, unit) btree"
  cs_contract_storage :: "(address, (bytes, bytes) btree) btree"
  cs_contract_code :: "(address, bytes) btree"

record externals =
  blake3 :: "bytes \<Rightarrow> hash32"
  vk_from_bytes_ok :: "address \<Rightarrow> bool"
  verify_strict :: "address \<Rightarrow> bytes \<Rightarrow> signature64 \<Rightarrow> bool"
  sig_from_slice_ok :: "bytes \<Rightarrow> bool"
  hex_encode :: "bytes \<Rightarrow> string"
  wasm_compile :: "bytes \<Rightarrow> string + (u32 \<times> u32 option) list"
    \<comment> \<open>\<open>Module::new\<close>: a compile error, or the limits (minimum, maximum) of the exported memories\<close>
  vm_outcome :: "bytes \<Rightarrow> string \<Rightarrow> bytes \<Rightarrow> ExecutionContext \<Rightarrow> (bytes, bytes) btree
    \<Rightarrow> ChainStateSnapshot \<Rightarrow> VmOutcome"
  dec_agent_register :: "bytes \<Rightarrow> string + AgentRegisterPayload"
  dec_token_transfer :: "bytes \<Rightarrow> string + TokenTransferPayload"
  dec_token_create :: "bytes \<Rightarrow> string + TokenCreatePayload"
  dec_token_mint_transfer :: "bytes \<Rightarrow> string + TokenMintTransferPayload"
  dec_service_register :: "bytes \<Rightarrow> string + ServiceRegisterPayload"
  dec_contract_deploy :: "bytes \<Rightarrow> string + ContractDeployPayload"
  dec_contract_call :: "bytes \<Rightarrow> string + ContractCallPayload"
  dec_stake_deposit_legacy :: "bytes \<Rightarrow> string + (u128 \<times> address)"
  dec_stake_deposit :: "bytes \<Rightarrow> string + StakeDepositPayload"
  dec_stake_withdraw :: "bytes \<Rightarrow> string + StakeWithdrawPayload"
  dec_stake_claim :: "bytes \<Rightarrow> string + unit"
  dec_platform_activity_report :: "bytes \<Rightarrow> string + PlatformActivityReportPayload"
  dec_token_approve :: "bytes \<Rightarrow> string + TokenApprovePayload"
  dec_token_burn :: "bytes \<Rightarrow> string + TokenBurnPayload"
  dec_change_delegation :: "bytes \<Rightarrow> string + ChangeDelegationPayload"
  dec_miner_register :: "bytes \<Rightarrow> string + MinerRegisterPayload"
  dec_miner_heartbeat :: "bytes \<Rightarrow> string + MinerHeartbeatPayload"
  dec_upgrade_announce :: "bytes \<Rightarrow> string + ContractUpgradeAnnouncePayload"
  dec_upgrade_execute :: "bytes \<Rightarrow> string + ContractUpgradeExecutePayload"
  borsh_tx :: "Transaction \<Rightarrow> bytes"
  borsh_agent :: "AgentIdentity \<Rightarrow> bytes"
  borsh_token :: "TokenDef \<Rightarrow> bytes"
  borsh_reputation :: "ReputationAttestation \<Rightarrow> bytes"
  borsh_service :: "ServiceEntry \<Rightarrow> bytes"
  borsh_stats :: "ActivityStats \<Rightarrow> bytes"
  borsh_uptime :: "ValidatorUptime \<Rightarrow> bytes"
  borsh_platform :: "PlatformActivityAgg \<Rightarrow> bytes"
  borsh_miner :: "MinerInfo \<Rightarrow> bytes"
  borsh_address :: "address \<Rightarrow> bytes"
  borsh_tier :: "MinerTier \<Rightarrow> bytes"
  borsh_string :: "string \<Rightarrow> bytes"
  borsh_u64 :: "u64 \<Rightarrow> bytes"
  borsh_vec_u8 :: "bytes \<Rightarrow> bytes"
  borsh_bool :: "bool \<Rightarrow> bytes"
  borsh_u16 :: "u16 \<Rightarrow> bytes"
  borsh_u128 :: "u128 \<Rightarrow> bytes"

text \<open>\<open>Transaction::hash\<close>, \<open>Block::compute_hash\<close>, \<open>Block::verify_hash\<close>.\<close>

definition tx_hash :: "externals \<Rightarrow> Transaction \<Rightarrow> hash32" where
  "tx_hash E tx = blake3 E (borsh_tx E tx)"

definition compute_hash :: "externals \<Rightarrow> Block \<Rightarrow> hash32" where
  "compute_hash E b = blake3 E (
     to_le_bytes (bl_height b) @ bl_prev_hash b @ to_le_bytes (bl_timestamp b) @ bl_validator b
     @ concat (map (tx_hash E) (bl_transactions b))
     @ bl_state_root b
     @ (if bl_height b \<ge> CHECKIN_V3_HEIGHT
        then concat (map (\<lambda>w. w_miner w @ to_le_bytes (w_epoch w) @ w_ref_block_hash w
               @ to_le_bytes (w_ref_block_height w) @ w_signature w) (bl_checkin_witnesses b))
        else []))"

definition verify_hash :: "externals \<Rightarrow> Block \<Rightarrow> bool" where
  "verify_hash E b = (bl_hash b = compute_hash E b)"

text \<open>\<open>MinerCheckinWitness::signable_bytes\<close>.\<close>

definition checkin_signable_bytes :: "externals \<Rightarrow> u64 \<Rightarrow> hash32 \<Rightarrow> bytes" where
  "checkin_signable_bytes E epoch ref_block_hash =
     blake3 E (string_bytes ''claw-checkin'' @ to_le_bytes epoch @ ref_block_hash)"

text \<open>\<open>verify_transaction\<close> of \<open>crypto/src/signer.rs\<close>: parse the key, then verify strictly.\<close>

definition verify_transaction :: "externals \<Rightarrow> Transaction \<Rightarrow> bool" where
  "verify_transaction E tx =
     (vk_from_bytes_ok E (tx_from tx)
      \<and> verify_strict E (tx_from tx) (tx_signable_bytes tx) (tx_signature tx))"

section \<open>Snapshot migrations\<close>

record WorldStateV2 =
  v2_balances :: "(address, u128) btree"
  v2_token_balances :: "(address \<times> hash32, u128) btree"
  v2_nonces :: "(address, u64) btree"
  v2_agents :: "(address, AgentIdentity) btree"
  v2_tokens :: "(hash32, TokenDef) btree"
  v2_reputation :: "ReputationAttestation list"
  v2_services :: "(address \<times> string, ServiceEntry) btree"
  v2_block_height :: u64
  v2_block_timestamp :: u64
  v2_contracts :: "(address, ContractInstance) btree"
  v2_contract_storage :: "(address \<times> bytes, bytes) btree"
  v2_contract_code :: "(address, bytes) btree"
  v2_stakes :: "(address, u128) btree"
  v2_unbonding_queue :: "UnbondingEntry list"
  v2_activity_stats :: "(address, ActivityStats) btree"
  v2_validator_uptime :: "(address, ValidatorUptime) btree"
  v2_platform_activity :: "(address, PlatformActivityAgg) btree"
  v2_platform_report_tracker :: "(address \<times> u64, bool) btree"
  v2_stake_delegations :: "(address, address) btree"
  v2_stake_commissions :: "(address, u16) btree"
  v2_token_allowances :: "(address \<times> address \<times> hash32, u128) btree"
  v2_jailed_validators :: "(address, u64) btree"
  v2_validator_missed_slots :: "(address, u64) btree"
  v2_validator_assigned_slots :: "(address, u64) btree"
  v2_processed_evidence :: "(hash32, unit) btree"
  v2_miners :: "(address, MinerInfoV2) btree"
  v2_miner_heartbeat_tracker :: "(address \<times> u64, bool) btree"
  v2_epoch_reward_bucket :: u128

record WorldStateV1 =
  v1_balances :: "(address, u128) btree"
  v1_token_balances :: "(address \<times> hash32, u128) btree"
  v1_nonces :: "(address, u64) btree"
  v1_agents :: "(address, AgentIdentity) btree"
  v1_tokens :: "(hash32, TokenDef) btree"
  v1_reputation :: "ReputationAttestation list"
  v1_services :: "(address \<times> string, ServiceEntry) btree"
  v1_block_height :: u64
  v1_block_timestamp :: u64
  v1_contracts :: "(address, ContractInstance) btree"
  v1_contract_storage :: "(address \<times> bytes, bytes) btree"
  v1_contract_code :: "(address, bytes) btree"
  v1_stakes :: "(address, u128) btree"
  v1_unbonding_queue :: "UnbondingEntry list"
  v1_activity_stats :: "(address, ActivityStats) btree"
  v1_validator_uptime :: "(address, ValidatorUptime) btree"
  v1_platform_activity :: "(address, PlatformActivityAgg) btree"
  v1_platform_report_tracker :: "(address \<times> u64, bool) btree"
  v1_stake_delegations :: "(address, address) btree"
  v1_stake_commissions :: "(address, u16) btree"
  v1_token_allowances :: "(address \<times> address \<times> hash32, u128) btree"
  v1_jailed_validators :: "(address, u64) btree"
  v1_validator_missed_slots :: "(address, u64) btree"
  v1_validator_assigned_slots :: "(address, u64) btree"
  v1_processed_evidence :: "(hash32, unit) btree"
  v1_miners :: "(address, MinerInfoV1) btree"
  v1_miner_heartbeat_tracker :: "(address \<times> u64, bool) btree"

definition from_v2 :: "WorldStateV2 \<Rightarrow> WorldState" where
  "from_v2 v2 = \<lparr>
     balances = v2_balances v2,
     token_balances = v2_token_balances v2,
     nonces = v2_nonces v2,
     agents = v2_agents v2,
     tokens = v2_tokens v2,
     reputation = v2_reputation v2,
     services = v2_services v2,
     block_height = v2_block_height v2,
     block_timestamp = v2_block_timestamp v2,
     contracts = v2_contracts v2,
     contract_storage = v2_contract_storage v2,
     contract_code = v2_contract_code v2,
     stakes = v2_stakes v2,
     unbonding_queue = v2_unbonding_queue v2,
     activity_stats = v2_activity_stats v2,
     validator_uptime = v2_validator_uptime v2,
     platform_activity = v2_platform_activity v2,
     platform_report_tracker = v2_platform_report_tracker v2,
     stake_delegations = v2_stake_delegations v2,
     stake_commissions = v2_stake_commissions v2,
     token_allowances = v2_token_allowances v2,
     jailed_validators = v2_jailed_validators v2,
     validator_missed_slots = v2_validator_missed_slots v2,
     validator_assigned_slots = v2_validator_assigned_slots v2,
     processed_evidence = v2_processed_evidence v2,
     miners = bt_map_values (\<lambda>_. into_v3) (v2_miners v2),
     miner_heartbeat_tracker = v2_miner_heartbeat_tracker v2,
     epoch_checkins = bt_empty,
     epoch_reward_bucket = v2_epoch_reward_bucket v2,
     receipts = bt_empty,
     user_delegations = bt_empty\<rparr>"

definition from_v1 :: "WorldStateV1 \<Rightarrow> WorldState" where
  "from_v1 v1 = \<lparr>
     balances = v1_balances v1,
     token_balances = v1_token_balances v1,
     nonces = v1_nonces v1,
     agents = v1_agents v1,
     tokens = v1_tokens v1,
     reputation = v1_reputation v1,
     services = v1_services v1,
     block_height = v1_block_height v1,
     block_timestamp = v1_block_timestamp v1,
     contracts = v1_contracts v1,
     contract_storage = v1_contract_storage v1,
     contract_code = v1_contract_code v1,
     stakes = v1_stakes v1,
     unbonding_queue = v1_unbonding_queue v1,
     activity_stats = v1_activity_stats v1,
     validator_uptime = v1_validator_uptime v1,
     platform_activity = v1_platform_activity v1,
     platform_report_tracker = v1_platform_report_tracker v1,
     stake_delegations = v1_stake_delegations v1,
     stake_commissions = v1_stake_commissions v1,
     token_allowances = v1_token_allowances v1,
     jailed_validators = v1_jailed_validators v1,
     validator_missed_slots = v1_validator_missed_slots v1,
     validator_assigned_slots = v1_validator_assigned_slots v1,
     processed_evidence = v1_processed_evidence v1,
     miners = bt_map_values (\<lambda>_. MinerInfo_from_v1) (v1_miners v1),
     miner_heartbeat_tracker = v1_miner_heartbeat_tracker v1,
     epoch_checkins = bt_empty,
     epoch_reward_bucket = 0,
     receipts = bt_empty,
     user_delegations = bt_empty\<rparr>"

text \<open>
  \<open>from_snapshot_bytes\<close>: the current layout, else the V2 layout, else V1. The three Borsh
  readers are arguments; \<open>Inl\<close> is the error of the last attempt.
\<close>

definition from_snapshot_bytes ::
  "(bytes \<Rightarrow> string + WorldState) \<Rightarrow> (bytes \<Rightarrow> string + WorldStateV2) \<Rightarrow> (bytes \<Rightarrow> string + WorldStateV1)
   \<Rightarrow> bytes \<Rightarrow> string + WorldState" where
  "from_snapshot_bytes dec3 dec2 dec1 bs =
     (case dec3 bs of
        Inr state \<Rightarrow> Inr state
      | Inl _ \<Rightarrow> (case dec2 bs of
            Inr v2 \<Rightarrow> Inr (from_v2 v2)
          | Inl _ \<Rightarrow> (case dec1 bs of Inl e \<Rightarrow> Inl e | Inr v1 \<Rightarrow> Inr (from_v1 v1))))"

section \<open>Accessors and the supply audit\<close>

definition get_balance :: "WorldState \<Rightarrow> address \<Rightarrow> u128" where
  "get_balance s addr = bt_get_or (balances s) 0 addr"

definition get_token_balance :: "WorldState \<Rightarrow> address \<Rightarrow> hash32 \<Rightarrow> u128" where
  "get_token_balance s addr token_id = bt_get_or (token_balances s) 0 (addr, token_id)"

definition get_nonce :: "WorldState \<Rightarrow> address \<Rightarrow> u64" where
  "get_nonce s addr = bt_get_or (nonces s) 0 addr"

definition get_token_allowance :: "WorldState \<Rightarrow> address \<Rightarrow> address \<Rightarrow> hash32 \<Rightarrow> u128" where
  "get_token_allowance s owner spender token_id =
     bt_get_or (token_allowances s) 0 (owner, spender, token_id)"

text \<open>
  Sums of \<open>u128\<close> values (\<open>Iterator::sum\<close>) wrap in the release build, as word addition does.
\<close>

definition total_balances :: "WorldState \<Rightarrow> u128" where
  "total_balances s = bt_sum (\<lambda>_ b. b) (balances s)"

definition total_stakes :: "WorldState \<Rightarrow> u128" where
  "total_stakes s = bt_sum (\<lambda>_ b. b) (stakes s)"

definition total_unbonding :: "WorldState \<Rightarrow> u128" where
  "total_unbonding s = sum_list (map ub_amount (unbonding_queue s))"

definition pending_mining :: "WorldState \<Rightarrow> u128" where
  "pending_mining s = epoch_reward_bucket s + bt_sum (\<lambda>_ m. mi_pending_rewards m) (miners s)"

definition total_supply :: "WorldState \<Rightarrow> u128" where
  "total_supply s = total_balances s + total_stakes s + total_unbonding s + pending_mining s"

section \<open>The state root\<close>

text \<open>Miner records as old nodes serialised them (\<open>MinerInfo::borsh_v1\<close>, \<open>borsh_v2\<close>).\<close>

definition borsh_v1 :: "externals \<Rightarrow> MinerInfo \<Rightarrow> bytes" where
  "borsh_v1 E m = borsh_address E (mi_address m) @ borsh_tier E (mi_tier m)
     @ borsh_string E (mi_name m) @ borsh_u64 E (mi_registered_at m)
     @ borsh_u64 E (mi_last_heartbeat m) @ borsh_vec_u8 E (mi_ip_prefix m)
     @ borsh_bool E (mi_active m) @ borsh_u16 E (mi_reputation_bps m)"

definition borsh_v2 :: "externals \<Rightarrow> MinerInfo \<Rightarrow> bytes" where
  "borsh_v2 E m = borsh_address E (mi_address m) @ borsh_tier E (mi_tier m)
     @ borsh_string E (mi_name m) @ borsh_u64 E (mi_registered_at m)
     @ borsh_u64 E (mi_last_heartbeat m) @ borsh_vec_u8 E (mi_ip_prefix m)
     @ borsh_bool E (mi_active m) @ borsh_u16 E (mi_reputation_bps m)
     @ borsh_u128 E (mi_pending_rewards m) @ borsh_u64 E (mi_pending_epoch m)
     @ borsh_u16 E (mi_epoch_attendance m) @ borsh_u16 E (mi_consecutive_misses m)"

text \<open>The hashed leaves of one map: a tag, the key, the value.\<close>

definition map_leaves ::
  "externals \<Rightarrow> string \<Rightarrow> ('k::linorder \<Rightarrow> 'v \<Rightarrow> bytes) \<Rightarrow> ('k, 'v) btree \<Rightarrow> hash32 list" where
  "map_leaves E tag enc m = map (\<lambda>p. blake3 E (string_bytes tag @ enc (fst p) (snd p))) (entries m)"

definition asset_leaves :: "externals \<Rightarrow> WorldState \<Rightarrow> hash32 list" where
  "asset_leaves E s =
     map_leaves E ''bal:'' (\<lambda>a b. a @ to_le_bytes b) (balances s)
     @ map_leaves E ''tbal:'' (\<lambda>at b. fst at @ snd at @ to_le_bytes b) (token_balances s)
     @ map_leaves E ''nonce:'' (\<lambda>a n. a @ to_le_bytes n) (nonces s)
     @ map_leaves E ''agent:'' (\<lambda>a ag. a @ borsh_agent E ag) (agents s)
     @ map_leaves E ''token:'' (\<lambda>i t. i @ borsh_token E t) (tokens s)
     @ [blake3 E (string_bytes ''rep_count:''
          @ to_le_bytes (of_nat (length (reputation s)) :: u64)
          @ (if reputation s = [] then [] else borsh_reputation E (last (reputation s))))]
     @ map_leaves E ''svc:'' (\<lambda>at v. fst at @ string_bytes (snd at) @ borsh_service E v) (services s)"

definition contract_leaves :: "externals \<Rightarrow> WorldState \<Rightarrow> hash32 list" where
  "contract_leaves E s =
     map_leaves E ''contract:'' (\<lambda>a i. a @ ci_code_hash i @ ci_creator i @ to_le_bytes (ci_deployed_at i))
       (contracts s)
     @ map_leaves E ''cstore:'' (\<lambda>ak v. fst ak @ snd ak @ v) (contract_storage s)
     @ map_leaves E ''ccode:'' (\<lambda>a code. a @ blake3 E code) (contract_code s)"

definition staking_leaves :: "externals \<Rightarrow> WorldState \<Rightarrow> hash32 list" where
  "staking_leaves E s =
     map_leaves E ''stake:'' (\<lambda>a n. a @ to_le_bytes n) (stakes s)
     @ map (\<lambda>e. blake3 E (string_bytes ''unbond:'' @ ub_address e @ to_le_bytes (ub_amount e)
              @ to_le_bytes (ub_release_height e))) (unbonding_queue s)
     @ map_leaves E ''activity:'' (\<lambda>a st. a @ borsh_stats E st) (activity_stats s)
     @ map_leaves E ''uptime:'' (\<lambda>a u. a @ borsh_uptime E u) (validator_uptime s)
     @ map_leaves E ''platact:'' (\<lambda>a g. a @ borsh_platform E g) (platform_activity s)
     @ map_leaves E ''plattrack:'' (\<lambda>re _. fst re @ to_le_bytes (snd re)) (platform_report_tracker s)
     @ map_leaves E ''deleg:'' (\<lambda>v owner. v @ owner) (stake_delegations s)
     @ map_leaves E ''commission:'' (\<lambda>v c. v @ to_le_bytes c) (stake_commissions s)
     @ map_leaves E ''tallowance:'' (\<lambda>k n. fst k @ fst (snd k) @ snd (snd k) @ to_le_bytes n)
         (token_allowances s)
     @ map_leaves E ''jailed:'' (\<lambda>a h. a @ to_le_bytes h) (jailed_validators s)
     @ map_leaves E ''missed:'' (\<lambda>a n. a @ to_le_bytes n) (validator_missed_slots s)
     @ map_leaves E ''assigned:'' (\<lambda>a n. a @ to_le_bytes n) (validator_assigned_slots s)
     @ map_leaves E ''evidence:'' (\<lambda>h _. h) (processed_evidence s)"

definition miner_leaves :: "externals \<Rightarrow> WorldState \<Rightarrow> hash32 list" where
  "miner_leaves E s =
     (let v2_active = block_height s \<ge> HEARTBEAT_V2_HEIGHT;
          v3_active = block_height s \<ge> CHECKIN_V3_HEIGHT
      in map_leaves E ''miner:'' (\<lambda>a m. a @ (if v3_active then borsh_miner E m
             else if v2_active then borsh_v2 E m else borsh_v1 E m)) (miners s)
         @ (if \<not> v3_active
            then map_leaves E ''minerbeat:'' (\<lambda>aw _. fst aw @ to_le_bytes (snd aw))
                   (miner_heartbeat_tracker s)
            else [])
         @ (if v2_active \<and> epoch_reward_bucket s > 0
            then [blake3 E (string_bytes ''epochbucket:'' @ to_le_bytes (epoch_reward_bucket s))]
            else []))"

definition state_root :: "externals \<Rightarrow> WorldState \<Rightarrow> hash32" where
  "state_root E s = merkle_root (blake3 E)
     (sort (asset_leaves E s @ contract_leaves E s @ staking_leaves E s @ miner_leaves E s))"

end
