(* ===== verification/Score.thy ===== *)
theory Score
  imports World
begin

text \<open>
  The agent score (\<open>state/src/score.rs\<close>) and the \<open>ChainState\<close> view of the world state that
  contracts read (\<open>impl ChainState for WorldState\<close> in \<open>state/src/world.rs\<close>). Scores are
  \<open>u64\<close> values; the divisions of the source are guarded against zero by their maxima.
\<close>

record AgentScoreDetail =
  sd_total :: u64
  sd_activity :: u64
  sd_uptime :: u64
  sd_block_production :: u64
  sd_economic :: u64
  sd_platform :: u64
  sd_decay_factor :: u64

text \<open>\<open>iter.max().unwrap_or(1).max(1)\<close>.\<close>

definition max_or_1 :: "u64 list \<Rightarrow> u64" where
  "max_or_1 xs = foldr max xs 1"

definition weighted_activity :: "ActivityStats \<Rightarrow> u64" where
  "weighted_activity s = ucast (st_tx_count s) + ucast (st_contract_deploys s) * 10
     + ucast (st_contract_calls s) * 3 + ucast (st_tokens_created s) * 5
     + ucast (st_services_registered s) * 5"

definition compute_activity_score :: "WorldState \<Rightarrow> address \<Rightarrow> u64" where
  "compute_activity_score state addr =
     (case bt_get (activity_stats state) addr of
        None \<Rightarrow> 0
      | Some stats \<Rightarrow>
          (let weighted = weighted_activity stats;
               max_weighted = max_or_1 (map weighted_activity (bt_values (activity_stats state)))
           in (weighted * 10000) div max_weighted))"

definition compute_uptime_score :: "WorldState \<Rightarrow> address \<Rightarrow> u64" where
  "compute_uptime_score state addr =
     (case bt_get (validator_uptime state) addr of
        None \<Rightarrow> 0
      | Some u \<Rightarrow> if vu_expected_blocks u = 0 then 0
          else min ((vu_signed_blocks u * 10000) div vu_expected_blocks u) 10000)"

definition compute_block_production_score :: "WorldState \<Rightarrow> address \<Rightarrow> u64" where
  "compute_block_production_score state addr =
     (case bt_get (validator_uptime state) addr of
        None \<Rightarrow> 0
      | Some u \<Rightarrow> if vu_expected_blocks u = 0 then 0
          else min ((vu_produced_blocks u * 10000) div vu_expected_blocks u) 10000)"

definition economic_value :: "WorldState \<Rightarrow> address \<Rightarrow> u64" where
  "economic_value state addr =
     (let s = bt_get_or (stakes state) 0 addr;
          b = bt_get_or (balances state) 0 addr;
          g = (case bt_get (activity_stats state) addr of None \<Rightarrow> 0 | Some st \<Rightarrow> st_gas_consumed st)
      in ucast (s div 1000000000) * 3 + ucast (b div 1000000000) + g div 1000000 * 2)"

definition compute_economic_score :: "WorldState \<Rightarrow> address \<Rightarrow> u64" where
  "compute_economic_score state addr =
     (let value = economic_value state addr;
          max_value = max_or_1 (map (economic_value state) (bt_keys (stakes state)))
      in (value * 10000) div max_value)"

definition platform_value :: "PlatformActivityAgg \<Rightarrow> u64" where
  "platform_value a = pa_total_actions a + ucast (pa_platform_count a) * 100"

definition compute_platform_score :: "WorldState \<Rightarrow> address \<Rightarrow> u64" where
  "compute_platform_score state addr =
     (case bt_get (platform_activity state) addr of
        None \<Rightarrow> 0
      | Some agg \<Rightarrow>
          (let value = platform_value agg;
               max_value = max_or_1 (map platform_value (bt_values (platform_activity state)))
           in (value * 10000) div max_value))"

text \<open>The decay of an agent that is \<open>age_epochs\<close> epochs old, in basis points.\<close>

definition decay_of_age :: "u64 \<Rightarrow> u64" where
  "decay_of_age age_epochs =
     (if age_epochs = 0 then 10000
      else
        (let half_lives = age_epochs div 2880;
             remainder = age_epochs mod 2880;
             base = (if half_lives \<ge> 10 then 10 else drop_bit (unat half_lives) 10000);
             interpolated = base * (2880 * 2 - remainder) div (2880 * 2)
         in max interpolated 1))"

definition compute_decay_factor :: "WorldState \<Rightarrow> address \<Rightarrow> u64" where
  "compute_decay_factor state addr =
     (case bt_get (agents state) addr of
        None \<Rightarrow> 10000
      | Some agent \<Rightarrow>
          (let current_epoch = block_height state div 100;
               registered_epoch = ai_registered_at agent div 100
           in decay_of_age (saturating_sub current_epoch registered_epoch)))"

definition compute_agent_score :: "WorldState \<Rightarrow> address \<Rightarrow> AgentScoreDetail" where
  "compute_agent_score state addr =
     (let decay = compute_decay_factor state addr;
          activity = min (compute_activity_score state addr) 10000;
          uptime = min (compute_uptime_score state addr) 10000;
          block_prod = min (compute_block_production_score state addr) 10000;
          economic = min (compute_economic_score state addr) 10000;
          platform = min (compute_platform_score state addr) 10000;
          is_validator = bt_get_or (stakes state) 0 addr \<ge> 10000000000000;
          raw_total = (if is_validator
            then (activity * 30 + uptime * 25 + block_prod * 20 + economic * 15 + platform * 10) div 100
            else (activity * 55 + economic * 27 + platform * 18) div 100);
          decayed = (raw_total * decay) div 10000;
          total = min decayed 10000
      in \<lparr>sd_total = total, sd_activity = activity, sd_uptime = uptime,
          sd_block_production = block_prod, sd_economic = economic, sd_platform = platform,
          sd_decay_factor = decay\<rparr>)"

text \<open>\<open>get_agent_score\<close> of the contract interface, with the legacy attestation sum.\<close>

definition get_agent_score :: "WorldState \<Rightarrow> address \<Rightarrow> u64" where
  "get_agent_score state addr =
     (if bt_contains (activity_stats state) addr \<or> bt_contains (validator_uptime state) addr
         \<or> bt_contains (platform_activity state) addr
      then min (sd_total (compute_agent_score state addr) div 100) 100
      else min (sum_list (map (\<lambda>r. scast (ra_score r)) (filter (\<lambda>r. ra_to r = addr) (reputation state)))) 100)"

definition get_agent_registered :: "WorldState \<Rightarrow> address \<Rightarrow> bool" where
  "get_agent_registered state addr = bt_contains (agents state) addr"

definition get_contract_storage :: "WorldState \<Rightarrow> address \<Rightarrow> bytes \<Rightarrow> bytes option" where
  "get_contract_storage state contract key = bt_get (contract_storage state) (contract, key)"

definition get_contract_code :: "WorldState \<Rightarrow> address \<Rightarrow> bytes option" where
  "get_contract_code state contract = bt_get (contract_code state) contract"

section \<open>Decay\<close>

text \<open>The decay over natural numbers: no intermediate value of the word computation wraps.\<close>

definition decay_nat :: "nat \<Rightarrow> nat" where
  "decay_nat a = (if a = 0 then 10000
     else max ((if 10 \<le> a div 2880 then 10 else 10000 div 2 ^ (a div 2880)) * (5760 - a mod 2880)
       div 5760) 1)"

lemma unat_max_word: "unat (max a b) = max (unat a) (unat b)" for a b :: "'a::len word"
  by (auto simp: max_def word_le_nat_alt)

lemma unat_min_word: "unat (min a b) = min (unat a) (unat b)" for a b :: "'a::len word"
  by (auto simp: min_def word_le_nat_alt)

lemma decay_base_bound: "(if 10 \<le> h then 10 else 10000 div 2 ^ h) \<le> (10000::nat)"
  by (simp add: div_le_dividend)

lemma unat_decay_of_age: "unat (decay_of_age age) = decay_nat (unat age)"
proof (cases "age = 0")
  case True
  then show ?thesis by (simp add: decay_of_age_def decay_nat_def)
next
  case False
  let ?h = "age div 2880" and ?r = "age mod 2880"
  let ?base = "if ?h \<ge> 10 then 10 else drop_bit (unat ?h) (10000 :: u64)"
  let ?b = "if 10 \<le> unat age div 2880 then 10 else 10000 div 2 ^ (unat age div 2880) :: nat"
  have h: "unat ?h = unat age div 2880" and r: "unat ?r = unat age mod 2880"
    by (simp_all add: unat_div unat_mod)
  have shift: "unat (drop_bit n (10000 :: u64)) = 10000 div 2 ^ n" for n
    by (subst unat_drop_bit_eq) (simp add: drop_bit_eq_div)
  have base: "unat ?base = ?b"
    using h by (simp add: word_le_nat_alt shift)
  have "?r \<le> 2880 * 2"
    by (simp add: word_le_nat_alt r)
  then have diff: "unat (2880 * 2 - ?r) = 5760 - unat age mod 2880"
    by (simp add: unat_sub_exact r)
  have bound: "?b * (5760 - unat age mod 2880) \<le> 10000 * 5760"
    using decay_base_bound[of "unat age div 2880"] by (intro mult_le_mono) auto
  have "unat (?base * (2880 * 2 - ?r)) = ?b * (5760 - unat age mod 2880)"
    using le_less_trans[OF bound, of "2 ^ LENGTH(64)"]
    by (subst unat_mult_exact) (simp_all only: base diff, simp_all)
  then have "unat (?base * (2880 * 2 - ?r) div (2880 * 2)) = ?b * (5760 - unat age mod 2880) div 5760"
    by (simp add: unat_div)
  moreover have "unat age \<noteq> 0" using False by (simp add: unat_eq_zero)
  ultimately show ?thesis
    using False by (simp add: decay_of_age_def decay_nat_def Let_def unat_max_word)
qed

lemma decay_nat_bounds: "5 \<le> decay_nat a \<and> decay_nat a \<le> 10000"
proof (cases "a = 0")
  case False
  let ?h = "a div 2880" and ?r = "a mod 2880"
  let ?b = "if 10 \<le> ?h then 10 else 10000 div 2 ^ ?h :: nat"
  have low: "10 \<le> ?b"
  proof (cases "10 \<le> ?h")
    case False
    then have "(2::nat) ^ ?h \<le> 2 ^ 9" by (intro power_increasing) auto
    then have "10000 div 2 ^ 9 \<le> (10000::nat) div 2 ^ ?h" by (intro div_le_mono2) auto
    then show ?thesis using False by simp
  qed simp
  have "?r < 2880" by simp
  then have r: "2881 \<le> 5760 - ?r" "5760 - ?r \<le> 5760" by linarith+
  have "10 * 2881 \<le> ?b * (5760 - ?r)"
    using low r(1) by (rule mult_le_mono)
  then have "10 * 2881 div 5760 \<le> ?b * (5760 - ?r) div 5760" by (rule div_le_mono)
  moreover have "?b * (5760 - ?r) \<le> 10000 * 5760"
    using decay_base_bound r(2) by (rule mult_le_mono)
  then have "?b * (5760 - ?r) div 5760 \<le> 10000 * 5760 div 5760" by (rule div_le_mono)
  ultimately show ?thesis
    using False by (simp add: decay_nat_def Let_def del: mult_le_mono)
qed (simp add: decay_nat_def)

lemma decay_factor_bounds:
  "5 \<le> unat (compute_decay_factor state addr) \<and> unat (compute_decay_factor state addr) \<le> 10000"
  by (auto simp: compute_decay_factor_def Let_def unat_decay_of_age decay_nat_bounds split: option.split)

lemma decay_nat_le_base:
  assumes "0 < a" and "a < 28800"
  shows "decay_nat a \<le> 10000 div 2 ^ (a div 2880)"
proof -
  have h: "a div 2880 < 10" using assms(2) by (simp add: less_mult_imp_div_less)
  let ?b = "10000 div 2 ^ (a div 2880) :: nat"
  have "?b * (5760 - a mod 2880) \<le> ?b * 5760" by (intro mult_le_mono) auto
  then have "?b * (5760 - a mod 2880) div 5760 \<le> ?b * 5760 div 5760" by (rule div_le_mono)
  moreover have "1 \<le> ?b"
  proof -
    have "(2::nat) ^ (a div 2880) \<le> 2 ^ 10" using h by (intro power_increasing) auto
    then show ?thesis by (simp add: div_greater_zero_iff Suc_le_eq)
  qed
  ultimately show ?thesis using assms(1) h by (simp add: decay_nat_def)
qed

lemma decay_nat_ge_half:
  assumes "a < 28800"
  shows "10000 div 2 ^ Suc (a div 2880) \<le> decay_nat a"
proof (cases "a = 0")
  case False
  let ?b = "10000 div 2 ^ (a div 2880) :: nat"
  have "a div 2880 < 10" using assms by (simp add: less_mult_imp_div_less)
  moreover have "2880 \<le> 5760 - a mod 2880"
    using mod_less_divisor[of 2880 a] by linarith
  then have "?b * 2880 \<le> ?b * (5760 - a mod 2880)" by (rule mult_le_mono2)
  then have "?b * 2880 div 5760 \<le> ?b * (5760 - a mod 2880) div 5760" by (rule div_le_mono)
  moreover have "?b * 2880 div 5760 = ?b div 2"
    using div_mult_mult2[of 2880 ?b 2] by simp
  moreover have "?b div 2 = 10000 div 2 ^ Suc (a div 2880)"
    by (simp add: div_mult2_eq[symmetric] mult.commute)
  ultimately show ?thesis using False by (simp add: decay_nat_def le_max_iff_disj)
qed (simp add: decay_nat_def)

lemma decay_nat_antimono:
  assumes "a \<le> b" and "b < 28800"
  shows "decay_nat b \<le> decay_nat a"
proof (cases "a = 0 \<or> b = a")
  case True
  then show ?thesis using decay_nat_bounds[of b] by (auto simp: decay_nat_def)
next
  case False
  then have pos: "0 < a" "0 < b" using assms(1) by auto
  show ?thesis
  proof (cases "a div 2880 = b div 2880")
    case True
    then have "a mod 2880 \<le> b mod 2880"
      using assms(1) by (metis add_le_cancel_left mult_div_mod_eq)
    then have "5760 - b mod 2880 \<le> 5760 - a mod 2880" by (rule diff_le_mono2)
    then have "c * (5760 - b mod 2880) div 5760 \<le> c * (5760 - a mod 2880) div 5760" for c
      by (intro div_le_mono mult_le_mono2)
    then show ?thesis
      using pos True assms(2) by (simp add: decay_nat_def max.coboundedI1 less_mult_imp_div_less)
  next
    case False
    then have "Suc (a div 2880) \<le> b div 2880"
      using div_le_mono[OF assms(1), of 2880] by linarith
    then have "(2::nat) ^ Suc (a div 2880) \<le> 2 ^ (b div 2880)" by (intro power_increasing) auto
    then have "10000 div 2 ^ (b div 2880) \<le> (10000::nat) div 2 ^ Suc (a div 2880)"
      by (intro div_le_mono2) auto
    then show ?thesis
      using decay_nat_le_base[OF pos(2) assms(2)] decay_nat_ge_half[of a] assms by linarith
  qed
qed

text \<open>
  Up to ten half-lives (28800 epochs) an older registration never has a larger decay
  factor: \<open>compute_decay_factor\<close> is non-increasing in the age.
\<close>

theorem decay_antimono_early:
  assumes "a \<le> b" and "b < 28800"
  shows "decay_of_age b \<le> decay_of_age a"
  using assms decay_nat_antimono[of "unat a" "unat b"]
  by (simp add: word_le_nat_alt word_less_nat_alt unat_decay_of_age)

theorem decay_antimono_early_witness: "decay_of_age 2880 \<le> decay_of_age 1440 \<and> decay_of_age 2880 = 5000"
  using decay_antimono_early[of 1440 2880]
  by (simp add: word_unat_eq_iff unat_decay_of_age decay_nat_def)

text \<open>
  From ten half-lives on the factor does not decay any more but repeats with period 2880
  between 10 and 5 basis points: it is never below 5, and ages one period apart agree.
\<close>

theorem decay_periodic_late:
  assumes "28800 \<le> unat age" and "unat age + 2880 < 2 ^ 64"
  shows "decay_of_age (age + 2880) = decay_of_age age"
    and "5 \<le> unat (decay_of_age age) \<and> unat (decay_of_age age) \<le> 10"
proof -
  have sum: "unat (age + 2880) = unat age + 2880"
    using assms(2) by (simp add: unat_add_exact)
  have "(unat age + 2880) div 2880 = unat age div 2880 + 1" by simp
  moreover have late: "10 \<le> unat age div 2880" using assms(1) by (simp add: less_eq_div_iff_mult_less_eq)
  ultimately show "decay_of_age (age + 2880) = decay_of_age age"
    using assms(1) by (simp add: word_unat_eq_iff unat_decay_of_age decay_nat_def sum)
  have "10 * (5760 - unat age mod 2880) div 5760 \<le> 10 * 5760 div 5760"
    by (intro div_le_mono mult_le_mono2) simp
  then have "decay_nat (unat age) \<le> 10" using late assms(1) by (simp add: decay_nat_def)
  then show "5 \<le> unat (decay_of_age age) \<and> unat (decay_of_age age) \<le> 10"
    using decay_nat_bounds[of "unat age"] by (simp add: unat_decay_of_age)
qed

theorem decay_periodic_late_witness:
  "decay_of_age (28800 + 2880) = decay_of_age 28800 \<and> decay_of_age 31679 = 5 \<and> decay_of_age 31680 = 10"
  using decay_periodic_late(1)[of 28800]
  by (simp add: word_unat_eq_iff unat_decay_of_age decay_nat_def)

section \<open>The composite score\<close>

lemma unat_min_10000: "unat (min (x::u64) 10000) \<le> 10000"
  by (simp add: unat_min_word)

lemma sum_of_products_exact:
  fixes a b c d e :: u64
  assumes "unat a \<le> 10000" "unat b \<le> 10000" "unat c \<le> 10000" "unat d \<le> 10000" "unat e \<le> 10000"
  shows "unat (a * 30 + b * 25 + c * 20 + d * 15 + e * 10) =
      unat a * 30 + unat b * 25 + unat c * 20 + unat d * 15 + unat e * 10"
    and "unat (a * 55 + d * 27 + e * 18) = unat a * 55 + unat d * 27 + unat e * 18"
  using assms by (simp_all add: unat_word_ariths)

text \<open>
  The composite agent score is the weighted average of its five (for a validator) or three
  dimensions, scaled by the decay factor, computed without wrap-around; every dimension and
  the total stay within 0 and 10000 basis points.
\<close>

theorem agent_score_exact:
  fixes state addr
  defines "d \<equiv> compute_agent_score state addr"
  shows "unat (sd_total d) =
      (if bt_get_or (stakes state) 0 addr \<ge> 10000000000000
       then (unat (sd_activity d) * 30 + unat (sd_uptime d) * 25 + unat (sd_block_production d) * 20
             + unat (sd_economic d) * 15 + unat (sd_platform d) * 10) div 100
       else (unat (sd_activity d) * 55 + unat (sd_economic d) * 27 + unat (sd_platform d) * 18) div 100)
      * unat (sd_decay_factor d) div 10000
    \<and> unat (sd_total d) \<le> 10000 \<and> unat (sd_activity d) \<le> 10000 \<and> unat (sd_uptime d) \<le> 10000
    \<and> unat (sd_block_production d) \<le> 10000 \<and> unat (sd_economic d) \<le> 10000
    \<and> unat (sd_platform d) \<le> 10000"
proof -
  define a b c e p k where
    "a = min (compute_activity_score state addr) 10000" and
    "b = min (compute_uptime_score state addr) 10000" and
    "c = min (compute_block_production_score state addr) 10000" and
    "e = min (compute_economic_score state addr) 10000" and
    "p = min (compute_platform_score state addr) 10000" and
    "k = compute_decay_factor state addr"
  note defs = a_def b_def c_def e_def p_def
  have le: "unat a \<le> 10000" "unat b \<le> 10000" "unat c \<le> 10000" "unat e \<le> 10000" "unat p \<le> 10000"
    unfolding defs by (rule unat_min_10000)+
  define raw where "raw = (if bt_get_or (stakes state) 0 addr \<ge> 10000000000000
     then (a * 30 + b * 25 + c * 20 + e * 15 + p * 10) div 100
     else (a * 55 + e * 27 + p * 18) div 100)"
  define n where "n = (if bt_get_or (stakes state) 0 addr \<ge> 10000000000000
     then (unat a * 30 + unat b * 25 + unat c * 20 + unat e * 15 + unat p * 10) div 100
     else (unat a * 55 + unat e * 27 + unat p * 18) div 100)"
  have raw: "unat raw = n"
    using sum_of_products_exact[OF le] by (simp add: raw_def n_def unat_div)
  have "unat a * 30 + unat b * 25 + unat c * 20 + unat e * 15 + unat p * 10 \<le> 1000000"
    "unat a * 55 + unat e * 27 + unat p * 18 \<le> 1000000"
    using le by linarith+
  then have n: "n \<le> 10000"
    unfolding n_def by (auto dest!: div_le_mono[of _ 1000000 100])
  have k: "unat k \<le> 10000" using decay_factor_bounds by (simp add: k_def)
  have nk: "n * unat k \<le> 10000 * 10000" using n k by (rule mult_le_mono)
  then have "unat (raw * k) = n * unat k" using raw by (subst unat_mult_exact) simp_all
  then have prod: "unat (raw * k div 10000) = n * unat k div 10000" by (simp add: unat_div)
  have "n * unat k div 10000 \<le> 10000" using nk div_le_mono[OF nk, of 10000] by simp
  then have tot: "unat (min (raw * k div 10000) 10000) = n * unat k div 10000"
    by (simp add: unat_min_word prod)
  have d: "d = \<lparr>sd_total = min (raw * k div 10000) 10000, sd_activity = a, sd_uptime = b,
      sd_block_production = c, sd_economic = e, sd_platform = p, sd_decay_factor = k\<rparr>"
    by (simp add: d_def compute_agent_score_def defs k_def raw_def Let_def)
  show ?thesis
    using le tot \<open>n * unat k div 10000 \<le> 10000\<close> by (simp add: d n_def)
qed

text \<open>
  The legacy branch of \<open>get_agent_score\<close> casts each signed attestation to \<open>u64\<close>: an
  address whose only record is one negative attestation gets the highest score, 100.
\<close>

theorem legacy_negative_attestation_scores_100:
  fixes state addr att
  assumes "activity_stats state = bt_empty" and "validator_uptime state = bt_empty"
    and "platform_activity state = bt_empty"
    and "reputation state = [att]" and "ra_to att = addr" and "sint (ra_score att) < 0"
  shows "get_agent_score state addr = 100"
proof -
  have neg: "(scast (ra_score att) :: u64) = word_of_int (sint (ra_score att))"
    by (rule scast_eq)
  have low: "- (2 ^ 15) \<le> sint (ra_score att)"
    using sint_greater_eq[of "ra_score att"] by simp
  have "uint (scast (ra_score att) :: u64) = sint (ra_score att) mod 2 ^ 64"
    unfolding neg uint_word_of_int by simp
  also have "\<dots> = (sint (ra_score att) + 2 ^ 64) mod 2 ^ 64"
    by simp
  also have "\<dots> = sint (ra_score att) + 2 ^ 64"
    using assms(6) low by (intro mod_pos_pos_trivial) simp_all
  finally have "100 \<le> uint (scast (ra_score att) :: u64)" using low by simp
  then have "(100 :: u64) \<le> scast (ra_score att)"
    by (simp add: word_le_def)
  then have "min (scast (ra_score att) :: u64) 100 = 100"
    by (rule min_absorb2)
  then show ?thesis
    using assms by (simp add: get_agent_score_def)
qed

theorem legacy_negative_attestation_scores_100_witness:
  "get_agent_score (WorldState_default\<lparr>reputation := [\<lparr>ra_from = [1], ra_to = [2], ra_category = [],
     ra_score = - 1, ra_platform = [], ra_memo = [], ra_block_height = 1\<rparr>]\<rparr>) [2] = 100"
  by (rule legacy_negative_attestation_scores_100[where att = "\<lparr>ra_from = [1], ra_to = [2],
        ra_category = [], ra_score = - 1, ra_platform = [], ra_memo = [], ra_block_height = 1\<rparr>"])
    (simp_all add: WorldState_default_def)

end
