(* ===== verification/Handler_Interface.thy ===== *)
theory Handler_Interface
  imports Score
begin

text \<open>
  The interface between \<open>apply_tx\<close> and the transaction handlers. A Rust handler takes
  \<open>&mut WorldState\<close> and returns a \<open>Result\<close>; its model returns the result together with the
  state it leaves behind, on errors too, because nothing restores what a failing handler has
  already changed.

  The locale \<open>tx_handler\<close> states what \<open>apply_tx\<close> relies on whatever the transaction type:
  the bookkeeping fields are not touched, success conserves the supply, and the world
  invariant is kept on every branch. \<open>atomic_handler\<close> adds that an error leaves the state as
  it was, \<open>sender_pays_handler\<close> that nobody but the sender loses native balance. Each handler
  of the theories \<open>Ledger\<close>, \<open>Staking\<close>, \<open>Mining_Tx\<close> and \<open>Contracts\<close> is an interpretation.
\<close>

section \<open>Results and balance updates\<close>

type_synonym 'a outcome = "(StateError + 'a) \<times> WorldState"
type_synonym 'a handler = "WorldState \<Rightarrow> Transaction \<Rightarrow> 'a outcome"

abbreviation fail :: "StateError \<Rightarrow> WorldState \<Rightarrow> 'a outcome" where
  "fail e s \<equiv> (Inl e, s)"

abbreviation ok :: "'a \<Rightarrow> WorldState \<Rightarrow> 'a outcome" where
  "ok r s \<equiv> (Inr r, s)"

text \<open>\<open>*state.balances.entry(a).or_insert(0) -= n\<close> and its \<open>+=\<close> counterpart.\<close>

definition debit :: "address \<Rightarrow> u128 \<Rightarrow> WorldState \<Rightarrow> WorldState" where
  "debit a n s = s\<lparr>balances := bt_entry a 0 (\<lambda>b. b - n) (balances s)\<rparr>"

definition credit :: "address \<Rightarrow> u128 \<Rightarrow> WorldState \<Rightarrow> WorldState" where
  "credit a n s = s\<lparr>balances := bt_entry a 0 (\<lambda>b. b + n) (balances s)\<rparr>"

definition safe_add :: "u128 \<Rightarrow> u128 \<Rightarrow> StateError + u128" where
  "safe_add balance amount =
     (case checked_add balance amount of
        None \<Rightarrow> Inl (BalanceOverflow amount balance)
      | Some v \<Rightarrow> Inr v)"

definition MIN_STAKE :: u128 where
  [claw_consts]: "MIN_STAKE = 10000000000000"

section \<open>The world invariant\<close>

text \<open>The sum of the balances of one custom token, as an integer (no wrap-around).\<close>

definition token_sum :: "WorldState \<Rightarrow> hash32 \<Rightarrow> int" where
  "token_sum s t = bt_sum (\<lambda>k b. if snd k = t then uint b else 0) (token_balances s)"

definition token_accounting :: "WorldState \<Rightarrow> bool" where
  "token_accounting s \<longleftrightarrow>
     (\<forall>t. token_sum s t = (case bt_get (tokens s) t of None \<Rightarrow> 0 | Some td \<Rightarrow> uint (td_total_supply td)))"

definition staking_inv :: "WorldState \<Rightarrow> bool" where
  "staking_inv s \<longleftrightarrow>
     (\<forall>v n. bt_get (stakes s) v = Some n \<longrightarrow> MIN_STAKE \<le> n)
     \<and> (\<forall>v c. bt_get (stake_commissions s) v = Some c \<longrightarrow> c \<le> 10000)
     \<and> (\<forall>v. bt_contains (stake_delegations s) v \<longrightarrow> bt_contains (stakes s) v)"

definition code_inv :: "WorldState \<Rightarrow> bool" where
  "code_inv s \<longleftrightarrow> (\<forall>c. bt_contains (contracts s) c \<longrightarrow> bt_contains (contract_code s) c)"

definition world_inv :: "WorldState \<Rightarrow> bool" where
  "world_inv s \<longleftrightarrow> token_accounting s \<and> staking_inv s \<and> code_inv s"

lemma world_invI: "token_accounting s \<Longrightarrow> staking_inv s \<Longrightarrow> code_inv s \<Longrightarrow> world_inv s"
  by (simp add: world_inv_def)

text \<open>Fields that only \<open>apply_tx\<close> itself and the block engine write.\<close>

definition engine_frame :: "WorldState \<Rightarrow> WorldState \<Rightarrow> bool" where
  "engine_frame s s' \<longleftrightarrow>
     nonces s' = nonces s \<and> reputation s' = reputation s \<and> block_height s' = block_height s
     \<and> block_timestamp s' = block_timestamp s \<and> activity_stats s' = activity_stats s
     \<and> validator_uptime s' = validator_uptime s \<and> jailed_validators s' = jailed_validators s
     \<and> validator_missed_slots s' = validator_missed_slots s
     \<and> validator_assigned_slots s' = validator_assigned_slots s
     \<and> processed_evidence s' = processed_evidence s
     \<and> epoch_reward_bucket s' = epoch_reward_bucket s \<and> receipts s' = receipts s"

lemma engine_frame_refl [simp]: "engine_frame s s"
  by (simp add: engine_frame_def)

lemma engine_frame_trans: "engine_frame a b \<Longrightarrow> engine_frame b c \<Longrightarrow> engine_frame a c"
  by (simp add: engine_frame_def)

section \<open>Lemmas on balance updates\<close>

lemmas supply_defs = total_supply_def total_balances_def total_stakes_def total_unbonding_def
  pending_mining_def

lemmas inv_defs = token_accounting_def token_sum_def staking_inv_def code_inv_def

lemma bt_sum_entry:
  fixes f :: "'k::linorder \<Rightarrow> 'v \<Rightarrow> 'a::ab_group_add"
  assumes "f k d = 0"
  shows "bt_sum f (bt_entry k d g m) = bt_sum f m + f k (g (bt_get_or m d k)) - f k (bt_get_or m d k)"
  using assms by (simp add: bt_entry_def bt_sum_insert bt_get_or_def split: option.split)

lemma total_supply_debit [simp]: "total_supply (debit a n s) = total_supply s - n"
  by (simp add: supply_defs debit_def bt_sum_entry)

lemma total_supply_credit [simp]: "total_supply (credit a n s) = total_supply s + n"
  by (simp add: supply_defs credit_def bt_sum_entry)

lemma get_balance_debit [simp]:
  "get_balance (debit a n s) b = (if b = a then get_balance s a - n else get_balance s b)"
  by (simp add: get_balance_def debit_def)

lemma get_balance_credit [simp]:
  "get_balance (credit a n s) b = (if b = a then get_balance s a + n else get_balance s b)"
  by (simp add: get_balance_def credit_def)

lemma u128_less [simp]: "unat (x :: u128) < 340282366920938463463374607431768211456"
  using unsigned_less[of x, where ?'a = nat] by simp

lemma of_nat_u128_eq_0:
  "n < 340282366920938463463374607431768211456 \<Longrightarrow> (of_nat n :: u128) = 0 \<longleftrightarrow> n = 0"
  using nat_dvd_not_less[of n "340282366920938463463374607431768211456"]
  by (cases "n = 0") (simp_all add: word_of_nat_eq_0_iff)

text \<open>Balance updates leave every other field alone, so they keep frames and the invariant.\<close>

lemma balances_only_frame [simp]: "engine_frame s (s\<lparr>balances := m\<rparr>)"
  by (simp add: engine_frame_def)

lemma world_inv_balances [simp]: "world_inv (s\<lparr>balances := m\<rparr>) = world_inv s"
  by (simp add: world_inv_def inv_defs)

lemma world_inv_debit [simp]: "world_inv (debit a n s) = world_inv s"
  by (simp add: debit_def)

lemma world_inv_credit [simp]: "world_inv (credit a n s) = world_inv s"
  by (simp add: credit_def)

lemma engine_frame_debit [simp]: "engine_frame s (debit a n t) = engine_frame s t"
  by (simp add: debit_def engine_frame_def)

lemma engine_frame_credit [simp]: "engine_frame s (credit a n t) = engine_frame s t"
  by (simp add: credit_def engine_frame_def)

lemma debit_frame [simp]:
  "token_balances (debit a n s) = token_balances s"
  "nonces (debit a n s) = nonces s"
  "agents (debit a n s) = agents s"
  "tokens (debit a n s) = tokens s"
  "reputation (debit a n s) = reputation s"
  "services (debit a n s) = services s"
  "block_height (debit a n s) = block_height s"
  "block_timestamp (debit a n s) = block_timestamp s"
  "contracts (debit a n s) = contracts s"
  "contract_storage (debit a n s) = contract_storage s"
  "contract_code (debit a n s) = contract_code s"
  "stakes (debit a n s) = stakes s"
  "unbonding_queue (debit a n s) = unbonding_queue s"
  "activity_stats (debit a n s) = activity_stats s"
  "validator_uptime (debit a n s) = validator_uptime s"
  "platform_activity (debit a n s) = platform_activity s"
  "platform_report_tracker (debit a n s) = platform_report_tracker s"
  "stake_delegations (debit a n s) = stake_delegations s"
  "stake_commissions (debit a n s) = stake_commissions s"
  "token_allowances (debit a n s) = token_allowances s"
  "jailed_validators (debit a n s) = jailed_validators s"
  "validator_missed_slots (debit a n s) = validator_missed_slots s"
  "validator_assigned_slots (debit a n s) = validator_assigned_slots s"
  "processed_evidence (debit a n s) = processed_evidence s"
  "miners (debit a n s) = miners s"
  "miner_heartbeat_tracker (debit a n s) = miner_heartbeat_tracker s"
  "epoch_checkins (debit a n s) = epoch_checkins s"
  "epoch_reward_bucket (debit a n s) = epoch_reward_bucket s"
  "receipts (debit a n s) = receipts s"
  "user_delegations (debit a n s) = user_delegations s"
  by (simp_all add: debit_def)

lemma credit_frame [simp]:
  "token_balances (credit a n s) = token_balances s"
  "nonces (credit a n s) = nonces s"
  "agents (credit a n s) = agents s"
  "tokens (credit a n s) = tokens s"
  "reputation (credit a n s) = reputation s"
  "services (credit a n s) = services s"
  "block_height (credit a n s) = block_height s"
  "block_timestamp (credit a n s) = block_timestamp s"
  "contracts (credit a n s) = contracts s"
  "contract_storage (credit a n s) = contract_storage s"
  "contract_code (credit a n s) = contract_code s"
  "stakes (credit a n s) = stakes s"
  "unbonding_queue (credit a n s) = unbonding_queue s"
  "activity_stats (credit a n s) = activity_stats s"
  "validator_uptime (credit a n s) = validator_uptime s"
  "platform_activity (credit a n s) = platform_activity s"
  "platform_report_tracker (credit a n s) = platform_report_tracker s"
  "stake_delegations (credit a n s) = stake_delegations s"
  "stake_commissions (credit a n s) = stake_commissions s"
  "token_allowances (credit a n s) = token_allowances s"
  "jailed_validators (credit a n s) = jailed_validators s"
  "validator_missed_slots (credit a n s) = validator_missed_slots s"
  "validator_assigned_slots (credit a n s) = validator_assigned_slots s"
  "processed_evidence (credit a n s) = processed_evidence s"
  "miners (credit a n s) = miners s"
  "miner_heartbeat_tracker (credit a n s) = miner_heartbeat_tracker s"
  "epoch_checkins (credit a n s) = epoch_checkins s"
  "epoch_reward_bucket (credit a n s) = epoch_reward_bucket s"
  "receipts (credit a n s) = receipts s"
  "user_delegations (credit a n s) = user_delegations s"
  by (simp_all add: credit_def)

lemma safe_add_InrD:
  assumes "safe_add b n = Inr v"
  shows "v = b + n" and "b \<le> b + n"
  using assms checked_add_SomeD[of b n] checked_add_Some_le[of b n]
  by (auto simp: safe_add_def split: option.splits)

lemma debit_credit_same:
  assumes "get_balance s a \<noteq> 0 \<or> bt_contains (balances s) a"
  shows "credit a n (debit a n s) = s"
proof -
  obtain b where b: "bt_get (balances s) a = Some b"
    using assms by (cases "bt_get (balances s) a") (auto simp: get_balance_def bt_get_or_def bt_contains_def)
  then show ?thesis
    by (simp add: credit_def debit_def bt_entry_def bt.ins_ins bt_get_or_def bt.ins_same)
qed

text \<open>
  The native balances summed without wrap-around. While the sum fits in 128 bits, a covered
  transfer is exact: it keeps the sum and takes from nobody but the payer.
\<close>

definition balances_total :: "WorldState \<Rightarrow> int" where
  "balances_total s = bt_sum (\<lambda>_ b. uint b) (balances s)"

lemma bt_sum_nonneg_mono:
  fixes f :: "'k::linorder \<Rightarrow> 'v \<Rightarrow> int"
  assumes "\<And>k v. 0 \<le> f k v" and "bt_get m k = Some v"
  shows "f k v \<le> bt_sum f m"
proof -
  have "(k, v) \<in> set (entries m)" using assms(2) by (simp add: bt.ents_mem)
  then have "f k v \<in> set (map (\<lambda>p. f (fst p) (snd p)) (entries m))" by force
  moreover have "x \<in> set xs \<Longrightarrow> (\<And>y. y \<in> set xs \<Longrightarrow> 0 \<le> y) \<Longrightarrow> x \<le> sum_list xs" for x :: int and xs
    by (induction xs) (auto simp: add_increasing sum_list_nonneg add_increasing2)
  ultimately show ?thesis
    unfolding bt_sum_def using assms(1) by (metis (no_types, lifting) ex_map_conv)
qed

lemma balance_le_total: "uint (get_balance s a) \<le> balances_total s"
proof (cases "bt_get (balances s) a")
  case None
  have "0 \<le> balances_total s"
    by (auto simp: balances_total_def bt_sum_def intro: sum_list_nonneg)
  then show ?thesis using None by (simp add: get_balance_def bt_get_or_def)
next
  case (Some b)
  then show ?thesis
    using bt_sum_nonneg_mono[of "\<lambda>_ b. uint b" "balances s" a b]
    by (simp add: balances_total_def get_balance_def bt_get_or_def)
qed

lemma balances_total_debit:
  "n \<le> get_balance s a \<Longrightarrow> balances_total (debit a n s) = balances_total s - uint n"
  by (simp add: balances_total_def debit_def bt_sum_entry get_balance_def[symmetric] uint_sub_exact)

lemma uint_add_u128: "uint a + uint b < 2 ^ 128 \<Longrightarrow> uint (a + b :: u128) = uint a + uint b"
  using uint_add_lem[of a b] by simp

lemma balances_total_credit:
  "uint (get_balance s a) + uint n < 2 ^ 128 \<Longrightarrow>
    balances_total (credit a n s) = balances_total s + uint n"
  by (simp add: balances_total_def credit_def bt_sum_entry get_balance_def[symmetric] uint_add_u128)

lemma covered_transfer_exact:
  assumes "n \<le> get_balance s a" and "balances_total s < 2 ^ 128"
  shows "balances_total (credit b n (debit a n s)) = balances_total s"
    and "c \<noteq> a \<Longrightarrow> get_balance s c \<le> get_balance (credit b n (debit a n s)) c"
    and "unat (get_balance (credit b n (debit a n s)) a) =
      unat (get_balance s a) - (if b = a then 0 else unat n)"
proof -
  let ?d = "debit a n s"
  have tot: "balances_total ?d = balances_total s - uint n"
    using assms(1) by (rule balances_total_debit)
  have fits: "uint (get_balance ?d b) + uint n < 2 ^ 128"
    using balance_le_total[of ?d b] tot assms(2) by simp
  show "balances_total (credit b n ?d) = balances_total s"
    using balances_total_credit[OF fits] tot by simp
  show "get_balance s c \<le> get_balance (credit b n ?d) c" if "c \<noteq> a"
    using that fits uint_add_u128[of "get_balance s c" n] by (auto simp: word_le_def)
  show "unat (get_balance (credit b n ?d) a) = unat (get_balance s a) - (if b = a then 0 else unat n)"
    using assms(1) by (simp add: unat_sub_exact)
qed

section \<open>The contract of a handler\<close>

locale tx_handler =
  fixes h :: "'r handler"
  assumes frame: "h s tx = (r, s') \<Longrightarrow> engine_frame s s'"
    and conserves: "h s tx = (Inr x, s') \<Longrightarrow> total_supply s' = total_supply s"
    and keeps_inv: "h s tx = (r, s') \<Longrightarrow> world_inv s \<Longrightarrow> world_inv s'"

locale atomic_handler = tx_handler +
  assumes atomic: "world_inv s \<Longrightarrow> h s tx = (Inl e, s') \<Longrightarrow> s' = s"
begin

lemma supply_every_branch: "world_inv s \<Longrightarrow> total_supply (snd (h s tx)) = total_supply s"
  using conserves[of s tx] atomic[of s tx] by (cases "h s tx"; cases "fst (h s tx)") auto

end

locale sender_pays_handler = tx_handler +
  assumes others_keep: "h s tx = (Inr x, s') \<Longrightarrow> a \<noteq> tx_from tx \<Longrightarrow> get_balance s a \<le> get_balance s' a"

section \<open>A concrete instance\<close>

text \<open>
  Concrete parameters and a concrete transaction for the witnesses: every decoder rejects, the
  hash pads to 32 bytes, every signature verifies, and the contract engine finds no free permit.
  A witness overrides the parameters its property is about.
\<close>

definition sample_externals :: externals where
  "sample_externals = \<lparr>
     blake3 = (\<lambda>b. take 32 (b @ replicate 32 0)), vk_from_bytes_ok = (\<lambda>_. True),
     verify_strict = (\<lambda>_ _ _. True), sig_from_slice_ok = (\<lambda>b. length b = 64), hex_encode = (\<lambda>_. ''00''), wasm_compile = (\<lambda>_. Inr []),
     vm_outcome = (\<lambda>_ _ _ _ _ _. NoPermit),
     dec_agent_register = (\<lambda>_. Inl ''short''), dec_token_transfer = (\<lambda>_. Inl ''short''),
     dec_token_create = (\<lambda>_. Inl ''short''), dec_token_mint_transfer = (\<lambda>_. Inl ''short''),
     dec_service_register = (\<lambda>_. Inl ''short''), dec_contract_deploy = (\<lambda>_. Inl ''short''),
     dec_contract_call = (\<lambda>_. Inl ''short''), dec_stake_deposit_legacy = (\<lambda>_. Inl ''short''),
     dec_stake_deposit = (\<lambda>_. Inl ''short''), dec_stake_withdraw = (\<lambda>_. Inl ''short''),
     dec_stake_claim = (\<lambda>_. Inr ()), dec_platform_activity_report = (\<lambda>_. Inl ''short''),
     dec_token_approve = (\<lambda>_. Inl ''short''), dec_token_burn = (\<lambda>_. Inl ''short''),
     dec_change_delegation = (\<lambda>_. Inl ''short''), dec_miner_register = (\<lambda>_. Inl ''short''),
     dec_miner_heartbeat = (\<lambda>_. Inl ''short''), dec_upgrade_announce = (\<lambda>_. Inl ''short''),
     dec_upgrade_execute = (\<lambda>_. Inl ''short''),
     borsh_tx = (\<lambda>tx. to_le_bytes (tx_nonce tx)), borsh_agent = (\<lambda>_. []), borsh_token = (\<lambda>_. []),
     borsh_reputation = (\<lambda>_. []), borsh_service = (\<lambda>_. []), borsh_stats = (\<lambda>_. []),
     borsh_uptime = (\<lambda>_. []), borsh_platform = (\<lambda>_. []), borsh_miner = (\<lambda>_. []),
     borsh_address = (\<lambda>a. a), borsh_tier = (\<lambda>_. []), borsh_string = (\<lambda>_. []),
     borsh_u64 = to_le_bytes, borsh_vec_u8 = (\<lambda>b. b), borsh_bool = (\<lambda>b. [if b then 1 else 0]),
     borsh_u16 = to_le_bytes, borsh_u128 = to_le_bytes\<rparr>"

abbreviation alice :: address where "alice \<equiv> replicate 32 1"
abbreviation bob :: address where "bob \<equiv> replicate 32 2"

definition sample_tx :: Transaction where
  "sample_tx = \<lparr>tx_type = TokenTransfer, tx_from = alice, tx_nonce = 1, tx_payload = [],
     tx_signature = []\<rparr>"

end
