(* ===== verification/Ledger.thy ===== *)
theory Ledger
  imports Handler_Interface
begin

text \<open>
  Ledger transactions (\<open>state/src/handlers.rs\<close>): agents, native transfers, custom tokens,
  services and platform reports, with the laws of the handler interface for each.
\<close>

definition MAX_NAME_LEN :: nat where
  [claw_consts]: "MAX_NAME_LEN = 64"

definition MAX_SYMBOL_LEN :: nat where
  [claw_consts]: "MAX_SYMBOL_LEN = 16"

definition MAX_DESCRIPTION_LEN :: nat where
  [claw_consts]: "MAX_DESCRIPTION_LEN = 1024"

definition MAX_ENDPOINT_LEN :: nat where
  [claw_consts]: "MAX_ENDPOINT_LEN = 512"

definition MAX_METADATA_ENTRIES :: nat where
  [claw_consts]: "MAX_METADATA_ENTRIES = 32"

definition EPOCH_LENGTH :: u64 where
  [claw_consts]: "EPOCH_LENGTH = 100"

definition MAX_ACTION_COUNT_PER_ENTRY :: u32 where
  [claw_consts]: "MAX_ACTION_COUNT_PER_ENTRY = 10000"

section \<open>Handlers\<close>

definition handle_agent_register :: "externals \<Rightarrow> unit handler" where
  "handle_agent_register E state tx =
     (case dec_agent_register E (tx_payload tx) of
        Inl m \<Rightarrow> fail (PayloadDeserialize m) state
      | Inr payload \<Rightarrow>
          if bt_contains (agents state) (tx_from tx) then fail AgentAlreadyRegistered state
          else if arp_name payload = [] \<or> length (arp_name payload) > MAX_NAME_LEN
          then fail (NameTooLong (length (arp_name payload)) MAX_NAME_LEN) state
          else if bt_len (arp_metadata payload) > MAX_METADATA_ENTRIES
          then fail (MetadataTooLarge (bt_len (arp_metadata payload)) MAX_METADATA_ENTRIES) state
          else ok () (state\<lparr>agents := bt_insert (tx_from tx)
                 \<lparr>ai_address = tx_from tx, ai_name = arp_name payload,
                  ai_metadata = arp_metadata payload, ai_registered_at = block_height state\<rparr>
                 (agents state)\<rparr>))"

definition handle_token_transfer :: "externals \<Rightarrow> unit handler" where
  "handle_token_transfer E state tx =
     (case dec_token_transfer E (tx_payload tx) of
        Inl m \<Rightarrow> fail (PayloadDeserialize m) state
      | Inr payload \<Rightarrow>
          if ttp_amount payload = 0 then fail ZeroAmount state
          else
            (let sender_bal = bt_get_or (balances state) 0 (tx_from tx) in
             if sender_bal < ttp_amount payload
             then fail (InsufficientBalance (ttp_amount payload) sender_bal) state
             else
               (let recipient_bal = bt_get_or (balances state) 0 (ttp_to payload) in
                case safe_add recipient_bal (ttp_amount payload) of
                  Inl e \<Rightarrow> fail e state
                | Inr _ \<Rightarrow> ok () (credit (ttp_to payload) (ttp_amount payload)
                              (debit (tx_from tx) (ttp_amount payload) state)))))"

text \<open>The token id of a creation: \<open>blake3(sender || name || nonce)\<close>.\<close>

definition new_token_id :: "externals \<Rightarrow> Transaction \<Rightarrow> TokenCreatePayload \<Rightarrow> hash32" where
  "new_token_id E tx payload =
     blake3 E (tx_from tx @ string_bytes (tcp_name payload) @ to_le_bytes (tx_nonce tx))"

definition handle_token_create :: "externals \<Rightarrow> unit handler" where
  "handle_token_create E state tx =
     (case dec_token_create E (tx_payload tx) of
        Inl m \<Rightarrow> fail (PayloadDeserialize m) state
      | Inr payload \<Rightarrow>
          if \<not> bt_contains (agents state) (tx_from tx) then fail AgentNotRegistered state
          else if tcp_total_supply payload = 0 then fail ZeroSupply state
          else if tcp_name payload = [] \<or> length (tcp_name payload) > MAX_NAME_LEN
          then fail (NameTooLong (length (tcp_name payload)) MAX_NAME_LEN) state
          else if tcp_symbol payload = [] \<or> length (tcp_symbol payload) > MAX_SYMBOL_LEN
          then fail (SymbolTooLong (length (tcp_symbol payload)) MAX_SYMBOL_LEN) state
          else
            (let token_id = new_token_id E tx payload in
             if bt_contains (tokens state) token_id then fail TokenAlreadyExists state
             else ok () (state\<lparr>
                tokens := bt_insert token_id
                  \<lparr>td_id = token_id, td_name = tcp_name payload, td_symbol = tcp_symbol payload,
                   td_decimals = tcp_decimals payload, td_total_supply = tcp_total_supply payload,
                   td_issuer = tx_from tx\<rparr> (tokens state),
                token_balances := bt_insert (tx_from tx, token_id) (tcp_total_supply payload)
                  (token_balances state)\<rparr>)))"

definition handle_token_mint_transfer :: "externals \<Rightarrow> unit handler" where
  "handle_token_mint_transfer E state tx =
     (case dec_token_mint_transfer E (tx_payload tx) of
        Inl m \<Rightarrow> fail (PayloadDeserialize m) state
      | Inr payload \<Rightarrow>
          (let amount = tmp_amount payload; token_id = tmp_token_id payload in
           if amount = 0 then fail ZeroAmount state
           else if token_id = NATIVE_TOKEN_ID then fail NativeTokenIdForCustom state
           else if \<not> bt_contains (tokens state) token_id then fail TokenNotFound state
           else
             (let sender_bal = bt_get_or (token_balances state) 0 (tx_from tx, token_id) in
              if sender_bal < amount then fail (InsufficientBalance amount sender_bal) state
              else
                (let recipient_bal = bt_get_or (token_balances state) 0 (tmp_to payload, token_id) in
                 case safe_add recipient_bal amount of
                   Inl e \<Rightarrow> fail e state
                 | Inr _ \<Rightarrow> ok () (state\<lparr>token_balances :=
                      bt_entry (tmp_to payload, token_id) 0 (\<lambda>b. b + amount)
                        (bt_entry (tx_from tx, token_id) 0 (\<lambda>b. b - amount)
                          (token_balances state))\<rparr>)))))"

text \<open>\<open>ReputationAttest\<close> is disabled: every such transaction is rejected.\<close>

definition handle_reputation_attest :: "unit handler" where
  "handle_reputation_attest state tx =
     fail (StakeError (''ReputationAttest is deprecated '' @ [CHR 0xE2, CHR 0x80, CHR 0x94] @ '' use PlatformActivityReport'')) state"

definition handle_service_register :: "externals \<Rightarrow> unit handler" where
  "handle_service_register E state tx =
     (case dec_service_register E (tx_payload tx) of
        Inl m \<Rightarrow> fail (PayloadDeserialize m) state
      | Inr payload \<Rightarrow>
          if \<not> bt_contains (agents state) (tx_from tx) then fail AgentNotRegistered state
          else if srp_service_type payload = [] \<or> length (srp_service_type payload) > MAX_NAME_LEN
          then fail (NameTooLong (length (srp_service_type payload)) MAX_NAME_LEN) state
          else if length (srp_description payload) > MAX_DESCRIPTION_LEN
          then fail (DescriptionTooLong (length (srp_description payload)) MAX_DESCRIPTION_LEN) state
          else if length (srp_endpoint payload) > MAX_ENDPOINT_LEN
          then fail (EndpointTooLong (length (srp_endpoint payload)) MAX_ENDPOINT_LEN) state
          else ok () (state\<lparr>services := bt_insert (tx_from tx, srp_service_type payload)
                 \<lparr>se_provider = tx_from tx, se_service_type = srp_service_type payload,
                  se_description = srp_description payload, se_price_token = srp_price_token payload,
                  se_price_amount = srp_price_amount payload, se_endpoint = srp_endpoint payload,
                  se_active = srp_active payload\<rparr> (services state)\<rparr>))"

text \<open>The three passes over the reported entries: duplicates, validation, aggregation.\<close>

fun first_duplicate :: "address list \<Rightarrow> ActivityEntry list \<Rightarrow> address option" where
  "first_duplicate seen [] = None"
| "first_duplicate seen (e # es) =
     (if ae_agent e \<in> set seen then Some (ae_agent e)
      else first_duplicate (ae_agent e # seen) es)"

fun validate_entries :: "WorldState \<Rightarrow> ActivityEntry list \<Rightarrow> StateError option" where
  "validate_entries state [] = None"
| "validate_entries state (e # es) =
     (if length (ae_action_type e) > MAX_ACTION_TYPE_LEN
      then Some (ActionTypeTooLong (length (ae_action_type e)) MAX_ACTION_TYPE_LEN)
      else if ae_action_count e > MAX_ACTION_COUNT_PER_ENTRY
      then Some (ActionCountTooHigh (ae_action_count e) MAX_ACTION_COUNT_PER_ENTRY)
      else if \<not> bt_contains (agents state) (ae_agent e) then Some AgentNotRegistered
      else validate_entries state es)"

definition aggregate_entry ::
  "ActivityEntry \<Rightarrow> (address, PlatformActivityAgg) btree \<Rightarrow> (address, PlatformActivityAgg) btree" where
  "aggregate_entry e m = bt_entry (ae_agent e) PlatformActivityAgg_default
     (\<lambda>agg. \<lparr>pa_total_actions = saturating_add (pa_total_actions agg) (ucast (ae_action_count e)),
             pa_platform_count = saturating_add (pa_platform_count agg) 1\<rparr>) m"

definition handle_platform_activity_report :: "externals \<Rightarrow> unit handler" where
  "handle_platform_activity_report E state tx =
     (case dec_platform_activity_report E (tx_payload tx) of
        Inl m \<Rightarrow> fail (PayloadDeserialize m) state
      | Inr payload \<Rightarrow>
          (let reports = prp_reports payload; stake = bt_get_or (stakes state) 0 (tx_from tx);
               current_epoch = block_height state div EPOCH_LENGTH in
           if \<not> bt_contains (agents state) (tx_from tx) then fail AgentNotRegistered state
           else if stake < PLATFORM_AGENT_MIN_STAKE
           then fail (PlatformStakeTooLow PLATFORM_AGENT_MIN_STAKE stake) state
           else if length reports > MAX_ACTIVITY_ENTRIES
           then fail (TooManyActivityEntries (length reports) MAX_ACTIVITY_ENTRIES) state
           else if bt_contains (platform_report_tracker state) (tx_from tx, current_epoch)
           then fail PlatformReportAlreadySubmitted state
           else case first_duplicate [] reports of
               Some a \<Rightarrow> fail (DuplicateAgentInReport (hex_encode E a)) state
             | None \<Rightarrow>
                 (case validate_entries state reports of
                    Some e \<Rightarrow> fail e state
                  | None \<Rightarrow> ok () (state\<lparr>
                      platform_activity := fold aggregate_entry reports (platform_activity state),
                      platform_report_tracker := bt_insert (tx_from tx, current_epoch) True
                        (platform_report_tracker state)\<rparr>))))"

definition handle_token_approve :: "externals \<Rightarrow> unit handler" where
  "handle_token_approve E state tx =
     (case dec_token_approve E (tx_payload tx) of
        Inl m \<Rightarrow> fail (PayloadDeserialize m) state
      | Inr payload \<Rightarrow>
          if tap_token_id payload = NATIVE_TOKEN_ID then fail NativeTokenIdForCustom state
          else if \<not> bt_contains (tokens state) (tap_token_id payload) then fail TokenNotFound state
          else if tap_spender payload = tx_from tx then fail SelfApproval state
          else
            (let key = (tx_from tx, tap_spender payload, tap_token_id payload) in
             if tap_amount payload = 0
             then ok () (state\<lparr>token_allowances := bt_remove key (token_allowances state)\<rparr>)
             else ok () (state\<lparr>token_allowances :=
                    bt_insert key (tap_amount payload) (token_allowances state)\<rparr>)))"

definition handle_token_burn :: "externals \<Rightarrow> unit handler" where
  "handle_token_burn E state tx =
     (case dec_token_burn E (tx_payload tx) of
        Inl m \<Rightarrow> fail (PayloadDeserialize m) state
      | Inr payload \<Rightarrow>
          (let amount = tbp_amount payload; token_id = tbp_token_id payload in
           if amount = 0 then fail ZeroAmount state
           else if token_id = NATIVE_TOKEN_ID then fail NativeTokenIdForCustom state
           else case bt_get (tokens state) token_id of
               None \<Rightarrow> fail TokenNotFound state
             | Some token \<Rightarrow>
                 (let sender_bal = bt_get_or (token_balances state) 0 (tx_from tx, token_id) in
                  if sender_bal < amount then fail (InsufficientBalance amount sender_bal) state
                  else if td_total_supply token < amount
                  then fail (BurnExceedsSupply amount (td_total_supply token)) state
                  else ok () (state\<lparr>
                    token_balances := bt_entry (tx_from tx, token_id) 0 (\<lambda>b. b - amount)
                      (token_balances state),
                    tokens := bt_modify token_id
                      (\<lambda>td. td\<lparr>td_total_supply := td_total_supply td - amount\<rparr>) (tokens state)\<rparr>))))"

section \<open>The handler interface\<close>

text \<open>Registries that neither the supply audit nor the invariant reads.\<close>

lemma registry_updates [simp]:
  "world_inv (s\<lparr>agents := a\<rparr>) = world_inv s"
  "world_inv (s\<lparr>services := b\<rparr>) = world_inv s"
  "world_inv (s\<lparr>token_allowances := c\<rparr>) = world_inv s"
  "world_inv (s\<lparr>platform_activity := d\<rparr>) = world_inv s"
  "world_inv (s\<lparr>platform_report_tracker := e\<rparr>) = world_inv s"
  "engine_frame s0 (s\<lparr>agents := a\<rparr>) = engine_frame s0 s"
  "engine_frame s0 (s\<lparr>services := b\<rparr>) = engine_frame s0 s"
  "engine_frame s0 (s\<lparr>token_allowances := c\<rparr>) = engine_frame s0 s"
  "engine_frame s0 (s\<lparr>platform_activity := d\<rparr>) = engine_frame s0 s"
  "engine_frame s0 (s\<lparr>platform_report_tracker := e\<rparr>) = engine_frame s0 s"
  "total_supply (s\<lparr>agents := a\<rparr>) = total_supply s"
  "total_supply (s\<lparr>services := b\<rparr>) = total_supply s"
  "total_supply (s\<lparr>token_allowances := c\<rparr>) = total_supply s"
  "total_supply (s\<lparr>platform_activity := d\<rparr>) = total_supply s"
  "total_supply (s\<lparr>platform_report_tracker := e\<rparr>) = total_supply s"
  "get_balance (s\<lparr>agents := a\<rparr>) x = get_balance s x"
  "get_balance (s\<lparr>services := b\<rparr>) x = get_balance s x"
  "get_balance (s\<lparr>token_allowances := c\<rparr>) x = get_balance s x"
  "get_balance (s\<lparr>platform_activity := d\<rparr>) x = get_balance s x"
  "get_balance (s\<lparr>platform_report_tracker := e\<rparr>) x = get_balance s x"
  by (simp_all add: world_inv_def inv_defs engine_frame_def supply_defs get_balance_def)

lemma token_updates [simp]:
  "total_supply (s\<lparr>token_balances := m\<rparr>) = total_supply s"
  "total_supply (s\<lparr>tokens := ts\<rparr>) = total_supply s"
  "engine_frame s0 (s\<lparr>token_balances := m\<rparr>) = engine_frame s0 s"
  "engine_frame s0 (s\<lparr>tokens := ts\<rparr>) = engine_frame s0 s"
  "get_balance (s\<lparr>token_balances := m\<rparr>) x = get_balance s x"
  "get_balance (s\<lparr>tokens := ts\<rparr>) x = get_balance s x"
  "staking_inv (s\<lparr>token_balances := m\<rparr>) = staking_inv s"
  "staking_inv (s\<lparr>tokens := ts\<rparr>) = staking_inv s"
  "code_inv (s\<lparr>token_balances := m\<rparr>) = code_inv s"
  "code_inv (s\<lparr>tokens := ts\<rparr>) = code_inv s"
  by (simp_all add: engine_frame_def supply_defs staking_inv_def code_inv_def get_balance_def)

lemmas handler_splits = sum.splits option.splits if_splits

interpretation agent_register: atomic_handler "handle_agent_register E" for E
  by unfold_locales (auto simp: handle_agent_register_def Let_def split: handler_splits)

interpretation reputation_attest: atomic_handler handle_reputation_attest
  by unfold_locales (auto simp: handle_reputation_attest_def)

interpretation service_register: atomic_handler "handle_service_register E" for E
  by unfold_locales (auto simp: handle_service_register_def Let_def split: handler_splits)

interpretation platform_report: atomic_handler "handle_platform_activity_report E" for E
  by unfold_locales (auto simp: handle_platform_activity_report_def Let_def split: handler_splits)

interpretation token_approve: atomic_handler "handle_token_approve E" for E
  by unfold_locales (auto simp: handle_token_approve_def Let_def split: handler_splits)

interpretation token_transfer: atomic_handler "handle_token_transfer E" for E
  by unfold_locales
    (auto simp: handle_token_transfer_def Let_def split: handler_splits intro: engine_frame_trans)

section \<open>Custom tokens\<close>

lemma token_sum_entry:
  "token_sum (s\<lparr>token_balances := bt_entry (a, t) 0 g m\<rparr>) u =
     token_sum (s\<lparr>token_balances := m\<rparr>) u
     + (if u = t then uint (g (bt_get_or m 0 (a, t))) - uint (bt_get_or m 0 (a, t)) else 0)"
  by (auto simp: token_sum_def bt_sum_entry)

lemma token_sum_tokens [simp]: "token_sum (s\<lparr>tokens := ts\<rparr>) u = token_sum s u"
  by (simp add: token_sum_def)

lemma token_sum_ge:
  "uint (bt_get_or (token_balances s) 0 (a, t)) \<le> token_sum s t"
proof -
  have nonneg: "0 \<le> bt_sum (\<lambda>k b. if snd k = t then uint (b :: u128) else 0) m" for m :: "(address \<times> hash32, u128) btree"
    unfolding bt_sum_def by (rule sum_list_nonneg) auto
  show ?thesis
    using nonneg[of "bt_remove (a, t) (token_balances s)"]
    by (auto simp: token_sum_def bt_sum_remove bt_get_or_def split: option.splits)
qed

lemma mint_transfer_accounting:
  assumes "amount \<le> bt_get_or (token_balances s) 0 (from, t)"
    and "safe_add (bt_get_or (token_balances s) 0 (to, t)) amount = Inr v"
  shows "token_accounting (s\<lparr>token_balances := bt_entry (to, t) 0 (\<lambda>b. b + amount)
      (bt_entry (from, t) 0 (\<lambda>b. b - amount) (token_balances s))\<rparr>) = token_accounting s"
proof -
  have add: "uint (bt_get_or (token_balances s) 0 (to, t) + amount) =
      uint (bt_get_or (token_balances s) 0 (to, t)) + uint amount"
    using assms(2) by (auto simp: safe_add_def checked_add_def uint_add_exact split: option.splits if_splits)
  have "token_sum (s\<lparr>token_balances := bt_entry (to, t) 0 (\<lambda>b. b + amount)
      (bt_entry (from, t) 0 (\<lambda>b. b - amount) (token_balances s))\<rparr>) u = token_sum s u" for u
    using assms(1) add by (simp add: token_sum_entry uint_sub_exact)
  then show ?thesis by (simp add: token_accounting_def)
qed

interpretation mint_transfer: atomic_handler "handle_token_mint_transfer E" for E
proof unfold_locales
  fix s tx r s'
  assume run: "handle_token_mint_transfer E s tx = (r, s')" and inv: "world_inv s"
  then show "world_inv s'"
    by (auto simp: handle_token_mint_transfer_def Let_def world_inv_def not_less
        mint_transfer_accounting split: handler_splits)
qed (auto simp: handle_token_mint_transfer_def Let_def split: handler_splits)

lemma create_accounting:
  assumes "token_accounting s" and "bt_get (tokens s) t = None"
  shows "token_accounting (s\<lparr>tokens := bt_insert t td (tokens s),
    token_balances := bt_insert (a, t) (td_total_supply td) (token_balances s)\<rparr>)"
proof -
  have zero: "token_sum s t = 0" using assms by (simp add: token_accounting_def)
  then have old: "bt_get_or (token_balances s) 0 (a, t) = 0"
    using token_sum_ge[of s a t] by (simp add: word_uint_eq_iff order_antisym)
  have "bt_insert (a, t) (td_total_supply td) (token_balances s) =
      bt_entry (a, t) 0 (\<lambda>_. td_total_supply td) (token_balances s)"
    by (simp add: bt_entry_def)
  then have "token_sum (s\<lparr>tokens := bt_insert t td (tokens s),
      token_balances := bt_insert (a, t) (td_total_supply td) (token_balances s)\<rparr>) u =
      token_sum s u + (if u = t then uint (td_total_supply td) else 0)" for u
    using token_sum_entry[where g = "\<lambda>_. td_total_supply td" and m = "token_balances s"] old
    by (simp add: token_sum_def)
  then show ?thesis
    using assms zero by (auto simp: token_accounting_def split: option.splits)
qed

interpretation token_create: atomic_handler "handle_token_create E" for E
proof unfold_locales
  fix s tx r s'
  assume run: "handle_token_create E s tx = (r, s')" and inv: "world_inv s"
  have "token_accounting (s\<lparr>tokens := bt_insert t \<lparr>td_id = i, td_name = n, td_symbol = y, td_decimals = d,
      td_total_supply = q, td_issuer = a\<rparr> (tokens s),
      token_balances := bt_insert (a, t) q (token_balances s)\<rparr>)"
    if "\<not> bt_contains (tokens s) t" for t i n y d q a
    using create_accounting[where td = "\<lparr>td_id = i, td_name = n, td_symbol = y, td_decimals = d,
      td_total_supply = q, td_issuer = a\<rparr>" and a = a] inv that by (simp add: world_inv_def bt_contains_def)
  then show "world_inv s'"
    using run inv by (auto simp: handle_token_create_def Let_def world_inv_def split: handler_splits)
qed (auto simp: handle_token_create_def Let_def split: handler_splits)

lemma burn_accounting:
  assumes "token_accounting s" and "bt_get (tokens s) t = Some td"
    and "amount \<le> bt_get_or (token_balances s) 0 (a, t)" and "amount \<le> td_total_supply td"
  shows "token_accounting (s\<lparr>token_balances := bt_entry (a, t) 0 (\<lambda>b. b - amount) (token_balances s),
    tokens := bt_modify t (\<lambda>td. td\<lparr>td_total_supply := td_total_supply td - amount\<rparr>) (tokens s)\<rparr>)"
proof -
  have "token_sum (s\<lparr>token_balances := bt_entry (a, t) 0 (\<lambda>b. b - amount) (token_balances s)\<rparr>) u =
      token_sum s u - (if u = t then uint amount else 0)" for u
    using assms(3) by (simp add: token_sum_entry uint_sub_exact)
  then show ?thesis
    using assms by (auto simp: token_accounting_def bt_modify_def uint_sub_exact token_sum_def)
qed

interpretation token_burn: atomic_handler "handle_token_burn E" for E
proof unfold_locales
  fix s tx r s'
  assume run: "handle_token_burn E s tx = (r, s')" and inv: "world_inv s"
  then show "world_inv s'"
    by (auto simp: handle_token_burn_def Let_def world_inv_def not_less burn_accounting split: handler_splits)
qed (auto simp: handle_token_burn_def Let_def split: handler_splits)

section \<open>Only the sender pays\<close>

interpretation agent_register: sender_pays_handler "handle_agent_register E" for E
  by unfold_locales (auto simp: handle_agent_register_def Let_def split: handler_splits)

interpretation reputation_attest: sender_pays_handler handle_reputation_attest
  by unfold_locales (auto simp: handle_reputation_attest_def)

interpretation service_register: sender_pays_handler "handle_service_register E" for E
  by unfold_locales (auto simp: handle_service_register_def Let_def split: handler_splits)

interpretation platform_report: sender_pays_handler "handle_platform_activity_report E" for E
  by unfold_locales (auto simp: handle_platform_activity_report_def Let_def split: handler_splits)

interpretation token_approve: sender_pays_handler "handle_token_approve E" for E
  by unfold_locales (auto simp: handle_token_approve_def Let_def split: handler_splits)

interpretation mint_transfer: sender_pays_handler "handle_token_mint_transfer E" for E
  by unfold_locales (auto simp: handle_token_mint_transfer_def Let_def split: handler_splits)

interpretation token_create: sender_pays_handler "handle_token_create E" for E
  by unfold_locales (auto simp: handle_token_create_def Let_def split: handler_splits)

interpretation token_burn: sender_pays_handler "handle_token_burn E" for E
  by unfold_locales (auto simp: handle_token_burn_def Let_def split: handler_splits)

interpretation token_transfer: sender_pays_handler "handle_token_transfer E" for E
proof unfold_locales
  fix s tx x s' a
  assume "handle_token_transfer E s tx = (Inr x, s')" and "a \<noteq> tx_from tx"
  then show "get_balance s a \<le> get_balance s' a"
    by (auto simp: handle_token_transfer_def Let_def simp flip: get_balance_def
        split: handler_splits dest: safe_add_InrD)
qed

end
