(* ===== verification/Staking.thy ===== *)
theory Staking
  imports Handler_Interface
begin

text \<open>
  Staking transactions (\<open>state/src/handlers.rs\<close>): deposits under a validator with a single
  delegation owner, change of the owner, withdrawal into the unbonding queue, and claims.
  Besides the laws of the handler interface the theory shows who may move a stake, what a
  claim pays, and which error branches leave the state changed.
\<close>

section \<open>Handlers\<close>

text \<open>Old payloads are 48 bytes (amount and validator); new ones add the commission.\<close>

definition decode_stake_deposit :: "externals \<Rightarrow> bytes \<Rightarrow> string + (u128 \<times> address \<times> u16)" where
  "decode_stake_deposit E payload =
     (if length payload = 48
      then (case dec_stake_deposit_legacy E payload of
              Inl m \<Rightarrow> Inl m
            | Inr legacy \<Rightarrow> Inr (fst legacy, snd legacy, 10000))
      else (case dec_stake_deposit E payload of
              Inl m \<Rightarrow> Inl m
            | Inr p \<Rightarrow> Inr (sdp_amount p, sdp_validator p, sdp_commission_bps p)))"

definition record_delegation ::
  "address \<Rightarrow> address \<Rightarrow> u128 \<Rightarrow> u16 \<Rightarrow> WorldState \<Rightarrow> WorldState" where
  "record_delegation from validator_addr amount commission_bps state =
     (let existing_owner = bt_get (stake_delegations state) validator_addr;
          user_entry = bt_get_or (user_delegations state) bt_empty from;
          prev_user_stake = bt_get_or user_entry 0 validator_addr
      in state\<lparr>
        stake_delegations := bt_entry validator_addr from (\<lambda>own. own) (stake_delegations state),
        stake_commissions :=
          (if from = validator_addr \<or> existing_owner = None \<or> existing_owner = Some from
           then bt_insert validator_addr commission_bps (stake_commissions state)
           else stake_commissions state),
        user_delegations := bt_insert from
          (bt_insert validator_addr (prev_user_stake + amount) user_entry) (user_delegations state)\<rparr>)"

definition handle_stake_deposit :: "externals \<Rightarrow> unit handler" where
  "handle_stake_deposit E state tx =
     (case decode_stake_deposit E (tx_payload tx) of
        Inl m \<Rightarrow> fail (PayloadDeserialize m) state
      | Inr (amount, validator, commission_bps) \<Rightarrow>
          if amount = 0 then fail ZeroAmount state
          else if commission_bps > 10000
          then fail (StakeError (''commission_bps '' @ show_word commission_bps
                 @ '' exceeds maximum 10000'')) state
          else
            (let sender_bal = bt_get_or (balances state) 0 (tx_from tx) in
             if sender_bal < amount then fail (InsufficientBalance amount sender_bal) state
             else
               (let validator_addr = (if validator = replicate 32 0 then tx_from tx else validator);
                    current_stake = bt_get_or (stakes state) 0 validator_addr in
                case checked_add current_stake amount of
                  None \<Rightarrow> fail (StakeError ''stake overflow'') state
                | Some new_stake \<Rightarrow>
                    if current_stake = 0 \<and> new_stake < MIN_STAKE
                    then fail (StakeError (''initial stake '' @ show_word new_stake
                           @ '' below minimum '' @ show_word MIN_STAKE)) state
                    else
                      (let state1 = (debit (tx_from tx) amount state)
                             \<lparr>stakes := bt_insert validator_addr new_stake (stakes state)\<rparr>;
                           existing_owner = bt_get (stake_delegations state1) validator_addr in
                       if (case existing_owner of
                             Some own \<Rightarrow> tx_from tx \<noteq> own \<and> tx_from tx \<noteq> validator_addr
                           | None \<Rightarrow> False)
                       then fail (StakeError ''validator already has a different delegation owner'')
                              ((credit (tx_from tx) amount state1)
                                \<lparr>stakes := bt_insert validator_addr current_stake (stakes state1)\<rparr>)
                       else ok () (record_delegation (tx_from tx) validator_addr amount
                              commission_bps state1)))))"

definition handle_change_delegation :: "externals \<Rightarrow> unit handler" where
  "handle_change_delegation E state tx =
     (case dec_change_delegation E (tx_payload tx) of
        Inl m \<Rightarrow> fail (PayloadDeserialize m) state
      | Inr payload \<Rightarrow>
          if cgp_commission_bps payload > 10000
          then fail (StakeError (''commission_bps '' @ show_word (cgp_commission_bps payload)
                 @ '' exceeds maximum 10000'')) state
          else if cgp_new_owner payload = cgp_validator payload
          then fail (StakeError
                 ''new_owner cannot be the same as validator (use self-stake instead)'') state
          else if bt_get_or (stakes state) 0 (cgp_validator payload) = 0
          then fail (StakeError ''validator has no active stake'') state
          else
            (let current_delegator =
                   bt_get_or (stake_delegations state) (cgp_validator payload) (cgp_validator payload);
                 is_self_stake = (current_delegator = cgp_validator payload) in
             if tx_from tx \<noteq> current_delegator
                \<and> \<not> (is_self_stake \<and> tx_from tx = cgp_validator payload)
             then fail (StakeError
                    ''not authorized: only the current delegator can change delegation'') state
             else ok () (state\<lparr>
                stake_delegations :=
                  bt_insert (cgp_validator payload) (cgp_new_owner payload) (stake_delegations state),
                stake_commissions :=
                  bt_insert (cgp_validator payload) (cgp_commission_bps payload)
                    (stake_commissions state)\<rparr>)))"

text \<open>Old withdrawal payloads are the 16 bytes of the amount.\<close>

definition decode_stake_withdraw :: "externals \<Rightarrow> bytes \<Rightarrow> string + StakeWithdrawPayload" where
  "decode_stake_withdraw E payload =
     (if length payload = 16
      then Inr \<lparr>swp_amount = from_le_bytes payload, swp_validator = replicate 32 0\<rparr>
      else dec_stake_withdraw E payload)"

text \<open>The validator whose stake a withdrawal draws from, or the authorization error.\<close>

definition withdraw_validator ::
  "WorldState \<Rightarrow> address \<Rightarrow> StakeWithdrawPayload \<Rightarrow> string + address" where
  "withdraw_validator state from payload =
     (if swp_validator payload \<noteq> replicate 32 0
      then if bt_get (stake_delegations state) (swp_validator payload) \<noteq> Some from
              \<and> swp_validator payload \<noteq> from
           then Inl ''not authorized to unstake from this validator''
           else Inr (swp_validator payload)
      else if bt_get_or (stakes state) 0 from > 0 then Inr from
      else case find (\<lambda>p. snd p = from) (entries (stake_delegations state)) of
             Some p \<Rightarrow> Inr (fst p)
           | None \<Rightarrow> Inl ''no stake found for this address (neither direct nor delegated)'')"

definition reduce_stake :: "address \<Rightarrow> u128 \<Rightarrow> WorldState \<Rightarrow> WorldState" where
  "reduce_stake validator_addr remaining state =
     (if remaining = 0
      then state\<lparr>stakes := bt_remove validator_addr (stakes state),
                 stake_delegations := bt_remove validator_addr (stake_delegations state),
                 stake_commissions := bt_remove validator_addr (stake_commissions state)\<rparr>
      else state\<lparr>stakes := bt_insert validator_addr remaining (stakes state)\<rparr>)"

definition untrack_user :: "address \<Rightarrow> address \<Rightarrow> u128 \<Rightarrow> WorldState \<Rightarrow> WorldState" where
  "untrack_user from validator_addr amount state =
     (case bt_get (user_delegations state) from of
        None \<Rightarrow> state
      | Some user_entry \<Rightarrow>
          (let prev = bt_get_or user_entry 0 validator_addr;
               user_remaining = saturating_sub prev amount in
           if user_remaining = 0
           then (let user_entry' = bt_remove validator_addr user_entry in
                 if bt_is_empty user_entry'
                 then state\<lparr>user_delegations := bt_remove from (user_delegations state)\<rparr>
                 else state\<lparr>user_delegations := bt_insert from user_entry' (user_delegations state)\<rparr>)
           else state\<lparr>user_delegations := bt_insert from
                  (bt_insert validator_addr user_remaining user_entry) (user_delegations state)\<rparr>))"

definition MAX_UNBONDING_PER_ADDRESS :: nat where
  [claw_consts]: "MAX_UNBONDING_PER_ADDRESS = 100"

definition handle_stake_withdraw :: "externals \<Rightarrow> unit handler" where
  "handle_stake_withdraw E state tx =
     (case decode_stake_withdraw E (tx_payload tx) of
        Inl m \<Rightarrow> fail (PayloadDeserialize m) state
      | Inr payload \<Rightarrow>
          (let amount = swp_amount payload in
           if amount = 0 then fail ZeroAmount state
           else case withdraw_validator state (tx_from tx) payload of
               Inl m \<Rightarrow> fail (StakeError m) state
             | Inr validator_addr \<Rightarrow>
                 (let current_stake = bt_get_or (stakes state) 0 validator_addr in
                  if amount > current_stake
                  then fail (StakeError (''unstake '' @ show_word amount @ '' exceeds staked amount ''
                         @ show_word current_stake)) state
                  else
                    (let remaining = current_stake - amount in
                     if remaining > 0 \<and> remaining < MIN_STAKE
                     then fail (StakeError (''remaining stake '' @ show_word remaining
                            @ '' would be below minimum '' @ show_word MIN_STAKE
                            @ ''; withdraw all or leave at least '' @ show_word MIN_STAKE)) state
                     else
                       (let state1 = untrack_user (tx_from tx) validator_addr amount
                              (reduce_stake validator_addr remaining state);
                            pending = length (filter (\<lambda>e. ub_address e = validator_addr)
                              (unbonding_queue state1)) in
                        if pending \<ge> MAX_UNBONDING_PER_ADDRESS
                        then fail (StakeError ''too many pending unbonding entries'') state1
                        else ok () (state1\<lparr>unbonding_queue := unbonding_queue state1 @
                               [\<lparr>ub_address = tx_from tx, ub_amount = amount,
                                 ub_release_height = block_height state1 + UNBONDING_PERIOD_BLOCKS\<rparr>]\<rparr>))))))"

text \<open>
  The claim loop over the taken queue: the total claimed so far and the entries kept so far;
  \<open>None\<close> is the overflow error.
\<close>

fun claim_loop :: "address \<Rightarrow> u64 \<Rightarrow> UnbondingEntry list \<Rightarrow> u128 \<Rightarrow> UnbondingEntry list
  \<Rightarrow> (u128 \<times> UnbondingEntry list) option" where
  "claim_loop from current_height [] total_claimed remaining_queue =
     Some (total_claimed, remaining_queue)"
| "claim_loop from current_height (entry # rest) total_claimed remaining_queue =
     (if ub_address entry = from \<and> ub_release_height entry \<le> current_height
      then case checked_add total_claimed (ub_amount entry) of
             None \<Rightarrow> None
           | Some t \<Rightarrow> claim_loop from current_height rest t remaining_queue
      else claim_loop from current_height rest total_claimed (remaining_queue @ [entry]))"

text \<open>\<open>std::mem::take\<close> empties the queue before the loop; the error returns leave it empty.\<close>

definition handle_stake_claim :: "externals \<Rightarrow> unit handler" where
  "handle_stake_claim E state tx =
     (case dec_stake_claim E (tx_payload tx) of
        Inl m \<Rightarrow> fail (PayloadDeserialize m) state
      | Inr _ \<Rightarrow>
          (let taken = state\<lparr>unbonding_queue := []\<rparr> in
           case claim_loop (tx_from tx) (block_height state) (unbonding_queue state) 0 [] of
             None \<Rightarrow> fail (StakeError ''claim overflow'') taken
           | Some (total_claimed, remaining_queue) \<Rightarrow>
               if total_claimed = 0 then fail NoClaimableUnbonding taken
               else ok () (credit (tx_from tx) total_claimed
                      (taken\<lparr>unbonding_queue := remaining_queue\<rparr>))))"

section \<open>The handler interface\<close>

lemma stake_updates [simp]:
  "token_accounting (s\<lparr>stakes := a\<rparr>) = token_accounting s"
  "token_accounting (s\<lparr>stake_delegations := b\<rparr>) = token_accounting s"
  "token_accounting (s\<lparr>stake_commissions := c\<rparr>) = token_accounting s"
  "token_accounting (s\<lparr>user_delegations := d\<rparr>) = token_accounting s"
  "token_accounting (s\<lparr>unbonding_queue := q\<rparr>) = token_accounting s"
  "code_inv (s\<lparr>stakes := a\<rparr>) = code_inv s"
  "code_inv (s\<lparr>stake_delegations := b\<rparr>) = code_inv s"
  "code_inv (s\<lparr>stake_commissions := c\<rparr>) = code_inv s"
  "code_inv (s\<lparr>user_delegations := d\<rparr>) = code_inv s"
  "code_inv (s\<lparr>unbonding_queue := q\<rparr>) = code_inv s"
  "staking_inv (s\<lparr>user_delegations := d\<rparr>) = staking_inv s"
  "staking_inv (s\<lparr>unbonding_queue := q\<rparr>) = staking_inv s"
  "engine_frame s0 (s\<lparr>stakes := a\<rparr>) = engine_frame s0 s"
  "engine_frame s0 (s\<lparr>stake_delegations := b\<rparr>) = engine_frame s0 s"
  "engine_frame s0 (s\<lparr>stake_commissions := c\<rparr>) = engine_frame s0 s"
  "engine_frame s0 (s\<lparr>user_delegations := d\<rparr>) = engine_frame s0 s"
  "engine_frame s0 (s\<lparr>unbonding_queue := q\<rparr>) = engine_frame s0 s"
  "total_supply (s\<lparr>stake_delegations := b\<rparr>) = total_supply s"
  "total_supply (s\<lparr>stake_commissions := c\<rparr>) = total_supply s"
  "total_supply (s\<lparr>user_delegations := d\<rparr>) = total_supply s"
  "get_balance (s\<lparr>stakes := a\<rparr>) x = get_balance s x"
  "get_balance (s\<lparr>stake_delegations := b\<rparr>) x = get_balance s x"
  "get_balance (s\<lparr>stake_commissions := c\<rparr>) x = get_balance s x"
  "get_balance (s\<lparr>user_delegations := d\<rparr>) x = get_balance s x"
  "get_balance (s\<lparr>unbonding_queue := q\<rparr>) x = get_balance s x"
  by (simp_all add: inv_defs engine_frame_def supply_defs get_balance_def)

lemma token_code_inv_balances [simp]:
  "token_accounting (debit a n s) = token_accounting s" "code_inv (debit a n s) = code_inv s"
  "token_accounting (credit a n s) = token_accounting s" "code_inv (credit a n s) = code_inv s"
  "staking_inv (debit a n s) = staking_inv s" "staking_inv (credit a n s) = staking_inv s"
  by (simp_all add: inv_defs)

lemma total_supply_stake_insert:
  "m = stakes s \<Longrightarrow>
    total_supply (s\<lparr>stakes := bt_insert v n m\<rparr>) = total_supply s + n - bt_get_or (stakes s) 0 v"
  by (simp add: supply_defs bt_sum_insert bt_get_or_def split: option.split)

lemma total_supply_stake_remove:
  "m = stakes s \<Longrightarrow>
    total_supply (s\<lparr>stakes := bt_remove v m\<rparr>) = total_supply s - bt_get_or (stakes s) 0 v"
  by (simp add: supply_defs bt_sum_remove bt_get_or_def split: option.split)

lemma total_supply_queue:
  "total_supply (s\<lparr>unbonding_queue := q\<rparr>) =
    total_supply s - sum_list (map ub_amount (unbonding_queue s)) + sum_list (map ub_amount q)"
  by (simp add: supply_defs)

lemma record_delegation_simps [simp]:
  "engine_frame s0 (record_delegation f v n c s) = engine_frame s0 s"
  "total_supply (record_delegation f v n c s) = total_supply s"
  "get_balance (record_delegation f v n c s) a = get_balance s a"
  "token_accounting (record_delegation f v n c s) = token_accounting s"
  "code_inv (record_delegation f v n c s) = code_inv s"
  by (simp_all add: record_delegation_def Let_def)

lemma record_delegation_staking_inv:
  assumes "staking_inv s" and "c \<le> 10000" and "bt_contains (stakes s) v"
  shows "staking_inv (record_delegation f v n c s)"
  using assms by (auto simp: staking_inv_def record_delegation_def Let_def bt_entry_def split: if_splits)

lemma deposit_stake_inv:
  assumes "staking_inv s" and "MIN_STAKE \<le> n"
  shows "staking_inv (s\<lparr>stakes := bt_insert v n (stakes s)\<rparr>)"
  using assms by (auto simp: staking_inv_def)

lemma stake_present:
  assumes "bt_get_or (stakes s) 0 v \<noteq> 0"
  shows "bt_get (stakes s) v = Some (bt_get_or (stakes s) 0 v)"
  using assms by (simp add: bt_get_or_def split: option.splits)

lemma deposit_new_stake_min:
  assumes "staking_inv s" and "checked_add (bt_get_or (stakes s) 0 v) amount = Some n"
    and "\<not> (bt_get_or (stakes s) 0 v = 0 \<and> n < MIN_STAKE)"
  shows "MIN_STAKE \<le> n"
proof (cases "bt_get_or (stakes s) 0 v = 0")
  case False
  then have "MIN_STAKE \<le> bt_get_or (stakes s) 0 v"
    using assms(1) stake_present by (auto simp: staking_inv_def)
  then show ?thesis using checked_add_Some_le[OF assms(2)] by simp
qed (use assms in auto)

text \<open>The refund of a rejected deposit restores the state, given the staking invariant.\<close>

lemma deposit_refund:
  assumes "staking_inv s" and "n \<noteq> 0" and "n \<le> get_balance s a"
    and "bt_get (stake_delegations s) v = Some own"
  shows "(credit a n ((debit a n s)\<lparr>stakes := bt_insert v m (stakes s)\<rparr>))
      \<lparr>stakes := bt_insert v (bt_get_or (stakes s) 0 v) (bt_insert v m (stakes s))\<rparr> = s"
proof -
  obtain k where k: "bt_get (stakes s) v = Some k"
    using assms(1,4) by (auto simp: staking_inv_def bt_contains_def)
  obtain b where b: "bt_get (balances s) a = Some b"
    using assms(2,3) by (auto simp: get_balance_def bt_get_or_def split: option.splits)
  show ?thesis
    using k b by (simp add: credit_def debit_def bt_entry_def bt.ins_ins bt_get_or_def bt.ins_same)
qed

lemma deposit_keeps_staking_inv:
  assumes "staking_inv s" and "checked_add (bt_get_or (stakes s) 0 v) n = Some m"
    and "bt_get_or (stakes s) 0 v = 0 \<longrightarrow> \<not> m < MIN_STAKE" and "c \<le> 10000"
  shows "staking_inv (record_delegation f v n' c ((debit a n s)\<lparr>stakes := bt_insert v m (stakes s)\<rparr>))"
proof (rule record_delegation_staking_inv)
  show "staking_inv ((debit a n s)\<lparr>stakes := bt_insert v m (stakes s)\<rparr>)"
    using deposit_stake_inv[of "debit a n s" m v] deposit_new_stake_min[OF assms(1,2)] assms by simp
qed (use assms in auto)

lemma deposit_atomic:
  assumes "world_inv s" and "handle_stake_deposit E s tx = (Inl e, s')"
  shows "s' = s"
  using assms
  by (auto simp: handle_stake_deposit_def Let_def world_inv_def deposit_refund not_less
      simp flip: get_balance_def split: sum.splits option.splits if_splits)

lemma deposit_success_inv:
  assumes "world_inv s" and "handle_stake_deposit E s tx = (Inr x, s')"
  shows "world_inv s'"
  using assms
  by (auto simp: handle_stake_deposit_def Let_def world_inv_def not_less
      intro!: deposit_keeps_staking_inv split: sum.splits option.splits if_splits)

interpretation stake_deposit: atomic_handler "handle_stake_deposit E" for E
proof unfold_locales
  fix s tx r s'
  assume run: "handle_stake_deposit E s tx = (r, s')"
  show "engine_frame s s'"
    using run by (auto simp: handle_stake_deposit_def Let_def split: sum.splits option.splits if_splits)
next
  fix s tx x s'
  assume run: "handle_stake_deposit E s tx = (Inr x, s')"
  then show "total_supply s' = total_supply s"
    by (auto simp: handle_stake_deposit_def Let_def total_supply_stake_insert dest!: checked_add_SomeD(1)
        split: sum.splits option.splits if_splits)
next
  fix s tx e s'
  assume "world_inv s" and "handle_stake_deposit E s tx = (Inl e, s')"
  then show "s' = s" by (rule deposit_atomic)
next
  fix s tx r s'
  assume "handle_stake_deposit E s tx = (r, s')" and "world_inv s"
  then show "world_inv s'"
    using deposit_atomic[of s E tx] deposit_success_inv[of s E tx] by (cases r) blast+
qed

interpretation stake_deposit: sender_pays_handler "handle_stake_deposit E" for E
  by unfold_locales
    (auto simp: handle_stake_deposit_def Let_def split: sum.splits option.splits if_splits)

interpretation change_delegation: atomic_handler "handle_change_delegation E" for E
proof unfold_locales
  fix s tx r s'
  assume run: "handle_change_delegation E s tx = (r, s')" and inv: "world_inv s"
  show "world_inv s'"
    using run inv
    by (auto simp: handle_change_delegation_def Let_def world_inv_def staking_inv_def not_less
        bt_contains_def dest: stake_present split: sum.splits if_splits)
qed (auto simp: handle_change_delegation_def Let_def split: sum.splits if_splits)

interpretation change_delegation: sender_pays_handler "handle_change_delegation E" for E
  by unfold_locales (auto simp: handle_change_delegation_def Let_def split: sum.splits if_splits)

lemma reduce_stake_simps [simp]:
  "engine_frame s0 (reduce_stake v n s) = engine_frame s0 s"
  "get_balance (reduce_stake v n s) a = get_balance s a"
  "token_accounting (reduce_stake v n s) = token_accounting s"
  "code_inv (reduce_stake v n s) = code_inv s"
  "unbonding_queue (reduce_stake v n s) = unbonding_queue s"
  "block_height (reduce_stake v n s) = block_height s"
  by (simp_all add: reduce_stake_def)

lemma untrack_user_simps [simp]:
  "engine_frame s0 (untrack_user f v n s) = engine_frame s0 s"
  "get_balance (untrack_user f v n s) a = get_balance s a"
  "token_accounting (untrack_user f v n s) = token_accounting s"
  "code_inv (untrack_user f v n s) = code_inv s"
  "staking_inv (untrack_user f v n s) = staking_inv s"
  "total_supply (untrack_user f v n s) = total_supply s"
  "unbonding_queue (untrack_user f v n s) = unbonding_queue s"
  "block_height (untrack_user f v n s) = block_height s"
  "stakes (untrack_user f v n s) = stakes s"
  by (simp_all add: untrack_user_def Let_def split: option.split)

lemma total_supply_reduce_stake:
  "total_supply (reduce_stake v n s) = total_supply s + n - bt_get_or (stakes s) 0 v"
  by (simp add: reduce_stake_def total_supply_stake_insert total_supply_stake_remove)

lemma reduce_stake_inv:
  assumes "staking_inv s" and "n = 0 \<or> MIN_STAKE \<le> n"
  shows "staking_inv (reduce_stake v n s)"
  using assms by (auto simp: staking_inv_def reduce_stake_def bt_contains_def)

lemma stakes_reduce_stake:
  "bt_get (stakes (reduce_stake v n s)) w =
     (if w = v then if n = 0 then None else Some n else bt_get (stakes s) w)"
  "bt_get_or (stakes (reduce_stake v n s)) 0 w = (if w = v then n else bt_get_or (stakes s) 0 w)"
  by (simp_all add: reduce_stake_def)

lemma withdraw_validator_owner:
  assumes "withdraw_validator s from p = Inr v"
  shows "v = from \<or> bt_get (stake_delegations s) v = Some from"
proof -
  have "bt_get (stake_delegations s) (fst q) = Some from"
    if "find (\<lambda>q. snd q = from) (entries (stake_delegations s)) = Some q" for q
  proof -
    have "q \<in> set (entries (stake_delegations s))" and "snd q = from"
      using that by (auto simp: find_Some_iff)
    then show ?thesis by (metis bt.ents_mem prod.collapse)
  qed
  then show ?thesis
    using assms by (auto simp: withdraw_validator_def split: if_splits option.splits)
qed

interpretation stake_withdraw: sender_pays_handler "handle_stake_withdraw E" for E
proof unfold_locales
  fix s tx r s'
  assume run: "handle_stake_withdraw E s tx = (r, s')" and inv: "world_inv s"
  show "world_inv s'"
    using run inv
    by (auto simp: handle_stake_withdraw_def Let_def world_inv_def word_neq_0_conv not_less
        intro!: reduce_stake_inv split: sum.splits if_splits)
next
  fix s tx x s'
  assume run: "handle_stake_withdraw E s tx = (Inr x, s')"
  then show "total_supply s' = total_supply s"
    by (auto simp: handle_stake_withdraw_def Let_def total_supply_queue total_supply_reduce_stake
        split: sum.splits if_splits)
qed (auto simp: handle_stake_withdraw_def Let_def split: sum.splits if_splits)

text \<open>What the claim loop computes: the sum of the matured entries of the sender.\<close>

definition claimable :: "address \<Rightarrow> u64 \<Rightarrow> UnbondingEntry \<Rightarrow> bool" where
  "claimable from height e \<longleftrightarrow> ub_address e = from \<and> ub_release_height e \<le> height"

definition claim_sum :: "address \<Rightarrow> u64 \<Rightarrow> UnbondingEntry list \<Rightarrow> nat" where
  "claim_sum from height q = sum_list (map (unat \<circ> ub_amount) (filter (claimable from height) q))"

lemma claim_loop_step:
  "claim_loop from h (e # q) t r =
     (if claimable from h e
      then Option.bind (checked_add t (ub_amount e)) (\<lambda>t. claim_loop from h q t r)
      else claim_loop from h q t (r @ [e]))"
  by (simp add: claimable_def split: option.split)

lemma claim_sum_simps [simp]:
  "claim_sum from h [] = 0"
  "claim_sum from h (e # q) =
     (if claimable from h e then unat (ub_amount e) + claim_sum from h q else claim_sum from h q)"
  by (simp_all add: claim_sum_def)

lemma claim_loop_total:
  "claim_loop from h q t r =
     (if unat t + claim_sum from h q < 2 ^ 128
      then Some (t + of_nat (claim_sum from h q), r @ filter (\<lambda>e. \<not> claimable from h e) q) else None)"
proof (induction q arbitrary: t r)
  case (Cons e q)
  show ?case
  proof (cases "claimable from h e \<and> unat t + unat (ub_amount e) < 2 ^ 128")
    case True
    then have "unat (t + ub_amount e) = unat t + unat (ub_amount e)"
      by (intro unat_add_exact) simp
    with True show ?thesis
      by (simp add: claim_loop_step Cons.IH checked_add_def add.assoc del: claim_loop.simps(2))
  next
    case False
    then show ?thesis
      by (auto simp: claim_loop_step Cons.IH checked_add_def simp del: claim_loop.simps(2))
  qed
qed simp

lemma claim_split_sum:
  "sum_list (map ub_amount (filter (\<lambda>e. \<not> claimable from h e) q)) + of_nat (claim_sum from h q)
     = sum_list (map ub_amount q)"
  by (induction q) (simp_all add: algebra_simps)

interpretation stake_claim: tx_handler "handle_stake_claim E" for E
proof unfold_locales
  fix s tx x s'
  assume run: "handle_stake_claim E s tx = (Inr x, s')"
  then show "total_supply s' = total_supply s"
    by (auto simp: handle_stake_claim_def Let_def total_supply_queue claim_loop_total
        claim_split_sum split: sum.splits option.splits if_splits)
qed (auto simp: handle_stake_claim_def Let_def world_inv_def split: sum.splits option.splits if_splits)

interpretation stake_claim: sender_pays_handler "handle_stake_claim E" for E
  by unfold_locales
    (auto simp: handle_stake_claim_def Let_def split: sum.splits option.splits if_splits)

section \<open>Properties\<close>

text \<open>
  What a claim does, on every branch: it pays the sender exactly the sum of the sender's
  matured entries and keeps every other entry in order; when nothing is claimable, or the sum
  does not fit in 128 bits, it fails and leaves the unbonding queue of everybody empty.
\<close>

theorem stake_claim_exact:
  "handle_stake_claim E s tx =
     (case dec_stake_claim E (tx_payload tx) of
        Inl m \<Rightarrow> fail (PayloadDeserialize m) s
      | Inr _ \<Rightarrow>
          let due = claim_sum (tx_from tx) (block_height s) (unbonding_queue s) in
          if 2 ^ 128 \<le> due then fail (StakeError ''claim overflow'') (s\<lparr>unbonding_queue := []\<rparr>)
          else if due = 0 then fail NoClaimableUnbonding (s\<lparr>unbonding_queue := []\<rparr>)
          else ok () (credit (tx_from tx) (of_nat due)
                 (s\<lparr>unbonding_queue := filter (\<lambda>e. \<not> claimable (tx_from tx) (block_height s) e)
                      (unbonding_queue s)\<rparr>)))"
  by (auto simp: handle_stake_claim_def Let_def claim_loop_total of_nat_u128_eq_0
      split: sum.split)

text \<open>
  A claim with nothing claimable destroys the pending unbonding entries of every account:
  the supply audited by \<open>total_supply\<close> drops by all that was unbonding.
\<close>

theorem failed_claim_destroys_unbonding:
  assumes "handle_stake_claim E s tx = (Inl NoClaimableUnbonding, s')"
  shows "unbonding_queue s' = [] \<and> balances s' = balances s
    \<and> total_supply s' = total_supply s - total_unbonding s"
  using assms
  by (auto simp: handle_stake_claim_def Let_def total_supply_queue total_unbonding_def
      split: sum.splits option.splits if_splits)

theorem failed_claim_destroys_unbonding_witness:
  "let s = WorldState_default\<lparr>unbonding_queue := [\<lparr>ub_address = bob, ub_amount = 5, ub_release_height = 9\<rparr>]\<rparr>;
       s' = snd (handle_stake_claim sample_externals s sample_tx)
   in total_unbonding s = 5 \<and> unbonding_queue s' = [] \<and> total_supply s' = total_supply s - 5"
proof -
  let ?s = "WorldState_default\<lparr>unbonding_queue := [\<lparr>ub_address = bob, ub_amount = 5, ub_release_height = 9\<rparr>]\<rparr>"
  have run: "handle_stake_claim sample_externals ?s sample_tx
      = (Inl NoClaimableUnbonding, ?s\<lparr>unbonding_queue := []\<rparr>)"
    by (simp add: handle_stake_claim_def sample_externals_def sample_tx_def WorldState_default_def)
  show ?thesis
    using failed_claim_destroys_unbonding[OF run] by (simp add: run Let_def total_unbonding_def)
qed

text \<open>
  Only the validator itself or its recorded delegation owner can withdraw a stake. A
  successful withdrawal takes a positive amount from exactly one stake and appends one
  unbonding entry, payable to the sender after the unbonding period.
\<close>

theorem stake_withdraw_authorized:
  assumes "handle_stake_withdraw E s tx = (Inr x, s')"
  shows "\<exists>v n. (v = tx_from tx \<or> bt_get (stake_delegations s) v = Some (tx_from tx))
    \<and> 0 < n \<and> n \<le> bt_get_or (stakes s) 0 v
    \<and> bt_get_or (stakes s') 0 v = bt_get_or (stakes s) 0 v - n
    \<and> (\<forall>w. w \<noteq> v \<longrightarrow> bt_get (stakes s') w = bt_get (stakes s) w)
    \<and> unbonding_queue s' = unbonding_queue s @ [\<lparr>ub_address = tx_from tx, ub_amount = n,
         ub_release_height = block_height s + UNBONDING_PERIOD_BLOCKS\<rparr>]"
proof -
  obtain p v where p: "decode_stake_withdraw E (tx_payload tx) = Inr p"
    and v: "withdraw_validator s (tx_from tx) p = Inr v"
    and n: "0 < swp_amount p" "swp_amount p \<le> bt_get_or (stakes s) 0 v"
    and s': "s' = (let s1 = untrack_user (tx_from tx) v (swp_amount p)
          (reduce_stake v (bt_get_or (stakes s) 0 v - swp_amount p) s) in
        s1\<lparr>unbonding_queue := unbonding_queue s1 @ [\<lparr>ub_address = tx_from tx, ub_amount = swp_amount p,
             ub_release_height = block_height s1 + UNBONDING_PERIOD_BLOCKS\<rparr>]\<rparr>)"
    using assms
    by (auto simp: handle_stake_withdraw_def Let_def word_neq_0_conv not_less split: sum.splits if_splits)
  have "v = tx_from tx \<or> bt_get (stake_delegations s) v = Some (tx_from tx)"
    using withdraw_validator_owner[OF v] .
  then show ?thesis
    using n by (intro exI[of _ v] exI[of _ "swp_amount p"]) (simp add: s' Let_def stakes_reduce_stake)
qed

text \<open>
  At the cap of pending entries the withdrawal is rejected only after the stake has been
  taken off: the sender gets an error and the withdrawn amount leaves the supply.
\<close>

theorem stake_withdraw_cap_loses_stake:
  assumes "decode_stake_withdraw E (tx_payload tx) = Inr p"
    and "withdraw_validator s (tx_from tx) p = Inr v"
    and "0 < swp_amount p" and "swp_amount p = bt_get_or (stakes s) 0 v"
    and "100 \<le> length (filter (\<lambda>e. ub_address e = v) (unbonding_queue s))"
  shows "fst (handle_stake_withdraw E s tx) = Inl (StakeError ''too many pending unbonding entries'')
    \<and> bt_get (stakes (snd (handle_stake_withdraw E s tx))) v = None
    \<and> total_supply (snd (handle_stake_withdraw E s tx)) = total_supply s - swp_amount p"
proof -
  have run: "handle_stake_withdraw E s tx =
      (Inl (StakeError ''too many pending unbonding entries''),
       untrack_user (tx_from tx) v (swp_amount p) (reduce_stake v 0 s))"
    using assms by (simp add: handle_stake_withdraw_def Let_def word_neq_0_conv MAX_UNBONDING_PER_ADDRESS_def)
  show ?thesis
    unfolding run using assms(4) by (simp add: stakes_reduce_stake total_supply_reduce_stake)
qed

theorem stake_withdraw_cap_loses_stake_witness:
  "let E = sample_externals\<lparr>dec_stake_withdraw := (\<lambda>_. Inr \<lparr>swp_amount = 7, swp_validator = alice\<rparr>)\<rparr>;
       s = WorldState_default\<lparr>stakes := bt_insert alice 7 bt_empty,
             unbonding_queue := replicate 100 \<lparr>ub_address = alice, ub_amount = 1, ub_release_height = 9\<rparr>\<rparr>
   in fst (handle_stake_withdraw E s sample_tx) = Inl (StakeError ''too many pending unbonding entries'')
    \<and> total_supply (snd (handle_stake_withdraw E s sample_tx)) = total_supply s - 7"
proof -
  let ?E = "sample_externals\<lparr>dec_stake_withdraw := (\<lambda>_. Inr \<lparr>swp_amount = 7, swp_validator = alice\<rparr>)\<rparr>"
  let ?s = "WorldState_default\<lparr>stakes := bt_insert alice 7 bt_empty,
     unbonding_queue := replicate 100 \<lparr>ub_address = alice, ub_amount = 1, ub_release_height = 9\<rparr>\<rparr>"
  let ?p = "\<lparr>swp_amount = 7, swp_validator = alice\<rparr>"
  have "decode_stake_withdraw ?E (tx_payload sample_tx) = Inr ?p"
    and "withdraw_validator ?s (tx_from sample_tx) ?p = Inr alice"
    by (simp_all add: decode_stake_withdraw_def withdraw_validator_def sample_tx_def)
  from stake_withdraw_cap_loses_stake[OF this] show ?thesis
    by (simp add: Let_def)
qed

theorem stake_withdraw_authorized_witness:
  "let E = sample_externals\<lparr>dec_stake_withdraw := (\<lambda>_. Inr \<lparr>swp_amount = 7, swp_validator = alice\<rparr>)\<rparr>;
       s = WorldState_default\<lparr>stakes := bt_insert alice 7 bt_empty\<rparr>
   in \<exists>v n. bt_get_or (stakes (snd (handle_stake_withdraw E s sample_tx))) 0 v = bt_get_or (stakes s) 0 v - n \<and> 0 < n"
proof -
  let ?E = "sample_externals\<lparr>dec_stake_withdraw := (\<lambda>_. Inr \<lparr>swp_amount = 7, swp_validator = alice\<rparr>)\<rparr>"
  let ?s = "WorldState_default\<lparr>stakes := bt_insert alice 7 bt_empty\<rparr>"
  have "fst (handle_stake_withdraw ?E ?s sample_tx) = Inr ()"
    by (simp add: handle_stake_withdraw_def Let_def decode_stake_withdraw_def withdraw_validator_def
        sample_tx_def claw_consts) (simp add: WorldState_default_def)
  then have "handle_stake_withdraw ?E ?s sample_tx = (Inr (), snd (handle_stake_withdraw ?E ?s sample_tx))"
    by (metis prod.collapse)
  from stake_withdraw_authorized[OF this] show ?thesis unfolding Let_def by blast
qed

end
