(* ===== verification/Mining_Tx.thy ===== *)
theory Mining_Tx
  imports Ledger
begin

text \<open>
  Miner transactions (\<open>state/src/handlers.rs\<close>): registration with the per-subnet limit, and the
  heartbeat with its three protocol versions, selected by the block height. Shown: the laws of
  the handler interface, that the limit of miners per subnet is an invariant, and that an epoch
  admits one heartbeat of a miner.
\<close>

section \<open>Handlers\<close>

definition same_subnet_count :: "bytes \<Rightarrow> WorldState \<Rightarrow> nat" where
  "same_subnet_count ip_prefix state =
     length (filter (\<lambda>m. mi_ip_prefix m = ip_prefix) (bt_values (miners state)))"

definition handle_miner_register :: "externals \<Rightarrow> unit handler" where
  "handle_miner_register E state tx =
     (case dec_miner_register E (tx_payload tx) of
        Inl m \<Rightarrow> fail (PayloadDeserialize m) state
      | Inr payload \<Rightarrow>
          if bt_contains (miners state) (tx_from tx) then fail MinerAlreadyRegistered state
          else if mrp_tier payload \<noteq> 1 then fail (InvalidMinerTier (mrp_tier payload)) state
          else if mrp_name payload = [] \<or> length (mrp_name payload) > MAX_NAME_LEN
          then fail (MinerNameTooLong (length (mrp_name payload)) MAX_NAME_LEN) state
          else if length (mrp_ip_addr payload) \<noteq> 4 \<and> length (mrp_ip_addr payload) \<noteq> 16
          then fail (InvalidIpLength (length (mrp_ip_addr payload))) state
          else
            (let ip_prefix = take 3 (mrp_ip_addr payload) in
             if same_subnet_count ip_prefix state \<ge> MAX_MINERS_PER_SUBNET
             then fail (SubnetLimitReached MAX_MINERS_PER_SUBNET) state
             else
               (let v3_active = (block_height state \<ge> CHECKIN_V3_HEIGHT) in
                ok () (state\<lparr>miners := bt_insert (tx_from tx)
                  \<lparr>mi_address = tx_from tx, mi_tier = Online, mi_name = mrp_name payload,
                   mi_registered_at = block_height state,
                   mi_last_heartbeat = (if v3_active then 0 else block_height state),
                   mi_ip_prefix = ip_prefix, mi_active = (\<not> v3_active),
                   mi_reputation_bps = REPUTATION_NEWCOMER_BPS, mi_pending_rewards = 0,
                   mi_pending_epoch = 0, mi_epoch_attendance = 0, mi_consecutive_misses = 0,
                   mi_last_checkin_epoch = 0\<rparr> (miners state)\<rparr>))))"

text \<open>The V2 branch: one check-in per epoch.\<close>

definition heartbeat_v2 :: "WorldState \<Rightarrow> Transaction \<Rightarrow> MinerInfo \<Rightarrow> unit outcome" where
  "heartbeat_v2 state tx miner =
     (let current_epoch = block_height state div MINER_EPOCH_LENGTH;
          last_epoch = mi_last_heartbeat miner div MINER_EPOCH_LENGTH in
      if last_epoch \<ge> current_epoch
      then fail (HeartbeatTooEarly ((current_epoch + 1) * MINER_EPOCH_LENGTH) (block_height state)) state
      else if bt_contains (epoch_checkins state) (tx_from tx)
      then fail (HeartbeatTooEarly ((current_epoch + 1) * MINER_EPOCH_LENGTH) (block_height state)) state
      else
        (let v1_window = block_height state div MINER_HEARTBEAT_INTERVAL_V1 in
         ok () (state\<lparr>
           miners := bt_insert (tx_from tx) (miner\<lparr>mi_last_heartbeat := block_height state\<rparr>) (miners state),
           epoch_checkins := bt_insert (tx_from tx) True (epoch_checkins state),
           miner_heartbeat_tracker :=
             bt_insert (tx_from tx, v1_window) True (miner_heartbeat_tracker state)\<rparr>)))"

text \<open>The V1 branch: an interval between heartbeats, and a reputation that follows the age.\<close>

definition reputation_of_age :: "u64 \<Rightarrow> u16" where
  "reputation_of_age age =
     (if age \<ge> BLOCKS_30_DAYS then REPUTATION_VETERAN_BPS
      else if age \<ge> BLOCKS_7_DAYS then REPUTATION_ESTABLISHED_BPS
      else REPUTATION_NEWCOMER_BPS)"

definition heartbeat_v1 :: "WorldState \<Rightarrow> Transaction \<Rightarrow> MinerInfo \<Rightarrow> unit outcome" where
  "heartbeat_v1 state tx miner =
     (let next_allowed = mi_last_heartbeat miner + MINER_HEARTBEAT_INTERVAL_V1;
          window = block_height state div MINER_HEARTBEAT_INTERVAL_V1 in
      if block_height state < next_allowed
      then fail (HeartbeatTooEarly next_allowed (block_height state)) state
      else if bt_contains (miner_heartbeat_tracker state) (tx_from tx, window)
      then fail (HeartbeatTooEarly next_allowed (block_height state)) state
      else
        (let age = saturating_sub (block_height state) (mi_registered_at miner) in
         ok () (state\<lparr>
           miners := bt_insert (tx_from tx)
             (miner\<lparr>mi_last_heartbeat := block_height state, mi_active := True,
                mi_reputation_bps := reputation_of_age age\<rparr>) (miners state),
           miner_heartbeat_tracker :=
             bt_insert (tx_from tx, window) True (miner_heartbeat_tracker state)\<rparr>)))"

definition handle_miner_heartbeat :: "externals \<Rightarrow> unit handler" where
  "handle_miner_heartbeat E state tx =
     (if block_height state \<ge> CHECKIN_V3_HEIGHT then fail HeartbeatDeprecated state
      else case dec_miner_heartbeat E (tx_payload tx) of
        Inl m \<Rightarrow> fail (PayloadDeserialize m) state
      | Inr _ \<Rightarrow>
          (case bt_get (miners state) (tx_from tx) of
             None \<Rightarrow> fail MinerNotRegistered state
           | Some miner \<Rightarrow>
               if block_height state \<ge> HEARTBEAT_V2_HEIGHT
               then heartbeat_v2 state tx miner
               else heartbeat_v1 state tx miner))"

lemmas heartbeat_defs = handle_miner_heartbeat_def heartbeat_v1_def heartbeat_v2_def Let_def

section \<open>The handler interface\<close>

lemma miner_updates [simp]:
  "world_inv (s\<lparr>miners := m\<rparr>) = world_inv s"
  "world_inv (s\<lparr>epoch_checkins := c\<rparr>) = world_inv s"
  "world_inv (s\<lparr>miner_heartbeat_tracker := t\<rparr>) = world_inv s"
  "engine_frame s0 (s\<lparr>miners := m\<rparr>) = engine_frame s0 s"
  "engine_frame s0 (s\<lparr>epoch_checkins := c\<rparr>) = engine_frame s0 s"
  "engine_frame s0 (s\<lparr>miner_heartbeat_tracker := t\<rparr>) = engine_frame s0 s"
  "total_supply (s\<lparr>epoch_checkins := c\<rparr>) = total_supply s"
  "total_supply (s\<lparr>miner_heartbeat_tracker := t\<rparr>) = total_supply s"
  "get_balance (s\<lparr>miners := m\<rparr>) a = get_balance s a"
  "get_balance (s\<lparr>epoch_checkins := c\<rparr>) a = get_balance s a"
  "get_balance (s\<lparr>miner_heartbeat_tracker := t\<rparr>) a = get_balance s a"
  by (simp_all add: world_inv_def inv_defs engine_frame_def supply_defs get_balance_def)

lemma total_supply_miner_insert:
  "total_supply (s\<lparr>miners := bt_insert k m (miners s)\<rparr>) = total_supply s + mi_pending_rewards m
     - (case bt_get (miners s) k of None \<Rightarrow> 0 | Some m0 \<Rightarrow> mi_pending_rewards m0)"
  by (simp add: supply_defs bt_sum_insert split: option.split)

interpretation miner_register: atomic_handler "handle_miner_register E" for E
  by unfold_locales
    (auto simp: handle_miner_register_def Let_def total_supply_miner_insert bt_contains_def
      split: sum.splits if_splits option.splits)

interpretation miner_register: sender_pays_handler "handle_miner_register E" for E
  by unfold_locales
    (auto simp: handle_miner_register_def Let_def split: sum.splits if_splits)

interpretation miner_heartbeat: atomic_handler "handle_miner_heartbeat E" for E
  by unfold_locales
    (auto simp: heartbeat_defs total_supply_miner_insert split: sum.splits if_splits option.splits)

interpretation miner_heartbeat: sender_pays_handler "handle_miner_heartbeat E" for E
  by unfold_locales (auto simp: heartbeat_defs split: sum.splits if_splits option.splits)

section \<open>Properties\<close>

lemma length_filter_sum_list:
  "int (length (filter P xs)) = sum_list (map (\<lambda>x. if P x then 1 else 0) xs)"
  by (induction xs) auto

lemma same_subnet_count_sum:
  "int (same_subnet_count p s) = bt_sum (\<lambda>_ m. if mi_ip_prefix m = p then 1 else 0) (miners s)"
  by (simp add: same_subnet_count_def bt_sum_def bt_values_def filter_map length_filter_sum_list comp_def)

lemma same_subnet_count_insert:
  "same_subnet_count p (s\<lparr>miners := bt_insert k m (miners s)\<rparr>) + (case bt_get (miners s) k of
       None \<Rightarrow> 0 | Some m0 \<Rightarrow> if mi_ip_prefix m0 = p then 1 else 0)
   = same_subnet_count p s + (if mi_ip_prefix m = p then 1 else 0)"
proof -
  have "int (same_subnet_count p (s\<lparr>miners := bt_insert k m (miners s)\<rparr>)) = int (same_subnet_count p s)
      + (if mi_ip_prefix m = p then 1 else 0) - (case bt_get (miners s) k of
       None \<Rightarrow> 0 | Some m0 \<Rightarrow> if mi_ip_prefix m0 = p then 1 else 0)"
    by (simp add: same_subnet_count_sum bt_sum_insert split: option.split)
  then show ?thesis by (auto split: option.splits if_splits)
qed

lemma same_subnet_count_update:
  assumes "bt_get (miners s) k = Some m0" and "mi_ip_prefix m = mi_ip_prefix m0"
  shows "same_subnet_count p (s\<lparr>miners := bt_insert k m (miners s)\<rparr>) = same_subnet_count p s"
  using same_subnet_count_insert[where p = p and s = s and k = k and m = m] assms by simp

lemma same_subnet_count_other [simp]:
  "same_subnet_count p (s\<lparr>epoch_checkins := c\<rparr>) = same_subnet_count p s"
  "same_subnet_count p (s\<lparr>miner_heartbeat_tracker := t\<rparr>) = same_subnet_count p s"
  by (simp_all add: same_subnet_count_def)

text \<open>
  The limit of three miners per /24 subnet is an invariant: a registration, successful or
  not, keeps every subnet within the limit, and a heartbeat changes no count at all.
\<close>

theorem subnet_limit_invariant:
  assumes "\<forall>p. same_subnet_count p s \<le> 3"
  shows "(\<forall>p. same_subnet_count p (snd (handle_miner_register E s tx)) \<le> 3)
    \<and> (\<forall>p. same_subnet_count p (snd (handle_miner_heartbeat E s tx)) = same_subnet_count p s)"
proof (intro conjI allI)
  fix p
  show "same_subnet_count p (snd (handle_miner_register E s tx)) \<le> 3"
    using assms same_subnet_count_insert[where p = p and s = s and k = "tx_from tx"]
    by (auto simp: handle_miner_register_def Let_def bt_contains_def MAX_MINERS_PER_SUBNET_def
        split: sum.split option.splits)
  show "same_subnet_count p (snd (handle_miner_heartbeat E s tx)) = same_subnet_count p s"
    by (auto simp: heartbeat_defs same_subnet_count_update split: sum.split option.split)
qed

theorem subnet_limit_invariant_witness:
  "(\<forall>p. same_subnet_count p WorldState_default \<le> 3)
   \<and> (\<forall>p. same_subnet_count p (snd (handle_miner_register sample_externals WorldState_default sample_tx)) \<le> 3)"
proof -
  have "\<forall>p. same_subnet_count p WorldState_default \<le> 3"
    by (simp add: same_subnet_count_def WorldState_default_def bt_values_def)
  from this subnet_limit_invariant[OF this] show ?thesis by blast
qed

text \<open>
  Between the V2 and V3 activation heights a miner gets one heartbeat per epoch: after a
  successful one, every further heartbeat of that miner at a height of the same epoch is
  rejected as too early.
\<close>

theorem heartbeat_once_per_epoch:
  assumes "handle_miner_heartbeat E s tx = (Inr x, s')"
    and "225900 \<le> block_height s" and "225900 \<le> h" and "h < 280500"
    and "h div 100 = block_height s div 100"
    and "tx_from tx' = tx_from tx" and "dec_miner_heartbeat E (tx_payload tx') = Inr q"
  shows "fst (handle_miner_heartbeat E (s'\<lparr>block_height := h\<rparr>) tx')
    = Inl (HeartbeatTooEarly ((h div 100 + 1) * 100) h)"
proof -
  obtain m where "s' = s\<lparr>miners := bt_insert (tx_from tx) (m\<lparr>mi_last_heartbeat := block_height s\<rparr>) (miners s),
      epoch_checkins := bt_insert (tx_from tx) True (epoch_checkins s),
      miner_heartbeat_tracker := bt_insert (tx_from tx, block_height s div MINER_HEARTBEAT_INTERVAL_V1) True
        (miner_heartbeat_tracker s)\<rparr>"
    using assms(1,2)
    by (auto simp: heartbeat_defs HEARTBEAT_V2_HEIGHT_def split: sum.splits option.splits if_splits)
  then show ?thesis
    using assms(3-) by (simp add: heartbeat_defs HEARTBEAT_V2_HEIGHT_def CHECKIN_V3_HEIGHT_def
        MINER_EPOCH_LENGTH_def)
qed

theorem heartbeat_once_per_epoch_witness:
  "let E = sample_externals\<lparr>dec_miner_heartbeat := (\<lambda>_. Inr \<lparr>mhp_latest_block_hash = [], mhp_latest_height = 0\<rparr>)\<rparr>;
       miner = \<lparr>mi_address = alice, mi_tier = Online, mi_name = ''m'', mi_registered_at = 0,
         mi_last_heartbeat = 0, mi_ip_prefix = [10, 0, 0], mi_active = True, mi_reputation_bps = 2000,
         mi_pending_rewards = 0, mi_pending_epoch = 0, mi_epoch_attendance = 0,
         mi_consecutive_misses = 0, mi_last_checkin_epoch = 0\<rparr>;
       s = WorldState_default\<lparr>block_height := 226000, miners := bt_insert alice miner bt_empty\<rparr>;
       s' = snd (handle_miner_heartbeat E s sample_tx)
   in fst (handle_miner_heartbeat E s sample_tx) = Inr ()
    \<and> fst (handle_miner_heartbeat E (s'\<lparr>block_height := 226050\<rparr>) sample_tx)
      = Inl (HeartbeatTooEarly 226100 226050)"
proof -
  let ?E = "sample_externals\<lparr>dec_miner_heartbeat := (\<lambda>_. Inr \<lparr>mhp_latest_block_hash = [], mhp_latest_height = 0\<rparr>)\<rparr>"
  let ?miner = "\<lparr>mi_address = alice, mi_tier = Online, mi_name = ''m'', mi_registered_at = 0,
         mi_last_heartbeat = 0, mi_ip_prefix = [10, 0, 0], mi_active = True, mi_reputation_bps = 2000,
         mi_pending_rewards = 0, mi_pending_epoch = 0, mi_epoch_attendance = 0,
         mi_consecutive_misses = 0, mi_last_checkin_epoch = 0\<rparr>"
  let ?s = "WorldState_default\<lparr>block_height := 226000, miners := bt_insert alice ?miner bt_empty\<rparr>"
  have first: "fst (handle_miner_heartbeat ?E ?s sample_tx) = Inr ()"
    by (simp add: heartbeat_defs claw_consts sample_tx_def WorldState_default_def)
  then have run: "handle_miner_heartbeat ?E ?s sample_tx = (Inr (), snd (handle_miner_heartbeat ?E ?s sample_tx))"
    by (metis prod.collapse)
  have "fst (handle_miner_heartbeat ?E
      ((snd (handle_miner_heartbeat ?E ?s sample_tx))\<lparr>block_height := 226050\<rparr>) sample_tx)
      = Inl (HeartbeatTooEarly ((226050 div 100 + 1) * 100) 226050)"
    by (rule heartbeat_once_per_epoch[OF run]) simp_all
  with first show ?thesis by (simp add: Let_def)
qed

end
