(* ===== verification/Contracts.thy ===== *)
theory Contracts
  imports Handler_Interface
begin

text \<open>
  Contract transactions (\<open>state/src/handlers.rs\<close>, with the checks of \<open>vm/src/engine.rs\<close> that
  precede execution): deploy, call, and the two-step upgrade. Running a Wasm method is the
  parameter \<open>vm_outcome\<close>: no property assumes anything of what a contract answers, so each
  holds for every contract, malicious ones included.

  Shown: the laws of the handler interface, that the transfers a contract asks for are covered
  by its balance, that a call touches no other contract, and that code changes only after the
  announced timelock, by the admin, to the announced hash.
\<close>

definition UPGRADE_DELAY_BLOCKS :: u64 where
  [claw_consts]: "UPGRADE_DELAY_BLOCKS = 720"

definition MAX_WASM_MEMORY_PAGES :: u32 where
  [claw_consts]: "MAX_WASM_MEMORY_PAGES = 256"

section \<open>The engine's static checks\<close>

text \<open>The \<open>Display\<close> of \<open>VmError\<close>, which ends up in the state error.\<close>

fun vm_error_string :: "VmError \<Rightarrow> string" where
  "vm_error_string (CompilationFailed m) = ''compilation failed: '' @ m"
| "vm_error_string (InstantiationFailed m) = ''instantiation failed: '' @ m"
| "vm_error_string (ExecutionFailed m) = ''execution failed: '' @ m"
| "vm_error_string (OutOfFuel used limit) =
     ''out of fuel: used '' @ show_word used @ '', limit '' @ show_word limit"
| "vm_error_string (InvalidModule m) = ''invalid wasm module: '' @ m"
| "vm_error_string (MemoryError m) = ''memory access error: '' @ m"
| "vm_error_string (HostError m) = ''host function error: '' @ m"
| "vm_error_string (MethodNotFound m) = ''method not found: '' @ m"
| "vm_error_string (CodeTooLarge sz mx) =
     ''wasm code too large: '' @ dec_digits sz @ '' bytes (max '' @ dec_digits mx @ '')''"
| "vm_error_string (ContractAbort reason fuel_consumed) =
     ''contract aborted: '' @ reason @ '' (fuel consumed: '' @ show_word fuel_consumed @ '')''"
| "vm_error_string (MemoryLimitExceeded pages mx) =
     ''wasm memory limit exceeded: '' @ show_word pages @ '' pages requested (max '' @ show_word mx @ '')''"

text \<open>The limits of the exported memories, in export order: minimum and optional maximum.\<close>

fun check_memory_limits :: "(u32 \<times> u32 option) list \<Rightarrow> VmError + unit" where
  "check_memory_limits [] = Inr ()"
| "check_memory_limits ((initial, maximum) # rest) =
     (if initial > MAX_WASM_MEMORY_PAGES
      then Inl (MemoryLimitExceeded initial MAX_WASM_MEMORY_PAGES)
      else case maximum of
          None \<Rightarrow> check_memory_limits rest
        | Some max_val \<Rightarrow>
            if max_val > MAX_WASM_MEMORY_PAGES
            then Inl (MemoryLimitExceeded max_val MAX_WASM_MEMORY_PAGES)
            else check_memory_limits rest)"

definition derive_contract_address :: "externals \<Rightarrow> address \<Rightarrow> u64 \<Rightarrow> address" where
  "derive_contract_address E deployer nonce =
     blake3 E (string_bytes ''claw_contract_v1:'' @ deployer @ to_le_bytes nonce)"

definition validate :: "externals \<Rightarrow> bytes \<Rightarrow> VmError + unit" where
  "validate E code =
     (if length code > MAX_CONTRACT_CODE_SIZE
      then Inl (CodeTooLarge (length code) MAX_CONTRACT_CODE_SIZE)
      else case wasm_compile E code of
          Inl m \<Rightarrow> Inl (InvalidModule m)
        | Inr mems \<Rightarrow> check_memory_limits mems)"

section \<open>Running a method\<close>

definition capture :: "WorldState \<Rightarrow> address list \<Rightarrow> ChainStateSnapshot" where
  "capture state addresses = \<lparr>
     cs_balances = bt_empty,
     cs_agent_scores = fold (\<lambda>a m. bt_insert a (get_agent_score state a) m) addresses bt_empty,
     cs_registered_agents = fold (\<lambda>a m. if get_agent_registered state a then bt_insert a () m else m)
       addresses bt_empty,
     cs_contract_storage = bt_empty,
     cs_contract_code = bt_empty\<rparr>"

definition capture_from_world :: "WorldState \<Rightarrow> address list \<Rightarrow> ChainStateSnapshot" where
  "capture_from_world state addresses = (capture state addresses)
     \<lparr>cs_balances := balances state, cs_contract_code := contract_code state\<rparr>"

definition execute_with_timeout ::
  "externals \<Rightarrow> bytes \<Rightarrow> string \<Rightarrow> bytes \<Rightarrow> ExecutionContext \<Rightarrow> (bytes, bytes) btree \<Rightarrow> WorldState
   \<Rightarrow> VmError + ExecutionResult" where
  "execute_with_timeout E code method args ctx storage world =
     (let snapshot = capture_from_world world [ctx_caller ctx, ctx_contract_address ctx] in
      case vm_outcome E code method args ctx storage snapshot of
        NoPermit \<Rightarrow> Inl (ExecutionFailed ''VM concurrency limit reached'')
      | TimedOut \<Rightarrow> Inl (ExecutionFailed ''contract execution timed out after 5s'')
      | Answered r \<Rightarrow> r)"

text \<open>The storage of one contract, collected into a map of its own.\<close>

definition storage_of :: "address \<Rightarrow> WorldState \<Rightarrow> (bytes, bytes) btree" where
  "storage_of contract state =
     fold (\<lambda>p m. bt_insert (snd (fst p)) (snd p) m)
       (filter (\<lambda>p. fst (fst p) = contract) (entries (contract_storage state))) bt_empty"

text \<open>The transfers are checked against the running total before anything is applied.\<close>

fun check_transfers :: "u128 \<Rightarrow> u128 \<Rightarrow> (address \<times> u128) list \<Rightarrow> StateError + unit" where
  "check_transfers contract_bal cumulative_spend [] = Inr ()"
| "check_transfers contract_bal cumulative_spend ((to, amount) # rest) =
     (let spend = saturating_add cumulative_spend amount in
      if contract_bal < spend
      then Inl (ContractTransferInsufficientBalance amount
             (saturating_sub contract_bal (saturating_sub spend amount)))
      else check_transfers contract_bal spend rest)"

definition apply_storage_changes ::
  "address \<Rightarrow> (bytes \<times> bytes option) list \<Rightarrow> WorldState \<Rightarrow> WorldState" where
  "apply_storage_changes contract changes state =
     fold (\<lambda>(key, value) s. case value of
         Some v \<Rightarrow> s\<lparr>contract_storage := bt_insert (contract, key) v (contract_storage s)\<rparr>
       | None \<Rightarrow> s\<lparr>contract_storage := bt_remove (contract, key) (contract_storage s)\<rparr>)
       changes state"

definition apply_transfers :: "address \<Rightarrow> (address \<times> u128) list \<Rightarrow> WorldState \<Rightarrow> WorldState" where
  "apply_transfers contract transfers state =
     fold (\<lambda>(to, amount) s. credit to amount (debit contract amount s)) transfers state"

definition receipt_events :: "ExecutionResult \<Rightarrow> ReceiptEvent list" where
  "receipt_events result = map (\<lambda>e. \<lparr>re_topic = ce_topic e, re_data = ce_data e\<rparr>) (er_events result)"

definition block_events :: "address \<Rightarrow> u32 \<Rightarrow> ExecutionResult \<Rightarrow> BlockEvent list" where
  "block_events contract tx_index result =
     map (\<lambda>e. ContractEventB contract tx_index (ce_topic e) (ce_data e)) (er_events result)"

definition execution_receipt :: "externals \<Rightarrow> Transaction \<Rightarrow> ExecutionResult \<Rightarrow> TransactionReceipt" where
  "execution_receipt E tx result = \<lparr>
     tr_tx_hash = tx_hash E tx, tr_success = True,
     tr_fuel_consumed = er_fuel_consumed result, tr_fuel_limit = DEFAULT_FUEL_LIMIT,
     tr_return_data = er_return_data result, tr_error_message = None,
     tr_events = receipt_events result, tr_logs = er_logs result\<rparr>"

section \<open>Handlers\<close>

type_synonym contract_reply = "BlockEvent list \<times> TransactionReceipt"

definition register_contract ::
  "address \<Rightarrow> ContractInstance \<Rightarrow> bytes \<Rightarrow> WorldState \<Rightarrow> WorldState" where
  "register_contract contract_address inst code state = state\<lparr>
     contracts := bt_insert contract_address inst (contracts state),
     contract_code := bt_insert contract_address code (contract_code state)\<rparr>"

definition handle_contract_deploy :: "externals \<Rightarrow> u32 \<Rightarrow> contract_reply handler" where
  "handle_contract_deploy E tx_index state tx =
     (case dec_contract_deploy E (tx_payload tx) of
        Inl m \<Rightarrow> fail (PayloadDeserialize m) state
      | Inr payload \<Rightarrow>
          if length (cdp_code payload) > MAX_CONTRACT_CODE_SIZE
          then fail (ContractCodeTooLarge (length (cdp_code payload)) MAX_CONTRACT_CODE_SIZE) state
          else
            (let nonce = bt_get_or (nonces state) 0 (tx_from tx);
                 contract_address = derive_contract_address E (tx_from tx) nonce in
             if bt_contains (contracts state) contract_address then fail ContractAlreadyExists state
             else case validate E (cdp_code payload) of
                 Inl e \<Rightarrow> fail (ContractExecutionFailed (vm_error_string e)) state
               | Inr _ \<Rightarrow>
                   (let inst = \<lparr>ci_address = contract_address, ci_code_hash = blake3 E (cdp_code payload),
                          ci_creator = tx_from tx, ci_deployed_at = block_height state,
                          ci_admin = tx_from tx, ci_previous_code_hash = None,
                          ci_upgrade_height = None, ci_pending_upgrade = None\<rparr> in
                    if cdp_init_method payload \<noteq> [] then
                      (let ctx = new_top_level (tx_from tx) contract_address (block_height state)
                             (block_timestamp state) 0 DEFAULT_FUEL_LIMIT False in
                       case execute_with_timeout E (cdp_code payload) (cdp_init_method payload)
                              (cdp_init_args payload) ctx bt_empty state of
                         Inl e \<Rightarrow> fail (ContractExecutionFailed (vm_error_string e)) state
                       | Inr result \<Rightarrow>
                           (case check_transfers (bt_get_or (balances state) 0 contract_address) 0
                                   (er_transfers result) of
                              Inl e \<Rightarrow> fail e state
                            | Inr _ \<Rightarrow>
                                ok (block_events contract_address tx_index result,
                                    execution_receipt E tx result)
                                  (apply_transfers contract_address (er_transfers result)
                                    (apply_storage_changes contract_address (er_storage_changes result)
                                      (register_contract contract_address inst (cdp_code payload) state)))))
                    else
                      ok ([], \<lparr>tr_tx_hash = tx_hash E tx, tr_success = True, tr_fuel_consumed = 0,
                               tr_fuel_limit = 0, tr_return_data = [], tr_error_message = None,
                               tr_events = [], tr_logs = []\<rparr>)
                        (register_contract contract_address inst (cdp_code payload) state))))"

text \<open>Moving the attached value to the contract, and back on a failure.\<close>

definition send_value :: "address \<Rightarrow> address \<Rightarrow> u128 \<Rightarrow> WorldState \<Rightarrow> WorldState" where
  "send_value from contract value state =
     (if value > 0 then credit contract value (debit from value state) else state)"

definition refund_value :: "address \<Rightarrow> address \<Rightarrow> u128 \<Rightarrow> WorldState \<Rightarrow> WorldState" where
  "refund_value from contract value state =
     (if value > 0 then credit from value (debit contract value state) else state)"

definition handle_contract_call :: "externals \<Rightarrow> u32 \<Rightarrow> contract_reply handler" where
  "handle_contract_call E tx_index state tx =
     (case dec_contract_call E (tx_payload tx) of
        Inl m \<Rightarrow> fail (PayloadDeserialize m) state
      | Inr payload \<Rightarrow>
          (let contract = ccp_contract payload; value = ccp_value payload in
           if \<not> bt_contains (contracts state) contract
           then fail (ContractNotFound (hex_encode E contract)) state
           else if ccp_method payload = [] \<or> length (ccp_method payload) > 128
           then fail (InvalidContractMethod (ccp_method payload)) state
           else
             (let caller_bal = bt_get_or (balances state) 0 (tx_from tx) in
              if value > 0 \<and> caller_bal < value then fail (InsufficientBalance value caller_bal) state
              else
                (let state1 = send_value (tx_from tx) contract value state in
                 case bt_get (contract_code state1) contract of
                   None \<Rightarrow> fail (ContractNotFound (hex_encode E contract)) state1
                 | Some code \<Rightarrow>
                     (let ctx = new_top_level (tx_from tx) contract (block_height state1)
                            (block_timestamp state1) value DEFAULT_FUEL_LIMIT False in
                      case execute_with_timeout E code (ccp_method payload) (ccp_args payload) ctx
                             (storage_of contract state1) state1 of
                        Inl e \<Rightarrow> fail (ContractExecutionFailed (vm_error_string e))
                                  (refund_value (tx_from tx) contract value state1)
                      | Inr result \<Rightarrow>
                          (case check_transfers (bt_get_or (balances state1) 0 contract) 0
                                  (er_transfers result) of
                             Inl e \<Rightarrow> fail e (refund_value (tx_from tx) contract value state1)
                           | Inr _ \<Rightarrow>
                               ok (block_events contract tx_index result, execution_receipt E tx result)
                                 (apply_transfers contract (er_transfers result)
                                   (apply_storage_changes contract (er_storage_changes result)
                                     state1))))))))"

definition handle_contract_upgrade_announce :: "externals \<Rightarrow> unit handler" where
  "handle_contract_upgrade_announce E state tx =
     (case dec_upgrade_announce E (tx_payload tx) of
        Inl m \<Rightarrow> fail (PayloadDeserialize m) state
      | Inr payload \<Rightarrow>
          (case bt_get (contracts state) (uap_contract payload) of
             None \<Rightarrow> fail (ContractNotFound (hex_encode E (uap_contract payload))) state
           | Some inst \<Rightarrow>
               if tx_from tx \<noteq> ci_admin inst then fail Unauthorized state
               else
                 (let announced_at = block_height state;
                      ready_at = announced_at + UPGRADE_DELAY_BLOCKS in
                  ok () (state\<lparr>contracts := bt_insert (uap_contract payload)
                    (inst\<lparr>ci_pending_upgrade := Some \<lparr>pu_new_code_hash = uap_new_code_hash payload,
                       pu_announced_at = announced_at, pu_ready_at = ready_at\<rparr>\<rparr>)
                    (contracts state)\<rparr>))))"

text \<open>
  The final commit of an upgrade. The instance is read again after the migration, as the code
  does; the migration does not change it.
\<close>

definition commit_upgrade ::
  "address \<Rightarrow> bytes \<Rightarrow> hash32 \<Rightarrow> hash32 \<Rightarrow> u64 \<Rightarrow> WorldState \<Rightarrow> WorldState" where
  "commit_upgrade contract new_code old_code_hash submitted_hash upgrade_height state = state\<lparr>
     contract_code := bt_insert contract new_code (contract_code state),
     contracts := bt_modify contract (\<lambda>inst. inst\<lparr>
         ci_previous_code_hash := Some old_code_hash, ci_code_hash := submitted_hash,
         ci_upgrade_height := Some upgrade_height, ci_pending_upgrade := None\<rparr>) (contracts state)\<rparr>"

definition handle_contract_upgrade_execute :: "externals \<Rightarrow> u32 \<Rightarrow> contract_reply handler" where
  "handle_contract_upgrade_execute E tx_index state tx =
     (case dec_upgrade_execute E (tx_payload tx) of
        Inl m \<Rightarrow> fail (PayloadDeserialize m) state
      | Inr payload \<Rightarrow>
          (let contract = uep_contract payload; new_code = uep_new_code payload in
           case bt_get (contracts state) contract of
             None \<Rightarrow> fail (ContractNotFound (hex_encode E contract)) state
           | Some inst \<Rightarrow>
               if tx_from tx \<noteq> ci_admin inst then fail Unauthorized state
               else case ci_pending_upgrade inst of
                   None \<Rightarrow> fail NoPendingUpgrade state
                 | Some pending \<Rightarrow>
                     if block_height state < pu_ready_at pending
                     then fail (UpgradeNotReady (block_height state) (pu_ready_at pending)) state
                     else
                       (let submitted_hash = blake3 E new_code in
                        if submitted_hash \<noteq> pu_new_code_hash pending
                        then fail UpgradeCodeHashMismatch state
                        else if length new_code > MAX_CONTRACT_CODE_SIZE
                        then fail (ContractCodeTooLarge (length new_code) MAX_CONTRACT_CODE_SIZE) state
                        else case validate E new_code of
                            Inl e \<Rightarrow> fail (ContractExecutionFailed (vm_error_string e)) state
                          | Inr _ \<Rightarrow>
                              (let old_code_hash = ci_code_hash inst;
                                   upgrade_height = block_height state;
                                   commit = commit_upgrade contract new_code old_code_hash
                                     submitted_hash upgrade_height in
                               case uep_migrate_method payload of
                                 None \<Rightarrow>
                                   ok ([], \<lparr>tr_tx_hash = tx_hash E tx, tr_success = True,
                                            tr_fuel_consumed = 0, tr_fuel_limit = DEFAULT_FUEL_LIMIT,
                                            tr_return_data = [], tr_error_message = None,
                                            tr_events = [], tr_logs = []\<rparr>) (commit state)
                               | Some migrate_method \<Rightarrow>
                                   (let ctx = new_top_level (tx_from tx) contract (block_height state)
                                          (block_timestamp state) 0 DEFAULT_FUEL_LIMIT False in
                                    case execute_with_timeout E new_code migrate_method
                                           (uep_migrate_args payload) ctx (storage_of contract state) state of
                                      Inl e \<Rightarrow> fail (ContractExecutionFailed (vm_error_string e)) state
                                    | Inr result \<Rightarrow>
                                        ok (block_events contract tx_index result,
                                            execution_receipt E tx result)
                                          (commit (apply_storage_changes contract
                                             (er_storage_changes result) state)))))))"

section \<open>Lemmas on execution results\<close>

lemma apply_storage_changes_eq:
  "apply_storage_changes c ch s = s\<lparr>contract_storage :=
     fold (\<lambda>(k, v) m. case v of Some x \<Rightarrow> bt_insert (c, k) x m | None \<Rightarrow> bt_remove (c, k) m) ch
       (contract_storage s)\<rparr>"
  by (induction ch arbitrary: s) (auto simp: apply_storage_changes_def split: option.split)

lemma apply_transfers_eq:
  "apply_transfers c ts s = s\<lparr>balances :=
     fold (\<lambda>(to, n) m. bt_entry to 0 (\<lambda>b. b + n) (bt_entry c 0 (\<lambda>b. b - n) m)) ts (balances s)\<rparr>"
  by (induction ts arbitrary: s) (auto simp: apply_transfers_def credit_def debit_def)

lemma contract_updates [simp]:
  "world_inv (s\<lparr>contract_storage := m\<rparr>) = world_inv s"
  "engine_frame s0 (s\<lparr>contract_storage := m\<rparr>) = engine_frame s0 s"
  "engine_frame s0 (s\<lparr>balances := b\<rparr>) = engine_frame s0 s"
  "engine_frame s0 (s\<lparr>contracts := i\<rparr>) = engine_frame s0 s"
  "engine_frame s0 (s\<lparr>contract_code := d\<rparr>) = engine_frame s0 s"
  "total_supply (s\<lparr>contract_storage := m\<rparr>) = total_supply s"
  "total_supply (s\<lparr>contracts := i\<rparr>) = total_supply s"
  "total_supply (s\<lparr>contract_code := d\<rparr>) = total_supply s"
  "get_balance (s\<lparr>contract_storage := m\<rparr>) a = get_balance s a"
  "get_balance (s\<lparr>contracts := i\<rparr>) a = get_balance s a"
  "get_balance (s\<lparr>contract_code := d\<rparr>) a = get_balance s a"
  by (simp_all add: world_inv_def inv_defs engine_frame_def supply_defs get_balance_def)

lemma world_inv_contracts:
  assumes "world_inv s"
  shows "world_inv (s\<lparr>contracts := bt_insert c i (contracts s), contract_code := bt_insert c d (contract_code s)\<rparr>)"
    and "bt_contains (contracts s) c \<Longrightarrow> world_inv (s\<lparr>contracts := bt_insert c i (contracts s)\<rparr>)"
  using assms by (auto simp: world_inv_def inv_defs)

lemma apply_storage_changes_simps [simp]:
  "world_inv (apply_storage_changes c ch s) = world_inv s"
  "engine_frame s0 (apply_storage_changes c ch s) = engine_frame s0 s"
  "total_supply (apply_storage_changes c ch s) = total_supply s"
  "get_balance (apply_storage_changes c ch s) a = get_balance s a"
  "balances (apply_storage_changes c ch s) = balances s"
  "contracts (apply_storage_changes c ch s) = contracts s"
  "contract_code (apply_storage_changes c ch s) = contract_code s"
  by (simp_all add: apply_storage_changes_eq)

lemma apply_transfers_simps [simp]:
  "world_inv (apply_transfers c ts s) = world_inv s"
  "engine_frame s0 (apply_transfers c ts s) = engine_frame s0 s"
  "contracts (apply_transfers c ts s) = contracts s"
  "contract_code (apply_transfers c ts s) = contract_code s"
  "contract_storage (apply_transfers c ts s) = contract_storage s"
  by (simp_all add: apply_transfers_eq)

lemma total_supply_apply_transfers [simp]: "total_supply (apply_transfers c ts s) = total_supply s"
  by (induction ts arbitrary: s) (auto simp: apply_transfers_def)

lemma register_contract_simps [simp]:
  "engine_frame s0 (register_contract c i d s) = engine_frame s0 s"
  "total_supply (register_contract c i d s) = total_supply s"
  "world_inv s \<Longrightarrow> world_inv (register_contract c i d s)"
  by (simp_all add: register_contract_def world_inv_contracts)

lemma send_value_simps [simp]:
  "world_inv (send_value a c v s) = world_inv s"
  "engine_frame s0 (send_value a c v s) = engine_frame s0 s"
  "total_supply (send_value a c v s) = total_supply s"
  "contracts (send_value a c v s) = contracts s"
  "contract_code (send_value a c v s) = contract_code s"
  "contract_storage (send_value a c v s) = contract_storage s"
  "block_height (send_value a c v s) = block_height s"
  by (simp_all add: send_value_def)

lemma refund_value_simps [simp]:
  "world_inv (refund_value a c v s) = world_inv s"
  "engine_frame s0 (refund_value a c v s) = engine_frame s0 s"
  "total_supply (refund_value a c v s) = total_supply s"
  "contracts (refund_value a c v s) = contracts s"
  "contract_code (refund_value a c v s) = contract_code s"
  "contract_storage (refund_value a c v s) = contract_storage s"
  by (simp_all add: refund_value_def)

lemma commit_upgrade_simps [simp]:
  "engine_frame s0 (commit_upgrade c d h0 h u s) = engine_frame s0 s"
  "total_supply (commit_upgrade c d h0 h u s) = total_supply s"
  "get_balance (commit_upgrade c d h0 h u s) a = get_balance s a"
  by (simp_all add: commit_upgrade_def)

lemma commit_upgrade_inv [simp]:
  "world_inv s \<Longrightarrow> world_inv (commit_upgrade c d h0 h u s)"
  by (auto simp: commit_upgrade_def world_inv_def inv_defs bt_modify_def split: option.split)

section \<open>The handler interface\<close>

lemmas contract_splits = sum.splits option.splits if_splits prod.splits

interpretation contract_deploy: atomic_handler "handle_contract_deploy E i" for E i
  by unfold_locales (auto simp: handle_contract_deploy_def Let_def split: contract_splits)

interpretation contract_call: tx_handler "handle_contract_call E i" for E i
  by unfold_locales (auto simp: handle_contract_call_def Let_def split: contract_splits)

interpretation upgrade_announce: atomic_handler "handle_contract_upgrade_announce E" for E
  by unfold_locales
    (auto simp: handle_contract_upgrade_announce_def Let_def bt_contains_def
      intro!: world_inv_contracts(2) split: contract_splits)

interpretation upgrade_announce: sender_pays_handler "handle_contract_upgrade_announce E" for E
  by unfold_locales
    (auto simp: handle_contract_upgrade_announce_def Let_def split: contract_splits)

interpretation upgrade_execute: atomic_handler "handle_contract_upgrade_execute E i" for E i
  by unfold_locales (auto simp: handle_contract_upgrade_execute_def Let_def split: contract_splits)

interpretation upgrade_execute: sender_pays_handler "handle_contract_upgrade_execute E i" for E i
  by unfold_locales (auto simp: handle_contract_upgrade_execute_def Let_def split: contract_splits)

section \<open>Transfers of a contract\<close>

definition spend_total :: "(address \<times> u128) list \<Rightarrow> nat" where
  "spend_total ts = sum_list (map (\<lambda>t. unat (snd t)) ts)"

lemma spend_total_simps [simp]:
  "spend_total [] = 0" "spend_total (t # ts) = unat (snd t) + spend_total ts"
  by (simp_all add: spend_total_def)

lemma check_transfers_acc:
  assumes "unat bal < 2 ^ 128 - 1"
  shows "check_transfers bal acc ts = Inr () \<longleftrightarrow> ts = [] \<or> unat acc + spend_total ts \<le> unat bal"
proof (induction ts arbitrary: acc)
  case (Cons t ts)
  have sat: "unat (saturating_add acc (snd t)) = min (unat acc + unat (snd t)) (2 ^ 128 - 1)"
    using unat_saturating_add[of acc "snd t"] by simp
  show ?case
  proof (cases "bal < saturating_add acc (snd t)")
    case True
    then show ?thesis using sat by (cases t) (auto simp: word_less_nat_alt)
  next
    case False
    then have "unat (saturating_add acc (snd t)) = unat acc + unat (snd t)"
      using sat assms by (auto simp: word_less_nat_alt min_def split: if_splits)
    then show ?thesis
      using False Cons.IH[of "saturating_add acc (snd t)"]
      by (cases t) (auto simp: word_less_nat_alt)
  qed
qed simp

lemma apply_transfers_Cons [simp]:
  "apply_transfers c [] s = s"
  "apply_transfers c (t # ts) s = apply_transfers c ts (credit (fst t) (snd t) (debit c (snd t) s))"
  by (simp_all add: apply_transfers_def split: prod.split)

lemma covered_transfers_exact:
  assumes "spend_total ts \<le> unat (get_balance s c)" and "balances_total s < 2 ^ 128"
  shows "balances_total (apply_transfers c ts s) = balances_total s
    \<and> (\<forall>a. a \<noteq> c \<longrightarrow> get_balance s a \<le> get_balance (apply_transfers c ts s) a)
    \<and> unat (get_balance s c) \<le> unat (get_balance (apply_transfers c ts s) c) + spend_total ts"
  using assms
proof (induction ts arbitrary: s)
  case (Cons t ts)
  define s1 where "s1 = credit (fst t) (snd t) (debit c (snd t) s)"
  have le: "snd t \<le> get_balance s c" using Cons.prems(1) by (simp add: word_le_nat_alt)
  note step = covered_transfer_exact[OF le Cons.prems(2), where b = "fst t", folded s1_def]
  have left: "unat (get_balance s c) \<le> unat (get_balance s1 c) + unat (snd t)"
    and enough: "spend_total ts \<le> unat (get_balance s1 c)"
    using Cons.prems(1) step(3) by (simp_all add: le_diff_conv2)
  have "balances_total s1 < 2 ^ 128" using step(1) Cons.prems(2) by simp
  note rest = Cons.IH[OF enough this]
  have "get_balance s a \<le> get_balance (apply_transfers c ts s1) a" if "a \<noteq> c" for a
    using step(2)[OF that] rest that by (auto intro: order.trans)
  then show ?case
    using rest step(1) left by (auto simp: s1_def[symmetric])
qed simp

text \<open>What a successful call has computed.\<close>

lemma contract_call_success:
  assumes run: "handle_contract_call E i s tx = (Inr x, s')"
    and p: "dec_contract_call E (tx_payload tx) = Inr p"
  shows "\<exists>r :: ExecutionResult. check_transfers (get_balance (send_value (tx_from tx) (ccp_contract p) (ccp_value p) s)
        (ccp_contract p)) 0 (er_transfers r) = Inr ()
    \<and> s' = apply_transfers (ccp_contract p) (er_transfers r)
        (apply_storage_changes (ccp_contract p) (er_storage_changes r)
          (send_value (tx_from tx) (ccp_contract p) (ccp_value p) s))
    \<and> (ccp_value p = 0 \<or> ccp_value p \<le> get_balance s (tx_from tx))"
proof -
  let ?s1 = "send_value (tx_from tx) (ccp_contract p) (ccp_value p) s"
  obtain code where code: "bt_get (contract_code ?s1) (ccp_contract p) = Some code"
    using run p by (auto simp: handle_contract_call_def Let_def split: contract_splits)
  let ?ctx = "new_top_level (tx_from tx) (ccp_contract p) (block_height ?s1) (block_timestamp ?s1)
    (ccp_value p) DEFAULT_FUEL_LIMIT False"
  obtain r where r: "execute_with_timeout E code (ccp_method p) (ccp_args p) ?ctx
      (storage_of (ccp_contract p) ?s1) ?s1 = Inr r"
    using run p code by (auto simp: handle_contract_call_def Let_def split: contract_splits)
  show ?thesis
    using run p code r
    by - (intro exI[of _ r], auto simp: handle_contract_call_def Let_def get_balance_def not_less word_neq_0_conv
        split: sum.splits if_splits)
qed

lemma unat_lessI: "uint x < int n \<Longrightarrow> unat x < n"
  by (simp only: uint_nat of_nat_less_iff)

lemma send_value_exact:
  assumes "v = 0 \<or> v \<le> get_balance s from" and "balances_total s < 2 ^ 128" and "a \<noteq> c"
  shows "balances_total (send_value from c v s) = balances_total s"
    and "unat (get_balance s a) \<le> unat (get_balance (send_value from c v s) a) + (if a = from then unat v else 0)"
  using assms covered_transfer_exact[of v s "from" c] by (auto simp: send_value_def word_le_nat_alt)

section \<open>Properties\<close>

text \<open>
  The check of the requested transfers is exact: whatever list of transfers a contract
  returns, it is accepted exactly when their true sum (no wrap-around) is at most the
  contract's balance. The one balance excluded is the largest 128-bit number, where the
  saturating sum cannot exceed it.
\<close>

theorem check_transfers_exact:
  assumes "unat contract_bal < 2 ^ 128 - 1"
  shows "check_transfers contract_bal 0 ts = Inr () \<longleftrightarrow> spend_total ts \<le> unat contract_bal"
  using check_transfers_acc[OF assms, of 0 ts] by auto

theorem check_transfers_exact_witness:
  "check_transfers 10 0 [(alice, 4), (bob, 6)] = Inr () \<longleftrightarrow> spend_total [(alice, 4), (bob, 6)] \<le> unat (10 :: u128)"
  by (rule check_transfers_exact) simp

text \<open>
  No theft by contract: while the native balances fit in 128 bits, a successful call keeps
  their sum, costs the caller at most the attached value, and takes from no other account but
  the called contract.
\<close>

theorem contract_call_no_theft:
  assumes "handle_contract_call E i s tx = (Inr x, s')"
    and "dec_contract_call E (tx_payload tx) = Inr p"
    and "balances_total s < 2 ^ 128 - 1"
    and "a \<noteq> ccp_contract p"
  shows "balances_total s' = balances_total s
    \<and> unat (get_balance s a) \<le> unat (get_balance s' a) + (if a = tx_from tx then unat (ccp_value p) else 0)"
proof -
  let ?c = "ccp_contract p" and ?v = "ccp_value p"
  let ?s1 = "send_value (tx_from tx) ?c ?v s"
  obtain r :: ExecutionResult where check: "check_transfers (get_balance ?s1 ?c) 0 (er_transfers r) = Inr ()"
    and s': "s' = apply_transfers ?c (er_transfers r) (apply_storage_changes ?c (er_storage_changes r) ?s1)"
    and covered: "?v = 0 \<or> ?v \<le> get_balance s (tx_from tx)"
    using contract_call_success[OF assms(1,2)] by blast
  let ?s2 = "apply_storage_changes ?c (er_storage_changes r) ?s1"
  have small: "balances_total s < 2 ^ 128" using assms(3) by simp
  note send = send_value_exact[OF covered small assms(4)]
  have same: "balances_total ?s2 = balances_total ?s1"
    by (simp add: balances_total_def)
  have c_small: "unat (get_balance ?s1 ?c) < 2 ^ 128 - 1"
    using balance_le_total[of ?s1 ?c] send(1) assms(3) by (intro unat_lessI) simp
  have "spend_total (er_transfers r) \<le> unat (get_balance ?s1 ?c)"
    using check check_transfers_acc[OF c_small, of 0 "er_transfers r"] by fastforce
  then have spend: "spend_total (er_transfers r) \<le> unat (get_balance ?s2 ?c)" by simp
  have small2: "balances_total ?s2 < 2 ^ 128" using small send(1) same by simp
  note pay = covered_transfers_exact[OF spend small2, folded s']
  then have "get_balance ?s1 a \<le> get_balance s' a" using assms(4) by simp
  then show ?thesis using pay send same by (simp add: word_le_nat_alt)
qed

text \<open>A concrete call: alice sends 5 to a contract at bob, which pays 3 of it to a third address.\<close>

definition sample_call :: ContractCallPayload where
  "sample_call = \<lparr>ccp_contract = bob, ccp_method = ''pay'', ccp_args = [], ccp_value = 5\<rparr>"

definition sample_result :: ExecutionResult where
  "sample_result = \<lparr>er_return_data = [], er_fuel_consumed = 1, er_storage_changes = [([1], Some [2])],
     er_logs = [], er_transfers = [(replicate 32 3, 3)], er_events = []\<rparr>"

definition sample_call_externals :: "VmOutcome \<Rightarrow> externals" where
  "sample_call_externals v = sample_externals\<lparr>dec_contract_call := (\<lambda>_. Inr sample_call),
     vm_outcome := (\<lambda>_ _ _ _ _ _. v)\<rparr>"

definition sample_instance :: ContractInstance where
  "sample_instance = \<lparr>ci_address = bob, ci_code_hash = [], ci_creator = alice, ci_deployed_at = 0,
     ci_admin = alice, ci_previous_code_hash = None, ci_upgrade_height = None, ci_pending_upgrade = None\<rparr>"

definition sample_world :: WorldState where
  "sample_world = WorldState_default\<lparr>balances := bt_insert alice 10 bt_empty,
     contracts := bt_insert bob sample_instance bt_empty, contract_code := bt_insert bob [0] bt_empty\<rparr>"

lemma sample_world_simps [simp]:
  "balances sample_world = bt_insert alice 10 bt_empty"
  "contracts sample_world = bt_insert bob sample_instance bt_empty"
  "contract_code sample_world = bt_insert bob [0] bt_empty"
  "contract_storage sample_world = bt_empty"
  "block_height sample_world = 0"
  "get_balance sample_world a = (if a = alice then 10 else 0)"
  "balances_total sample_world = 10"
  by (simp_all add: sample_world_def WorldState_default_def get_balance_def balances_total_def bt_sum_insert)

lemma sample_call_runs:
  "fst (handle_contract_call (sample_call_externals (Answered (Inr sample_result))) 0 sample_world sample_tx)
     = Inr ([], execution_receipt (sample_call_externals (Answered (Inr sample_result))) sample_tx sample_result)"
  by (simp add: handle_contract_call_def Let_def sample_call_externals_def sample_call_def sample_tx_def
      send_value_def execute_with_timeout_def sample_result_def block_events_def saturating_add_def
      get_balance_def[symmetric])

theorem contract_call_no_theft_witness:
  "let s' = snd (handle_contract_call (sample_call_externals (Answered (Inr sample_result))) 0
              sample_world sample_tx)
   in balances_total s' = 10 \<and> 10 \<le> unat (get_balance s' alice) + 5"
proof -
  let ?E = "sample_call_externals (Answered (Inr sample_result))"
  have run: "handle_contract_call ?E 0 sample_world sample_tx = (Inr ([], execution_receipt ?E sample_tx sample_result),
      snd (handle_contract_call ?E 0 sample_world sample_tx))"
    using sample_call_runs by (metis prod.collapse)
  have p: "dec_contract_call ?E (tx_payload sample_tx) = Inr sample_call"
    by (simp add: sample_call_externals_def)
  show ?thesis
    using contract_call_no_theft[OF run p, of alice]
    by (simp add: Let_def sample_call_def sample_tx_def)
qed

lemma apply_storage_changes_other:
  "d \<noteq> c \<Longrightarrow> bt_get (contract_storage (apply_storage_changes c ch s)) (d, k)
     = bt_get (contract_storage s) (d, k)"
  by (induction ch arbitrary: s) (auto simp: apply_storage_changes_def split: option.split)

text \<open>
  A call touches the storage of the called contract only, and no contract's code or
  metadata, whether it succeeds or fails.
\<close>

theorem contract_call_isolated:
  assumes "dec_contract_call E (tx_payload tx) = Inr p" and "c \<noteq> ccp_contract p"
  shows "bt_get (contract_storage (snd (handle_contract_call E i s tx))) (c, k)
      = bt_get (contract_storage s) (c, k)
    \<and> contracts (snd (handle_contract_call E i s tx)) = contracts s
    \<and> contract_code (snd (handle_contract_call E i s tx)) = contract_code s"
  using assms
  by (auto simp: handle_contract_call_def Let_def apply_storage_changes_other split: contract_splits)

theorem contract_call_isolated_witness:
  "contract_code (snd (handle_contract_call (sample_call_externals (Answered (Inr sample_result))) 0
     sample_world sample_tx)) = contract_code sample_world"
  using contract_call_isolated[of "sample_call_externals (Answered (Inr sample_result))" sample_tx
      sample_call alice 0 sample_world "[]"]
  by (simp add: sample_call_externals_def sample_call_def)

text \<open>
  A failed call of a registered contract refunds: every balance reads as before, and
  nothing but the balance map can differ from the state before the call.
\<close>

theorem failed_call_refunds:
  assumes "handle_contract_call E i s tx = (Inl e, s')" and "world_inv s"
  shows "(\<forall>a. get_balance s' a = get_balance s a) \<and> s' = s\<lparr>balances := balances s'\<rparr>"
proof -
  have "\<not> bt_contains (contracts s) c" if "bt_get (contract_code s) c = None" for c
    using assms(2) that by (auto simp: world_inv_def code_inv_def bt_contains_def)
  then show ?thesis
    using assms(1)
    by (auto simp: handle_contract_call_def Let_def send_value_def refund_value_def credit_def debit_def
        get_balance_def split: contract_splits)
qed

text \<open>
  The refund is not exact in the balance map: a failed call with a value to a contract that
  had no balance leaves a zero entry behind, which is hashed into the state root.
\<close>

theorem failed_call_leaves_zero_entry:
  assumes "handle_contract_call E i s tx = (Inl (ContractExecutionFailed m), s')"
    and "dec_contract_call E (tx_payload tx) = Inr p"
    and "0 < ccp_value p" and "ccp_contract p \<noteq> tx_from tx"
    and "bt_get (balances s) (ccp_contract p) = None"
  shows "bt_get (balances s') (ccp_contract p) = Some 0"
proof -
  have no: "check_transfers b n ts \<noteq> Inl (ContractExecutionFailed m)" for b n ts
    by (induction b n ts rule: check_transfers.induct) (auto simp: Let_def)
  show ?thesis
    using assms no
    by (auto simp: handle_contract_call_def Let_def send_value_def refund_value_def credit_def debit_def
        bt_entry_def bt_get_or_def split: sum.splits option.splits if_splits)
qed

lemma sample_call_fails:
  "handle_contract_call (sample_call_externals TimedOut) 0 sample_world sample_tx
     = (Inl (ContractExecutionFailed ''execution failed: contract execution timed out after 5s''),
        refund_value alice bob 5 (send_value alice bob 5 sample_world))"
  by (simp add: handle_contract_call_def Let_def sample_call_externals_def sample_call_def sample_tx_def
      send_value_def execute_with_timeout_def)

lemma sample_world_inv: "world_inv sample_world"
  by (simp add: sample_world_def WorldState_default_def world_inv_def inv_defs bt_contains_def)

theorem failed_call_refunds_witness:
  "get_balance (snd (handle_contract_call (sample_call_externals TimedOut) 0 sample_world sample_tx)) alice = 10"
  using failed_call_refunds[OF sample_call_fails sample_world_inv] by (simp add: sample_call_fails)

theorem failed_call_leaves_zero_entry_witness:
  "bt_get (balances sample_world) bob = None
   \<and> bt_get (balances (snd (handle_contract_call (sample_call_externals TimedOut) 0 sample_world sample_tx))) bob
     = Some 0"
proof -
  have "dec_contract_call (sample_call_externals TimedOut) (tx_payload sample_tx) = Inr sample_call"
    by (simp add: sample_call_externals_def)
  from failed_call_leaves_zero_entry[OF sample_call_fails this] show ?thesis
    by (simp add: sample_call_fails) (simp add: sample_call_def sample_tx_def)
qed

section \<open>Contract storage\<close>

lemma storage_of_get_aux:
  assumes "distinct (map fst ps)"
  shows "bt_get (fold (\<lambda>p m. bt_insert (snd (fst p)) (snd p) m) (filter (\<lambda>p. fst (fst p) = c) ps) m0) k
    = (case map_of ps (c, k) of Some v \<Rightarrow> Some v | None \<Rightarrow> bt_get m0 k)"
  using assms
proof (induction ps arbitrary: m0)
  case (Cons p ps)
  have "map_of ps (fst p) = None" using Cons.prems by (simp add: map_of_eq_None_iff)
  then show ?case
    using Cons by (cases p; cases "fst p") (auto split: option.split)
qed simp

lemma bt_get_entries: "map_of (entries m) k = bt_get m k"
  by (simp add: bt_get.rep_eq)

lemma storage_of_get: "bt_get (storage_of c s) k = bt_get (contract_storage s) (c, k)"
  using storage_of_get_aux[OF keys_sorted_distinct[OF keys_sorted_entries[of "contract_storage s"]],
      of c bt_empty k]
  by (simp add: storage_of_def bt_get_entries split: option.split)

lemma apply_storage_changes_get:
  "bt_get (contract_storage (apply_storage_changes c ch s)) (c, k)
     = (case map_of (rev ch) k of Some v \<Rightarrow> v | None \<Rightarrow> bt_get (contract_storage s) (c, k))"
proof (induction ch arbitrary: s)
  case (Cons kv ch)
  then show ?case
    by (cases kv) (auto simp: apply_storage_changes_def map_add_def split: option.split)
qed (simp add: apply_storage_changes_def)

text \<open>
  Round trip of contract storage: the map that the next execution of a contract is given
  holds exactly the changes of the last one (the last write of a key wins, a deletion removes
  the key), and otherwise what it held before.
\<close>

theorem contract_storage_roundtrip:
  "bt_get (storage_of c (apply_storage_changes c ch s)) k
     = (case map_of (rev ch) k of Some v \<Rightarrow> v | None \<Rightarrow> bt_get (storage_of c s) k)"
  by (simp add: storage_of_get apply_storage_changes_get split: option.split)

section \<open>Upgrades\<close>

lemma upgrade_execute_success:
  assumes "handle_contract_upgrade_execute E i s tx = (Inr x, s')"
  shows "\<exists>p inst pend. dec_upgrade_execute E (tx_payload tx) = Inr p
    \<and> bt_get (contracts s) (uep_contract p) = Some inst
    \<and> ci_admin inst = tx_from tx
    \<and> ci_pending_upgrade inst = Some pend
    \<and> pu_ready_at pend \<le> block_height s
    \<and> blake3 E (uep_new_code p) = pu_new_code_hash pend
    \<and> length (uep_new_code p) \<le> 524288
    \<and> contract_code s' = bt_insert (uep_contract p) (uep_new_code p) (contract_code s)
    \<and> contracts s' = bt_insert (uep_contract p) (inst\<lparr>ci_previous_code_hash := Some (ci_code_hash inst),
         ci_code_hash := pu_new_code_hash pend, ci_upgrade_height := Some (block_height s),
         ci_pending_upgrade := None\<rparr>) (contracts s)"
proof -
  obtain p where p: "dec_upgrade_execute E (tx_payload tx) = Inr p"
    using assms by (auto simp: handle_contract_upgrade_execute_def split: sum.splits)
  obtain inst where inst: "bt_get (contracts s) (uep_contract p) = Some inst"
    using assms p by (auto simp: handle_contract_upgrade_execute_def Let_def split: option.splits)
  obtain pend where pend: "ci_pending_upgrade inst = Some pend"
    using assms p inst by (auto simp: handle_contract_upgrade_execute_def Let_def split: contract_splits)
  show ?thesis
    using assms p inst pend
    by - (intro exI[of _ p] exI[of _ inst] exI[of _ pend],
      auto simp: handle_contract_upgrade_execute_def Let_def commit_upgrade_def bt_modify_def not_less
        MAX_CONTRACT_CODE_SIZE_def split: contract_splits)
qed

lemma upgrade_execute_failure: "fst (handle_contract_upgrade_execute E i s tx) = Inl e
  \<Longrightarrow> snd (handle_contract_upgrade_execute E i s tx) = s"
  by (auto simp: handle_contract_upgrade_execute_def Let_def split: contract_splits)

text \<open>
  An upgrade that succeeds was announced for exactly this code (by its hash), its timelock
  has run out, and the sender is the contract's admin. It installs the new code, records the
  old hash, clears the announcement, and changes no other contract.
\<close>

theorem upgrade_execute_requires_timelock:
  assumes "handle_contract_upgrade_execute E i s tx = (Inr x, s')"
  shows "\<exists>p inst pend. dec_upgrade_execute E (tx_payload tx) = Inr p
    \<and> bt_get (contracts s) (uep_contract p) = Some inst
    \<and> ci_admin inst = tx_from tx
    \<and> ci_pending_upgrade inst = Some pend
    \<and> pu_ready_at pend \<le> block_height s
    \<and> blake3 E (uep_new_code p) = pu_new_code_hash pend
    \<and> length (uep_new_code p) \<le> 524288
    \<and> contract_code s' = bt_insert (uep_contract p) (uep_new_code p) (contract_code s)
    \<and> contracts s' = bt_insert (uep_contract p) (inst\<lparr>ci_previous_code_hash := Some (ci_code_hash inst),
         ci_code_hash := pu_new_code_hash pend, ci_upgrade_height := Some (block_height s),
         ci_pending_upgrade := None\<rparr>) (contracts s)"
  by (rule upgrade_execute_success[OF assms])

text \<open>
  The timelock cannot be shortened: an announcement comes from the admin, never touches the
  code, and sets the earliest execution 720 blocks after the announcing block.
\<close>

theorem upgrade_announce_sets_timelock:
  assumes "handle_contract_upgrade_announce E s tx = (Inr x, s')"
  shows "\<exists>p inst. dec_upgrade_announce E (tx_payload tx) = Inr p
    \<and> bt_get (contracts s) (uap_contract p) = Some inst \<and> ci_admin inst = tx_from tx
    \<and> s' = s\<lparr>contracts := bt_insert (uap_contract p)
         (inst\<lparr>ci_pending_upgrade := Some \<lparr>pu_new_code_hash = uap_new_code_hash p,
            pu_announced_at = block_height s, pu_ready_at = block_height s + 720\<rparr>\<rparr>) (contracts s)\<rparr>"
  using assms
  by (auto simp: handle_contract_upgrade_announce_def Let_def UPGRADE_DELAY_BLOCKS_def
      split: contract_splits)

definition announced_world :: WorldState where
  "announced_world = sample_world\<lparr>block_height := 720, contracts := bt_insert bob
     (sample_instance\<lparr>ci_pending_upgrade := Some \<lparr>pu_new_code_hash = replicate 32 0, pu_announced_at = 0,
        pu_ready_at = 720\<rparr>\<rparr>) bt_empty\<rparr>"

theorem upgrade_execute_requires_timelock_witness:
  "let E = sample_externals\<lparr>dec_upgrade_execute := (\<lambda>_. Inr \<lparr>uep_contract = bob, uep_new_code = [],
             uep_migrate_method = None, uep_migrate_args = []\<rparr>)\<rparr>;
       s' = snd (handle_contract_upgrade_execute E 0 announced_world sample_tx)
   in contract_code s' = bt_insert bob [] (contract_code announced_world)"
proof -
  let ?p = "\<lparr>uep_contract = bob, uep_new_code = [], uep_migrate_method = None, uep_migrate_args = []\<rparr>"
  let ?E = "sample_externals\<lparr>dec_upgrade_execute := (\<lambda>_. Inr ?p)\<rparr>"
  have "\<exists>x. fst (handle_contract_upgrade_execute ?E 0 announced_world sample_tx) = Inr x"
    by (simp add: handle_contract_upgrade_execute_def announced_world_def sample_externals_def Let_def
        sample_tx_def sample_instance_def validate_def)
  then obtain x where "handle_contract_upgrade_execute ?E 0 announced_world sample_tx
      = (Inr x, snd (handle_contract_upgrade_execute ?E 0 announced_world sample_tx))"
    by (metis prod.collapse)
  from upgrade_execute_requires_timelock[OF this] show ?thesis by (auto simp: Let_def)
qed

theorem upgrade_announce_sets_timelock_witness:
  "let E = sample_externals\<lparr>dec_upgrade_announce := (\<lambda>_. Inr \<lparr>uap_contract = bob, uap_new_code_hash = [9]\<rparr>)\<rparr>;
       s' = snd (handle_contract_upgrade_announce E sample_world sample_tx)
   in contract_code s' = contract_code sample_world"
proof -
  let ?E = "sample_externals\<lparr>dec_upgrade_announce := (\<lambda>_. Inr \<lparr>uap_contract = bob, uap_new_code_hash = [9]\<rparr>)\<rparr>"
  have "fst (handle_contract_upgrade_announce ?E sample_world sample_tx) = Inr ()"
    by (simp add: handle_contract_upgrade_announce_def Let_def sample_tx_def sample_instance_def)
  then have "handle_contract_upgrade_announce ?E sample_world sample_tx
      = (Inr (), snd (handle_contract_upgrade_announce ?E sample_world sample_tx))"
    by (metis prod.collapse)
  from upgrade_announce_sets_timelock[OF this] show ?thesis by (auto simp: Let_def)
qed

end
