(* ===== verification/Apply.thy ===== *)
theory Apply
  imports Ledger Staking Mining_Tx Contracts
begin

text \<open>
  \<open>WorldState::apply_tx\<close> (\<open>state/src/world.rs\<close>): payload limit, signature, nonce, gas, dispatch
  to the handler of the transaction type, bookkeeping on success and gas refund on failure.

  The dispatcher is itself a handler in the sense of the interface, by the interpretations of
  the nineteen handlers; the properties of \<open>apply_tx\<close> follow from the laws of the interface.
\<close>

definition MAX_TX_PAYLOAD_SIZE :: nat where
  [claw_consts]: "MAX_TX_PAYLOAD_SIZE = 512 * 1024"

section \<open>Dispatch\<close>

type_synonym reply = "BlockEvent list \<times> TransactionReceipt option"

text \<open>The two shapes of handler, normalised to one.\<close>

definition plain :: "unit handler \<Rightarrow> reply handler" where
  "plain h state tx = (case h state tx of
      (Inr _, s) \<Rightarrow> ok ([], None) s
    | (Inl e, s) \<Rightarrow> fail e s)"

definition with_receipt :: "contract_reply handler \<Rightarrow> reply handler" where
  "with_receipt h state tx = (case h state tx of
      (Inr (events, receipt), s) \<Rightarrow> ok (events, Some receipt) s
    | (Inl e, s) \<Rightarrow> fail e s)"

definition handler_for :: "externals \<Rightarrow> u32 \<Rightarrow> TxType \<Rightarrow> reply handler" where
  "handler_for E tx_index t = (case t of
      ContractDeploy \<Rightarrow> with_receipt (handle_contract_deploy E tx_index)
    | ContractCall \<Rightarrow> with_receipt (handle_contract_call E tx_index)
    | AgentRegister \<Rightarrow> plain (handle_agent_register E)
    | TokenTransfer \<Rightarrow> plain (handle_token_transfer E)
    | TokenCreate \<Rightarrow> plain (handle_token_create E)
    | TokenMintTransfer \<Rightarrow> plain (handle_token_mint_transfer E)
    | ReputationAttest \<Rightarrow> plain handle_reputation_attest
    | ServiceRegister \<Rightarrow> plain (handle_service_register E)
    | StakeDeposit \<Rightarrow> plain (handle_stake_deposit E)
    | StakeWithdraw \<Rightarrow> plain (handle_stake_withdraw E)
    | StakeClaim \<Rightarrow> plain (handle_stake_claim E)
    | PlatformActivityReport \<Rightarrow> plain (handle_platform_activity_report E)
    | TokenApprove \<Rightarrow> plain (handle_token_approve E)
    | TokenBurn \<Rightarrow> plain (handle_token_burn E)
    | ChangeDelegation \<Rightarrow> plain (handle_change_delegation E)
    | MinerRegister \<Rightarrow> plain (handle_miner_register E)
    | MinerHeartbeat \<Rightarrow> plain (handle_miner_heartbeat E)
    | ContractUpgradeAnnounce \<Rightarrow> plain (handle_contract_upgrade_announce E)
    | ContractUpgradeExecute \<Rightarrow> with_receipt (handle_contract_upgrade_execute E tx_index))"

definition dispatch :: "externals \<Rightarrow> u32 \<Rightarrow> reply handler" where
  "dispatch E tx_index state tx = handler_for E tx_index (tx_type tx) state tx"

section \<open>apply_tx\<close>

definition gas_free :: "TxType \<Rightarrow> bool" where
  "gas_free t \<longleftrightarrow> t = AgentRegister \<or> t = MinerRegister \<or> t = MinerHeartbeat"

definition count_activity :: "TxType \<Rightarrow> u128 \<Rightarrow> ActivityStats \<Rightarrow> ActivityStats" where
  "count_activity t actual_fee stats =
     (let stats = stats\<lparr>st_tx_count := st_tx_count stats + 1,
            st_gas_consumed := st_gas_consumed stats + ucast actual_fee\<rparr> in
      case t of
        ContractDeploy \<Rightarrow> stats\<lparr>st_contract_deploys := st_contract_deploys stats + 1\<rparr>
      | ContractCall \<Rightarrow> stats\<lparr>st_contract_calls := st_contract_calls stats + 1\<rparr>
      | TokenCreate \<Rightarrow> stats\<lparr>st_tokens_created := st_tokens_created stats + 1\<rparr>
      | ServiceRegister \<Rightarrow> stats\<lparr>st_services_registered := st_services_registered stats + 1\<rparr>
      | _ \<Rightarrow> stats)"

text \<open>The updates after a successful handler: nonce, receipt, activity.\<close>

definition record_success ::
  "Transaction \<Rightarrow> u128 \<Rightarrow> TransactionReceipt option \<Rightarrow> WorldState \<Rightarrow> WorldState" where
  "record_success tx actual_fee receipt state = state\<lparr>
     nonces := bt_insert (tx_from tx) (tx_nonce tx) (nonces state),
     receipts := (case receipt of None \<Rightarrow> receipts state
                  | Some r \<Rightarrow> bt_insert (tr_tx_hash r) r (receipts state)),
     activity_stats := bt_entry (tx_from tx) ActivityStats_default
       (count_activity (tx_type tx) actual_fee) (activity_stats state)\<rparr>"

definition apply_tx ::
  "externals \<Rightarrow> u32 \<Rightarrow> WorldState \<Rightarrow> Transaction \<Rightarrow> (u128 \<times> BlockEvent list) outcome" where
  "apply_tx E tx_index state tx =
     (if length (tx_payload tx) > MAX_TX_PAYLOAD_SIZE
      then fail (PayloadTooLarge (length (tx_payload tx)) MAX_TX_PAYLOAD_SIZE) state
      else if \<not> verify_transaction E tx then fail InvalidSignature state
      else
        (let current_nonce = bt_get_or (nonces state) 0 (tx_from tx);
             expected = current_nonce + 1 in
         if tx_nonce tx \<noteq> expected then fail (InvalidNonce expected (tx_nonce tx)) state
         else
           (let balance = bt_get_or (balances state) 0 (tx_from tx) in
            if \<not> gas_free (tx_type tx) \<and> balance < GAS_FEE
            then fail (InsufficientBalance GAS_FEE balance) state
            else
              (let state1 = (if gas_free (tx_type tx) then state else debit (tx_from tx) GAS_FEE state);
                   actual_fee = (if gas_free (tx_type tx) then 0 else GAS_FEE) in
               case dispatch E tx_index state1 tx of
                 (Inr (contract_events, receipt), state2) \<Rightarrow>
                   ok (actual_fee, contract_events) (record_success tx actual_fee receipt state2)
               | (Inl e, state2) \<Rightarrow>
                   fail e (if gas_free (tx_type tx) then state2 else credit (tx_from tx) GAS_FEE state2)))))"

text \<open>Transactions applied in order, failed ones included, as the block producer does.\<close>

fun apply_all :: "externals \<Rightarrow> WorldState \<Rightarrow> (u32 \<times> Transaction) list \<Rightarrow> WorldState" where
  "apply_all E state [] = state"
| "apply_all E state ((i, tx) # txs) = apply_all E (snd (apply_tx E i state tx)) txs"

section \<open>The dispatcher is a handler\<close>

lemma plain_cases:
  "plain h s tx = (r, s') \<longleftrightarrow>
     (\<exists>e. h s tx = (Inl e, s') \<and> r = Inl e) \<or> (h s tx = (Inr (), s') \<and> r = Inr ([], None))"
  by (auto simp: plain_def split: prod.splits sum.splits)

lemma with_receipt_cases:
  "with_receipt h s tx = (r, s') \<longleftrightarrow>
     (\<exists>e. h s tx = (Inl e, s') \<and> r = Inl e)
     \<or> (\<exists>ev rc. h s tx = (Inr (ev, rc), s') \<and> r = Inr (ev, Some rc))"
  by (auto simp: with_receipt_def split: prod.splits sum.splits)

lemma plain_handler:
  assumes "tx_handler h"
  shows "tx_handler (plain h)"
  using tx_handler.frame[OF assms] tx_handler.conserves[OF assms] tx_handler.keeps_inv[OF assms]
  by unfold_locales (auto simp: plain_cases)

lemma with_receipt_handler:
  assumes "tx_handler h"
  shows "tx_handler (with_receipt h)"
  using tx_handler.frame[OF assms] tx_handler.conserves[OF assms] tx_handler.keeps_inv[OF assms]
  by unfold_locales (auto simp: with_receipt_cases)

lemma plain_atomic:
  assumes "atomic_handler h"
  shows "atomic_handler (plain h)"
proof (intro atomic_handler.intro atomic_handler_axioms.intro)
  show "tx_handler (plain h)"
    using assms by (intro plain_handler) (rule atomic_handler.axioms)
qed (use atomic_handler.atomic[OF assms] in \<open>auto simp: plain_cases\<close>)

lemma with_receipt_atomic:
  assumes "atomic_handler h"
  shows "atomic_handler (with_receipt h)"
proof (intro atomic_handler.intro atomic_handler_axioms.intro)
  show "tx_handler (with_receipt h)"
    using assms by (intro with_receipt_handler) (rule atomic_handler.axioms)
qed (use atomic_handler.atomic[OF assms] in \<open>auto simp: with_receipt_cases\<close>)

lemma plain_sender_pays:
  assumes "sender_pays_handler h"
  shows "sender_pays_handler (plain h)"
proof (intro sender_pays_handler.intro sender_pays_handler_axioms.intro)
  show "tx_handler (plain h)"
    using assms by (intro plain_handler) (rule sender_pays_handler.axioms)
qed (use sender_pays_handler.others_keep[OF assms] in \<open>auto simp: plain_cases\<close>)

lemma with_receipt_sender_pays:
  assumes "sender_pays_handler h"
  shows "sender_pays_handler (with_receipt h)"
proof (intro sender_pays_handler.intro sender_pays_handler_axioms.intro)
  show "tx_handler (with_receipt h)"
    using assms by (intro with_receipt_handler) (rule sender_pays_handler.axioms)
qed (use sender_pays_handler.others_keep[OF assms] in \<open>auto simp: with_receipt_cases\<close>)

lemmas atomic_handlers =
  agent_register.atomic_handler_axioms
  token_transfer.atomic_handler_axioms
  token_create.atomic_handler_axioms
  mint_transfer.atomic_handler_axioms
  reputation_attest.atomic_handler_axioms
  service_register.atomic_handler_axioms
  stake_deposit.atomic_handler_axioms
  platform_report.atomic_handler_axioms
  token_approve.atomic_handler_axioms
  token_burn.atomic_handler_axioms
  change_delegation.atomic_handler_axioms
  miner_register.atomic_handler_axioms
  miner_heartbeat.atomic_handler_axioms
  upgrade_announce.atomic_handler_axioms
  contract_deploy.atomic_handler_axioms
  upgrade_execute.atomic_handler_axioms

lemmas sender_pays_handlers =
  agent_register.sender_pays_handler_axioms
  token_transfer.sender_pays_handler_axioms
  token_create.sender_pays_handler_axioms
  mint_transfer.sender_pays_handler_axioms
  reputation_attest.sender_pays_handler_axioms
  service_register.sender_pays_handler_axioms
  stake_deposit.sender_pays_handler_axioms
  platform_report.sender_pays_handler_axioms
  token_approve.sender_pays_handler_axioms
  token_burn.sender_pays_handler_axioms
  change_delegation.sender_pays_handler_axioms
  miner_register.sender_pays_handler_axioms
  miner_heartbeat.sender_pays_handler_axioms
  upgrade_announce.sender_pays_handler_axioms
  stake_withdraw.sender_pays_handler_axioms
  stake_claim.sender_pays_handler_axioms
  upgrade_execute.sender_pays_handler_axioms

lemmas wrapped = plain_handler with_receipt_handler
lemmas other_handlers = stake_withdraw.tx_handler_axioms stake_claim.tx_handler_axioms
  contract_call.tx_handler_axioms

text \<open>Whatever the type, the handler that runs satisfies the interface.\<close>

lemma handler_for_atomic:
  assumes "t \<noteq> StakeWithdraw" and "t \<noteq> StakeClaim" and "t \<noteq> ContractCall"
  shows "atomic_handler (handler_for E i t)"
  using assms
  by (cases t) (simp_all add: handler_for_def plain_atomic with_receipt_atomic atomic_handlers)

lemma handler_for_sender_pays:
  assumes "t \<noteq> ContractDeploy" and "t \<noteq> ContractCall"
  shows "sender_pays_handler (handler_for E i t)"
  using assms
  by (cases t)
    (simp_all add: handler_for_def plain_sender_pays with_receipt_sender_pays sender_pays_handlers)

lemma handler_for_handler: "tx_handler (handler_for E i t)"
proof (cases "t = StakeWithdraw \<or> t = StakeClaim \<or> t = ContractCall")
  case True
  then show ?thesis by (auto simp: handler_for_def wrapped other_handlers)
next
  case False
  then show ?thesis using handler_for_atomic by (blast intro: atomic_handler.axioms)
qed

interpretation dispatch: tx_handler "dispatch E i" for E i
  by unfold_locales
    (auto simp: dispatch_def dest: tx_handler.frame[OF handler_for_handler]
      tx_handler.conserves[OF handler_for_handler] tx_handler.keeps_inv[OF handler_for_handler])

section \<open>A concrete transaction\<close>

text \<open>Alice, with ten times the gas fee, sends 5 to bob; a second transfer exceeds her balance.\<close>

definition transfer_externals :: "u128 \<Rightarrow> externals" where
  "transfer_externals n =
     sample_externals\<lparr>dec_token_transfer := (\<lambda>_. Inr \<lparr>ttp_to = bob, ttp_amount = n\<rparr>)\<rparr>"

definition funded_world :: WorldState where
  "funded_world = WorldState_default\<lparr>balances := bt_insert alice 10000000 bt_empty\<rparr>"

lemma funded_world_inv: "world_inv funded_world"
  by (simp add: funded_world_def WorldState_default_def world_inv_def inv_defs bt_contains_def)

lemmas transfer_eval = apply_tx_def dispatch_def handler_for_def plain_def handle_token_transfer_def
  Let_def transfer_externals_def funded_world_def sample_externals_def sample_tx_def
  WorldState_default_def verify_transaction_def gas_free_def safe_add_def checked_add_def debit_def claw_consts

lemma transfer_runs: "fst (apply_tx (transfer_externals 5) 0 funded_world sample_tx) = Inr (1000000, [])"
  by (simp add: transfer_eval MAX_TX_PAYLOAD_SIZE_def)

lemma transfer_run:
  "apply_tx (transfer_externals 5) 0 funded_world sample_tx
     = (Inr (1000000, []), snd (apply_tx (transfer_externals 5) 0 funded_world sample_tx))"
  using transfer_runs by (metis prod.collapse)

lemma transfer_rejected:
  "apply_tx (transfer_externals 90000000) 0 funded_world sample_tx
     = (Inl (InsufficientBalance 90000000 9000000),
        snd (apply_tx (transfer_externals 90000000) 0 funded_world sample_tx))"
  by (simp add: transfer_eval MAX_TX_PAYLOAD_SIZE_def)

section \<open>Properties\<close>

lemma gas_fee_pos: "0 < GAS_FEE"
  by (simp add: GAS_FEE_def)

lemma record_success_simps [simp]:
  "total_supply (record_success tx f r s) = total_supply s"
  "world_inv (record_success tx f r s) = world_inv s"
  "get_balance (record_success tx f r s) a = get_balance s a"
  "get_nonce (record_success tx f r s) a = (if a = tx_from tx then tx_nonce tx else get_nonce s a)"
  "contracts (record_success tx f r s) = contracts s"
  "contract_code (record_success tx f r s) = contract_code s"
  by (simp_all add: record_success_def supply_defs world_inv_def inv_defs get_balance_def get_nonce_def)

text \<open>The state a handler starts from.\<close>

definition charged :: "Transaction \<Rightarrow> WorldState \<Rightarrow> WorldState" where
  "charged tx s = (if gas_free (tx_type tx) then s else debit (tx_from tx) GAS_FEE s)"

definition fee_of :: "Transaction \<Rightarrow> u128" where
  "fee_of tx = (if gas_free (tx_type tx) then 0 else GAS_FEE)"

lemma charged_simps [simp]:
  "total_supply (charged tx s) = total_supply s - fee_of tx"
  "world_inv (charged tx s) = world_inv s"
  "nonces (charged tx s) = nonces s"
  "contracts (charged tx s) = contracts s"
  "contract_code (charged tx s) = contract_code s"
  "a \<noteq> tx_from tx \<Longrightarrow> get_balance (charged tx s) a = get_balance s a"
  by (simp_all add: charged_def fee_of_def)

lemma apply_tx_success:
  assumes "apply_tx E i s tx = (Inr (fee, evs), s')"
  shows "\<exists>rc s2. verify_transaction E tx \<and> length (tx_payload tx) \<le> MAX_TX_PAYLOAD_SIZE
    \<and> tx_nonce tx = get_nonce s (tx_from tx) + 1 \<and> fee = fee_of tx
    \<and> fee \<le> get_balance s (tx_from tx)
    \<and> dispatch E i (charged tx s) tx = (Inr (evs, rc), s2) \<and> s' = record_success tx fee rc s2"
  using assms
  by (auto simp: apply_tx_def Let_def charged_def fee_of_def get_nonce_def get_balance_def not_less
      split: prod.splits sum.splits if_splits)

lemma apply_tx_failure:
  assumes "apply_tx E i s tx = (Inl e, s')"
  shows "s' = s \<or> (\<exists>s2. fee_of tx \<le> get_balance s (tx_from tx)
    \<and> dispatch E i (charged tx s) tx = (Inl e, s2)
    \<and> s' = (if gas_free (tx_type tx) then s2 else credit (tx_from tx) GAS_FEE s2))"
  using assms
  by (auto simp: apply_tx_def Let_def charged_def fee_of_def get_balance_def not_less
      split: prod.splits sum.splits if_splits)

lemma apply_tx_supply:
  "apply_tx E i s tx = (Inr (fee, evs), s') \<Longrightarrow> total_supply s' + fee = total_supply s"
  using apply_tx_success[of E i s tx fee evs s'] dispatch.conserves by fastforce

text \<open>
  C6. Applying a transaction conserves the supply, up to the fee it returns for distribution:
  for every state, transaction and contract behaviour, in the arithmetic of the audit
  (\<open>u128\<close> sums).
\<close>

theorem apply_tx_conserves_supply:
  assumes "apply_tx E i s tx = (Inr (fee, evs), s')"
  shows "total_supply s' + fee = total_supply s"
  using assms by (rule apply_tx_supply)

theorem apply_tx_conserves_supply_witness:
  "total_supply (snd (apply_tx (transfer_externals 5) 0 funded_world sample_tx)) + 1000000
     = total_supply funded_world"
  using apply_tx_conserves_supply[OF transfer_run] by simp

lemma apply_tx_keeps_inv:
  assumes "world_inv s"
  shows "world_inv (snd (apply_tx E i s tx))"
proof (cases "apply_tx E i s tx")
  case (Pair r s')
  show ?thesis
  proof (cases r)
    case (Inl e)
    with Pair have "apply_tx E i s tx = (Inl e, s')" by simp
    from apply_tx_failure[OF this] show ?thesis
      using Pair assms dispatch.keeps_inv by fastforce
  next
    case (Inr x)
    with Pair have "apply_tx E i s tx = (Inr (fst x, snd x), s')" by simp
    from apply_tx_success[OF this] show ?thesis
      using Pair assms dispatch.keeps_inv by fastforce
  qed
qed

text \<open>
  C8. The world invariant holds along every sequence of transactions, failing ones included:
  token balances add up to each token's supply, every stake is at least the minimum, and every
  registered contract has code.
\<close>

theorem apply_all_keeps_world_inv:
  assumes "world_inv s"
  shows "world_inv (apply_all E s txs)"
  using assms
proof (induction txs arbitrary: s)
  case (Cons p txs)
  then show ?case by (cases p) (simp add: apply_tx_keeps_inv)
qed simp

theorem apply_all_keeps_world_inv_witness:
  "world_inv (apply_all (transfer_externals 5) funded_world [(0, sample_tx), (1, sample_tx)])"
  by (rule apply_all_keeps_world_inv[OF funded_world_inv])

lemma apply_tx_rejected:
  assumes "apply_tx E i s tx = (Inl e, s')" and "world_inv s"
    and "tx_type tx \<noteq> StakeWithdraw" and "tx_type tx \<noteq> StakeClaim" and "tx_type tx \<noteq> ContractCall"
  shows "s' = s"
proof (rule ccontr)
  assume "s' \<noteq> s"
  then obtain s2 where run: "dispatch E i (charged tx s) tx = (Inl e, s2)"
    and fee: "fee_of tx \<le> get_balance s (tx_from tx)"
    and s': "s' = (if gas_free (tx_type tx) then s2 else credit (tx_from tx) GAS_FEE s2)"
    using apply_tx_failure[OF assms(1)] by blast
  have "s2 = charged tx s"
    using atomic_handler.atomic[OF handler_for_atomic[OF assms(3-5)]] run assms(2)
    by (simp add: dispatch_def)
  moreover have "get_balance s (tx_from tx) \<noteq> 0" if "\<not> gas_free (tx_type tx)"
    using fee that gas_fee_pos by (auto simp: fee_of_def)
  ultimately show False
    using s' \<open>s' \<noteq> s\<close> debit_credit_same[of s "tx_from tx" GAS_FEE] by (auto simp: charged_def split: if_splits)
qed

text \<open>
  C19. A failed transaction changes nothing, gas included, for every type except a stake
  withdrawal, a stake claim and a contract call.
\<close>

theorem apply_tx_error_atomic:
  assumes "apply_tx E i s tx = (Inl e, s')" and "world_inv s"
    and "tx_type tx \<noteq> StakeWithdraw" and "tx_type tx \<noteq> StakeClaim" and "tx_type tx \<noteq> ContractCall"
  shows "s' = s"
  using assms by (rule apply_tx_rejected)

theorem apply_tx_error_atomic_witness:
  "snd (apply_tx (transfer_externals 90000000) 0 funded_world sample_tx) = funded_world"
  by (rule apply_tx_error_atomic[OF transfer_rejected funded_world_inv]) (simp_all add: sample_tx_def)

text \<open>
  A transaction is applied only with a valid signature of its sender and the sender's next
  nonce, and costs nobody but the sender: outside contract execution no other account loses.
\<close>

theorem apply_tx_only_sender_pays:
  assumes "apply_tx E i s tx = (Inr (fee, evs), s')"
    and "tx_type tx \<noteq> ContractDeploy" and "tx_type tx \<noteq> ContractCall"
    and "a \<noteq> tx_from tx"
  shows "verify_transaction E tx \<and> get_balance s a \<le> get_balance s' a"
proof -
  obtain rc s2 where "verify_transaction E tx" "dispatch E i (charged tx s) tx = (Inr (evs, rc), s2)"
    and "s' = record_success tx fee rc s2"
    using apply_tx_success[OF assms(1)] by blast
  then show ?thesis
    using sender_pays_handler.others_keep[OF handler_for_sender_pays[OF assms(2,3)], of E i "charged tx s" tx
        "(evs, rc)" s2 a] assms(4)
    by (simp add: dispatch_def)
qed

theorem apply_tx_only_sender_pays_witness:
  "get_balance funded_world bob \<le> get_balance (snd (apply_tx (transfer_externals 5) 0 funded_world sample_tx)) bob"
  using apply_tx_only_sender_pays[OF transfer_run, of bob] by (simp add: sample_tx_def)

section \<open>Replay\<close>

lemma dispatch_keeps_nonces: "dispatch E i s tx = (r, s') \<Longrightarrow> nonces s' = nonces s"
  using dispatch.frame by (fastforce simp: engine_frame_def)

lemma apply_tx_nonce:
  "get_nonce (snd (apply_tx E i s tx)) a = get_nonce s a
   \<or> get_nonce (snd (apply_tx E i s tx)) a = get_nonce s a + 1"
proof (cases "apply_tx E i s tx")
  case (Pair r s')
  show ?thesis
  proof (cases r)
    case (Inl e)
    with Pair have "apply_tx E i s tx = (Inl e, s')" by simp
    from apply_tx_failure[OF this] show ?thesis
      using Pair dispatch_keeps_nonces by (fastforce simp: get_nonce_def)
  next
    case (Inr x)
    with Pair have "apply_tx E i s tx = (Inr (fst x, snd x), s')" by simp
    from apply_tx_success[OF this] obtain rc s2 where "tx_nonce tx = get_nonce s (tx_from tx) + 1"
      "nonces s2 = nonces s" "s' = record_success tx (fst x) rc s2"
      using dispatch_keeps_nonces by fastforce
    then show ?thesis using Pair by simp (simp add: get_nonce_def)
  qed
qed

lemma apply_all_nonce:
  "\<exists>k \<le> length txs. get_nonce (apply_all E s txs) a = get_nonce s a + of_nat k"
proof (induction txs arbitrary: s)
  case (Cons p txs)
  obtain i tx where p: "p = (i, tx)" by force
  obtain k where k: "k \<le> length txs"
    "get_nonce (apply_all E (snd (apply_tx E i s tx)) txs) a = get_nonce (snd (apply_tx E i s tx)) a + of_nat k"
    using Cons.IH by blast
  show ?case
    using apply_tx_nonce[of E i s tx a]
  proof
    assume "get_nonce (snd (apply_tx E i s tx)) a = get_nonce s a"
    then show ?thesis using k p by (intro exI[of _ k]) auto
  next
    assume "get_nonce (snd (apply_tx E i s tx)) a = get_nonce s a + 1"
    then show ?thesis using k p by (intro exI[of _ "Suc k"]) auto
  qed
qed simp

lemma of_nat_u64_eq_0: "n < 2 ^ 64 \<Longrightarrow> (of_nat n :: u64) = 0 \<longleftrightarrow> n = 0"
  using nat_dvd_not_less[of n "2 ^ 64"] by (cases "n = 0") (simp_all add: word_of_nat_eq_0_iff)

text \<open>
  C9. No replay: once a transaction has been applied, it is rejected for its nonce after every
  further sequence of transactions shorter than the nonce space.
\<close>

theorem apply_tx_no_replay:
  assumes "apply_tx E i s tx = (Inr r, s')" and "length txs < 2 ^ 64 - 1"
  shows "\<exists>n. fst (apply_tx E j (apply_all E s' txs) tx) = Inl (InvalidNonce n (tx_nonce tx))"
proof -
  have ok: "apply_tx E i s tx = (Inr (fst r, snd r), s')" using assms(1) by simp
  obtain rc s2 where good: "verify_transaction E tx" "length (tx_payload tx) \<le> MAX_TX_PAYLOAD_SIZE"
    and s': "s' = record_success tx (fst r) rc s2"
    using apply_tx_success[OF ok] by blast
  obtain k where k: "k \<le> length txs"
    "get_nonce (apply_all E s' txs) (tx_from tx) = get_nonce s' (tx_from tx) + of_nat k"
    using apply_all_nonce by blast
  have "get_nonce s' (tx_from tx) = tx_nonce tx" by (simp add: s')
  moreover have "(of_nat (Suc k) :: u64) \<noteq> 0"
    using k(1) assms(2) of_nat_u64_eq_0[of "Suc k"] by simp
  ultimately have "get_nonce (apply_all E s' txs) (tx_from tx) + 1 \<noteq> tx_nonce tx"
    using k(2) by (simp add: algebra_simps)
  then show ?thesis
    using good by (simp add: apply_tx_def Let_def get_nonce_def)
qed

theorem apply_tx_no_replay_witness:
  "\<exists>n. fst (apply_tx (transfer_externals 5) 1
      (apply_all (transfer_externals 5) (snd (apply_tx (transfer_externals 5) 0 funded_world sample_tx))
        [(1, sample_tx)]) sample_tx) = Inl (InvalidNonce n 1)"
  using apply_tx_no_replay[OF transfer_run, of "[(1, sample_tx)]" 1] by (simp add: sample_tx_def)

section \<open>Contract code\<close>

lemma ledger_keeps_code:
  "contract_code (snd (handle_agent_register E s tx)) = contract_code s"
  "contract_code (snd (handle_token_transfer E s tx)) = contract_code s"
  "contract_code (snd (handle_token_create E s tx)) = contract_code s"
  "contract_code (snd (handle_token_mint_transfer E s tx)) = contract_code s"
  "contract_code (snd (handle_reputation_attest s tx)) = contract_code s"
  "contract_code (snd (handle_service_register E s tx)) = contract_code s"
  "contract_code (snd (handle_platform_activity_report E s tx)) = contract_code s"
  "contract_code (snd (handle_token_approve E s tx)) = contract_code s"
  "contract_code (snd (handle_token_burn E s tx)) = contract_code s"
  by (simp_all add: handle_agent_register_def handle_token_transfer_def handle_token_create_def
      handle_token_mint_transfer_def handle_reputation_attest_def handle_service_register_def
      handle_platform_activity_report_def handle_token_approve_def handle_token_burn_def Let_def
      split: sum.split option.split)

lemma staking_keeps_code:
  "contract_code (snd (handle_stake_deposit E s tx)) = contract_code s"
  "contract_code (snd (handle_stake_withdraw E s tx)) = contract_code s"
  "contract_code (snd (handle_stake_claim E s tx)) = contract_code s"
  "contract_code (snd (handle_change_delegation E s tx)) = contract_code s"
  by (simp_all add: handle_stake_deposit_def handle_stake_withdraw_def handle_stake_claim_def
      handle_change_delegation_def record_delegation_def untrack_user_def reduce_stake_def Let_def
      split: sum.split option.split prod.split)

lemma mining_keeps_code:
  "contract_code (snd (handle_miner_register E s tx)) = contract_code s"
  "contract_code (snd (handle_miner_heartbeat E s tx)) = contract_code s"
  by (simp_all add: handle_miner_register_def heartbeat_defs split: sum.split option.split)

lemma contracts_keep_code:
  "contract_code (snd (handle_contract_call E i s tx)) = contract_code s"
  "contract_code (snd (handle_contract_upgrade_announce E s tx)) = contract_code s"
  "bt_contains (contracts s) c \<Longrightarrow>
     bt_get (contract_code (snd (handle_contract_deploy E i s tx))) c = bt_get (contract_code s) c"
  by (auto simp: handle_contract_call_def handle_contract_upgrade_announce_def handle_contract_deploy_def
      register_contract_def Let_def split: sum.split option.split)

lemma snd_plain [simp]: "snd (plain h s tx) = snd (h s tx)"
  by (auto simp: plain_def split: prod.split sum.split)

lemma snd_with_receipt [simp]: "snd (with_receipt h s tx) = snd (h s tx)"
  by (auto simp: with_receipt_def split: prod.split sum.split)

lemma dispatch_keeps_code:
  assumes "tx_type tx \<noteq> ContractUpgradeExecute" and "bt_contains (contracts s) c"
  shows "bt_get (contract_code (snd (dispatch E i s tx))) c = bt_get (contract_code s) c"
  using assms
  by (cases "tx_type tx")
    (simp_all add: dispatch_def handler_for_def ledger_keeps_code staking_keeps_code mining_keeps_code
      contracts_keep_code)

lemma apply_tx_code:
  "contract_code (snd (apply_tx E i s tx)) = contract_code s
   \<or> verify_transaction E tx
     \<and> contract_code (snd (apply_tx E i s tx)) = contract_code (snd (dispatch E i (charged tx s) tx))"
  by (auto simp: apply_tx_def Let_def charged_def split: prod.split sum.split)

text \<open>
  C10. The code of a deployed contract is immutable except by upgrade: if applying any
  transaction changes it, the transaction is an upgrade execution signed by the contract's
  admin, after the timelock of an announcement of exactly the new code's hash.
\<close>

theorem contract_code_changes_only_by_upgrade:
  assumes "bt_contains (contracts s) c"
    and "bt_get (contract_code (snd (apply_tx E i s tx))) c \<noteq> bt_get (contract_code s) c"
  shows "tx_type tx = ContractUpgradeExecute \<and> verify_transaction E tx
    \<and> (\<exists>inst pend code. bt_get (contracts s) c = Some inst \<and> ci_admin inst = tx_from tx
        \<and> ci_pending_upgrade inst = Some pend \<and> pu_ready_at pend \<le> block_height s
        \<and> blake3 E code = pu_new_code_hash pend
        \<and> bt_get (contract_code (snd (apply_tx E i s tx))) c = Some code)"
proof -
  let ?d = "dispatch E i (charged tx s) tx"
  have vd: "verify_transaction E tx" "contract_code (snd (apply_tx E i s tx)) = contract_code (snd ?d)"
    using apply_tx_code[of E i s tx] assms(2) by auto
  have ty: "tx_type tx = ContractUpgradeExecute"
    using dispatch_keeps_code[of tx "charged tx s" c E i] assms vd(2) by auto
  let ?u = "handle_contract_upgrade_execute E i (charged tx s) tx"
  have code: "contract_code (snd (apply_tx E i s tx)) = contract_code (snd ?u)"
    using vd(2) ty by (simp add: dispatch_def handler_for_def)
  obtain x where "fst ?u = Inr x"
    using assms(2) code upgrade_execute_failure[of E i "charged tx s" tx] by (cases "fst ?u") auto
  then have "?u = (Inr x, snd ?u)" by (metis prod.collapse)
  from upgrade_execute_success[OF this] obtain p :: ContractUpgradeExecutePayload
    and inst :: ContractInstance and pend :: PendingUpgrade where u:
    "bt_get (contracts s) (uep_contract p) = Some inst" "ci_admin inst = tx_from tx"
    "ci_pending_upgrade inst = Some pend" "pu_ready_at pend \<le> block_height (charged tx s)"
    "blake3 E (uep_new_code p) = pu_new_code_hash pend"
    "contract_code (snd ?u) = bt_insert (uep_contract p) (uep_new_code p) (contract_code s)"
    unfolding charged_simps by blast
  have c: "c = uep_contract p" using assms(2) code u(6) by (auto split: if_splits)
  show ?thesis
    using u vd(1) ty c code by (simp add: charged_def split: if_splits)
qed

theorem contract_code_changes_only_by_upgrade_witness:
  "let E = sample_externals\<lparr>dec_upgrade_execute := (\<lambda>_. Inr \<lparr>uep_contract = bob, uep_new_code = [],
             uep_migrate_method = None, uep_migrate_args = []\<rparr>)\<rparr>;
       s = announced_world\<lparr>balances := bt_insert alice 10000000 bt_empty\<rparr>;
       tx = sample_tx\<lparr>tx_type := ContractUpgradeExecute\<rparr>
   in bt_get (contract_code s) bob = Some [0]
    \<and> (\<exists>inst. bt_get (contracts s) bob = Some inst \<and> ci_admin inst = tx_from tx)"
proof -
  let ?E = "sample_externals\<lparr>dec_upgrade_execute := (\<lambda>_. Inr \<lparr>uep_contract = bob, uep_new_code = [],
             uep_migrate_method = None, uep_migrate_args = []\<rparr>)\<rparr>"
  let ?s = "announced_world\<lparr>balances := bt_insert alice 10000000 bt_empty\<rparr>"
  let ?tx = "sample_tx\<lparr>tx_type := ContractUpgradeExecute\<rparr>"
  have there: "bt_contains (contracts ?s) bob" and old: "bt_get (contract_code ?s) bob = Some [0]"
    by (simp_all add: announced_world_def)
  have "bt_get (contract_code (snd (apply_tx ?E 0 ?s ?tx))) bob = Some []"
    by (simp add: apply_tx_def dispatch_def handler_for_def with_receipt_def
        handle_contract_upgrade_execute_def announced_world_def sample_externals_def Let_def
        sample_tx_def sample_instance_def validate_def verify_transaction_def gas_free_def
        sample_world_def WorldState_default_def commit_upgrade_def claw_consts MAX_TX_PAYLOAD_SIZE_def)
  then have "bt_get (contract_code (snd (apply_tx ?E 0 ?s ?tx))) bob \<noteq> bt_get (contract_code ?s) bob"
    using old by simp
  from contract_code_changes_only_by_upgrade[OF there this] show ?thesis
    using old by (auto simp: Let_def)
qed

end
