(* ===== verification/Rewards.thy ===== *)
theory Rewards
  imports Handler_Interface
begin

text \<open>
  Rewards (\<open>state/src/rewards.rs\<close>): the emission schedule, block rewards for validators with
  commission, the fee split with its burn, and the three generations of mining rewards (direct,
  epoch bucket, pending with confirmation).

  The loop that splits an amount by weight, the last recipient taking the remainder, occurs
  three times in the code; it is \<open>pay_shares\<close>, over the action that pays one recipient. The
  locale \<open>share_sink\<close> is the interface between the loop and these actions.
\<close>

unbundle bit_operations_syntax

section \<open>Constants and schedule\<close>

definition BLOCKS_PER_YEAR :: u64 where
  [claw_consts]: "BLOCKS_PER_YEAR = 10512000"

definition NODE_INCENTIVE_POOL_INDEX :: u8 where
  [claw_consts]: "NODE_INCENTIVE_POOL_INDEX = 1"

definition ECOSYSTEM_FUND_INDEX :: u8 where
  [claw_consts]: "ECOSYSTEM_FUND_INDEX = 2"

definition MINING_UPGRADE_HEIGHT :: u64 where
  [claw_consts]: "MINING_UPGRADE_HEIGHT = 2000"

definition VALIDATOR_REWARD_BPS :: u128 where
  [claw_consts]: "VALIDATOR_REWARD_BPS = 6500"

definition MINING_REWARD_BPS :: u128 where
  [claw_consts]: "MINING_REWARD_BPS = 3500"

definition HALVING_PERIOD :: u64 where
  "HALVING_PERIOD = 2 * BLOCKS_PER_YEAR"

definition genesis_address :: "u8 \<Rightarrow> address" where
  "genesis_address index = index # replicate 31 0"

definition reward_per_block :: "u64 \<Rightarrow> u128" where
  "reward_per_block height =
     (if height < MINING_UPGRADE_HEIGHT then
        (let year = height div BLOCKS_PER_YEAR in
         if year = 0 then 10000000000
         else if year = 1 then 8000000000
         else if year = 2 then 6000000000
         else if year = 3 then 4000000000
         else if 4 \<le> year \<and> year \<le> 9 then 2000000000
         else 1000000000)
      else
        (let adjusted = height - MINING_UPGRADE_HEIGHT; period = adjusted div HALVING_PERIOD in
         if period = 0 then 8000000000
         else if period = 1 then 4000000000
         else if period = 2 then 2000000000
         else if period = 3 then 1000000000
         else if period = 4 then 500000000
         else 250000000))"

section \<open>Splitting an amount by weight\<close>

text \<open>
  One pass over the recipients. Zero shares are skipped; the last recipient gets what is left.
\<close>

fun pay_shares :: "('a \<Rightarrow> u128 \<Rightarrow> 's \<Rightarrow> 's) \<Rightarrow> u128 \<Rightarrow> u128 \<Rightarrow> ('a \<times> u128) list \<Rightarrow> u128 \<Rightarrow> 's \<Rightarrow> 's" where
  "pay_shares pay reward total_weight [] distributed st = st"
| "pay_shares pay reward total_weight ((addr, weight) # rest) distributed st =
     (let share = (if rest = [] then reward - distributed else reward * weight div total_weight) in
      if share > 0
      then pay_shares pay reward total_weight rest (distributed + share) (pay addr share st)
      else pay_shares pay reward total_weight rest distributed st)"

section \<open>Block rewards and fees\<close>

type_synonym ledger = "WorldState \<times> BlockEvent list"

definition pay_to :: "address \<Rightarrow> u128 \<Rightarrow> string \<Rightarrow> ledger \<Rightarrow> ledger" where
  "pay_to recipient amount reward_type l =
     (credit recipient amount (fst l), snd l @ [RewardDistributed recipient amount reward_type])"

definition pay_positive :: "address \<Rightarrow> u128 \<Rightarrow> string \<Rightarrow> ledger \<Rightarrow> ledger" where
  "pay_positive recipient amount reward_type l =
     (if amount > 0 then pay_to recipient amount reward_type l else l)"

text \<open>
  A validator's income: shared with the delegation owner by commission, or all to the validator.
  The three labels name the reward types of the events.
\<close>

definition pay_validator :: "string \<Rightarrow> string \<Rightarrow> string \<Rightarrow> address \<Rightarrow> u128 \<Rightarrow> ledger \<Rightarrow> ledger" where
  "pay_validator commission_label delegator_label self_label addr share l =
     (let world = fst l;
          reward_recipient = bt_get_or (stake_delegations world) addr addr in
      if reward_recipient \<noteq> addr
      then (let commission_bps = ucast (bt_get_or (stake_commissions world) 8000 addr);
                validator_share = share * commission_bps div 10000;
                delegator_share = share - validator_share in
            pay_positive reward_recipient delegator_share delegator_label
              (pay_positive addr validator_share commission_label l))
      else pay_to addr share self_label l)"

definition distribute_block_reward :: "WorldState \<Rightarrow> (address \<times> u64) list \<Rightarrow> u64 \<Rightarrow> ledger" where
  "distribute_block_reward world validators height =
     (if validators = [] then (world, [])
      else
        (let pool_addr = genesis_address NODE_INCENTIVE_POOL_INDEX;
             pool_balance = bt_get_or (balances world) 0 pool_addr in
         if pool_balance = 0 then (world, [])
         else
           (let base_reward = reward_per_block height;
                validator_reward = (if height \<ge> MINING_UPGRADE_HEIGHT
                  then base_reward * VALIDATOR_REWARD_BPS div 10000 else base_reward);
                reward = min validator_reward pool_balance in
            if reward = 0 then (world, [])
            else
              (let total_weight = fold (\<lambda>v acc. saturating_add acc (snd v)) validators 0 in
               if total_weight = 0 then (world, [])
               else
                 pay_shares
                   (pay_validator ''validator_commission'' ''delegator_reward'' ''block_reward'')
                   reward (ucast total_weight) (map (\<lambda>v. (fst v, ucast (snd v))) validators) 0
                   (debit pool_addr reward world, [])))))"

definition distribute_fees :: "WorldState \<Rightarrow> address \<Rightarrow> u128 \<Rightarrow> ledger" where
  "distribute_fees world proposer total_fees =
     (if total_fees = 0 then (world, [])
      else
        (let proposer_share = total_fees * 50 div 100;
             ecosystem_share = total_fees * 20 div 100;
             burned = total_fees - proposer_share - ecosystem_share;
             l0 = (world, []);
             l1 = (if proposer_share > 0
                   then pay_validator ''proposer_fee_commission'' ''proposer_fee_delegator'' ''proposer_fee''
                          proposer proposer_share l0
                   else l0);
             l2 = pay_positive (genesis_address ECOSYSTEM_FUND_INDEX) ecosystem_share ''ecosystem_fee'' l1 in
         if burned > 0
         then (fst l2, snd l2 @ [RewardDistributed (replicate 32 0) burned ''fee_burn''])
         else l2))"

section \<open>Mining rewards\<close>

fun tier_weight :: "MinerTier \<Rightarrow> u128" where
  "tier_weight Online = 1"

definition distribute_mining_rewards :: "WorldState \<Rightarrow> u64 \<Rightarrow> ledger" where
  "distribute_mining_rewards world height =
     (if height < MINING_UPGRADE_HEIGHT then (world, [])
      else
        (let pool_addr = genesis_address NODE_INCENTIVE_POOL_INDEX;
             pool_balance = bt_get_or (balances world) 0 pool_addr in
         if pool_balance = 0 then (world, [])
         else
           (let active_miners = map (\<lambda>p. (fst p, tier_weight (mi_tier (snd p)) * ucast (mi_reputation_bps (snd p))))
                  (filter (\<lambda>p. mi_active (snd p)) (entries (miners world))) in
            if active_miners = [] then (world, [])
            else
              (let base_reward = reward_per_block height;
                   mining_reward = base_reward * MINING_REWARD_BPS div 10000;
                   reward = min mining_reward pool_balance in
               if reward = 0 then (world, [])
               else
                 (let total_weight = sum_list (map snd active_miners) in
                  if total_weight = 0 then (world, [])
                  else pay_shares (\<lambda>addr share. pay_to addr share ''mining_reward'')
                         reward total_weight active_miners 0 (debit pool_addr reward world, []))))))"

definition update_miner_activity :: "WorldState \<Rightarrow> u64 \<Rightarrow> WorldState" where
  "update_miner_activity world current_height =
     (if current_height \<ge> HEARTBEAT_V2_HEIGHT then world
      else world\<lparr>miners := bt_map_values (\<lambda>_ miner.
             if mi_active miner \<and> mi_last_heartbeat miner + MINER_GRACE_BLOCKS < current_height
             then miner\<lparr>mi_active := False\<rparr> else miner) (miners world)\<rparr>)"

definition accumulate_mining_reward :: "WorldState \<Rightarrow> u64 \<Rightarrow> ledger" where
  "accumulate_mining_reward world height =
     (if height < HEARTBEAT_V2_HEIGHT then distribute_mining_rewards world height
      else if height < MINING_UPGRADE_HEIGHT then (world, [])
      else
        (let pool_addr = genesis_address NODE_INCENTIVE_POOL_INDEX;
             pool_balance = bt_get_or (balances world) 0 pool_addr in
         if pool_balance = 0 then (world, [])
         else
           (let base_reward = reward_per_block height;
                mining_reward = base_reward * MINING_REWARD_BPS div 10000;
                actual = min mining_reward pool_balance in
            if actual = 0 then (world, [])
            else ((debit pool_addr actual world)
                    \<lparr>epoch_reward_bucket := epoch_reward_bucket world + actual\<rparr>, []))))"

section \<open>The epoch boundary\<close>

text \<open>At the activation height the V2 fields are normalised and the bucket goes back.\<close>

definition activate_v2 :: "WorldState \<Rightarrow> WorldState" where
  "activate_v2 world =
     (let world1 = world\<lparr>miners := bt_map_values (\<lambda>_ miner. miner\<lparr>mi_pending_rewards := 0,
            mi_pending_epoch := 0, mi_epoch_attendance := 0, mi_consecutive_misses := 0\<rparr>) (miners world)\<rparr>;
          world2 = (if epoch_reward_bucket world1 > 0
                    then (credit (genesis_address NODE_INCENTIVE_POOL_INDEX) (epoch_reward_bucket world1) world1)
                           \<lparr>epoch_reward_bucket := 0\<rparr>
                    else world1) in
      world2\<lparr>epoch_checkins := bt_empty\<rparr>)"

definition checked_in :: "u64 \<Rightarrow> u64 \<Rightarrow> MinerInfo \<Rightarrow> bool" where
  "checked_in height settled_epoch miner =
     (if height \<ge> CHECKIN_V3_HEIGHT then mi_last_checkin_epoch miner = settled_epoch
      else mi_last_heartbeat miner div MINER_EPOCH_LENGTH = settled_epoch)"

text \<open>The miner record after a kept and after a missed check-in, before the pending reset.\<close>

definition reward_presence :: "u64 \<Rightarrow> MinerInfo \<Rightarrow> MinerInfo" where
  "reward_presence height miner =
     (let age = saturating_sub height (mi_registered_at miner) in
      miner\<lparr>mi_active := True, mi_consecutive_misses := 0,
        mi_epoch_attendance := (push_bit 1 (mi_epoch_attendance miner)) OR 1,
        mi_reputation_bps :=
          (if age \<ge> BLOCKS_30_DAYS then max (mi_reputation_bps miner) REPUTATION_VETERAN_BPS
           else if age \<ge> BLOCKS_7_DAYS then max (mi_reputation_bps miner) REPUTATION_ESTABLISHED_BPS
           else mi_reputation_bps miner)\<rparr>)"

definition penalize_absence :: "MinerInfo \<Rightarrow> MinerInfo" where
  "penalize_absence miner =
     (let misses = saturating_add (mi_consecutive_misses miner) 1;
          decayed = (ucast (mi_reputation_bps miner) :: u32) * (10000 - ucast REPUTATION_DECAY_BPS) div 10000 in
      miner\<lparr>mi_consecutive_misses := misses,
        mi_epoch_attendance := push_bit 1 (mi_epoch_attendance miner),
        mi_reputation_bps := max (ucast decayed) REPUTATION_NEWCOMER_BPS,
        mi_active := (if misses \<ge> MINER_GRACE_EPOCHS then False else mi_active miner)\<rparr>)"

text \<open>One iteration of the settlement loop: pay or forfeit the pending reward, update, reset.\<close>

definition settle_miner :: "u64 \<Rightarrow> address \<Rightarrow> ledger \<Rightarrow> ledger" where
  "settle_miner height addr l =
     (let world = fst l;
          current_epoch = height div MINER_EPOCH_LENGTH;
          settled_epoch = current_epoch - 1;
          pool_addr = genesis_address NODE_INCENTIVE_POOL_INDEX in
      case bt_get (miners world) addr of
        None \<Rightarrow> l
      | Some miner \<Rightarrow>
          (let pending = mi_pending_rewards miner;
               here = checked_in height settled_epoch miner;
               l1 = (if here
                     then (if mi_pending_epoch miner = settled_epoch \<and> pending > 0
                           then pay_to addr pending ''mining_reward_confirmed'' l else l)
                     else pay_positive pool_addr pending ''mining_reward_forfeited'' l);
               miner1 = (if here then reward_presence height miner else penalize_absence miner) in
           ((fst l1)\<lparr>miners := bt_insert addr
               (miner1\<lparr>mi_pending_rewards := 0, mi_pending_epoch := current_epoch\<rparr>) (miners (fst l1))\<rparr>,
            snd l1)))"

text \<open>\<open>count_ones\<close> of the low twelve attendance bits.\<close>

definition attendance_count :: "u16 \<Rightarrow> nat" where
  "attendance_count a = length (filter (\<lambda>i. bit (a AND 0x0FFF) i) [0..<16])"

definition miner_weight :: "MinerInfo \<Rightarrow> u128" where
  "miner_weight m = tier_weight (mi_tier m) * ucast (mi_reputation_bps m)
     * miner_uptime_multiplier (attendance_count (mi_epoch_attendance m))"

definition qualified_miners :: "WorldState \<Rightarrow> (address \<times> u128) list" where
  "qualified_miners world =
     map (\<lambda>p. (fst p, miner_weight (snd p)))
       (filter (\<lambda>p. mi_active (snd p)
          \<and> \<not> attendance_count (mi_epoch_attendance (snd p)) < MINER_MIN_UPTIME_FOR_REWARD
          \<and> miner_weight (snd p) > 0) (entries (miners world)))"

definition set_pending :: "address \<Rightarrow> u128 \<Rightarrow> WorldState \<Rightarrow> WorldState" where
  "set_pending addr share world =
     world\<lparr>miners := bt_modify addr (\<lambda>m. m\<lparr>mi_pending_rewards := share\<rparr>) (miners world)\<rparr>"

definition distribute_bucket :: "WorldState \<Rightarrow> WorldState" where
  "distribute_bucket world =
     (let bucket = epoch_reward_bucket world in
      if bucket > 0
      then (let qualified = qualified_miners world;
                world1 = (if qualified = []
                  then credit (genesis_address NODE_INCENTIVE_POOL_INDEX) bucket world
                  else pay_shares set_pending bucket (sum_list (map snd qualified)) qualified 0 world) in
            world1\<lparr>epoch_reward_bucket := 0\<rparr>)
      else world)"

definition process_miner_epoch_boundary :: "WorldState \<Rightarrow> u64 \<Rightarrow> ledger" where
  "process_miner_epoch_boundary world height =
     (if height < HEARTBEAT_V2_HEIGHT then (world, [])
      else if height mod MINER_EPOCH_LENGTH \<noteq> 0 then (world, [])
      else if height = HEARTBEAT_V2_HEIGHT then (activate_v2 world, [])
      else
        (let l = fold (settle_miner height) (bt_keys (miners world)) (world, []);
             world2 = distribute_bucket (fst l) in
         (world2\<lparr>epoch_checkins := bt_empty\<rparr>, snd l)))"

definition migrate_miners_v2_to_v3 :: "WorldState \<Rightarrow> WorldState" where
  "migrate_miners_v2_to_v3 world = world\<lparr>miners := bt_map_values (\<lambda>_ miner.
     miner\<lparr>mi_last_checkin_epoch := mi_last_heartbeat miner div MINER_EPOCH_LENGTH\<rparr>) (miners world)\<rparr>"

section \<open>The share loop\<close>

text \<open>
  What the loop needs of the action that pays one recipient: the value of the state grows by
  the amount paid, as long as the recipient is fresh; a recipient may be paid again only if the
  action is \<open>reusable\<close>.
\<close>

locale share_sink =
  fixes pay :: "'a \<Rightarrow> u128 \<Rightarrow> 's \<Rightarrow> 's"
    and val :: "'s \<Rightarrow> u128"
    and fresh :: "'a \<Rightarrow> 's \<Rightarrow> bool"
    and reusable :: bool
  assumes val_pay: "fresh a st \<Longrightarrow> val (pay a n st) = val st + n"
    and fresh_pay: "fresh b st \<Longrightarrow> b \<noteq> a \<or> reusable \<Longrightarrow> fresh b (pay a n st)"
begin

lemma val_pay_shares:
  assumes "ps \<noteq> []" and "\<forall>a \<in> set (map fst ps). fresh a st" and "reusable \<or> distinct (map fst ps)"
  shows "val (pay_shares pay reward tw ps distributed st) = val st + (reward - distributed)"
  using assms
proof (induction ps arbitrary: distributed st)
  case (Cons p rest)
  obtain addr weight where p: "p = (addr, weight)" by force
  have fr: "fresh addr st" using Cons.prems(2) p by simp
  show ?case
  proof (cases "rest = []")
    case True
    then show ?thesis
      using fr p by (auto simp: Let_def word_gt_0 val_pay)
  next
    case False
    let ?n = "reward * weight div tw"
    have "\<forall>a \<in> set (map fst rest). fresh a (pay addr ?n st)"
      using Cons.prems(2,3) p by (auto intro!: fresh_pay)
    then show ?thesis
      using False Cons.IH[of "pay addr ?n st" "distributed + ?n"] Cons.IH[of st distributed]
        Cons.prems(2,3) fr p
      by (auto simp: Let_def val_pay algebra_simps)
  qed
qed simp

end

lemma pay_to_supply [simp]: "total_supply (fst (pay_to a n t l)) = total_supply (fst l) + n"
  by (simp add: pay_to_def)

lemma pay_positive_supply [simp]: "total_supply (fst (pay_positive a n t l)) = total_supply (fst l) + n"
  by (auto simp: pay_positive_def word_gt_0)

lemma pay_validator_supply [simp]:
  "total_supply (fst (pay_validator c d o' a n l)) = total_supply (fst l) + n"
  by (simp add: pay_validator_def Let_def)

interpretation validator_sink: share_sink "pay_validator c d o'" "\<lambda>l. total_supply (fst l)" "\<lambda>_ _. True" True
  for c d o'
  by unfold_locales simp_all

interpretation miner_sink: share_sink "\<lambda>a n. pay_to a n t" "\<lambda>l. total_supply (fst l)" "\<lambda>_ _. True" True
  for t
  by unfold_locales simp_all

definition unpaid :: "address \<Rightarrow> WorldState \<Rightarrow> bool" where
  "unpaid a s \<longleftrightarrow> (\<exists>m. bt_get (miners s) a = Some m \<and> mi_pending_rewards m = 0)"

interpretation pending_sink: share_sink set_pending total_supply unpaid False
proof unfold_locales
  fix a st n
  assume "unpaid a st"
  then show "total_supply (set_pending a n st) = total_supply st + n"
    by (auto simp: unpaid_def set_pending_def bt_modify_def supply_defs bt_sum_insert)
next
  fix b st a n
  assume "unpaid b st" and "b \<noteq> a \<or> False"
  then show "unpaid b (set_pending a n st)"
    by (auto simp: unpaid_def set_pending_def bt_modify_def split: option.split)
qed

lemma distribute_block_reward_supply:
  "total_supply (fst (distribute_block_reward s vs h)) = total_supply s"
  by (simp add: distribute_block_reward_def Let_def validator_sink.val_pay_shares)

lemma distribute_mining_rewards_supply:
  "total_supply (fst (distribute_mining_rewards s h)) = total_supply s"
  by (simp add: distribute_mining_rewards_def Let_def miner_sink.val_pay_shares)

lemma total_supply_bucket:
  "total_supply (s\<lparr>epoch_reward_bucket := b\<rparr>) = total_supply s - epoch_reward_bucket s + b"
  by (simp add: supply_defs)

lemma accumulate_mining_reward_supply:
  "total_supply (fst (accumulate_mining_reward s h)) = total_supply s"
  by (simp add: accumulate_mining_reward_def Let_def distribute_mining_rewards_supply total_supply_bucket)

lemma distribute_fees_supply:
  "total_supply (fst (distribute_fees s p f)) = total_supply s + f * 50 div 100 + f * 20 div 100"
  by (simp add: distribute_fees_def Let_def word_gt_0)

section \<open>Settlement\<close>

definition pending_inv :: "u64 \<Rightarrow> WorldState \<Rightarrow> bool" where
  "pending_inv epoch s \<longleftrightarrow>
     (\<forall>a m. bt_get (miners s) a = Some m \<longrightarrow> mi_pending_rewards m = 0 \<or> mi_pending_epoch m = epoch)"

lemma pay_to_frame [simp]: "miners (fst (pay_to a n t l)) = miners (fst l)"
  "epoch_reward_bucket (fst (pay_to a n t l)) = epoch_reward_bucket (fst l)"
  by (simp_all add: pay_to_def)

lemma pay_positive_frame [simp]: "miners (fst (pay_positive a n t l)) = miners (fst l)"
  "epoch_reward_bucket (fst (pay_positive a n t l)) = epoch_reward_bucket (fst l)"
  by (simp_all add: pay_positive_def)

lemma get_balance_pay_to [simp]:
  "get_balance (fst (pay_to a n t l)) b = (if b = a then get_balance (fst l) a + n else get_balance (fst l) b)"
  by (simp add: pay_to_def)

lemma get_balance_pay_positive [simp]:
  "get_balance (fst (pay_positive a n t l)) b = (if b = a then get_balance (fst l) a + n else get_balance (fst l) b)"
  by (simp add: pay_positive_def word_gt_0)

lemma pending_updates [simp]:
  "mi_pending_rewards (reward_presence h m) = mi_pending_rewards m"
  "mi_pending_rewards (penalize_absence m) = mi_pending_rewards m"
  by (simp_all add: reward_presence_def penalize_absence_def Let_def)

lemma total_supply_miners_update:
  assumes "bt_get (miners s) a = Some m" and "mm = miners s"
  shows "total_supply (s\<lparr>miners := bt_insert a m' mm\<rparr>)
    = total_supply s - mi_pending_rewards m + mi_pending_rewards m'"
  using assms by (simp add: supply_defs bt_sum_insert)

lemma settle_miner_supply:
  assumes "pending_inv (h div MINER_EPOCH_LENGTH - 1) (fst l)"
  shows "total_supply (fst (settle_miner h a l)) = total_supply (fst l)"
proof (cases "bt_get (miners (fst l)) a")
  case (Some m)
  then have "mi_pending_rewards m = 0 \<or> mi_pending_epoch m = h div MINER_EPOCH_LENGTH - 1"
    using assms by (auto simp: pending_inv_def)
  then show ?thesis
    using Some by (auto simp: settle_miner_def Let_def total_supply_miners_update word_gt_0)
qed (simp add: settle_miner_def Let_def)

text \<open>The record of a miner after the settlement.\<close>

definition settled :: "u64 \<Rightarrow> MinerInfo \<Rightarrow> MinerInfo" where
  "settled h m = (if checked_in h (h div MINER_EPOCH_LENGTH - 1) m
     then reward_presence h m else penalize_absence m)
     \<lparr>mi_pending_rewards := 0, mi_pending_epoch := h div MINER_EPOCH_LENGTH\<rparr>"

lemma settle_miner_miners:
  "bt_get (miners (fst (settle_miner h a l))) b =
     (if b = a then map_option (settled h) (bt_get (miners (fst l)) a)
      else bt_get (miners (fst l)) b)"
  by (auto simp: settle_miner_def settled_def Let_def split: option.split)

lemma settle_miner_bucket [simp]:
  "epoch_reward_bucket (fst (settle_miner h a l)) = epoch_reward_bucket (fst l)"
  by (auto simp: settle_miner_def Let_def split: option.split)

lemma settle_miner_pending_inv:
  "pending_inv e (fst l) \<Longrightarrow> pending_inv e (fst (settle_miner h a l))"
  by (auto simp: pending_inv_def settle_miner_miners settled_def split: if_splits)

lemma settle_all_supply:
  assumes "pending_inv (h div MINER_EPOCH_LENGTH - 1) (fst l)"
  shows "total_supply (fst (fold (settle_miner h) ks l)) = total_supply (fst l)"
  using assms by (induction ks arbitrary: l) (simp_all add: settle_miner_supply settle_miner_pending_inv)

lemma settle_all_bucket [simp]:
  "epoch_reward_bucket (fst (fold (settle_miner h) ks l)) = epoch_reward_bucket (fst l)"
  by (induction ks arbitrary: l) simp_all

lemma settle_all_miners:
  assumes "distinct ks"
  shows "bt_get (miners (fst (fold (settle_miner h) ks l))) b =
    (if b \<in> set ks then map_option (settled h) (bt_get (miners (fst l)) b)
     else bt_get (miners (fst l)) b)"
  using assms
  by (induction ks arbitrary: l) (auto simp: settle_miner_miners)

definition confirmed :: "u64 \<Rightarrow> WorldState \<Rightarrow> address \<Rightarrow> u128" where
  "confirmed h s a = (case bt_get (miners s) a of
      None \<Rightarrow> 0
    | Some m \<Rightarrow> if checked_in h (h div MINER_EPOCH_LENGTH - 1) m
                   \<and> mi_pending_epoch m = h div MINER_EPOCH_LENGTH - 1
                then mi_pending_rewards m else 0)"

lemma settle_miner_balance:
  assumes "b \<noteq> genesis_address NODE_INCENTIVE_POOL_INDEX"
  shows "get_balance (fst (settle_miner h a l)) b =
    get_balance (fst l) b + (if b = a then confirmed h (fst l) a else 0)"
  using assms
  by (auto simp: settle_miner_def confirmed_def Let_def word_gt_0 get_balance_def[of "_\<lparr>miners := _\<rparr>"]
      simp flip: get_balance_def split: option.split)

lemma confirmed_settle_other: "b \<noteq> a \<Longrightarrow> confirmed h (fst (settle_miner h a l)) b = confirmed h (fst l) b"
  by (simp add: confirmed_def settle_miner_miners)

lemma settle_all_balance:
  assumes "distinct ks" and "b \<noteq> genesis_address NODE_INCENTIVE_POOL_INDEX"
  shows "get_balance (fst (fold (settle_miner h) ks l)) b =
    get_balance (fst l) b + (if b \<in> set ks then confirmed h (fst l) b else 0)"
  using assms
  by (induction ks arbitrary: l) (auto simp: settle_miner_balance confirmed_settle_other)

section \<open>The epoch bucket\<close>

lemma qualified_distinct: "distinct (map fst (qualified_miners s))"
proof -
  have "map fst (qualified_miners s) = map fst (filter (\<lambda>p. mi_active (snd p)
          \<and> \<not> attendance_count (mi_epoch_attendance (snd p)) < MINER_MIN_UPTIME_FOR_REWARD
          \<and> miner_weight (snd p) > 0) (entries (miners s)))"
    by (simp add: qualified_miners_def)
  then show ?thesis
    using keys_sorted_distinct[OF keys_sorted_entries, of "miners s"] by (simp add: distinct_map_filter)
qed

lemma qualified_miner: "a \<in> fst ` set (qualified_miners s) \<Longrightarrow> \<exists>m. bt_get (miners s) a = Some m"
  by (force simp: qualified_miners_def bt.ents_mem[symmetric])

lemma distribute_bucket_supply:
  assumes "\<forall>a m. bt_get (miners s) a = Some m \<longrightarrow> mi_pending_rewards m = 0"
  shows "total_supply (distribute_bucket s) = total_supply s"
proof -
  let ?q = "qualified_miners s" and ?b = "epoch_reward_bucket s"
  let ?p = "pay_shares set_pending ?b (sum_list (map snd ?q)) ?q 0 s"
  have un: "\<forall>a \<in> set (map fst ?q). unpaid a s"
    using qualified_miner[of _ s] assms by (fastforce simp: unpaid_def)
  have "total_supply ?p = total_supply s + ?b" if "?q \<noteq> []"
    using pending_sink.val_pay_shares[OF that un, of ?b _ 0] qualified_distinct[of s] by simp
  moreover have "epoch_reward_bucket (pay_shares set_pending r w ps d u) = epoch_reward_bucket u" for r w ps d u
    by (induction ps arbitrary: d u) (auto simp: set_pending_def Let_def)
  ultimately show ?thesis
    by (simp add: distribute_bucket_def Let_def total_supply_bucket)
qed

lemma set_pending_frame [simp]:
  "balances (set_pending a n s) = balances s"
  "bt_get (miners (set_pending a n s)) b = (if b = a
     then map_option (\<lambda>m. m\<lparr>mi_pending_rewards := n\<rparr>) (bt_get (miners s) a) else bt_get (miners s) b)"
  by (auto simp: set_pending_def bt_modify_def split: option.split)

lemma pay_pending_frame:
  "balances (pay_shares set_pending r w ps d s) = balances s"
  "\<exists>f. \<forall>b. bt_get (miners (pay_shares set_pending r w ps d s)) b =
     map_option (\<lambda>m. m\<lparr>mi_pending_rewards := f b m\<rparr>) (bt_get (miners s) b)"
proof (induction ps arbitrary: d s)
  case Nil
  {
    case 1
    then show ?case by simp
  next
    case 2
    show ?case by (intro exI[of _ "\<lambda>b m. mi_pending_rewards m"]) (simp add: option.map_ident)
  }
next
  case (Cons p ps)
  obtain a v where p: "p = (a, v)" by force
  {
    case 1
    then show ?case using Cons.IH(1) p by (simp add: Let_def)
  next
    case 2
    let ?n = "if ps = [] then r - d else r * v div w"
    show ?case
    proof (cases "?n > 0")
      case True
      obtain f where f: "bt_get (miners (pay_shares set_pending r w ps (d + ?n) (set_pending a ?n s))) b =
          map_option (\<lambda>m. m\<lparr>mi_pending_rewards := f b m\<rparr>) (bt_get (miners (set_pending a ?n s)) b)" for b
        using Cons.IH(2) by blast
      let ?g = "\<lambda>b m. if b = a then f b (m\<lparr>mi_pending_rewards := ?n\<rparr>) else f b m"
      show ?thesis
        using True p f by (intro exI[of _ ?g]) (simp add: Let_def option.map_comp comp_def)
    next
      case False
      then show ?thesis using Cons.IH(2) p by (simp add: Let_def)
    qed
  }
qed

lemma distribute_bucket_frame:
  "b \<noteq> genesis_address NODE_INCENTIVE_POOL_INDEX \<Longrightarrow> get_balance (distribute_bucket s) b = get_balance s b"
  "\<exists>f. \<forall>b. bt_get (miners (distribute_bucket s)) b =
     map_option (\<lambda>m. m\<lparr>mi_pending_rewards := f b m\<rparr>) (bt_get (miners s) b)"
proof -
  show "b \<noteq> genesis_address NODE_INCENTIVE_POOL_INDEX \<Longrightarrow> get_balance (distribute_bucket s) b = get_balance s b"
    by (simp add: distribute_bucket_def Let_def get_balance_def pay_pending_frame(1) credit_def)
  show "\<exists>f. \<forall>b. bt_get (miners (distribute_bucket s)) b =
     map_option (\<lambda>m. m\<lparr>mi_pending_rewards := f b m\<rparr>) (bt_get (miners s) b)"
    using pay_pending_frame(2)[of "epoch_reward_bucket s" "sum_list (map snd (qualified_miners s))"
        "qualified_miners s" 0 s]
    by (auto simp: distribute_bucket_def Let_def option.map_ident intro!: exI[of _ "\<lambda>b m. mi_pending_rewards m"])
qed

section \<open>Properties\<close>

text \<open>
  The emission schedule never rises with the height, pays 10 CLAW up to the upgrade height,
  and never falls under a quarter CLAW.
\<close>

lemma reward_per_block_legacy:
  assumes "h < 2000"
  shows "reward_per_block h = 10000000000"
proof -
  have "unat (h div BLOCKS_PER_YEAR) = 0"
    using assms by (simp add: BLOCKS_PER_YEAR_def word_less_nat_alt unat_div)
  then have "h div BLOCKS_PER_YEAR = 0" by (simp add: unat_eq_0)
  then show ?thesis using assms by (simp add: reward_per_block_def Let_def MINING_UPGRADE_HEIGHT_def)
qed

definition period_reward :: "u64 \<Rightarrow> u128" where
  "period_reward p = (if p = 0 then 8000000000 else if p = 1 then 4000000000 else if p = 2 then 2000000000
     else if p = 3 then 1000000000 else if p = 4 then 500000000 else 250000000)"

lemma reward_per_block_new:
  "\<not> h < 2000 \<Longrightarrow> reward_per_block h = period_reward ((h - 2000) div HALVING_PERIOD)"
  by (simp only: reward_per_block_def Let_def MINING_UPGRADE_HEIGHT_def period_reward_def if_False)

lemma word_le_4_cases:
  fixes p :: u64
  assumes "p \<le> 4"
  shows "p = 0 \<or> p = 1 \<or> p = 2 \<or> p = 3 \<or> p = 4"
proof -
  have "unat p \<le> 4" using assms by (simp add: word_le_nat_alt)
  then have "unat p = 0 \<or> unat p = 1 \<or> unat p = 2 \<or> unat p = 3 \<or> unat p = 4" by arith
  then show ?thesis by (simp add: word_unat_eq_iff)
qed

lemma period_reward_antimono:
  assumes "p \<le> q" shows "period_reward q \<le> period_reward p"
proof (cases "q \<le> 4")
  case True
  then have "p \<le> 4" using assms by simp
  show ?thesis
    using word_le_4_cases[OF True] word_le_4_cases[OF \<open>p \<le> 4\<close>] assms
    by (elim disjE) (simp_all add: period_reward_def word_le_nat_alt)
next
  case False
  then have "period_reward q = 250000000" by (auto simp: period_reward_def)
  then show ?thesis by (simp add: period_reward_def)
qed

theorem reward_schedule:
  assumes "h \<le> h'"
  shows "reward_per_block h' \<le> reward_per_block h \<and> 250000000 \<le> reward_per_block h
    \<and> reward_per_block h \<le> 10000000000"
proof -
  have range: "250000000 \<le> reward_per_block h \<and> reward_per_block h \<le> 10000000000" for h
  proof (cases "h < 2000")
    case True
    then show ?thesis by (simp add: reward_per_block_legacy)
  next
    case False
    then show ?thesis by (simp add: reward_per_block_new period_reward_def)
  qed
  have "reward_per_block h' \<le> reward_per_block h"
  proof (cases "h < 2000")
    case True
    then show ?thesis using range[of h'] by (simp add: reward_per_block_legacy)
  next
    case False
    then have "2000 \<le> h" "2000 \<le> h'" using assms by auto
    moreover from this assms have "h - 2000 \<le> h' - 2000"
      by (simp add: word_le_nat_alt unat_sub_exact)
    then have "(h - 2000) div HALVING_PERIOD \<le> (h' - 2000) div HALVING_PERIOD"
      by (simp add: word_le_nat_alt unat_div div_le_mono)
    ultimately show ?thesis by (simp add: reward_per_block_new period_reward_antimono not_less)
  qed
  with range show ?thesis by blast
qed

theorem reward_schedule_witness: "reward_per_block 50000000 \<le> reward_per_block 5000"
  using reward_schedule[of 5000 50000000] by simp

text \<open>
  Block and mining rewards only move money: the supply is the same before and after, for
  every validator list (duplicates and zero weights included), height and state.
\<close>

theorem rewards_conserve_supply:
  "total_supply (fst (distribute_block_reward s validators h)) = total_supply s
   \<and> total_supply (fst (accumulate_mining_reward s h)) = total_supply s"
  by (simp add: distribute_block_reward_supply accumulate_mining_reward_supply)

lemma unat_pct:
  assumes "unat f < 2 ^ 120"
  shows "unat (f * 50 div 100 :: u128) = unat f div 2" and "unat (f * 20 div 100) = unat f div 5"
proof -
  have "unat (f * 50) = unat f * 50" "unat (f * 20) = unat f * 20"
    using assms by (simp_all add: unat_mult_exact)
  then show "unat (f * 50 div 100) = unat f div 2" and "unat (f * 20 div 100) = unat f div 5"
    by (simp_all add: unat_div)
qed

text \<open>
  Of the fees of a block, half goes to the proposer's side, a fifth to the ecosystem fund,
  and the rest leaves the supply: at least 30 percent, and less than two units more.
\<close>

theorem fees_split_and_burn:
  assumes "unat f < 2 ^ 120"
  shows "\<exists>burn. total_supply (fst (distribute_fees s p f)) + of_nat burn = total_supply s + f
    \<and> burn = unat f - unat f div 2 - unat f div 5
    \<and> 3 * unat f \<le> 10 * burn \<and> 10 * burn < 3 * unat f + 20"
proof -
  let ?a = "f * 50 div 100" and ?b = "f * 20 div 100"
  let ?burn = "unat f - unat f div 2 - unat f div 5"
  have parts: "unat f div 2 + unat f div 5 \<le> unat f" by linarith
  have "(of_nat (unat ?a + unat ?b + ?burn) :: u128) = of_nat (unat f)"
    unfolding unat_pct[OF assms] using parts by simp
  then have eq: "?a + ?b + of_nat ?burn = f"
    unfolding of_nat_add by (simp del: of_nat_diff)
  have "total_supply (fst (distribute_fees s p f)) + of_nat ?burn = total_supply s + (?a + ?b + of_nat ?burn)"
    unfolding distribute_fees_supply by (simp only: add.assoc)
  then have "total_supply (fst (distribute_fees s p f)) + of_nat ?burn = total_supply s + f"
    unfolding eq .
  moreover have "3 * unat f \<le> 10 * ?burn" "10 * ?burn < 3 * unat f + 20" by linarith+
  ultimately show ?thesis by blast
qed

theorem fees_split_and_burn_witness:
  "\<exists>burn. total_supply (fst (distribute_fees WorldState_default alice 1000000)) + of_nat burn
     = total_supply WorldState_default + 1000000 \<and> burn = 300000"
  using fees_split_and_burn[of 1000000 WorldState_default alice] by simp

lemma boundary_settled:
  assumes "bt_get (miners (fst (fold (settle_miner h) (bt_keys (miners s)) (s, [])))) a = Some m"
  shows "\<exists>m0. bt_get (miners s) a = Some m0 \<and> m = settled h m0"
  using assms by (auto simp: settle_all_miners[OF bt_keys_distinct] bt_keys_mem split: if_splits)

lemma epoch_boundary_supply:
  assumes "225900 < h" and "h mod 100 = 0" and "pending_inv (h div 100 - 1) s"
  shows "total_supply (fst (process_miner_epoch_boundary s h)) = total_supply s
    \<and> pending_inv (h div 100) (fst (process_miner_epoch_boundary s h))"
proof -
  let ?l = "fold (settle_miner h) (bt_keys (miners s)) (s, [])"
  let ?w = "distribute_bucket (fst ?l)"
  have res: "fst (process_miner_epoch_boundary s h) = ?w\<lparr>epoch_checkins := bt_empty\<rparr>"
    using assms(1,2) by (auto simp: process_miner_epoch_boundary_def HEARTBEAT_V2_HEIGHT_def
        MINER_EPOCH_LENGTH_def Let_def)
  have zero: "\<forall>a m. bt_get (miners (fst ?l)) a = Some m \<longrightarrow> mi_pending_rewards m = 0"
    using boundary_settled by (fastforce simp: settled_def)
  have "total_supply ?w = total_supply s"
    using distribute_bucket_supply[OF zero] settle_all_supply[of h "(s, [])"] assms(3)
    by (simp add: MINER_EPOCH_LENGTH_def)
  moreover have "mi_pending_epoch m = h div 100" if here: "bt_get (miners ?w) a = Some m" for a m
  proof -
    obtain f where "bt_get (miners ?w) a = map_option (\<lambda>m. m\<lparr>mi_pending_rewards := f a m\<rparr>) (bt_get (miners (fst ?l)) a)"
      using distribute_bucket_frame(2)[of "fst ?l"] by blast
    then obtain m1 where "bt_get (miners (fst ?l)) a = Some m1" "mi_pending_epoch m = mi_pending_epoch m1"
      using here by (cases "bt_get (miners (fst ?l)) a") auto
    then show ?thesis using boundary_settled by (fastforce simp: settled_def MINER_EPOCH_LENGTH_def)
  qed
  ultimately show ?thesis
    unfolding res by (auto simp: pending_inv_def supply_defs)
qed



text \<open>
  What the boundary pays: an account other than the pool receives exactly its pending
  reward if it checked in during the settled epoch, and nothing otherwise.
\<close>

theorem settlement_pays_exactly_the_present:
  assumes "225900 < h" and "h mod 100 = 0" and "a \<noteq> genesis_address 1"
  shows "get_balance (fst (process_miner_epoch_boundary s h)) a = get_balance s a
    + (case bt_get (miners s) a of
         None \<Rightarrow> 0
       | Some m \<Rightarrow> if checked_in h (h div 100 - 1) m \<and> mi_pending_epoch m = h div 100 - 1
                   then mi_pending_rewards m else 0)"
proof -
  let ?l = "fold (settle_miner h) (bt_keys (miners s)) (s, [])"
  have res: "fst (process_miner_epoch_boundary s h) = (distribute_bucket (fst ?l))\<lparr>epoch_checkins := bt_empty\<rparr>"
    using assms(1,2) by (auto simp: process_miner_epoch_boundary_def HEARTBEAT_V2_HEIGHT_def
        MINER_EPOCH_LENGTH_def Let_def)
  have pool: "a \<noteq> genesis_address NODE_INCENTIVE_POOL_INDEX"
    using assms(3) by (simp add: NODE_INCENTIVE_POOL_INDEX_def)
  have "get_balance (fst (process_miner_epoch_boundary s h)) a = get_balance (fst ?l) a"
    unfolding res using distribute_bucket_frame(1)[OF pool] by (simp add: get_balance_def)
  also have "\<dots> = get_balance s a + confirmed h s a"
    using settle_all_balance[OF bt_keys_distinct pool, of h "miners s" "(s, [])"]
    by (auto simp: bt_keys_mem confirmed_def split: option.splits if_splits)
  finally show ?thesis
    unfolding confirmed_def MINER_EPOCH_LENGTH_def .
qed

theorem settlement_pays_exactly_the_present_witness:
  "get_balance (fst (process_miner_epoch_boundary WorldState_default 226000)) bob = 0"
proof -
  have "bob \<noteq> genesis_address 1"
  proof
    assume "bob = genesis_address 1"
    then have "hd bob = 1" by (simp add: genesis_address_def)
    then show False by simp
  qed
  from settlement_pays_exactly_the_present[OF _ _ this, of 226000 WorldState_default] show ?thesis
    by (simp add: get_balance_def) (simp add: WorldState_default_def)
qed

definition reputation_inv :: "WorldState \<Rightarrow> bool" where
  "reputation_inv s \<longleftrightarrow> (\<forall>a m. bt_get (miners s) a = Some m \<longrightarrow>
     2000 \<le> mi_reputation_bps m \<and> mi_reputation_bps m \<le> 10000)"

lemma decay_bound:
  fixes r :: u16
  assumes "r \<le> 10000"
  shows "(ucast ((ucast r :: u32) * 9900 div 10000) :: u16) \<le> 10000"
proof -
  have r: "unat r \<le> 10000" using assms by (simp add: word_le_nat_alt)
  then have "unat (ucast r :: u32) = unat r" by (simp add: unsigned_ucast_eq take_bit_nat_eq_self)
  then have "unat ((ucast r :: u32) * 9900) = unat r * 9900"
    using r by (simp add: unat_mult_exact)
  then have "unat ((ucast r :: u32) * 9900 div 10000) \<le> 10000"
    using r by (simp add: unat_div)
  then show ?thesis
    unfolding word_le_nat_alt unsigned_ucast_eq
    by (simp add: order.trans[OF take_bit_nat_less_eq_self])
qed

lemma settled_reputation:
  assumes "2000 \<le> mi_reputation_bps m" and "mi_reputation_bps m \<le> 10000"
  shows "2000 \<le> mi_reputation_bps (settled h m) \<and> mi_reputation_bps (settled h m) \<le> 10000"
  using assms decay_bound[OF assms(2)]
  by (auto simp: settled_def reward_presence_def penalize_absence_def Let_def claw_consts max_def)

text \<open>
  A miner's reputation stays between newcomer and veteran through every epoch boundary,
  however often it decays or is raised.
\<close>

theorem reputation_bounds_invariant:
  assumes "reputation_inv s"
  shows "reputation_inv (fst (process_miner_epoch_boundary s h))"
proof -
  let ?l = "fold (settle_miner h) (bt_keys (miners s)) (s, [])"
  have "2000 \<le> mi_reputation_bps m \<and> mi_reputation_bps m \<le> 10000"
    if here: "bt_get (miners (distribute_bucket (fst ?l))) a = Some m" for a m
  proof -
    obtain f where "bt_get (miners (distribute_bucket (fst ?l))) a
        = map_option (\<lambda>m. m\<lparr>mi_pending_rewards := f a m\<rparr>) (bt_get (miners (fst ?l)) a)"
      using distribute_bucket_frame(2)[of "fst ?l"] by blast
    then obtain m1 where m1: "bt_get (miners (fst ?l)) a = Some m1" "mi_reputation_bps m = mi_reputation_bps m1"
      using here by (cases "bt_get (miners (fst ?l)) a") auto
    obtain m0 where "bt_get (miners s) a = Some m0" "m1 = settled h m0"
      using boundary_settled[OF m1(1)] by blast
    then show ?thesis using assms settled_reputation m1(2) by (simp add: reputation_inv_def)
  qed
  moreover have "reputation_inv (activate_v2 s)"
    using assms by (auto simp: reputation_inv_def activate_v2_def Let_def bt_get_map_values)
  ultimately show ?thesis
    using assms by (auto simp: process_miner_epoch_boundary_def reputation_inv_def Let_def)
qed

theorem reputation_bounds_invariant_witness:
  "reputation_inv (fst (process_miner_epoch_boundary WorldState_default 226000))"
  by (rule reputation_bounds_invariant) (simp add: reputation_inv_def WorldState_default_def)

section \<open>Proportional shares\<close>

fun share_list :: "u128 \<Rightarrow> u128 \<Rightarrow> ('a \<times> u128) list \<Rightarrow> u128 \<Rightarrow> u128 list" where
  "share_list r w [] d = []"
| "share_list r w (p # ps) d =
     (let n = (if ps = [] then r - d else r * snd p div w) in n # share_list r w ps (d + n))"

lemma pay_shares_collect:
  "pay_shares (\<lambda>a n out. out @ [(a, n)]) r w ps d out
     = out @ filter (\<lambda>x. 0 < snd x) (zip (map fst ps) (share_list r w ps d))"
  by (induction ps arbitrary: d out) (auto simp: Let_def word_gt_0)

definition weight_sum :: "('a \<times> u128) list \<Rightarrow> nat" where
  "weight_sum ps = sum_list (map (\<lambda>p. unat (snd p)) ps)"

lemma weight_sum_simps [simp]:
  "weight_sum [] = 0" "weight_sum (p # ps) = unat (snd p) + weight_sum ps"
  by (simp_all add: weight_sum_def)

lemma share_list_exact:
  assumes "ps \<noteq> []" and "0 < unat w" and "unat r * unat w < 2 ^ 128"
    and "weight_sum ps \<le> unat w" and "unat d * unat w + unat r * weight_sum ps \<le> unat r * unat w"
  shows "length (share_list r w ps d) = length ps
    \<and> unat d + sum_list (map unat (share_list r w ps d)) = unat r
    \<and> (\<forall>i < length ps. unat r * unat (snd (ps ! i)) div unat w \<le> unat (share_list r w ps d ! i)
        \<and> (i + 1 < length ps \<longrightarrow> unat (share_list r w ps d ! i) = unat r * unat (snd (ps ! i)) div unat w))"
  using assms
proof (induction ps arbitrary: d)
  case (Cons p ps)
  have small: "unat r * unat (snd p) < 2 ^ 128"
    by (rule order.strict_trans1[OF mult_le_mono2 Cons.prems(3)]) (use Cons.prems(4) in simp)
  have q: "unat (r * snd p div w) = unat r * unat (snd p) div unat w"
    using small by (simp add: unat_div unat_mult_exact)
  let ?q = "unat r * unat (snd p) div unat w"
  have qw: "?q * unat w \<le> unat r * unat (snd p)" by (rule div_times_less_eq_dividend)
  have dq: "(unat d + ?q) * unat w + unat r * weight_sum ps \<le> unat r * unat w"
    using Cons.prems(5) qw unfolding weight_sum_simps(2) distrib_left distrib_right by linarith
  have "(unat d + ?q) * unat w \<le> unat r * unat w" using dq by linarith
  then have le: "unat d + ?q \<le> unat r" using Cons.prems(2) by simp
  show ?case
  proof (cases "ps = []")
    case True
    have "d \<le> r" using le by (simp add: word_le_nat_alt)
    then show ?thesis using True le by (simp add: unat_sub_exact)
  next
    case False
    let ?d = "d + r * snd p div w"
    have d: "unat ?d = unat d + ?q"
      using order.strict_trans1[OF le u128_less] q by (simp add: unat_add_exact)
    have "weight_sum ps \<le> unat w" using Cons.prems(4) by simp
    from Cons.IH[OF False Cons.prems(2,3) this, of ?d] d dq
    show ?thesis using False q by (auto simp: Let_def nth_Cons split: nat.split)
  qed
qed simp

text \<open>
  The split by weight is fair and complete: every recipient gets the rounded-down
  proportional part, the last one also the rounding remainder, and the parts add up to the
  reward exactly. Recipients whose part is zero are left out.
\<close>

theorem shares_proportional_and_complete:
  assumes "ps \<noteq> []" and "unat w = weight_sum ps" and "0 < weight_sum ps"
    and "unat r * weight_sum ps < 2 ^ 128"
  shows "\<exists>shares. pay_shares (\<lambda>a n out. out @ [(a, n)]) r w ps 0 []
      = filter (\<lambda>x. 0 < snd x) (zip (map fst ps) shares)
    \<and> length shares = length ps \<and> sum_list (map unat shares) = unat r
    \<and> (\<forall>i < length ps. unat r * unat (snd (ps ! i)) div weight_sum ps \<le> unat (shares ! i)
        \<and> (i + 1 < length ps \<longrightarrow> unat (shares ! i) = unat r * unat (snd (ps ! i)) div weight_sum ps))"
  using share_list_exact[of ps w r 0] assms
  by (intro exI[of _ "share_list r w ps 0"]) (simp add: pay_shares_collect)

theorem shares_proportional_and_complete_witness:
  "\<exists>shares. pay_shares (\<lambda>a n out. out @ [(a, n)]) 10 3 [(alice, 1), (bob, 2)] 0 []
      = filter (\<lambda>x. 0 < snd x) (zip [alice, bob] shares) \<and> sum_list (map unat shares) = 10"
  using shares_proportional_and_complete[of "[(alice, 1), (bob, 2)]" 3 10] by auto

end
