(* ===== verification/Consensus_Types.thy ===== *)
theory Consensus_Types
  imports Handler_Interface
begin

text \<open>
  Shared types of the consensus crate (\<open>consensus/src/types.rs\<close>): constants, the BFT quorum,
  weights, validators and votes.
\<close>

definition CONSENSUS_MIN_STAKE :: u128 where
  [claw_consts]: "CONSENSUS_MIN_STAKE = 10000000000000"

definition MAX_VALIDATORS :: nat where
  [claw_consts]: "MAX_VALIDATORS = 21"

definition CONSENSUS_EPOCH_LENGTH :: u64 where
  [claw_consts]: "CONSENSUS_EPOCH_LENGTH = 100"

definition quorum :: "nat \<Rightarrow> nat" where
  "quorum n = (if n = 0 then 0 else (2 * n) div 3 + 1)"

record WeightConfig =
  wc_stake_bps :: u16
  wc_score_bps :: u16

definition COLD_START :: WeightConfig where
  "COLD_START = \<lparr>wc_stake_bps = 7000, wc_score_bps = 3000\<rparr>"

definition TARGET :: WeightConfig where
  "TARGET = \<lparr>wc_stake_bps = 4000, wc_score_bps = 6000\<rparr>"

record ActiveValidator =
  av_address :: address
  av_stake :: u128
  av_agent_score :: u64
  av_weight :: u64

record Vote =
  vo_block_hash :: hash32
  vo_height :: u64
  vo_voter :: address
  vo_signature :: signature64

definition vote_signable_bytes :: "hash32 \<Rightarrow> u64 \<Rightarrow> bytes" where
  "vote_signable_bytes block_hash height = block_hash @ to_le_bytes height"

record EpochInfo =
  ep_epoch :: u64
  ep_validators :: "ActiveValidator list"
  ep_weight_config :: WeightConfig

text \<open>The two crates agree on the minimum stake.\<close>

lemma min_stake_agree: "CONSENSUS_MIN_STAKE = MIN_STAKE"
  by (simp add: claw_consts)

lemma quorum_gt: "0 < n \<Longrightarrow> 2 * n < 3 * quorum n"
  unfolding quorum_def using div_mult_mod_eq[of "2 * n" 3] mod_less_divisor[of 3 "2 * n"] by simp

lemma quorum_le: "quorum n \<le> n"
  unfolding quorum_def by (cases "n = 0") (auto simp: Suc_le_eq div_less_iff_less_mult)

text \<open>Two sets of quorum size among \<open>n\<close> share more than a third of the \<open>n\<close>.\<close>

lemma quorum_intersection:
  assumes "finite V" and "A \<subseteq> V" and "B \<subseteq> V" and "V \<noteq> {}"
    and "quorum (card V) \<le> card A" and "quorum (card V) \<le> card B"
  shows "card V < 3 * card (A \<inter> B)"
proof -
  have "0 < card V" using assms(1,4) by (simp add: card_gt_0_iff)
  then have "2 * card V < 3 * card A" "2 * card V < 3 * card B"
    using quorum_gt[of "card V"] assms(5,6) by linarith+
  moreover have "card A + card B = card (A \<union> B) + card (A \<inter> B)"
    using assms by (intro card_Un_Int) (auto intro: finite_subset)
  moreover have "card (A \<union> B) \<le> card V" using assms by (intro card_mono) auto
  ultimately show ?thesis by linarith
qed

end
