(* ===== verification/Voting.thy ===== *)
theory Voting
  imports Consensus_Types
begin

text \<open>
  BFT vote collection (\<open>consensus/src/voting.rs\<close>). A collector accepts votes for one height and
  one block hash and reports finality at a quorum of the active set.

  The invariant \<open>votes_ok\<close> says what a stored vote is; every collector that \<open>new\<close> and
  \<open>add_vote\<close> can build has it (\<open>collector_reachable\<close>, an inductive closure), which gives the
  soundness of finality and accountable safety.
\<close>

datatype VoteResult =
    Pending nat nat
  | Finalized nat
  | Conflict address

record VoteCollector =
  vc_height :: u64
  vc_expected_hash :: hash32
  vc_active_validators :: "ActiveValidator list"
  vc_votes :: "(address, Vote) btree"

definition collector_new :: "u64 \<Rightarrow> hash32 \<Rightarrow> ActiveValidator list \<Rightarrow> VoteCollector" where
  "collector_new height expected_hash active_validators =
     \<lparr>vc_height = height, vc_expected_hash = expected_hash,
      vc_active_validators = active_validators, vc_votes = bt_empty\<rparr>"

definition current_result :: "VoteCollector \<Rightarrow> VoteResult" where
  "current_result self =
     (let n = length (vc_active_validators self); needed = quorum n; have = bt_len (vc_votes self) in
      if have \<ge> needed then Finalized have else Pending have needed)"

definition vote_count :: "VoteCollector \<Rightarrow> nat" where
  "vote_count self = bt_len (vc_votes self)"

definition add_vote :: "externals \<Rightarrow> VoteCollector \<Rightarrow> Vote \<Rightarrow> (string + VoteResult) \<times> VoteCollector" where
  "add_vote E self vote =
     (if \<not> (\<exists>v \<in> set (vc_active_validators self). av_address v = vo_voter vote)
      then (Inl ''voter is not an active validator'', self)
      else if vo_height vote \<noteq> vc_height self then (Inl ''vote height mismatch'', self)
      else case bt_get (vc_votes self) (vo_voter vote) of
          Some existing \<Rightarrow>
            if vo_block_hash existing \<noteq> vo_block_hash vote
            then (Inr (Conflict (vo_voter vote)), self)
            else (Inr (current_result self), self)
        | None \<Rightarrow>
            (let msg = vote_signable_bytes (vo_block_hash vote) (vo_height vote) in
             if \<not> vk_from_bytes_ok E (vo_voter vote) then (Inl ''invalid voter public key'', self)
             else if \<not> verify_strict E (vo_voter vote) msg (vo_signature vote)
             then (Inl ''invalid vote signature'', self)
             else if vo_block_hash vote \<noteq> vc_expected_hash self
             then (Inl ''vote for unexpected block hash'', self)
             else
               (let self' = self\<lparr>vc_votes := bt_insert (vo_voter vote) vote (vc_votes self)\<rparr> in
                (Inr (current_result self'), self'))))"

section \<open>Reachable collectors\<close>

inductive collector_reachable :: "externals \<Rightarrow> VoteCollector \<Rightarrow> bool" for E where
  start: "collector_reachable E (collector_new h x vs)"
| step: "collector_reachable E c \<Longrightarrow> collector_reachable E (snd (add_vote E c v))"

inductive_cases collector_reachableE: "collector_reachable E c"

definition vote_valid :: "externals \<Rightarrow> VoteCollector \<Rightarrow> address \<Rightarrow> Vote \<Rightarrow> bool" where
  "vote_valid E c a v \<longleftrightarrow> vo_voter v = a \<and> a \<in> av_address ` set (vc_active_validators c)
     \<and> vo_height v = vc_height c \<and> vo_block_hash v = vc_expected_hash c
     \<and> verify_strict E a (vote_signable_bytes (vc_expected_hash c) (vc_height c)) (vo_signature v)"

definition votes_ok :: "externals \<Rightarrow> VoteCollector \<Rightarrow> bool" where
  "votes_ok E c \<longleftrightarrow> (\<forall>a v. bt_get (vc_votes c) a = Some v \<longrightarrow> vote_valid E c a v)"

lemma add_vote_keeps:
  "vc_height (snd (add_vote E c v)) = vc_height c"
  "vc_expected_hash (snd (add_vote E c v)) = vc_expected_hash c"
  "vc_active_validators (snd (add_vote E c v)) = vc_active_validators c"
  by (simp_all add: add_vote_def Let_def split: option.split)

lemma add_vote_votes_ok:
  assumes "votes_ok E c"
  shows "votes_ok E (snd (add_vote E c v))"
  using assms
  by (auto simp: votes_ok_def vote_valid_def add_vote_def Let_def intro: rev_image_eqI
      split: option.split if_splits)

lemma reachable_votes_ok: "collector_reachable E c \<Longrightarrow> votes_ok E c"
proof (induction rule: collector_reachable.induct)
  case (start h x vs)
  show ?case by (simp add: votes_ok_def collector_new_def)
next
  case (step c v)
  then show ?case by (simp add: add_vote_votes_ok)
qed

text \<open>The distinct active validators that have signed the expected hash.\<close>

definition signers :: "externals \<Rightarrow> ActiveValidator list \<Rightarrow> hash32 \<Rightarrow> u64 \<Rightarrow> address set" where
  "signers E vs x h = {a \<in> av_address ` set vs.
     \<exists>sig. verify_strict E a (vote_signable_bytes x h) sig}"

lemma votes_are_signers:
  assumes "votes_ok E c"
  shows "set (bt_keys (vc_votes c)) \<subseteq> signers E (vc_active_validators c) (vc_expected_hash c) (vc_height c)"
proof
  fix a assume "a \<in> set (bt_keys (vc_votes c))"
  then obtain v where "bt_get (vc_votes c) a = Some v" by (auto simp: bt_keys_mem)
  then have "vote_valid E c a v" using assms by (simp add: votes_ok_def)
  then show "a \<in> signers E (vc_active_validators c) (vc_expected_hash c) (vc_height c)"
    by (auto simp: vote_valid_def signers_def)
qed

lemma bt_len_card: "bt_len m = card (set (bt_keys m))"
  using distinct_card[OF bt_keys_distinct, of m] by (simp add: bt_len_def bt_keys_def)

lemma finalized_signers:
  assumes "collector_reachable E c" and "current_result c = Finalized k"
  shows "quorum (length (vc_active_validators c))
    \<le> card (signers E (vc_active_validators c) (vc_expected_hash c) (vc_height c))"
proof -
  let ?S = "signers E (vc_active_validators c) (vc_expected_hash c) (vc_height c)"
  have "quorum (length (vc_active_validators c)) \<le> bt_len (vc_votes c)"
    using assms(2) by (auto simp: current_result_def Let_def split: if_splits)
  also have "\<dots> \<le> card ?S"
    unfolding bt_len_card using votes_are_signers[OF reachable_votes_ok[OF assms(1)]]
    by (rule card_mono[rotated]) (simp add: signers_def)
  finally show ?thesis .
qed

section \<open>Properties\<close>

text \<open>
  Finality is sound: when a collector reports a block as finalized, at least a quorum of
  distinct active validators has signed exactly that hash at that height.
\<close>

theorem finality_sound:
  assumes "collector_reachable E c" and "current_result c = Finalized k"
  shows "quorum (length (vc_active_validators c))
    \<le> card {a \<in> av_address ` set (vc_active_validators c).
        \<exists>sig. verify_strict E a (vote_signable_bytes (vc_expected_hash c) (vc_height c)) sig}"
  using finalized_signers[OF assms] by (simp add: signers_def)

text \<open>
  C4. Accountable safety: if two collectors over the same validators finalize two different
  hashes at one height, more than a third of the validators have signed both.
\<close>

theorem accountable_safety:
  assumes "collector_reachable E c" and "current_result c = Finalized k"
    and "collector_reachable E d" and "current_result d = Finalized l"
    and "vc_active_validators c = vs" and "vc_active_validators d = vs"
    and "vc_height c = vc_height d" and "vc_expected_hash c \<noteq> vc_expected_hash d"
    and "distinct (map av_address vs)" and "vs \<noteq> []"
  shows "length vs < 3 * card {a \<in> av_address ` set vs.
      (\<exists>sig. verify_strict E a (vote_signable_bytes (vc_expected_hash c) (vc_height c)) sig)
      \<and> (\<exists>sig. verify_strict E a (vote_signable_bytes (vc_expected_hash d) (vc_height c)) sig)}"
proof -
  let ?V = "av_address ` set vs"
  let ?A = "signers E vs (vc_expected_hash c) (vc_height c)"
  let ?B = "signers E vs (vc_expected_hash d) (vc_height c)"
  have card: "card ?V = length vs"
    using assms(9) distinct_card[of "map av_address vs"] by simp
  have "card ?V < 3 * card (?A \<inter> ?B)"
    using finalized_signers[OF assms(1,2)] finalized_signers[OF assms(3,4)] assms(5-7,10) card
    by (intro quorum_intersection) (auto simp: signers_def)
  moreover have "?A \<inter> ?B = {a \<in> ?V.
      (\<exists>sig. verify_strict E a (vote_signable_bytes (vc_expected_hash c) (vc_height c)) sig)
      \<and> (\<exists>sig. verify_strict E a (vote_signable_bytes (vc_expected_hash d) (vc_height c)) sig)}"
    by (auto simp: signers_def)
  ultimately show ?thesis using card by simp
qed

text \<open>
  A conflict is reported without checking a signature: once a validator's vote is stored,
  any message that names it with another hash, whatever its signature, is answered with a
  conflict of that validator.
\<close>

theorem conflict_needs_no_signature:
  assumes "collector_reachable E c" and "bt_get (vc_votes c) a = Some v"
    and "x \<noteq> vc_expected_hash c"
  shows "fst (add_vote E c \<lparr>vo_block_hash = x, vo_height = vc_height c, vo_voter = a, vo_signature = sig\<rparr>)
    = Inr (Conflict a)"
proof -
  have "vote_valid E c a v"
    using reachable_votes_ok[OF assms(1)] assms(2) by (simp add: votes_ok_def)
  then show ?thesis
    using assms(2,3) by (auto simp: add_vote_def vote_valid_def)
qed

section \<open>A concrete round\<close>

text \<open>One validator, alice, votes for a hash; every signature of the sample parameters verifies.\<close>

definition round_of :: "hash32 \<Rightarrow> VoteCollector" where
  "round_of x = snd (add_vote sample_externals
     (collector_new 7 x [\<lparr>av_address = alice, av_stake = 1, av_agent_score = 0, av_weight = 1\<rparr>])
     \<lparr>vo_block_hash = x, vo_height = 7, vo_voter = alice, vo_signature = []\<rparr>)"

lemma round_of_eq:
  "round_of x = \<lparr>vc_height = 7, vc_expected_hash = x,
     vc_active_validators = [\<lparr>av_address = alice, av_stake = 1, av_agent_score = 0, av_weight = 1\<rparr>],
     vc_votes = bt_insert alice \<lparr>vo_block_hash = x, vo_height = 7, vo_voter = alice, vo_signature = []\<rparr>
       bt_empty\<rparr>"
  by (simp add: round_of_def add_vote_def collector_new_def sample_externals_def Let_def)

lemma round_reachable: "collector_reachable sample_externals (round_of x)"
  unfolding round_of_def by (intro collector_reachable.intros)

lemma round_finalized: "current_result (round_of x) = Finalized 1"
  by (simp add: round_of_eq current_result_def quorum_def bt_len_def)

theorem finality_sound_witness:
  "1 \<le> card {a \<in> {alice}. \<exists>sig. verify_strict sample_externals a (vote_signable_bytes [5] 7) sig}"
  using finality_sound[OF round_reachable round_finalized, of "[5]"] by (simp add: round_of_eq quorum_def)

theorem accountable_safety_witness:
  "1 < 3 * card {a \<in> {alice}.
     (\<exists>sig. verify_strict sample_externals a (vote_signable_bytes [5] 7) sig)
     \<and> (\<exists>sig. verify_strict sample_externals a (vote_signable_bytes [6] 7) sig)}"
  using accountable_safety[OF round_reachable round_finalized round_reachable round_finalized, of "[5]"
      "[\<lparr>av_address = alice, av_stake = 1, av_agent_score = 0, av_weight = 1\<rparr>]" "[6]"]
  by (simp add: round_of_eq)

theorem conflict_needs_no_signature_witness:
  "fst (add_vote sample_externals (round_of [5])
     \<lparr>vo_block_hash = [6], vo_height = 7, vo_voter = alice, vo_signature = [0]\<rparr>) = Inr (Conflict alice)"
  using conflict_needs_no_signature[OF round_reachable, of "[5]" alice _ "[6]" "[0]"]
  by (simp add: round_of_eq)

end
