(* ===== verification/Slashing.thy ===== *)
theory Slashing
  imports Consensus_Types
begin

text \<open>
  Slashing (\<open>consensus/src/slashing.rs\<close>): equivocation evidence, the slash itself, jail, and
  the downtime counters. The stakes that the Rust code borrows mutably from the world state are
  passed and returned.

  Shown: what evidence is accepted and what it costs, that a slash burns exactly what it takes
  off and keeps the minimum-stake invariant, that the same evidence is rejected the second time,
  and two ways in which one offence can still be punished twice.
\<close>

definition EQUIVOCATION_SLASH_BPS :: u64 where
  [claw_consts]: "EQUIVOCATION_SLASH_BPS = 1000"

definition DOWNTIME_THRESHOLD_PERCENT :: u64 where
  [claw_consts]: "DOWNTIME_THRESHOLD_PERCENT = 50"

definition JAIL_DURATION :: u64 where
  "JAIL_DURATION = CONSENSUS_EPOCH_LENGTH"

record EquivocationEvidence =
  ev_validator :: address
  ev_height :: u64
  ev_block_hash_a :: hash32
  ev_signature_a :: bytes
  ev_block_hash_b :: hash32
  ev_signature_b :: bytes

record SlashingState =
  sl_jailed :: "(address, u64) btree"
  sl_evidence :: "EquivocationEvidence list"
  sl_missed_slots :: "(address, u64) btree"
  sl_assigned_slots :: "(address, u64) btree"
  sl_processed_evidence :: "(hash32, unit) btree"

definition SlashingState_default :: SlashingState where
  "SlashingState_default = \<lparr>sl_jailed = bt_empty, sl_evidence = [], sl_missed_slots = bt_empty,
     sl_assigned_slots = bt_empty, sl_processed_evidence = bt_empty\<rparr>"

definition is_jailed :: "SlashingState \<Rightarrow> address \<Rightarrow> u64 \<Rightarrow> bool" where
  "is_jailed self address current_height =
     (case bt_get (sl_jailed self) address of
        Some jail_until \<Rightarrow> current_height < jail_until
      | None \<Rightarrow> False)"

definition slash_stake ::
  "(address, u128) btree \<Rightarrow> address \<Rightarrow> u64 \<Rightarrow> u128 \<times> (address, u128) btree" where
  "slash_stake stake_map address basis_points =
     (case bt_get stake_map address of
        None \<Rightarrow> (0, stake_map)
      | Some stake \<Rightarrow>
          (let slash_amount = stake * ucast basis_points div 10000 in
           if slash_amount = 0 then (0, stake_map)
           else
             (let remaining = saturating_sub stake slash_amount in
              if remaining < CONSENSUS_MIN_STAKE then (stake, bt_remove address stake_map)
              else (slash_amount, bt_insert address remaining stake_map))))"

definition evidence_hash :: "externals \<Rightarrow> EquivocationEvidence \<Rightarrow> hash32" where
  "evidence_hash E evidence = blake3 E (ev_validator evidence @ to_le_bytes (ev_height evidence)
     @ ev_block_hash_a evidence @ ev_block_hash_b evidence)"

definition report_equivocation ::
  "externals \<Rightarrow> SlashingState \<Rightarrow> EquivocationEvidence \<Rightarrow> (address, u128) btree \<Rightarrow> u64
   \<Rightarrow> (string + u128) \<times> SlashingState \<times> (address, u128) btree" where
  "report_equivocation E self evidence stake_map current_height =
     (let h = evidence_hash E evidence; validator = ev_validator evidence in
      if bt_contains (sl_processed_evidence self) h
      then (Inl ''equivocation evidence already processed'', self, stake_map)
      else if ev_block_hash_a evidence = ev_block_hash_b evidence
      then (Inl ''equivocation evidence has identical block hashes'', self, stake_map)
      else if ev_signature_a evidence = ev_signature_b evidence
      then (Inl ''equivocation evidence has identical signatures'', self, stake_map)
      else if \<not> bt_contains stake_map validator
      then (Inl ''validator has no active stake'', self, stake_map)
      else if \<not> vk_from_bytes_ok E validator
      then (Inl ''invalid validator public key'', self, stake_map)
      else if \<not> sig_from_slice_ok E (ev_signature_a evidence)
      then (Inl ''invalid signature_a format'', self, stake_map)
      else if \<not> verify_strict E validator (ev_block_hash_a evidence) (ev_signature_a evidence)
      then (Inl ''signature_a verification failed'', self, stake_map)
      else if \<not> sig_from_slice_ok E (ev_signature_b evidence)
      then (Inl ''invalid signature_b format'', self, stake_map)
      else if \<not> verify_strict E validator (ev_block_hash_b evidence) (ev_signature_b evidence)
      then (Inl ''signature_b verification failed'', self, stake_map)
      else
        (let (slashed, stake_map') = slash_stake stake_map validator EQUIVOCATION_SLASH_BPS;
             jail_until = current_height + JAIL_DURATION in
         (Inr slashed,
          self\<lparr>sl_jailed := bt_insert validator jail_until (sl_jailed self),
               sl_processed_evidence := bt_insert h () (sl_processed_evidence self),
               sl_evidence := sl_evidence self @ [evidence]\<rparr>,
          stake_map')))"

definition record_assigned_slot :: "SlashingState \<Rightarrow> address \<Rightarrow> SlashingState" where
  "record_assigned_slot self validator =
     self\<lparr>sl_assigned_slots := bt_entry validator 0 (\<lambda>n. n + 1) (sl_assigned_slots self)\<rparr>"

definition record_missed_slot :: "SlashingState \<Rightarrow> address \<Rightarrow> SlashingState" where
  "record_missed_slot self validator =
     self\<lparr>sl_missed_slots := bt_entry validator 0 (\<lambda>n. n + 1) (sl_missed_slots self)\<rparr>"

definition process_downtime_penalties :: "SlashingState \<Rightarrow> address list" where
  "process_downtime_penalties self =
     map fst (filter (\<lambda>(validator, assigned).
         assigned \<noteq> 0
         \<and> (bt_get_or (sl_missed_slots self) 0 validator * 100) div assigned > DOWNTIME_THRESHOLD_PERCENT)
       (entries (sl_assigned_slots self)))"

definition reset_epoch_counters :: "SlashingState \<Rightarrow> SlashingState" where
  "reset_epoch_counters self =
     self\<lparr>sl_missed_slots := bt_empty, sl_assigned_slots := bt_empty, sl_evidence := []\<rparr>"

definition unjail_expired :: "SlashingState \<Rightarrow> u64 \<Rightarrow> address list \<times> SlashingState" where
  "unjail_expired self current_height =
     (let expired = map fst (filter (\<lambda>p. current_height \<ge> snd p) (entries (sl_jailed self))) in
      (expired, self\<lparr>sl_jailed := fold bt_remove expired (sl_jailed self)\<rparr>))"

section \<open>The slash\<close>

text \<open>The slash keeps the minimum, changes one entry, and reports what left the stakes.\<close>

lemma slash_stake_accounting:
  "slash_stake st a b = (burned, st') \<Longrightarrow> bt_sum (\<lambda>_ n. n) st' + burned = bt_sum (\<lambda>_ n. n) st"
  by (auto simp: slash_stake_def Let_def bt_sum_insert bt_sum_remove saturating_sub_def not_less
      CONSENSUS_MIN_STAKE_def split: option.splits if_splits)

lemma slash_stake_min:
  assumes "slash_stake st a b = (burned, st')" and "\<forall>v n. bt_get st v = Some n \<longrightarrow> CONSENSUS_MIN_STAKE \<le> n"
  shows "\<forall>v n. bt_get st' v = Some n \<longrightarrow> CONSENSUS_MIN_STAKE \<le> n"
  using assms by (auto simp: slash_stake_def Let_def not_less split: option.splits if_splits)

lemma slash_stake_others:
  "slash_stake st a b = (burned, st') \<Longrightarrow> v \<noteq> a \<Longrightarrow> bt_get st' v = bt_get st v"
  by (auto simp: slash_stake_def Let_def split: option.splits if_splits)

lemma slash_tenth:
  fixes n :: u128
  assumes "unat n < 2 ^ 118"
  shows "unat (n * ucast EQUIVOCATION_SLASH_BPS div 10000) = unat n div 10"
proof -
  have "unat (n * 1000) = unat n * 1000"
    using assms by (intro unat_mult_exact[of n 1000, simplified]) simp
  then show ?thesis by (simp add: EQUIVOCATION_SLASH_BPS_def unat_div)
qed

text \<open>
  C36. An equivocation slash burns exactly what the stakes lose: a tenth of the validator's
  stake, rounded down, or all of it when the rest would be under the minimum. Other stakes are
  untouched and every remaining stake keeps the minimum.
\<close>

theorem equivocation_slash_exact:
  assumes "bt_get st a = Some n" and "unat n < 2 ^ 118"
    and "\<forall>v n. bt_get st v = Some n \<longrightarrow> CONSENSUS_MIN_STAKE \<le> n"
    and "slash_stake st a EQUIVOCATION_SLASH_BPS = (burned, st')"
  shows "bt_sum (\<lambda>_ n. n) st' + burned = bt_sum (\<lambda>_ n. n) st
    \<and> (\<forall>v. v \<noteq> a \<longrightarrow> bt_get st' v = bt_get st v)
    \<and> (\<forall>v n. bt_get st' v = Some n \<longrightarrow> CONSENSUS_MIN_STAKE \<le> n)
    \<and> (if unat n - unat n div 10 < 10000000000000
       then burned = n \<and> bt_get st' a = None
       else unat burned = unat n div 10 \<and> bt_get st' a = Some (n - burned))"
proof -
  let ?s = "n * ucast EQUIVOCATION_SLASH_BPS div 10000"
  have s: "unat ?s = unat n div 10" using slash_tenth[OF assms(2)] .
  have "CONSENSUS_MIN_STAKE \<le> n" using assms(1,3) by blast
  then have big: "10000000000000 \<le> unat n" by (simp add: CONSENSUS_MIN_STAKE_def word_le_nat_alt)
  have nz: "?s \<noteq> 0"
  proof
    assume "?s = 0"
    then have "unat ?s = 0" by simp
    then show False using s big by simp
  qed
  have le: "?s \<le> n" using s by (simp add: word_le_nat_alt)
  then have rem: "saturating_sub n ?s = n - ?s" "unat (n - ?s) = unat n - unat n div 10"
    using s by (simp_all add: saturating_sub_def unat_sub_exact)
  have "n - ?s < CONSENSUS_MIN_STAKE \<longleftrightarrow> unat n - unat n div 10 < 10000000000000"
    by (simp add: word_less_nat_alt rem(2) CONSENSUS_MIN_STAKE_def)
  then have "if unat n - unat n div 10 < 10000000000000
       then burned = n \<and> bt_get st' a = None
       else unat burned = unat n div 10 \<and> bt_get st' a = Some (n - burned)"
    using assms(1,4) nz rem(1) s by (auto simp: slash_stake_def Let_def split: if_splits)
  then show ?thesis
    using slash_stake_accounting[OF assms(4)] slash_stake_others[OF assms(4)]
      slash_stake_min[OF assms(4,3)] by blast
qed

section \<open>Evidence\<close>

lemma report_accepted:
  assumes "report_equivocation E sl ev st h = (Inr burned, sl', st')"
  shows "ev_block_hash_a ev \<noteq> ev_block_hash_b ev
    \<and> verify_strict E (ev_validator ev) (ev_block_hash_a ev) (ev_signature_a ev)
    \<and> verify_strict E (ev_validator ev) (ev_block_hash_b ev) (ev_signature_b ev)
    \<and> slash_stake st (ev_validator ev) EQUIVOCATION_SLASH_BPS = (burned, st')
    \<and> sl_jailed sl' = bt_insert (ev_validator ev) (h + 100) (sl_jailed sl)
    \<and> sl_processed_evidence sl' = bt_insert (evidence_hash E ev) () (sl_processed_evidence sl)"
  using assms
  by (auto simp: report_equivocation_def Let_def JAIL_DURATION_def CONSENSUS_EPOCH_LENGTH_def
      split: if_splits prod.splits)

text \<open>
  Slashing needs two valid signatures of the validator on two different hashes; it jails
  the validator for an epoch, and the same evidence is never accepted again, whatever happens to
  the other fields and stakes in between.
\<close>

theorem equivocation_punished_once:
  assumes "report_equivocation E sl ev st h = (Inr burned, sl', st')"
    and "sl_processed_evidence sl2 = sl_processed_evidence sl'"
    and "unat h + 100 < 2 ^ 64"
  shows "ev_block_hash_a ev \<noteq> ev_block_hash_b ev
    \<and> verify_strict E (ev_validator ev) (ev_block_hash_a ev) (ev_signature_a ev)
    \<and> verify_strict E (ev_validator ev) (ev_block_hash_b ev) (ev_signature_b ev)
    \<and> is_jailed sl' (ev_validator ev) h
    \<and> report_equivocation E sl2 ev st2 h2 = (Inl ''equivocation evidence already processed'', sl2, st2)"
proof -
  have "h < h + 100"
    using assms(3) by (simp add: word_less_nat_alt unat_add_exact)
  then show ?thesis
    using report_accepted[OF assms(1)] assms(2) by (auto simp: is_jailed_def report_equivocation_def Let_def)
qed

text \<open>
  The fingerprint depends on the order of the two blocks and on a height that nothing ties
  to the signed hashes. Accepted evidence stays acceptable after swapping the two halves, or
  after changing the height, as long as the new fingerprint differs: the validator is slashed
  again for the same two signatures.
\<close>

theorem equivocation_resubmitted_slashes_again:
  assumes "report_equivocation E sl ev st h = (Inr burned, sl', st')"
    and "ev2 = ev\<lparr>ev_height := k\<rparr> \<or> ev2 = \<lparr>ev_validator = ev_validator ev, ev_height = k,
       ev_block_hash_a = ev_block_hash_b ev, ev_signature_a = ev_signature_b ev,
       ev_block_hash_b = ev_block_hash_a ev, ev_signature_b = ev_signature_a ev\<rparr>"
    and "\<not> bt_contains (sl_processed_evidence sl') (evidence_hash E ev2)"
    and "bt_contains st' (ev_validator ev)"
  shows "fst (report_equivocation E sl' ev2 st' h) = Inr (fst (slash_stake st' (ev_validator ev) 1000))"
  using assms
  by (auto simp: report_equivocation_def Let_def EQUIVOCATION_SLASH_BPS_def
      split: if_splits prod.splits)

section \<open>Jail and downtime\<close>

lemma fold_bt_remove_get:
  "bt_get (fold bt_remove ks m) k = (if k \<in> set ks then None else bt_get m k)"
  by (induction ks arbitrary: m) auto

text \<open>
  Releasing expired validators changes nobody's jail status at that height, and returns
  exactly the entries whose time is up, all of which are gone afterwards.
\<close>

theorem unjail_expired_exact:
  "is_jailed (snd (unjail_expired sl h)) a h = is_jailed sl a h
   \<and> (a \<in> set (fst (unjail_expired sl h)) \<longleftrightarrow> (\<exists>u. bt_get (sl_jailed sl) a = Some u \<and> u \<le> h))
   \<and> (bt_get (sl_jailed (snd (unjail_expired sl h))) a = None
      \<longleftrightarrow> bt_get (sl_jailed sl) a = None \<or> a \<in> set (fst (unjail_expired sl h)))"
proof -
  have mem: "a \<in> set (fst (unjail_expired sl h)) \<longleftrightarrow> (\<exists>u. bt_get (sl_jailed sl) a = Some u \<and> u \<le> h)"
    by (force simp: unjail_expired_def Let_def bt.ents_mem[symmetric])
  have after: "bt_get (sl_jailed (snd (unjail_expired sl h))) a
      = (if a \<in> set (fst (unjail_expired sl h)) then None else bt_get (sl_jailed sl) a)"
    by (simp add: unjail_expired_def Let_def fold_bt_remove_get)
  show ?thesis
    using mem after by (auto simp: is_jailed_def split: option.splits)
qed

text \<open>
  The downtime threshold that the integer percentage gives: a validator is listed as
  offline exactly when it missed at least 51 percent of its slots, so one that missed more than
  half but less than 51 percent is not.
\<close>

theorem downtime_threshold_is_51_percent:
  assumes "unat (bt_get_or (sl_missed_slots sl) 0 a) < 2 ^ 57"
  shows "a \<in> set (process_downtime_penalties sl) \<longleftrightarrow>
    (\<exists>n. bt_get (sl_assigned_slots sl) a = Some n \<and> n \<noteq> 0
       \<and> 51 * unat n \<le> 100 * unat (bt_get_or (sl_missed_slots sl) 0 a))"
proof -
  let ?m = "bt_get_or (sl_missed_slots sl) 0 a"
  have m: "unat (?m * 100) = unat ?m * 100"
    using assms by (intro unat_mult_exact[of ?m 100, simplified]) simp
  have cmp: "DOWNTIME_THRESHOLD_PERCENT < ?m * 100 div n \<longleftrightarrow> 51 * unat n \<le> 100 * unat ?m" if "n \<noteq> 0" for n :: u64
  proof -
    have "0 < unat n" using that by (simp add: unat_gt_0)
    have "DOWNTIME_THRESHOLD_PERCENT < ?m * 100 div n \<longleftrightarrow> 51 \<le> unat ?m * 100 div unat n"
      by (simp add: DOWNTIME_THRESHOLD_PERCENT_def word_less_nat_alt unat_div m) arith
    also have "\<dots> \<longleftrightarrow> 51 * unat n \<le> unat ?m * 100"
      using less_eq_div_iff_mult_less_eq[OF \<open>0 < unat n\<close>] by simp
    finally show ?thesis by (simp add: mult.commute)
  qed
  have "a \<in> set (process_downtime_penalties sl) \<longleftrightarrow>
    (\<exists>n. bt_get (sl_assigned_slots sl) a = Some n \<and> n \<noteq> 0 \<and> DOWNTIME_THRESHOLD_PERCENT < ?m * 100 div n)"
    by (force simp: process_downtime_penalties_def bt.ents_mem[symmetric])
  then show ?thesis using cmp by auto
qed

section \<open>Witnesses\<close>

theorem downtime_threshold_is_51_percent_witness:
  "let sl = SlashingState_default\<lparr>sl_assigned_slots := bt_insert alice 199 bt_empty,
         sl_missed_slots := bt_insert alice 100 bt_empty\<rparr>
   in alice \<notin> set (process_downtime_penalties sl)"
  using downtime_threshold_is_51_percent[of "SlashingState_default\<lparr>sl_assigned_slots := bt_insert alice 199 bt_empty,
         sl_missed_slots := bt_insert alice 100 bt_empty\<rparr>" alice]
  by (simp add: Let_def)

definition sample_evidence :: EquivocationEvidence where
  "sample_evidence = \<lparr>ev_validator = alice, ev_height = 5,
     ev_block_hash_a = [1], ev_signature_a = replicate 64 1,
     ev_block_hash_b = [2], ev_signature_b = replicate 64 2\<rparr>"

definition sample_stakes :: "(address, u128) btree" where
  "sample_stakes = bt_insert alice 20000000000000 bt_empty"

text \<open>Every signature verifies; the hash of the concrete parameters keeps its whole input.\<close>

definition slash_externals :: externals where
  "slash_externals = sample_externals\<lparr>blake3 := (\<lambda>b. b)\<rparr>"

lemma sample_report:
  "report_equivocation slash_externals SlashingState_default sample_evidence sample_stakes 50 =
     (Inr 2000000000000,
      SlashingState_default\<lparr>sl_jailed := bt_insert alice 150 bt_empty,
        sl_processed_evidence := bt_insert (evidence_hash slash_externals sample_evidence) () bt_empty,
        sl_evidence := [sample_evidence]\<rparr>,
      bt_insert alice 18000000000000 sample_stakes)"
proof -
  have neq: "replicate 64 (1 :: u8) \<noteq> replicate 64 2"
    by (simp add: replicate_eq_replicate)
  show ?thesis
    using neq
    by (simp add: report_equivocation_def Let_def slash_externals_def sample_externals_def sample_evidence_def
      SlashingState_default_def sample_stakes_def slash_stake_def EQUIVOCATION_SLASH_BPS_def
      saturating_sub_def claw_consts JAIL_DURATION_def)
qed

theorem equivocation_slash_exact_witness:
  "unat (fst (slash_stake sample_stakes alice EQUIVOCATION_SLASH_BPS)) = 2000000000000"
proof -
  have "bt_get sample_stakes alice = Some 20000000000000"
    and "\<forall>v n. bt_get sample_stakes v = Some n \<longrightarrow> CONSENSUS_MIN_STAKE \<le> n"
    by (simp_all add: sample_stakes_def CONSENSUS_MIN_STAKE_def)
  note exact = equivocation_slash_exact[OF this(1) _ this(2) surjective_pairing]
  show ?thesis
    using exact[THEN conjunct2, THEN conjunct2, THEN conjunct2] by simp
qed

theorem equivocation_punished_once_witness:
  "fst (report_equivocation slash_externals
      (fst (snd (report_equivocation slash_externals SlashingState_default sample_evidence sample_stakes 50)))
      sample_evidence sample_stakes 60) = Inl ''equivocation evidence already processed''"
  using equivocation_punished_once[OF sample_report refl, of sample_stakes 60] by (simp add: sample_report)

theorem equivocation_resubmitted_slashes_again_witness:
  "fst (report_equivocation slash_externals
      (fst (snd (report_equivocation slash_externals SlashingState_default sample_evidence sample_stakes 50)))
      (sample_evidence\<lparr>ev_height := 6\<rparr>)
      (snd (snd (report_equivocation slash_externals SlashingState_default sample_evidence sample_stakes 50))) 50)
    = Inr (fst (slash_stake (bt_insert alice 18000000000000 sample_stakes) alice 1000))"
proof -
  have "to_le_bytes (6 :: u64) \<noteq> to_le_bytes (5 :: u64)" by (simp add: to_le_bytes_def upt_rec)
  then have "\<not> bt_contains (bt_insert (evidence_hash slash_externals sample_evidence) () bt_empty)
      (evidence_hash slash_externals (sample_evidence\<lparr>ev_height := 6\<rparr>))"
    by (simp add: evidence_hash_def slash_externals_def sample_evidence_def)
  then show ?thesis
    using equivocation_resubmitted_slashes_again[OF sample_report, of "sample_evidence\<lparr>ev_height := 6\<rparr>" 6]
    by (simp add: sample_report) (simp add: sample_evidence_def)
qed

end
