(* ===== verification/Validator_Set.thy ===== *)
theory Validator_Set
  imports Slashing
begin

text \<open>
  The active validator set (\<open>consensus/src/validator_set.rs\<close>): candidates from the staked map,
  weights from stake and reputation, the top twenty-one, and the last resort when everybody is
  jailed. Shown: the shape of the active set, that nobody eligible is passed over for a lower
  weight, and the range of the weights.
\<close>

record ValidatorSet =
  va_active :: "ActiveValidator list"
  va_epoch :: u64
  va_weight_config :: WeightConfig

definition ValidatorSet_new :: ValidatorSet where
  "ValidatorSet_new = \<lparr>va_active = [], va_epoch = 0, va_weight_config = COLD_START\<rparr>"

text \<open>\<open>score.clamp(0, 10000) as u64\<close> on the signed 64-bit sum.\<close>

definition clamp_score :: "u64 \<Rightarrow> u64" where
  "clamp_score score = (if sint score < 0 then 0 else if sint score > 10000 then 10000 else score)"

definition aggregate_agent_scores :: "ReputationAttestation list \<Rightarrow> (address, u64) btree" where
  "aggregate_agent_scores attestations =
     bt_map_values (\<lambda>_ score. clamp_score score)
       (fold (\<lambda>att scores. bt_entry (ra_to att) 0 (\<lambda>s. s + scast (ra_score att)) scores)
         attestations bt_empty)"

definition max_score_of :: "(address, u64) btree \<Rightarrow> u64" where
  "max_score_of all_scores =
     (case bt_values all_scores of [] \<Rightarrow> 1 | x # xs \<Rightarrow> max (fold max xs x) 1)"

definition compute_weight ::
  "u128 \<Rightarrow> (address, u128) btree \<Rightarrow> u64 \<Rightarrow> (address, u64) btree \<Rightarrow> WeightConfig \<Rightarrow> u64" where
  "compute_weight stake all_stakes agent_score all_scores config =
     (let total_stake = sum_list (bt_values all_stakes);
          max_score = max_score_of all_scores;
          norm_stake = (if total_stake > 0 then ucast (stake * 10000 div total_stake) else 0);
          norm_score = agent_score * 10000 div max_score;
          w = (norm_stake * ucast (wc_stake_bps config) + norm_score * ucast (wc_score_bps config)) div 10000 in
      max w 1)"

text \<open>The order of the active set: weight descending, then address.\<close>

definition rank :: "ActiveValidator \<Rightarrow> int \<times> address" where
  "rank v = (- uint (av_weight v), av_address v)"

definition candidate ::
  "(address, u128) btree \<Rightarrow> (address, u64) btree \<Rightarrow> WeightConfig \<Rightarrow> address \<times> u128 \<Rightarrow> ActiveValidator" where
  "candidate stake_map agent_scores config p =
     (let agent_score = bt_get_or agent_scores 0 (fst p) in
      \<lparr>av_address = fst p, av_stake = snd p, av_agent_score = agent_score,
       av_weight = compute_weight (snd p) stake_map agent_score agent_scores config\<rparr>)"

definition may_validate :: "SlashingState option \<Rightarrow> u64 \<Rightarrow> address \<times> u128 \<Rightarrow> bool" where
  "may_validate slashing current_height p \<longleftrightarrow> snd p \<ge> CONSENSUS_MIN_STAKE
     \<and> (case slashing of Some s \<Rightarrow> \<not> is_jailed s (fst p) current_height | None \<Rightarrow> True)"

definition recalculate_active ::
  "ValidatorSet \<Rightarrow> (address, u128) btree \<Rightarrow> ReputationAttestation list \<Rightarrow> SlashingState option \<Rightarrow> u64
   \<Rightarrow> ValidatorSet" where
  "recalculate_active self stake_map attestations slashing current_height =
     (let agent_scores = aggregate_agent_scores attestations;
          weighted = map (candidate stake_map agent_scores (va_weight_config self))
            (filter (may_validate slashing current_height) (entries stake_map));
          active = take MAX_VALIDATORS (sort_key rank weighted);
          active' = (if active = [] \<and> \<not> bt_is_empty stake_map
            then [\<lparr>av_address = fst (last (entries stake_map)), av_stake = snd (last (entries stake_map)),
                   av_agent_score = 0, av_weight = 1\<rparr>]
            else active) in
      self\<lparr>va_active := active', va_epoch := va_epoch self + 1\<rparr>)"

definition with_initial_stakes :: "(address, u128) btree \<Rightarrow> ValidatorSet" where
  "with_initial_stakes stake_map = recalculate_active ValidatorSet_new stake_map [] None 0"

definition is_epoch_boundary :: "u64 \<Rightarrow> bool" where
  "is_epoch_boundary height \<longleftrightarrow> height > 0 \<and> height mod CONSENSUS_EPOCH_LENGTH = 0"

definition get_active :: "ValidatorSet \<Rightarrow> address \<Rightarrow> ActiveValidator option" where
  "get_active self address = find (\<lambda>v. av_address v = address) (va_active self)"

definition is_active :: "ValidatorSet \<Rightarrow> address \<Rightarrow> bool" where
  "is_active self address \<longleftrightarrow> (\<exists>v \<in> set (va_active self). av_address v = address)"

definition total_weight :: "ValidatorSet \<Rightarrow> u64" where
  "total_weight self = sum_list (map av_weight (va_active self))"

definition epoch_info :: "ValidatorSet \<Rightarrow> EpochInfo" where
  "epoch_info self = \<lparr>ep_epoch = va_epoch self, ep_validators = va_active self,
     ep_weight_config = va_weight_config self\<rparr>"

section \<open>The active set\<close>

lemma candidate_simps [simp]:
  "av_address (candidate st sc cfg p) = fst p" "av_stake (candidate st sc cfg p) = snd p"
  by (simp_all add: candidate_def Let_def)

lemma candidates_distinct:
  "distinct (map av_address (map (candidate st sc cfg) (filter P (entries st))))"
proof -
  have eq: "map av_address (map (candidate st sc cfg) (filter P (entries st))) = map fst (filter P (entries st))"
    by simp
  show ?thesis
    unfolding eq using keys_sorted_distinct[OF keys_sorted_entries, of st] by (simp add: distinct_map_filter)
qed

lemma is_active_iff: "is_active s a \<longleftrightarrow> a \<in> av_address ` set (va_active s)"
  by (auto simp: is_active_def)

lemma distinct_map_sort: "distinct (map f (sort_key g xs)) = distinct (map f xs)"
  by (simp add: distinct_map)

lemma take_sorted_top:
  fixes f :: "'a \<Rightarrow> 'b::linorder"
  assumes "x \<in> set xs" and "x \<notin> set (take n (sort_key f xs))"
  shows "length (take n (sort_key f xs)) = n \<and> (\<forall>y \<in> set (take n (sort_key f xs)). f y \<le> f x)"
proof -
  let ?ys = "sort_key f xs"
  have srt: "sorted (map f (take n ?ys @ drop n ?ys))" by simp
  have "x \<in> set (take n ?ys) \<union> set (drop n ?ys)"
    using assms(1) set_append[of "take n ?ys" "drop n ?ys"] by simp
  then have x: "x \<in> set (drop n ?ys)" using assms(2) by simp
  then have "n < length ?ys" by (cases "n < length ?ys") auto
  moreover have "f y \<le> f x" if "y \<in> set (take n ?ys)" for y
    using srt that x unfolding map_append sorted_append by auto
  ultimately show ?thesis by simp
qed

lemma active_length: "length (va_active (recalculate_active self st rep sl h)) \<le> 21"
  by (simp add: recalculate_active_def Let_def MAX_VALIDATORS_def)

text \<open>
  C34. The active set has at most 21 validators with distinct addresses, ordered by weight; it
  is empty only if nobody has a stake. Each member stakes the amount it is listed with, and is
  at the minimum stake and not jailed, unless no candidate is.
\<close>

theorem active_set_wf:
  fixes self st rep sl h
  defines "active \<equiv> va_active (recalculate_active self st rep sl h)"
  shows "length active \<le> 21 \<and> distinct (map av_address active) \<and> sorted (map rank active)
    \<and> (active = [] \<longleftrightarrow> bt_is_empty st)
    \<and> (\<forall>v \<in> set active. bt_get st (av_address v) = Some (av_stake v)
        \<and> (may_validate sl h (av_address v, av_stake v)
           \<or> (\<forall>a n. bt_get st a = Some n \<longrightarrow> \<not> may_validate sl h (a, n))))"
proof -
  let ?sc = "aggregate_agent_scores rep"
  let ?w = "map (candidate st ?sc (va_weight_config self)) (filter (may_validate sl h) (entries st))"
  let ?top = "take 21 (sort_key rank ?w)"
  let ?last = "last (entries st)"
  let ?resort = "[\<lparr>av_address = fst ?last, av_stake = snd ?last, av_agent_score = 0, av_weight = 1\<rparr>]"
  have act: "active = (if ?top = [] \<and> \<not> bt_is_empty st then ?resort else ?top)"
    by (simp add: active_def recalculate_active_def Let_def MAX_VALIDATORS_def)
  show ?thesis
  proof (cases "?top = [] \<and> \<not> bt_is_empty st")
    case True
    then have ne: "entries st \<noteq> []" by (simp add: bt_is_empty_def)
    have none: "filter (may_validate sl h) (entries st) = []"
      using True by (metis length_0_conv length_map length_sort take_eq_Nil zero_neq_numeral)
    have "bt_get st (fst ?last) = Some (snd ?last)"
      using last_in_set[OF ne] by (metis bt.ents_mem prod.collapse)
    moreover have "\<not> may_validate sl h (a, n)" if "bt_get st a = Some n" for a n
      using none that by (auto simp: filter_empty_conv bt.ents_mem[symmetric])
    ultimately show ?thesis using True act by simp
  next
    case False
    have perm: "distinct (map av_address (sort_key rank ?w))"
      unfolding distinct_map_sort by (rule candidates_distinct)
    have "distinct (map av_address ?top)"
      using perm by (simp add: take_map[symmetric])
    moreover have "sorted (map rank ?top)" by (simp add: take_map[symmetric] sorted_wrt_take)
    moreover have "?top = [] \<Longrightarrow> bt_is_empty st" using False by blast
    moreover have "bt_is_empty st \<Longrightarrow> ?top = []" by (simp add: bt_is_empty_def)
    moreover have "bt_get st (av_address v) = Some (av_stake v) \<and> may_validate sl h (av_address v, av_stake v)"
      if "v \<in> set ?top" for v
      using in_set_takeD[OF that] by (auto simp: bt.ents_mem[symmetric])
    ultimately show ?thesis using False act by auto
  qed
qed

text \<open>
  C33. Nobody eligible is passed over for a lower weight: an eligible staker that is left out
  means a full set of 21, each with at least its weight.
\<close>

theorem active_set_top_weights:
  assumes "bt_get st a = Some n" and "may_validate sl h (a, n)"
    and "\<not> is_active (recalculate_active self st rep sl h) a"
  shows "length (va_active (recalculate_active self st rep sl h)) = 21
    \<and> (\<forall>v \<in> set (va_active (recalculate_active self st rep sl h)).
        av_weight (candidate st (aggregate_agent_scores rep) (va_weight_config self) (a, n)) \<le> av_weight v)"
proof -
  let ?c = "candidate st (aggregate_agent_scores rep) (va_weight_config self)"
  let ?w = "map ?c (filter (may_validate sl h) (entries st))"
  let ?top = "take 21 (sort_key rank ?w)"
  have mem: "?c (a, n) \<in> set ?w" using assms(1,2) by (auto simp: bt.ents_mem)
  have "0 < length ?top"
    using length_pos_if_in_set[OF mem] unfolding length_take length_sort by simp
  then have ne: "?top \<noteq> []" by (rule length_greater_0_conv[THEN iffD1])
  then have act: "va_active (recalculate_active self st rep sl h) = ?top"
    by (simp add: recalculate_active_def Let_def MAX_VALIDATORS_def)
  have "?c (a, n) \<notin> set ?top"
    using assms(3) unfolding is_active_def act by (metis candidate_simps(1) fst_conv)
  from take_sorted_top[OF mem this] show ?thesis
    unfolding act by (auto simp: rank_def word_le_def)
qed

section \<open>Weights\<close>

lemma clamp_score_le: "unat (clamp_score x) \<le> 10000"
proof (cases "0 \<le> sint x \<and> sint x \<le> 10000")
  case True
  have "uint (word_of_int (sint x) :: u64) = sint x"
    using True unfolding uint_word_of_int by simp
  then have "uint x \<le> 10000" using True by simp
  then have "x \<le> 10000" by (simp add: word_le_def)
  then have "unat x \<le> 10000" by (simp add: word_le_nat_alt)
  then show ?thesis using True by (simp add: clamp_score_def)
qed (auto simp: clamp_score_def)

lemma fold_max_base: "(y :: u64) \<le> fold max xs y"
proof (induction xs arbitrary: y)
  case (Cons z xs)
  show ?case using Cons.IH[of "max z y"] by (simp add: max.bounded_iff)
qed simp

lemma fold_max_ge: "x \<in> set xs \<or> x = y \<Longrightarrow> (x :: u64) \<le> fold max xs y"
proof (induction xs arbitrary: y)
  case (Cons z xs)
  have "z \<le> fold max xs (max z y)" "y \<le> fold max xs (max z y)"
    using fold_max_base[of "max z y" xs] by (simp_all add: max.bounded_iff)
  then show ?case using Cons by auto
qed simp

lemma score_le_max: "bt_get_or sc 0 a \<le> max_score_of sc"
proof (cases "bt_get sc a")
  case (Some v)
  then have v: "v \<in> set (bt_values sc)" by (force simp: bt_values_def bt.ents_mem[symmetric])
  then obtain x xs where "bt_values sc = x # xs" by (cases "bt_values sc") auto
  then show ?thesis using v Some fold_max_ge[of v xs x] by (auto simp: max_score_of_def bt_get_or_def le_max_iff_disj)
qed (simp add: bt_get_or_def)

lemma max_score_pos: "1 \<le> max_score_of sc"
  by (simp add: max_score_of_def split: list.split)

lemma agent_score_le: "unat (bt_get_or (aggregate_agent_scores rep) 0 a) \<le> 10000"
  by (auto simp: bt_get_or_def aggregate_agent_scores_def bt_get_map_values clamp_score_le split: option.split)

definition stake_total :: "(address, u128) btree \<Rightarrow> nat" where
  "stake_total st = sum_list (map unat (bt_values st))"

lemma sum_list_word_exact:
  fixes xs :: "u128 list"
  assumes "sum_list (map unat xs) < 2 ^ 128"
  shows "unat (sum_list xs) = sum_list (map unat xs)"
  using assms
proof (induction xs)
  case (Cons x xs)
  then have "unat (sum_list xs) = sum_list (map unat xs)" by simp
  then show ?case using Cons.prems by (simp add: unat_add_exact)
qed simp

lemma stake_le_total: "bt_get st a = Some n \<Longrightarrow> unat n \<le> stake_total st"
proof -
  assume "bt_get st a = Some n"
  then have "unat n \<in> set (map unat (bt_values st))"
    by (force simp: bt_values_def bt.ents_mem[symmetric])
  then show ?thesis unfolding stake_total_def by (rule member_le_sum_list) simp
qed

lemma unat_ucast_u16: "unat (ucast (x :: u16) :: u64) = unat x"
  using unsigned_less[of x, where ?'a = nat] by (simp add: unsigned_ucast_eq take_bit_nat_eq_self)

lemma norm_stake_le:
  assumes "bt_get st a = Some n" and "stake_total st * 10000 < 2 ^ 128"
  shows "unat (if sum_list (bt_values st) > 0 then ucast (n * 10000 div sum_list (bt_values st)) else 0 :: u64)
    \<le> 10000"
proof (cases "sum_list (bt_values st) > 0")
  case True
  have tot: "unat (sum_list (bt_values st)) = stake_total st"
    using sum_list_word_exact[of "bt_values st"] assms(2) by (simp add: stake_total_def)
  have le: "unat n \<le> stake_total st" by (rule stake_le_total[OF assms(1)])
  then have "unat n * 10000 < 2 ^ 128" using assms(2) by linarith
  then have "unat (n * 10000) = unat n * 10000" by (intro unat_mult_exact[of n 10000, simplified]) simp
  then have q: "unat (n * 10000 div sum_list (bt_values st)) = unat n * 10000 div stake_total st"
    by (simp add: unat_div tot)
  have "unat n * 10000 div stake_total st \<le> stake_total st * 10000 div stake_total st"
    using le by (intro div_le_mono mult_le_mono1)
  also have "\<dots> \<le> 10000" by simp
  finally have "unat (n * 10000 div sum_list (bt_values st)) \<le> 10000" using q by simp
  then show ?thesis
    using True by (simp add: unsigned_ucast_eq order.trans[OF take_bit_nat_less_eq_self])
qed simp

lemma norm_score_le:
  assumes "unat x \<le> 10000" and "x \<le> m" and "1 \<le> (m :: u64)"
  shows "unat (x * 10000 div m) \<le> 10000"
proof -
  have "unat (x * 10000) = unat x * 10000" using assms(1) by (intro unat_mult_exact[of x 10000, simplified]) simp
  then have "unat (x * 10000 div m) = unat x * 10000 div unat m" by (simp add: unat_div)
  also have "\<dots> \<le> unat m * 10000 div unat m"
    using assms(2) by (intro div_le_mono mult_le_mono1) (simp add: word_le_nat_alt)
  also have "\<dots> \<le> 10000" by simp
  finally show ?thesis .
qed

lemma weight_range:
  assumes "bt_get st a = Some n" and "stake_total st * 10000 < 2 ^ 128"
    and "unat (wc_stake_bps cfg) + unat (wc_score_bps cfg) \<le> 10000"
  shows "1 \<le> compute_weight n st (bt_get_or (aggregate_agent_scores rep) 0 a) (aggregate_agent_scores rep) cfg
    \<and> unat (compute_weight n st (bt_get_or (aggregate_agent_scores rep) 0 a) (aggregate_agent_scores rep) cfg) \<le> 10000"
proof -
  let ?sc = "aggregate_agent_scores rep"
  let ?x = "bt_get_or ?sc 0 a"
  define ns :: u64 where "ns = (if sum_list (bt_values st) > 0 then ucast (n * 10000 div sum_list (bt_values st)) else 0)"
  define sc :: u64 where "sc = ?x * 10000 div max_score_of ?sc"
  define p where "p = unat (wc_stake_bps cfg)"
  define q where "q = unat (wc_score_bps cfg)"
  have ns: "unat ns \<le> 10000" unfolding ns_def by (rule norm_stake_le[OF assms(1,2)])
  have sc: "unat sc \<le> 10000"
    unfolding sc_def by (rule norm_score_le[OF agent_score_le score_le_max max_score_pos])
  have pq: "p + q \<le> 10000" using assms(3) by (simp add: p_def q_def)
  have b: "unat ns * p \<le> 10000 * p" "unat sc * q \<le> 10000 * q" using ns sc by simp_all
  have small: "unat ns * p + unat sc * q \<le> 100000000" using b pq by linarith
  have 1: "unat (ns * ucast (wc_stake_bps cfg)) = unat ns * p"
    using small unat_mult_exact[of ns "ucast (wc_stake_bps cfg)"] by (simp add: p_def unat_ucast_u16 del: mult_le_cancel2)
  have 2: "unat (sc * ucast (wc_score_bps cfg)) = unat sc * q"
    using small unat_mult_exact[of sc "ucast (wc_score_bps cfg)"] by (simp add: q_def unat_ucast_u16)
  have 3: "unat (ns * ucast (wc_stake_bps cfg) + sc * ucast (wc_score_bps cfg)) = unat ns * p + unat sc * q"
    using 1 2 small by (simp add: unat_add_exact)
  have "unat ((ns * ucast (wc_stake_bps cfg) + sc * ucast (wc_score_bps cfg)) div 10000) \<le> 10000"
    using 3 small by (simp add: unat_div)
  then show ?thesis
    by (auto simp: compute_weight_def Let_def ns_def[symmetric] sc_def[symmetric] max_def)
qed

text \<open>
  The weight of a staked validator lies between 1 and 10000 basis points, for every
  configuration whose two ratios add up to at most 10000, so the weights of an active set
  cannot overflow their 64-bit sum.
\<close>

theorem active_weights_in_range:
  assumes "stake_total st * 10000 < 2 ^ 128"
    and "unat (wc_stake_bps (va_weight_config self)) + unat (wc_score_bps (va_weight_config self)) \<le> 10000"
    and "v \<in> set (va_active (recalculate_active self st rep sl h))"
  shows "1 \<le> av_weight v \<and> unat (av_weight v) \<le> 10000"
proof -
  have "av_weight v = 1 \<or> (\<exists>p \<in> set (entries st). v = candidate st (aggregate_agent_scores rep) (va_weight_config self) p)"
    using assms(3) by (auto simp: recalculate_active_def Let_def dest!: in_set_takeD split: if_splits)
  then show ?thesis
  proof
    assume "\<exists>p \<in> set (entries st). v = candidate st (aggregate_agent_scores rep) (va_weight_config self) p"
    then obtain a n where "bt_get st a = Some n"
      and "v = candidate st (aggregate_agent_scores rep) (va_weight_config self) (a, n)"
      by (auto simp: bt.ents_mem)
    then show ?thesis using weight_range[OF _ assms(1,2)] by (simp add: candidate_def Let_def)
  qed simp
qed

section \<open>Witnesses\<close>

theorem active_set_wf_witness:
  "va_active (recalculate_active ValidatorSet_new sample_stakes [] None 0) \<noteq> []
   \<and> length (va_active (recalculate_active ValidatorSet_new sample_stakes [] None 0)) \<le> 21"
  using active_set_wf[of ValidatorSet_new sample_stakes "[]" None 0]
  by (simp add: sample_stakes_def bt_is_empty_def)

text \<open>Twenty-two equal stakers: one of them has to stay outside.\<close>

definition crowd_ids :: "u8 list" where
  "crowd_ids = [0, 1, 2, 3, 4, 5, 6, 7, 8, 9, 10, 11, 12, 13, 14, 15, 16, 17, 18, 19, 20, 21]"

definition crowd :: "(address, u128) btree" where
  "crowd = fold (\<lambda>i m. bt_insert [i] 20000000000000 m) crowd_ids bt_empty"

lemma fold_insert_get:
  "bt_get (fold (\<lambda>i m. bt_insert [i] c m) is m) a = (if a \<in> (\<lambda>i. [i]) ` set is then Some c else bt_get m a)"
  by (induction "is" arbitrary: m) auto

lemma crowd_get: "bt_get crowd a = (if a \<in> (\<lambda>i. [i]) ` set crowd_ids then Some 20000000000000 else None)"
  by (simp add: crowd_def fold_insert_get)

lemma crowd_card: "card ((\<lambda>i. [i]) ` set crowd_ids) = 22"
proof -
  have "distinct crowd_ids" "length crowd_ids = 22" by (simp_all add: crowd_ids_def)
  then have "card (set crowd_ids) = 22" by (metis distinct_card)
  then show ?thesis by (simp add: card_image inj_on_def)
qed

theorem active_set_top_weights_witness:
  "\<exists>a. bt_get crowd a = Some 20000000000000
     \<and> \<not> is_active (recalculate_active ValidatorSet_new crowd [] None 0) a
     \<and> length (va_active (recalculate_active ValidatorSet_new crowd [] None 0)) = 21"
proof -
  let ?act = "va_active (recalculate_active ValidatorSet_new crowd [] None 0)"
  let ?ids = "(\<lambda>i. [i]) ` set crowd_ids"
  have "length ?act \<le> 21" using active_length by blast
  then have "card (av_address ` set ?act) \<le> 21"
    using card_length[of "map av_address ?act"] by simp
  then have "\<not> ?ids \<subseteq> av_address ` set ?act"
    using crowd_card card_mono[of "av_address ` set ?act" ?ids] by auto
  then have "?ids - av_address ` set ?act \<noteq> {}" by (simp only: Diff_eq_empty_iff not_False_eq_True)
  then obtain a where "a \<in> ?ids - av_address ` set ?act" by (rule ex_in_conv[THEN iffD2, THEN exE])
  then have a: "a \<in> ?ids" "\<not> is_active (recalculate_active ValidatorSet_new crowd [] None 0) a"
    unfolding is_active_iff by blast+
  then have get: "bt_get crowd a = Some 20000000000000" by (simp add: crowd_get)
  have may: "may_validate None 0 (a, 20000000000000)"
    by (simp add: may_validate_def CONSENSUS_MIN_STAKE_def)
  show ?thesis using active_set_top_weights[OF get may a(2)] get a(2) by blast
qed

theorem active_weights_in_range_witness:
  "1 \<le> av_weight (hd (va_active (recalculate_active ValidatorSet_new sample_stakes [] None 0)))
   \<and> unat (av_weight (hd (va_active (recalculate_active ValidatorSet_new sample_stakes [] None 0)))) \<le> 10000"
proof -
  have "va_active (recalculate_active ValidatorSet_new sample_stakes [] None 0) \<noteq> []"
    by (simp add: recalculate_active_def Let_def sample_stakes_def may_validate_def
        CONSENSUS_MIN_STAKE_def MAX_VALIDATORS_def)
  then show ?thesis
    by (intro active_weights_in_range[of sample_stakes ValidatorSet_new _ "[]" None 0] hd_in_set)
      (simp_all add: stake_total_def sample_stakes_def bt_values_def ValidatorSet_new_def COLD_START_def)
qed

end
