(* ===== verification/Election.thy ===== *)
theory Election
  imports Validator_Set
begin

text \<open>
  Proposer election (\<open>consensus/src/election.rs\<close>): a hash of the previous block and the height,
  reduced modulo the total weight, selects a validator on the line of cumulative weights; the
  fallback is the best-ranked other validator. Shown: an election always names a member, each
  validator owns exactly as many seeds as its weight, and the fallback differs from the primary.
\<close>

definition vrf_seed :: "externals \<Rightarrow> hash32 \<Rightarrow> u64 \<Rightarrow> hash32" where
  "vrf_seed E prev_hash height = blake3 E (prev_hash @ to_le_bytes height)"

text \<open>The walk over the cumulative weights; \<open>None\<close> falls through to the last validator.\<close>

fun walk :: "u64 \<Rightarrow> u64 \<Rightarrow> ActiveValidator list \<Rightarrow> address option" where
  "walk pick cumulative [] = None"
| "walk pick cumulative (v # vs) =
     (let cumulative' = cumulative + av_weight v in
      if pick < cumulative' then Some (av_address v) else walk pick cumulative' vs)"

definition elect_proposer :: "externals \<Rightarrow> ActiveValidator list \<Rightarrow> hash32 \<Rightarrow> u64 \<Rightarrow> address option" where
  "elect_proposer E validators prev_hash height =
     (if validators = [] then None
      else if length validators = 1 then Some (av_address (hd validators))
      else
        (let seed = vrf_seed E prev_hash height;
             total_weight = sum_list (map av_weight validators) in
         if total_weight = 0 then Some (av_address (hd validators))
         else
           (let seed_u64 = from_le_bytes (take 8 seed);
                pick = seed_u64 mod total_weight in
            case walk pick 0 validators of
              Some a \<Rightarrow> Some a
            | None \<Rightarrow> Some (av_address (last validators)))))"

definition elect_fallback_proposer :: "externals \<Rightarrow> ActiveValidator list \<Rightarrow> hash32 \<Rightarrow> u64 \<Rightarrow> address option" where
  "elect_fallback_proposer E validators prev_hash height =
     (if length validators < 2 then None
      else case elect_proposer E validators prev_hash height of
          None \<Rightarrow> None
        | Some primary \<Rightarrow>
            map_option av_address (find (\<lambda>v. av_address v \<noteq> primary) (sort_key rank validators)))"

section \<open>Elections\<close>

lemma walk_member: "walk p c vs = Some a \<Longrightarrow> a \<in> av_address ` set vs"
  by (induction vs arbitrary: c) (auto simp: Let_def split: if_splits)

lemma elect_proposer_member:
  "validators \<noteq> [] \<Longrightarrow> \<exists>v \<in> set validators. elect_proposer E validators h k = Some (av_address v)"
  using walk_member[of _ 0 validators]
  by (auto simp: elect_proposer_def Let_def intro: hd_in_set last_in_set split: option.split)

lemma find_sorted_least:
  fixes f :: "'a \<Rightarrow> 'b::linorder"
  assumes "sorted (map f ys)" and "find P ys = Some w"
  shows "w \<in> set ys \<and> P w \<and> (\<forall>u \<in> set ys. P u \<longrightarrow> f w \<le> f u)"
  using assms by (induction ys) (auto split: if_splits)

text \<open>
  Every non-empty active set elects one of its members, and nobody else. With at least two
  distinct addresses there is also a fallback: another member, and no other member has more
  weight.
\<close>

theorem election_total:
  assumes "validators \<noteq> []" and "distinct (map av_address validators)"
  shows "\<exists>v \<in> set validators. elect_proposer E validators h k = Some (av_address v)
    \<and> (2 \<le> length validators \<longrightarrow>
        (\<exists>w \<in> set validators. elect_fallback_proposer E validators h k = Some (av_address w)
          \<and> av_address w \<noteq> av_address v
          \<and> (\<forall>u \<in> set validators. av_address u \<noteq> av_address v \<longrightarrow> av_weight u \<le> av_weight w)))"
proof -
  obtain v where v: "v \<in> set validators" "elect_proposer E validators h k = Some (av_address v)"
    using elect_proposer_member[OF assms(1)] by blast
  have "\<exists>w \<in> set validators. elect_fallback_proposer E validators h k = Some (av_address w)
          \<and> av_address w \<noteq> av_address v
          \<and> (\<forall>u \<in> set validators. av_address u \<noteq> av_address v \<longrightarrow> av_weight u \<le> av_weight w)"
    if "2 \<le> length validators"
  proof -
    let ?P = "\<lambda>u. av_address u \<noteq> av_address v"
    have "\<exists>u \<in> set validators. ?P u"
    proof (rule ccontr)
      assume "\<not> ?thesis"
      then have "set (map av_address validators) \<subseteq> {av_address v}" by auto
      then have "card (set (map av_address validators)) \<le> 1"
        using card_mono[of "{av_address v}"] by fastforce
      then show False using distinct_card[OF assms(2)] that by simp
    qed
    then have "find ?P (sort_key rank validators) \<noteq> None"
      by (auto simp: find_None_iff)
    then obtain w where w: "find ?P (sort_key rank validators) = Some w" by blast
    have least: "w \<in> set validators \<and> ?P w \<and> (\<forall>u \<in> set validators. ?P u \<longrightarrow> rank w \<le> rank u)"
      using find_sorted_least[OF sorted_sort_key w] by simp
    have "av_weight u \<le> av_weight w" if "u \<in> set validators" "?P u" for u
    proof -
      have "rank w \<le> rank u" using least that by blast
      then show ?thesis by (auto simp: rank_def word_le_def less_eq_prod_def)
    qed
    moreover have "elect_fallback_proposer E validators h k = Some (av_address w)"
      using w v(2) that by (simp add: elect_fallback_proposer_def)
    ultimately show ?thesis using least by blast
  qed
  with v show ?thesis by blast
qed

lemma word_interval_card:
  assumes "b < 2 ^ 64"
  shows "card {p :: u64. a \<le> unat p \<and> unat p < b} = b - a"
proof -
  have img: "unat ` {p :: u64. a \<le> unat p \<and> unat p < b} = {a..<b}"
  proof (intro equalityI subsetI)
    fix n assume n: "n \<in> {a..<b}"
    then have "unat (of_nat n :: u64) = n" using assms by (simp add: unat_of_nat take_bit_nat_eq_self)
    then show "n \<in> unat ` {p :: u64. a \<le> unat p \<and> unat p < b}"
      using n by (intro image_eqI[of _ _ "of_nat n"]) auto
  qed auto
  have inj: "inj_on unat {p :: u64. a \<le> unat p \<and> unat p < b}"
    by (rule inj_onI) (simp add: word_unat_eq_iff)
  show ?thesis using card_image[OF inj] unfolding img by simp
qed

definition weights_total :: "ActiveValidator list \<Rightarrow> nat" where
  "weights_total vs = sum_list (map (\<lambda>v. unat (av_weight v)) vs)"

lemma weights_total_simps [simp]:
  "weights_total [] = 0" "weights_total (v # vs) = unat (av_weight v) + weights_total vs"
  by (simp_all add: weights_total_def)

lemma sum_weights_exact:
  "weights_total vs < 2 ^ 64 \<Longrightarrow> unat (sum_list (map av_weight vs)) = weights_total vs"
proof (induction vs)
  case (Cons v vs)
  then have "unat (sum_list (map av_weight vs)) = weights_total vs" by simp
  then show ?case using Cons.prems by (simp add: unat_add_exact)
qed simp

lemma walk_seeds:
  assumes "unat c + weights_total vs < 2 ^ 64" and "distinct (map av_address vs)" and "v \<in> set vs"
  shows "card {p. unat c \<le> unat p \<and> unat p < unat c + weights_total vs \<and> walk p c vs = Some (av_address v)}
    = unat (av_weight v)"
  using assms
proof (induction vs arbitrary: c)
  case (Cons u us)
  let ?c = "c + av_weight u"
  have c: "unat ?c = unat c + unat (av_weight u)" using Cons.prems(1) by (simp add: unat_add_exact)
  have step: "walk p c (u # us) = (if unat p < unat ?c then Some (av_address u) else walk p ?c us)" for p
    by (simp add: Let_def word_less_nat_alt)
  show ?case
  proof (cases "v = u")
    case True
    have no: "walk p ?c us \<noteq> Some (av_address v)" for p
      using walk_member[of p ?c us "av_address v"] Cons.prems(2) True by auto
    have "{p. unat c \<le> unat p \<and> unat p < unat c + weights_total (u # us) \<and> walk p c (u # us) = Some (av_address v)}
        = {p. unat c \<le> unat p \<and> unat p < unat ?c}"
      unfolding step using no True c by auto
    then show ?thesis using word_interval_card[of "unat ?c" "unat c"] Cons.prems(1) c True by simp
  next
    case False
    then have v: "v \<in> set us" using Cons.prems(3) by simp
    then have ne: "av_address v \<noteq> av_address u" using Cons.prems(2) by (metis distinct.simps(2) image_eqI list.map(2) list.set_map)
    have "{p. unat c \<le> unat p \<and> unat p < unat c + weights_total (u # us) \<and> walk p c (u # us) = Some (av_address v)}
        = {p. unat ?c \<le> unat p \<and> unat p < unat ?c + weights_total us \<and> walk p ?c us = Some (av_address v)}"
      unfolding step using ne c by auto
    then show ?thesis using Cons.IH[of ?c] Cons.prems(1,2) c v by simp
  qed
qed simp

text \<open>
  C35. The election is proportional: of the picks below the total weight, each validator is
  selected by exactly as many as its weight.
\<close>

theorem election_proportional:
  assumes "weights_total vs < 2 ^ 64" and "distinct (map av_address vs)" and "v \<in> set vs"
  shows "card {p. p < sum_list (map av_weight vs) \<and> walk p 0 vs = Some (av_address v)} = unat (av_weight v)"
  using walk_seeds[of 0 vs v] assms by (simp add: word_less_nat_alt sum_weights_exact)

definition two_validators :: "ActiveValidator list" where
  "two_validators = [\<lparr>av_address = alice, av_stake = 1, av_agent_score = 0, av_weight = 3\<rparr>,
     \<lparr>av_address = bob, av_stake = 1, av_agent_score = 0, av_weight = 5\<rparr>]"

lemma two_validators_distinct: "distinct (map av_address two_validators)"
  by (simp add: two_validators_def replicate_eq_replicate)

theorem election_proportional_witness:
  "card {p. p < 8 \<and> walk p 0 two_validators = Some bob} = 5"
  using election_proportional[OF _ two_validators_distinct, of
      "\<lparr>av_address = bob, av_stake = 1, av_agent_score = 0, av_weight = 5\<rparr>"]
  by (simp add: two_validators_def)

theorem election_total_witness:
  "\<exists>v \<in> set two_validators. elect_proposer sample_externals two_validators [] 7 = Some (av_address v)
     \<and> (\<exists>w \<in> set two_validators. elect_fallback_proposer sample_externals two_validators [] 7 = Some (av_address w)
          \<and> av_address w \<noteq> av_address v)"
proof -
  have "two_validators \<noteq> []" "2 \<le> length two_validators" by (simp_all add: two_validators_def)
  then show ?thesis
    using election_total[OF _ two_validators_distinct, of sample_externals "[]" 7] by blast
qed

end
