(* ===== verification/Block_Execution.thy ===== *)
theory Block_Execution
  imports Apply Rewards Validator_Set
begin

text \<open>
  What a block does to the world state: the common parts of \<open>produce_block\<close> and
  \<open>apply_remote_block_inner\<close> (\<open>node/src/chain.rs\<close>). Transactions run first, then rewards and fees,
  the uptime counters, the miner epoch with the V3 check-ins, and last the copy of the slashing
  counters.

  The two node operations run the transactions differently: the producer skips those that fail
  and keeps what they left behind, the follower stops at the first failure.
\<close>

section \<open>Transactions\<close>

text \<open>The loop of the producer: \<open>(included, total_fees, events, state)\<close>.\<close>

fun include_txs ::
  "externals \<Rightarrow> nat \<Rightarrow> Transaction list \<Rightarrow> WorldState \<Rightarrow> Transaction list \<times> u128 \<times> BlockEvent list \<times> WorldState" where
  "include_txs E i [] state = ([], 0, [], state)"
| "include_txs E i (tx # txs) state =
     (case apply_tx E (of_nat i) state tx of
        (Inr (fee, events), state') \<Rightarrow>
          (let (included, fees, evs, state'') = include_txs E (Suc i) txs state' in
           (tx # included, fee + fees, events @ evs, state''))
      | (Inl e, state') \<Rightarrow> include_txs E (Suc i) txs state')"

text \<open>The loop of the follower.\<close>

fun run_txs :: "externals \<Rightarrow> nat \<Rightarrow> u128 \<Rightarrow> Transaction list \<Rightarrow> WorldState \<Rightarrow> StateError + (u128 \<times> WorldState)" where
  "run_txs E i fees [] state = Inr (fees, state)"
| "run_txs E i fees (tx # txs) state =
     (case apply_tx E (of_nat i) state tx of
        (Inl e, _) \<Rightarrow> Inl e
      | (Inr (fee, _), state') \<Rightarrow> run_txs E (Suc i) (fees + fee) txs state')"

section \<open>Rewards, fees and uptime\<close>

definition online_validators :: "ActiveValidator list \<Rightarrow> address list \<Rightarrow> (address \<times> u64) list" where
  "online_validators active offline =
     map (\<lambda>v. (av_address v, av_weight v)) (filter (\<lambda>v. av_address v \<notin> set offline) active)"

definition distribute_rewards ::
  "ActiveValidator list \<Rightarrow> address list \<Rightarrow> address \<Rightarrow> u64 \<Rightarrow> u128 \<Rightarrow> WorldState \<Rightarrow> ledger" where
  "distribute_rewards active offline proposer height total_fees state =
     (let (s1, reward_events) = distribute_block_reward state (online_validators active offline) height;
          (s2, mining_events) = accumulate_mining_reward s1 height;
          (s3, fee_events) = distribute_fees s2 proposer total_fees in
      (s3, reward_events @ mining_events @ fee_events))"

definition update_uptime :: "ActiveValidator list \<Rightarrow> address \<Rightarrow> WorldState \<Rightarrow> WorldState" where
  "update_uptime active proposer state =
     (let proposed = bt_entry proposer ValidatorUptime_default (\<lambda>u. u\<lparr>
            vu_produced_blocks := vu_produced_blocks u + 1, vu_signed_blocks := vu_signed_blocks u + 1,
            vu_expected_blocks := vu_expected_blocks u + 1\<rparr>) (validator_uptime state);
          other_validators = map av_address (filter (\<lambda>v. av_address v \<noteq> proposer) active) in
      state\<lparr>validator_uptime := fold (\<lambda>addr m. bt_entry addr ValidatorUptime_default
        (\<lambda>u. u\<lparr>vu_expected_blocks := vu_expected_blocks u + 1\<rparr>) m) other_validators proposed\<rparr>)"

section \<open>The miner epoch\<close>

text \<open>
  Migration and settlement, before any check-in of the block counts. Below the V3 height the
  settlement runs at every block (it is a no-op off the boundaries), followed by the V1 activity
  rule.
\<close>

definition miner_epoch_step :: "u64 \<Rightarrow> WorldState \<Rightarrow> ledger" where
  "miner_epoch_step height state =
     (if height \<ge> CHECKIN_V3_HEIGHT
      then
        (let s1 = (if height = CHECKIN_V3_HEIGHT then migrate_miners_v2_to_v3 state else state) in
         if height mod MINER_EPOCH_LENGTH = 0 then process_miner_epoch_boundary s1 height else (s1, []))
      else
        (let (s1, epoch_events) = process_miner_epoch_boundary state height in
         (update_miner_activity s1 height, epoch_events)))"

text \<open>Check-ins are credited to the epoch of the block, whatever epoch the witness names.\<close>

definition credit_checkins :: "u64 \<Rightarrow> MinerCheckinWitness list \<Rightarrow> WorldState \<Rightarrow> WorldState" where
  "credit_checkins epoch witnesses state =
     fold (\<lambda>w s. s\<lparr>miners := bt_modify (w_miner w) (\<lambda>m. m\<lparr>mi_last_checkin_epoch := epoch\<rparr>) (miners s)\<rparr>)
       witnesses state"

text \<open>Everything between the transactions and the check-ins of the block.\<close>

definition settle_block ::
  "ActiveValidator list \<Rightarrow> address list \<Rightarrow> address \<Rightarrow> u64 \<Rightarrow> u128 \<Rightarrow> WorldState \<Rightarrow> ledger" where
  "settle_block active offline proposer height total_fees state =
     (let (s1, events) = distribute_rewards active offline proposer height total_fees state;
          (s2, epoch_events) = miner_epoch_step height (update_uptime active proposer s1) in
      (s2, events @ epoch_events))"

section \<open>Slashing counters\<close>

definition sync_slashing_to_world_state :: "SlashingState \<Rightarrow> WorldState \<Rightarrow> WorldState" where
  "sync_slashing_to_world_state sl state = state\<lparr>
     jailed_validators := sl_jailed sl,
     validator_missed_slots := sl_missed_slots sl,
     validator_assigned_slots := sl_assigned_slots sl,
     processed_evidence := sl_processed_evidence sl\<rparr>"

text \<open>What the fees of a block are expected to burn (the supply integrity check).\<close>

definition expected_burn :: "u128 \<Rightarrow> u128" where
  "expected_burn total_fees = total_fees - total_fees * 50 div 100 - total_fees * 20 div 100"

section \<open>The transaction index is only a label\<close>

text \<open>An outcome without the events, which are all that the index enters.\<close>

definition erase_events :: "('e + 'v \<times> 'r) \<times> 's \<Rightarrow> ('e + 'r) \<times> 's" where
  "erase_events x = (map_sum (\<lambda>e. e) snd (fst x), snd x)"

lemma erase_events_simps [simp]:
  "erase_events (Inl e, s) = (Inl e, s)" "erase_events (Inr (v, r), s) = (Inr r, s)"
  by (simp_all add: erase_events_def)

lemma erase_call: "erase_events (handle_contract_call E i s tx) = erase_events (handle_contract_call E j s tx)"
  by (simp add: handle_contract_call_def Let_def split: sum.split option.split)

lemma erase_deploy: "erase_events (handle_contract_deploy E i s tx) = erase_events (handle_contract_deploy E j s tx)"
  by (simp add: handle_contract_deploy_def Let_def split: sum.split option.split)

lemma erase_upgrade:
  "erase_events (handle_contract_upgrade_execute E i s tx) = erase_events (handle_contract_upgrade_execute E j s tx)"
  by (simp add: handle_contract_upgrade_execute_def Let_def split: sum.split option.split)

lemma erase_with_receipt:
  assumes "erase_events (h s tx) = erase_events (h' s tx)"
  shows "erase_events (with_receipt h s tx) = erase_events (with_receipt h' s tx)"
  using assms by (auto simp: with_receipt_def erase_events_def split: prod.splits sum.splits)

lemma dispatch_index: "erase_events (dispatch E i s tx) = erase_events (dispatch E j s tx)"
proof -
  note erased = erase_with_receipt[where h = "handle_contract_call E i" and h' = "handle_contract_call E j", OF erase_call]
    erase_with_receipt[where h = "handle_contract_deploy E i" and h' = "handle_contract_deploy E j", OF erase_deploy]
    erase_with_receipt[where h = "handle_contract_upgrade_execute E i"
      and h' = "handle_contract_upgrade_execute E j", OF erase_upgrade]
  show ?thesis by (cases "tx_type tx") (simp_all add: dispatch_def handler_for_def erased)
qed

lemma apply_tx_index:
  assumes "apply_tx E i s tx = (Inr (fee, evs), s')"
  shows "\<exists>evs'. apply_tx E j s tx = (Inr (fee, evs'), s')"
proof -
  let ?s1 = "if gas_free (tx_type tx) then s else debit (tx_from tx) GAS_FEE s"
  have "erase_events (dispatch E i ?s1 tx) = erase_events (dispatch E j ?s1 tx)" by (rule dispatch_index)
  then show ?thesis
    using assms
    by (auto simp: apply_tx_def Let_def erase_events_def split: if_splits prod.splits sum.splits)
qed

text \<open>The transactions that the producer's loop rejects.\<close>

fun rejected_txs :: "externals \<Rightarrow> nat \<Rightarrow> Transaction list \<Rightarrow> WorldState \<Rightarrow> Transaction list" where
  "rejected_txs E i [] s = []"
| "rejected_txs E i (tx # txs) s =
     (case apply_tx E (of_nat i) s tx of
        (Inr _, s') \<Rightarrow> rejected_txs E (Suc i) txs s'
      | (Inl _, s') \<Rightarrow> tx # rejected_txs E (Suc i) txs s')"

definition leaves_residue :: "Transaction \<Rightarrow> bool" where
  "leaves_residue tx \<longleftrightarrow> tx_type tx = StakeWithdraw \<or> tx_type tx = StakeClaim \<or> tx_type tx = ContractCall"

lemma include_txs_replay:
  assumes "include_txs E i txs s = (inc, fees, evs, s')" and "world_inv s"
    and "\<forall>tx \<in> set (rejected_txs E i txs s). \<not> leaves_residue tx"
  shows "run_txs E k acc inc s = Inr (acc + fees, s')"
  using assms
proof (induction txs arbitrary: i s inc fees evs k acc)
  case (Cons tx txs)
  obtain r s1 where run: "apply_tx E (of_nat i) s tx = (r, s1)" by force
  have inv: "world_inv s1" using apply_tx_keeps_inv[OF Cons.prems(2), of E "of_nat i" tx] run by simp
  show ?case
  proof (cases r)
    case (Inl e)
    with run Cons.prems(3) have "s1 = s"
      by (intro apply_tx_rejected[of E "of_nat i" s tx e s1] Cons.prems(2)) (auto simp: leaves_residue_def)
    then show ?thesis using Cons.IH[of "Suc i" s] Cons.prems run Inl by simp
  next
    case (Inr x)
    obtain fee ev where x: "x = (fee, ev)" by force
    obtain inc' fees' evs' where rest: "include_txs E (Suc i) txs s1 = (inc', fees', evs', s')"
      and parts: "inc = tx # inc'" "fees = fee + fees'"
      using Cons.prems(1) run Inr x by (auto split: prod.splits)
    obtain ev' where "apply_tx E (of_nat k) s tx = (Inr (fee, ev'), s1)"
      using apply_tx_index[of E "of_nat i" s tx fee ev s1 "of_nat k"] run Inr x by auto
    then show ?thesis
      using Cons.IH[OF rest inv, of "Suc k" "acc + fee"] Cons.prems(3) run Inr x parts by (simp add: add.assoc)
  qed
qed simp

section \<open>Pending mining rewards under transactions\<close>

text \<open>No transaction touches a pending reward; only the two miner transactions touch miners at all.\<close>

lemma miners_unit [simp]:
  "miners (debit a n s) = miners s" "miners (credit a n s) = miners s"
  "miners (record_delegation f v n bps s) = miners s" "miners (reduce_stake v r s) = miners s"
  "miners (untrack_user f v n s) = miners s" "miners (record_success tx fee rc s) = miners s"
  "miners (register_contract c i code s) = miners s" "miners (commit_upgrade c code oh nh k s) = miners s"
  "miners (send_value f c n s) = miners s" "miners (refund_value f c n s) = miners s"
  by (simp_all add: debit_def credit_def record_delegation_def reduce_stake_def untrack_user_def
      record_success_def register_contract_def commit_upgrade_def send_value_def refund_value_def Let_def
      split: option.split)

lemma miners_fold_storage [simp]: "miners (apply_storage_changes c ch s) = miners s"
  unfolding apply_storage_changes_def by (induction ch arbitrary: s) (auto split: option.split)

lemma miners_fold_transfers [simp]: "miners (apply_transfers c ts s) = miners s"
  unfolding apply_transfers_def by (induction ts arbitrary: s) auto

lemma miners_agent_register [frame_laws]: "miners (snd (handle_agent_register E s tx)) = miners s"
  by (simp add: handle_agent_register_def Let_def split: sum.split option.split)

lemma miners_token_transfer [frame_laws]: "miners (snd (handle_token_transfer E s tx)) = miners s"
  by (simp add: handle_token_transfer_def Let_def split: sum.split option.split)

lemma miners_token_create [frame_laws]: "miners (snd (handle_token_create E s tx)) = miners s"
  by (simp add: handle_token_create_def Let_def split: sum.split option.split)

lemma miners_token_mint_transfer [frame_laws]: "miners (snd (handle_token_mint_transfer E s tx)) = miners s"
  by (simp add: handle_token_mint_transfer_def Let_def split: sum.split option.split)

lemma miners_service_register [frame_laws]: "miners (snd (handle_service_register E s tx)) = miners s"
  by (simp add: handle_service_register_def Let_def split: sum.split option.split)

lemma miners_platform_activity_report [frame_laws]: "miners (snd (handle_platform_activity_report E s tx)) = miners s"
  by (simp add: handle_platform_activity_report_def Let_def split: sum.split option.split)

lemma miners_token_approve [frame_laws]: "miners (snd (handle_token_approve E s tx)) = miners s"
  by (simp add: handle_token_approve_def Let_def split: sum.split option.split)

lemma miners_token_burn [frame_laws]: "miners (snd (handle_token_burn E s tx)) = miners s"
  by (simp add: handle_token_burn_def Let_def split: sum.split option.split)

lemma miners_stake_deposit [frame_laws]: "miners (snd (handle_stake_deposit E s tx)) = miners s"
  by (simp add: handle_stake_deposit_def Let_def split: sum.split option.split)

lemma miners_change_delegation [frame_laws]: "miners (snd (handle_change_delegation E s tx)) = miners s"
  by (simp add: handle_change_delegation_def Let_def split: sum.split option.split)

lemma miners_stake_withdraw [frame_laws]: "miners (snd (handle_stake_withdraw E s tx)) = miners s"
  by (simp add: handle_stake_withdraw_def Let_def split: sum.split option.split)

lemma miners_stake_claim [frame_laws]: "miners (snd (handle_stake_claim E s tx)) = miners s"
  by (simp add: handle_stake_claim_def Let_def split: sum.split option.split)

lemma miners_contract_upgrade_announce [frame_laws]: "miners (snd (handle_contract_upgrade_announce E s tx)) = miners s"
  by (simp add: handle_contract_upgrade_announce_def Let_def split: sum.split option.split)

lemma miners_contracts [frame_laws]:
  "miners (snd (handle_contract_deploy E i s tx)) = miners s"
  "miners (snd (handle_contract_call E i s tx)) = miners s"
  "miners (snd (handle_contract_upgrade_execute E i s tx)) = miners s"
  by (simp_all add: handle_contract_deploy_def handle_contract_call_def handle_contract_upgrade_execute_def
      Let_def split: sum.split option.split)

definition pendings_kept :: "WorldState \<Rightarrow> WorldState \<Rightarrow> bool" where
  "pendings_kept s s' \<longleftrightarrow> (\<forall>a m'. bt_get (miners s') a = Some m' \<longrightarrow> mi_pending_rewards m' = 0
     \<or> (\<exists>m. bt_get (miners s) a = Some m \<and> mi_pending_rewards m' = mi_pending_rewards m
          \<and> mi_pending_epoch m' = mi_pending_epoch m))"

lemma pendings_kept_same: "miners s' = miners s \<Longrightarrow> pendings_kept s s'"
  by (auto simp: pendings_kept_def)

lemma pendings_kept_trans: "pendings_kept a b \<Longrightarrow> pendings_kept b c \<Longrightarrow> pendings_kept a c"
  unfolding pendings_kept_def by metis

lemma pendings_register: "pendings_kept s (snd (handle_miner_register E s tx))"
  by (simp add: handle_miner_register_def Let_def pendings_kept_def split: sum.split)

lemma pendings_heartbeat: "pendings_kept s (snd (handle_miner_heartbeat E s tx))"
  by (simp add: heartbeat_defs pendings_kept_def split: sum.split option.split)

lemma plain_state: "snd (plain h s tx) = snd (h s tx)"
  by (simp add: plain_def split: prod.split sum.split)

lemma with_receipt_state: "snd (with_receipt h s tx) = snd (h s tx)"
  by (simp add: with_receipt_def split: prod.split sum.split)

lemma dispatch_pendings: "pendings_kept s (snd (dispatch E i s tx))"
  by (cases "tx_type tx")
    (simp_all add: dispatch_def handler_for_def plain_state with_receipt_state pendings_register pendings_heartbeat
      handle_reputation_attest_def pendings_kept_same frame_laws)

lemma apply_tx_pendings: "pendings_kept s (snd (apply_tx E i s tx))"
proof -
  let ?s1 = "if gas_free (tx_type tx) then s else debit (tx_from tx) GAS_FEE s"
  have "pendings_kept ?s1 (snd (dispatch E i ?s1 tx))" by (rule dispatch_pendings)
  moreover have "pendings_kept s ?s1" "pendings_kept s s" by (simp_all add: pendings_kept_same)
  ultimately have "pendings_kept s (snd (dispatch E i ?s1 tx))" by (blast intro: pendings_kept_trans)
  then show ?thesis
    by (auto simp: apply_tx_def Let_def pendings_kept_def split: prod.splits sum.splits)
qed

lemma run_txs_effect:
  assumes "run_txs E i acc txs s = Inr (fees, s')"
  shows "total_supply s' + fees = total_supply s + acc \<and> pendings_kept s s' \<and> (world_inv s \<longrightarrow> world_inv s')
    \<and> block_height s' = block_height s"
  using assms
proof (induction txs arbitrary: i acc s)
  case (Cons tx txs)
  obtain fee evs s1 where run: "apply_tx E (of_nat i) s tx = (Inr (fee, evs), s1)"
    and rest: "run_txs E (Suc i) (acc + fee) txs s1 = Inr (fees, s')"
    using Cons.prems by (auto split: prod.splits sum.splits)
  have "total_supply s1 + fee = total_supply s" using run by (rule apply_tx_supply)
  moreover have "pendings_kept s s1" "world_inv s \<Longrightarrow> world_inv s1"
    using apply_tx_pendings[of s E "of_nat i" tx] apply_tx_keeps_inv[of s E "of_nat i" tx] run by simp_all
  moreover have "block_height s1 = block_height s"
  proof -
    obtain rc s2 where "dispatch E (of_nat i) (charged tx s) tx = (Inr (evs, rc), s2)"
      "s1 = record_success tx fee rc s2"
      using apply_tx_success[OF run] by blast
    then show ?thesis
      using dispatch.frame[of E "of_nat i" "charged tx s" tx] 
      by (auto simp: engine_frame_def record_success_def charged_def debit_def)
  qed
  ultimately show ?case
    using Cons.IH[OF rest] pendings_kept_trans by (auto simp: algebra_simps)
qed (simp add: pendings_kept_same)

section \<open>Supply and pending rewards across a block\<close>

lemma pay_shares_keeps:
  assumes "\<And>a n l. P l \<Longrightarrow> P (pay a n l)" and "P l"
  shows "P (pay_shares pay r w ps d l)"
  using assms(2) by (induction ps arbitrary: d l) (auto simp: Let_def assms(1))

text \<open>Paying an account changes nothing but balances.\<close>

definition only_balances :: "WorldState \<Rightarrow> WorldState \<Rightarrow> bool" where
  "only_balances s s' \<longleftrightarrow> s' = s\<lparr>balances := balances s'\<rparr>"

lemma only_balances_refl [simp]: "only_balances s s"
  by (simp add: only_balances_def)

lemma only_balances_step:
  assumes "only_balances s s1"
  shows "only_balances s (credit a n s1)" "only_balances s (debit a n s1)"
proof -
  obtain b where "s1 = s\<lparr>balances := b\<rparr>" using assms unfolding only_balances_def by blast
  then show "only_balances s (credit a n s1)" "only_balances s (debit a n s1)"
    by (simp_all add: only_balances_def credit_def debit_def)
qed

lemma only_balances_pay:
  assumes "only_balances s (fst l)"
  shows "only_balances s (fst (pay_to a n t l))" "only_balances s (fst (pay_positive a n t l))"
    "only_balances s (fst (pay_validator x y z a n l))"
  using assms
  by (simp_all add: pay_to_def pay_positive_def pay_validator_def only_balances_step Let_def)

lemma rewards_only_balances:
  "only_balances s (fst (distribute_block_reward s vs h))"
  "only_balances s (fst (distribute_mining_rewards s h))"
  "only_balances s (fst (distribute_fees s p f))"
proof -
  show "only_balances s (fst (distribute_block_reward s vs h))"
    unfolding distribute_block_reward_def Let_def
    by (auto intro!: pay_shares_keeps[where P = "\<lambda>l. only_balances s (fst l)"] only_balances_pay
        simp: only_balances_step)
  show "only_balances s (fst (distribute_mining_rewards s h))"
    unfolding distribute_mining_rewards_def Let_def
    by (auto intro!: pay_shares_keeps[where P = "\<lambda>l. only_balances s (fst l)"] only_balances_pay
        simp: only_balances_step)
  show "only_balances s (fst (distribute_fees s p f))"
    unfolding distribute_fees_def Let_def by (simp add: only_balances_pay)
qed

lemma only_balances_frame:
  assumes "only_balances s s'"
  shows "miners s' = miners s" "world_inv s' = world_inv s" "epoch_reward_bucket s' = epoch_reward_bucket s"
    "block_height s' = block_height s"
proof -
  obtain b where "s' = s\<lparr>balances := b\<rparr>" using assms unfolding only_balances_def by blast
  then show "miners s' = miners s" "world_inv s' = world_inv s" "epoch_reward_bucket s' = epoch_reward_bucket s"
    "block_height s' = block_height s"
    by (simp_all add: world_inv_def inv_defs)
qed

lemmas paid_frame = only_balances_frame[OF rewards_only_balances(1)]
  only_balances_frame[OF rewards_only_balances(2)] only_balances_frame[OF rewards_only_balances(3)]

lemma world_inv_bucket: "world_inv (s\<lparr>epoch_reward_bucket := b\<rparr>) = world_inv s"
  by (simp add: world_inv_def inv_defs)

lemma block_height_debit: "block_height (debit a n s) = block_height s"
  by (simp add: debit_def)

lemma accumulate_frame:
  "miners (fst (accumulate_mining_reward s h)) = miners s"
  "world_inv (fst (accumulate_mining_reward s h)) = world_inv s"
  "block_height (fst (accumulate_mining_reward s h)) = block_height s"
  by (simp_all add: accumulate_mining_reward_def Let_def paid_frame world_inv_bucket block_height_debit)

lemma distribute_rewards_effect:
  fixes active offline p h f s
  defines "s' \<equiv> fst (distribute_rewards active offline p h f s)"
  shows "miners s' = miners s" "world_inv s' = world_inv s" "block_height s' = block_height s"
    "total_supply s' = total_supply s + f * 50 div 100 + f * 20 div 100"
  by (simp_all add: s'_def distribute_rewards_def Let_def case_prod_beta paid_frame accumulate_frame
      distribute_fees_supply accumulate_mining_reward_supply distribute_block_reward_supply)

lemma update_uptime_effect:
  "miners (update_uptime active p s) = miners s" "world_inv (update_uptime active p s) = world_inv s"
  "block_height (update_uptime active p s) = block_height s"
  "total_supply (update_uptime active p s) = total_supply s"
  by (simp_all add: update_uptime_def Let_def world_inv_def inv_defs supply_defs)

text \<open>
  What is pending between two blocks: nothing before the V2 height; after it, only what the last
  boundary assigned.
\<close>

definition mining_inv :: "u64 \<Rightarrow> WorldState \<Rightarrow> bool" where
  "mining_inv height s \<longleftrightarrow>
     (if height < HEARTBEAT_V2_HEIGHT
      then (\<forall>a m. bt_get (miners s) a = Some m \<longrightarrow> mi_pending_rewards m = 0)
      else pending_inv (height div MINER_EPOCH_LENGTH) s)"

lemma mining_inv_kept: "mining_inv h s \<Longrightarrow> pendings_kept s s' \<Longrightarrow> mining_inv h s'"
  unfolding mining_inv_def pending_inv_def pendings_kept_def by (metis (full_types))

lemma epoch_before:
  fixes h :: u64
  assumes "h \<noteq> 0"
  shows "(h - 1) div 100 = (if h mod 100 = 0 then h div 100 - 1 else h div 100)"
proof -
  have n: "unat (h - 1) = unat h - 1" using assms by (rule unat_minus_one)
  have m: "h mod 100 = 0 \<longleftrightarrow> unat h mod 100 = 0" by (simp add: unat_eq_0[symmetric] unat_mod)
  obtain k where k: "unat h = Suc k" using assms by (cases "unat h") (simp_all add: unat_eq_0)
  have "1 \<le> h div 100" if "h mod 100 = 0"
    using that k m div_Suc[of k 100] by (simp add: word_le_nat_alt unat_div)
  then show ?thesis
    using m k div_Suc[of k 100] by (auto simp: word_unat_eq_iff unat_div n unat_sub_exact word_le_nat_alt)
qed

lemma entries_map_values: "entries (bt_map_values f m) = map (\<lambda>p. (fst p, f (fst p) (snd p))) (entries m)"
  by transfer (simp add: case_prod_beta)

lemma bt_sum_map_values: "bt_sum f (bt_map_values g m) = bt_sum (\<lambda>a v. f a (g a v)) m"
  by (simp add: bt_sum_def entries_map_values comp_def)

lemma supply_miners_mapped:
  assumes "\<And>a m. bt_get (miners s) a = Some m \<Longrightarrow> mi_pending_rewards (g a m) = mi_pending_rewards m"
  shows "total_supply (s\<lparr>miners := bt_map_values g (miners s)\<rparr>) = total_supply s"
proof -
  have "bt_sum (\<lambda>a m. mi_pending_rewards (g a m)) (miners s) = bt_sum (\<lambda>_ m. mi_pending_rewards m) (miners s)"
    unfolding bt_sum_def by (rule arg_cong[where f = sum_list], rule map_cong) (auto intro!: assms simp: bt.ents_mem)
  then show ?thesis by (simp add: supply_defs bt_sum_map_values)
qed

lemma activate_v2_effect:
  assumes "\<forall>a m. bt_get (miners s) a = Some m \<longrightarrow> mi_pending_rewards m = 0"
  shows "total_supply (activate_v2 s) = total_supply s"
    "bt_get (miners (activate_v2 s)) a = Some m \<Longrightarrow> mi_pending_rewards m = 0"
proof -
  let ?g = "\<lambda>(_::address) m. m\<lparr>mi_pending_rewards := 0, mi_pending_epoch := 0, mi_epoch_attendance := 0,
    mi_consecutive_misses := 0\<rparr>"
  have "total_supply (s\<lparr>miners := bt_map_values ?g (miners s)\<rparr>) = total_supply s"
    by (rule supply_miners_mapped) (use assms in simp)
  then show "total_supply (activate_v2 s) = total_supply s"
    by (simp add: activate_v2_def Let_def total_supply_bucket)
  show "bt_get (miners (activate_v2 s)) a = Some m \<Longrightarrow> mi_pending_rewards m = 0"
    by (auto simp: activate_v2_def Let_def bt_get_map_values split: if_splits)
qed

lemma migrate_effect:
  "total_supply (migrate_miners_v2_to_v3 s) = total_supply s"
  "pendings_kept s (migrate_miners_v2_to_v3 s)"
  by (auto simp: migrate_miners_v2_to_v3_def supply_miners_mapped pendings_kept_def bt_get_map_values)

lemma update_miner_activity_effect:
  "total_supply (update_miner_activity s h) = total_supply s"
  "pendings_kept s (update_miner_activity s h)"
  by (auto simp: update_miner_activity_def supply_miners_mapped pendings_kept_def bt_get_map_values)

lemma boundary_effect:
  assumes "h \<noteq> 0" and "mining_inv (h - 1) s"
  defines "s' \<equiv> fst (process_miner_epoch_boundary s h)"
  shows "total_supply s' = total_supply s" "mining_inv h s'"
proof -
  consider (early) "h < 225900" | (activation) "h = 225900" | (inside) "225900 < h" "h mod 100 \<noteq> 0"
    | (boundary) "225900 < h" "h mod 100 = 0" by fastforce
  then have "total_supply s' = total_supply s \<and> mining_inv h s'"
  proof cases
    case early
    then have "h - 1 < 225900" using assms(1) by unat_arith
    then show ?thesis using early assms
      by (simp add: mining_inv_def process_miner_epoch_boundary_def HEARTBEAT_V2_HEIGHT_def)
  next
    case activation
    then show ?thesis using assms activate_v2_effect[of s]
      by (auto simp: mining_inv_def pending_inv_def process_miner_epoch_boundary_def HEARTBEAT_V2_HEIGHT_def
          MINER_EPOCH_LENGTH_def)
  next
    case inside
    have "\<not> h - 1 < 225900" using inside(1) by unat_arith
    then show ?thesis using inside assms epoch_before[of h]
      by (auto simp: mining_inv_def process_miner_epoch_boundary_def HEARTBEAT_V2_HEIGHT_def
          MINER_EPOCH_LENGTH_def)
  next
    case boundary
    have "\<not> h - 1 < 225900" using boundary(1) by unat_arith
    then have "pending_inv (h div 100 - 1) s" using boundary assms epoch_before[of h]
      by (auto simp: mining_inv_def HEARTBEAT_V2_HEIGHT_def MINER_EPOCH_LENGTH_def)
    then show ?thesis using boundary epoch_boundary_supply[of h s]
      by (auto simp: s'_def mining_inv_def HEARTBEAT_V2_HEIGHT_def MINER_EPOCH_LENGTH_def)
  qed
  then show "total_supply s' = total_supply s" "mining_inv h s'" by simp_all
qed

text \<open>The miner epoch writes balances and the mining fields only.\<close>

definition mining_only :: "WorldState \<Rightarrow> WorldState \<Rightarrow> bool" where
  "mining_only s s' \<longleftrightarrow> (\<exists>bs ms b c. s' = s\<lparr>balances := bs, miners := ms,
     epoch_reward_bucket := b, epoch_checkins := c\<rparr>)"

lemma mining_onlyI:
  assumes "s' = s\<lparr>balances := balances s', miners := miners s',
     epoch_reward_bucket := epoch_reward_bucket s', epoch_checkins := epoch_checkins s'\<rparr>"
  shows "mining_only s s'"
  using assms unfolding mining_only_def by blast

lemma mining_only_refl [simp]: "mining_only s s"
  by (rule mining_onlyI) simp

lemma mining_only_trans:
  assumes "mining_only r s" and "mining_only s t"
  shows "mining_only r t"
proof -
  obtain b m k c where 1: "s = r\<lparr>balances := b, miners := m, epoch_reward_bucket := k, epoch_checkins := c\<rparr>"
    using assms(1) unfolding mining_only_def by blast
  obtain b' m' k' c' where "t = s\<lparr>balances := b', miners := m', epoch_reward_bucket := k', epoch_checkins := c'\<rparr>"
    using assms(2) unfolding mining_only_def by blast
  with 1 have "t = r\<lparr>balances := b', miners := m', epoch_reward_bucket := k', epoch_checkins := c'\<rparr>" by simp
  then show ?thesis unfolding mining_only_def by blast
qed

lemma mining_only_step:
  assumes "mining_only r s"
  shows "mining_only r (credit a n s)" "mining_only r (s\<lparr>miners := ms\<rparr>)"
    "mining_only r (s\<lparr>epoch_reward_bucket := b\<rparr>)" "mining_only r (s\<lparr>epoch_checkins := c\<rparr>)"
    "mining_only r (set_pending a n s)"
  by (rule mining_only_trans[OF assms], rule mining_onlyI, simp add: credit_def set_pending_def)+

lemma mining_only_frame:
  assumes "mining_only s s'"
  shows "world_inv s' = world_inv s" "block_height s' = block_height s"
proof -
  obtain b m k c where "s' = s\<lparr>balances := b, miners := m, epoch_reward_bucket := k, epoch_checkins := c\<rparr>"
    using assms unfolding mining_only_def by blast
  then show "world_inv s' = world_inv s" "block_height s' = block_height s"
    by (simp_all add: world_inv_def inv_defs)
qed

lemma mining_only_pay:
  assumes "mining_only r (fst l)"
  shows "mining_only r (fst (pay_to a n t l))" "mining_only r (fst (pay_positive a n t l))"
  using assms by (simp_all add: pay_to_def pay_positive_def mining_only_step)

lemma settle_mining_only:
  assumes "mining_only r (fst l)"
  shows "mining_only r (fst (fold (settle_miner h) ks l))"
  using assms
proof (induction ks arbitrary: l)
  case (Cons a ks)
  have "mining_only r (fst (settle_miner h a l))"
    using Cons.prems by (auto simp: settle_miner_def Let_def intro!: mining_only_step mining_only_pay split: option.split)
  then show ?case using Cons.IH by simp
qed simp

lemma distribute_bucket_mining_only: "mining_only r s \<Longrightarrow> mining_only r (distribute_bucket s)"
  unfolding distribute_bucket_def Let_def
  by (auto intro!: mining_only_step pay_shares_keeps[where P = "mining_only r"])

lemma boundary_mining_only: "mining_only s (fst (process_miner_epoch_boundary s h))"
  unfolding process_miner_epoch_boundary_def activate_v2_def Let_def
  by (auto intro!: mining_only_step distribute_bucket_mining_only settle_mining_only)

lemma miner_epoch_mining_only: "mining_only s (fst (miner_epoch_step h s))"
proof -
  have "mining_only s (fst (process_miner_epoch_boundary (migrate_miners_v2_to_v3 s) h))"
    using boundary_mining_only by (rule mining_only_trans[rotated])
      (simp add: migrate_miners_v2_to_v3_def mining_only_step)
  then show ?thesis
    using boundary_mining_only[of s h]
    by (auto simp: miner_epoch_step_def update_miner_activity_def migrate_miners_v2_to_v3_def Let_def case_prod_beta
        intro!: mining_only_step)
qed

lemma miner_epoch_step_alt:
  "fst (miner_epoch_step h s) =
     (if h \<ge> CHECKIN_V3_HEIGHT
      then fst (process_miner_epoch_boundary
             (if h = CHECKIN_V3_HEIGHT then migrate_miners_v2_to_v3 s else s) h)
      else update_miner_activity (fst (process_miner_epoch_boundary s h)) h)"
  by (simp add: miner_epoch_step_def Let_def case_prod_beta process_miner_epoch_boundary_def)

lemma miner_epoch_step_effect:
  assumes "h \<noteq> 0" and "mining_inv (h - 1) s"
  shows "total_supply (fst (miner_epoch_step h s)) = total_supply s \<and> mining_inv h (fst (miner_epoch_step h s))"
proof -
  have "mining_inv (h - 1) (migrate_miners_v2_to_v3 s)"
    using assms(2) migrate_effect(2) by (rule mining_inv_kept)
  then show ?thesis
    using boundary_effect[OF assms(1)] assms(2)
    by (auto simp: miner_epoch_step_alt migrate_effect update_miner_activity_effect
        intro: mining_inv_kept[OF _ update_miner_activity_effect(2)])
qed

lemma settle_block_effect:
  fixes active offline p h f s
  defines "s' \<equiv> fst (settle_block active offline p h f s)"
  shows "world_inv s' = world_inv s" "block_height s' = block_height s"
    "h \<noteq> 0 \<Longrightarrow> mining_inv (h - 1) s \<Longrightarrow>
     total_supply s' = total_supply s + f * 50 div 100 + f * 20 div 100 \<and> mining_inv h s'"
proof -
  let ?s2 = "update_uptime active p (fst (distribute_rewards active offline p h f s))"
  have s': "s' = fst (miner_epoch_step h ?s2)" by (simp add: s'_def settle_block_def Let_def case_prod_beta)
  show "world_inv s' = world_inv s" "block_height s' = block_height s"
    by (simp_all add: s' mining_only_frame[OF miner_epoch_mining_only] update_uptime_effect distribute_rewards_effect)
  assume "h \<noteq> 0" "mining_inv (h - 1) s"
  moreover have "pendings_kept s ?s2"
    by (rule pendings_kept_same) (simp add: update_uptime_effect distribute_rewards_effect)
  ultimately show "total_supply s' = total_supply s + f * 50 div 100 + f * 20 div 100 \<and> mining_inv h s'"
    using miner_epoch_step_effect[of h ?s2] mining_inv_kept[of "h - 1" s ?s2]
    by (simp add: s' update_uptime_effect distribute_rewards_effect)
qed

lemma credit_checkin_step:
  fixes w :: MinerCheckinWitness and s :: WorldState and e :: u64
  defines "s' \<equiv> s\<lparr>miners := bt_modify (w_miner w) (\<lambda>m. m\<lparr>mi_last_checkin_epoch := e\<rparr>) (miners s)\<rparr>"
  shows "total_supply s' = total_supply s" "pendings_kept s s'" "world_inv s' = world_inv s"
    "block_height s' = block_height s"
  by (auto simp: s'_def bt_modify_def supply_defs bt_sum_insert pendings_kept_def world_inv_def inv_defs
      split: option.splits if_splits)

lemma credit_checkins_effect:
  "total_supply (credit_checkins e ws s) = total_supply s \<and> pendings_kept s (credit_checkins e ws s)
    \<and> world_inv (credit_checkins e ws s) = world_inv s \<and> block_height (credit_checkins e ws s) = block_height s"
proof (induction ws arbitrary: s)
  case (Cons w ws)
  let ?s = "s\<lparr>miners := bt_modify (w_miner w) (\<lambda>m. m\<lparr>mi_last_checkin_epoch := e\<rparr>) (miners s)\<rparr>"
  have "credit_checkins e (w # ws) s = credit_checkins e ws ?s" by (simp add: credit_checkins_def)
  then show ?case
    using Cons.IH[of ?s] credit_checkin_step[where w = w and s = s and e = e] pendings_kept_trans[of s ?s] by simp
qed (simp add: credit_checkins_def pendings_kept_same)

lemma sync_slashing_effect:
  "total_supply (sync_slashing_to_world_state sl s) = total_supply s"
  "miners (sync_slashing_to_world_state sl s) = miners s"
  "world_inv (sync_slashing_to_world_state sl s) = world_inv s"
  "block_height (sync_slashing_to_world_state sl s) = block_height s"
  by (simp_all add: sync_slashing_to_world_state_def supply_defs world_inv_def inv_defs)

end
