(* ===== verification/Store.thy ===== *)
theory Store
  imports Handler_Interface "HOL-Library.Multiset"
begin

text \<open>
  The persistent chain store (\<open>storage/src/store.rs\<close>): five redb tables, with block and receipt
  values, address lists and state snapshots kept as Borsh bytes.

  The tables are ordered maps from keys to bytes, which is what redb documents of a table. The
  Borsh codecs are parameters (\<open>codec\<close>), and so is what redb answers: every operation has an
  argument \<open>db\<close>, the error that redb reports during its transaction, if any. A write transaction
  that meets an error is dropped before the commit, which leaves the tables as they were.
\<close>

section \<open>Tables and codecs\<close>

record ReputationAttestPayload =
  rap_to :: address
  rap_category :: string
  rap_score :: "16 word"
  rap_platform :: string
  rap_memo :: string

datatype StoreError = Db string | BlockNotFound u64 | Serialize string

type_synonym tx_location = "u64 \<times> u32"

record codec =
  enc_block :: "Block \<Rightarrow> string + bytes"
  dec_block :: "bytes \<Rightarrow> string + Block"
  enc_locations :: "tx_location list \<Rightarrow> string + bytes"
  dec_locations :: "bytes \<Rightarrow> string + tx_location list"
  enc_receipt :: "TransactionReceipt \<Rightarrow> string + bytes"
  dec_receipt :: "bytes \<Rightarrow> string + TransactionReceipt"
  dec_reputation_attest :: "bytes \<Rightarrow> string + ReputationAttestPayload"

text \<open>\<open>BLOCKS\<close>, \<open>META\<close>, \<open>TX_INDEX\<close>, \<open>ADDRESS_TX_INDEX\<close>, \<open>RECEIPTS\<close>.\<close>

record ChainStore =
  tb_blocks :: "(u64, bytes) btree"
  tb_meta :: "(string, bytes) btree"
  tb_tx_index :: "(hash32, u64) btree"
  tb_address_tx_index :: "(address, bytes) btree"
  tb_receipts :: "(hash32, bytes) btree"

text \<open>\<open>ChainStore::open\<close> on a fresh path: every table exists and is empty.\<close>

definition store_empty :: ChainStore where
  "store_empty = \<lparr>tb_blocks = bt_empty, tb_meta = bt_empty, tb_tx_index = bt_empty,
     tb_address_tx_index = bt_empty, tb_receipts = bt_empty\<rparr>"

definition META_LATEST_HEIGHT :: string where
  [claw_consts]: "META_LATEST_HEIGHT = ''latest_height''"

definition META_STATE_SNAPSHOT :: string where
  [claw_consts]: "META_STATE_SNAPSHOT = ''state_snapshot''"

section \<open>Writing\<close>

text \<open>Bytes that do not decode count as an empty list (\<open>unwrap_or_default\<close>).\<close>

definition read_locations :: "codec \<Rightarrow> bytes option \<Rightarrow> tx_location list" where
  "read_locations K data = (case data of
      None \<Rightarrow> []
    | Some bs \<Rightarrow> (case dec_locations K bs of Inl _ \<Rightarrow> [] | Inr es \<Rightarrow> es))"

definition append_address_entry ::
  "codec \<Rightarrow> ChainStore \<Rightarrow> address \<Rightarrow> tx_location \<Rightarrow> StoreError + ChainStore" where
  "append_address_entry K table address entry =
     (let es = read_locations K (bt_get (tb_address_tx_index table) address) @ [entry] in
      case enc_locations K es of
        Inl e \<Rightarrow> Inl (Serialize e)
      | Inr encoded \<Rightarrow>
          Inr (table\<lparr>tb_address_tx_index := bt_insert address encoded (tb_address_tx_index table)\<rparr>))"

text \<open>\<open>extract_to_address\<close>: the recipient named by the payload, for the four types that name one.\<close>

definition extract_to_address :: "codec \<Rightarrow> externals \<Rightarrow> TxType \<Rightarrow> bytes \<Rightarrow> address option" where
  "extract_to_address K E t payload = (case t of
      TokenTransfer \<Rightarrow> (case dec_token_transfer E payload of Inl _ \<Rightarrow> None | Inr p \<Rightarrow> Some (ttp_to p))
    | TokenMintTransfer \<Rightarrow>
        (case dec_token_mint_transfer E payload of Inl _ \<Rightarrow> None | Inr p \<Rightarrow> Some (tmp_to p))
    | ReputationAttest \<Rightarrow>
        (case dec_reputation_attest K payload of Inl _ \<Rightarrow> None | Inr p \<Rightarrow> Some (rap_to p))
    | ContractCall \<Rightarrow> (case dec_contract_call E payload of Inl _ \<Rightarrow> None | Inr p \<Rightarrow> Some (ccp_contract p))
    | _ \<Rightarrow> None)"

text \<open>The body of the indexing loop for the transaction at position \<open>tx_idx\<close>.\<close>

definition index_tx ::
  "codec \<Rightarrow> externals \<Rightarrow> u64 \<Rightarrow> nat \<Rightarrow> Transaction \<Rightarrow> ChainStore \<Rightarrow> StoreError + ChainStore" where
  "index_tx K E height tx_idx tx st =
     (let st1 = st\<lparr>tb_tx_index := bt_insert (tx_hash E tx) height (tb_tx_index st)\<rparr>;
          entry = (height, of_nat tx_idx) in
      case append_address_entry K st1 (tx_from tx) entry of
        Inl e \<Rightarrow> Inl e
      | Inr st2 \<Rightarrow>
          (case extract_to_address K E (tx_type tx) (tx_payload tx) of
             None \<Rightarrow> Inr st2
           | Some to_addr \<Rightarrow>
               if to_addr \<noteq> tx_from tx then append_address_entry K st2 to_addr entry else Inr st2))"

fun index_txs ::
  "codec \<Rightarrow> externals \<Rightarrow> u64 \<Rightarrow> nat \<Rightarrow> Transaction list \<Rightarrow> ChainStore \<Rightarrow> StoreError + ChainStore" where
  "index_txs K E height i [] st = Inr st"
| "index_txs K E height i (tx # txs) st =
     (case index_tx K E height i tx st of
        Inl e \<Rightarrow> Inl e
      | Inr st' \<Rightarrow> index_txs K E height (Suc i) txs st')"

definition write_block_tables ::
  "codec \<Rightarrow> externals \<Rightarrow> Block \<Rightarrow> bytes \<Rightarrow> ChainStore \<Rightarrow> StoreError + ChainStore" where
  "write_block_tables K E block block_bytes st =
     (case index_txs K E (bl_height block) 0 (bl_transactions block)
             (st\<lparr>tb_blocks := bt_insert (bl_height block) block_bytes (tb_blocks st)\<rparr>) of
        Inl e \<Rightarrow> Inl e
      | Inr st' \<Rightarrow> Inr (st'\<lparr>tb_meta :=
          bt_insert META_LATEST_HEIGHT (to_le_bytes (bl_height block)) (tb_meta st')\<rparr>))"

type_synonym 'a stored = "(StoreError + 'a) \<times> ChainStore"

text \<open>A write transaction: its result is committed, or the store stays as it was.\<close>

definition commit :: "string option \<Rightarrow> StoreError + ChainStore \<Rightarrow> ChainStore \<Rightarrow> unit stored" where
  "commit db r st = (case db of
      Some e \<Rightarrow> (Inl (Db e), st)
    | None \<Rightarrow> (case r of Inl e \<Rightarrow> (Inl e, st) | Inr st' \<Rightarrow> (Inr (), st')))"

definition put_block :: "codec \<Rightarrow> externals \<Rightarrow> string option \<Rightarrow> Block \<Rightarrow> ChainStore \<Rightarrow> unit stored" where
  "put_block K E db block st = (case enc_block K block of
      Inl e \<Rightarrow> (Inl (Serialize e), st)
    | Inr block_bytes \<Rightarrow> commit db (write_block_tables K E block block_bytes st) st)"

definition put_block_and_snapshot ::
  "codec \<Rightarrow> externals \<Rightarrow> string option \<Rightarrow> Block \<Rightarrow> bytes \<Rightarrow> ChainStore \<Rightarrow> unit stored" where
  "put_block_and_snapshot K E db block snapshot st = (case enc_block K block of
      Inl e \<Rightarrow> (Inl (Serialize e), st)
    | Inr block_bytes \<Rightarrow> commit db
        (case write_block_tables K E block block_bytes st of
           Inl e \<Rightarrow> Inl e
         | Inr st' \<Rightarrow> Inr (st'\<lparr>tb_meta := bt_insert META_STATE_SNAPSHOT snapshot (tb_meta st')\<rparr>)) st)"

fun insert_receipts ::
  "codec \<Rightarrow> (hash32 \<times> TransactionReceipt) list \<Rightarrow> ChainStore \<Rightarrow> StoreError + ChainStore" where
  "insert_receipts K [] st = Inr st"
| "insert_receipts K ((h, r) # rs) st = (case enc_receipt K r of
      Inl e \<Rightarrow> Inl (Serialize e)
    | Inr bs \<Rightarrow> insert_receipts K rs (st\<lparr>tb_receipts := bt_insert h bs (tb_receipts st)\<rparr>))"

definition put_receipts ::
  "codec \<Rightarrow> string option \<Rightarrow> (hash32 \<times> TransactionReceipt) list \<Rightarrow> ChainStore \<Rightarrow> unit stored" where
  "put_receipts K db rs st =
     (if rs = [] then (Inr (), st) else commit db (insert_receipts K rs st) st)"

definition put_meta :: "string option \<Rightarrow> string \<Rightarrow> bytes \<Rightarrow> ChainStore \<Rightarrow> unit stored" where
  "put_meta db key data st = commit db (Inr (st\<lparr>tb_meta := bt_insert key data (tb_meta st)\<rparr>)) st"

definition put_state_snapshot :: "string option \<Rightarrow> bytes \<Rightarrow> ChainStore \<Rightarrow> unit stored" where
  "put_state_snapshot db = put_meta db META_STATE_SNAPSHOT"

definition put_user_delegations :: "string option \<Rightarrow> bytes \<Rightarrow> ChainStore \<Rightarrow> unit stored" where
  "put_user_delegations db = put_meta db ''user_delegations''"

definition put_offline_validators :: "string option \<Rightarrow> bytes \<Rightarrow> ChainStore \<Rightarrow> unit stored" where
  "put_offline_validators db = put_meta db ''offline_validators''"

text \<open>
  \<open>prune_blocks_below\<close>: removes the heights from 1 up to the bound, and counts them. The error
  branches return 0 and drop the transaction.
\<close>

definition prune_blocks_below :: "string option \<Rightarrow> u64 \<Rightarrow> ChainStore \<Rightarrow> u64 \<times> ChainStore" where
  "prune_blocks_below db below_height st =
     (if below_height \<le> 1 \<or> db \<noteq> None then (0, st)
      else
        (let keys_to_remove = filter (\<lambda>k. 1 \<le> k \<and> k < below_height) (bt_keys (tb_blocks st)) in
         (of_nat (length keys_to_remove),
          st\<lparr>tb_blocks := fold bt_remove keys_to_remove (tb_blocks st)\<rparr>)))"

section \<open>Reading\<close>

definition get_block :: "codec \<Rightarrow> string option \<Rightarrow> ChainStore \<Rightarrow> u64 \<Rightarrow> StoreError + Block option" where
  "get_block K db st height = (case db of
      Some e \<Rightarrow> Inl (Db e)
    | None \<Rightarrow> (case bt_get (tb_blocks st) height of
        None \<Rightarrow> Inr None
      | Some data \<Rightarrow> (case dec_block K data of Inl e \<Rightarrow> Inl (Serialize e) | Inr b \<Rightarrow> Inr (Some b))))"

definition get_latest_height :: "string option \<Rightarrow> ChainStore \<Rightarrow> StoreError + u64 option" where
  "get_latest_height db st = (case db of
      Some e \<Rightarrow> Inl (Db e)
    | None \<Rightarrow> Inr (map_option (\<lambda>bs. if length bs = 8 then from_le_bytes bs else 0)
                (bt_get (tb_meta st) META_LATEST_HEIGHT)))"

definition get_tx_block_height :: "string option \<Rightarrow> ChainStore \<Rightarrow> hash32 \<Rightarrow> StoreError + u64 option" where
  "get_tx_block_height db st h = (case db of Some e \<Rightarrow> Inl (Db e) | None \<Rightarrow> Inr (bt_get (tb_tx_index st) h))"

definition get_receipt ::
  "codec \<Rightarrow> string option \<Rightarrow> ChainStore \<Rightarrow> hash32 \<Rightarrow> StoreError + TransactionReceipt option" where
  "get_receipt K db st h = (case db of
      Some e \<Rightarrow> Inl (Db e)
    | None \<Rightarrow> (case bt_get (tb_receipts st) h of
        None \<Rightarrow> Inr None
      | Some data \<Rightarrow> (case dec_receipt K data of Inl e \<Rightarrow> Inl (Serialize e) | Inr r \<Rightarrow> Inr (Some r))))"

definition get_meta :: "string option \<Rightarrow> string \<Rightarrow> ChainStore \<Rightarrow> StoreError + bytes option" where
  "get_meta db key st = (case db of Some e \<Rightarrow> Inl (Db e) | None \<Rightarrow> Inr (bt_get (tb_meta st) key))"

definition get_state_snapshot :: "string option \<Rightarrow> ChainStore \<Rightarrow> StoreError + bytes option" where
  "get_state_snapshot db = get_meta db META_STATE_SNAPSHOT"

definition get_user_delegations :: "string option \<Rightarrow> ChainStore \<Rightarrow> StoreError + bytes option" where
  "get_user_delegations db = get_meta db ''user_delegations''"

definition get_offline_validators :: "string option \<Rightarrow> ChainStore \<Rightarrow> StoreError + bytes option" where
  "get_offline_validators db = get_meta db ''offline_validators''"

text \<open>One page entry: skipped when its block is pruned, does not decode or is too short.\<close>

definition load_location ::
  "codec \<Rightarrow> ChainStore \<Rightarrow> tx_location \<Rightarrow> (u64 \<times> u32 \<times> Transaction \<times> u64) list" where
  "load_location K st e = (case bt_get (tb_blocks st) (fst e) of
      None \<Rightarrow> []
    | Some data \<Rightarrow> (case dec_block K data of
        Inl _ \<Rightarrow> []
      | Inr block \<Rightarrow>
          if unat (snd e) < length (bl_transactions block)
          then [(fst e, snd e, bl_transactions block ! unat (snd e), bl_timestamp block)] else []))"

definition newest_first :: "tx_location list \<Rightarrow> tx_location list" where
  "newest_first = sort_key (\<lambda>e. (- uint (fst e), - uint (snd e)))"

definition get_transactions_by_address ::
  "codec \<Rightarrow> string option \<Rightarrow> ChainStore \<Rightarrow> address \<Rightarrow> nat \<Rightarrow> nat
   \<Rightarrow> StoreError + (u64 \<times> u32 \<times> Transaction \<times> u64) list" where
  "get_transactions_by_address K db st address limit offset = (case db of
      Some e \<Rightarrow> Inl (Db e)
    | None \<Rightarrow> (case bt_get (tb_address_tx_index st) address of
        None \<Rightarrow> Inr []
      | Some data \<Rightarrow>
          (let paginated = take limit (drop offset (newest_first (read_locations K (Some data)))) in
           Inr (concat (map (load_location K st) paginated)))))"

section \<open>What a stored block leaves behind\<close>

definition locations_ok :: "codec \<Rightarrow> bool" where
  "locations_ok K \<longleftrightarrow> (\<forall>es. \<exists>bs. enc_locations K es = Inr bs \<and> dec_locations K bs = Inr es)"

definition block_ok :: "codec \<Rightarrow> Block \<Rightarrow> bool" where
  "block_ok K b \<longleftrightarrow> (\<exists>bs. enc_block K b = Inr bs \<and> dec_block K bs = Inr b)"

text \<open>The abstract view of the address index: where the transactions of an address are.\<close>

definition involved :: "codec \<Rightarrow> externals \<Rightarrow> address \<Rightarrow> Transaction \<Rightarrow> bool" where
  "involved K E a tx \<longleftrightarrow> tx_from tx = a \<or> extract_to_address K E (tx_type tx) (tx_payload tx) = Some a"

definition address_log :: "codec \<Rightarrow> ChainStore \<Rightarrow> address \<Rightarrow> tx_location list" where
  "address_log K st a = read_locations K (bt_get (tb_address_tx_index st) a)"

fun locations_from :: "codec \<Rightarrow> externals \<Rightarrow> address \<Rightarrow> u64 \<Rightarrow> nat \<Rightarrow> Transaction list \<Rightarrow> tx_location list" where
  "locations_from K E a h i [] = []"
| "locations_from K E a h i (tx # txs) =
     (if involved K E a tx then [(h, of_nat i)] else []) @ locations_from K E a h (Suc i) txs"

lemma append_entry_log:
  assumes "locations_ok K"
  shows "\<exists>st'. append_address_entry K st a e = Inr st'
    \<and> (\<forall>b. address_log K st' b = address_log K st b @ (if b = a then [e] else []))
    \<and> tb_blocks st' = tb_blocks st \<and> tb_meta st' = tb_meta st \<and> tb_tx_index st' = tb_tx_index st
    \<and> tb_receipts st' = tb_receipts st"
proof -
  let ?es = "read_locations K (bt_get (tb_address_tx_index st) a) @ [e]"
  obtain bs where "enc_locations K ?es = Inr bs" "dec_locations K bs = Inr ?es"
    using assms by (auto simp: locations_ok_def)
  then show ?thesis
    by (auto simp: append_address_entry_def Let_def address_log_def read_locations_def)
qed

lemma index_tx_log:
  assumes "locations_ok K"
  shows "\<exists>st'. index_tx K E h i tx st = Inr st'
    \<and> (\<forall>b. address_log K st' b = address_log K st b @ locations_from K E b h i [tx])
    \<and> tb_blocks st' = tb_blocks st \<and> tb_meta st' = tb_meta st \<and> tb_receipts st' = tb_receipts st
    \<and> tb_tx_index st' = bt_insert (tx_hash E tx) h (tb_tx_index st)"
proof -
  let ?st1 = "st\<lparr>tb_tx_index := bt_insert (tx_hash E tx) h (tb_tx_index st)\<rparr>"
  let ?to = "extract_to_address K E (tx_type tx) (tx_payload tx)"
  let ?e = "(h, of_nat i :: u32)"
  have log1: "address_log K ?st1 b = address_log K st b" for b by (simp add: address_log_def)
  obtain st2 where st2: "append_address_entry K ?st1 (tx_from tx) ?e = Inr st2"
    "\<And>b. address_log K st2 b = address_log K st b @ (if b = tx_from tx then [?e] else [])"
    "tb_blocks st2 = tb_blocks st" "tb_meta st2 = tb_meta st" "tb_receipts st2 = tb_receipts st"
    "tb_tx_index st2 = bt_insert (tx_hash E tx) h (tb_tx_index st)"
    using append_entry_log[OF assms, of ?st1 "tx_from tx" ?e] log1 by auto
  show ?thesis
  proof (cases "?to = None \<or> ?to = Some (tx_from tx)")
    case True
    then show ?thesis using st2 by (auto simp: index_tx_def Let_def involved_def)
  next
    case False
    then obtain t where t: "?to = Some t" "t \<noteq> tx_from tx" by auto
    then show ?thesis
      using st2 append_entry_log[OF assms, of st2 t ?e] by (auto simp: index_tx_def Let_def involved_def)
  qed
qed

lemma index_txs_log:
  assumes "locations_ok K"
  shows "\<exists>st'. index_txs K E h i txs st = Inr st'
    \<and> (\<forall>b. address_log K st' b = address_log K st b @ locations_from K E b h i txs)
    \<and> tb_blocks st' = tb_blocks st \<and> tb_meta st' = tb_meta st \<and> tb_receipts st' = tb_receipts st
    \<and> (\<forall>x. bt_get (tb_tx_index st') x
         = (if x \<in> tx_hash E ` set txs then Some h else bt_get (tb_tx_index st) x))"
proof (induction txs arbitrary: i st)
  case (Cons tx txs)
  obtain st1 where st1: "index_tx K E h i tx st = Inr st1"
    "\<And>b. address_log K st1 b = address_log K st b @ locations_from K E b h i [tx]"
    "tb_blocks st1 = tb_blocks st" "tb_meta st1 = tb_meta st" "tb_receipts st1 = tb_receipts st"
    "tb_tx_index st1 = bt_insert (tx_hash E tx) h (tb_tx_index st)"
    using index_tx_log[OF assms, of E h i tx st] by blast
  with Cons.IH[of "Suc i" st1] show ?case by auto
qed simp

text \<open>A block whose encoding exists is stored, and everything it leaves is known.\<close>

lemma put_block_effect:
  assumes "locations_ok K" and "block_ok K b"
  shows "\<exists>st'. put_block K E None b st = (Inr (), st')
    \<and> (\<forall>a. address_log K st' a = address_log K st a @ locations_from K E a (bl_height b) 0 (bl_transactions b))
    \<and> (\<forall>h. get_block K None st' h = (if h = bl_height b then Inr (Some b) else get_block K None st h))
    \<and> (\<forall>h. bt_get (tb_blocks st') h
         = (if h = bl_height b then Some (projr (enc_block K b)) else bt_get (tb_blocks st) h))
    \<and> tb_meta st' = bt_insert META_LATEST_HEIGHT (to_le_bytes (bl_height b)) (tb_meta st)
    \<and> (\<forall>x. bt_get (tb_tx_index st') x
         = (if x \<in> tx_hash E ` set (bl_transactions b) then Some (bl_height b) else bt_get (tb_tx_index st) x))"
proof -
  obtain bs where bs: "enc_block K b = Inr bs" "dec_block K bs = Inr b"
    using assms(2) by (auto simp: block_ok_def)
  let ?st0 = "st\<lparr>tb_blocks := bt_insert (bl_height b) bs (tb_blocks st)\<rparr>"
  have log0: "address_log K ?st0 a = address_log K st a" for a by (simp add: address_log_def)
  obtain st1 where st1: "index_txs K E (bl_height b) 0 (bl_transactions b) ?st0 = Inr st1"
    "\<And>a. address_log K st1 a = address_log K st a @ locations_from K E a (bl_height b) 0 (bl_transactions b)"
    "tb_blocks st1 = tb_blocks ?st0" "tb_meta st1 = tb_meta st"
    "\<And>x. bt_get (tb_tx_index st1) x
         = (if x \<in> tx_hash E ` set (bl_transactions b) then Some (bl_height b) else bt_get (tb_tx_index st) x)"
    using index_txs_log[OF assms(1), of E "bl_height b" 0 "bl_transactions b" ?st0] log0 by auto
  have "address_log K (st1\<lparr>tb_meta := m\<rparr>) a = address_log K st1 a" for m a by (simp add: address_log_def)
  with st1 bs show ?thesis
    by (auto simp: put_block_def commit_def write_block_tables_def get_block_def)
qed

section \<open>The history of an address\<close>

text \<open>The blocks stored in order, from an empty store; and what the index should answer.\<close>

definition store_of :: "codec \<Rightarrow> externals \<Rightarrow> Block list \<Rightarrow> ChainStore" where
  "store_of K E bs = fold (\<lambda>b st. snd (put_block K E None b st)) bs store_empty"

definition block_history ::
  "codec \<Rightarrow> externals \<Rightarrow> address \<Rightarrow> Block \<Rightarrow> (u64 \<times> u32 \<times> Transaction \<times> u64) list" where
  "block_history K E a b =
     map (\<lambda>i. (bl_height b, of_nat i, bl_transactions b ! i, bl_timestamp b))
       (filter (\<lambda>i. involved K E a (bl_transactions b ! i)) [0..<length (bl_transactions b)])"

lemma locations_from_upt:
  "locations_from K E a h i txs =
     map (\<lambda>j. (h, of_nat j)) (filter (\<lambda>j. involved K E a (txs ! (j - i))) [i..<i + length txs])"
proof (induction txs arbitrary: i)
  case (Cons tx txs)
  have "filter (\<lambda>j. involved K E a ((tx # txs) ! (j - i))) [Suc i..<Suc i + length txs]
      = filter (\<lambda>j. involved K E a (txs ! (j - Suc i))) [Suc i..<Suc i + length txs]"
    by (rule filter_cong) (auto simp: nth_Cons' Suc_le_eq)
  moreover have "[i..<i + length (tx # txs)] = i # [Suc i..<Suc i + length txs]"
    using upt_conv_Cons[of i "i + length (tx # txs)"] by simp
  ultimately show ?case using Cons.IH[of "Suc i"] by simp
qed simp

lemma store_of_snoc: "store_of K E (bs @ [b]) = snd (put_block K E None b (store_of K E bs))"
  by (simp add: store_of_def)

lemma store_of_effect:
  assumes "locations_ok K" and "\<forall>b \<in> set bs. block_ok K b" and "distinct (map bl_height bs)"
  shows "(\<forall>a. address_log K (store_of K E bs) a
        = concat (map (\<lambda>b. locations_from K E a (bl_height b) 0 (bl_transactions b)) bs))
    \<and> (\<forall>b \<in> set bs. bt_get (tb_blocks (store_of K E bs)) (bl_height b) = Some (projr (enc_block K b)))"
  using assms(2,3)
proof (induction bs rule: rev_induct)
  case Nil
  show ?case by (simp add: store_of_def store_empty_def address_log_def read_locations_def)
next
  case (snoc c bs)
  have "block_ok K c" using snoc.prems by simp
  from put_block_effect[OF assms(1) this, of E "store_of K E bs"]
  have "(\<forall>a. address_log K (store_of K E (bs @ [c])) a = address_log K (store_of K E bs) a
         @ locations_from K E a (bl_height c) 0 (bl_transactions c))
      \<and> (\<forall>h. bt_get (tb_blocks (store_of K E (bs @ [c]))) h
         = (if h = bl_height c then Some (projr (enc_block K c)) else bt_get (tb_blocks (store_of K E bs)) h))"
    by (auto simp: store_of_snoc)
  moreover have "bl_height b \<noteq> bl_height c" if "b \<in> set bs" for b
    using snoc.prems(2) that by (auto simp: image_iff)
  ultimately show ?case using snoc by auto
qed

lemma load_stored:
  assumes "bt_get (tb_blocks st) (bl_height b) = Some (projr (enc_block K b))" and "block_ok K b"
    and "i < length (bl_transactions b)" and "i < 2 ^ 32"
  shows "load_location K st (bl_height b, of_nat i)
    = [(bl_height b, of_nat i, bl_transactions b ! i, bl_timestamp b)]"
  using assms by (auto simp: load_location_def block_ok_def unat_of_nat)

lemma load_block_locations:
  assumes "bt_get (tb_blocks st) (bl_height b) = Some (projr (enc_block K b))" and "block_ok K b"
    and "length (bl_transactions b) < 2 ^ 32"
  shows "map (load_location K st) (locations_from K E a (bl_height b) 0 (bl_transactions b))
    = map (\<lambda>x. [x]) (block_history K E a b)"
  using assms by (auto simp: locations_from_upt block_history_def load_stored)

text \<open>Locations in the order of the chain are ascending, so the newest come first after a reversal.\<close>

definition before :: "tx_location \<Rightarrow> tx_location \<Rightarrow> bool" where
  "before d e \<longleftrightarrow> fst d < fst e \<or> (fst d = fst e \<and> snd d < snd e)"

lemma block_locations_ascending:
  assumes "length txs < 2 ^ 32"
  shows "sorted_wrt before (locations_from K E a h 0 txs)"
proof -
  have "sorted_wrt (\<lambda>i j. before (h, of_nat i) (h, of_nat j)) [0..<length txs]"
    unfolding sorted_wrt_iff_nth_less
    using assms by (auto simp: before_def word_less_nat_alt unat_of_nat)
  then show ?thesis
    unfolding locations_from_upt sorted_wrt_map by (simp add: sorted_wrt_filter)
qed

lemma log_ascending:
  assumes "sorted_wrt (<) (map bl_height bs)" and "\<forall>b \<in> set bs. length (bl_transactions b) < 2 ^ 32"
  shows "sorted_wrt before (concat (map (\<lambda>b. locations_from K E a (bl_height b) 0 (bl_transactions b)) bs))"
  using assms
proof (induction bs)
  case (Cons b bs)
  have "before x y"
    if "x \<in> set (locations_from K E a (bl_height b) 0 (bl_transactions b))"
      and "c \<in> set bs" and "y \<in> set (locations_from K E a (bl_height c) 0 (bl_transactions c))" for x y c
    using that Cons.prems by (auto simp: locations_from_upt before_def)
  then show ?case
    using Cons by (auto simp: sorted_wrt_append block_locations_ascending)
qed simp

lemma newest_first_ascending:
  assumes "sorted_wrt before es"
  shows "newest_first es = rev es"
proof -
  let ?k = "\<lambda>e :: tx_location. (- uint (fst e), - uint (snd e))"
  have "sorted (map ?k (rev es))"
    unfolding rev_map[symmetric] sorted_wrt_rev sorted_wrt_map
    by (rule sorted_wrt_mono_rel[OF _ assms]) (auto simp: before_def word_less_def less_eq_prod_def)
  moreover have "inj_on ?k (set es)"
    by (auto simp: inj_on_def word_uint_eq_iff)
  ultimately show ?thesis
    unfolding newest_first_def by (intro sort_key_inj_key_eq) simp_all
qed

section \<open>Properties\<close>

text \<open>
  Storing a block and reading it back: the block is found by its height and by the hash of each
  of its transactions, it is the latest, and every other height reads as before.
\<close>

theorem stored_block_is_found:
  assumes "locations_ok K" and "block_ok K b"
  shows "\<exists>st'. put_block K E None b st = (Inr (), st')
    \<and> (\<forall>h. get_block K None st' h = (if h = bl_height b then Inr (Some b) else get_block K None st h))
    \<and> get_latest_height None st' = Inr (Some (bl_height b))
    \<and> (\<forall>x. get_tx_block_height None st' x
         = (if x \<in> tx_hash E ` set (bl_transactions b) then Inr (Some (bl_height b))
            else get_tx_block_height None st x))"
proof -
  obtain st' where "put_block K E None b st = (Inr (), st')"
    "\<forall>h. get_block K None st' h = (if h = bl_height b then Inr (Some b) else get_block K None st h)"
    "tb_meta st' = bt_insert META_LATEST_HEIGHT (to_le_bytes (bl_height b)) (tb_meta st)"
    "\<forall>x. bt_get (tb_tx_index st') x
       = (if x \<in> tx_hash E ` set (bl_transactions b) then Some (bl_height b) else bt_get (tb_tx_index st) x)"
    using put_block_effect[OF assms, of E st] by blast
  then show ?thesis
    by (simp add: get_latest_height_def get_tx_block_height_def)
qed

text \<open>
  C15. The address index refines the chain: for blocks stored in ascending height, each page of the
  history of an address is exactly that page of the list of all transactions that it sent or
  that name it as recipient, newest first.
\<close>

theorem address_history_refines:
  assumes "locations_ok K" and "\<forall>b \<in> set bs. block_ok K b \<and> length (bl_transactions b) < 2 ^ 32"
    and "sorted_wrt (<) (map bl_height bs)"
  shows "get_transactions_by_address K None (store_of K E bs) a limit offset
    = Inr (take limit (drop offset (rev (concat (map (block_history K E a) bs)))))"
proof -
  let ?st = "store_of K E bs"
  let ?log = "concat (map (\<lambda>b. locations_from K E a (bl_height b) 0 (bl_transactions b)) bs)"
  have ok: "\<forall>b \<in> set bs. block_ok K b" and dist: "distinct (map bl_height bs)"
    using assms(2,3) strict_sorted_iff by blast+
  note eff = store_of_effect[OF assms(1) ok dist]
  have log: "address_log K ?st a = ?log" using eff by blast
  have sorted: "newest_first ?log = rev ?log"
    using assms(2,3) by (intro newest_first_ascending log_ascending) auto
  have "map (load_location K ?st) ?log = map (\<lambda>x. [x]) (concat (map (block_history K E a) bs))"
    unfolding map_concat map_map comp_def
    using eff assms(2) by (intro arg_cong[of _ _ concat] map_cong load_block_locations) auto
  then have "take limit (drop offset (map (load_location K ?st) (rev ?log)))
      = take limit (drop offset (map (\<lambda>x. [x]) (rev (concat (map (block_history K E a) bs)))))"
    by (simp only: rev_map[symmetric])
  then have "map (load_location K ?st) (take limit (drop offset (rev ?log)))
      = map (\<lambda>x. [x]) (take limit (drop offset (rev (concat (map (block_history K E a) bs)))))"
    by (simp only: take_map drop_map)
  then have "concat (map (load_location K ?st) (take limit (drop offset (rev ?log))))
      = take limit (drop offset (rev (concat (map (block_history K E a) bs))))"
    by (simp add: concat_map_singleton)
  then show ?thesis
    using log sorted
    by (auto simp: get_transactions_by_address_def address_log_def Let_def newest_first_def
        read_locations_def split: option.splits)
qed

text \<open>
  Storing the same block again, as the node does for every vote it adds to the latest block,
  appends the entries of the block to the index again: every transaction of an address in that
  block is then listed twice.
\<close>

theorem restored_block_listed_twice:
  assumes "locations_ok K" and "block_ok K b"
  shows "address_log K (store_of K E [b, b]) a
    = locations_from K E a (bl_height b) 0 (bl_transactions b)
      @ locations_from K E a (bl_height b) 0 (bl_transactions b)"
proof -
  have "address_log K (store_of K E [b]) a = locations_from K E a (bl_height b) 0 (bl_transactions b)"
    using store_of_effect[of K "[b]" E] assms by simp
  then show ?thesis
    using put_block_effect[OF assms, of E "store_of K E [b]"] store_of_snoc[of K E "[b]" b] by auto
qed

text \<open>Pruning removes exactly the heights from 1 up to the bound; genesis and the rest stay.\<close>

lemma get_fold_remove: "bt_get (fold bt_remove ks m) k = (if k \<in> set ks then None else bt_get m k)"
  by (induction ks arbitrary: m) auto

theorem prune_exact:
  assumes "1 < below"
  shows "get_block K None (snd (prune_blocks_below None below st)) h
    = (if 1 \<le> h \<and> h < below then Inr None else get_block K None st h)"
proof -
  have "bt_get (tb_blocks (snd (prune_blocks_below None below st))) h
      = (if 1 \<le> h \<and> h < below then None else bt_get (tb_blocks st) h)"
    using assms bt_keys_mem[of h "tb_blocks st"]
    by (cases "bt_get (tb_blocks st) h") (auto simp: prune_blocks_below_def Let_def get_fold_remove)
  then show ?thesis by (simp add: get_block_def)
qed

section \<open>A concrete codec\<close>

text \<open>Twelve bytes per location; the one block of the sample chain stands for every block.\<close>

function chunks_of_12 :: "bytes \<Rightarrow> tx_location list" where
  "chunks_of_12 bs = (if bs = [] then []
     else (from_le_bytes (take 8 bs), from_le_bytes (take 4 (drop 8 bs))) # chunks_of_12 (drop 12 bs))"
  by pat_completeness auto
termination by (relation "measure length") auto

declare chunks_of_12.simps [simp del]

definition sample_block :: Block where
  "sample_block = \<lparr>bl_height = 3, bl_prev_hash = [], bl_timestamp = 9, bl_validator = alice,
     bl_transactions = [sample_tx], bl_state_root = [], bl_hash = [], bl_signatures = [], bl_events = [],
     bl_checkin_witnesses = []\<rparr>"

definition sample_codec :: codec where
  "sample_codec = \<lparr>enc_block = (\<lambda>_. Inr []), dec_block = (\<lambda>_. Inr sample_block),
     enc_locations = (\<lambda>es. Inr (concat (map (\<lambda>e. to_le_bytes (fst e) @ to_le_bytes (snd e)) es))),
     dec_locations = (\<lambda>bs. Inr (chunks_of_12 bs)), enc_receipt = (\<lambda>_. Inr []),
     dec_receipt = (\<lambda>_. Inl ''short''), dec_reputation_attest = (\<lambda>_. Inl ''short'')\<rparr>"

lemma chunks_of_12_concat:
  "chunks_of_12 (concat (map (\<lambda>e. to_le_bytes (fst e) @ to_le_bytes (snd e)) es)) = (es :: tx_location list)"
proof (induction es)
  case (Cons e es)
  have "to_le_bytes (fst e) \<noteq> []" by (simp flip: length_greater_0_conv)
  then show ?case using Cons by (subst chunks_of_12.simps) simp
qed (simp add: chunks_of_12.simps)

lemma sample_codec_ok: "locations_ok sample_codec" "block_ok sample_codec sample_block"
  by (simp_all add: locations_ok_def block_ok_def sample_codec_def chunks_of_12_concat)

theorem stored_block_is_found_witness:
  "\<exists>st'. put_block sample_codec sample_externals None sample_block store_empty = (Inr (), st')
     \<and> get_block sample_codec None st' 3 = Inr (Some sample_block)
     \<and> get_latest_height None st' = Inr (Some 3)
     \<and> get_tx_block_height None st' (tx_hash sample_externals sample_tx) = Inr (Some 3)"
  using stored_block_is_found[OF sample_codec_ok, of sample_externals store_empty]
  by (auto simp: sample_block_def)

lemma sample_history:
  "block_history sample_codec sample_externals alice sample_block = [(3, 0, sample_tx, 9)]"
  by (simp add: block_history_def sample_block_def involved_def sample_tx_def)

theorem address_history_refines_witness:
  "get_transactions_by_address sample_codec None
     (store_of sample_codec sample_externals [sample_block]) alice 10 0 = Inr [(3, 0, sample_tx, 9)]"
proof -
  have "\<forall>b \<in> set [sample_block]. block_ok sample_codec b \<and> length (bl_transactions b) < 2 ^ 32"
    using sample_codec_ok by (simp add: sample_block_def)
  from address_history_refines[OF sample_codec_ok(1) this, of sample_externals alice 10 0]
  show ?thesis by (simp add: sample_history)
qed

theorem restored_block_listed_twice_witness:
  "address_log sample_codec (store_of sample_codec sample_externals [sample_block, sample_block]) alice
     = [(3, 0), (3, 0)]"
  using restored_block_listed_twice[OF sample_codec_ok, of sample_externals alice]
  by (simp add: sample_block_def involved_def sample_tx_def)

theorem prune_exact_witness:
  "get_block sample_codec None (snd (prune_blocks_below None 5 store_empty)) 3 = Inr None"
  using prune_exact[of 5 sample_codec store_empty 3] by simp

end
