(* ===== verification/Decimal.thy ===== *)
theory Decimal
  imports Prelude
begin

text \<open>
  Decimal integers as \<open>std\<close> reads and prints them: \<open>str::parse\<close> for the unsigned types, the
  inverse of \<open>to_string\<close>.
\<close>

definition digit_value :: "char \<Rightarrow> nat option" where
  "digit_value c = (let n = of_char c :: nat in if 48 \<le> n \<and> n \<le> 57 then Some (n - 48) else None)"

text \<open>The digit loop with its overflow check, for values under \<open>lim\<close>.\<close>

fun parse_digits :: "nat \<Rightarrow> nat \<Rightarrow> string \<Rightarrow> nat option" where
  "parse_digits lim acc [] = Some acc"
| "parse_digits lim acc (c # cs) = (case digit_value c of
      None \<Rightarrow> None
    | Some d \<Rightarrow> if acc * 10 + d < lim then parse_digits lim (acc * 10 + d) cs else None)"

text \<open>An optional plus sign, then at least one decimal digit and nothing else, in range.\<close>

definition parse_unsigned :: "string \<Rightarrow> 'a::len word option" where
  "parse_unsigned s =
     (let digits = (if s \<noteq> [] \<and> hd s = CHR ''+'' then tl s else s) in
      if digits = [] then None else map_option of_nat (parse_digits (2 ^ LENGTH('a)) 0 digits))"

lemma digit_value_char [simp]: "d < 10 \<Longrightarrow> digit_value (char_of (48 + d)) = Some d"
  by (simp add: digit_value_def Let_def)

lemma parse_digits_append:
  "parse_digits lim acc (xs @ ys)
     = (case parse_digits lim acc xs of None \<Rightarrow> None | Some a \<Rightarrow> parse_digits lim a ys)"
  by (induction xs arbitrary: acc) (auto split: option.split)

lemma parse_dec_digits: "n < lim \<Longrightarrow> parse_digits lim 0 (dec_digits n) = Some n"
proof (induction n rule: dec_digits.induct)
  case (1 n)
  show ?case
  proof (cases "n < 10")
    case True
    then show ?thesis using 1 by (simp add: dec_digits.simps[of n])
  next
    case False
    then have "parse_digits lim 0 (dec_digits (n div 10)) = Some (n div 10)"
      using 1 by simp
    then show ?thesis
      using False 1 by (simp add: dec_digits.simps[of n] parse_digits_append div_mult_mod_eq)
  qed
qed

lemma dec_digits_not_Nil: "dec_digits n \<noteq> []"
  by (subst dec_digits.simps) simp

lemma parse_show [simp]: "parse_unsigned (show_word (w :: 'a::len word)) = Some w"
proof -
  let ?s = "dec_digits (unat w)"
  have p: "parse_digits (2 ^ LENGTH('a)) 0 ?s = Some (unat w)"
    using unsigned_less[of w] by (intro parse_dec_digits) simp
  obtain c cs where s: "?s = c # cs" using dec_digits_not_Nil by (cases ?s) auto
  then have "c \<noteq> CHR ''+''" using p by (auto simp: digit_value_def)
  then show ?thesis using p s by (auto simp: parse_unsigned_def show_word_def)
qed

end
