(* ===== verification/Genesis.thy ===== *)
theory Genesis
  imports Rewards Consensus_Types Decimal
begin

text \<open>
  Genesis (\<open>node/src/genesis.rs\<close>): the built-in configurations, their validation, the genesis
  world state and block.

  Errors are the messages that \<open>anyhow\<close> shows first. The \<open>hex\<close> crate is a parameter: the encoder
  of \<open>externals\<close> and a decoder argument \<open>unhex\<close>; \<open>hex_ok\<close> states what the crate documents. JSON
  and the file system are arguments of \<open>load_genesis_config\<close>.
\<close>

section \<open>Configuration\<close>

record GenesisAllocation =
  ga_address :: string
  ga_balance :: string
  ga_label :: string

record GenesisValidator =
  gv_address :: string
  gv_stake :: string

record GenesisConfig =
  gc_chain_id :: string
  gc_timestamp :: u64
  gc_allocations :: "GenesisAllocation list"
  gc_validators :: "GenesisValidator list"

definition CLAW_TOTAL_SUPPLY :: u128 where
  [claw_consts]: "CLAW_TOTAL_SUPPLY = 1000000000000000000"

definition genesis_address_hex :: "externals \<Rightarrow> u8 \<Rightarrow> string" where
  "genesis_address_hex E index = hex_encode E (genesis_address index)"

definition standard_allocations :: "externals \<Rightarrow> GenesisAllocation list" where
  "standard_allocations E =
     [\<lparr>ga_address = genesis_address_hex E 1, ga_balance = show_word (CLAW_TOTAL_SUPPLY * 40 div 100),
        ga_label = ''node_incentives''\<rparr>,
      \<lparr>ga_address = genesis_address_hex E 2, ga_balance = show_word (CLAW_TOTAL_SUPPLY * 25 div 100),
        ga_label = ''ecosystem_fund''\<rparr>,
      \<lparr>ga_address = ''71fa1a514e07c7c96bf0c825c29dfc8059cfa995318972dd258a4e316873e66b'',
        ga_balance = show_word (CLAW_TOTAL_SUPPLY * 15 div 100), ga_label = ''team''\<rparr>,
      \<lparr>ga_address = genesis_address_hex E 4, ga_balance = show_word (CLAW_TOTAL_SUPPLY * 10 div 100),
        ga_label = ''early_contributors''\<rparr>,
      \<lparr>ga_address = genesis_address_hex E 5, ga_balance = show_word (CLAW_TOTAL_SUPPLY * 10 div 100),
        ga_label = ''liquidity_reserve''\<rparr>]"

definition default_devnet :: "externals \<Rightarrow> address option \<Rightarrow> GenesisConfig" where
  "default_devnet E node_address =
     (let node_addr_hex = (case node_address of None \<Rightarrow> genesis_address_hex E 10 | Some a \<Rightarrow> hex_encode E a);
          faucet_amount = (1000000000000000 :: u128);
          validator_stake = (1000000000000000 :: u128) in
      \<lparr>gc_chain_id = ''claw-devnet'', gc_timestamp = 1741737600,
        gc_allocations = standard_allocations E @
          [\<lparr>ga_address = node_addr_hex, ga_balance = show_word faucet_amount, ga_label = ''devnet_faucet''\<rparr>],
        gc_validators = [\<lparr>gv_address = node_addr_hex, gv_stake = show_word validator_stake\<rparr>]\<rparr>)"

definition default_testnet :: "externals \<Rightarrow> GenesisConfig" where
  "default_testnet E = \<lparr>gc_chain_id = ''claw-testnet-1'', gc_timestamp = 1741737600,
     gc_allocations = standard_allocations E,
     gc_validators = [\<lparr>gv_address = ''53b66a4de468a72b1f3dd995b080733d3b97c83f6a5c6df962ae76d2c91a6c63'',
       gv_stake = show_word (CONSENSUS_MIN_STAKE * 100)\<rparr>]\<rparr>"

definition default_mainnet :: "externals \<Rightarrow> GenesisConfig" where
  "default_mainnet E = \<lparr>gc_chain_id = ''claw-mainnet-1'', gc_timestamp = 1742515200,
     gc_allocations = standard_allocations E,
     gc_validators = [\<lparr>gv_address = ''ffa28f7c6469ab7490ce540a0e49aa64bc77b4dc5bb2a83b17ddd10a9c8ea62e'',
       gv_stake = show_word (CONSENSUS_MIN_STAKE * 100)\<rparr>]\<rparr>"

definition default_for_network :: "externals \<Rightarrow> string \<Rightarrow> address option \<Rightarrow> GenesisConfig" where
  "default_for_network E network node_address =
     (if network = ''mainnet'' \<or> network = ''claw-mainnet-1'' then default_mainnet E
      else if network = ''testnet'' \<or> network = ''claw-testnet-1'' then default_testnet E
      else default_devnet E node_address)"

section \<open>Parsing and validation\<close>

definition parse_address ::
  "(string \<Rightarrow> bytes option) \<Rightarrow> string \<Rightarrow> string \<Rightarrow> string + address" where
  "parse_address unhex hex_str context = (case unhex hex_str of
      None \<Rightarrow> Inl (''invalid hex in '' @ context @ '': '' @ hex_str)
    | Some bs \<Rightarrow>
        if length bs \<noteq> 32
        then Inl (context @ '': address has length '' @ dec_digits (length bs)
               @ '' (expected 32 bytes / 64 hex chars)'')
        else Inr bs)"

definition parse_balance :: "string \<Rightarrow> string \<Rightarrow> string + u128" where
  "parse_balance s context = (case parse_unsigned s of
      None \<Rightarrow> Inl (context @ '': invalid balance '' @ [CHR 0x22] @ s @ [CHR 0x22])
    | Some n \<Rightarrow> Inr n)"

fun validate_allocations ::
  "(string \<Rightarrow> bytes option) \<Rightarrow> nat \<Rightarrow> u128 \<Rightarrow> GenesisAllocation list \<Rightarrow> string + u128" where
  "validate_allocations unhex i tot [] = Inr tot"
| "validate_allocations unhex i tot (alloc # allocs) =
     (let label = ''allocation['' @ dec_digits i @ ''] ('' @ ga_label alloc @ '')'' in
      case parse_address unhex (ga_address alloc) label of
        Inl e \<Rightarrow> Inl e
      | Inr _ \<Rightarrow> (case parse_balance (ga_balance alloc) label of
          Inl e \<Rightarrow> Inl e
        | Inr balance \<Rightarrow> (case checked_add tot balance of
            None \<Rightarrow> Inl (label @ '': total supply overflow'')
          | Some tot' \<Rightarrow> validate_allocations unhex (Suc i) tot' allocs)))"

fun validate_validators ::
  "(string \<Rightarrow> bytes option) \<Rightarrow> nat \<Rightarrow> GenesisValidator list \<Rightarrow> string + unit" where
  "validate_validators unhex i [] = Inr ()"
| "validate_validators unhex i (val # vals) =
     (let label = ''validator['' @ dec_digits i @ '']'' in
      case parse_address unhex (gv_address val) label of
        Inl e \<Rightarrow> Inl e
      | Inr _ \<Rightarrow> (case parse_balance (gv_stake val) label of
          Inl e \<Rightarrow> Inl e
        | Inr stake \<Rightarrow>
            if stake < CONSENSUS_MIN_STAKE
            then Inl (label @ '': stake '' @ show_word stake @ '' is below MIN_STAKE ''
                   @ show_word CONSENSUS_MIN_STAKE)
            else validate_validators unhex (Suc i) vals))"

definition validate_genesis :: "(string \<Rightarrow> bytes option) \<Rightarrow> GenesisConfig \<Rightarrow> string + unit" where
  "validate_genesis unhex config = (case validate_allocations unhex 0 0 (gc_allocations config) of
      Inl e \<Rightarrow> Inl e
    | Inr tot \<Rightarrow> (case validate_validators unhex 0 (gc_validators config) of
        Inl e \<Rightarrow> Inl e
      | Inr _ \<Rightarrow>
          if tot \<noteq> CLAW_TOTAL_SUPPLY
          then Inl (''total allocation '' @ show_word tot @ '' does not equal CLAW_TOTAL_SUPPLY ''
                 @ show_word CLAW_TOTAL_SUPPLY)
          else if gc_validators config = []
          then Inl ''genesis config must have at least one validator''
          else Inr ()))"

text \<open>
  \<open>load_genesis_config\<close>: \<open>file\<close> is \<open>None\<close> when there is no \<open>genesis.json\<close>, else the result of
  reading it; \<open>from_json\<close> is the JSON reader; \<open>path\<close> is the displayed path.
\<close>

definition load_genesis_config ::
  "externals \<Rightarrow> (string \<Rightarrow> bytes option) \<Rightarrow> (string \<Rightarrow> GenesisConfig option) \<Rightarrow> string
   \<Rightarrow> string option option \<Rightarrow> string \<Rightarrow> address option \<Rightarrow> string + GenesisConfig" where
  "load_genesis_config E unhex from_json path file network node_address = (case file of
      Some content \<Rightarrow> (case content of
          None \<Rightarrow> Inl (''read '' @ path)
        | Some text \<Rightarrow> (case from_json text of
            None \<Rightarrow> Inl (''parse '' @ path)
          | Some config \<Rightarrow> (case validate_genesis unhex config of Inl e \<Rightarrow> Inl e | Inr _ \<Rightarrow> Inr config)))
    | None \<Rightarrow>
        (let config = default_for_network E network node_address in
         if network \<noteq> ''devnet'' \<and> network \<noteq> ''claw-devnet''
         then (case validate_genesis unhex config of Inl e \<Rightarrow> Inl e | Inr _ \<Rightarrow> Inr config)
         else Inr config))"

section \<open>Genesis state and block\<close>

fun add_allocations ::
  "(string \<Rightarrow> bytes option) \<Rightarrow> GenesisAllocation list \<Rightarrow> WorldState \<Rightarrow> string + WorldState" where
  "add_allocations unhex [] state = Inr state"
| "add_allocations unhex (alloc # allocs) state =
     (case parse_address unhex (ga_address alloc) (ga_label alloc) of
        Inl e \<Rightarrow> Inl e
      | Inr addr \<Rightarrow> (case parse_balance (ga_balance alloc) (ga_label alloc) of
          Inl e \<Rightarrow> Inl e
        | Inr balance \<Rightarrow> add_allocations unhex allocs (credit addr balance state)))"

text \<open>The first allocation that can pay the stake.\<close>

fun find_source ::
  "(string \<Rightarrow> bytes option) \<Rightarrow> u128 \<Rightarrow> WorldState \<Rightarrow> GenesisAllocation list \<Rightarrow> string + address option" where
  "find_source unhex stake_amount state [] = Inr None"
| "find_source unhex stake_amount state (alloc # allocs) =
     (case parse_address unhex (ga_address alloc) (ga_label alloc) of
        Inl e \<Rightarrow> Inl e
      | Inr a_addr \<Rightarrow>
          if bt_get_or (balances state) 0 a_addr \<ge> stake_amount then Inr (Some a_addr)
          else find_source unhex stake_amount state allocs)"

definition stake_validator ::
  "(string \<Rightarrow> bytes option) \<Rightarrow> GenesisAllocation list \<Rightarrow> GenesisValidator \<Rightarrow> WorldState \<Rightarrow> string + WorldState" where
  "stake_validator unhex allocs validator state =
     (case parse_address unhex (gv_address validator) ''genesis_validator'' of
        Inl e \<Rightarrow> Inl e
      | Inr v_addr \<Rightarrow> (case parse_balance (gv_stake validator) ''genesis_validator_stake'' of
          Inl e \<Rightarrow> Inl e
        | Inr stake_amount \<Rightarrow>
            (case (if bt_get_or (balances state) 0 v_addr \<ge> stake_amount then Inr (Some v_addr)
                   else find_source unhex stake_amount state allocs) of
               Inl e \<Rightarrow> Inl e
             | Inr None \<Rightarrow> Inl (''insufficient balance for genesis validator stake: need '' @ show_word stake_amount)
             | Inr (Some payer) \<Rightarrow>
                 Inr ((debit payer stake_amount state)\<lparr>stakes := bt_insert v_addr stake_amount (stakes state)\<rparr>))))"

fun stake_validators ::
  "(string \<Rightarrow> bytes option) \<Rightarrow> GenesisAllocation list \<Rightarrow> GenesisValidator list \<Rightarrow> WorldState
   \<Rightarrow> string + WorldState" where
  "stake_validators unhex allocs [] state = Inr state"
| "stake_validators unhex allocs (v # vs) state =
     (case stake_validator unhex allocs v state of
        Inl e \<Rightarrow> Inl e
      | Inr state' \<Rightarrow> stake_validators unhex allocs vs state')"

definition create_genesis_state :: "(string \<Rightarrow> bytes option) \<Rightarrow> GenesisConfig \<Rightarrow> string + WorldState" where
  "create_genesis_state unhex config =
     (case add_allocations unhex (gc_allocations config) (WorldState_default\<lparr>block_height := 0\<rparr>) of
        Inl e \<Rightarrow> Inl e
      | Inr state \<Rightarrow> stake_validators unhex (gc_allocations config) (gc_validators config) state)"

definition create_genesis_block :: "externals \<Rightarrow> WorldState \<Rightarrow> GenesisConfig \<Rightarrow> Block" where
  "create_genesis_block E state config =
     (let block = \<lparr>bl_height = 0, bl_prev_hash = replicate 32 0, bl_timestamp = gc_timestamp config,
            bl_validator = replicate 32 0, bl_transactions = [], bl_state_root = state_root E state,
            bl_hash = replicate 32 0, bl_signatures = [], bl_events = [], bl_checkin_witnesses = []\<rparr> in
      block\<lparr>bl_hash := compute_hash E block\<rparr>)"

fun build_validator_set ::
  "(string \<Rightarrow> bytes option) \<Rightarrow> GenesisValidator list \<Rightarrow> string + (address \<times> u128) list" where
  "build_validator_set unhex [] = Inr []"
| "build_validator_set unhex (val # vals) =
     (case parse_address unhex (gv_address val) ''validator'' of
        Inl e \<Rightarrow> Inl e
      | Inr addr \<Rightarrow> (case parse_balance (gv_stake val) ''validator stake'' of
          Inl e \<Rightarrow> Inl e
        | Inr stake \<Rightarrow> (case build_validator_set unhex vals of
            Inl e \<Rightarrow> Inl e
          | Inr rest \<Rightarrow> Inr ((addr, stake) # rest))))"

section \<open>The supply of a genesis state\<close>

definition alloc_value :: "GenesisAllocation \<Rightarrow> int" where
  "alloc_value a = (case parse_unsigned (ga_balance a) of None \<Rightarrow> 0 | Some n \<Rightarrow> uint (n :: u128))"

lemma checked_add_uint: "checked_add a b = Some c \<Longrightarrow> uint c = uint a + uint (b :: 'a::len word)"
  using checked_add_SomeD[of a b c] by (metis of_nat_add uint_nat)

lemma validate_allocations_sum:
  "validate_allocations unhex i tot as = Inr tot' \<Longrightarrow> uint tot' = uint tot + sum_list (map alloc_value as)"
proof (induction as arbitrary: i tot)
  case (Cons a as)
  then show ?case
    by (auto simp: Let_def parse_balance_def alloc_value_def dest: checked_add_uint
        split: sum.splits option.splits)
qed simp

definition stakes_total :: "WorldState \<Rightarrow> int" where
  "stakes_total s = bt_sum (\<lambda>_ n. uint n) (stakes s)"

lemma add_allocations_total:
  assumes "add_allocations unhex as s = Inr s'"
    and "balances_total s + sum_list (map alloc_value as) < 2 ^ 128"
  shows "balances_total s' = balances_total s + sum_list (map alloc_value as)
    \<and> s' = s\<lparr>balances := balances s'\<rparr>"
  using assms
proof (induction as arbitrary: s)
  case (Cons a as)
  obtain addr n where parsed: "parse_address unhex (ga_address a) (ga_label a) = Inr addr"
    "parse_unsigned (ga_balance a) = Some n" "add_allocations unhex as (credit addr n s) = Inr s'"
    using Cons.prems(1) by (auto simp: parse_balance_def split: sum.splits option.splits)
  have "0 \<le> alloc_value x" for x by (simp add: alloc_value_def split: option.split)
  then have "0 \<le> sum_list (map alloc_value as)" by (intro sum_list_nonneg) auto
  moreover have val: "alloc_value a = uint n" using parsed(2) by (simp add: alloc_value_def)
  ultimately have "uint (get_balance s addr) + uint n < 2 ^ 128"
    using Cons.prems(2) balance_le_total[of s addr] by simp
  then have tot: "balances_total (credit addr n s) = balances_total s + uint n"
    by (rule balances_total_credit)
  have "balances_total s' = balances_total (credit addr n s) + sum_list (map alloc_value as)
      \<and> s' = (credit addr n s)\<lparr>balances := balances s'\<rparr>"
    using parsed(3) Cons.prems(2) tot val by (intro Cons.IH) simp_all
  then show ?case using tot val by (simp add: credit_def)
qed simp

text \<open>The address and the stake that an entry of the configuration stands for.\<close>

definition validator_addr :: "(string \<Rightarrow> bytes option) \<Rightarrow> GenesisValidator \<Rightarrow> address option" where
  "validator_addr unhex v = unhex (gv_address v)"

lemma find_source_covers:
  "find_source unhex n s as = Inr (Some a) \<Longrightarrow> n \<le> get_balance s a"
  by (induction as) (auto simp: get_balance_def split: sum.splits if_splits)

lemma stake_validator_effect:
  assumes "stake_validator unhex as v s = Inr s'"
  shows "\<exists>addr n payer. validator_addr unhex v = Some addr \<and> parse_unsigned (gv_stake v) = Some n
    \<and> n \<le> get_balance s payer
    \<and> s' = (debit payer n s)\<lparr>stakes := bt_insert addr n (stakes s)\<rparr>"
  using assms
  by (fastforce simp: stake_validator_def validator_addr_def parse_address_def parse_balance_def get_balance_def
      dest!: find_source_covers[unfolded get_balance_def] split: sum.splits option.splits if_splits)

lemma stakes_total_insert:
  "\<not> bt_contains (stakes s) a \<Longrightarrow> stakes_total (s\<lparr>stakes := bt_insert a n (stakes s)\<rparr>) = stakes_total s + uint n"
  by (simp add: stakes_total_def bt_sum_insert bt_contains_def)

lemma genesis_frame [simp]:
  "balances_total (s\<lparr>stakes := x\<rparr>) = balances_total s"
  "stakes_total (debit a n s) = stakes_total s"
  "stakes (debit a n s) = stakes s"
  "stakes_total (s\<lparr>balances := b\<rparr>) = stakes_total s"
  by (simp_all add: balances_total_def stakes_total_def debit_def)

lemma of_int_sum_list: "of_int (sum_list xs) = sum_list (map of_int xs)"
  by (induction xs) simp_all

lemma of_int_bt_sum: "of_int (bt_sum f m) = bt_sum (\<lambda>k v. of_int (f k v)) m"
  by (simp add: bt_sum_def of_int_sum_list comp_def)

text \<open>The part of the state that genesis leaves at its default.\<close>

definition genesis_shape :: "WorldState \<Rightarrow> bool" where
  "genesis_shape s \<longleftrightarrow> (\<exists>b st. s = WorldState_default\<lparr>balances := b, stakes := st\<rparr>)"

lemma stake_validators_effect:
  assumes "stake_validators unhex as vs s = Inr s'"
    and "distinct (map (validator_addr unhex) vs)"
    and "\<forall>v \<in> set vs. \<forall>a. validator_addr unhex v = Some a \<longrightarrow> \<not> bt_contains (stakes s) a"
    and "genesis_shape s"
  shows "balances_total s' + stakes_total s' = balances_total s + stakes_total s \<and> genesis_shape s'
    \<and> (\<forall>a n. bt_get (stakes s') a = Some n \<longrightarrow> bt_get (stakes s) a = Some n
         \<or> (\<exists>v \<in> set vs. validator_addr unhex v = Some a \<and> parse_unsigned (gv_stake v) = Some n))"
  using assms
proof (induction vs arbitrary: s)
  case (Cons v vs)
  obtain s1 where s1: "stake_validator unhex as v s = Inr s1" "stake_validators unhex as vs s1 = Inr s'"
    using Cons.prems(1) by (auto split: sum.splits)
  obtain addr n payer where eff: "validator_addr unhex v = Some addr" "parse_unsigned (gv_stake v) = Some n"
    "n \<le> get_balance s payer" "s1 = (debit payer n s)\<lparr>stakes := bt_insert addr n (stakes s)\<rparr>"
    using stake_validator_effect[OF s1(1)] by blast
  have fresh: "\<not> bt_contains (stakes s) addr" using Cons.prems(3) eff(1) by simp
  have tot: "balances_total s1 + stakes_total s1 = balances_total s + stakes_total s"
    using stakes_total_insert[of "debit payer n s" addr n] fresh eff(3)
    by (simp add: eff(4) balances_total_debit)
  have shape: "genesis_shape s1"
  proof -
    obtain b st where "s = WorldState_default\<lparr>balances := b, stakes := st\<rparr>"
      using Cons.prems(4) unfolding genesis_shape_def by blast
    then have "s1 = WorldState_default\<lparr>balances := bt_entry payer 0 (\<lambda>b. b - n) b, stakes := bt_insert addr n st\<rparr>"
      by (simp add: eff(4) debit_def)
    then show ?thesis unfolding genesis_shape_def by blast
  qed
  have "\<forall>w \<in> set vs. \<forall>a. validator_addr unhex w = Some a \<longrightarrow> \<not> bt_contains (stakes s1) a"
    using Cons.prems(2,3) eff(1) by (auto simp: eff(4) image_iff)
  with Cons.IH[OF s1(2)] Cons.prems(2) shape tot eff show ?case by (auto split: if_splits)
qed simp

section \<open>Properties\<close>

lemma validate_validators_min:
  "validate_validators unhex i vs = Inr u \<Longrightarrow> v \<in> set vs \<Longrightarrow> parse_unsigned (gv_stake v) = Some n
   \<Longrightarrow> CONSENSUS_MIN_STAKE \<le> n"
  by (induction vs arbitrary: i) (auto simp: Let_def parse_balance_def split: sum.splits option.splits if_splits)

lemma genesis_state_exact:
  assumes "validate_genesis unhex config = Inr ()" and "create_genesis_state unhex config = Inr s"
    and "distinct (map (validator_addr unhex) (gc_validators config))"
  shows "balances_total s + stakes_total s = 10 ^ 18 \<and> total_supply s = CLAW_TOTAL_SUPPLY
    \<and> world_inv s \<and> block_height s = 0 \<and> genesis_shape s"
proof -
  let ?as = "gc_allocations config" and ?d = "WorldState_default\<lparr>block_height := 0\<rparr>"
  have valid: "validate_allocations unhex 0 0 ?as = Inr CLAW_TOTAL_SUPPLY"
    "validate_validators unhex 0 (gc_validators config) = Inr ()"
    using assms(1) by (auto simp: validate_genesis_def split: sum.splits if_splits)
  have sum: "sum_list (map alloc_value ?as) = 10 ^ 18"
    using validate_allocations_sum[OF valid(1)] by (simp add: CLAW_TOTAL_SUPPLY_def)
  obtain s0 where s0: "add_allocations unhex ?as ?d = Inr s0"
    "stake_validators unhex ?as (gc_validators config) s0 = Inr s"
    using assms(2) by (auto simp: create_genesis_state_def split: sum.splits)
  have "balances_total ?d = 0" by (simp add: balances_total_def WorldState_default_def)
  with add_allocations_total[OF s0(1)] sum
  have base: "balances_total s0 = 10 ^ 18" "s0 = ?d\<lparr>balances := balances s0\<rparr>" by simp_all
  have empty: "stakes s0 = bt_empty" by (subst base(2)) (simp add: WorldState_default_def)
  have "genesis_shape s0"
    unfolding genesis_shape_def by (subst base(2)) (auto simp: WorldState_default_def)
  with stake_validators_effect[OF s0(2) assms(3)] empty base(1)
  have eff: "balances_total s + stakes_total s = 10 ^ 18" "genesis_shape s"
    "\<And>a n. bt_get (stakes s) a = Some n \<Longrightarrow>
       \<exists>v \<in> set (gc_validators config). validator_addr unhex v = Some a \<and> parse_unsigned (gv_stake v) = Some n"
    by (auto simp: stakes_total_def)
  have min: "MIN_STAKE \<le> n" if "bt_get (stakes s) a = Some n" for a n
    using eff(3)[OF that] validate_validators_min[OF valid(2)] by (auto simp: claw_consts)
  obtain b st where shape: "s = WorldState_default\<lparr>balances := b, stakes := st\<rparr>"
    using eff(2) unfolding genesis_shape_def by blast
  have "world_inv s"
    using min by (simp add: shape world_inv_def inv_defs WorldState_default_def)
  moreover have "total_supply s = of_int (balances_total s + stakes_total s)"
    by (simp add: shape supply_defs balances_total_def stakes_total_def of_int_bt_sum WorldState_default_def)
  moreover have "block_height s = 0" by (simp add: shape WorldState_default_def)
  ultimately show ?thesis using eff(1,2) by (simp add: CLAW_TOTAL_SUPPLY_def)
qed

text \<open>
  Genesis has exactly the total supply: for a validated configuration whose validators have
  distinct addresses, the balances and stakes of the genesis state add up, without any
  wrap-around, to one billion CLAW, every stake is at least the minimum, and the state satisfies
  the invariant that transactions keep.
\<close>

theorem genesis_supply_exact:
  assumes "validate_genesis unhex config = Inr ()" and "create_genesis_state unhex config = Inr s"
    and "distinct (map (validator_addr unhex) (gc_validators config))"
  shows "balances_total s + stakes_total s = 10 ^ 18 \<and> total_supply s = CLAW_TOTAL_SUPPLY
    \<and> world_inv s \<and> block_height s = 0"
  using genesis_state_exact[OF assms] by simp

text \<open>What the \<open>hex\<close> crate documents: decoding inverts encoding, and 64 hex digits are 32 bytes.\<close>

definition hex_ok :: "externals \<Rightarrow> (string \<Rightarrow> bytes option) \<Rightarrow> bool" where
  "hex_ok E unhex \<longleftrightarrow> (\<forall>b. unhex (hex_encode E b) = Some b)
     \<and> (\<forall>s. length s = 64 \<and> set s \<subseteq> set ''0123456789abcdef'' \<longrightarrow> (\<exists>b. unhex s = Some b \<and> length b = 32))"

lemma team_address:
  assumes "hex_ok E unhex"
  shows "\<exists>t. unhex ''71fa1a514e07c7c96bf0c825c29dfc8059cfa995318972dd258a4e316873e66b'' = Some t \<and> length t = 32"
proof -
  let ?team = "''71fa1a514e07c7c96bf0c825c29dfc8059cfa995318972dd258a4e316873e66b''"
  have "length ?team = 64" "set ?team \<subseteq> set ''0123456789abcdef''" by simp_all
  then show ?thesis using assms unfolding hex_ok_def by blast
qed

lemma standard_allocations_valid:
  assumes "hex_ok E unhex" and "unhex ''71fa1a514e07c7c96bf0c825c29dfc8059cfa995318972dd258a4e316873e66b'' = Some t"
    and "length t = 32"
  shows "validate_allocations unhex 0 0 (standard_allocations E @ extra)
    = validate_allocations unhex (Suc (Suc (Suc (Suc (Suc 0))))) CLAW_TOTAL_SUPPLY extra"
  using assms
  by (simp add: hex_ok_def standard_allocations_def genesis_address_hex_def genesis_address_def
      parse_address_def parse_balance_def Let_def checked_add_def claw_consts)

lemmas network_eval = genesis_address_hex_def genesis_address_def parse_address_def parse_balance_def
  Let_def claw_consts

definition standard_state :: "address \<Rightarrow> WorldState \<Rightarrow> WorldState" where
  "standard_state team s = credit (genesis_address 5) 100000000000000000
     (credit (genesis_address 4) 100000000000000000 (credit team 150000000000000000
       (credit (genesis_address 2) 250000000000000000 (credit (genesis_address 1) 400000000000000000 s))))"

lemma standard_allocations_credit:
  assumes "hex_ok E unhex" and "unhex ''71fa1a514e07c7c96bf0c825c29dfc8059cfa995318972dd258a4e316873e66b'' = Some t"
    and "length t = 32"
  shows "add_allocations unhex (standard_allocations E @ extra) s = add_allocations unhex extra (standard_state t s)"
  using assms by (simp add: hex_ok_def standard_allocations_def standard_state_def network_eval)

lemma standard_state_pool:
  "get_balance s (genesis_address 1) = 0 \<Longrightarrow> 400000000000000000 \<le> get_balance (standard_state t s) (genesis_address 1)"
  by (auto simp: standard_state_def genesis_address_def)

lemma find_source_pool:
  assumes "hex_ok E unhex" and "n \<le> get_balance s (genesis_address 1)"
  shows "find_source unhex n s (standard_allocations E @ extra) = Inr (Some (genesis_address 1))"
  using assms
  by (simp add: hex_ok_def standard_allocations_def genesis_address_hex_def parse_address_def
      genesis_address_def get_balance_def)

lemma standard_network_starts:
  assumes "hex_ok E unhex" and "length a = 64" and "set a \<subseteq> set ''0123456789abcdef''"
    and "gc_allocations c = standard_allocations E"
    and "gc_validators c = [\<lparr>gv_address = a, gv_stake = show_word (1000000000000000 :: u128)\<rparr>]"
  shows "validate_genesis unhex c = Inr () \<and> (\<exists>s v. create_genesis_state unhex c = Inr s
    \<and> unhex a = Some v \<and> stakes s = bt_insert v 1000000000000000 bt_empty)"
proof -
  obtain t where t: "unhex ''71fa1a514e07c7c96bf0c825c29dfc8059cfa995318972dd258a4e316873e66b'' = Some t"
    "length t = 32"
    using team_address[OF assms(1)] by blast
  obtain v where v: "unhex a = Some v" "length v = 32"
    using assms(1-3) unfolding hex_ok_def by blast
  let ?s0 = "standard_state t WorldState_default"
  have pool: "1000000000000000 \<le> get_balance ?s0 (genesis_address 1)"
    using standard_state_pool[of WorldState_default t]
    by (rule order.trans[rotated]) (simp_all add: get_balance_def WorldState_default_def)
  have "validate_genesis unhex c = Inr ()"
    using standard_allocations_valid[OF assms(1) t, of "[]"] v
    by (simp add: validate_genesis_def assms(4,5) parse_address_def parse_balance_def Let_def claw_consts)
  moreover have "create_genesis_state unhex c
      = stake_validators unhex (standard_allocations E) (gc_validators c) ?s0"
    using standard_allocations_credit[OF assms(1) t, of "[]" WorldState_default]
    by (simp add: create_genesis_state_def assms(4) WorldState_default_def)
  moreover have "stakes ?s0 = bt_empty" by (simp add: standard_state_def WorldState_default_def)
  ultimately show ?thesis
    using v find_source_pool[OF assms(1) pool, of "[]"]
    by (auto simp: assms(5) stake_validator_def parse_address_def parse_balance_def)
qed

text \<open>
  The built-in networks start: without a genesis file, the mainnet and testnet names load a
  valid configuration that creates a genesis state with one validator staking one million CLAW;
  a name that is none of the six known ones is rejected, because the development configuration
  it falls back to allocates more than the total supply.
\<close>

theorem builtin_networks_start:
  assumes "hex_ok E unhex" and "length node = 32"
  shows "(network \<in> {''mainnet'', ''claw-mainnet-1'', ''testnet'', ''claw-testnet-1''} \<longrightarrow>
      (\<exists>c s v. load_genesis_config E unhex from_json path None network (Some node) = Inr c
         \<and> create_genesis_state unhex c = Inr s \<and> stakes s = bt_insert v 1000000000000000 bt_empty))
    \<and> (network \<notin> {''mainnet'', ''claw-mainnet-1'', ''testnet'', ''claw-testnet-1'', ''devnet'', ''claw-devnet''} \<longrightarrow>
      (\<exists>e. load_genesis_config E unhex from_json path None network (Some node) = Inl e))"
proof -
  have m: "validate_genesis unhex (default_mainnet E) = Inr () \<and> (\<exists>s v. create_genesis_state unhex (default_mainnet E) = Inr s
      \<and> stakes s = bt_insert v 1000000000000000 bt_empty)"
    using standard_network_starts[OF assms(1), of "gv_address (hd (gc_validators (default_mainnet E)))" "default_mainnet E"]
    by (auto simp: default_mainnet_def claw_consts)
  have n: "validate_genesis unhex (default_testnet E) = Inr () \<and> (\<exists>s v. create_genesis_state unhex (default_testnet E) = Inr s
      \<and> stakes s = bt_insert v 1000000000000000 bt_empty)"
    using standard_network_starts[OF assms(1), of "gv_address (hd (gc_validators (default_testnet E)))" "default_testnet E"]
    by (auto simp: default_testnet_def claw_consts)
  have d: "\<exists>e. validate_genesis unhex (default_devnet E (Some node)) = Inl e"
  proof -
    obtain t where t: "unhex ''71fa1a514e07c7c96bf0c825c29dfc8059cfa995318972dd258a4e316873e66b'' = Some t"
      "length t = 32"
      using team_address[OF assms(1)] by blast
    have "unhex (hex_encode E node) = Some node" using assms(1) by (simp add: hex_ok_def)
    then show ?thesis
      using standard_allocations_valid[OF assms(1) t] assms(2)
      by (simp add: validate_genesis_def default_devnet_def parse_address_def parse_balance_def
          checked_add_def Let_def claw_consts)
  qed
  show ?thesis
    using m n d by (auto simp: load_genesis_config_def default_for_network_def Let_def)
qed

text \<open>
  Nothing checks that the validators of a configuration are distinct: a second entry for the
  same address is paid for again but overwrites the stake of the first, so the supply of the
  genesis state falls short by the overwritten stake.
\<close>

theorem duplicate_validator_loses_stake:
  assumes "stake_validators unhex as [v] s = Inr s1" and "stake_validators unhex as [v, v] s = Inr s2"
  shows "stakes s2 = stakes s1
    \<and> (\<exists>n. parse_unsigned (gv_stake v) = Some n \<and> total_supply s2 = total_supply s1 - n)"
proof -
  have run1: "stake_validator unhex as v s = Inr s1" and run2: "stake_validator unhex as v s1 = Inr s2"
    using assms by (auto split: sum.splits)
  obtain a n p where 1: "validator_addr unhex v = Some a" "parse_unsigned (gv_stake v) = Some n"
    "s1 = (debit p n s)\<lparr>stakes := bt_insert a n (stakes s)\<rparr>"
    using stake_validator_effect[OF run1] by blast
  obtain q where 2: "s2 = (debit q n s1)\<lparr>stakes := bt_insert a n (stakes s1)\<rparr>"
    using stake_validator_effect[OF run2] 1(1,2) by auto
  have same: "bt_insert a n (stakes s1) = stakes s1"
    by (rule bt.ins_same) (simp add: 1(3))
  have "s2 = debit q n s1" using 2 same by (simp add: debit_def)
  then show ?thesis using 1(2) by simp
qed

section \<open>Witnesses\<close>

definition solo_config :: GenesisConfig where
  "solo_config = \<lparr>gc_chain_id = ''solo'', gc_timestamp = 5,
     gc_allocations = [\<lparr>ga_address = ''a'', ga_balance = show_word CLAW_TOTAL_SUPPLY, ga_label = ''all''\<rparr>],
     gc_validators = [\<lparr>gv_address = ''a'', gv_stake = show_word CONSENSUS_MIN_STAKE\<rparr>]\<rparr>"

lemma solo_starts:
  "validate_genesis (\<lambda>_. Some alice) solo_config = Inr ()"
  "create_genesis_state (\<lambda>_. Some alice) solo_config
     = Inr ((debit alice CONSENSUS_MIN_STAKE (credit alice CLAW_TOTAL_SUPPLY WorldState_default))
         \<lparr>stakes := bt_insert alice CONSENSUS_MIN_STAKE bt_empty\<rparr>)"
  by (simp_all add: validate_genesis_def create_genesis_state_def stake_validator_def solo_config_def
      parse_address_def parse_balance_def Let_def checked_add_def credit_def debit_def claw_consts
      WorldState_default_def)

theorem genesis_supply_exact_witness:
  "\<exists>s. create_genesis_state (\<lambda>_. Some alice) solo_config = Inr s
     \<and> balances_total s + stakes_total s = 10 ^ 18 \<and> world_inv s"
  using genesis_supply_exact[OF solo_starts] solo_starts(2) by (simp add: solo_config_def)

theorem duplicate_validator_loses_stake_witness:
  "\<exists>s1 s2. stake_validators (\<lambda>_. Some alice) [] [\<lparr>gv_address = ''a'', gv_stake = show_word CONSENSUS_MIN_STAKE\<rparr>,
       \<lparr>gv_address = ''a'', gv_stake = show_word CONSENSUS_MIN_STAKE\<rparr>]
       (credit alice CLAW_TOTAL_SUPPLY WorldState_default) = Inr s2
     \<and> total_supply s2 = total_supply s1 - CONSENSUS_MIN_STAKE"
proof -
  let ?v = "\<lparr>gv_address = ''a'', gv_stake = show_word CONSENSUS_MIN_STAKE\<rparr>"
  let ?s = "credit alice CLAW_TOTAL_SUPPLY WorldState_default"
  have "\<exists>s1. stake_validators (\<lambda>_. Some alice) [] [?v] ?s = Inr s1"
    and "\<exists>s2. stake_validators (\<lambda>_. Some alice) [] [?v, ?v] ?s = Inr s2"
    by (simp_all add: stake_validator_def parse_address_def parse_balance_def credit_def debit_def
        WorldState_default_def claw_consts)
  then obtain s1 s2 where "stake_validators (\<lambda>_. Some alice) [] [?v] ?s = Inr s1"
    "stake_validators (\<lambda>_. Some alice) [] [?v, ?v] ?s = Inr s2" by blast
  with duplicate_validator_loses_stake[OF this] show ?thesis by auto
qed

text \<open>Concrete hexadecimal coding.\<close>

definition hex_char :: "nat \<Rightarrow> char" where
  "hex_char n = ''0123456789abcdef'' ! n"

definition hex_value :: "char \<Rightarrow> nat" where
  "hex_value c = length (takeWhile (\<lambda>d. d \<noteq> c) ''0123456789abcdef'')"

definition hex_of_bytes :: "bytes \<Rightarrow> string" where
  "hex_of_bytes bs = concat (map (\<lambda>b. [hex_char (unat b div 16), hex_char (unat b mod 16)]) bs)"

fun bytes_of_hex :: "string \<Rightarrow> bytes option" where
  "bytes_of_hex [] = Some []"
| "bytes_of_hex [c] = None"
| "bytes_of_hex (c # d # cs) =
     (if hex_value c < 16 \<and> hex_value d < 16
      then map_option (\<lambda>bs. of_nat (16 * hex_value c + hex_value d) # bs) (bytes_of_hex cs) else None)"

lemma hex_value_char:
  assumes "n < 16"
  shows "hex_value (hex_char n) = n"
proof -
  have "list_all (\<lambda>n. hex_value (hex_char n) = n) [0..<16]" by code_simp
  then show ?thesis using assms by (simp add: list_all_iff)
qed

lemma bytes_of_hex_inverse: "bytes_of_hex (hex_of_bytes bs) = Some bs"
proof (induction bs)
  case (Cons b bs)
  have "unat b < 256" using unsigned_less[of b] by simp
  then have "unat b div 16 < 16" by simp
  moreover have "(of_nat (16 * (unat b div 16) + unat b mod 16) :: u8) = b"
    by (simp only: mult_div_mod_eq) simp
  ultimately show ?case using Cons by (simp add: hex_of_bytes_def hex_value_char)
qed (simp add: hex_of_bytes_def)

lemma bytes_of_hex_total:
  "length s = 2 * n \<Longrightarrow> set s \<subseteq> set ''0123456789abcdef'' \<Longrightarrow> \<exists>b. bytes_of_hex s = Some b \<and> length b = n"
proof (induction s arbitrary: n rule: bytes_of_hex.induct)
  case (3 c d cs)
  then obtain m where m: "n = Suc m" by (cases n) auto
  have "hex_value c < 16" "hex_value d < 16" using 3(3) by (auto simp: hex_value_def)
  moreover from this obtain b where "bytes_of_hex cs = Some b" "length b = m"
    using 3(1)[of m] 3(2,3) m by auto
  ultimately show ?case using m by simp
qed auto

definition hex_externals :: externals where
  "hex_externals = sample_externals\<lparr>hex_encode := hex_of_bytes\<rparr>"

lemma hex_externals_ok: "hex_ok hex_externals bytes_of_hex"
  using bytes_of_hex_total[where n = 32]
  by (simp add: hex_ok_def hex_externals_def sample_externals_def bytes_of_hex_inverse)

theorem builtin_networks_start_witness:
  "\<exists>c s v. load_genesis_config hex_externals bytes_of_hex (\<lambda>_. None) [] None ''mainnet'' (Some alice) = Inr c
     \<and> create_genesis_state bytes_of_hex c = Inr s \<and> stakes s = bt_insert v 1000000000000000 bt_empty"
  using builtin_networks_start[OF hex_externals_ok, of alice "''mainnet''" "\<lambda>_. None" "[]"] by simp

end
