(* ===== verification/Version.thy ===== *)
theory Version
  imports Decimal
begin

text \<open>
  Version manifest and upgrade level (\<open>node/src/version_check.rs\<close>). Fetching the manifest over
  HTTP is not modelled.
\<close>

record VersionManifest =
  vm_latest :: string
  vm_minimum :: string
  vm_critical_minimum :: "string option"
  vm_release_url :: string
  vm_changelog :: string
  vm_announcement :: "string option"
  vm_halt_height :: "u64 option"
  vm_halt_message :: "string option"
  vm_plugin_latest :: "string option"
  vm_plugin_minimum :: "string option"
  vm_plugin_changelog :: "string option"
  vm_updated_at :: string

datatype UpgradeLevel = UpToDate | Recommended | Required | Critical

fun as_str :: "UpgradeLevel \<Rightarrow> string" where
  "as_str UpToDate = ''up_to_date''"
| "as_str Recommended = ''recommended''"
| "as_str Required = ''required''"
| "as_str Critical = ''critical''"

text \<open>\<open>str::split('.')\<close>: always at least one, possibly empty, segment.\<close>

fun split_dots :: "string \<Rightarrow> string list" where
  "split_dots [] = [[]]"
| "split_dots (c # cs) =
     (if c = CHR ''.'' then [] # split_dots cs
      else (case split_dots cs of [] \<Rightarrow> [[c]] | seg # segs \<Rightarrow> (c # seg) # segs))"

text \<open>Segments that do not parse are dropped (\<open>filter_map\<close>).\<close>

definition version_parts :: "string \<Rightarrow> u32 list" where
  "version_parts s = List.map_filter parse_unsigned (split_dots s)"

definition part_at :: "u32 list \<Rightarrow> nat \<Rightarrow> u32" where
  "part_at ps i = (if i < length ps then ps ! i else 0)"

fun compare_parts :: "u32 list \<Rightarrow> u32 list \<Rightarrow> nat list \<Rightarrow> bool" where
  "compare_parts lhs rhs [] = False"
| "compare_parts lhs rhs (i # is) =
     (if part_at lhs i < part_at rhs i then True
      else if part_at lhs i > part_at rhs i then False
      else compare_parts lhs rhs is)"

definition version_less_than :: "string \<Rightarrow> string \<Rightarrow> bool" where
  "version_less_than lhs rhs =
     (let lhs_parts = version_parts lhs; rhs_parts = version_parts rhs in
      compare_parts lhs_parts rhs_parts [0..<max (length lhs_parts) (length rhs_parts)])"

definition check_version :: "string \<Rightarrow> VersionManifest \<Rightarrow> u64 option \<Rightarrow> UpgradeLevel" where
  "check_version current manifest current_height =
     (if (case vm_critical_minimum manifest of None \<Rightarrow> False | Some critical \<Rightarrow> version_less_than current critical)
      then Critical
      else if (case vm_halt_height manifest of
                 None \<Rightarrow> False
               | Some halt_height \<Rightarrow> (case current_height of None \<Rightarrow> False | Some height \<Rightarrow> height \<ge> halt_height))
      then Critical
      else if version_less_than current (vm_minimum manifest) then Required
      else if version_less_than current (vm_latest manifest) then Recommended
      else UpToDate)"

text \<open>\<open>CARGO_PKG_VERSION\<close> is an argument.\<close>

definition format_upgrade_message :: "string \<Rightarrow> UpgradeLevel \<Rightarrow> VersionManifest \<Rightarrow> string" where
  "format_upgrade_message pkg level manifest = (case level of
      UpToDate \<Rightarrow> ''Node is up to date.''
    | Recommended \<Rightarrow> ''Update available: '' @ vm_latest manifest @ '' (current: '' @ pkg @ ''). ''
        @ vm_changelog manifest @ '' Download: '' @ vm_release_url manifest
    | Required \<Rightarrow> ''Upgrade required: minimum version '' @ vm_minimum manifest @ ''. Current: '' @ pkg
        @ ''. '' @ vm_changelog manifest @ ''. Download: '' @ vm_release_url manifest
    | Critical \<Rightarrow>
        (let reason = (case vm_critical_minimum manifest of
               Some crit \<Rightarrow> ''Critical update required. Minimum version: '' @ crit @ ''. Current: '' @ pkg @ ''.''
             | None \<Rightarrow>
                 if vm_halt_height manifest \<noteq> None
                 then ''Node has reached halt height. Upgrade required to continue. Download: ''
                        @ vm_release_url manifest
                 else ''Critical update required'') in
         reason @ ''. Changelog: '' @ vm_changelog manifest @ ''. '' @ vm_release_url manifest))"

section \<open>The version order\<close>

text \<open>The reference: the first position where the zero-padded parts differ decides.\<close>

lemma compare_parts_upt:
  "compare_parts l r [i..<n] \<longleftrightarrow>
     (\<exists>k. i \<le> k \<and> k < n \<and> part_at l k < part_at r k \<and> (\<forall>j. i \<le> j \<longrightarrow> j < k \<longrightarrow> part_at l j = part_at r j))"
proof (induction "n - i" arbitrary: i)
  case (Suc d)
  then have upt: "[i..<n] = i # [Suc i..<n]" and IH: "compare_parts l r [Suc i..<n] \<longleftrightarrow>
     (\<exists>k. Suc i \<le> k \<and> k < n \<and> part_at l k < part_at r k \<and> (\<forall>j. Suc i \<le> j \<longrightarrow> j < k \<longrightarrow> part_at l j = part_at r j))"
    by (simp_all add: upt_conv_Cons)
  have "i < n" using Suc.hyps(2) by simp
  consider "part_at l i < part_at r i" | "part_at r i < part_at l i" | "part_at l i = part_at r i"
    by fastforce
  then show ?case
  proof cases
    case 1
    then show ?thesis unfolding upt using \<open>i < n\<close> by auto
  next
    case 2
    then have "\<not> (\<exists>k. i \<le> k \<and> k < n \<and> part_at l k < part_at r k
        \<and> (\<forall>j. i \<le> j \<longrightarrow> j < k \<longrightarrow> part_at l j = part_at r j))"
      by (metis le_neq_implies_less order.asym order.irrefl order_refl)
    then show ?thesis unfolding upt using 2 by auto
  next
    case 3
    then show ?thesis
      unfolding upt using IH by simp (metis Suc_leD Suc_leI le_neq_implies_less order.irrefl)
  qed
qed simp

definition parts_less :: "u32 list \<Rightarrow> u32 list \<Rightarrow> bool" where
  "parts_less l r \<longleftrightarrow> (\<exists>k. part_at l k < part_at r k \<and> (\<forall>j<k. part_at l j = part_at r j))"

lemma version_less_than_parts:
  "version_less_than v w \<longleftrightarrow> parts_less (version_parts v) (version_parts w)"
proof -
  let ?l = "version_parts v" and ?r = "version_parts w"
  have "k < max (length ?l) (length ?r)" if "part_at ?l k < part_at ?r k" for k
    using that by (auto simp: part_at_def split: if_splits)
  then show ?thesis
    by (auto simp: version_less_than_def Let_def compare_parts_upt parts_less_def)
qed

lemma parts_less_trans: "parts_less a b \<Longrightarrow> parts_less b c \<Longrightarrow> parts_less a c"
proof -
  assume "parts_less a b" "parts_less b c"
  then obtain k l where k: "part_at a k < part_at b k" "\<forall>j<k. part_at a j = part_at b j"
    and l: "part_at b l < part_at c l" "\<forall>j<l. part_at b j = part_at c j"
    unfolding parts_less_def by blast
  show "parts_less a c"
    unfolding parts_less_def
    using k l by (intro exI[of _ "min k l"]) (cases k l rule: linorder_cases; auto simp: min_def)
qed

lemma parts_less_linear:
  "parts_less a b \<or> parts_less b a \<or> (\<forall>k. part_at a k = part_at b k)"
proof (cases "\<forall>k. part_at a k = part_at b k")
  case False
  then obtain k where "part_at a k \<noteq> part_at b k" "\<forall>j<k. part_at a j = part_at b j"
    using exists_least_iff[of "\<lambda>k. part_at a k \<noteq> part_at b k"] by blast
  then show ?thesis unfolding parts_less_def by (metis neq_iff)
qed blast

text \<open>Printing the parts and reading them back.\<close>

fun render :: "u32 list \<Rightarrow> string" where
  "render [] = []"
| "render [p] = show_word p"
| "render (p # q # ps) = show_word p @ CHR ''.'' # render (q # ps)"

lemma split_dots_append:
  "CHR ''.'' \<notin> set xs \<Longrightarrow> split_dots (xs @ CHR ''.'' # ys) = xs # split_dots ys"
  "CHR ''.'' \<notin> set xs \<Longrightarrow> split_dots xs = [xs]"
  by (induction xs) auto

lemma dec_digits_no_dot: "CHR ''.'' \<notin> set (dec_digits n)"
proof (induction n rule: dec_digits.induct)
  case (1 n)
  have "digit_value (CHR ''.'') = None" by (simp add: digit_value_def)
  then have "CHR ''.'' \<noteq> char_of (48 + d)" if "d < 10" for d :: nat
    using digit_value_char[OF that] by auto
  then show ?case using 1 by (auto simp: dec_digits.simps[of n])
qed

lemma version_parts_render: "ps \<noteq> [] \<Longrightarrow> version_parts (render ps) = ps"
proof (induction ps rule: render.induct)
  case (2 p)
  then show ?case
    by (simp add: version_parts_def show_word_def split_dots_append dec_digits_no_dot
        parse_show[unfolded show_word_def] map_filter_simps)
next
  case (3 p q ps)
  then show ?case
    by (simp add: version_parts_def show_word_def split_dots_append dec_digits_no_dot
        parse_show[unfolded show_word_def] map_filter_simps)
qed simp

section \<open>Properties\<close>

text \<open>
  Comparing two rendered versions compares their numbers lexicographically, missing parts
  counting as zero; the comparison is a strict order, and two versions that are not ordered
  either way have equal parts.
\<close>

theorem version_order:
  assumes "ps \<noteq> []" and "qs \<noteq> []"
  shows "(version_less_than (render ps) (render qs) \<longleftrightarrow>
      (\<exists>k. part_at ps k < part_at qs k \<and> (\<forall>j<k. part_at ps j = part_at qs j)))
    \<and> \<not> version_less_than u u
    \<and> (version_less_than u v \<longrightarrow> version_less_than v w \<longrightarrow> version_less_than u w)
    \<and> (\<not> version_less_than u v \<longrightarrow> \<not> version_less_than v u \<longrightarrow>
        (\<forall>k. part_at (version_parts u) k = part_at (version_parts v) k))"
  using assms parts_less_trans[of "version_parts u" "version_parts v" "version_parts w"]
    parts_less_linear[of "version_parts u" "version_parts v"]
  by (auto simp: version_less_than_parts version_parts_render) (auto simp: parts_less_def)

lemmas version_eval = version_less_than_def version_parts_def parse_unsigned_def digit_value_def Let_def
  part_at_def map_filter_simps upt_rec

theorem version_order_witness:
  "version_less_than ''0.4.18'' ''0.4.19'' \<and> \<not> version_less_than (render [0, 5]) (render [0, 4, 19])"
proof -
  have "version_less_than ''0.4.18'' ''0.4.19''" by (simp add: version_eval)
  moreover have "\<not> (\<exists>k. part_at [0, 5] k < part_at [0, 4, 19] k
      \<and> (\<forall>j<k. part_at [0, 5] j = part_at [0, 4, 19] j))"
    by (auto simp: part_at_def nth_Cons' split: if_splits)
  ultimately show ?thesis
    using version_order[of "[0, 5]" "[0, 4, 19]"] by simp
qed

text \<open>
  A segment that is not a number is dropped, and the segments after it move up: a pre-release
  such as 0.5-rc.9 compares as 0.9.
\<close>

theorem prerelease_segment_shifts:
  "version_less_than ''0.5.0'' ''0.5-rc.9'' \<and> version_parts ''0.5-rc.9'' = [0, 9]"
  by (simp add: version_eval)

text \<open>A node at or past the halt height is always told to stop, and more height never relaxes the level.\<close>

fun severity :: "UpgradeLevel \<Rightarrow> nat" where
  "severity UpToDate = 0"
| "severity Recommended = 1"
| "severity Required = 2"
| "severity Critical = 3"

theorem upgrade_level_monotone:
  assumes "h \<le> h'"
  shows "severity (check_version c m (Some h)) \<le> severity (check_version c m (Some h'))
    \<and> (\<forall>k. vm_halt_height m = Some k \<longrightarrow> k \<le> h \<longrightarrow> check_version c m (Some h) = Critical)"
  using assms by (auto simp: check_version_def split: option.split)

end
