(* ===== verification/Chain_State.thy ===== *)
theory Chain_State
  imports Block_Execution Election Store Genesis Version
begin

text \<open>
  The state of a node and what may enter it (\<open>node/src/chain.rs\<close>, \<open>p2p/src/protocol.rs\<close>): the
  check-in cache, the record \<open>ChainInner\<close>, the mempool, check-in witnesses and votes.

  \<open>Chain\<close> guards one \<open>ChainInner\<close> with a mutex: each public operation runs while it holds the lock
  (\<open>submit_miner_checkin\<close> releases it once, between the validation and the insertion), so an
  operation is a function on \<open>ChainInner\<close>, and an execution is a sequence of them.

  Everything the node reads from outside comes through two records. \<open>node_env\<close> holds the
  third-party functions: the parameters of the world state and of the store, Ed25519 signing, the
  Borsh images of the state, of the delegations and of the offline list, and the texts that
  \<open>thiserror\<close> generates. \<open>inputs\<close> holds what the machine answers during one operation: the wall
  clock, the monotonic clock in nanoseconds, and the error of each database access, if any.
\<close>

type_synonym signing_key = bytes

record node_env =
  ne_ext :: externals
  ne_codec :: codec
  sign :: "signing_key \<Rightarrow> bytes \<Rightarrow> signature64"
  verifying_key :: "signing_key \<Rightarrow> address"
  enc_world :: "WorldState \<Rightarrow> string + bytes"
  dec_world :: "bytes \<Rightarrow> string + WorldState"
  dec_world_v2 :: "bytes \<Rightarrow> string + WorldStateV2"
  dec_world_v1 :: "bytes \<Rightarrow> string + WorldStateV1"
  enc_delegations :: "(address, (address, u128) btree) btree \<Rightarrow> string + bytes"
  dec_delegations :: "bytes \<Rightarrow> string + (address, (address, u128) btree) btree"
  enc_offline :: "address list \<Rightarrow> string + bytes"
  dec_offline :: "bytes \<Rightarrow> string + address list"
  enc_token_transfer :: "TokenTransferPayload \<Rightarrow> string + bytes"
  state_error_text :: "StateError \<Rightarrow> string"
  store_error_text :: "StoreError \<Rightarrow> string"

record inputs =
  in_now :: u64
  in_instant :: nat
  in_read :: "string option"
  in_put_block :: "string option"
  in_put_receipts :: "string option"
  in_put_meta :: "string option"

section \<open>The check-in cache\<close>

text \<open>
  Two hash maps, epoch and miner to witness. The maps are ordered here: the iteration order of
  the code enters only \<open>get_pending\<close>, whose result has one witness per miner and which the only
  caller sorts by miner.
\<close>

type_synonym CheckinCache = "(u64, (address, MinerCheckinWitness) btree) btree"

definition cache_insert :: "MinerCheckinWitness \<Rightarrow> CheckinCache \<Rightarrow> CheckinCache" where
  "cache_insert w c = bt_entry (w_epoch w) bt_empty (bt_insert (w_miner w) w) c"

definition already_credited :: "WorldState \<Rightarrow> u64 \<Rightarrow> MinerCheckinWitness \<Rightarrow> bool" where
  "already_credited state e w =
     (case bt_get (miners state) (w_miner w) of Some mi \<Rightarrow> mi_last_checkin_epoch mi \<ge> e | None \<Rightarrow> True)"

text \<open>The inner loops of \<open>get_pending\<close> for one epoch: the first insertion wins.\<close>

definition collect_epoch ::
  "WorldState \<Rightarrow> CheckinCache \<Rightarrow> u64 \<Rightarrow> (address, MinerCheckinWitness) btree
   \<Rightarrow> (address, MinerCheckinWitness) btree" where
  "collect_epoch state c e by_miner = (case bt_get c e of
      None \<Rightarrow> by_miner
    | Some m \<Rightarrow> fold (\<lambda>w acc.
        if already_credited state e w \<or> bt_contains acc (w_miner w) then acc else bt_insert (w_miner w) w acc)
        (bt_values m) by_miner)"

definition get_pending :: "CheckinCache \<Rightarrow> u64 \<Rightarrow> WorldState \<Rightarrow> bool \<Rightarrow> MinerCheckinWitness list" where
  "get_pending c epoch state v3_1_active =
     (let epochs_to_check = (if v3_1_active then [epoch, saturating_sub epoch 1] else [epoch]) in
      bt_values (fold (collect_epoch state c) epochs_to_check bt_empty))"

definition gc :: "u64 \<Rightarrow> CheckinCache \<Rightarrow> CheckinCache" where
  "gc current_epoch c =
     fold bt_remove (filter (\<lambda>e. \<not> saturating_sub current_epoch 1 \<le> e) (bt_keys c)) c"

section \<open>The node\<close>

record BlockVote =
  bv_block_hash :: hash32
  bv_height :: u64
  bv_voter :: address
  bv_signature :: signature64

record ChainInner =
  ch_state :: WorldState
  ch_store :: ChainStore
  ch_mempool :: "Transaction list"
  ch_signing_key :: signing_key
  ch_validator_address :: address
  ch_latest_block :: Block
  ch_validator_set :: ValidatorSet
  ch_genesis_hash :: hash32
  ch_chain_id :: string
  ch_slashing :: SlashingState
  ch_pending_votes :: "(address, signature64) btree"
  ch_offline_validators :: "address list"
  ch_fast_sync_pending :: bool
  ch_bootstrap_peer_ids :: "string list"
  ch_latest_block_received :: nat
  ch_total_tx_count :: u64
  ch_version_manifest :: "VersionManifest option"
  ch_last_accepted_snapshot_height :: u64
  ch_connected_peer_ids :: "string list"
  ch_checkin_cache :: CheckinCache

abbreviation ch_active :: "ChainInner \<Rightarrow> ActiveValidator list" where
  "ch_active inner \<equiv> va_active (ch_validator_set inner)"

definition MAX_MEMPOOL_SIZE :: nat where
  [claw_consts]: "MAX_MEMPOOL_SIZE = 10000"

definition BLOCK_TIME_SECS :: nat where
  [claw_consts]: "BLOCK_TIME_SECS = 3"

definition MAX_BLOCK_TXS :: nat where
  [claw_consts]: "MAX_BLOCK_TXS = 500"

section \<open>The mempool\<close>

datatype SubmitError = MempoolFull | InvalidSignature | InvalidNonce u64 u64 | DuplicateTx | FaucetDry
  | PayloadError string

definition submit_tx :: "node_env \<Rightarrow> Transaction \<Rightarrow> ChainInner \<Rightarrow> (SubmitError + hash32) \<times> ChainInner" where
  "submit_tx V tx inner =
     (if length (ch_mempool inner) \<ge> MAX_MEMPOOL_SIZE then (Inl MempoolFull, inner)
      else if \<not> verify_transaction (ne_ext V) tx then (Inl InvalidSignature, inner)
      else
        (let current_nonce = get_nonce (ch_state inner) (tx_from tx) in
         if tx_nonce tx \<noteq> current_nonce + 1 then (Inl (InvalidNonce (current_nonce + 1) (tx_nonce tx)), inner)
         else
           (let h = tx_hash (ne_ext V) tx in
            if \<exists>m \<in> set (ch_mempool inner). tx_hash (ne_ext V) m = h then (Inl DuplicateTx, inner)
            else (Inr h, inner\<lparr>ch_mempool := ch_mempool inner @ [tx]\<rparr>))))"

definition sign_transaction :: "node_env \<Rightarrow> Transaction \<Rightarrow> signing_key \<Rightarrow> Transaction" where
  "sign_transaction V tx key =
     (let tx1 = tx\<lparr>tx_from := verifying_key V key\<rparr> in
      tx1\<lparr>tx_signature := sign V key (tx_signable_bytes tx1)\<rparr>)"

definition faucet_drip :: "node_env \<Rightarrow> address \<Rightarrow> ChainInner \<Rightarrow> (SubmitError + hash32) \<times> ChainInner" where
  "faucet_drip V to inner =
     (let drip = 10000000000;
          node_addr = ch_validator_address inner in
      if get_balance (ch_state inner) node_addr < drip then (Inl FaucetDry, inner)
      else case enc_token_transfer V \<lparr>ttp_to = to, ttp_amount = drip\<rparr> of
          Inl e \<Rightarrow> (Inl (PayloadError e), inner)
        | Inr payload_bytes \<Rightarrow>
            (let nonce = get_nonce (ch_state inner) node_addr + 1;
                 tx = sign_transaction V \<lparr>tx_type = TokenTransfer, tx_from = node_addr, tx_nonce = nonce,
                   tx_payload = payload_bytes, tx_signature = replicate 64 0\<rparr> (ch_signing_key inner) in
             if \<not> verify_transaction (ne_ext V) tx then (Inl InvalidSignature, inner)
             else (Inr (tx_hash (ne_ext V) tx), inner\<lparr>ch_mempool := ch_mempool inner @ [tx]\<rparr>)))"

section \<open>Check-in witnesses\<close>

datatype CheckinError = NotActiveYet | NotRegistered address | EpochMismatch u64 u64
  | RefHeightOutOfRange u64 | RefHashMismatch | UnknownRefBlock u64 | InvalidMinerKey address
  | CheckinSignatureInvalid address | DuplicateCheckin address u64 | DuplicateInBlock address

text \<open>The epochs a witness may name.\<close>

definition epoch_accepted :: "bool \<Rightarrow> u64 \<Rightarrow> u64 \<Rightarrow> bool" where
  "epoch_accepted v3_1_active current e \<longleftrightarrow>
     (if v3_1_active then e = current \<or> e = saturating_sub current 1 else e = current)"

text \<open>Steps (c, second half) and (d): the referenced block is known under that hash, and the miner
  signed epoch and hash.\<close>

definition check_reference ::
  "node_env \<Rightarrow> inputs \<Rightarrow> ChainStore \<Rightarrow> MinerCheckinWitness \<Rightarrow> CheckinError option" where
  "check_reference V I store w = (case get_block (ne_codec V) (in_read I) store (w_ref_block_height w) of
      Inr (Some known) \<Rightarrow>
        if bl_hash known \<noteq> w_ref_block_hash w then Some RefHashMismatch
        else if \<not> vk_from_bytes_ok (ne_ext V) (w_miner w) then Some (InvalidMinerKey (w_miner w))
        else if \<not> verify_strict (ne_ext V) (w_miner w)
                  (checkin_signable_bytes (ne_ext V) (w_epoch w) (w_ref_block_hash w)) (w_signature w)
        then Some (CheckinSignatureInvalid (w_miner w))
        else None
    | _ \<Rightarrow> Some (UnknownRefBlock (w_ref_block_height w)))"

definition validate_checkin_witness ::
  "node_env \<Rightarrow> inputs \<Rightarrow> MinerCheckinWitness \<Rightarrow> ChainInner \<Rightarrow> CheckinError option" where
  "validate_checkin_witness V I w inner =
     (let current_epoch = block_height (ch_state inner) div MINER_EPOCH_LENGTH;
          v3_1_active = block_height (ch_state inner) \<ge> CHECKIN_V3_1_HEIGHT;
          witness_epoch_start = w_epoch w * MINER_EPOCH_LENGTH in
      if \<not> bt_contains (miners (ch_state inner)) (w_miner w) then Some (NotRegistered (w_miner w))
      else if \<not> epoch_accepted v3_1_active current_epoch (w_epoch w)
      then Some (EpochMismatch current_epoch (w_epoch w))
      else if w_ref_block_height w < witness_epoch_start
              \<or> w_ref_block_height w > bl_height (ch_latest_block inner)
      then Some (RefHeightOutOfRange (w_ref_block_height w))
      else check_reference V I (ch_store inner) w)"

text \<open>Gossip and direct pushes; \<open>submit_miner_checkin\<close> reports the outcome.\<close>

definition receive_checkin :: "node_env \<Rightarrow> inputs \<Rightarrow> MinerCheckinWitness \<Rightarrow> ChainInner
   \<Rightarrow> CheckinError option \<times> ChainInner" where
  "receive_checkin V I w inner =
     (if block_height (ch_state inner) < CHECKIN_V3_HEIGHT then (Some NotActiveYet, inner)
      else case validate_checkin_witness V I w inner of
          Some e \<Rightarrow> (Some e, inner)
        | None \<Rightarrow> (None, inner\<lparr>ch_checkin_cache := cache_insert w (ch_checkin_cache inner)\<rparr>))"

definition submit_miner_checkin :: "node_env \<Rightarrow> inputs \<Rightarrow> MinerCheckinWitness \<Rightarrow> ChainInner
   \<Rightarrow> (CheckinError + string) \<times> ChainInner" where
  "submit_miner_checkin V I w inner = (case receive_checkin V I w inner of
      (Some e, inner') \<Rightarrow> (Inl e, inner')
    | (None, inner') \<Rightarrow> (Inr ''checkin accepted'', inner'))"

section \<open>Proposer duty, signatures and votes\<close>

definition is_proposer :: "node_env \<Rightarrow> ChainInner \<Rightarrow> bool" where
  "is_proposer V inner =
     (case elect_proposer (ne_ext V) (ch_active inner) (bl_hash (ch_latest_block inner))
             (bl_height (ch_latest_block inner) + 1) of
        Some addr \<Rightarrow> addr = ch_validator_address inner
      | None \<Rightarrow> False)"

definition elapsed_secs :: "inputs \<Rightarrow> ChainInner \<Rightarrow> nat" where
  "elapsed_secs I inner = (in_instant I - ch_latest_block_received inner) div 10 ^ 9"

definition is_fallback_proposer :: "node_env \<Rightarrow> inputs \<Rightarrow> ChainInner \<Rightarrow> bool" where
  "is_fallback_proposer V I inner =
     (if elapsed_secs I inner \<le> BLOCK_TIME_SECS * 2 then False
      else case elect_fallback_proposer (ne_ext V) (ch_active inner) (bl_hash (ch_latest_block inner))
             (bl_height (ch_latest_block inner) + 1) of
          Some addr \<Rightarrow> addr = ch_validator_address inner
        | None \<Rightarrow> False)"

definition sign_block :: "node_env \<Rightarrow> signing_key \<Rightarrow> Block \<Rightarrow> Block" where
  "sign_block V key block =
     block\<lparr>bl_signatures := bl_signatures block @ [(verifying_key V key, sign V key (bl_hash block))]\<rparr>"

definition create_vote_for_block :: "node_env \<Rightarrow> Block \<Rightarrow> ChainInner \<Rightarrow> BlockVote option" where
  "create_vote_for_block V block inner =
     (if \<not> is_active (ch_validator_set inner) (ch_validator_address inner) then None
      else Some \<lparr>bv_block_hash = bl_hash block, bv_height = bl_height block,
             bv_voter = ch_validator_address inner, bv_signature = sign V (ch_signing_key inner) (bl_hash block)\<rparr>)"

text \<open>The block is stored again with the new signature; a storage error is only logged.\<close>

definition apply_vote :: "node_env \<Rightarrow> inputs \<Rightarrow> BlockVote \<Rightarrow> ChainInner \<Rightarrow> bool \<times> ChainInner" where
  "apply_vote V I vote inner =
     (let latest = ch_latest_block inner in
      if bv_height vote \<noteq> bl_height latest \<or> bv_block_hash vote \<noteq> bl_hash latest then (False, inner)
      else if \<not> is_active (ch_validator_set inner) (bv_voter vote) then (False, inner)
      else if bt_contains (ch_pending_votes inner) (bv_voter vote)
              \<or> (\<exists>s \<in> set (bl_signatures latest). fst s = bv_voter vote) then (False, inner)
      else if vk_from_bytes_ok (ne_ext V) (bv_voter vote)
              \<and> verify_strict (ne_ext V) (bv_voter vote) (bv_block_hash vote) (bv_signature vote)
      then
        (let latest' = latest\<lparr>bl_signatures := bl_signatures latest @ [(bv_voter vote, bv_signature vote)]\<rparr>;
             (_, store') = put_block (ne_codec V) (ne_ext V) (in_put_block I) latest' (ch_store inner) in
         (True, inner\<lparr>ch_pending_votes := bt_insert (bv_voter vote) (bv_signature vote) (ch_pending_votes inner),
                      ch_latest_block := latest', ch_store := store'\<rparr>))
      else (False, inner))"

end
