(* ===== verification/Chain.thy ===== *)
theory Chain
  imports Chain_State
begin

text \<open>
  Block production, application of remote blocks and epoch rotation (\<open>node/src/chain.rs\<close>).

  A remote block is checked in the order of the code: connection to the chain, signatures,
  proposer, transactions, check-ins, state root, supply. A rejection returns the node as the code
  leaves it, with whatever the earlier checks wrote.

  Shown: the supply check of \<open>apply_remote_block_inner\<close> never fires on a state that the node
  reached by blocks; an accepted block was authorised; a rejected one changes only slashing
  counters and the check-in cache; and producer and follower compute the same state.
\<close>

section \<open>After a block is stored\<close>

text \<open>Receipts of the block's own transactions; an error is only logged.\<close>

definition persist_receipts :: "node_env \<Rightarrow> inputs \<Rightarrow> Block \<Rightarrow> ChainInner \<Rightarrow> ChainInner" where
  "persist_receipts V I block inner =
     (let receipt_pairs = filter (\<lambda>p. \<exists>tx \<in> set (bl_transactions block). tx_hash (ne_ext V) tx = fst p)
            (entries (receipts (ch_state inner))) in
      if receipt_pairs = [] then inner
      else inner\<lparr>ch_store := snd (put_receipts (ne_codec V) (in_put_receipts I) receipt_pairs (ch_store inner))\<rparr>)"

definition store_delegations :: "node_env \<Rightarrow> inputs \<Rightarrow> WorldState \<Rightarrow> ChainStore \<Rightarrow> ChainStore" where
  "store_delegations V I state st = (case enc_delegations V (user_delegations state) of
      Inl _ \<Rightarrow> st
    | Inr ud \<Rightarrow> snd (put_user_delegations (in_put_meta I) ud st))"

definition store_offline :: "node_env \<Rightarrow> inputs \<Rightarrow> address list \<Rightarrow> ChainStore \<Rightarrow> ChainStore" where
  "store_offline V I offline st = (case enc_offline V offline of
      Inl _ \<Rightarrow> st
    | Inr ov \<Rightarrow> snd (put_offline_validators (in_put_meta I) ov st))"

definition rotate_epoch :: "node_env \<Rightarrow> inputs \<Rightarrow> u64 \<Rightarrow> ChainInner \<Rightarrow> ChainInner" where
  "rotate_epoch V I height inner =
     (let offline = process_downtime_penalties (ch_slashing inner);
          slashing1 = snd (unjail_expired (ch_slashing inner) height);
          validators = recalculate_active (ch_validator_set inner) (stakes (ch_state inner))
            (reputation (ch_state inner)) (Some slashing1) height;
          slashing2 = reset_epoch_counters slashing1;
          state' = sync_slashing_to_world_state slashing2 ((ch_state inner)\<lparr>validator_uptime := bt_empty\<rparr>) in
      inner\<lparr>ch_offline_validators := offline, ch_slashing := slashing2, ch_validator_set := validators,
        ch_state := state',
        ch_store := store_offline V I offline (store_delegations V I state' (ch_store inner))\<rparr>)"

definition finish_block :: "node_env \<Rightarrow> inputs \<Rightarrow> Block \<Rightarrow> ChainInner \<Rightarrow> ChainInner" where
  "finish_block V I block inner =
     (let inner1 = persist_receipts V I block inner;
          inner2 = inner1\<lparr>ch_total_tx_count := ch_total_tx_count inner1 + of_nat (length (bl_transactions block))\<rparr>;
          inner3 = (if is_epoch_boundary (bl_height block) then rotate_epoch V I (bl_height block) inner2 else inner2) in
      inner3\<lparr>ch_pending_votes := bt_empty, ch_latest_block := block, ch_latest_block_received := in_instant I\<rparr>)"

section \<open>Production\<close>

definition record_missed :: "SlashingState \<Rightarrow> address \<Rightarrow> SlashingState" where
  "record_missed sl primary = record_missed_slot (record_assigned_slot sl primary) primary"

definition producer_slashing :: "node_env \<Rightarrow> bool \<Rightarrow> ChainInner \<Rightarrow> SlashingState" where
  "producer_slashing V is_fallback inner =
     (if is_fallback
      then (case elect_proposer (ne_ext V) (ch_active inner) (bl_hash (ch_latest_block inner))
              (bl_height (ch_latest_block inner) + 1) of
          Some primary \<Rightarrow> record_missed (ch_slashing inner) primary
        | None \<Rightarrow> ch_slashing inner)
      else ch_slashing inner)"

text \<open>Steps 2 and 3 of the check-ins and the collection of old epochs.\<close>

definition produce_checkins ::
  "u64 \<Rightarrow> CheckinCache \<Rightarrow> WorldState \<Rightarrow> MinerCheckinWitness list \<times> WorldState \<times> CheckinCache" where
  "produce_checkins height cache state =
     (if height \<ge> CHECKIN_V3_HEIGHT
      then
        (let current_epoch = height div MINER_EPOCH_LENGTH;
             witnesses = sort_key w_miner (get_pending cache current_epoch state (height \<ge> CHECKIN_V3_1_HEIGHT)) in
         (witnesses, credit_checkins current_epoch witnesses state, gc current_epoch cache))
      else ([], state, cache))"

definition pending_order :: "Transaction list \<Rightarrow> Transaction list" where
  "pending_order = sort_key (\<lambda>tx. (tx_from tx, tx_nonce tx))"

text \<open>
  The block and the node before the write: transactions, rewards, epoch, check-ins, state root,
  hash and signature. A failed supply check is only logged here.
\<close>

definition assemble_block :: "node_env \<Rightarrow> inputs \<Rightarrow> bool \<Rightarrow> ChainInner \<Rightarrow> Block \<times> ChainInner" where
  "assemble_block V I is_fallback inner =
     (let E = ne_ext V;
          latest = ch_latest_block inner;
          slashing = producer_slashing V is_fallback inner;
          new_height = bl_height latest + 1;
          state0 = (ch_state inner)\<lparr>block_height := new_height, block_timestamp := in_now I\<rparr>;
          pending = pending_order (ch_mempool inner);
          (included_txs, total_fees, tx_contract_events, state1) = include_txs E 0 (take MAX_BLOCK_TXS pending) state0;
          (state2, events) = settle_block (ch_active inner) (ch_offline_validators inner)
            (ch_validator_address inner) new_height total_fees state1;
          (checkin_witnesses, state3, cache) = produce_checkins new_height (ch_checkin_cache inner) state2;
          state4 = sync_slashing_to_world_state slashing state3;
          block0 = \<lparr>bl_height = new_height, bl_prev_hash = bl_hash latest, bl_timestamp = in_now I,
            bl_validator = ch_validator_address inner, bl_transactions = included_txs,
            bl_state_root = state_root E state4, bl_hash = replicate 32 0, bl_signatures = [],
            bl_events = tx_contract_events @ events, bl_checkin_witnesses = checkin_witnesses\<rparr>;
          block = sign_block V (ch_signing_key inner) (block0\<lparr>bl_hash := compute_hash E block0\<rparr>) in
      (block, inner\<lparr>ch_state := state4, ch_slashing := slashing, ch_mempool := drop MAX_BLOCK_TXS pending,
         ch_checkin_cache := cache, ch_pending_votes := bt_empty\<rparr>))"

definition produce_block :: "node_env \<Rightarrow> inputs \<Rightarrow> ChainInner \<Rightarrow> Block option \<times> ChainInner" where
  "produce_block V I inner =
     (let is_primary = is_proposer V inner;
          is_fallback = \<not> is_primary \<and> is_fallback_proposer V I inner in
      if \<not> is_primary \<and> \<not> is_fallback then (None, inner)
      else
        (let (block, inner1) = assemble_block V I is_fallback inner in
         case enc_world V (ch_state inner1) of
           Inl _ \<Rightarrow> (None, inner1)
         | Inr state_bytes \<Rightarrow>
             (case put_block_and_snapshot (ne_codec V) (ne_ext V) (in_put_block I) block state_bytes (ch_store inner1) of
                (Inl _, store') \<Rightarrow> (None, inner1\<lparr>ch_store := store'\<rparr>)
              | (Inr _, store') \<Rightarrow> (Some block, finish_block V I block (inner1\<lparr>ch_store := store'\<rparr>)))))"

section \<open>Remote blocks\<close>

datatype BlockError =
    HeightMismatch u64 u64 | PrevHashMismatch | InvalidBlockHash | TimestampInFuture u64
  | TimestampRegresses | TooManyTransactions nat | InsufficientSignatures nat nat
  | ProposerMismatch address "address option" address | TxFailed StateError
  | CheckinRejected CheckinError | CheckinsBeforeV3 | StateRootMismatch | SupplyViolation
  | StoreFailed StoreError | SerializationFailed string

definition check_connection :: "node_env \<Rightarrow> inputs \<Rightarrow> Block \<Rightarrow> ChainInner \<Rightarrow> BlockError option" where
  "check_connection V I block inner =
     (let latest = ch_latest_block inner in
      if bl_height block \<noteq> bl_height latest + 1 then Some (HeightMismatch (bl_height latest + 1) (bl_height block))
      else if bl_prev_hash block \<noteq> bl_hash latest then Some PrevHashMismatch
      else if \<not> verify_hash (ne_ext V) block then Some InvalidBlockHash
      else if bl_timestamp block > in_now I + 30 then Some (TimestampInFuture (bl_timestamp block))
      else if bl_timestamp block < bl_timestamp latest then Some TimestampRegresses
      else if length (bl_transactions block) > 500 then Some (TooManyTransactions (length (bl_transactions block)))
      else None)"

text \<open>The set of active signers whose signature over the block hash verifies.\<close>

definition valid_signers :: "externals \<Rightarrow> ActiveValidator list \<Rightarrow> Block \<Rightarrow> address list" where
  "valid_signers E active block = remdups (map fst (filter (\<lambda>s.
     (\<exists>v \<in> set active. av_address v = fst s) \<and> vk_from_bytes_ok E (fst s)
     \<and> verify_strict E (fst s) (bl_hash block) (snd s)) (bl_signatures block)))"

definition required_signatures :: "ActiveValidator list \<Rightarrow> nat" where
  "required_signatures active = (if length active < 7 then 1 else quorum (length active))"

definition check_signatures :: "externals \<Rightarrow> ActiveValidator list \<Rightarrow> bool \<Rightarrow> Block \<Rightarrow> BlockError option" where
  "check_signatures E active is_sync block =
     (let signers = valid_signers E active block; required = required_signatures active in
      if length signers < required \<and> \<not> (is_sync \<and> bl_validator block \<in> set signers)
      then Some (InsufficientSignatures (length signers) required) else None)"

definition authorize_proposer ::
  "externals \<Rightarrow> ActiveValidator list \<Rightarrow> Block \<Rightarrow> SlashingState \<Rightarrow> BlockError + SlashingState" where
  "authorize_proposer E active block slashing =
     (case elect_proposer E active (bl_prev_hash block) (bl_height block) of
        None \<Rightarrow> Inr slashing
      | Some expected \<Rightarrow>
          (let fallback = elect_fallback_proposer E active (bl_prev_hash block) (bl_height block);
               is_primary = bl_validator block = expected;
               is_fallback = fallback = Some (bl_validator block) in
           if \<not> is_primary \<and> \<not> is_fallback then Inl (ProposerMismatch expected fallback (bl_validator block))
           else Inr (if is_fallback \<and> \<not> is_primary then record_missed slashing expected else slashing)))"

text \<open>Step 2 of the check-ins: registered, epoch, reference, signature, and the two dedups.\<close>

fun check_witnesses ::
  "node_env \<Rightarrow> inputs \<Rightarrow> ChainStore \<Rightarrow> WorldState \<Rightarrow> u64 \<Rightarrow> address list \<Rightarrow> MinerCheckinWitness list
   \<Rightarrow> CheckinError option" where
  "check_witnesses V I store state height seen [] = None"
| "check_witnesses V I store state height seen (w # ws) =
     (let block_epoch = height div MINER_EPOCH_LENGTH in
      case bt_get (miners state) (w_miner w) of
        None \<Rightarrow> Some (NotRegistered (w_miner w))
      | Some mi \<Rightarrow>
          if \<not> epoch_accepted (height \<ge> CHECKIN_V3_1_HEIGHT) block_epoch (w_epoch w)
          then Some (EpochMismatch block_epoch (w_epoch w))
          else if w_ref_block_height w < w_epoch w * MINER_EPOCH_LENGTH \<or> w_ref_block_height w \<ge> height
          then Some (RefHeightOutOfRange (w_ref_block_height w))
          else (case check_reference V I store w of
              Some e \<Rightarrow> Some e
            | None \<Rightarrow>
                if mi_last_checkin_epoch mi = block_epoch then Some (DuplicateCheckin (w_miner w) block_epoch)
                else if w_miner w \<in> set seen then Some (DuplicateInBlock (w_miner w))
                else check_witnesses V I store state height (w_miner w # seen) ws))"

definition remote_checkins ::
  "node_env \<Rightarrow> inputs \<Rightarrow> Block \<Rightarrow> ChainInner \<Rightarrow> WorldState \<Rightarrow> BlockError + (WorldState \<times> ChainInner)" where
  "remote_checkins V I block inner state =
     (if bl_height block \<ge> CHECKIN_V3_HEIGHT
      then (case check_witnesses V I (ch_store inner) state (bl_height block) [] (bl_checkin_witnesses block) of
          Some e \<Rightarrow> Inl (CheckinRejected e)
        | None \<Rightarrow> Inr (credit_checkins (bl_height block div MINER_EPOCH_LENGTH) (bl_checkin_witnesses block) state,
            inner\<lparr>ch_checkin_cache := fold cache_insert (bl_checkin_witnesses block) (ch_checkin_cache inner)\<rparr>))
      else if bl_checkin_witnesses block \<noteq> [] then Inl CheckinsBeforeV3
      else Inr (state, inner))"

definition apply_remote_block_inner ::
  "node_env \<Rightarrow> inputs \<Rightarrow> bool \<Rightarrow> Block \<Rightarrow> ChainInner \<Rightarrow> (BlockError + unit) \<times> ChainInner" where
  "apply_remote_block_inner V I is_sync block inner =
     (case check_connection V I block inner of Some e \<Rightarrow> (Inl e, inner) | None \<Rightarrow>
      case check_signatures (ne_ext V) (ch_active inner) is_sync block of Some e \<Rightarrow> (Inl e, inner) | None \<Rightarrow>
      case authorize_proposer (ne_ext V) (ch_active inner) block (ch_slashing inner) of
        Inl e \<Rightarrow> (Inl e, inner)
      | Inr slashing \<Rightarrow>
        (let inner1 = inner\<lparr>ch_slashing := slashing\<rparr>;
             state0 = (ch_state inner)\<lparr>block_height := bl_height block, block_timestamp := bl_timestamp block\<rparr> in
         case run_txs (ne_ext V) 0 0 (bl_transactions block) state0 of
           Inl e \<Rightarrow> (Inl (TxFailed e), inner1)
         | Inr (total_fees, state1) \<Rightarrow>
           (let state2 = fst (settle_block (ch_active inner) (ch_offline_validators inner) (bl_validator block)
                  (bl_height block) total_fees state1) in
            case remote_checkins V I block inner1 state2 of
              Inl e \<Rightarrow> (Inl e, inner1)
            | Inr (state3, inner2) \<Rightarrow>
              (let state4 = sync_slashing_to_world_state slashing state3 in
               if state_root (ne_ext V) state4 \<noteq> bl_state_root block then (Inl StateRootMismatch, inner2)
               else if total_supply state4 \<noteq> total_supply (ch_state inner) - expected_burn total_fees
               then (Inl SupplyViolation, inner2)
               else
                 (let inner3 = inner2\<lparr>ch_state := state4\<rparr> in
                  case enc_world V state4 of
                    Inl e \<Rightarrow> (Inl (SerializationFailed e), inner3)
                  | Inr state_bytes \<Rightarrow>
                      (case put_block_and_snapshot (ne_codec V) (ne_ext V) (in_put_block I) block state_bytes
                              (ch_store inner3) of
                         (Inl e, store') \<Rightarrow> (Inl (StoreFailed e), inner3\<lparr>ch_store := store'\<rparr>)
                       | (Inr _, store') \<Rightarrow>
                           (Inr (), finish_block V I block (inner3\<lparr>ch_store := store'\<rparr>))))))))"

definition apply_remote_block :: "node_env \<Rightarrow> inputs \<Rightarrow> Block \<Rightarrow> ChainInner \<Rightarrow> (BlockError + unit) \<times> ChainInner" where
  "apply_remote_block V I = apply_remote_block_inner V I False"

definition apply_synced_block :: "node_env \<Rightarrow> inputs \<Rightarrow> Block \<Rightarrow> ChainInner \<Rightarrow> (BlockError + unit) \<times> ChainInner" where
  "apply_synced_block V I = apply_remote_block_inner V I True"

section \<open>Supply and invariants across a block\<close>

text \<open>What holds of the state between two blocks.\<close>

definition chain_inv :: "ChainInner \<Rightarrow> bool" where
  "chain_inv inner \<longleftrightarrow> world_inv (ch_state inner) \<and> mining_inv (bl_height (ch_latest_block inner)) (ch_state inner)"

lemma block_start:
  "total_supply (s\<lparr>block_height := h, block_timestamp := t\<rparr>) = total_supply s"
  "world_inv (s\<lparr>block_height := h, block_timestamp := t\<rparr>) = world_inv s"
  "pendings_kept s (s\<lparr>block_height := h, block_timestamp := t\<rparr>)"
  by (simp_all add: supply_defs world_inv_def inv_defs pendings_kept_same)

lemma burn_identity: "(x :: u128) - f + f * 50 div 100 + f * 20 div 100 = x - expected_burn f"
  by (simp add: expected_burn_def)

text \<open>A block as both node operations execute it, up to the check-ins.\<close>

lemma executed_block:
  assumes "run_txs E i 0 txs (s\<lparr>block_height := h, block_timestamp := t\<rparr>) = Inr (fees, s1)"
    and "h \<noteq> 0" and "mining_inv (h - 1) s" and "world_inv s"
    and "s3 = s2 \<or> s3 = credit_checkins e ws s2" and "s2 = fst (settle_block active offline p h fees s1)"
  shows "total_supply (sync_slashing_to_world_state sl s3) = total_supply s - expected_burn fees"
    "mining_inv h (sync_slashing_to_world_state sl s3)" "world_inv (sync_slashing_to_world_state sl s3)"
    "block_height (sync_slashing_to_world_state sl s3) = h"
proof -
  let ?s0 = "s\<lparr>block_height := h, block_timestamp := t\<rparr>" and ?s4 = "sync_slashing_to_world_state sl s3"
  note run = run_txs_effect[OF assms(1), unfolded block_start]
  have inv1: "mining_inv (h - 1) s1"
    using assms(3) block_start(3) run by (blast intro: mining_inv_kept pendings_kept_trans)
  note settled = settle_block_effect(3)[OF assms(2) inv1, of active offline p fees, folded assms(6)]
  have s3: "total_supply s3 = total_supply s2" "pendings_kept s2 s3" "world_inv s3 = world_inv s2"
    "block_height s3 = block_height s2"
    using assms(5) credit_checkins_effect[of e ws s2] by (auto simp: pendings_kept_same)
  have "total_supply s1 = total_supply s - fees" using run by (simp add: algebra_simps)
  then show "total_supply ?s4 = total_supply s - expected_burn fees"
    using settled by (simp only: sync_slashing_effect s3 burn_identity)
  have "mining_inv h s3" using settled s3(2) by (blast intro: mining_inv_kept)
  then show "mining_inv h ?s4" by (rule mining_inv_kept) (simp add: pendings_kept_same sync_slashing_effect)
  show "world_inv ?s4" using run assms(4) settle_block_effect(1)[of active offline p h fees s1]
    by (simp add: sync_slashing_effect s3 assms(6))
  show "block_height ?s4 = h" using run settle_block_effect(2)[of active offline p h fees s1]
    by (simp add: sync_slashing_effect s3 assms(6))
qed

lemma rotate_epoch_effect:
  "total_supply (ch_state (rotate_epoch V I h inner)) = total_supply (ch_state inner)"
  "miners (ch_state (rotate_epoch V I h inner)) = miners (ch_state inner)"
  "world_inv (ch_state (rotate_epoch V I h inner)) = world_inv (ch_state inner)"
  "block_height (ch_state (rotate_epoch V I h inner)) = block_height (ch_state inner)"
  by (simp_all add: rotate_epoch_def Let_def sync_slashing_to_world_state_def supply_defs world_inv_def inv_defs)

lemma finish_block_effect:
  "ch_latest_block (finish_block V I b inner) = b"
  "total_supply (ch_state (finish_block V I b inner)) = total_supply (ch_state inner)"
  "miners (ch_state (finish_block V I b inner)) = miners (ch_state inner)"
  "world_inv (ch_state (finish_block V I b inner)) = world_inv (ch_state inner)"
  "block_height (ch_state (finish_block V I b inner)) = block_height (ch_state inner)"
  by (simp_all add: finish_block_def persist_receipts_def Let_def rotate_epoch_effect)

text \<open>The three ways a remote block can end.\<close>

definition only_marks :: "ChainInner \<Rightarrow> ChainInner \<Rightarrow> bool" where
  "only_marks inner inner' \<longleftrightarrow> (\<exists>sl c. inner' = inner\<lparr>ch_slashing := sl, ch_checkin_cache := c\<rparr>)"

lemma remote_checkins_shape:
  assumes "remote_checkins V I b inner s2 = Inr (s3, inner2)"
  shows "\<exists>c. inner2 = inner\<lparr>ch_checkin_cache := c\<rparr>"
    "s3 = s2 \<or> s3 = credit_checkins (bl_height b div MINER_EPOCH_LENGTH) (bl_checkin_witnesses b) s2"
  using assms by (auto simp: remote_checkins_def split: if_splits option.splits intro: exI[of _ "ch_checkin_cache inner"])

lemma remote_accepted:
  assumes "apply_remote_block_inner V I sync b inner = (Inr u, inner')"
  obtains sl fees s1 s3 inner2 state_bytes store' where
    "check_connection V I b inner = None" "check_signatures (ne_ext V) (ch_active inner) sync b = None"
    "authorize_proposer (ne_ext V) (ch_active inner) b (ch_slashing inner) = Inr sl"
    "run_txs (ne_ext V) 0 0 (bl_transactions b) ((ch_state inner)\<lparr>block_height := bl_height b,
       block_timestamp := bl_timestamp b\<rparr>) = Inr (fees, s1)"
    "remote_checkins V I b (inner\<lparr>ch_slashing := sl\<rparr>) (fst (settle_block (ch_active inner)
       (ch_offline_validators inner) (bl_validator b) (bl_height b) fees s1)) = Inr (s3, inner2)"
    "state_root (ne_ext V) (sync_slashing_to_world_state sl s3) = bl_state_root b"
    "enc_world V (sync_slashing_to_world_state sl s3) = Inr state_bytes"
    "put_block_and_snapshot (ne_codec V) (ne_ext V) (in_put_block I) b state_bytes (ch_store inner2) = (Inr (), store')"
    "inner' = finish_block V I b (inner2\<lparr>ch_state := sync_slashing_to_world_state sl s3, ch_store := store'\<rparr>)"
  using assms
  by (auto simp: apply_remote_block_inner_def Let_def split: option.splits sum.splits prod.splits if_splits)

lemma remote_rejected:
  assumes "apply_remote_block_inner V I sync b inner = (Inl e, inner')"
    and "\<forall>x. e \<noteq> StoreFailed x" "\<forall>x. e \<noteq> SerializationFailed x"
  shows "only_marks inner inner'"
proof -
  have same: "only_marks inner inner" unfolding only_marks_def
    by (intro exI[of _ "ch_slashing inner"] exI[of _ "ch_checkin_cache inner"]) simp
  have mark: "only_marks inner (inner\<lparr>ch_slashing := sl\<rparr>)" for sl unfolding only_marks_def
    by (intro exI[of _ sl] exI[of _ "ch_checkin_cache inner"]) simp
  have "only_marks inner inner2" if "remote_checkins V I b (inner\<lparr>ch_slashing := sl\<rparr>) s2 = Inr (s3, inner2)"
    for sl s2 s3 inner2
    using remote_checkins_shape(1)[OF that] unfolding only_marks_def by auto
  with same mark assms show ?thesis
    by (auto simp: apply_remote_block_inner_def Let_def split: option.splits sum.splits prod.splits if_splits)
qed

lemma connected_height:
  assumes "check_connection V I b inner = None"
  shows "bl_height b = bl_height (ch_latest_block inner) + 1" "bl_height b - 1 = bl_height (ch_latest_block inner)"
  using assms by (auto simp: check_connection_def Let_def split: if_splits)

lemma remote_keeps_inv:
  assumes "apply_remote_block_inner V I sync b inner = (Inr u, inner')" and "chain_inv inner" and "bl_height b \<noteq> 0"
  shows "chain_inv inner' \<and> (\<exists>fees s1. run_txs (ne_ext V) 0 0 (bl_transactions b) ((ch_state inner)\<lparr>block_height := bl_height b,
       block_timestamp := bl_timestamp b\<rparr>) = Inr (fees, s1)
     \<and> total_supply (ch_state inner') = total_supply (ch_state inner) - expected_burn fees)
     \<and> block_height (ch_state inner') = bl_height b"
proof -
  obtain sl fees s1 s3 inner2 store' where
    c: "check_connection V I b inner = None"
    and r: "run_txs (ne_ext V) 0 0 (bl_transactions b) ((ch_state inner)\<lparr>block_height := bl_height b,
       block_timestamp := bl_timestamp b\<rparr>) = Inr (fees, s1)"
    and w: "remote_checkins V I b (inner\<lparr>ch_slashing := sl\<rparr>) (fst (settle_block (ch_active inner)
       (ch_offline_validators inner) (bl_validator b) (bl_height b) fees s1)) = Inr (s3, inner2)"
    and f: "inner' = finish_block V I b (inner2\<lparr>ch_state := sync_slashing_to_world_state sl s3, ch_store := store'\<rparr>)"
    using assms(1) by (rule remote_accepted)
  have start: "mining_inv (bl_height b - 1) (ch_state inner)" "world_inv (ch_state inner)"
    using assms(2) connected_height(2)[OF c] by (simp_all add: chain_inv_def)
  note ran = executed_block[OF r assms(3) start remote_checkins_shape(2)[OF w] refl, of sl]
  have "pendings_kept (sync_slashing_to_world_state sl s3) (ch_state inner')"
    by (rule pendings_kept_same) (simp add: f finish_block_effect)
  then have "chain_inv inner'"
    using ran(2,3) by (simp add: chain_inv_def f finish_block_effect mining_inv_kept[of _ "sync_slashing_to_world_state sl s3"])
  then show ?thesis
    using r ran(1,4) by (simp add: f finish_block_effect)
qed

lemma no_other_supply_error:
  "check_connection V I b inner \<noteq> Some SupplyViolation" "check_signatures E active sync b \<noteq> Some SupplyViolation"
  "authorize_proposer E active b sl \<noteq> Inl SupplyViolation" "remote_checkins V I b inner s \<noteq> Inl SupplyViolation"
  by (auto simp: check_connection_def check_signatures_def authorize_proposer_def remote_checkins_def Let_def
      split: option.splits)

lemma supply_check_silent:
  assumes "chain_inv inner" and "bl_height (ch_latest_block inner) + 1 \<noteq> 0"
  shows "fst (apply_remote_block_inner V I sync b inner) \<noteq> Inl SupplyViolation"
proof
  assume viol: "fst (apply_remote_block_inner V I sync b inner) = Inl SupplyViolation"
  obtain sl fees s1 s3 inner2 where c: "check_connection V I b inner = None"
    and r: "run_txs (ne_ext V) 0 0 (bl_transactions b) ((ch_state inner)\<lparr>block_height := bl_height b,
       block_timestamp := bl_timestamp b\<rparr>) = Inr (fees, s1)"
    and w: "remote_checkins V I b (inner\<lparr>ch_slashing := sl\<rparr>) (fst (settle_block (ch_active inner)
       (ch_offline_validators inner) (bl_validator b) (bl_height b) fees s1)) = Inr (s3, inner2)"
    and bad: "total_supply (sync_slashing_to_world_state sl s3) \<noteq> total_supply (ch_state inner) - expected_burn fees"
    using viol by (auto simp: apply_remote_block_inner_def Let_def no_other_supply_error
        split: option.splits sum.splits prod.splits if_splits)
  have "mining_inv (bl_height b - 1) (ch_state inner)" "world_inv (ch_state inner)" "bl_height b \<noteq> 0"
    using assms connected_height[OF c] by (simp_all add: chain_inv_def)
  then show False
    using bad executed_block(1)[OF r _ _ _ remote_checkins_shape(2)[OF w] refl, of sl] by blast
qed

section \<open>Production keeps the invariants\<close>

lemma run_txs_fees: "run_txs E i acc txs s = Inr (fees, s') \<Longrightarrow> fees = acc + sum_list (map fee_of txs)"
proof (induction txs arbitrary: i acc s)
  case (Cons tx txs)
  obtain fee evs s1 where run: "apply_tx E (of_nat i) s tx = (Inr (fee, evs), s1)"
    and rest: "run_txs E (Suc i) (acc + fee) txs s1 = Inr (fees, s')"
    using Cons.prems by (auto split: prod.splits sum.splits)
  then show ?case using Cons.IH[OF rest] apply_tx_success[OF run] by (auto simp: algebra_simps)
qed simp

lemma include_txs_length: "include_txs E i txs s = (inc, fees, evs, s') \<Longrightarrow> length inc \<le> length txs"
proof (induction txs arbitrary: i s inc fees evs)
  case (Cons tx txs)
  obtain r s1 where run: "apply_tx E (of_nat i) s tx = (r, s1)" by force
  then show ?case
    using Cons.IH[of "Suc i" s1] Cons.prems by (fastforce split: sum.splits prod.splits)
qed simp

text \<open>
  The pending transactions that would leave a trace although they are rejected: a failed claim
  or withdrawal writes before it fails, and so may a failed contract call.
\<close>

definition clean_pending :: "node_env \<Rightarrow> inputs \<Rightarrow> ChainInner \<Rightarrow> bool" where
  "clean_pending V I inner \<longleftrightarrow>
     (\<forall>tx \<in> set (rejected_txs (ne_ext V) 0 (take MAX_BLOCK_TXS (pending_order (ch_mempool inner)))
        ((ch_state inner)\<lparr>block_height := bl_height (ch_latest_block inner) + 1, block_timestamp := in_now I\<rparr>)).
      \<not> leaves_residue tx)"

lemma assembled:
  assumes "assemble_block V I fb inner = (b, inner1)" and "world_inv (ch_state inner)" and "clean_pending V I inner"
  obtains fees s1 s3 cache sl where
    "bl_height b = bl_height (ch_latest_block inner) + 1" "bl_prev_hash b = bl_hash (ch_latest_block inner)"
    "bl_timestamp b = in_now I" "bl_validator b = ch_validator_address inner" "bl_hash b = compute_hash (ne_ext V) b"
    "length (bl_transactions b) \<le> 500"
    "bl_signatures b = [(verifying_key V (ch_signing_key inner), sign V (ch_signing_key inner) (bl_hash b))]"
    "run_txs (ne_ext V) 0 0 (bl_transactions b) ((ch_state inner)\<lparr>block_height := bl_height b,
       block_timestamp := bl_timestamp b\<rparr>) = Inr (fees, s1)"
    "produce_checkins (bl_height b) (ch_checkin_cache inner) (fst (settle_block (ch_active inner)
       (ch_offline_validators inner) (bl_validator b) (bl_height b) fees s1)) = (bl_checkin_witnesses b, s3, cache)"
    "sl = producer_slashing V fb inner" "bl_state_root b = state_root (ne_ext V) (sync_slashing_to_world_state sl s3)"
    "inner1 = inner\<lparr>ch_state := sync_slashing_to_world_state sl s3, ch_slashing := sl,
       ch_mempool := drop MAX_BLOCK_TXS (pending_order (ch_mempool inner)), ch_checkin_cache := cache,
       ch_pending_votes := bt_empty\<rparr>"
proof -
  let ?E = "ne_ext V" and ?h = "bl_height (ch_latest_block inner) + 1"
  let ?s0 = "(ch_state inner)\<lparr>block_height := ?h, block_timestamp := in_now I\<rparr>"
  let ?txs = "take MAX_BLOCK_TXS (pending_order (ch_mempool inner))"
  obtain inc fees evs s1 where inc: "include_txs ?E 0 ?txs ?s0 = (inc, fees, evs, s1)" by (metis prod_cases4)
  obtain s2 events where st: "settle_block (ch_active inner) (ch_offline_validators inner)
    (ch_validator_address inner) ?h fees s1 = (s2, events)" by force
  obtain ws s3 cache where ck: "produce_checkins ?h (ch_checkin_cache inner) s2 = (ws, s3, cache)" by (metis prod_cases3)
  have "run_txs ?E 0 0 inc ?s0 = Inr (0 + fees, s1)"
    using inc assms(2,3) by (intro include_txs_replay) (auto simp: block_start clean_pending_def)
  moreover have "length inc \<le> 500" using include_txs_length[OF inc] by (simp add: MAX_BLOCK_TXS_def)
  ultimately show ?thesis
    using assms(1) inc st ck
    by (intro that[of fees s1 s3 cache "producer_slashing V fb inner"])
      (auto simp: assemble_block_def Let_def sign_block_def compute_hash_def)
qed

section \<open>Produced check-ins pass the follower's checks\<close>

text \<open>
  What the three places that fill the cache have checked, read for the next block: the witness
  is filed under its epoch and miner, refers to a known block of its epoch, and is signed.
\<close>

definition cache_inv :: "node_env \<Rightarrow> inputs \<Rightarrow> ChainStore \<Rightarrow> u64 \<Rightarrow> CheckinCache \<Rightarrow> bool" where
  "cache_inv V I store height c \<longleftrightarrow> (\<forall>e m a w. bt_get c e = Some m \<longrightarrow> bt_get m a = Some w \<longrightarrow>
     w_epoch w = e \<and> w_miner w = a \<and> e * MINER_EPOCH_LENGTH \<le> w_ref_block_height w
     \<and> w_ref_block_height w < height \<and> check_reference V I store w = None)"

definition offered :: "WorldState \<Rightarrow> CheckinCache \<Rightarrow> u64 \<Rightarrow> MinerCheckinWitness \<Rightarrow> bool" where
  "offered s c e w \<longleftrightarrow> (\<exists>m a. bt_get c e = Some m \<and> bt_get m a = Some w) \<and> \<not> already_credited s e w"

definition collected :: "WorldState \<Rightarrow> CheckinCache \<Rightarrow> u64 set \<Rightarrow> (address, MinerCheckinWitness) btree \<Rightarrow> bool" where
  "collected s c es acc \<longleftrightarrow> (\<forall>a w. bt_get acc a = Some w \<longrightarrow> w_miner w = a \<and> (\<exists>e \<in> es. offered s c e w))"

lemma bt_values_mem: "w \<in> set (bt_values m) \<longleftrightarrow> (\<exists>a. bt_get m a = Some w)"
  by (force simp: bt_values_def simp flip: bt.ents_mem)

lemma collect_epoch_collected:
  assumes "collected s c es acc"
  shows "collected s c (insert e es) (collect_epoch s c e acc)"
proof (cases "bt_get c e")
  case None
  then show ?thesis using assms by (auto simp: collect_epoch_def collected_def)
next
  case (Some m)
  let ?f = "\<lambda>w acc. if already_credited s e w \<or> bt_contains acc (w_miner w) then acc else bt_insert (w_miner w) w acc"
  have "collected s c (insert e es) (fold ?f ws acc)"
    if "\<forall>w \<in> set ws. \<exists>a. bt_get m a = Some w" and "collected s c (insert e es) acc" for ws acc
    using that
  proof (induction ws arbitrary: acc)
    case (Cons w ws)
    have "collected s c (insert e es) (?f w acc)"
      using Cons.prems Some by (auto simp: collected_def offered_def)
    then show ?case using Cons by simp
  qed simp
  moreover have "collected s c (insert e es) acc" using assms by (auto simp: collected_def)
  ultimately show ?thesis using Some by (simp add: collect_epoch_def bt_values_mem)
qed

lemma pending_collected:
  defines "acc c epoch s v \<equiv> fold (collect_epoch s c) (if v then [epoch, saturating_sub epoch 1] else [epoch]) bt_empty"
  shows "collected s c (if v then {epoch, saturating_sub epoch 1} else {epoch}) (acc c epoch s v)"
proof -
  have "collected s c {} bt_empty" by (simp add: collected_def)
  then have one: "collected s c {epoch} (collect_epoch s c epoch bt_empty)" by (rule collect_epoch_collected)
  show ?thesis
    using one collect_epoch_collected[OF one, of "saturating_sub epoch 1"] by (simp add: acc_def insert_commute)
qed

lemma collected_miners:
  assumes "collected s c es acc"
  shows "map w_miner (bt_values acc) = bt_keys acc"
  using assms by (auto simp: collected_def bt_values_def bt_keys_def bt.ents_mem[symmetric])

lemma get_pending_offered:
  "w \<in> set (get_pending c epoch s v) \<Longrightarrow> \<exists>e. offered s c e w \<and> epoch_accepted v epoch e"
  "distinct (map w_miner (get_pending c epoch s v))"
proof -
  let ?acc = "fold (collect_epoch s c) (if v then [epoch, saturating_sub epoch 1] else [epoch]) bt_empty"
  note col = pending_collected[of s c v epoch]
  have gp: "get_pending c epoch s v = bt_values ?acc" by (simp add: get_pending_def)
  show "distinct (map w_miner (get_pending c epoch s v))"
    unfolding gp collected_miners[OF col] by (rule bt_keys_distinct)
  assume "w \<in> set (get_pending c epoch s v)"
  then obtain e where "e \<in> (if v then {epoch, saturating_sub epoch 1} else {epoch})" "offered s c e w"
    unfolding gp bt_values_mem using col unfolding collected_def by blast
  then show "\<exists>e. offered s c e w \<and> epoch_accepted v epoch e"
    by (intro exI[of _ e]) (simp add: epoch_accepted_def split: if_splits)
qed

lemma check_witnesses_ok:
  assumes "\<And>w. w \<in> set ws \<Longrightarrow> \<exists>mi. bt_get (miners s) (w_miner w) = Some mi
      \<and> epoch_accepted (h \<ge> CHECKIN_V3_1_HEIGHT) (h div MINER_EPOCH_LENGTH) (w_epoch w)
      \<and> w_epoch w * MINER_EPOCH_LENGTH \<le> w_ref_block_height w \<and> w_ref_block_height w < h
      \<and> check_reference V I store w = None \<and> mi_last_checkin_epoch mi \<noteq> h div MINER_EPOCH_LENGTH"
    and "distinct (map w_miner ws)" and "w_miner ` set ws \<inter> set seen = {}"
  shows "check_witnesses V I store s h seen ws = None"
  using assms
proof (induction ws arbitrary: seen)
  case (Cons w ws)
  obtain mi where mi: "bt_get (miners s) (w_miner w) = Some mi"
      "epoch_accepted (h \<ge> CHECKIN_V3_1_HEIGHT) (h div MINER_EPOCH_LENGTH) (w_epoch w)"
      "w_epoch w * MINER_EPOCH_LENGTH \<le> w_ref_block_height w" "w_ref_block_height w < h"
      "check_reference V I store w = None" "mi_last_checkin_epoch mi \<noteq> h div MINER_EPOCH_LENGTH"
    using Cons.prems(1)[of w] by auto
  have "check_witnesses V I store s h (w_miner w # seen) ws = None"
    using Cons.prems by (intro Cons.IH) auto
  then show ?case using mi Cons.prems(3) by (simp add: Let_def not_less not_le)
qed simp

lemma produced_checkins_pass:
  assumes "cache_inv V I store h c" and "produce_checkins h c s = (ws, s3, c')" and "h \<ge> CHECKIN_V3_HEIGHT"
  shows "check_witnesses V I store s h [] ws = None" "s3 = credit_checkins (h div MINER_EPOCH_LENGTH) ws s"
proof -
  let ?e = "h div MINER_EPOCH_LENGTH"
  have ws: "ws = sort_key w_miner (get_pending c ?e s (h \<ge> CHECKIN_V3_1_HEIGHT))"
    and s3: "s3 = credit_checkins ?e ws s"
    using assms(2,3) by (auto simp: produce_checkins_def Let_def)
  show "s3 = credit_checkins ?e ws s" by (rule s3)
  have ok: "\<exists>mi. bt_get (miners s) (w_miner w) = Some mi
      \<and> epoch_accepted (h \<ge> CHECKIN_V3_1_HEIGHT) ?e (w_epoch w)
      \<and> w_epoch w * MINER_EPOCH_LENGTH \<le> w_ref_block_height w \<and> w_ref_block_height w < h
      \<and> check_reference V I store w = None \<and> mi_last_checkin_epoch mi \<noteq> ?e" if mem: "w \<in> set ws" for w
  proof -
    obtain e where e: "offered s c e w" "epoch_accepted (h \<ge> CHECKIN_V3_1_HEIGHT) ?e e"
      using get_pending_offered(1)[of w c ?e s "h \<ge> CHECKIN_V3_1_HEIGHT"] mem ws by auto
    then have "unat e \<le> unat ?e" by (auto simp: epoch_accepted_def unat_saturating_sub split: if_splits)
    then have "e \<le> ?e" by (simp add: word_le_nat_alt)
    with e assms(1) show ?thesis
      by (auto simp: offered_def cache_inv_def already_credited_def split: option.splits)
  qed
  have "distinct (map w_miner ws)"
    unfolding ws using get_pending_offered(2) by (simp add: distinct_map)
  then show "check_witnesses V I store s h [] ws = None" using ok by (intro check_witnesses_ok) auto
qed

section \<open>Producer and follower agree\<close>

text \<open>
  Two nodes in step: same state, same tip (up to the signatures collected on it), same validator
  set, same offline list, same slashing counters.
\<close>

definition in_step :: "ChainInner \<Rightarrow> ChainInner \<Rightarrow> bool" where
  "in_step p f \<longleftrightarrow> ch_state f = ch_state p \<and> bl_height (ch_latest_block f) = bl_height (ch_latest_block p)
     \<and> bl_hash (ch_latest_block f) = bl_hash (ch_latest_block p)
     \<and> bl_timestamp (ch_latest_block f) = bl_timestamp (ch_latest_block p)
     \<and> ch_validator_set f = ch_validator_set p \<and> ch_offline_validators f = ch_offline_validators p
     \<and> ch_slashing f = ch_slashing p"

text \<open>The node's key: its address, and signatures that verify.\<close>

definition key_ok :: "node_env \<Rightarrow> ChainInner \<Rightarrow> bool" where
  "key_ok V p \<longleftrightarrow> verifying_key V (ch_signing_key p) = ch_validator_address p
     \<and> vk_from_bytes_ok (ne_ext V) (ch_validator_address p)
     \<and> (\<forall>m. verify_strict (ne_ext V) (ch_validator_address p) m (sign V (ch_signing_key p) m))"

lemma persist_receipts_frame [simp]:
  "ch_state (persist_receipts V I b p) = ch_state p" "ch_validator_set (persist_receipts V I b p) = ch_validator_set p"
  "ch_offline_validators (persist_receipts V I b p) = ch_offline_validators p"
  "ch_slashing (persist_receipts V I b p) = ch_slashing p"
  by (simp_all add: persist_receipts_def Let_def)

text \<open>The part of a node that the next block depends on, and what the rotation makes of it.\<close>

definition consensus_view ::
  "ChainInner \<Rightarrow> WorldState \<times> ValidatorSet \<times> address list \<times> SlashingState" where
  "consensus_view p = (ch_state p, ch_validator_set p, ch_offline_validators p, ch_slashing p)"

definition rotated_view ::
  "u64 \<Rightarrow> WorldState \<times> ValidatorSet \<times> address list \<times> SlashingState
   \<Rightarrow> WorldState \<times> ValidatorSet \<times> address list \<times> SlashingState" where
  "rotated_view h x = (case x of (s, vs, off, sl) \<Rightarrow>
     (let sl1 = snd (unjail_expired sl h) in
      (sync_slashing_to_world_state (reset_epoch_counters sl1) (s\<lparr>validator_uptime := bt_empty\<rparr>),
       recalculate_active vs (stakes s) (reputation s) (Some sl1) h,
       process_downtime_penalties sl, reset_epoch_counters sl1)))"

lemma rotate_epoch_view: "consensus_view (rotate_epoch V I h p) = rotated_view h (consensus_view p)"
  by (simp add: consensus_view_def rotated_view_def rotate_epoch_def Let_def)

lemma finish_block_view:
  "consensus_view (finish_block V I b p) =
     (if is_epoch_boundary (bl_height b) then rotated_view (bl_height b) (consensus_view p) else consensus_view p)"
proof -
  let ?q = "(persist_receipts V I b p)\<lparr>ch_total_tx_count := ch_total_tx_count (persist_receipts V I b p)
    + of_nat (length (bl_transactions b))\<rparr>"
  have q: "consensus_view ?q = consensus_view p" by (simp add: consensus_view_def)
  have "consensus_view (finish_block V I b p)
    = consensus_view (if is_epoch_boundary (bl_height b) then rotate_epoch V I (bl_height b) ?q else ?q)"
    by (simp add: finish_block_def Let_def consensus_view_def)
  then show ?thesis by (simp add: rotate_epoch_view q)
qed

lemma finish_in_step:
  assumes "consensus_view f = consensus_view p"
  shows "in_step (finish_block V I b p) (finish_block V J b f)"
proof -
  have "consensus_view (finish_block V J b f) = consensus_view (finish_block V I b p)"
    by (simp add: finish_block_view assms)
  then show ?thesis by (simp add: in_step_def finish_block_effect consensus_view_def)
qed

lemma put_snapshot_encoded:
  assumes "locations_ok K" and "enc_block K b = Inr bb"
  shows "\<exists>st'. put_block_and_snapshot K E None b bs st = (Inr (), st')"
proof -
  obtain st1 where "index_txs K E (bl_height b) 0 (bl_transactions b)
    (st\<lparr>tb_blocks := bt_insert (bl_height b) bb (tb_blocks st)\<rparr>) = Inr st1"
    using index_txs_log[OF assms(1)] by blast
  with assms(2) show ?thesis by (simp add: put_block_and_snapshot_def write_block_tables_def commit_def)
qed

lemma put_snapshot_runs:
  assumes "locations_ok K" and "block_ok K b"
  shows "\<exists>st'. put_block_and_snapshot K E None b bs st = (Inr (), st')"
  using assms put_snapshot_encoded[OF assms(1)] by (auto simp: block_ok_def)

lemma elected_member:
  assumes "elect_proposer E active h k = Some a \<or> elect_fallback_proposer E active h k = Some a"
  shows "a \<in> av_address ` set active"
  using assms
proof
  assume "elect_proposer E active h k = Some a"
  then show ?thesis using elect_proposer_member[of active E h k] by (cases "active = []") (auto simp: elect_proposer_def)
next
  assume "elect_fallback_proposer E active h k = Some a"
  then obtain p v where "find (\<lambda>v. av_address v \<noteq> p) (sort_key rank active) = Some v" "a = av_address v"
    by (auto simp: elect_fallback_proposer_def split: if_splits option.splits)
  then have "v \<in> set active" by (metis find_Some_iff nth_mem set_sort)
  then show ?thesis using \<open>a = av_address v\<close> by blast
qed

lemma duty_authorized:
  assumes "is_proposer V p \<or> fb" and "fb = (\<not> is_proposer V p \<and> is_fallback_proposer V I p)"
    and "bl_prev_hash b = bl_hash (ch_latest_block p)" "bl_height b = bl_height (ch_latest_block p) + 1"
    and "bl_validator b = ch_validator_address p"
  shows "authorize_proposer (ne_ext V) (ch_active p) b (ch_slashing p) = Inr (producer_slashing V fb p)"
    "bl_validator b \<in> av_address ` set (ch_active p)"
proof -
  let ?a = "bl_validator b"
  let ?e = "elect_proposer (ne_ext V) (ch_active p) (bl_prev_hash b) (bl_height b)"
  let ?f = "elect_fallback_proposer (ne_ext V) (ch_active p) (bl_prev_hash b) (bl_height b)"
  have prim: "is_proposer V p \<longleftrightarrow> ?e = Some ?a" 
    using assms(3-5) by (auto simp: is_proposer_def split: option.split)
  have fall: "is_fallback_proposer V I p \<Longrightarrow> ?f = Some ?a"
    using assms(3-5) by (auto simp: is_fallback_proposer_def split: if_splits option.splits)
  have some: "?f = Some ?a \<Longrightarrow> ?e \<noteq> None" by (auto simp: elect_fallback_proposer_def split: if_splits option.splits)
  show "authorize_proposer (ne_ext V) (ch_active p) b (ch_slashing p) = Inr (producer_slashing V fb p)"
    using assms prim fall some by (auto simp: authorize_proposer_def producer_slashing_def Let_def split: option.split)
  show "?a \<in> av_address ` set (ch_active p)"
    using assms(1,2) prim fall elected_member[of "ne_ext V" "ch_active p" "bl_prev_hash b" "bl_height b" ?a] by blast
qed

lemma produced:
  assumes "produce_block V I p = (Some b, p')"
  obtains fb p1 store' state_bytes where "is_proposer V p \<or> fb" "fb = (\<not> is_proposer V p \<and> is_fallback_proposer V I p)"
    "assemble_block V I fb p = (b, p1)" "enc_world V (ch_state p1) = Inr state_bytes"
    "put_block_and_snapshot (ne_codec V) (ne_ext V) (in_put_block I) b state_bytes (ch_store p1) = (Inr (), store')"
    "p' = finish_block V I b (p1\<lparr>ch_store := store'\<rparr>)"
  using assms
  by (auto simp: produce_block_def Let_def split: if_splits prod.splits sum.splits)

lemma produced_signatures:
  assumes "key_ok V p" and "bl_validator b = ch_validator_address p"
    and "bl_signatures b = [(verifying_key V (ch_signing_key p), sign V (ch_signing_key p) (bl_hash b))]"
    and "bl_validator b \<in> av_address ` set active" and "sync \<or> length active < 7"
  shows "check_signatures (ne_ext V) active sync b = None"
  using assms by (auto simp: check_signatures_def valid_signers_def required_signatures_def key_ok_def Let_def)

lemma follower_checkins:
  assumes "cache_inv V J (ch_store f) (bl_height b) c"
    and "produce_checkins (bl_height b) c s2 = (bl_checkin_witnesses b, s3, c')"
  shows "\<exists>cc. remote_checkins V J b f s2 = Inr (s3, f\<lparr>ch_checkin_cache := cc\<rparr>)"
proof (cases "bl_height b \<ge> CHECKIN_V3_HEIGHT")
  case True
  then show ?thesis using produced_checkins_pass[OF assms True] by (auto simp: remote_checkins_def)
next
  case False
  then have "bl_checkin_witnesses b = []" "s3 = s2" using assms(2) by (simp_all add: produce_checkins_def)
  then show ?thesis using False by (auto simp: remote_checkins_def intro: exI[of _ "ch_checkin_cache f"])
qed

text \<open>
  Whatever the code checks holds, so the block is applied; the state written is the one the
  block was built on.
\<close>

lemma remote_runs:
  assumes "check_connection V J b f = None" and "check_signatures (ne_ext V) (ch_active f) sync b = None"
    and "authorize_proposer (ne_ext V) (ch_active f) b (ch_slashing f) = Inr sl"
    and run: "run_txs (ne_ext V) 0 0 (bl_transactions b) ((ch_state f)\<lparr>block_height := bl_height b,
       block_timestamp := bl_timestamp b\<rparr>) = Inr (fees, s1)"
    and wit: "remote_checkins V J b (f\<lparr>ch_slashing := sl\<rparr>) (fst (settle_block (ch_active f)
       (ch_offline_validators f) (bl_validator b) (bl_height b) fees s1)) = Inr (s3, f2)"
    and "state_root (ne_ext V) (sync_slashing_to_world_state sl s3) = bl_state_root b"
    and "enc_world V (sync_slashing_to_world_state sl s3) = Inr state_bytes"
    and inv: "chain_inv f" "bl_height b \<noteq> 0"
    and disk: "in_put_block J = None" "locations_ok (ne_codec V)" "block_ok (ne_codec V) b"
  shows "\<exists>st. apply_remote_block_inner V J sync b f
    = (Inr (), finish_block V J b (f2\<lparr>ch_state := sync_slashing_to_world_state sl s3, ch_store := st\<rparr>))"
proof -
  have start: "mining_inv (bl_height b - 1) (ch_state f)" "world_inv (ch_state f)"
    using inv connected_height(2)[OF assms(1)] by (simp_all add: chain_inv_def)
  have "total_supply (sync_slashing_to_world_state sl s3) = total_supply (ch_state f) - expected_burn fees"
    by (rule executed_block(1)[OF run inv(2) start remote_checkins_shape(2)[OF wit] refl])
  moreover obtain st where "put_block_and_snapshot (ne_codec V) (ne_ext V) (in_put_block J) b state_bytes (ch_store f2) = (Inr (), st)"
    using put_snapshot_runs[OF disk(2,3)] disk(1) by metis
  ultimately show ?thesis
    using assms(1-7) by (intro exI[of _ st]) (simp add: apply_remote_block_inner_def Let_def)
qed

text \<open>The circumstances in which a produced block reaches a follower that is in step.\<close>

definition deliverable :: "node_env \<Rightarrow> inputs \<Rightarrow> inputs \<Rightarrow> bool \<Rightarrow> ChainInner \<Rightarrow> ChainInner \<Rightarrow> Block \<Rightarrow> bool" where
  "deliverable V I J sync p f b \<longleftrightarrow> in_step p f \<and> key_ok V p \<and> (sync \<or> length (ch_active p) < 7)
     \<and> bl_timestamp (ch_latest_block p) \<le> in_now I \<and> in_now I \<le> in_now J + 30
     \<and> cache_inv V J (ch_store f) (bl_height (ch_latest_block p) + 1) (ch_checkin_cache p)
     \<and> in_put_block J = None \<and> locations_ok (ne_codec V) \<and> block_ok (ne_codec V) b"

lemma replicated:
  assumes d: "deliverable V I J sync p f b" and inv: "chain_inv p" "bl_height (ch_latest_block p) + 1 \<noteq> 0"
    and clean: "clean_pending V I p" and made: "produce_block V I p = (Some b, p')"
  shows "\<exists>f'. apply_remote_block_inner V J sync b f = (Inr (), f') \<and> in_step p' f' \<and> ch_latest_block f' = b"
proof -
  obtain fb p1 store1 state_bytes where duty: "is_proposer V p \<or> fb" "fb = (\<not> is_proposer V p \<and> is_fallback_proposer V I p)"
    and asm: "assemble_block V I fb p = (b, p1)" and bytes: "enc_world V (ch_state p1) = Inr state_bytes"
    and p': "p' = finish_block V I b (p1\<lparr>ch_store := store1\<rparr>)"
    using made by (rule produced)
  have world: "world_inv (ch_state p)" using inv(1) by (simp add: chain_inv_def)
  obtain fees s1 s3 c sl where b: "bl_height b = bl_height (ch_latest_block p) + 1"
    "bl_prev_hash b = bl_hash (ch_latest_block p)" "bl_timestamp b = in_now I"
    "bl_validator b = ch_validator_address p" "bl_hash b = compute_hash (ne_ext V) b"
    "length (bl_transactions b) \<le> 500"
    "bl_signatures b = [(verifying_key V (ch_signing_key p), sign V (ch_signing_key p) (bl_hash b))]"
    and run: "run_txs (ne_ext V) 0 0 (bl_transactions b) ((ch_state p)\<lparr>block_height := bl_height b,
       block_timestamp := bl_timestamp b\<rparr>) = Inr (fees, s1)"
    and ck: "produce_checkins (bl_height b) (ch_checkin_cache p) (fst (settle_block (ch_active p)
       (ch_offline_validators p) (bl_validator b) (bl_height b) fees s1)) = (bl_checkin_witnesses b, s3, c)"
    and sl: "sl = producer_slashing V fb p"
    and root: "bl_state_root b = state_root (ne_ext V) (sync_slashing_to_world_state sl s3)"
    and p1: "p1 = p\<lparr>ch_state := sync_slashing_to_world_state sl s3, ch_slashing := sl,
       ch_mempool := drop MAX_BLOCK_TXS (pending_order (ch_mempool p)), ch_checkin_cache := c,
       ch_pending_votes := bt_empty\<rparr>"
    using asm world clean by (rule assembled)
  have same: "ch_state f = ch_state p" "ch_validator_set f = ch_validator_set p" "chain_inv f"
    "ch_offline_validators f = ch_offline_validators p" "ch_slashing f = ch_slashing p" "bl_height b \<noteq> 0"
    using d inv b(1) by (simp_all add: deliverable_def in_step_def chain_inv_def)
  have conn: "check_connection V J b f = None"
    using d b by (auto simp: check_connection_def deliverable_def in_step_def Let_def verify_hash_def)
  note auth = duty_authorized[OF duty b(2,1,4), folded sl]
  have sig: "check_signatures (ne_ext V) (ch_active p) sync b = None"
    using produced_signatures[OF _ b(4,7) auth(2)] d by (simp add: deliverable_def)
  obtain cc where wit: "remote_checkins V J b (f\<lparr>ch_slashing := sl\<rparr>) (fst (settle_block (ch_active p)
       (ch_offline_validators p) (bl_validator b) (bl_height b) fees s1)) = Inr (s3, f\<lparr>ch_slashing := sl, ch_checkin_cache := cc\<rparr>)"
    using follower_checkins[OF _ ck, of V J "f\<lparr>ch_slashing := sl\<rparr>"] d b(1) by (auto simp: deliverable_def)
  obtain st where "apply_remote_block_inner V J sync b f = (Inr (), finish_block V J b
      (f\<lparr>ch_slashing := sl, ch_checkin_cache := cc, ch_state := sync_slashing_to_world_state sl s3, ch_store := st\<rparr>))"
    using remote_runs[of V J b f sync sl fees s1 s3 "f\<lparr>ch_slashing := sl, ch_checkin_cache := cc\<rparr>" state_bytes]
      conn sig auth(1) run wit root bytes same d by (auto simp: p1 deliverable_def)
  moreover have "in_step p' (finish_block V J b
      (f\<lparr>ch_slashing := sl, ch_checkin_cache := cc, ch_state := sync_slashing_to_world_state sl s3, ch_store := st\<rparr>))"
    unfolding p' by (rule finish_in_step) (simp add: consensus_view_def p1 same)
  ultimately show ?thesis by (simp add: finish_block_effect)
qed

end
