(* ===== verification/Chain_Safety.thy ===== *)
theory Chain_Safety
  imports Chain
begin

text \<open>
  What a node guarantees about the blocks it accepts, rejects and produces, on top of the
  operations of \<open>Chain\<close>. A concrete two-node setting for the examples comes first.
\<close>

section \<open>A concrete node\<close>

text \<open>
  One validator, alice, in a network of one, at height 7, with a funded account and one transfer
  pending. Any signature verifies; the codec knows the one block that she will build.
\<close>

definition demo_base :: node_env where
  "demo_base = \<lparr>ne_ext = transfer_externals 5, ne_codec = sample_codec, sign = (\<lambda>_ _. []),
     verifying_key = (\<lambda>_. alice), enc_world = (\<lambda>_. Inr []), dec_world = (\<lambda>_. Inl ''short''),
     dec_world_v2 = (\<lambda>_. Inl ''short''), dec_world_v1 = (\<lambda>_. Inl ''short''),
     enc_delegations = (\<lambda>_. Inr []), dec_delegations = (\<lambda>_. Inl ''short''),
     enc_offline = (\<lambda>_. Inr []), dec_offline = (\<lambda>_. Inl ''short''), enc_token_transfer = (\<lambda>_. Inr []),
     state_error_text = (\<lambda>_. []), store_error_text = (\<lambda>_. [])\<rparr>"

definition demo_inputs :: inputs where
  "demo_inputs = \<lparr>in_now = 100, in_instant = 0, in_read = None, in_put_block = None,
     in_put_receipts = None, in_put_meta = None\<rparr>"

definition demo_tip :: Block where
  "demo_tip = sample_block\<lparr>bl_height := 7\<rparr>"

definition demo_node :: ChainInner where
  "demo_node = \<lparr>ch_state = funded_world, ch_store = store_empty, ch_mempool = [sample_tx],
     ch_signing_key = [], ch_validator_address = alice, ch_latest_block = demo_tip,
     ch_validator_set = ValidatorSet_new\<lparr>va_active := [\<lparr>av_address = alice, av_stake = 1,
       av_agent_score = 0, av_weight = 1\<rparr>]\<rparr>,
     ch_genesis_hash = [], ch_chain_id = [], ch_slashing = SlashingState_default,
     ch_pending_votes = bt_empty, ch_offline_validators = [], ch_fast_sync_pending = False,
     ch_bootstrap_peer_ids = [], ch_latest_block_received = 0, ch_total_tx_count = 0,
     ch_version_manifest = None, ch_last_accepted_snapshot_height = 0, ch_connected_peer_ids = [],
     ch_checkin_cache = bt_empty\<rparr>"

definition demo_block :: Block where
  "demo_block = fst (assemble_block demo_base demo_inputs False demo_node)"

definition demo_env :: node_env where
  "demo_env = demo_base\<lparr>ne_codec := sample_codec\<lparr>dec_block := (\<lambda>_. Inr demo_block)\<rparr>\<rparr>"

lemma rejected_subset: "set (rejected_txs E i txs s) \<subseteq> set txs"
proof (induction txs arbitrary: i s)
  case (Cons tx txs)
  obtain r s1 where "apply_tx E (of_nat i) s tx = (r, s1)" by force
  then show ?case using Cons.IH[of "Suc i" s1] by (cases r) auto
qed simp

lemma demo_inv: "chain_inv demo_node"
proof -
  have "miners funded_world = bt_empty" by (simp add: funded_world_def WorldState_default_def)
  then show ?thesis
    by (simp add: chain_inv_def demo_node_def demo_tip_def sample_block_def funded_world_inv mining_inv_def
        HEARTBEAT_V2_HEIGHT_def)
qed

lemma demo_clean: "clean_pending demo_env demo_inputs demo_node"
proof -
  have "set (rejected_txs E i (take n (pending_order [sample_tx])) s) \<subseteq> {sample_tx}" for E i n s
    using rejected_subset[of E i "take n (pending_order [sample_tx])" s]
      set_take_subset[of n "pending_order [sample_tx]"] by (simp add: pending_order_def)
  moreover have "\<not> leaves_residue sample_tx" by (simp add: leaves_residue_def sample_tx_def)
  ultimately show ?thesis unfolding clean_pending_def demo_node_def by fastforce
qed

lemma demo_assembled: "assemble_block demo_env demo_inputs False demo_node
    = (demo_block, snd (assemble_block demo_env demo_inputs False demo_node))"
proof -
  have "assemble_block demo_env demo_inputs False demo_node = assemble_block demo_base demo_inputs False demo_node"
    by (simp add: assemble_block_def demo_env_def sign_block_def producer_slashing_def)
  then show ?thesis by (simp add: demo_block_def)
qed

lemma demo_disk: "locations_ok (ne_codec demo_env)" "block_ok (ne_codec demo_env) demo_block"
  by (simp_all add: locations_ok_def block_ok_def demo_env_def sample_codec_def chunks_of_12_concat)

lemma demo_put: "in_put_block demo_inputs = None"
  by (simp add: demo_inputs_def)

lemma demo_produced:
  "produce_block demo_env demo_inputs demo_node = (Some demo_block, snd (produce_block demo_env demo_inputs demo_node))"
proof -
  have "is_proposer demo_env demo_node"
    by (simp add: is_proposer_def elect_proposer_def demo_node_def)
  moreover obtain st where "put_block_and_snapshot (ne_codec demo_env) (ne_ext demo_env) (in_put_block demo_inputs)
      demo_block [] (ch_store (snd (assemble_block demo_env demo_inputs False demo_node))) = (Inr (), st)"
    using put_snapshot_runs[OF demo_disk] demo_put by metis
  ultimately show ?thesis
    using demo_assembled
    by (auto simp: produce_block_def Let_def demo_env_def demo_base_def split: prod.splits)
qed

lemma demo_deliverable: "deliverable demo_env demo_inputs demo_inputs False demo_node demo_node demo_block"
  using demo_disk
  by (simp add: deliverable_def in_step_def key_ok_def demo_node_def demo_env_def demo_base_def cache_inv_def
      transfer_externals_def sample_externals_def demo_inputs_def demo_tip_def sample_block_def)

section \<open>Properties\<close>

text \<open>
  C7. The supply integrity check of a remote block never fires: on a node whose state came from
  blocks, the transactions, rewards, fees, epoch settlement and check-ins of the next block change
  the supply by exactly the burned share of the fees.
\<close>

theorem supply_check_never_fires:
  assumes "chain_inv inner" and "bl_height (ch_latest_block inner) + 1 \<noteq> 0"
  shows "fst (apply_remote_block_inner V I sync b inner) \<noteq> Inl SupplyViolation"
  using assms by (rule supply_check_silent)

theorem supply_check_never_fires_witness:
  "fst (apply_remote_block_inner demo_env demo_inputs False demo_block demo_node) \<noteq> Inl SupplyViolation"
  by (rule supply_check_never_fires[OF demo_inv]) (simp add: demo_node_def demo_tip_def)

text \<open>
  C2. Producer and follower agree: a block that a node produces is applied by every node in step
  with it, and both end in the same state, validator set, offline list and slashing counters.
  Needed are a proposer key whose signatures verify, a network of fewer than seven validators or
  catch-up, clocks within the tolerance, check-ins that the producer's cache holds by rights, a
  disk that works, and that no pending transaction is rejected with a trace (\<open>clean_pending\<close>).
\<close>

theorem produced_block_is_accepted:
  assumes "deliverable V I J sync p f b" and "chain_inv p" and "bl_height (ch_latest_block p) + 1 \<noteq> 0"
    and "clean_pending V I p" and "produce_block V I p = (Some b, p')"
  shows "\<exists>f'. apply_remote_block_inner V J sync b f = (Inr (), f') \<and> in_step p' f' \<and> ch_latest_block f' = b"
  using assms by (rule replicated)

theorem produced_block_is_accepted_witness:
  "\<exists>f'. apply_remote_block_inner demo_env demo_inputs False demo_block demo_node = (Inr (), f')
     \<and> in_step (snd (produce_block demo_env demo_inputs demo_node)) f' \<and> ch_latest_block f' = demo_block"
  by (rule produced_block_is_accepted[OF demo_deliverable demo_inv _ demo_clean demo_produced])
    (simp add: demo_node_def demo_tip_def)

lemma length_valid_signers: "length (valid_signers E active b) = card (set (valid_signers E active b))"
  by (simp add: valid_signers_def length_remdups_card_conv)



text \<open>
  A rejected block changes nothing but the slashing counters and the check-in cache, unless
  the rejection is the failure to write the block.
\<close>

theorem rejected_block_frame:
  assumes "apply_remote_block_inner V I sync b inner = (Inl e, inner')"
    and "\<forall>x. e \<noteq> StoreFailed x" and "\<forall>x. e \<noteq> SerializationFailed x"
  shows "\<exists>sl c. inner' = inner\<lparr>ch_slashing := sl, ch_checkin_cache := c\<rparr>"
  using remote_rejected[OF assms] by (simp add: only_marks_def)

theorem rejected_block_frame_witness:
  "\<exists>sl c. snd (apply_remote_block_inner demo_env demo_inputs False demo_tip demo_node)
     = demo_node\<lparr>ch_slashing := sl, ch_checkin_cache := c\<rparr>"
proof -
  have run: "apply_remote_block_inner demo_env demo_inputs False demo_tip demo_node = (Inl (HeightMismatch 8 7), demo_node)"
    by (simp add: apply_remote_block_inner_def check_connection_def demo_node_def demo_tip_def)
  show ?thesis unfolding run snd_conv by (rule rejected_block_frame[OF run]) simp_all
qed

text \<open>
  Conflicting gossip blocks are accountable: in a network of at least seven validators, any two
  blocks that pass the signature check of the same active set carry valid signatures of more than
  a third of it in common.
\<close>

theorem gossip_blocks_share_signers:
  assumes "check_signatures E active False b1 = None" and "check_signatures E active False b2 = None"
    and "7 \<le> length active" and "distinct (map av_address active)"
  shows "length active < 3 * card (set (valid_signers E active b1) \<inter> set (valid_signers E active b2))"
proof -
  let ?V = "av_address ` set active"
  have n: "card ?V = length active" using distinct_card[OF assms(4)] by simp
  have "quorum (card ?V) \<le> card (set (valid_signers E active b))" if "check_signatures E active False b = None" for b
  proof -
    have "\<not> length (valid_signers E active b) < quorum (length active)"
      using that assms(3) by (simp add: check_signatures_def required_signatures_def Let_def split: if_splits)
    then show ?thesis by (simp only: n length_valid_signers not_less)
  qed
  moreover have "set (valid_signers E active b) \<subseteq> ?V" for b by (auto simp: valid_signers_def)
  moreover have "?V \<noteq> {}" using assms(3) by auto
  ultimately show ?thesis
    using quorum_intersection[of ?V "set (valid_signers E active b1)" "set (valid_signers E active b2)"] assms(1,2) n
    by simp
qed

definition seven :: "ActiveValidator list" where
  "seven = map (\<lambda>i. \<lparr>av_address = [i], av_stake = 1, av_agent_score = 0, av_weight = 1\<rparr>) [0, 1, 2, 3, 4, 5, 6]"

definition signed_by :: "u8 list \<Rightarrow> Block" where
  "signed_by is = demo_tip\<lparr>bl_signatures := map (\<lambda>i. ([i], [])) is\<rparr>"

theorem gossip_blocks_share_signers_witness:
  "7 < 3 * card (set (valid_signers sample_externals seven (signed_by [0, 1, 2, 3, 4]))
     \<inter> set (valid_signers sample_externals seven (signed_by [2, 3, 4, 5, 6])))"
proof -
  have "check_signatures sample_externals seven False (signed_by [0, 1, 2, 3, 4]) = None"
    "check_signatures sample_externals seven False (signed_by [2, 3, 4, 5, 6]) = None"
    by (simp_all add: check_signatures_def valid_signers_def required_signatures_def quorum_def seven_def
        signed_by_def sample_externals_def Let_def)
  from gossip_blocks_share_signers[OF this] show ?thesis by (simp add: seven_def)
qed

text \<open>
  A write that fails leaves the node ahead of its own chain: where the block would have been
  accepted, a database error makes \<open>apply_remote_block_inner\<close> return an error with the state
  already at the new height, while the tip and the store stay behind.
\<close>

lemma executed_height:
  assumes "run_txs E i 0 txs (s\<lparr>block_height := h, block_timestamp := t\<rparr>) = Inr (fees, s1)"
    and "s3 = s2 \<or> s3 = credit_checkins e ws s2" and "s2 = fst (settle_block active offline p h fees s1)"
  shows "block_height (sync_slashing_to_world_state sl s3) = h"
proof -
  have "block_height s3 = block_height s2" using assms(2) credit_checkins_effect[of e ws s2] by auto
  then show ?thesis
    using run_txs_effect[OF assms(1)] settle_block_effect(2)[of active offline p h fees s1] assms(3)
    by (simp add: sync_slashing_effect)
qed

lemma other_inputs:
  fixes I :: inputs and d :: "string option"
  defines "J \<equiv> I\<lparr>in_put_block := d\<rparr>"
  shows "check_connection V J b inner = check_connection V I b inner"
    "check_witnesses V J store s h seen ws = check_witnesses V I store s h seen ws"
    "remote_checkins V J b inner s = remote_checkins V I b inner s"
proof -
  show conn: "check_connection V J b inner = check_connection V I b inner" by (simp add: check_connection_def J_def Let_def)
  have "check_reference V J store w = check_reference V I store w" for w store
    by (simp add: check_reference_def J_def)
  then have "check_witnesses V J store s h seen ws = check_witnesses V I store s h seen ws" for store s h seen ws
    by (induction ws arbitrary: seen) (simp_all add: Let_def split: option.split)
  then show "check_witnesses V J store s h seen ws = check_witnesses V I store s h seen ws"
    "remote_checkins V J b inner s = remote_checkins V I b inner s" by (simp_all add: remote_checkins_def)
qed

theorem failed_write_leaves_state_ahead:
  assumes "apply_remote_block_inner V I sync b inner = (Inr (), inner')"
  shows "\<exists>inner''. apply_remote_block_inner V (I\<lparr>in_put_block := Some msg\<rparr>) sync b inner = (Inl (StoreFailed (Db msg)), inner'')
    \<and> ch_latest_block inner'' = ch_latest_block inner \<and> ch_store inner'' = ch_store inner
    \<and> block_height (ch_state inner'') = bl_height (ch_latest_block inner) + 1"
proof -
  let ?J = "I\<lparr>in_put_block := Some msg\<rparr>"
  obtain sl fees s1 s3 inner2 state_bytes store' where
    c: "check_connection V I b inner = None" "check_signatures (ne_ext V) (ch_active inner) sync b = None"
    "authorize_proposer (ne_ext V) (ch_active inner) b (ch_slashing inner) = Inr sl"
    and r: "run_txs (ne_ext V) 0 0 (bl_transactions b) ((ch_state inner)\<lparr>block_height := bl_height b,
       block_timestamp := bl_timestamp b\<rparr>) = Inr (fees, s1)"
    and w: "remote_checkins V I b (inner\<lparr>ch_slashing := sl\<rparr>) (fst (settle_block (ch_active inner)
       (ch_offline_validators inner) (bl_validator b) (bl_height b) fees s1)) = Inr (s3, inner2)"
    and k: "state_root (ne_ext V) (sync_slashing_to_world_state sl s3) = bl_state_root b"
    "enc_world V (sync_slashing_to_world_state sl s3) = Inr state_bytes"
    "put_block_and_snapshot (ne_codec V) (ne_ext V) (in_put_block I) b state_bytes (ch_store inner2) = (Inr (), store')"
    using assms by (rule remote_accepted)
  have "total_supply (sync_slashing_to_world_state sl s3) = total_supply (ch_state inner) - expected_burn fees"
    using assms c r w k by (simp add: apply_remote_block_inner_def Let_def split: if_splits)
  moreover have "put_block_and_snapshot (ne_codec V) (ne_ext V) (Some msg) b state_bytes (ch_store inner2)
    = (Inl (Db msg), ch_store inner2)"
    using k(3) by (auto simp: put_block_and_snapshot_def commit_def split: sum.splits)
  ultimately have "apply_remote_block_inner V ?J sync b inner
    = (Inl (StoreFailed (Db msg)), inner2\<lparr>ch_state := sync_slashing_to_world_state sl s3\<rparr>)"
    using c r w k(1,2) by (simp add: apply_remote_block_inner_def Let_def other_inputs)
  moreover have "block_height (sync_slashing_to_world_state sl s3) = bl_height (ch_latest_block inner) + 1"
    using executed_height[OF r remote_checkins_shape(2)[OF w] refl] connected_height(1)[OF c(1)] by simp
  ultimately show ?thesis using remote_checkins_shape(1)[OF w] by auto
qed

theorem failed_write_leaves_state_ahead_witness:
  "\<exists>n. apply_remote_block_inner demo_env (demo_inputs\<lparr>in_put_block := Some ''disk full''\<rparr>) False demo_block demo_node
       = (Inl (StoreFailed (Db ''disk full'')), n) \<and> bl_height (ch_latest_block n) = 7 \<and> block_height (ch_state n) = 8"
proof -
  obtain f' where "apply_remote_block_inner demo_env demo_inputs False demo_block demo_node = (Inr (), f')"
    using replicated[OF demo_deliverable demo_inv _ demo_clean demo_produced]
    by (auto simp: demo_node_def demo_tip_def)
  from failed_write_leaves_state_ahead[OF this, of "''disk full''"] show ?thesis
    by (auto simp: demo_node_def demo_tip_def)
qed

text \<open>
  A rejected block still counts against the elected proposer, each time it arrives: a block of
  the fallback whose transactions fail is refused, but every delivery adds one missed slot to the
  primary's counter, and the counters enter the state root.
\<close>

definition redeliver :: "node_env \<Rightarrow> inputs \<Rightarrow> Block \<Rightarrow> nat \<Rightarrow> ChainInner \<Rightarrow> ChainInner" where
  "redeliver V I b n inner = ((\<lambda>x. snd (apply_remote_block V I b x)) ^^ n) inner"

theorem rejected_block_counts_every_time:
  assumes "check_connection V I b inner = None" and "check_signatures (ne_ext V) (ch_active inner) False b = None"
    and "elect_proposer (ne_ext V) (ch_active inner) (bl_prev_hash b) (bl_height b) = Some primary"
    and "elect_fallback_proposer (ne_ext V) (ch_active inner) (bl_prev_hash b) (bl_height b) = Some (bl_validator b)"
    and "bl_validator b \<noteq> primary"
    and "run_txs (ne_ext V) 0 0 (bl_transactions b)
           ((ch_state inner)\<lparr>block_height := bl_height b, block_timestamp := bl_timestamp b\<rparr>) = Inl e"
  shows "(\<exists>sl. redeliver V I b n inner = inner\<lparr>ch_slashing := sl\<rparr>)
    \<and> bt_get_or (sl_missed_slots (ch_slashing (redeliver V I b n inner))) 0 primary
        = bt_get_or (sl_missed_slots (ch_slashing inner)) 0 primary + of_nat n"
proof (induction n)
  case 0
  show ?case by (simp add: redeliver_def exI[of _ "ch_slashing inner"])
next
  case (Suc n)
  obtain sl where sl: "redeliver V I b n inner = inner\<lparr>ch_slashing := sl\<rparr>" using Suc by blast
  have conn: "check_connection V I b (inner\<lparr>ch_slashing := sl\<rparr>) = None"
    using assms(1) by (simp add: check_connection_def Let_def)
  have "apply_remote_block V I b (inner\<lparr>ch_slashing := sl\<rparr>)
    = (Inl (TxFailed e), inner\<lparr>ch_slashing := record_missed sl primary\<rparr>)"
    using conn assms by (simp add: apply_remote_block_def apply_remote_block_inner_def authorize_proposer_def Let_def)
  then have "redeliver V I b (Suc n) inner = inner\<lparr>ch_slashing := record_missed sl primary\<rparr>"
    using sl by (simp add: redeliver_def)
  then show ?case
    using Suc sl by (auto simp: record_missed_def record_missed_slot_def record_assigned_slot_def bt_entry_def
        bt_get_or_def algebra_simps)
qed

text \<open>Alice holds all the weight, bob is the fallback and sends a block with a wrong nonce.\<close>

definition bob_node :: ChainInner where
  "bob_node = demo_node\<lparr>ch_validator_set := ValidatorSet_new\<lparr>va_active :=
     [\<lparr>av_address = alice, av_stake = 1, av_agent_score = 0, av_weight = 1\<rparr>,
      \<lparr>av_address = bob, av_stake = 1, av_agent_score = 0, av_weight = 0\<rparr>]\<rparr>\<rparr>"

definition bob_block0 :: Block where
  "bob_block0 = \<lparr>bl_height = 8, bl_prev_hash = [], bl_timestamp = 100, bl_validator = bob,
     bl_transactions = [sample_tx\<lparr>tx_nonce := 9\<rparr>], bl_state_root = [], bl_hash = [],
     bl_signatures = [(bob, [])], bl_events = [], bl_checkin_witnesses = []\<rparr>"

definition bob_block :: Block where
  "bob_block = bob_block0\<lparr>bl_hash := compute_hash (ne_ext demo_env) bob_block0\<rparr>"

lemma bob_block_fields:
  "bl_height bob_block = 8" "bl_prev_hash bob_block = []" "bl_timestamp bob_block = 100"
  "bl_validator bob_block = bob" "bl_transactions bob_block = [sample_tx\<lparr>tx_nonce := 9\<rparr>]"
  "bl_signatures bob_block = [(bob, [])]" "verify_hash (ne_ext demo_env) bob_block"
  by (simp_all add: bob_block_def bob_block0_def verify_hash_def compute_hash_def)

lemma bob_tx_fails: "\<exists>e. run_txs (ne_ext demo_env) 0 0 [sample_tx\<lparr>tx_nonce := 9\<rparr>]
    (funded_world\<lparr>block_height := 8, block_timestamp := 100\<rparr>) = Inl e"
  by (simp add: demo_env_def demo_base_def transfer_eval MAX_TX_PAYLOAD_SIZE_def)

theorem rejected_block_counts_every_time_witness:
  "bt_get_or (sl_missed_slots (ch_slashing (redeliver demo_env demo_inputs bob_block 3 bob_node))) 0 alice = 3"
proof -
  have active: "ch_active bob_node = [\<lparr>av_address = alice, av_stake = 1, av_agent_score = 0, av_weight = 1\<rparr>,
      \<lparr>av_address = bob, av_stake = 1, av_agent_score = 0, av_weight = 0\<rparr>]"
    and state: "ch_state bob_node = funded_world" and tip: "ch_latest_block bob_node = demo_tip"
    and sl: "ch_slashing bob_node = SlashingState_default"
    by (simp_all add: bob_node_def demo_node_def)
  have elect: "elect_proposer E (ch_active bob_node) x h = Some alice" for E x h
    by (simp add: active elect_proposer_def Let_def)
  have conn: "check_connection demo_env demo_inputs bob_block bob_node = None"
    by (simp add: check_connection_def bob_block_fields tip demo_tip_def sample_block_def demo_inputs_def Let_def)
  have sigs: "check_signatures (ne_ext demo_env) (ch_active bob_node) False bob_block = None"
    by (simp add: check_signatures_def valid_signers_def required_signatures_def bob_block_fields active Let_def
        demo_env_def demo_base_def transfer_externals_def sample_externals_def)
  have fall: "elect_fallback_proposer (ne_ext demo_env) (ch_active bob_node) (bl_prev_hash bob_block)
      (bl_height bob_block) = Some (bl_validator bob_block)"
    by (simp add: elect_fallback_proposer_def elect bob_block_fields) (simp add: active rank_def replicate_eq_replicate)
  have "bl_validator bob_block \<noteq> alice" by (simp add: bob_block_fields replicate_eq_replicate)
  with rejected_block_counts_every_time[OF conn sigs elect fall, of _ 3] bob_tx_fails show ?thesis
    by (auto simp: bob_block_fields state sl SlashingState_default_def bt_get_or_def)
qed

section \<open>Votes\<close>

text \<open>Every signature on the tip is a valid one of a different active validator.\<close>

definition signatures_ok :: "node_env \<Rightarrow> ChainInner \<Rightarrow> bool" where
  "signatures_ok V inner \<longleftrightarrow> distinct (map fst (bl_signatures (ch_latest_block inner)))
     \<and> (\<forall>s \<in> set (bl_signatures (ch_latest_block inner)). is_active (ch_validator_set inner) (fst s)
          \<and> vk_from_bytes_ok (ne_ext V) (fst s)
          \<and> verify_strict (ne_ext V) (fst s) (bl_hash (ch_latest_block inner)) (snd s))"

definition new_valid_vote :: "node_env \<Rightarrow> BlockVote \<Rightarrow> ChainInner \<Rightarrow> bool" where
  "new_valid_vote V vote inner \<longleftrightarrow> bv_height vote = bl_height (ch_latest_block inner)
     \<and> bv_block_hash vote = bl_hash (ch_latest_block inner) \<and> is_active (ch_validator_set inner) (bv_voter vote)
     \<and> \<not> bt_contains (ch_pending_votes inner) (bv_voter vote)
     \<and> \<not> (\<exists>s \<in> set (bl_signatures (ch_latest_block inner)). fst s = bv_voter vote)
     \<and> vk_from_bytes_ok (ne_ext V) (bv_voter vote)
     \<and> verify_strict (ne_ext V) (bv_voter vote) (bv_block_hash vote) (bv_signature vote)"

lemma signatures_counted:
  assumes "signatures_ok V inner"
  shows "valid_signers (ne_ext V) (ch_active inner) (ch_latest_block inner)
    = map fst (bl_signatures (ch_latest_block inner))"
proof -
  have "filter (\<lambda>s. (\<exists>v \<in> set (ch_active inner). av_address v = fst s) \<and> vk_from_bytes_ok (ne_ext V) (fst s)
      \<and> verify_strict (ne_ext V) (fst s) (bl_hash (ch_latest_block inner)) (snd s)) (bl_signatures (ch_latest_block inner))
    = bl_signatures (ch_latest_block inner)"
    using assms by (intro filter_True) (simp add: signatures_ok_def is_active_def)
  then show ?thesis using assms by (simp add: valid_signers_def signatures_ok_def distinct_remdups_id)
qed

lemma apply_vote_result:
  "apply_vote V I vote inner = (acc, inner') \<Longrightarrow> acc = new_valid_vote V vote inner"
  "apply_vote V I vote inner = (acc, inner') \<Longrightarrow> \<not> acc \<Longrightarrow> inner' = inner"
  "apply_vote V I vote inner = (acc, inner') \<Longrightarrow> acc \<Longrightarrow>
     ch_latest_block inner' = (ch_latest_block inner)\<lparr>bl_signatures := bl_signatures (ch_latest_block inner)
        @ [(bv_voter vote, bv_signature vote)]\<rparr>
     \<and> ch_validator_set inner' = ch_validator_set inner \<and> ch_state inner' = ch_state inner"
  by (auto simp: apply_vote_def new_valid_vote_def Let_def split: if_splits prod.splits)



end
