(* ===== verification/Chain_Sync.thy ===== *)
theory Chain_Sync
  imports Chain_Safety "HOL-Library.Sublist"
begin

text \<open>
  Catch-up between nodes, start-up from disk and pruning (\<open>node/src/chain.rs\<close>,
  \<open>p2p/src/protocol.rs\<close>): what a node answers to a peer, what it does with an answer, and how it
  restores itself.

  The blocks of one answer are applied one after the other, each with its own \<open>inputs\<close>, because
  the lock is taken per block and the clock moves on. A panic of the code (\<open>expect\<close>) is an error
  value of its own.
\<close>

section \<open>Requests and answers\<close>

datatype SyncRequest = GetBlocks u64 u32 | GetStatus | GetStateSnapshot | PushMinerCheckin MinerCheckinWitness

datatype SyncResponse =
    Blocks "Block list"
  | Status u64
  | StateSnapshot u64 hash32 bytes Block hash32
  | CheckinAccepted

text \<open>\<open>Chain::get_block\<close>: the tip from memory, the rest from the store.\<close>

definition chain_get_block :: "node_env \<Rightarrow> inputs \<Rightarrow> ChainInner \<Rightarrow> u64 \<Rightarrow> Block option" where
  "chain_get_block V I inner h =
     (if h = bl_height (ch_latest_block inner) then Some (ch_latest_block inner)
      else case get_block (ne_codec V) (in_read I) (ch_store inner) h of
          Inr b \<Rightarrow> b
        | Inl _ \<Rightarrow> None)"

text \<open>The loop over \<open>from_height..end\<close>, which stops at the first gap.\<close>

fun serve_blocks :: "node_env \<Rightarrow> inputs \<Rightarrow> ChainInner \<Rightarrow> u64 \<Rightarrow> nat \<Rightarrow> Block list" where
  "serve_blocks V I inner h 0 = []"
| "serve_blocks V I inner h (Suc n) = (case chain_get_block V I inner h of
      Some block \<Rightarrow> block # serve_blocks V I inner (h + 1) n
    | None \<Rightarrow> [])"

definition handle_sync_request :: "node_env \<Rightarrow> inputs \<Rightarrow> SyncRequest \<Rightarrow> ChainInner \<Rightarrow> SyncResponse" where
  "handle_sync_request V I request inner = (case request of
      GetBlocks from_height wanted \<Rightarrow>
        (let capped_count = ucast (min wanted 100);
             stop = saturating_add from_height capped_count in
         Blocks (serve_blocks V I inner from_height (unat (stop - from_height))))
    | GetStatus \<Rightarrow> Status (bl_height (ch_latest_block inner))
    | PushMinerCheckin _ \<Rightarrow> CheckinAccepted
    | GetStateSnapshot \<Rightarrow> (case get_state_snapshot (in_read I) (ch_store inner) of
        Inr (Some state_data) \<Rightarrow> StateSnapshot (bl_height (ch_latest_block inner))
          (bl_state_root (ch_latest_block inner)) state_data (ch_latest_block inner) (ch_genesis_hash inner)
      | _ \<Rightarrow> Status (bl_height (ch_latest_block inner))))"

section \<open>Applying a batch\<close>

definition mentions_fork :: "string \<Rightarrow> bool" where
  "mentions_fork e \<longleftrightarrow> sublist ''prev_hash mismatch'' e \<or> sublist ''state_root mismatch'' e"

text \<open>
  The test of the error text. Three errors carry foreign text, which may mention anything; the
  texts of the others contain neither phrase.
\<close>

definition fork_error :: "node_env \<Rightarrow> BlockError \<Rightarrow> bool" where
  "fork_error V e = (case e of
      PrevHashMismatch \<Rightarrow> True
    | StateRootMismatch \<Rightarrow> True
    | TxFailed x \<Rightarrow> mentions_fork (state_error_text V x)
    | StoreFailed x \<Rightarrow> mentions_fork (store_error_text V x)
    | SerializationFailed x \<Rightarrow> mentions_fork x
    | _ \<Rightarrow> False)"

text \<open>The number of blocks applied, whether the first one showed a fork, and the node.\<close>

fun sync_batch ::
  "node_env \<Rightarrow> (nat \<Rightarrow> inputs) \<Rightarrow> nat \<Rightarrow> Block list \<Rightarrow> ChainInner \<Rightarrow> nat \<times> bool \<times> ChainInner" where
  "sync_batch V Is applied [] inner = (applied, False, inner)"
| "sync_batch V Is applied (block # blocks) inner = (case apply_synced_block V (Is applied) block inner of
      (Inr _, inner') \<Rightarrow> sync_batch V Is (Suc applied) blocks inner'
    | (Inl e, inner') \<Rightarrow> (applied, applied = 0 \<and> fork_error V e, inner'))"

section \<open>Snapshots\<close>

definition restore_slashing :: "WorldState \<Rightarrow> SlashingState" where
  "restore_slashing state = SlashingState_default\<lparr>sl_jailed := jailed_validators state,
     sl_missed_slots := validator_missed_slots state, sl_assigned_slots := validator_assigned_slots state,
     sl_processed_evidence := processed_evidence state\<rparr>"

definition restore_offline :: "node_env \<Rightarrow> inputs \<Rightarrow> ChainStore \<Rightarrow> SlashingState \<Rightarrow> address list" where
  "restore_offline V I st slashing = (case get_offline_validators (in_read I) st of
      Inr (Some ov_bytes) \<Rightarrow> (case dec_offline V ov_bytes of
          Inr ov \<Rightarrow> ov
        | Inl _ \<Rightarrow> process_downtime_penalties slashing)
    | _ \<Rightarrow> process_downtime_penalties slashing)"

text \<open>The epoch rotation is replayed on a snapshot that was taken before it.\<close>

definition replay_rotation :: "u64 \<Rightarrow> WorldState \<times> SlashingState \<Rightarrow> WorldState \<times> SlashingState" where
  "replay_rotation height x =
     (if is_epoch_boundary height
      then ((fst x)\<lparr>validator_uptime := bt_empty, validator_missed_slots := bt_empty,
              validator_assigned_slots := bt_empty\<rparr>, reset_epoch_counters (snd x))
      else x)"

definition snapshot_trusted :: "externals \<Rightarrow> u64 \<Rightarrow> Block \<Rightarrow> hash32 \<Rightarrow> ChainInner \<Rightarrow> bool" where
  "snapshot_trusted E height latest_block genesis_hash inner \<longleftrightarrow>
     genesis_hash = ch_genesis_hash inner \<and> verify_hash E latest_block
     \<and> (\<exists>v \<in> set (ch_active inner). av_address v = bl_validator latest_block)
     \<and> bl_validator latest_block \<in> set (valid_signers E (ch_active inner) latest_block)
     \<and> length (valid_signers E (ch_active inner) latest_block) \<ge> required_signatures (ch_active inner)"

definition install_snapshot ::
  "node_env \<Rightarrow> inputs \<Rightarrow> u64 \<Rightarrow> WorldState \<Rightarrow> Block \<Rightarrow> ChainInner \<Rightarrow> ChainInner" where
  "install_snapshot V I height state latest_block inner =
     (let slashing = restore_slashing state;
          offline = restore_offline V I (ch_store inner) slashing;
          (state', slashing') = replay_rotation height (state, slashing);
          state'' = (if is_epoch_boundary height then sync_slashing_to_world_state slashing' state' else state') in
      inner\<lparr>ch_validator_set := with_initial_stakes (stakes state), ch_slashing := slashing',
        ch_offline_validators := offline, ch_state := state'', ch_latest_block := latest_block,
        ch_latest_block_received := in_instant I,
        ch_store := snd (put_block (ne_codec V) (ne_ext V) (in_put_block I) latest_block (ch_store inner)),
        ch_last_accepted_snapshot_height := height\<rparr>)"

definition apply_snapshot ::
  "node_env \<Rightarrow> inputs \<Rightarrow> u64 \<Rightarrow> bytes \<Rightarrow> Block \<Rightarrow> hash32 \<Rightarrow> ChainInner \<Rightarrow> SyncRequest option \<times> ChainInner" where
  "apply_snapshot V I height state_data latest_block genesis_hash inner =
     (if height \<le> bl_height (ch_latest_block inner) then (None, inner)
      else if height = ch_last_accepted_snapshot_height inner then (Some GetStatus, inner)
      else if \<not> snapshot_trusted (ne_ext V) height latest_block genesis_hash inner then (None, inner)
      else case from_snapshot_bytes (dec_world V) (dec_world_v2 V) (dec_world_v1 V) state_data of
          Inl _ \<Rightarrow> (Some GetStatus, inner)
        | Inr state \<Rightarrow>
            if state_root (ne_ext V) state \<noteq> bl_state_root latest_block then (None, inner)
            else (case put_state_snapshot (in_put_meta I) state_data (ch_store inner) of
                (Inl _, store') \<Rightarrow> (None, inner\<lparr>ch_store := store'\<rparr>)
              | (Inr _, store') \<Rightarrow> (Some (GetBlocks (height + 1) 20),
                  install_snapshot V I height state latest_block (inner\<lparr>ch_store := store'\<rparr>))))"

section \<open>Handling an answer\<close>

definition handle_sync_response ::
  "node_env \<Rightarrow> (nat \<Rightarrow> inputs) \<Rightarrow> SyncResponse \<Rightarrow> ChainInner \<Rightarrow> SyncRequest option \<times> ChainInner" where
  "handle_sync_response V Is response inner = (case response of
      Blocks blocks \<Rightarrow>
        (if blocks = [] then (Some GetStateSnapshot, inner)
         else
           (let (applied, fork, inner') = sync_batch V Is 0 blocks inner in
            if fork then (Some GetStateSnapshot, inner')
            else if applied = length blocks
            then (Some (GetBlocks (bl_height (ch_latest_block inner') + 1) 20), inner')
            else (None, inner')))
    | Status height \<Rightarrow>
        (let our_height = bl_height (ch_latest_block inner) in
         if height > our_height
         then (let gap = height - our_height in
               if gap > 1000 then (Some GetStateSnapshot, inner)
               else (Some (GetBlocks (our_height + 1) (min (ucast gap) 20)), inner))
         else (None, inner))
    | StateSnapshot height _ state_data latest_block genesis_hash \<Rightarrow>
        apply_snapshot V (Is 0) height state_data latest_block genesis_hash inner
    | CheckinAccepted \<Rightarrow> (None, inner))"

section \<open>Start-up and pruning\<close>

datatype StartError = Panic string | StartStore StoreError | SnapshotDecode string | RemoveFailed string
  | NoChainData | GenesisFailed string | EncodeFailed string

definition is_placeholder :: "address \<Rightarrow> bool" where
  "is_placeholder addr \<longleftrightarrow> (\<forall>b \<in> set (tl addr). b = 0) \<and> hd addr \<noteq> 0"

definition real_stakes :: "(address \<times> u128) list \<Rightarrow> (address \<times> u128) list" where
  "real_stakes validator_stakes =
     (if \<exists>p \<in> set validator_stakes. \<not> is_placeholder (fst p)
      then filter (\<lambda>p. \<not> is_placeholder (fst p)) validator_stakes else validator_stakes)"

definition count_transactions :: "node_env \<Rightarrow> inputs \<Rightarrow> ChainStore \<Rightarrow> u64 \<Rightarrow> u64" where
  "count_transactions V I st height = sum_list (map (\<lambda>h.
     case get_block (ne_codec V) (in_read I) st (of_nat h) of
       Inr (Some b) \<Rightarrow> of_nat (length (bl_transactions b))
     | _ \<Rightarrow> 0) [0..<Suc (unat height)])"

text \<open>Everything after the state, the tip, the stakes and the genesis hash are known.\<close>

definition boot ::
  "node_env \<Rightarrow> inputs \<Rightarrow> signing_key \<Rightarrow> string \<Rightarrow> ChainStore \<Rightarrow> WorldState \<times> Block \<times> (address \<times> u128) list \<times> hash32
   \<Rightarrow> ChainInner" where
  "boot V I key chain_id st x = (case x of (state0, latest_block, validator_stakes, genesis_hash) \<Rightarrow>
     (let state1 = state0\<lparr>stakes := fold (\<lambda>p m. bt_entry (fst p) (snd p) (\<lambda>n. n) m)
            (real_stakes validator_stakes) (stakes state0)\<rparr>;
          slashing1 = restore_slashing state1;
          (state2, slashing2) = replay_rotation (bl_height latest_block) (state1, slashing1) in
      \<lparr>ch_state = state2, ch_store = st, ch_mempool = [], ch_signing_key = key,
       ch_validator_address = verifying_key V key, ch_latest_block = latest_block,
       ch_validator_set = with_initial_stakes (stakes state1), ch_genesis_hash = genesis_hash,
       ch_chain_id = chain_id, ch_slashing = slashing2, ch_pending_votes = bt_empty,
       ch_offline_validators = restore_offline V I st slashing2, ch_fast_sync_pending = False,
       ch_bootstrap_peer_ids = [], ch_latest_block_received = in_instant I,
       ch_total_tx_count = count_transactions V I st (bl_height latest_block), ch_version_manifest = None,
       ch_last_accepted_snapshot_height = 0, ch_connected_peer_ids = [], ch_checkin_cache = bt_empty\<rparr>))"

definition new_from_genesis ::
  "node_env \<Rightarrow> inputs \<Rightarrow> (string \<Rightarrow> bytes option) \<Rightarrow> GenesisConfig \<Rightarrow> bool \<Rightarrow> signing_key \<Rightarrow> string \<Rightarrow> ChainStore
   \<Rightarrow> StartError + ChainInner" where
  "new_from_genesis V I unhex config allow_genesis key chain_id st =
     (if \<not> allow_genesis then Inl NoChainData
      else case create_genesis_state unhex config of
          Inl e \<Rightarrow> Inl (GenesisFailed e)
        | Inr state \<Rightarrow>
            (let block = create_genesis_block (ne_ext V) state config in
             case put_block (ne_codec V) (ne_ext V) (in_put_block I) block st of
               (Inl e, _) \<Rightarrow> Inl (StartStore e)
             | (Inr _, st1) \<Rightarrow> (case enc_world V state of
                 Inl e \<Rightarrow> Inl (EncodeFailed e)
               | Inr state_bytes \<Rightarrow> (case put_state_snapshot (in_put_meta I) state_bytes st1 of
                   (Inl e, _) \<Rightarrow> Inl (StartStore e)
                 | (Inr _, st2) \<Rightarrow> (case build_validator_set unhex (gc_validators config) of
                     Inl e \<Rightarrow> Inl (GenesisFailed e)
                   | Inr validator_stakes \<Rightarrow>
                       Inr (boot V I key chain_id st2 (state, block, validator_stakes, bl_hash block)))))))"

definition restore_delegations :: "node_env \<Rightarrow> inputs \<Rightarrow> ChainStore \<Rightarrow> WorldState \<Rightarrow> WorldState" where
  "restore_delegations V I st state = (case get_user_delegations (in_read I) st of
      Inr (Some ud_bytes) \<Rightarrow> (case dec_delegations V ud_bytes of
          Inr ud \<Rightarrow> state\<lparr>user_delegations := ud\<rparr>
        | Inl _ \<Rightarrow> state)
    | _ \<Rightarrow> state)"

text \<open>
  \<open>Chain::new\<close>. A state that does not match the tip makes the node delete its database and start
  again on an empty one, where the recursion cannot come back: \<open>remove\<close> is the error of the
  deletion, if any, and \<open>I'\<close> the inputs of the second attempt.
\<close>

definition chain_new ::
  "node_env \<Rightarrow> inputs \<Rightarrow> inputs \<Rightarrow> string option \<Rightarrow> (string \<Rightarrow> bytes option) \<Rightarrow> GenesisConfig \<Rightarrow> bool \<Rightarrow> signing_key
   \<Rightarrow> string \<Rightarrow> ChainStore \<Rightarrow> StartError + ChainInner" where
  "chain_new V I I' remove unhex config allow_genesis key chain_id st =
     (case get_latest_height (in_read I) st of
        Inl e \<Rightarrow> Inl (StartStore e)
      | Inr None \<Rightarrow> new_from_genesis V I unhex config allow_genesis key chain_id st
      | Inr (Some height) \<Rightarrow>
          (case get_state_snapshot (in_read I) st of
             Inl e \<Rightarrow> Inl (StartStore e)
           | Inr None \<Rightarrow> Inl (Panic ''snapshot must exist if blocks exist'')
           | Inr (Some state_bytes) \<Rightarrow>
               (case from_snapshot_bytes (dec_world V) (dec_world_v2 V) (dec_world_v1 V) state_bytes of
                  Inl e \<Rightarrow> Inl (SnapshotDecode e)
                | Inr state0 \<Rightarrow>
                    (let state = restore_delegations V I st state0 in
                     case get_block (ne_codec V) (in_read I) st height of
                       Inl e \<Rightarrow> Inl (StartStore e)
                     | Inr None \<Rightarrow> Inl (Panic ''block must exist'')
                     | Inr (Some block) \<Rightarrow>
                         if state_root (ne_ext V) state \<noteq> bl_state_root block
                         then (case remove of
                             Some e \<Rightarrow> Inl (RemoveFailed e)
                           | None \<Rightarrow> new_from_genesis V I' unhex config allow_genesis key chain_id store_empty)
                         else (case get_block (ne_codec V) (in_read I) st 0 of
                             Inl e \<Rightarrow> Inl (StartStore e)
                           | Inr b0 \<Rightarrow>
                               (let gen_hash = (case b0 of Some b \<Rightarrow> bl_hash b | None \<Rightarrow> replicate 32 0) in
                                if bt_is_empty (stakes state)
                                then (case build_validator_set unhex (gc_validators config) of
                                    Inl e \<Rightarrow> Inl (GenesisFailed e)
                                  | Inr vs \<Rightarrow> Inr (boot V I key chain_id st (state, block, vs, gen_hash)))
                                else Inr (boot V I key chain_id st
                                       (state, block, entries (stakes state), gen_hash))))))))"

definition prune_old_blocks :: "inputs \<Rightarrow> u64 \<Rightarrow> ChainInner \<Rightarrow> ChainInner" where
  "prune_old_blocks I keep_blocks inner =
     (let prune_below = saturating_sub (bl_height (ch_latest_block inner)) keep_blocks in
      if prune_below \<le> 1 then inner
      else inner\<lparr>ch_store := snd (prune_blocks_below (in_put_meta I) prune_below (ch_store inner))\<rparr>)"

definition set_fast_sync :: "ChainInner \<Rightarrow> ChainInner" where
  "set_fast_sync inner = inner\<lparr>ch_fast_sync_pending := True\<rparr>"

definition set_bootstrap_peers :: "string list \<Rightarrow> ChainInner \<Rightarrow> ChainInner" where
  "set_bootstrap_peers peer_ids inner = inner\<lparr>ch_bootstrap_peer_ids := peer_ids\<rparr>"

section \<open>Properties\<close>

text \<open>
  C38. A snapshot can roll a node back: the height that the guards compare is the one of the message,
  not the one of the block it carries. Any block that once gathered the required signatures of the
  current validator set is installed as the new tip under an inflated message height, with the
  state that goes with it.
\<close>

theorem snapshot_height_is_unchecked:
  assumes "snapshot_trusted (ne_ext V) 0 b (ch_genesis_hash inner) inner"
    and "from_snapshot_bytes (dec_world V) (dec_world_v2 V) (dec_world_v1 V) state_data = Inr state"
    and "state_root (ne_ext V) state = bl_state_root b" and "in_put_meta I = None"
    and "height > bl_height (ch_latest_block inner)" and "height \<noteq> ch_last_accepted_snapshot_height inner"
  shows "\<exists>inner'. apply_snapshot V I height state_data b (ch_genesis_hash inner) inner
      = (Some (GetBlocks (height + 1) 20), inner') \<and> ch_latest_block inner' = b
    \<and> balances (ch_state inner') = balances state"
  using assms
  by (simp add: apply_snapshot_def snapshot_trusted_def put_state_snapshot_def put_meta_def commit_def not_le
      install_snapshot_def replay_rotation_def sync_slashing_to_world_state_def Let_def)

definition old_block0 :: Block where
  "old_block0 = \<lparr>bl_height = 3, bl_prev_hash = [], bl_timestamp = 1, bl_validator = alice, bl_transactions = [],
     bl_state_root = state_root (ne_ext demo_env) WorldState_default, bl_hash = [], bl_signatures = [(alice, [])],
     bl_events = [], bl_checkin_witnesses = []\<rparr>"

definition old_block :: Block where
  "old_block = old_block0\<lparr>bl_hash := compute_hash (ne_ext demo_env) old_block0\<rparr>"

theorem snapshot_height_is_unchecked_witness:
  "bl_height (ch_latest_block demo_node) = 7
   \<and> (\<exists>n. apply_snapshot (demo_env\<lparr>dec_world := (\<lambda>_. Inr WorldState_default)\<rparr>) demo_inputs 1000000 [] old_block [] demo_node
        = (Some (GetBlocks 1000001 20), n) \<and> bl_height (ch_latest_block n) = 3)"
proof -
  let ?V = "demo_env\<lparr>dec_world := (\<lambda>_. Inr WorldState_default)\<rparr>"
  have fields: "bl_height old_block = 3" "bl_validator old_block = alice" "bl_signatures old_block = [(alice, [])]"
    "bl_state_root old_block = state_root (ne_ext demo_env) WorldState_default" "verify_hash (ne_ext demo_env) old_block"
    by (simp_all add: old_block_def old_block0_def verify_hash_def compute_hash_def)
  have gen: "ch_genesis_hash demo_node = []" "ch_last_accepted_snapshot_height demo_node = 0"
    "bl_height (ch_latest_block demo_node) = 7"
    by (simp_all add: demo_node_def demo_tip_def)
  have active: "ch_active demo_node = [\<lparr>av_address = alice, av_stake = 1, av_agent_score = 0, av_weight = 1\<rparr>]"
    by (simp add: demo_node_def)
  have "valid_signers (ne_ext demo_env) (ch_active demo_node) old_block = [alice]"
    by (simp add: valid_signers_def fields active demo_env_def demo_base_def transfer_externals_def sample_externals_def)
  then have "snapshot_trusted (ne_ext ?V) 0 old_block (ch_genesis_hash demo_node) demo_node"
    using fields by (simp add: snapshot_trusted_def active required_signatures_def)
  from snapshot_height_is_unchecked[OF this, of "[]" WorldState_default demo_inputs 1000000] show ?thesis
    using fields gen by (auto simp: from_snapshot_bytes_def demo_inputs_def)
qed

text \<open>
  What a peer is served: at most a hundred blocks, as many as asked for unless one is missing,
  at consecutive heights from the one requested.
\<close>

lemma serve_blocks_spec:
  "length (serve_blocks V I inner h n) \<le> n
   \<and> (\<forall>i < length (serve_blocks V I inner h n). chain_get_block V I inner (h + of_nat i) = Some (serve_blocks V I inner h n ! i))
   \<and> (length (serve_blocks V I inner h n) < n \<longrightarrow>
        chain_get_block V I inner (h + of_nat (length (serve_blocks V I inner h n))) = None)"
proof (induction n arbitrary: h)
  case (Suc n)
  then show ?case
  proof (cases "chain_get_block V I inner h")
    case (Some b)
    then show ?thesis using Suc[of "h + 1"] by (auto simp: less_Suc_eq_0_disj add.assoc)
  qed simp
qed simp

lemma unat_u32_u64: "unat (ucast (x :: u32) :: u64) = unat x"
proof -
  have "unat x < 2 ^ 64" using unsigned_less[of x, where ?'a = nat] by simp
  then show ?thesis by (simp add: unsigned_ucast_eq take_bit_nat_eq_self)
qed

theorem served_blocks:
  assumes "handle_sync_request V I (GetBlocks from_height wanted) inner = Blocks bs"
    and "unat from_height + 100 < 2 ^ 64"
  shows "length bs \<le> unat (min wanted 100)
    \<and> (\<forall>i < length bs. chain_get_block V I inner (from_height + of_nat i) = Some (bs ! i))
    \<and> (length bs = unat (min wanted 100) \<or> chain_get_block V I inner (from_height + of_nat (length bs)) = None)"
proof -
  have "unat (min wanted 100) \<le> 100" by (simp add: min_def word_le_nat_alt)
  then have "saturating_add from_height (ucast (min wanted 100)) - from_height = ucast (min wanted 100)"
    using assms(2) by (simp add: saturating_add_def unat_u32_u64)
  then have "bs = serve_blocks V I inner from_height (unat (min wanted 100))"
    using assms(1) by (simp add: handle_sync_request_def Let_def unat_u32_u64)
  then show ?thesis
    using serve_blocks_spec[of V I inner from_height "unat (min wanted 100)"] by (auto simp: le_less)
qed

theorem served_blocks_witness:
  "\<exists>bs. handle_sync_request demo_env demo_inputs (GetBlocks 7 20) demo_node = Blocks bs
     \<and> length bs \<le> 20 \<and> (length bs = 20 \<or> chain_get_block demo_env demo_inputs demo_node (7 + of_nat (length bs)) = None)"
proof -
  obtain bs where bs: "handle_sync_request demo_env demo_inputs (GetBlocks 7 20) demo_node = Blocks bs"
    by (simp add: handle_sync_request_def Let_def)
  from served_blocks[OF this] show ?thesis using bs by auto
qed

text \<open>
  A batch advances the chain by exactly the number of blocks it reports: the tip is the last
  applied block and every applied block was accepted in turn. A follow-up request for more blocks
  is sent only after the whole non-empty batch was applied, and asks for the next height, so a
  catch-up towards a fixed height ends.
\<close>

inductive accepted_chain :: "node_env \<Rightarrow> ChainInner \<Rightarrow> Block list \<Rightarrow> ChainInner \<Rightarrow> bool" for V where
  none: "accepted_chain V inner [] inner"
| next_block: "apply_synced_block V I b inner = (Inr (), inner1) \<Longrightarrow> accepted_chain V inner1 bs inner'
    \<Longrightarrow> accepted_chain V inner (b # bs) inner'"

inductive_simps accepted_chain_Nil [simp]: "accepted_chain V inner [] inner'"

lemma synced_tip:
  assumes "apply_synced_block V I b inner = (Inr (), inner1)"
  shows "bl_height b = bl_height (ch_latest_block inner) + 1 \<and> ch_latest_block inner1 = b"
  using assms unfolding apply_synced_block_def
  by (elim remote_accepted) (auto simp: finish_block_effect dest: connected_height(1))

lemma accepted_chain_height:
  "accepted_chain V inner bs inner' \<Longrightarrow>
     bl_height (ch_latest_block inner') = bl_height (ch_latest_block inner) + of_nat (length bs)
     \<and> (bs \<noteq> [] \<longrightarrow> ch_latest_block inner' = last bs)"
proof (induction rule: accepted_chain.induct)
  case (next_block I b inner inner1 bs inner')
  have "bl_height b = bl_height (ch_latest_block inner) + 1 \<and> ch_latest_block inner1 = b"
    using next_block(1) by (rule synced_tip)
  then show ?case using next_block(2,3) by (cases bs) auto
qed simp

lemma sync_batch_spec:
  assumes "sync_batch V Is k bs inner = (n, fork, inner')"
  shows "n \<le> k + length bs \<and> (n = k + length bs \<longrightarrow> accepted_chain V inner bs inner')"
  using assms
proof (induction bs arbitrary: k inner)
  case (Cons b bs)
  obtain r i1 where run: "apply_synced_block V (Is k) b inner = (r, i1)" by force
  show ?case
  proof (cases r)
    case (Inl e)
    then show ?thesis using Cons.prems run by auto
  next
    case (Inr u)
    then show ?thesis
      using Cons.IH[of "Suc k" i1] Cons.prems run by (auto intro: accepted_chain.next_block)
  qed
qed auto

lemma follow_up_batch:
  assumes "handle_sync_response V Is (Blocks bs) inner = (Some (GetBlocks h k), inner')"
  shows "bs \<noteq> [] \<and> accepted_chain V inner bs inner' \<and> h = bl_height (ch_latest_block inner') + 1 \<and> k = 20"
proof -
  obtain n fork i where run: "sync_batch V Is 0 bs inner = (n, fork, i)" by (metis prod_cases3)
  then show ?thesis
    using assms sync_batch_spec[OF run] by (auto simp: handle_sync_response_def split: if_splits)
qed

lemma served_from:
  "\<exists>bs. handle_sync_request V I (GetBlocks h k) peer = Blocks bs
     \<and> (\<forall>b \<in> set bs. \<exists>x. chain_get_block V I peer x = Some b)"
proof -
  have "\<forall>b \<in> set (serve_blocks V I peer h n). \<exists>x. chain_get_block V I peer x = Some b" for n
    using serve_blocks_spec[of V I peer h n] by (metis in_set_conv_nth)
  then show ?thesis by (simp add: handle_sync_request_def Let_def)
qed

text \<open>
  A catch-up: requests go to a peer that stands still, its answers come back. \<open>None\<close> means that
  the rounds in \<open>fuel\<close> ended with a request for blocks still open.
\<close>

fun catch_up ::
  "node_env \<Rightarrow> inputs \<Rightarrow> (nat \<Rightarrow> inputs) \<Rightarrow> ChainInner \<Rightarrow> nat \<Rightarrow> SyncRequest option \<times> ChainInner
   \<Rightarrow> (SyncRequest option \<times> ChainInner) option" where
  "catch_up V I Is peer 0 x = (case fst x of Some (GetBlocks _ _) \<Rightarrow> None | _ \<Rightarrow> Some x)"
| "catch_up V I Is peer (Suc fuel) x = (case fst x of
      Some (GetBlocks h k) \<Rightarrow>
        catch_up V I Is peer fuel (handle_sync_response V Is (handle_sync_request V I (GetBlocks h k) peer) (snd x))
    | _ \<Rightarrow> Some x)"

lemma accepted_chain_bounded:
  assumes "accepted_chain V inner bs inner'" and "\<forall>b \<in> set bs. bl_height b \<le> max_height"
    and "bl_height (ch_latest_block inner) \<le> max_height" and "max_height < - 1"
  shows "bl_height (ch_latest_block inner') \<le> max_height
    \<and> unat (bl_height (ch_latest_block inner')) = unat (bl_height (ch_latest_block inner)) + length bs"
  using assms
proof (induction rule: accepted_chain.induct)
  case (next_block I b inner inner1 bs inner')
  have tip: "bl_height b = bl_height (ch_latest_block inner) + 1" "ch_latest_block inner1 = b"
    using synced_tip[OF next_block(1)] by simp_all
  have "bl_height (ch_latest_block inner) < - 1" using next_block.prems(2,3) by (rule le_less_trans)
  then have "bl_height (ch_latest_block inner) \<noteq> - 1" by (rule less_imp_neq)
  then have "unat (bl_height b) = Suc (unat (bl_height (ch_latest_block inner)))"
    using tip(1) by (metis add.commute add_eq_0_iff unatSuc)
  then show ?case using next_block tip by auto
qed simp



section \<open>Restart\<close>

text \<open>What the snapshot holds of a state: the three \<open>borsh(skip)\<close> fields come back empty.\<close>

definition persisted :: "WorldState \<Rightarrow> WorldState" where
  "persisted s = s\<lparr>epoch_checkins := bt_empty, receipts := bt_empty, user_delegations := bt_empty\<rparr>"

lemma state_root_persisted:
  "state_root E (persisted s) = state_root E s" "state_root E (s\<lparr>user_delegations := d\<rparr>) = state_root E s"
proof -
  have "asset_leaves E (persisted s) = asset_leaves E s" "contract_leaves E (persisted s) = contract_leaves E s"
    "staking_leaves E (persisted s) = staking_leaves E s" "miner_leaves E (persisted s) = miner_leaves E s"
    by (simp_all only: asset_leaves_def contract_leaves_def staking_leaves_def miner_leaves_def Let_def persisted_def)
      simp_all
  then show "state_root E (persisted s) = state_root E s" by (simp only: state_root_def)
  let ?s = "s\<lparr>user_delegations := d\<rparr>"
  have "asset_leaves E ?s = asset_leaves E s" "contract_leaves E ?s = contract_leaves E s"
    "staking_leaves E ?s = staking_leaves E s" "miner_leaves E ?s = miner_leaves E s"
    by (simp_all only: asset_leaves_def contract_leaves_def staking_leaves_def miner_leaves_def Let_def) simp_all
  then show "state_root E ?s = state_root E s" by (simp only: state_root_def)
qed

lemma restore_delegations_shape:
  "\<exists>d. restore_delegations V I st s = s\<lparr>user_delegations := d\<rparr>"
  by (auto simp: restore_delegations_def split: sum.split option.split intro: exI[of _ "user_delegations s"])

lemma insert_receipts_frame:
  "insert_receipts K rs st = Inr st' \<Longrightarrow> tb_blocks st' = tb_blocks st \<and> tb_meta st' = tb_meta st"
  by (induction K rs st rule: insert_receipts.induct) (auto split: sum.splits)

lemma put_receipts_frame:
  "tb_blocks (snd (put_receipts K db rs st)) = tb_blocks st \<and> tb_meta (snd (put_receipts K db rs st)) = tb_meta st"
proof (cases "db = None \<and> (\<exists>st'. insert_receipts K rs st = Inr st')")
  case True
  then obtain st' where "db = None" "insert_receipts K rs st = Inr st'" by blast
  then show ?thesis using insert_receipts_frame[of K rs st st'] by (simp add: put_receipts_def commit_def)
next
  case False
  then show ?thesis by (cases db; cases "insert_receipts K rs st") (auto simp: put_receipts_def commit_def)
qed

lemma finish_store:
  assumes "\<not> is_epoch_boundary (bl_height b)"
  shows "tb_blocks (ch_store (finish_block V I b p)) = tb_blocks (ch_store p)"
    "tb_meta (ch_store (finish_block V I b p)) = tb_meta (ch_store p)" "ch_state (finish_block V I b p) = ch_state p"
    "ch_slashing (finish_block V I b p) = ch_slashing p"
  using assms by (auto simp: finish_block_def persist_receipts_def Let_def put_receipts_frame)

text \<open>Two stores that show the same blocks and the same metadata.\<close>

lemma stored_snapshot:
  assumes "put_block_and_snapshot K E db b bs st = (Inr (), st')" and "locations_ok K" and "block_ok K b"
    and "tb_blocks st'' = tb_blocks st'" and "tb_meta st'' = tb_meta st'"
  shows "get_block K None st'' h = (if h = bl_height b then Inr (Some b) else get_block K None st h)"
    "get_latest_height None st'' = Inr (Some (bl_height b))" "get_state_snapshot None st'' = Inr (Some bs)"
proof -
  obtain bb where bb: "enc_block K b = Inr bb" "dec_block K bb = Inr b" using assms(3) by (auto simp: block_ok_def)
  obtain st1 where st1: "index_txs K E (bl_height b) 0 (bl_transactions b)
      (st\<lparr>tb_blocks := bt_insert (bl_height b) bb (tb_blocks st)\<rparr>) = Inr st1"
    "tb_blocks st1 = bt_insert (bl_height b) bb (tb_blocks st)"
    using index_txs_log[OF assms(2), of E "bl_height b" 0 "bl_transactions b"
        "st\<lparr>tb_blocks := bt_insert (bl_height b) bb (tb_blocks st)\<rparr>"] by auto
  have st': "tb_blocks st' = bt_insert (bl_height b) bb (tb_blocks st)"
    "tb_meta st' = bt_insert META_STATE_SNAPSHOT bs (bt_insert META_LATEST_HEIGHT (to_le_bytes (bl_height b)) (tb_meta st1))"
    using assms(1) bb st1 by (auto simp: put_block_and_snapshot_def write_block_tables_def commit_def split: option.splits)
  show "get_block K None st'' h = (if h = bl_height b then Inr (Some b) else get_block K None st h)"
    using assms(4) bb st' by (simp add: get_block_def)
  show "get_latest_height None st'' = Inr (Some (bl_height b))" "get_state_snapshot None st'' = Inr (Some bs)"
    using assms(5) st' by (simp_all add: get_latest_height_def get_state_snapshot_def get_meta_def
        META_STATE_SNAPSHOT_def META_LATEST_HEIGHT_def)
qed

lemma keep_stakes: "fold (\<lambda>p m. bt_entry (fst p) (snd p) (\<lambda>n. n) m) ps (m :: ('k::linorder, 'v) btree) = m"
  if "\<forall>p \<in> set ps. bt_contains m (fst p)"
  using that by (induction ps) (auto simp: bt_entry_def bt_get_or_def bt_contains_def bt.ins_same)

lemma real_stakes_subset: "set (real_stakes vs) \<subseteq> set vs"
  by (auto simp: real_stakes_def)

lemma own_stakes: "\<forall>p \<in> set (real_stakes (entries m)). bt_contains m (fst p)"
  using real_stakes_subset[of "entries m"] by (auto simp: bt_contains_def bt.ents_mem)

lemma real_stakes_Nil [simp]: "real_stakes [] = []"
  by (simp add: real_stakes_def)

lemma boot_fields:
  "ch_latest_block (boot V I key cid st (s, b, vs, g)) = b" "ch_genesis_hash (boot V I key cid st (s, b, vs, g)) = g"
  "ch_store (boot V I key cid st (s, b, vs, g)) = st" "ch_checkin_cache (boot V I key cid st (s, b, vs, g)) = bt_empty"
  by (simp_all add: boot_def Let_def case_prod_beta)

lemma boot_inside_epoch:
  assumes "\<not> is_epoch_boundary (bl_height b)" and "\<forall>p \<in> set (real_stakes vs). bt_contains (stakes s) (fst p)"
  shows "ch_state (boot V I key cid st (s, b, vs, g)) = s"
    "ch_slashing (boot V I key cid st (s, b, vs, g)) = restore_slashing s"
    "ch_validator_set (boot V I key cid st (s, b, vs, g)) = with_initial_stakes (stakes s)"
  using assms by (simp_all add: boot_def Let_def replay_rotation_def keep_stakes)

lemma restored_slashing:
  "restore_slashing ((persisted (sync_slashing_to_world_state sl s))\<lparr>user_delegations := d\<rparr>) = sl\<lparr>sl_evidence := []\<rparr>"
  by (simp add: restore_slashing_def persisted_def sync_slashing_to_world_state_def SlashingState_default_def)

text \<open>
  C12. A restart restores the node: after a block inside an epoch, \<open>Chain::new\<close> on the stored tables
  comes back with that block as its tip, the same state root, the same persisted state and the same
  slashing state up to the evidence list. It does not come back with the same validator set: the
  set is rebuilt from the stakes alone, without reputation and without regard to jail.
\<close>

theorem restart_restores_node:
  assumes acc: "apply_remote_block_inner V I sync b inner = (Inr (), inner')" and nb: "\<not> is_epoch_boundary (bl_height b)"
    and codecs: "locations_ok (ne_codec V)" "block_ok (ne_codec V) b"
      "\<And>bs. enc_world V (ch_state inner') = Inr bs \<Longrightarrow> dec_world V bs = Inr (persisted (ch_state inner'))"
    and genesis: "get_block (ne_codec V) None (ch_store inner) 0 = Inr g" "bl_height b \<noteq> 0"
    and config: "bt_is_empty (stakes (ch_state inner')) \<Longrightarrow> build_validator_set unhex (gc_validators config) = Inr []"
    and disk: "in_read J = None"
  shows "\<exists>n. chain_new V J J' rm unhex config allow key cid (ch_store inner') = Inr n \<and> ch_latest_block n = b
    \<and> state_root (ne_ext V) (ch_state n) = bl_state_root b \<and> persisted (ch_state n) = persisted (ch_state inner')
    \<and> ch_slashing n = (ch_slashing inner')\<lparr>sl_evidence := []\<rparr>
    \<and> ch_validator_set n = with_initial_stakes (stakes (ch_state inner'))"
proof -
  let ?K = "ne_codec V" and ?st = "ch_store inner'"
  obtain sl fees s1 s3 inner2 state_bytes store' where
    w: "remote_checkins V I b (inner\<lparr>ch_slashing := sl\<rparr>) (fst (settle_block (ch_active inner)
       (ch_offline_validators inner) (bl_validator b) (bl_height b) fees s1)) = Inr (s3, inner2)"
    and root: "state_root (ne_ext V) (sync_slashing_to_world_state sl s3) = bl_state_root b"
    and enc: "enc_world V (sync_slashing_to_world_state sl s3) = Inr state_bytes"
    and put: "put_block_and_snapshot ?K (ne_ext V) (in_put_block I) b state_bytes (ch_store inner2) = (Inr (), store')"
    and f: "inner' = finish_block V I b (inner2\<lparr>ch_state := sync_slashing_to_world_state sl s3, ch_store := store'\<rparr>)"
    using acc by (rule remote_accepted)
  obtain c where i2: "inner2 = inner\<lparr>ch_slashing := sl, ch_checkin_cache := c\<rparr>" using remote_checkins_shape(1)[OF w] by auto
  note fin = finish_store[OF nb, of V I "inner2\<lparr>ch_state := sync_slashing_to_world_state sl s3, ch_store := store'\<rparr>", folded f]
  have state: "ch_state inner' = sync_slashing_to_world_state sl s3" and slash: "ch_slashing inner' = sl"
    using fin(3,4) i2 by simp_all
  have tables: "tb_blocks ?st = tb_blocks store'" "tb_meta ?st = tb_meta store'" using fin(1,2) by simp_all
  note stored = stored_snapshot[OF put codecs(1,2) tables]
  obtain d where d: "restore_delegations V J ?st (persisted (ch_state inner')) = (persisted (ch_state inner'))\<lparr>user_delegations := d\<rparr>"
    using restore_delegations_shape by blast
  let ?s = "(persisted (ch_state inner'))\<lparr>user_delegations := d\<rparr>"
  have s: "stakes ?s = stakes (ch_state inner')" "state_root (ne_ext V) ?s = bl_state_root b"
    "restore_slashing ?s = sl\<lparr>sl_evidence := []\<rparr>" "persisted ?s = persisted (ch_state inner')"
    using root by (simp_all add: state_root_persisted restored_slashing state, simp_all add: persisted_def)
  let ?vs = "if bt_is_empty (stakes ?s) then [] else entries (stakes ?s)"
  have "chain_new V J J' rm unhex config allow key cid ?st = Inr (boot V J key cid ?st (?s, b, ?vs,
      case g of Some b0 \<Rightarrow> bl_hash b0 | None \<Rightarrow> replicate 32 0))"
    using stored genesis codecs(3) enc d s(1,2) config disk
    by (simp add: chain_new_def from_snapshot_bytes_def state i2 Let_def)
  moreover have "\<forall>p \<in> set (real_stakes ?vs). bt_contains (stakes ?s) (fst p)"
    using own_stakes[of "stakes ?s"] real_stakes_Nil by (cases "bt_is_empty (stakes ?s)") simp_all
  ultimately show ?thesis
    using s by (auto simp: boot_fields boot_inside_epoch[OF nb] slash)
qed

text \<open>The demo node restarts after its block; the state codec knows the one state that was written.\<close>

lemma apply_ignores_dec_world:
  "apply_remote_block_inner (V\<lparr>dec_world := d\<rparr>) I sync b inner = apply_remote_block_inner V I sync b inner"
proof -
  let ?V = "V\<lparr>dec_world := d\<rparr>"
  have ref: "check_reference ?V I st w = check_reference V I st w" for st w by (simp add: check_reference_def)
  then have "check_witnesses ?V I st s h seen ws = check_witnesses V I st s h seen ws" for st s h seen ws
    by (induction ws arbitrary: seen) (simp_all add: Let_def split: option.split)
  then have "remote_checkins ?V I b inner s = remote_checkins V I b inner s" for b inner s
    by (simp add: remote_checkins_def)
  moreover have "persist_receipts ?V I b inner = persist_receipts V I b inner" for b inner
    by (simp add: persist_receipts_def Let_def)
  moreover have "rotate_epoch ?V I h inner = rotate_epoch V I h inner" for h inner
    by (simp add: rotate_epoch_def store_offline_def store_delegations_def Let_def)
  moreover have "ne_ext ?V = ne_ext V" "ne_codec ?V = ne_codec V" "enc_world ?V = enc_world V"
    "check_connection ?V I b inner = check_connection V I b inner" for b inner
    by (simp_all add: check_connection_def Let_def)
  ultimately show ?thesis unfolding apply_remote_block_inner_def finish_block_def by (simp only:)
qed

theorem restart_restores_node_witness:
  "\<exists>V f' n. apply_remote_block_inner V demo_inputs False demo_block demo_node = (Inr (), f')
     \<and> chain_new V demo_inputs demo_inputs None (\<lambda>_. None)
         \<lparr>gc_chain_id = [], gc_timestamp = 0, gc_allocations = [], gc_validators = []\<rparr> False [] [] (ch_store f') = Inr n
     \<and> ch_latest_block n = demo_block"
proof -
  obtain f' where acc: "apply_remote_block_inner demo_env demo_inputs False demo_block demo_node = (Inr (), f')"
    using replicated[OF demo_deliverable demo_inv _ demo_clean demo_produced]
    by (auto simp: demo_node_def demo_tip_def)
  let ?V = "demo_env\<lparr>dec_world := (\<lambda>_. Inr (persisted (ch_state f')))\<rparr>"
  let ?cfg = "\<lparr>gc_chain_id = [], gc_timestamp = 0, gc_allocations = [], gc_validators = []\<rparr>"
  have acc': "apply_remote_block_inner ?V demo_inputs False demo_block demo_node = (Inr (), f')"
    using acc by (simp only: apply_ignores_dec_world)
  have height: "bl_height demo_block = 8"
    using acc by (elim remote_accepted) (auto dest!: connected_height(1) simp: demo_node_def demo_tip_def)
  have "get_block (ne_codec ?V) None (ch_store demo_node) 0 = Inr None"
    by (simp add: get_block_def demo_node_def store_empty_def)
  then have "\<exists>n. chain_new ?V demo_inputs demo_inputs None (\<lambda>_. None) ?cfg False [] [] (ch_store f') = Inr n
      \<and> ch_latest_block n = demo_block"
    using restart_restores_node[OF acc', of None "\<lambda>_. None" ?cfg demo_inputs demo_inputs None False "[]" "[]"]
      demo_disk height
    by (auto simp: is_epoch_boundary_def CONSENSUS_EPOCH_LENGTH_def demo_inputs_def)
  then show ?thesis using acc' by blast
qed

end
