(* ===== verification/Chain_Run.thy ===== *)
theory Chain_Run
  imports Chain_Sync
begin

text \<open>
  The life of a node as a sequence of operations: genesis, then transactions, check-ins, votes,
  produced blocks, remote blocks accepted or refused, and pruning, in any order. The relation
  \<open>reachable\<close> lists the blocks of the chain; by rule induction the supply of every reachable state
  is the genesis supply less the burned fees of exactly those blocks.

  Left out of the relation are writes that fail (they leave a state without its block, see
  \<open>Chain_Safety.failed_write_leaves_state_ahead\<close>), snapshots (they replace the state), and
  production over a mempool whose rejected transactions leave a trace.
\<close>

section \<open>Genesis\<close>

lemma stake_validators_contain:
  assumes "stake_validators unhex as vals s = Inr s'" and "build_validator_set unhex vals = Inr vs"
  shows "(\<forall>a. bt_contains (stakes s) a \<longrightarrow> bt_contains (stakes s') a) \<and> (\<forall>p \<in> set vs. bt_contains (stakes s') (fst p))"
  using assms
proof (induction vals arbitrary: s vs)
  case (Cons v vals)
  obtain s1 where s1: "stake_validator unhex as v s = Inr s1" "stake_validators unhex as vals s1 = Inr s'"
    using Cons.prems(1) by (auto split: sum.splits)
  obtain addr n rest where vs: "vs = (addr, n) # rest" "build_validator_set unhex vals = Inr rest"
    "unhex (gv_address v) = Some addr"
    using Cons.prems(2) by (auto simp: parse_address_def split: sum.splits option.splits if_splits)
  have "bt_contains (stakes s1) addr" "\<forall>a. bt_contains (stakes s) a \<longrightarrow> bt_contains (stakes s1) a"
    using stake_validator_effect[OF s1(1)] vs(3) by (auto simp: validator_addr_def bt_contains_def)
  then show ?case using Cons.IH[OF s1(2) vs(2)] vs(1) by simp
qed simp

text \<open>A configuration that passes validation and names every validator once.\<close>

definition sound_config :: "(string \<Rightarrow> bytes option) \<Rightarrow> GenesisConfig \<Rightarrow> bool" where
  "sound_config unhex config \<longleftrightarrow> validate_genesis unhex config = Inr ()
     \<and> distinct (map (validator_addr unhex) (gc_validators config))"

lemma genesis_node:
  assumes "sound_config unhex config" and "new_from_genesis V I unhex config allow key cid st = Inr inner"
  shows "chain_inv inner \<and> total_supply (ch_state inner) = CLAW_TOTAL_SUPPLY \<and> bl_height (ch_latest_block inner) = 0
    \<and> block_height (ch_state inner) = 0"
proof -
  obtain state st2 vs where new: "create_genesis_state unhex config = Inr state"
    "build_validator_set unhex (gc_validators config) = Inr vs"
    "inner = boot V I key cid st2 (state, create_genesis_block (ne_ext V) state config, vs,
       bl_hash (create_genesis_block (ne_ext V) state config))"
    using assms(2) by (auto simp: new_from_genesis_def Let_def split: if_splits sum.splits prod.splits)
  have gen: "total_supply state = CLAW_TOTAL_SUPPLY" "world_inv state" "block_height state = 0" "genesis_shape state"
    using genesis_state_exact[OF _ new(1)] assms(1) by (auto simp: sound_config_def)
  have zero: "bl_height (create_genesis_block (ne_ext V) state config) = 0" by (simp add: create_genesis_block_def Let_def)
  have "\<forall>p \<in> set vs. bt_contains (stakes state) (fst p)"
    using new(1,2) stake_validators_contain by (fastforce simp: create_genesis_state_def split: sum.splits)
  then have "\<forall>p \<in> set (real_stakes vs). bt_contains (stakes state) (fst p)" using real_stakes_subset by blast
  then have "ch_state inner = state"
    unfolding new(3) by (intro boot_inside_epoch(1)) (simp_all add: zero is_epoch_boundary_def)
  moreover have "ch_latest_block inner = create_genesis_block (ne_ext V) state config"
    unfolding new(3) by (rule boot_fields)
  moreover have "miners state = bt_empty"
    using gen(4) by (auto simp: genesis_shape_def WorldState_default_def)
  ultimately show ?thesis
    using gen zero by (simp add: chain_inv_def mining_inv_def HEARTBEAT_V2_HEIGHT_def)
qed

section \<open>Operations\<close>

definition write_error :: "BlockError \<Rightarrow> bool" where
  "write_error e \<longleftrightarrow> (\<exists>x. e = StoreFailed x) \<or> (\<exists>x. e = SerializationFailed x)"

inductive reachable ::
  "node_env \<Rightarrow> (string \<Rightarrow> bytes option) \<Rightarrow> GenesisConfig \<Rightarrow> Block list \<Rightarrow> ChainInner \<Rightarrow> bool" for V unhex config where
  start: "new_from_genesis V I unhex config True key cid store_empty = Inr inner \<Longrightarrow> reachable V unhex config [] inner"
| submit: "reachable V unhex config bs inner \<Longrightarrow> reachable V unhex config bs (snd (submit_tx V tx inner))"
| faucet: "reachable V unhex config bs inner \<Longrightarrow> reachable V unhex config bs (snd (faucet_drip V to inner))"
| checkin: "reachable V unhex config bs inner \<Longrightarrow> reachable V unhex config bs (snd (receive_checkin V I w inner))"
| vote: "reachable V unhex config bs inner \<Longrightarrow> reachable V unhex config bs (snd (apply_vote V I v inner))"
| prune: "reachable V unhex config bs inner \<Longrightarrow> reachable V unhex config bs (prune_old_blocks I keep inner)"
| fast_sync: "reachable V unhex config bs inner \<Longrightarrow> reachable V unhex config bs (set_fast_sync inner)"
| bootstrap: "reachable V unhex config bs inner \<Longrightarrow> reachable V unhex config bs (set_bootstrap_peers ids inner)"
| produce: "reachable V unhex config bs inner \<Longrightarrow> clean_pending V I inner \<Longrightarrow> produce_block V I inner = (Some b, inner')
    \<Longrightarrow> reachable V unhex config (bs @ [b]) inner'"
| accept: "reachable V unhex config bs inner \<Longrightarrow> apply_remote_block_inner V I sync b inner = (Inr (), inner')
    \<Longrightarrow> reachable V unhex config (bs @ [b]) inner'"
| refuse: "reachable V unhex config bs inner \<Longrightarrow> apply_remote_block_inner V I sync b inner = (Inl e, inner')
    \<Longrightarrow> \<not> write_error e \<Longrightarrow> reachable V unhex config bs inner'"

lemma quiet_operations:
  "ch_state (snd (submit_tx V tx inner)) = ch_state inner" "ch_latest_block (snd (submit_tx V tx inner)) = ch_latest_block inner"
  "ch_state (snd (faucet_drip V to inner)) = ch_state inner" "ch_latest_block (snd (faucet_drip V to inner)) = ch_latest_block inner"
  "ch_state (snd (receive_checkin V I w inner)) = ch_state inner"
  "ch_latest_block (snd (receive_checkin V I w inner)) = ch_latest_block inner"
  "ch_state (prune_old_blocks I keep inner) = ch_state inner" "ch_latest_block (prune_old_blocks I keep inner) = ch_latest_block inner"
  by (simp_all add: submit_tx_def faucet_drip_def receive_checkin_def prune_old_blocks_def Let_def
      split: sum.split option.split)

lemma vote_keeps:
  "ch_state (snd (apply_vote V I v inner)) = ch_state inner"
  "bl_height (ch_latest_block (snd (apply_vote V I v inner))) = bl_height (ch_latest_block inner)"
  by (simp_all add: apply_vote_def Let_def split: prod.split)

section \<open>Produced blocks\<close>

definition block_burn :: "Block \<Rightarrow> u128" where
  "block_burn b = expected_burn (sum_list (map fee_of (bl_transactions b)))"

lemma produce_checkins_shape:
  "produce_checkins h c s = (ws, s3, c') \<Longrightarrow> s3 = s \<or> s3 = credit_checkins (h div MINER_EPOCH_LENGTH) ws s"
  by (auto simp: produce_checkins_def Let_def split: if_splits)

lemma produced_keeps_inv:
  assumes made: "produce_block V I inner = (Some b, inner')" and clean: "clean_pending V I inner"
    and inv: "chain_inv inner" "bl_height (ch_latest_block inner) + 1 \<noteq> 0"
  shows "chain_inv inner' \<and> total_supply (ch_state inner') = total_supply (ch_state inner) - block_burn b
    \<and> ch_latest_block inner' = b \<and> bl_height b = bl_height (ch_latest_block inner) + 1
    \<and> block_height (ch_state inner') = bl_height b"
proof -
  obtain fb p1 store1 where asm: "assemble_block V I fb inner = (b, p1)"
    and p': "inner' = finish_block V I b (p1\<lparr>ch_store := store1\<rparr>)"
    using made by (rule produced)
  have start: "world_inv (ch_state inner)" using inv(1) by (simp add: chain_inv_def)
  obtain fees s1 s3 c sl where h: "bl_height b = bl_height (ch_latest_block inner) + 1"
    and run: "run_txs (ne_ext V) 0 0 (bl_transactions b) ((ch_state inner)\<lparr>block_height := bl_height b,
       block_timestamp := bl_timestamp b\<rparr>) = Inr (fees, s1)"
    and ck: "produce_checkins (bl_height b) (ch_checkin_cache inner) (fst (settle_block (ch_active inner)
       (ch_offline_validators inner) (bl_validator b) (bl_height b) fees s1)) = (bl_checkin_witnesses b, s3, c)"
    and p1: "p1 = inner\<lparr>ch_state := sync_slashing_to_world_state sl s3, ch_slashing := sl,
       ch_mempool := drop MAX_BLOCK_TXS (pending_order (ch_mempool inner)), ch_checkin_cache := c,
       ch_pending_votes := bt_empty\<rparr>"
    using asm start clean by (rule assembled)
  have pre: "bl_height b \<noteq> 0" "mining_inv (bl_height b - 1) (ch_state inner)"
    using inv h by (simp_all add: chain_inv_def)
  note ran = executed_block[OF run pre start produce_checkins_shape[OF ck] refl, of sl]
  have "pendings_kept (sync_slashing_to_world_state sl s3) (ch_state inner')"
    by (rule pendings_kept_same) (simp add: p' p1 finish_block_effect)
  then have "chain_inv inner'"
    using ran(2,3) by (simp add: chain_inv_def p' p1 finish_block_effect mining_inv_kept[of _ "sync_slashing_to_world_state sl s3"])
  then show ?thesis
    using ran(1,4) h run_txs_fees[OF run] by (simp add: p' p1 finish_block_effect block_burn_def)
qed

lemma accepted_keeps_inv:
  assumes "apply_remote_block_inner V I sync b inner = (Inr (), inner')"
    and "chain_inv inner" "bl_height (ch_latest_block inner) + 1 \<noteq> 0"
  shows "chain_inv inner' \<and> total_supply (ch_state inner') = total_supply (ch_state inner) - block_burn b
    \<and> ch_latest_block inner' = b \<and> bl_height b = bl_height (ch_latest_block inner) + 1
    \<and> block_height (ch_state inner') = bl_height b"
proof -
  have tip: "bl_height b = bl_height (ch_latest_block inner) + 1" "ch_latest_block inner' = b"
    using assms(1) by (elim remote_accepted, simp add: connected_height finish_block_effect)+
  then show ?thesis
    using remote_keeps_inv[OF assms(1,2)] assms(3) run_txs_fees by (fastforce simp: block_burn_def)
qed

section \<open>Properties\<close>

lemma next_height:
  assumes "Suc n < 2 ^ 64"
  shows "(of_nat n :: u64) + 1 \<noteq> 0"
proof -
  have "(of_nat (Suc n) :: u64) \<noteq> 0" using assms of_nat_u64_eq_0[of "Suc n"] by simp
  then show ?thesis by (simp add: add.commute)
qed


text \<open>Alice's network of one: genesis and one empty block.\<close>

lemma solo_node:
  "\<exists>n. new_from_genesis demo_base demo_inputs (\<lambda>_. Some alice) solo_config True [] [] store_empty = Inr n
     \<and> is_proposer demo_base n \<and> ch_mempool n = []"
proof -
  let ?s = "(debit alice CONSENSUS_MIN_STAKE (credit alice CLAW_TOTAL_SUPPLY WorldState_default))
         \<lparr>stakes := bt_insert alice CONSENSUS_MIN_STAKE bt_empty\<rparr>"
  let ?b = "create_genesis_block (ne_ext demo_base) ?s solo_config"
  have txs: "bl_transactions ?b = []" by (simp add: create_genesis_block_def Let_def)
  have env: "enc_block (ne_codec demo_base) = (\<lambda>_. Inr [])" "enc_world demo_base = (\<lambda>_. Inr [])"
    "in_put_block demo_inputs = None" "in_put_meta demo_inputs = None"
    by (simp_all add: demo_base_def sample_codec_def demo_inputs_def)
  have vals: "build_validator_set (\<lambda>_. Some alice) (gc_validators solo_config) = Inr [(alice, CONSENSUS_MIN_STAKE)]"
    by (simp add: solo_config_def parse_address_def parse_balance_def)
  obtain st1 where "put_block (ne_codec demo_base) (ne_ext demo_base) (in_put_block demo_inputs) ?b store_empty = (Inr (), st1)"
    by (simp add: put_block_def write_block_tables_def txs commit_def env)
  then obtain st where st: "new_from_genesis demo_base demo_inputs (\<lambda>_. Some alice) solo_config True [] [] store_empty
      = Inr (boot demo_base demo_inputs [] [] st (?s, ?b, [(alice, CONSENSUS_MIN_STAKE)], bl_hash ?b))"
    by (simp add: new_from_genesis_def solo_starts(2) Let_def commit_def put_state_snapshot_def put_meta_def env vals)
  have set: "va_active (with_initial_stakes (bt_insert alice CONSENSUS_MIN_STAKE bt_empty)) = [candidate
      (bt_insert alice CONSENSUS_MIN_STAKE bt_empty) (aggregate_agent_scores []) (va_weight_config ValidatorSet_new)
      (alice, CONSENSUS_MIN_STAKE)]"
    by (simp add: with_initial_stakes_def recalculate_active_def may_validate_def Let_def MAX_VALIDATORS_def)
  let ?n = "boot demo_base demo_inputs [] [] st (?s, ?b, [(alice, CONSENSUS_MIN_STAKE)], bl_hash ?b)"
  have "ch_validator_set ?n = with_initial_stakes (bt_insert alice CONSENSUS_MIN_STAKE bt_empty)"
    "ch_validator_address ?n = alice" "ch_mempool ?n = []"
    by (simp_all add: boot_def real_stakes_def Let_def case_prod_beta bt_entry_def bt_get_or_def bt.ins_ins demo_base_def)
  then show ?thesis using st set by (auto simp: is_proposer_def elect_proposer_def)
qed


end
