(* ===== verification/Chain_Events.thy ===== *)
theory Chain_Events
  imports Chain_Run
begin

text \<open>
  The two loops of a node (\<open>run_block_loop\<close> and \<open>run_p2p_events\<close> of \<open>node/src/chain.rs\<close>, with the
  event and command types of \<open>p2p/src/network.rs\<close>): the three-second tick that produces a block and
  broadcasts it, the reaction to each network event, and the periodic status request.

  A peer is known by the text of its identifier, a reply channel by a number. What the loops send
  is returned as a list of commands. The version check of the block loop is \<open>version_tick\<close>.
\<close>

type_synonym PeerId = string

datatype NetworkEvent =
    NewTx Transaction
  | NewBlock Block
  | GossipVote BlockVote
  | GossipCheckin MinerCheckinWitness
  | PeerRequest PeerId nat SyncRequest
  | PeerResponse PeerId SyncResponse
  | PeerConnected PeerId
  | PeerDisconnected PeerId

datatype P2pCommand =
    SendSyncRequest PeerId SyncRequest
  | SendSyncResponse nat SyncResponse
  | BroadcastBlock Block
  | BroadcastVote BlockVote
  | BroadcastTx Transaction
  | BroadcastCheckin MinerCheckinWitness

definition vote_commands :: "node_env \<Rightarrow> Block \<Rightarrow> ChainInner \<Rightarrow> P2pCommand list" where
  "vote_commands V block inner = (case create_vote_for_block V block inner of
      Some vote \<Rightarrow> [BroadcastVote vote]
    | None \<Rightarrow> [])"

section \<open>The block loop\<close>

definition block_tick :: "node_env \<Rightarrow> inputs \<Rightarrow> ChainInner \<Rightarrow> P2pCommand list \<times> ChainInner" where
  "block_tick V I inner = (case produce_block V I inner of
      (Some block, inner') \<Rightarrow> (BroadcastBlock block # vote_commands V block inner', inner')
    | (None, inner') \<Rightarrow> ([], inner'))"

definition set_version_manifest :: "VersionManifest \<Rightarrow> ChainInner \<Rightarrow> ChainInner" where
  "set_version_manifest manifest inner = inner\<lparr>ch_version_manifest := Some manifest\<rparr>"

text \<open>The hourly check of a fetched manifest: whether to stop, and the manifest kept for queries.\<close>

definition version_tick :: "string \<Rightarrow> VersionManifest \<Rightarrow> ChainInner \<Rightarrow> bool \<times> ChainInner" where
  "version_tick current_version manifest inner =
     (let upgrade_level = check_version current_version manifest (Some (bl_height (ch_latest_block inner))) in
      (upgrade_level = Critical, set_version_manifest manifest inner))"

section \<open>Network events\<close>

definition follow_up_target :: "PeerId list \<Rightarrow> PeerId \<Rightarrow> SyncResponse \<Rightarrow> SyncRequest \<Rightarrow> PeerId" where
  "follow_up_target known_peers peer response follow_up =
     (if (case response of StateSnapshot _ _ _ _ _ \<Rightarrow> True | _ \<Rightarrow> False)
         \<and> (follow_up = GetStateSnapshot \<or> follow_up = GetStatus) \<and> length known_peers > 1
      then (case find (\<lambda>p. p \<noteq> peer) known_peers of Some p \<Rightarrow> p | None \<Rightarrow> peer)
      else peer)"

definition on_peer_connected ::
  "PeerId \<Rightarrow> PeerId list \<Rightarrow> ChainInner \<Rightarrow> P2pCommand list \<times> PeerId list \<times> ChainInner" where
  "on_peer_connected peer known_peers inner =
     (let known = (if peer \<in> set known_peers then known_peers else known_peers @ [peer]);
          inner1 = inner\<lparr>ch_connected_peer_ids := known\<rparr>;
          (request, inner2) =
            (if ch_fast_sync_pending inner1
             then if peer \<in> set (ch_bootstrap_peer_ids inner1)
                  then (GetStateSnapshot, inner1\<lparr>ch_fast_sync_pending := False\<rparr>)
                  else (GetStatus, inner1)
             else (GetStatus, inner1)) in
      ([SendSyncRequest peer request], known, inner2))"

definition handle_event ::
  "node_env \<Rightarrow> (nat \<Rightarrow> inputs) \<Rightarrow> NetworkEvent \<Rightarrow> PeerId list \<times> ChainInner
   \<Rightarrow> P2pCommand list \<times> PeerId list \<times> ChainInner" where
  "handle_event V Is event s = (case s of (known_peers, inner) \<Rightarrow> (case event of
      NewTx tx \<Rightarrow> ([], known_peers, snd (submit_tx V tx inner))
    | NewBlock block \<Rightarrow> (case apply_remote_block V (Is 0) block inner of
        (Inr _, inner') \<Rightarrow> (vote_commands V block inner', known_peers, inner')
      | (Inl _, inner') \<Rightarrow> ([], known_peers, inner'))
    | GossipVote vote \<Rightarrow> ([], known_peers, snd (apply_vote V (Is 0) vote inner))
    | GossipCheckin w \<Rightarrow> ([], known_peers, snd (receive_checkin V (Is 0) w inner))
    | PeerRequest peer channel request \<Rightarrow> (case request of
        PushMinerCheckin w \<Rightarrow>
          ([SendSyncResponse channel CheckinAccepted], known_peers, snd (receive_checkin V (Is 0) w inner))
      | _ \<Rightarrow> ([SendSyncResponse channel (handle_sync_request V (Is 0) request inner)], known_peers, inner))
    | PeerResponse peer response \<Rightarrow> (case handle_sync_response V Is response inner of
        (Some follow_up, inner') \<Rightarrow>
          ([SendSyncRequest (follow_up_target known_peers peer response follow_up) follow_up], known_peers, inner')
      | (None, inner') \<Rightarrow> ([], known_peers, inner'))
    | PeerConnected peer \<Rightarrow> on_peer_connected peer known_peers inner
    | PeerDisconnected peer \<Rightarrow>
        (let known = filter (\<lambda>p. p \<noteq> peer) known_peers in ([], known, inner\<lparr>ch_connected_peer_ids := known\<rparr>))))"

definition sync_retry_tick :: "PeerId list \<Rightarrow> P2pCommand list" where
  "sync_retry_tick known_peers = map (\<lambda>peer. SendSyncRequest peer GetStatus) known_peers"

section \<open>Votes of one node\<close>

fun vote_of :: "P2pCommand \<Rightarrow> BlockVote list" where
  "vote_of (BroadcastVote v) = [v]"
| "vote_of _ = []"

definition votes_of :: "P2pCommand list \<Rightarrow> BlockVote list" where
  "votes_of cmds = concat (map vote_of cmds)"

abbreviation tip_height :: "ChainInner \<Rightarrow> nat" where
  "tip_height n \<equiv> unat (bl_height (ch_latest_block n))"

text \<open>The blocks that an event carries; an answer with a snapshot is set apart.\<close>

fun event_blocks :: "NetworkEvent \<Rightarrow> Block list" where
  "event_blocks (NewBlock b) = [b]"
| "event_blocks (PeerResponse _ (Blocks bs)) = bs"
| "event_blocks _ = []"

fun snapshot_event :: "NetworkEvent \<Rightarrow> bool" where
  "snapshot_event (PeerResponse _ (StateSnapshot _ _ _ _ _)) = True"
| "snapshot_event _ = False"

inductive node_run :: "node_env \<Rightarrow> PeerId list \<times> ChainInner \<Rightarrow> P2pCommand list \<Rightarrow> PeerId list \<times> ChainInner \<Rightarrow> bool" for V where
  idle: "node_run V s [] s"
| event: "node_run V s cmds (ks, n) \<Longrightarrow> handle_event V Is e (ks, n) = (out, ks', n') \<Longrightarrow> \<not> snapshot_event e
    \<Longrightarrow> \<forall>b \<in> set (event_blocks e). bl_height b \<noteq> 0 \<Longrightarrow> node_run V s (cmds @ out) (ks', n')"
| tick: "node_run V s cmds (ks, n) \<Longrightarrow> block_tick V I n = (out, n') \<Longrightarrow> bl_height (ch_latest_block n) + 1 \<noteq> 0
    \<Longrightarrow> node_run V s (cmds @ out) (ks, n')"

lemma votes_of_simps [simp]:
  "votes_of [] = []" "votes_of (c # cs) = vote_of c @ votes_of cs" "votes_of (cs @ ds) = votes_of cs @ votes_of ds"
  by (simp_all add: votes_of_def)

lemma vote_commands_votes:
  "votes_of (vote_commands V b n) = (if is_active (ch_validator_set n) (ch_validator_address n)
     then [\<lparr>bv_block_hash = bl_hash b, bv_height = bl_height b, bv_voter = ch_validator_address n,
            bv_signature = sign V (ch_signing_key n) (bl_hash b)\<rparr>] else [])"
  by (simp add: vote_commands_def create_vote_for_block_def)

lemma height_step:
  fixes h :: u64
  assumes "h + 1 \<noteq> 0"
  shows "unat (h + 1) = Suc (unat h)"
  using assms unatSuc[of h] by (simp add: add.commute)

lemma accepted_tip:
  assumes "apply_remote_block_inner V I sync b n = (Inr u, n')" and "bl_height b \<noteq> 0"
  shows "ch_latest_block n' = b" "tip_height n' = Suc (tip_height n)"
proof -
  have tip: "bl_height b = bl_height (ch_latest_block n) + 1" "ch_latest_block n' = b"
    using assms(1) by (elim remote_accepted, simp add: connected_height finish_block_effect)+
  then show "ch_latest_block n' = b" "tip_height n' = Suc (tip_height n)"
    using assms(2) height_step[of "bl_height (ch_latest_block n)"] by simp_all
qed

text \<open>A refused block does not move the tip, whatever the reason.\<close>

lemma refused_tip:
  assumes "apply_remote_block_inner V I sync b n = (Inl e, n')"
  shows "ch_latest_block n' = ch_latest_block n"
proof -
  have "ch_latest_block inner2 = ch_latest_block n" if "remote_checkins V I b (n\<lparr>ch_slashing := sl\<rparr>) s2 = Inr (s3, inner2)"
    for sl s2 s3 inner2
    using remote_checkins_shape(1)[OF that] by auto
  with assms show ?thesis
    by (auto simp: apply_remote_block_inner_def Let_def split: option.splits sum.splits prod.splits if_splits)
qed

lemma batch_tip:
  assumes "sync_batch V Is k bs n = (m, fork, n')" and "\<forall>b \<in> set bs. bl_height b \<noteq> 0"
  shows "tip_height n \<le> tip_height n'"
  using assms
proof (induction bs arbitrary: k n)
  case (Cons b bs)
  obtain r n1 where run: "apply_synced_block V (Is k) b n = (r, n1)" by force
  show ?case
  proof (cases r)
    case (Inl e)
    then show ?thesis using Cons.prems run refused_tip[of V "Is k" True b n e n1]
      by (simp add: apply_synced_block_def)
  next
    case (Inr u)
    then have "tip_height n1 = Suc (tip_height n)"
      using accepted_tip(2)[of V "Is k" True b n u n1] run Cons.prems(2) by (simp add: apply_synced_block_def)
    then show ?thesis using Cons.IH[of "Suc k" n1] Cons.prems run Inr by simp
  qed
qed simp

lemma response_tip:
  assumes "handle_sync_response V Is r n = (q, n')" and "\<not> snapshot_event (PeerResponse p r)"
    and "\<forall>b \<in> set (event_blocks (PeerResponse p r)). bl_height b \<noteq> 0"
  shows "tip_height n \<le> tip_height n'"
proof (cases r)
  case (Blocks bs)
  obtain m fork n1 where run: "sync_batch V Is 0 bs n = (m, fork, n1)" by (metis prod_cases3)
  then show ?thesis
    using assms Blocks batch_tip[OF run] by (auto simp: handle_sync_response_def split: if_splits)
next
  case (Status h)
  then show ?thesis using assms by (auto simp: handle_sync_response_def Let_def split: if_splits)
qed (use assms in \<open>auto simp: handle_sync_response_def\<close>)

text \<open>What one step of a node adds: no vote, or one vote for the block it just moved to.\<close>

definition votes_step :: "node_env \<Rightarrow> ChainInner \<Rightarrow> BlockVote list \<Rightarrow> ChainInner \<Rightarrow> bool" where
  "votes_step V n vs n' \<longleftrightarrow> vs = [] \<and> tip_height n \<le> tip_height n'
     \<or> (\<exists>v. vs = [v] \<and> bv_height v = bl_height (ch_latest_block n') \<and> tip_height n' = Suc (tip_height n)
          \<and> bv_block_hash v = bl_hash (ch_latest_block n'))"

lemma tick_votes:
  assumes "block_tick V I n = (out, n')" and "bl_height (ch_latest_block n) + 1 \<noteq> 0"
  shows "votes_step V n (votes_of out) n'"
proof (cases "fst (produce_block V I n)")
  case None
  obtain n1 where run: "produce_block V I n = (None, n1)" using None by (metis prod.collapse)
  have "ch_latest_block n1 = ch_latest_block n"
    using run by (auto simp: produce_block_def assemble_block_def Let_def case_prod_beta split: if_splits sum.splits prod.splits)
  then show ?thesis using assms(1) run by (simp add: block_tick_def votes_step_def)
next
  case (Some b)
  obtain n1 where run: "produce_block V I n = (Some b, n1)" using Some by (metis prod.collapse)
  then obtain fb p1 st where "assemble_block V I fb n = (b, p1)" "n1 = finish_block V I b (p1\<lparr>ch_store := st\<rparr>)"
    by (rule produced)
  then have "ch_latest_block n1 = b" "bl_height b = bl_height (ch_latest_block n) + 1"
    by (auto simp: finish_block_effect assemble_block_def Let_def case_prod_beta sign_block_def)
  then show ?thesis
    using assms run height_step[OF assms(2)]
    by (auto simp: block_tick_def votes_step_def vote_commands_votes)
qed

lemma event_votes:
  assumes "handle_event V Is e (ks, n) = (out, ks', n')" and "\<not> snapshot_event e"
    and "\<forall>b \<in> set (event_blocks e). bl_height b \<noteq> 0"
  shows "votes_step V n (votes_of out) n'"
proof (cases e)
  case (NewBlock b)
  obtain r n1 where run: "apply_remote_block_inner V (Is 0) False b n = (r, n1)" by force
  show ?thesis
  proof (cases r)
    case (Inl err)
    then show ?thesis using assms(1) NewBlock run refused_tip[of V "Is 0" False b n err n1]
      by (simp add: handle_event_def apply_remote_block_def votes_step_def)
  next
    case (Inr u)
    then show ?thesis using assms(1,3) NewBlock run accepted_tip[of V "Is 0" False b n u n1]
      by (auto simp: handle_event_def apply_remote_block_def votes_step_def vote_commands_votes)
  qed
next
  case (PeerRequest p c q)
  then show ?thesis using assms by (cases q) (auto simp: handle_event_def votes_step_def quiet_operations)
next
  case (PeerResponse p r)
  obtain q n1 where run: "handle_sync_response V Is r n = (q, n1)" by force
  then show ?thesis
    using assms PeerResponse response_tip[OF run] by (cases q) (auto simp: handle_event_def votes_step_def)
next
  case (PeerConnected p)
  then show ?thesis using assms
    by (auto simp: handle_event_def on_peer_connected_def votes_step_def Let_def split: if_splits)
qed (use assms in \<open>auto simp: handle_event_def votes_step_def quiet_operations vote_keeps Let_def\<close>)

text \<open>
  C5. A node never votes twice at one height: over any run of network events and production ticks,
  in any order and whatever blocks, votes and database errors occur, the votes it broadcasts have
  strictly increasing heights, and the last one is at or below its tip. (Answers with snapshots are
  excluded: they may move the tip back.)
\<close>

theorem node_never_votes_twice:
  assumes "node_run V (ks0, n0) cmds (ks, n)"
  shows "sorted_wrt (<) (map bv_height (votes_of cmds)) \<and> (\<forall>v \<in> set (votes_of cmds).
    tip_height n0 < unat (bv_height v) \<and> unat (bv_height v) \<le> tip_height n)"
proof -
  have "tip_height n0 \<le> tip_height n \<and> sorted_wrt (<) (map bv_height (votes_of cmds)) \<and> (\<forall>v \<in> set (votes_of cmds).
    tip_height n0 < unat (bv_height v) \<and> unat (bv_height v) \<le> tip_height n)"
    using assms
  proof (induction "(ks0, n0)" cmds "(ks, n)" arbitrary: ks n rule: node_run.induct)
    case (event cmds ks n Is e out ks' n')
    then show ?case using event_votes[OF event(3,4,5)]
      by (fastforce simp: votes_step_def sorted_wrt_append word_less_nat_alt)
  next
    case (tick cmds ks n I out n')
    then show ?case using tick_votes[OF tick(3,4)]
      by (fastforce simp: votes_step_def sorted_wrt_append word_less_nat_alt)
  qed simp
  then show ?thesis by blast
qed

theorem node_never_votes_twice_witness:
  "\<exists>out n. block_tick demo_env demo_inputs demo_node = (out, n) \<and> sorted_wrt (<) (map bv_height (votes_of out))"
proof -
  obtain out n where tick: "block_tick demo_env demo_inputs demo_node = (out, n)" by force
  have "node_run demo_env ([], demo_node) ([] @ out) ([], n)"
    using node_run.tick[OF node_run.idle tick] by (simp add: demo_node_def demo_tip_def)
  from node_never_votes_twice[OF this] show ?thesis using tick by simp
qed

end
