(* ===== verification/Chain_Queries.thy ===== *)
theory Chain_Queries
  imports Chain_Run
begin

text \<open>
  The queries that the RPC server puts to a node (\<open>node/src/chain.rs\<close>, from \<open>get_block_number\<close> on).
  They read a node and do not change it. JSON objects are records of the numbers they print.

  \<open>dedup_miners\<close> collects into a hash map; the ordered map here fixes one order of its values, and
  \<open>get_miners\<close> takes the order of the iteration as an argument, because the pages that it cuts
  depend on it. The uptime percentage of \<open>get_validator_detail\<close> is floating-point arithmetic for
  display and is left out.
\<close>

section \<open>Supply\<close>

record SupplyInfo =
  si_total_supply :: u128
  si_staked_supply :: u128
  si_unbonding_supply :: u128
  si_pending_mining :: u128
  si_circulating_supply :: u128
  si_num_balance_entries :: nat
  si_num_stake_entries :: nat

definition get_supply_info :: "ChainInner \<Rightarrow> SupplyInfo" where
  "get_supply_info inner =
     (let s = ch_state inner;
          balances_sum = total_balances s; stakes_sum = total_stakes s; unbonding_sum = total_unbonding s;
          pending = pending_mining s in
      \<lparr>si_total_supply = balances_sum + stakes_sum + unbonding_sum + pending, si_staked_supply = stakes_sum,
       si_unbonding_supply = unbonding_sum, si_pending_mining = pending, si_circulating_supply = balances_sum,
       si_num_balance_entries = bt_len (balances s), si_num_stake_entries = bt_len (stakes s)\<rparr>)"

record SupplyAudit =
  sa_total_balances :: u128
  sa_total_stakes :: u128
  sa_total_unbonding :: u128
  sa_total_supply :: u128
  sa_num_balance_entries :: nat
  sa_num_stake_entries :: nat
  sa_num_unbonding_entries :: nat
  sa_balances :: "(address \<times> u128) list"
  sa_stakes :: "(address \<times> u128) list"

definition get_total_supply_audit :: "ChainInner \<Rightarrow> SupplyAudit" where
  "get_total_supply_audit inner =
     (let s = ch_state inner;
          balances_sum = total_balances s; stakes_sum = total_stakes s; unbonding_sum = total_unbonding s in
      \<lparr>sa_total_balances = balances_sum, sa_total_stakes = stakes_sum, sa_total_unbonding = unbonding_sum,
       sa_total_supply = balances_sum + stakes_sum + unbonding_sum,
       sa_num_balance_entries = bt_len (balances s), sa_num_stake_entries = bt_len (stakes s),
       sa_num_unbonding_entries = length (unbonding_queue s),
       sa_balances = filter (\<lambda>p. snd p > 0) (entries (balances s)),
       sa_stakes = filter (\<lambda>p. snd p > 0) (entries (stakes s))\<rparr>)"

section \<open>Blocks and transactions\<close>

definition get_tx_by_hash :: "node_env \<Rightarrow> inputs \<Rightarrow> ChainInner \<Rightarrow> hash32 \<Rightarrow> (Transaction \<times> u64 \<times> u64) option" where
  "get_tx_by_hash V I inner h = (case get_tx_block_height (in_read I) (ch_store inner) h of
      Inr (Some height) \<Rightarrow> (case get_block (ne_codec V) (in_read I) (ch_store inner) height of
          Inr (Some block) \<Rightarrow> map_option (\<lambda>tx. (tx, height, bl_timestamp block))
            (find (\<lambda>tx. tx_hash (ne_ext V) tx = h) (bl_transactions block))
        | _ \<Rightarrow> None)
    | _ \<Rightarrow> None)"

record TxReceiptResponse =
  tr_block_height :: u64
  tr_transaction_index :: nat
  tr_receipt :: "TransactionReceipt option"

text \<open>The receipt from memory, else from the store.\<close>

definition lookup_receipt :: "node_env \<Rightarrow> inputs \<Rightarrow> ChainInner \<Rightarrow> hash32 \<Rightarrow> TransactionReceipt option" where
  "lookup_receipt V I inner h = (case bt_get (receipts (ch_state inner)) h of
      Some r \<Rightarrow> Some r
    | None \<Rightarrow> (case get_receipt (ne_codec V) (in_read I) (ch_store inner) h of Inr r \<Rightarrow> r | Inl _ \<Rightarrow> None))"

definition get_tx_receipt :: "node_env \<Rightarrow> inputs \<Rightarrow> ChainInner \<Rightarrow> hash32 \<Rightarrow> TxReceiptResponse option" where
  "get_tx_receipt V I inner h = (case get_tx_block_height (in_read I) (ch_store inner) h of
      Inr (Some height) \<Rightarrow> (case get_block (ne_codec V) (in_read I) (ch_store inner) height of
          Inr (Some block) \<Rightarrow> map_option (\<lambda>p. \<lparr>tr_block_height = height, tr_transaction_index = fst p,
              tr_receipt = lookup_receipt V I inner h\<rparr>)
            (find (\<lambda>p. tx_hash (ne_ext V) (snd p) = h) (enumerate 0 (bl_transactions block)))
        | _ \<Rightarrow> None)
    | _ \<Rightarrow> None)"

definition chain_transactions_by_address ::
  "node_env \<Rightarrow> inputs \<Rightarrow> ChainInner \<Rightarrow> address \<Rightarrow> nat \<Rightarrow> nat \<Rightarrow> (u64 \<times> u32 \<times> Transaction \<times> u64) list" where
  "chain_transactions_by_address V I inner address limit offset =
     (case get_transactions_by_address (ne_codec V) (in_read I) (ch_store inner) address limit offset of
        Inr rows \<Rightarrow> rows
      | Inl _ \<Rightarrow> [])"

definition get_contract_events ::
  "node_env \<Rightarrow> inputs \<Rightarrow> ChainInner \<Rightarrow> address \<Rightarrow> u64 \<Rightarrow> u64 \<Rightarrow> BlockEvent list" where
  "get_contract_events V I inner contract from_block to_block =
     (let stop = min to_block (bl_height (ch_latest_block inner)) in
      concat (map (\<lambda>h. case chain_get_block V I inner (of_nat h) of
          Some block \<Rightarrow> filter (\<lambda>e. case e of ContractEventB c _ _ _ \<Rightarrow> c = contract | _ \<Rightarrow> False) (bl_events block)
        | None \<Rightarrow> []) [unat from_block..<Suc (unat stop)]))"

type_synonym tx_row = "u64 \<times> u32 \<times> Transaction \<times> u64"

definition block_rows :: "u64 \<Rightarrow> Block \<Rightarrow> tx_row list" where
  "block_rows h block = rev (map (\<lambda>p. (h, of_nat (fst p), snd p, bl_timestamp block)) (enumerate 0 (bl_transactions block)))"

text \<open>The inner loop pushes first and then compares with the limit; \<open>True\<close> means it returned.\<close>

fun push_rows :: "nat \<Rightarrow> tx_row list \<Rightarrow> tx_row list \<Rightarrow> bool \<times> tx_row list" where
  "push_rows limit [] results = (False, results)"
| "push_rows limit (row # rows) results =
     (let results' = results @ [row] in
      if length results' \<ge> limit then (True, results') else push_rows limit rows results')"

fun scan_blocks :: "node_env \<Rightarrow> inputs \<Rightarrow> ChainInner \<Rightarrow> nat \<Rightarrow> nat list \<Rightarrow> tx_row list \<Rightarrow> tx_row list" where
  "scan_blocks V I inner limit [] results = results"
| "scan_blocks V I inner limit (h # hs) results = (case chain_get_block V I inner (of_nat h) of
      None \<Rightarrow> scan_blocks V I inner limit hs results
    | Some block \<Rightarrow> (case push_rows limit (block_rows (of_nat h) block) results of
        (True, results') \<Rightarrow> results'
      | (False, results') \<Rightarrow> scan_blocks V I inner limit hs results'))"

definition get_recent_transactions :: "node_env \<Rightarrow> inputs \<Rightarrow> ChainInner \<Rightarrow> nat \<Rightarrow> tx_row list" where
  "get_recent_transactions V I inner limit =
     scan_blocks V I inner limit (rev [0..<Suc (unat (bl_height (ch_latest_block inner)))]) []"

section \<open>Accounts, agents and tokens\<close>

definition get_reputation :: "ChainInner \<Rightarrow> address \<Rightarrow> ReputationAttestation list" where
  "get_reputation inner addr = filter (\<lambda>r. ra_to r = addr) (reputation (ch_state inner))"

definition get_services :: "ChainInner \<Rightarrow> string option \<Rightarrow> ServiceEntry list" where
  "get_services inner service_type = filter (\<lambda>s. se_active s \<and> (case service_type of
     None \<Rightarrow> True | Some st \<Rightarrow> se_service_type s = st)) (bt_values (services (ch_state inner)))"

definition get_token_holders :: "ChainInner \<Rightarrow> hash32 \<Rightarrow> (address \<times> u128) list" where
  "get_token_holders inner token_id = map (\<lambda>p. (fst (fst p), snd p))
     (filter (\<lambda>p. snd (fst p) = token_id \<and> snd p > 0) (entries (token_balances (ch_state inner))))"

definition get_unbonding :: "ChainInner \<Rightarrow> address \<Rightarrow> UnbondingEntry list" where
  "get_unbonding inner addr = filter (\<lambda>e. ub_address e = addr) (unbonding_queue (ch_state inner))"

text \<open>Validator, amount and commission of each delegation of a user.\<close>

definition user_delegation_rows :: "ChainInner \<Rightarrow> address \<Rightarrow> (address \<times> u128 \<times> u16) list" where
  "user_delegation_rows inner addr = (case bt_get (user_delegations (ch_state inner)) addr of
      None \<Rightarrow> []
    | Some user_entry \<Rightarrow> map (\<lambda>p. (fst p, snd p, bt_get_or (stake_commissions (ch_state inner)) 10000 (fst p)))
        (entries user_entry))"

record ValidatorDetail =
  vd_address :: address
  vd_stake :: u128
  vd_weight :: u64
  vd_agent_score :: u64
  vd_commission_bps :: u16
  vd_delegated_by :: "address option"
  vd_uptime :: "ValidatorUptime option"
  vd_jailed :: bool

definition get_validator_detail :: "ChainInner \<Rightarrow> address \<Rightarrow> ValidatorDetail option" where
  "get_validator_detail inner addr =
     (let s = ch_state inner; stake = bt_get_or (stakes s) 0 addr in
      if stake = 0 then None
      else
        (let (weight, agent_score) = (case get_active (ch_validator_set inner) addr of
               Some v \<Rightarrow> (av_weight v, av_agent_score v)
             | None \<Rightarrow> (0, 0)) in
         Some \<lparr>vd_address = addr, vd_stake = stake, vd_weight = weight, vd_agent_score = agent_score,
           vd_commission_bps = bt_get_or (stake_commissions s) 10000 addr,
           vd_delegated_by = bt_get (stake_delegations s) addr, vd_uptime = bt_get (validator_uptime s) addr,
           vd_jailed = is_jailed (ch_slashing inner) addr (block_height s)\<rparr>))"

section \<open>Miners\<close>

definition better_miner :: "MinerInfo \<Rightarrow> MinerInfo \<Rightarrow> MinerInfo" where
  "better_miner miner existing =
     (if mi_active miner \<and> \<not> mi_active existing then miner
      else if mi_active miner = mi_active existing \<and> mi_last_checkin_epoch miner > mi_last_checkin_epoch existing
      then miner else existing)"

definition dedup_miners :: "ChainInner \<Rightarrow> (string, MinerInfo) btree" where
  "dedup_miners inner = fold (\<lambda>miner groups. case bt_get groups (mi_name miner) of
      Some existing \<Rightarrow> bt_insert (mi_name miner) (better_miner miner existing) groups
    | None \<Rightarrow> bt_insert (mi_name miner) miner groups) (bt_values (miners (ch_state inner))) bt_empty"

definition get_miners :: "(MinerInfo list \<Rightarrow> MinerInfo list) \<Rightarrow> ChainInner \<Rightarrow> bool \<Rightarrow> nat \<Rightarrow> nat \<Rightarrow> MinerInfo list" where
  "get_miners hash_order inner active_only limit offset =
     take limit (drop offset (filter (\<lambda>m. \<not> active_only \<or> mi_active m) (hash_order (bt_values (dedup_miners inner)))))"

record MiningStats =
  ms_total_miners :: nat
  ms_active_miners :: nat
  ms_current_block_reward :: u128
  ms_mining_upgrade_height :: u64
  ms_upgraded :: bool

definition get_mining_stats :: "ChainInner \<Rightarrow> MiningStats" where
  "get_mining_stats inner =
     (let deduped = bt_values (dedup_miners inner); height = block_height (ch_state inner) in
      \<lparr>ms_total_miners = length deduped, ms_active_miners = length (filter mi_active deduped),
       ms_current_block_reward = reward_per_block height,
       ms_mining_upgrade_height = MINING_UPGRADE_HEIGHT, ms_upgraded = height \<ge> MINING_UPGRADE_HEIGHT\<rparr>)"

section \<open>View calls\<close>

definition VIEW_CALL_FUEL_LIMIT :: u64 where
  [claw_consts]: "VIEW_CALL_FUEL_LIMIT = 5000000"

text \<open>What the VM may read during a view call: the node's own \<open>ChainStateSnapshot\<close>.\<close>

record ViewSnapshot =
  vs_balances :: "(address, u128) btree"
  vs_agents :: "(address, AgentIdentity) btree"
  vs_contract_storage :: "(address \<times> bytes, bytes) btree"

definition view_balance :: "ViewSnapshot \<Rightarrow> address \<Rightarrow> u128" where
  "view_balance snap addr = bt_get_or (vs_balances snap) 0 addr"

definition view_registered :: "ViewSnapshot \<Rightarrow> address \<Rightarrow> bool" where
  "view_registered snap addr = bt_contains (vs_agents snap) addr"

definition view_storage :: "ViewSnapshot \<Rightarrow> address \<Rightarrow> bytes \<Rightarrow> bytes option" where
  "view_storage snap contract key = bt_get (vs_contract_storage snap) (contract, key)"

text \<open>\<open>vm\<close> is the engine in its thread; \<open>None\<close> is no answer within five seconds.\<close>

definition call_contract_view ::
  "(bytes \<Rightarrow> string \<Rightarrow> bytes \<Rightarrow> ExecutionContext \<Rightarrow> (bytes, bytes) btree \<Rightarrow> ViewSnapshot
     \<Rightarrow> (VmError + ExecutionResult) option)
   \<Rightarrow> ChainInner \<Rightarrow> address \<Rightarrow> string \<Rightarrow> bytes \<Rightarrow> string + ExecutionResult" where
  "call_contract_view vm inner addr method args =
     (let s = ch_state inner in
      case bt_get (contract_code s) addr of
        None \<Rightarrow> Inl ''Contract not found''
      | Some code \<Rightarrow>
          (let snapshot = \<lparr>vs_balances = balances s, vs_agents = agents s, vs_contract_storage = contract_storage s\<rparr>;
               ctx = new_top_level (replicate 32 0) addr (block_height s) (bl_timestamp (ch_latest_block inner)) 0
                 VIEW_CALL_FUEL_LIMIT True in
           case vm code method args ctx (storage_of addr s) snapshot of
             None \<Rightarrow> Inl (vm_error_string (ExecutionFailed ''contract view execution timed out after 5s''))
           | Some (Inl e) \<Rightarrow> Inl (vm_error_string e)
           | Some (Inr result) \<Rightarrow> Inr (result\<lparr>er_storage_changes := [], er_transfers := [], er_events := []\<rparr>)))"

section \<open>What the queries return\<close>

text \<open>The rows of one height as the scan sees them, and of the whole chain, newest first.\<close>

definition rows_at :: "node_env \<Rightarrow> inputs \<Rightarrow> ChainInner \<Rightarrow> nat \<Rightarrow> tx_row list" where
  "rows_at V I inner h = (case chain_get_block V I inner (of_nat h) of
     None \<Rightarrow> [] | Some block \<Rightarrow> block_rows (of_nat h) block)"

definition all_rows :: "node_env \<Rightarrow> inputs \<Rightarrow> ChainInner \<Rightarrow> nat list \<Rightarrow> tx_row list" where
  "all_rows V I inner hs = concat (map (rows_at V I inner) hs)"

lemma all_rows_simps [simp]:
  "all_rows V I inner [] = []"
  "all_rows V I inner (h # hs) = rows_at V I inner h @ all_rows V I inner hs"
  by (simp_all add: all_rows_def)

lemma push_rows_take:
  assumes "length results < max 1 limit"
  shows "push_rows limit rows results =
    (max 1 limit \<le> length results + length rows, results @ take (max 1 limit - length results) rows)"
  using assms
proof (induction rows arbitrary: results)
  case Nil
  then show ?case by auto
next
  case (Cons row rows)
  show ?case
  proof (cases "limit \<le> Suc (length results)")
    case True
    then have "max 1 limit - length results = 1" using Cons.prems by linarith
    then show ?thesis using True by simp
  next
    case False
    then have "max 1 limit - length results = Suc (limit - Suc (length results))" "max 1 limit = limit" by linarith+
    then show ?thesis using False Cons.IH[of "results @ [row]"] by simp
  qed
qed

lemma scan_blocks_take:
  assumes "length results < max 1 limit"
  shows "scan_blocks V I inner limit hs results =
    results @ take (max 1 limit - length results) (all_rows V I inner hs)"
  using assms
proof (induction hs arbitrary: results)
  case Nil
  then show ?case by simp
next
  case (Cons h hs)
  show ?case
  proof (cases "chain_get_block V I inner (of_nat h)")
    case None
    then show ?thesis using Cons by (simp add: rows_at_def)
  next
    case (Some block)
    let ?rows = "block_rows (of_nat h) block"
    show ?thesis
    proof (cases "max 1 limit \<le> length results + length ?rows")
      case True
      then show ?thesis using Some by (simp add: rows_at_def push_rows_take[OF Cons.prems])
    next
      case False
      then show ?thesis using Some Cons.IH[of "results @ ?rows"]
        by (simp add: rows_at_def push_rows_take[OF Cons.prems] del: max.bounded_iff)
    qed
  qed
qed

text \<open>
  The scan for recent transactions, which leaves two nested loops as soon as the result is long
  enough, returns a prefix of the list of all the chain's transactions from the newest block down,
  the last of each block first. The prefix has \<open>limit\<close> rows, but never fewer than one if the chain
  has a transaction: the loop compares with the limit after it has pushed, so a limit of zero still
  returns a row.
\<close>

theorem recent_transactions_prefix:
  "get_recent_transactions V I inner limit =
     take (max 1 limit) (all_rows V I inner (rev [0..<Suc (unat (bl_height (ch_latest_block inner)))]))"
  unfolding get_recent_transactions_def by (subst scan_blocks_take) simp_all

lemma better_miner_cases: "better_miner m e = m \<or> better_miner m e = e"
  by (simp add: better_miner_def)

definition at_least :: "MinerInfo \<Rightarrow> MinerInfo \<Rightarrow> bool" where
  "at_least w m \<longleftrightarrow> (mi_active m \<and> \<not> mi_active w \<longrightarrow> False) \<and>
     (mi_active m = mi_active w \<longrightarrow> mi_last_checkin_epoch m \<le> mi_last_checkin_epoch w)"

lemma at_least_refl [simp]: "at_least m m"
  by (simp add: at_least_def)

lemma at_least_better [simp]: "at_least (better_miner m e) m" "at_least (better_miner m e) e"
  by (auto simp: at_least_def better_miner_def)

lemma at_least_trans: "at_least a b \<Longrightarrow> at_least b c \<Longrightarrow> at_least a c"
  by (auto simp: at_least_def)

text \<open>Every name of \<open>ms\<close> has a best miner of that name, and no other name has an entry.\<close>

definition groups_ok :: "MinerInfo list \<Rightarrow> (string, MinerInfo) btree \<Rightarrow> bool" where
  "groups_ok ms groups \<longleftrightarrow>
     (\<forall>name w. bt_get groups name = Some w \<longrightarrow> w \<in> set ms \<and> mi_name w = name) \<and>
     (\<forall>m \<in> set ms. \<exists>w. bt_get groups (mi_name m) = Some w \<and> at_least w m)"

definition add_miner :: "MinerInfo \<Rightarrow> (string, MinerInfo) btree \<Rightarrow> (string, MinerInfo) btree" where
  "add_miner miner groups = (case bt_get groups (mi_name miner) of
      Some existing \<Rightarrow> bt_insert (mi_name miner) (better_miner miner existing) groups
    | None \<Rightarrow> bt_insert (mi_name miner) miner groups)"

lemma add_miner_get:
  "bt_get (add_miner m groups) name = (if name = mi_name m
     then Some (case bt_get groups name of Some e \<Rightarrow> better_miner m e | None \<Rightarrow> m) else bt_get groups name)"
  by (simp add: add_miner_def split: option.split)

lemma groups_ok_add:
  assumes ok: "groups_ok ms groups"
  shows "groups_ok (ms @ [m]) (add_miner m groups)"
  unfolding groups_ok_def
proof (intro conjI allI impI ballI)
  fix name w
  assume w: "bt_get (add_miner m groups) name = Some w"
  have "w = m \<and> name = mi_name m \<or> bt_get groups name = Some w"
    using w better_miner_cases by (auto simp: add_miner_get split: if_splits option.splits) metis
  then show "w \<in> set (ms @ [m])" "mi_name w = name" using ok unfolding groups_ok_def by auto
next
  fix x
  assume x: "x \<in> set (ms @ [m])"
  show "\<exists>w. bt_get (add_miner m groups) (mi_name x) = Some w \<and> at_least w x"
  proof (cases "x \<in> set ms")
    case True
    then obtain w where "bt_get groups (mi_name x) = Some w" "at_least w x"
      using ok unfolding groups_ok_def by blast
    then show ?thesis using at_least_trans[OF at_least_better(2)]
      by (cases "mi_name x = mi_name m") (auto simp: add_miner_get)
  next
    case False
    then show ?thesis using x by (auto simp: add_miner_get split: option.split)
  qed
qed

lemma groups_ok_fold: "groups_ok ms groups \<Longrightarrow> groups_ok (ms @ ns) (fold add_miner ns groups)"
proof (induction ns arbitrary: ms groups)
  case (Cons n ns)
  then show ?case using Cons.IH[OF groups_ok_add[OF Cons.prems, of n]] by simp
qed simp

lemma dedup_groups_ok: "groups_ok (bt_values (miners (ch_state inner))) (dedup_miners inner)"
  using groups_ok_fold[of "[]" bt_empty "bt_values (miners (ch_state inner))"]
  by (simp add: dedup_miners_def add_miner_def[abs_def] groups_ok_def)

lemma dedup_names: "map mi_name (bt_values (dedup_miners inner)) = bt_keys (dedup_miners inner)"
proof -
  have "mi_name (snd p) = fst p" if "p \<in> set (entries (dedup_miners inner))" for p
  proof -
    have "bt_get (dedup_miners inner) (fst p) = Some (snd p)"
      using that bt.ents_mem[of "fst p" "snd p"] by simp
    then show ?thesis using dedup_groups_ok[of inner] unfolding groups_ok_def by blast
  qed
  then show ?thesis by (simp add: bt_values_def bt_keys_def)
qed

lemma dedup_value: "w \<in> set (bt_values (dedup_miners inner)) \<Longrightarrow> bt_get (dedup_miners inner) (mi_name w) = Some w"
  using dedup_groups_ok[of inner] unfolding groups_ok_def bt_values_def
  by (auto simp: bt.ents_mem)

lemma dedup_member: "bt_get (dedup_miners inner) name = Some w \<Longrightarrow> w \<in> set (bt_values (dedup_miners inner))"
  unfolding bt_values_def by (force simp flip: bt.ents_mem)

lemma dedup_best:
  assumes "m \<in> set (bt_values (miners (ch_state inner)))"
  obtains w where "w \<in> set (bt_values (dedup_miners inner))" "mi_name w = mi_name m" "at_least w m"
  using assms dedup_groups_ok[of inner] dedup_member unfolding groups_ok_def by blast

lemma dedup_registered:
  "w \<in> set (bt_values (dedup_miners inner)) \<Longrightarrow> w \<in> set (bt_values (miners (ch_state inner)))"
  using dedup_value dedup_groups_ok[of inner] unfolding groups_ok_def by blast

lemma dedup_name_set:
  "mi_name ` {w \<in> set (bt_values (dedup_miners inner)). b \<longrightarrow> mi_active w} =
   mi_name ` {m \<in> set (bt_values (miners (ch_state inner))). b \<longrightarrow> mi_active m}"
proof (intro equalityI subsetI)
  fix name
  assume "name \<in> mi_name ` {m \<in> set (bt_values (miners (ch_state inner))). b \<longrightarrow> mi_active m}"
  then obtain m where m: "m \<in> set (bt_values (miners (ch_state inner)))" "name = mi_name m" "b \<longrightarrow> mi_active m"
    by blast
  obtain w where w: "w \<in> set (bt_values (dedup_miners inner))" "mi_name w = mi_name m" "at_least w m"
    by (rule dedup_best[OF m(1)])
  then have "b \<longrightarrow> mi_active w" using m(3) by (auto simp: at_least_def)
  then show "name \<in> mi_name ` {w \<in> set (bt_values (dedup_miners inner)). b \<longrightarrow> mi_active w}"
    using w(1) by (subst m(2), subst w(2)[symmetric]) blast
qed (auto dest: dedup_registered)

lemma dedup_length:
  "length (filter (\<lambda>w. b \<longrightarrow> mi_active w) (bt_values (dedup_miners inner))) =
   card (mi_name ` {m \<in> set (bt_values (miners (ch_state inner))). b \<longrightarrow> mi_active m})"
proof -
  have "distinct (map mi_name (bt_values (dedup_miners inner)))" by (simp add: dedup_names bt_keys_distinct)
  then have "distinct (map mi_name (filter (\<lambda>w. b \<longrightarrow> mi_active w) (bt_values (dedup_miners inner))))"
    by (rule distinct_map_filter)
  from distinct_card[OF this] show ?thesis
    unfolding length_map set_map set_filter dedup_name_set by simp
qed

text \<open>
  A miner that registered several addresses under one name is counted once. The totals of the
  mining statistics are the number of distinct names and the number of distinct names under which
  some address is active: keeping one entry per name, and preferring an active one, loses neither.
\<close>

theorem mining_stats_count_names:
  "ms_total_miners (get_mining_stats inner) = card (mi_name ` set (bt_values (miners (ch_state inner)))) \<and>
   ms_active_miners (get_mining_stats inner) =
     card (mi_name ` {m \<in> set (bt_values (miners (ch_state inner))). mi_active m})"
  using dedup_length[of False inner] dedup_length[of True inner]
  by (simp add: get_mining_stats_def Let_def)

text \<open>
  A page of miners shows a name once, whatever order the hash map iterates in; and for a page
  that takes them all, every registered address is stood for by an entry of its name that is active
  if the address is, and that checked in no earlier than it where both are active or both are not.
\<close>

lemma miners_page_shows_best:
  assumes "\<And>xs. mset (hash_order xs) = mset xs"
    and "m \<in> set (bt_values (miners (ch_state inner)))"
    and "bt_len (dedup_miners inner) \<le> limit"
  shows "distinct (map mi_name (get_miners hash_order inner active_only limit offset)) \<and>
    (\<exists>w \<in> set (get_miners hash_order inner False limit 0). mi_name w = mi_name m \<and> at_least w m)"
proof
  have "mset (map mi_name (hash_order (bt_values (dedup_miners inner)))) = mset (bt_keys (dedup_miners inner))"
    by (simp add: assms(1) flip: dedup_names)
  then have "distinct (map mi_name (hash_order (bt_values (dedup_miners inner))))"
    using mset_eq_imp_distinct_iff bt_keys_distinct by blast
  then show "distinct (map mi_name (get_miners hash_order inner active_only limit offset))"
    by (simp add: get_miners_def distinct_map_filter flip: take_map drop_map)
  have all: "get_miners hash_order inner False limit 0 = hash_order (bt_values (dedup_miners inner))"
    using assms(3) mset_eq_length[OF assms(1), of "bt_values (dedup_miners inner)"]
    by (simp add: get_miners_def bt_values_def bt_len_def)
  obtain w where "w \<in> set (bt_values (dedup_miners inner))" "mi_name w = mi_name m" "at_least w m"
    by (rule dedup_best[OF assms(2)])
  then show "\<exists>w \<in> set (get_miners hash_order inner False limit 0). mi_name w = mi_name m \<and> at_least w m"
    using mset_eq_setD[OF assms(1)] by (auto simp: all)
qed

end
