(* ===== verification/Vm_Host.thy ===== *)
theory Vm_Host
  imports Contracts "HOL-Library.Sublist"
begin

unbundle bit_operations_syntax

text \<open>
  The host functions that a contract can import (\<open>vm/src/host.rs\<close>).

  A contract is WebAssembly code; its linear memory is a list of bytes, and \<open>view_read\<close> and
  \<open>view_write\<close> are the bounds-checked accesses of a memory view. A host function takes the machine
  integers of its signature (\<open>i32\<close> and \<open>i64\<close> as words) and the environment of the execution, and
  returns the message of the trap or the reply, with the environment. Strings are their UTF-8
  bytes; \<open>vm_lossy\<close> is the replacement of invalid sequences, which only log texts use.
\<close>

section \<open>Constants\<close>

definition MAX_HOST_BUFFER_SIZE :: nat where
  [claw_consts]: "MAX_HOST_BUFFER_SIZE = 65536"

definition STORAGE_READ_FUEL :: u64 where
  [claw_consts]: "STORAGE_READ_FUEL = 10000"

definition STORAGE_WRITE_FUEL :: u64 where
  [claw_consts]: "STORAGE_WRITE_FUEL = 50000"

definition STORAGE_DELETE_FUEL :: u64 where
  [claw_consts]: "STORAGE_DELETE_FUEL = 10000"

definition HOST_CALL_BASE_FUEL :: u64 where
  [claw_consts]: "HOST_CALL_BASE_FUEL = 5000"

definition TOKEN_TRANSFER_FUEL :: u64 where
  [claw_consts]: "TOKEN_TRANSFER_FUEL = 100000"

definition AGENT_QUERY_FUEL :: u64 where
  [claw_consts]: "AGENT_QUERY_FUEL = 10000"

definition EVENT_EMIT_FUEL :: u64 where
  [claw_consts]: "EVENT_EMIT_FUEL = 20000"

definition MAX_EVENTS_PER_EXECUTION :: nat where
  [claw_consts]: "MAX_EVENTS_PER_EXECUTION = 50"

definition MAX_EVENT_DATA_SIZE :: nat where
  [claw_consts]: "MAX_EVENT_DATA_SIZE = 4096"

definition MAX_CALL_DEPTH :: u32 where
  [claw_consts]: "MAX_CALL_DEPTH = 4"

definition CROSS_CALL_BASE_FUEL :: u64 where
  [claw_consts]: "CROSS_CALL_BASE_FUEL = 200000"

definition MAX_CROSS_CALL_RETURN_SIZE :: nat where
  [claw_consts]: "MAX_CROSS_CALL_RETURN_SIZE = 16 * 1024"

definition MAX_LOG_ENTRIES :: nat where
  [claw_consts]: "MAX_LOG_ENTRIES = 100"

section \<open>The environment of an execution\<close>

text \<open>\<open>he_memory\<close> is \<open>None\<close> until the instance exists. The set of executing contracts is shared by
  the executions of one call stack.\<close>

record HostEnv =
  he_context :: ExecutionContext
  he_storage :: "(bytes, bytes) btree"
  he_storage_changes :: "(bytes \<times> bytes option) list"
  he_logs :: "string list"
  he_transfers :: "(address \<times> u128) list"
  he_return_data :: bytes
  he_events :: "ContractEvent list"
  he_balances :: "(address, u128) btree"
  he_agent_scores :: "(address, u64) btree"
  he_registered_agents :: "(address, unit) btree"
  he_memory :: "bytes option"
  he_fuel_remaining :: u64
  he_fuel_consumed :: u64
  he_fuel_limit :: u64
  he_chain_state :: "ChainStateSnapshot option"
  he_contract_code :: "(address, bytes) btree"
  he_last_cross_call_return :: bytes
  he_call_depth :: u32
  he_executing_contracts :: "address set"

definition consume_fuel :: "u64 \<Rightarrow> HostEnv \<Rightarrow> string + HostEnv" where
  "consume_fuel cost env =
     (if he_fuel_remaining env < cost
      then (let used = he_fuel_consumed env + he_fuel_remaining env in
            Inl (''fuel exhausted: used '' @ show_word used @ '', limit '' @ show_word (he_fuel_limit env)))
      else Inr (env\<lparr>he_fuel_remaining := he_fuel_remaining env - cost,
                    he_fuel_consumed := he_fuel_consumed env + cost\<rparr>))"

section \<open>Guest memory\<close>

definition view_read :: "bytes \<Rightarrow> nat \<Rightarrow> nat \<Rightarrow> bytes option" where
  "view_read mem ptr len = (if ptr + len \<le> length mem then Some (take len (drop ptr mem)) else None)"

definition view_write :: "bytes \<Rightarrow> nat \<Rightarrow> bytes \<Rightarrow> bytes option" where
  "view_write mem ptr data =
     (if ptr + length data \<le> length mem
      then Some (take ptr mem @ data @ drop (ptr + length data) mem) else None)"

definition read_bytes :: "HostEnv \<Rightarrow> u32 \<Rightarrow> u32 \<Rightarrow> VmError + bytes" where
  "read_bytes env ptr len =
     (if unat len > MAX_HOST_BUFFER_SIZE
      then Inl (MemoryError (''guest requested '' @ show_word len @ '' bytes, max is ''
             @ dec_digits MAX_HOST_BUFFER_SIZE))
      else case he_memory env of
          None \<Rightarrow> Inl (MemoryError ''memory not set'')
        | Some mem \<Rightarrow> (case view_read mem (unat ptr) (unat len) of
            None \<Rightarrow> Inl (MemoryError ''memory access out of bounds'')
          | Some buf \<Rightarrow> Inr buf))"

definition write_bytes :: "u32 \<Rightarrow> bytes \<Rightarrow> HostEnv \<Rightarrow> VmError + HostEnv" where
  "write_bytes ptr data env = (case he_memory env of
      None \<Rightarrow> Inl (MemoryError ''memory not set'')
    | Some mem \<Rightarrow> (case view_write mem (unat ptr) data of
        None \<Rightarrow> Inl (MemoryError ''memory access out of bounds'')
      | Some mem' \<Rightarrow> Inr (env\<lparr>he_memory := Some mem'\<rparr>)))"

text \<open>\<open>String::from_utf8\<close> succeeds on well-formed UTF-8.\<close>

definition cont_byte :: "u8 \<Rightarrow> bool" where
  "cont_byte b \<longleftrightarrow> 0x80 \<le> b \<and> b \<le> 0xBF"

definition lead_3 :: "u8 \<Rightarrow> u8 \<Rightarrow> bool" where
  "lead_3 b c \<longleftrightarrow> b = 0xE0 \<and> 0xA0 \<le> c \<and> c \<le> 0xBF
     \<or> (0xE1 \<le> b \<and> b \<le> 0xEC \<or> 0xEE \<le> b \<and> b \<le> 0xEF) \<and> cont_byte c
     \<or> b = 0xED \<and> 0x80 \<le> c \<and> c \<le> 0x9F"

definition lead_4 :: "u8 \<Rightarrow> u8 \<Rightarrow> bool" where
  "lead_4 b c \<longleftrightarrow> b = 0xF0 \<and> 0x90 \<le> c \<and> c \<le> 0xBF \<or> 0xF1 \<le> b \<and> b \<le> 0xF3 \<and> cont_byte c
     \<or> b = 0xF4 \<and> 0x80 \<le> c \<and> c \<le> 0x8F"

fun utf8_valid :: "bytes \<Rightarrow> bool" where
  "utf8_valid [] = True"
| "utf8_valid (b # bs) =
     (if b < 0x80 then utf8_valid bs
      else case bs of [] \<Rightarrow> False | c1 # bs1 \<Rightarrow>
        if 0xC2 \<le> b \<and> b \<le> 0xDF then cont_byte c1 \<and> utf8_valid bs1
        else case bs1 of [] \<Rightarrow> False | c2 # bs2 \<Rightarrow>
          if lead_3 b c1 then cont_byte c2 \<and> utf8_valid bs2
          else case bs2 of [] \<Rightarrow> False | c3 # bs3 \<Rightarrow>
            lead_4 b c1 \<and> cont_byte c2 \<and> cont_byte c3 \<and> utf8_valid bs3)"

definition bytes_string :: "bytes \<Rightarrow> string" where
  "bytes_string bs = map (\<lambda>b. char_of (unat b)) bs"

definition from_utf8 :: "bytes \<Rightarrow> string option" where
  "from_utf8 bs = (if utf8_valid bs then Some (bytes_string bs) else None)"

section \<open>Replies\<close>

datatype reply = RUnit | RI32 "32 word" | RI64 "64 word"

type_synonym host_result = "(string + reply) \<times> HostEnv"

text \<open>\<open>check_fuel\<close> followed by the rest of a host function.\<close>

definition check_fuel :: "u64 \<Rightarrow> (HostEnv \<Rightarrow> host_result) \<Rightarrow> HostEnv \<Rightarrow> host_result" where
  "check_fuel cost body env = (case consume_fuel cost env of
      Inl msg \<Rightarrow> (Inl (''out of fuel: '' @ msg), env)
    | Inr env' \<Rightarrow> body env')"

definition READ_ONLY_TRAP :: string where
  "READ_ONLY_TRAP = ''write operation not allowed in read-only (view) call''"

section \<open>Storage\<close>

definition host_storage_read :: "u32 \<Rightarrow> u32 \<Rightarrow> u32 \<Rightarrow> HostEnv \<Rightarrow> host_result" where
  "host_storage_read key_ptr key_len val_ptr = check_fuel STORAGE_READ_FUEL (\<lambda>env.
     case read_bytes env key_ptr key_len of
       Inl _ \<Rightarrow> (Inr (RI32 (- 1)), env)
     | Inr key \<Rightarrow> (case bt_get (he_storage env) key of
         None \<Rightarrow> (Inr (RI32 (- 1)), env)
       | Some val \<Rightarrow> (case write_bytes val_ptr val env of
           Inl _ \<Rightarrow> (Inr (RI32 (- 1)), env)
         | Inr env' \<Rightarrow> (Inr (RI32 (of_nat (length val))), env'))))"

definition host_storage_write :: "u32 \<Rightarrow> u32 \<Rightarrow> u32 \<Rightarrow> u32 \<Rightarrow> HostEnv \<Rightarrow> host_result" where
  "host_storage_write key_ptr key_len val_ptr val_len = check_fuel STORAGE_WRITE_FUEL (\<lambda>env.
     if ctx_read_only (he_context env) then (Inl READ_ONLY_TRAP, env)
     else case read_bytes env key_ptr key_len of
       Inl _ \<Rightarrow> (Inr RUnit, env)
     | Inr key \<Rightarrow> (case read_bytes env val_ptr val_len of
         Inl _ \<Rightarrow> (Inr RUnit, env)
       | Inr val \<Rightarrow> (Inr RUnit, env\<lparr>he_storage := bt_insert key val (he_storage env),
             he_storage_changes := he_storage_changes env @ [(key, Some val)]\<rparr>)))"

definition host_storage_has :: "u32 \<Rightarrow> u32 \<Rightarrow> HostEnv \<Rightarrow> host_result" where
  "host_storage_has key_ptr key_len = check_fuel STORAGE_READ_FUEL (\<lambda>env.
     case read_bytes env key_ptr key_len of
       Inl _ \<Rightarrow> (Inr (RI32 0), env)
     | Inr key \<Rightarrow> (Inr (RI32 (if bt_contains (he_storage env) key then 1 else 0)), env))"

definition host_storage_delete :: "u32 \<Rightarrow> u32 \<Rightarrow> HostEnv \<Rightarrow> host_result" where
  "host_storage_delete key_ptr key_len = check_fuel STORAGE_DELETE_FUEL (\<lambda>env.
     if ctx_read_only (he_context env) then (Inl READ_ONLY_TRAP, env)
     else case read_bytes env key_ptr key_len of
       Inl _ \<Rightarrow> (Inr RUnit, env)
     | Inr key \<Rightarrow> (Inr RUnit, env\<lparr>he_storage := bt_remove key (he_storage env),
           he_storage_changes := he_storage_changes env @ [(key, None)]\<rparr>))"

section \<open>Context\<close>

text \<open>A failed write of an address is ignored.\<close>

definition write_or_ignore :: "u32 \<Rightarrow> bytes \<Rightarrow> HostEnv \<Rightarrow> HostEnv" where
  "write_or_ignore ptr data env = (case write_bytes ptr data env of Inl _ \<Rightarrow> env | Inr env' \<Rightarrow> env')"

definition host_caller :: "u32 \<Rightarrow> HostEnv \<Rightarrow> host_result" where
  "host_caller out_ptr = check_fuel HOST_CALL_BASE_FUEL (\<lambda>env.
     (Inr RUnit, write_or_ignore out_ptr (ctx_caller (he_context env)) env))"

definition host_block_height :: "HostEnv \<Rightarrow> host_result" where
  "host_block_height = check_fuel HOST_CALL_BASE_FUEL (\<lambda>env.
     (Inr (RI64 (ctx_block_height (he_context env))), env))"

definition host_block_timestamp :: "HostEnv \<Rightarrow> host_result" where
  "host_block_timestamp = check_fuel HOST_CALL_BASE_FUEL (\<lambda>env.
     (Inr (RI64 (ctx_block_timestamp (he_context env))), env))"

definition host_contract_address :: "u32 \<Rightarrow> HostEnv \<Rightarrow> host_result" where
  "host_contract_address out_ptr = check_fuel HOST_CALL_BASE_FUEL (\<lambda>env.
     (Inr RUnit, write_or_ignore out_ptr (ctx_contract_address (he_context env)) env))"

definition low_half :: "u128 \<Rightarrow> 64 word" where
  "low_half v = ucast (v AND 0xFFFFFFFFFFFFFFFF)"

definition high_half :: "u128 \<Rightarrow> 64 word" where
  "high_half v = ucast (drop_bit 64 v)"

definition join_halves :: "64 word \<Rightarrow> 64 word \<Rightarrow> u128" where
  "join_halves lo hi = (ucast lo OR push_bit 64 (ucast hi))"

definition host_value_lo :: "HostEnv \<Rightarrow> host_result" where
  "host_value_lo = check_fuel HOST_CALL_BASE_FUEL (\<lambda>env.
     (Inr (RI64 (low_half (ctx_value (he_context env)))), env))"

definition host_value_hi :: "HostEnv \<Rightarrow> host_result" where
  "host_value_hi = check_fuel HOST_CALL_BASE_FUEL (\<lambda>env.
     (Inr (RI64 (high_half (ctx_value (he_context env)))), env))"

section \<open>Agents and tokens\<close>

definition host_agent_get_score :: "u32 \<Rightarrow> HostEnv \<Rightarrow> host_result" where
  "host_agent_get_score addr_ptr = check_fuel AGENT_QUERY_FUEL (\<lambda>env.
     case read_bytes env addr_ptr 32 of
       Inl _ \<Rightarrow> (Inr (RI64 0), env)
     | Inr addr \<Rightarrow> (Inr (RI64 (bt_get_or (he_agent_scores env) 0 addr)), env))"

definition host_agent_is_registered :: "u32 \<Rightarrow> HostEnv \<Rightarrow> host_result" where
  "host_agent_is_registered addr_ptr = check_fuel AGENT_QUERY_FUEL (\<lambda>env.
     case read_bytes env addr_ptr 32 of
       Inl _ \<Rightarrow> (Inr (RI32 0), env)
     | Inr addr \<Rightarrow> (Inr (RI32 (if bt_contains (he_registered_agents env) addr then 1 else 0)), env))"

definition host_token_balance :: "u32 \<Rightarrow> HostEnv \<Rightarrow> host_result" where
  "host_token_balance addr_ptr = check_fuel HOST_CALL_BASE_FUEL (\<lambda>env.
     case read_bytes env addr_ptr 32 of
       Inl _ \<Rightarrow> (Inr (RI64 0), env)
     | Inr addr \<Rightarrow> (Inr (RI64 (low_half (bt_get_or (he_balances env) 0 addr))), env))"

definition host_token_balance_hi :: "u32 \<Rightarrow> HostEnv \<Rightarrow> host_result" where
  "host_token_balance_hi addr_ptr = check_fuel HOST_CALL_BASE_FUEL (\<lambda>env.
     case read_bytes env addr_ptr 32 of
       Inl _ \<Rightarrow> (Inr (RI64 0), env)
     | Inr addr \<Rightarrow> (Inr (RI64 (high_half (bt_get_or (he_balances env) 0 addr))), env))"

definition host_token_transfer :: "u32 \<Rightarrow> 64 word \<Rightarrow> 64 word \<Rightarrow> HostEnv \<Rightarrow> host_result" where
  "host_token_transfer to_ptr amount_lo amount_hi = check_fuel TOKEN_TRANSFER_FUEL (\<lambda>env.
     if ctx_read_only (he_context env) then (Inl READ_ONLY_TRAP, env)
     else case read_bytes env to_ptr 32 of
       Inl _ \<Rightarrow> (Inr (RI32 (- 1)), env)
     | Inr to \<Rightarrow>
         (let amount = join_halves amount_lo amount_hi in
          if amount = 0 then (Inr (RI32 (- 1)), env)
          else (Inr (RI32 0), env\<lparr>he_transfers := he_transfers env @ [(to, amount)]\<rparr>)))"

section \<open>Utilities and events\<close>

definition host_log :: "(bytes \<Rightarrow> string) \<Rightarrow> u32 \<Rightarrow> u32 \<Rightarrow> HostEnv \<Rightarrow> host_result" where
  "host_log lossy ptr len = check_fuel HOST_CALL_BASE_FUEL (\<lambda>env.
     case read_bytes env ptr len of
       Inl _ \<Rightarrow> (Inr RUnit, env)
     | Inr bytes \<Rightarrow>
         if length (he_logs env) \<ge> MAX_LOG_ENTRIES then (Inr RUnit, env)
         else (Inr RUnit, env\<lparr>he_logs := he_logs env @ [lossy bytes]\<rparr>))"

definition host_return_data :: "u32 \<Rightarrow> u32 \<Rightarrow> HostEnv \<Rightarrow> host_result" where
  "host_return_data ptr len = check_fuel HOST_CALL_BASE_FUEL (\<lambda>env.
     case read_bytes env ptr len of
       Inl _ \<Rightarrow> (Inr RUnit, env)
     | Inr bytes \<Rightarrow> (Inr RUnit, env\<lparr>he_return_data := bytes\<rparr>))"

text \<open>\<open>host_abort\<close> charges nothing and always traps.\<close>

definition host_abort :: "(bytes \<Rightarrow> string) \<Rightarrow> u32 \<Rightarrow> u32 \<Rightarrow> HostEnv \<Rightarrow> host_result" where
  "host_abort lossy ptr len env =
     (let bytes = (case read_bytes env ptr len of Inl _ \<Rightarrow> [] | Inr b \<Rightarrow> b) in
      (Inl (''contract abort: '' @ lossy bytes), env))"

definition host_emit_event :: "u32 \<Rightarrow> u32 \<Rightarrow> u32 \<Rightarrow> u32 \<Rightarrow> HostEnv \<Rightarrow> host_result" where
  "host_emit_event topic_ptr topic_len data_ptr data_len = check_fuel EVENT_EMIT_FUEL (\<lambda>env.
     if topic_len = 0 then (Inl ''emit_event: topic must not be empty'', env)
     else if unat topic_len > 256
     then (Inl (''emit_event: topic length '' @ show_word topic_len @ '' exceeds 256 byte limit''), env)
     else if unat data_len > MAX_EVENT_DATA_SIZE
     then (Inl (''emit_event: data length '' @ show_word data_len @ '' exceeds ''
             @ dec_digits MAX_EVENT_DATA_SIZE @ '' byte limit''), env)
     else case read_bytes env topic_ptr topic_len of
       Inl e \<Rightarrow> (Inl (''emit_event: failed to read topic: '' @ vm_error_string e), env)
     | Inr topic_bytes \<Rightarrow> (case from_utf8 topic_bytes of
         None \<Rightarrow> (Inl ''emit_event: topic is not valid UTF-8'', env)
       | Some topic \<Rightarrow> (case (if data_len = 0 then Inr [] else read_bytes env data_ptr data_len) of
           Inl e \<Rightarrow> (Inl (''emit_event: failed to read data: '' @ vm_error_string e), env)
         | Inr data \<Rightarrow>
             if length (he_events env) \<ge> MAX_EVENTS_PER_EXECUTION
             then (Inl (''emit_event: max event limit ('' @ dec_digits MAX_EVENTS_PER_EXECUTION @ '') exceeded''), env)
             else (Inr RUnit, env\<lparr>he_events := he_events env @ [\<lparr>ce_topic = topic, ce_data = data\<rparr>]\<rparr>))))"

section \<open>Calls of other contracts\<close>

text \<open>
  The engine that runs the callee, in a thread of its own: its answer, or \<open>None\<close> if it does not come
  within ten seconds, and the shared set of executing contracts afterwards.
\<close>

type_synonym child_engine =
  "bytes \<Rightarrow> string \<Rightarrow> bytes \<Rightarrow> ExecutionContext \<Rightarrow> (bytes, bytes) btree \<Rightarrow> ChainStateSnapshot
   \<Rightarrow> (VmError + ExecutionResult) option \<times> address set"

text \<open>Steps 12 and on: fuel, changes, transfers and events of the callee become the caller's.\<close>

definition deduct_child :: "u64 \<Rightarrow> HostEnv \<Rightarrow> HostEnv" where
  "deduct_child used env =
     env\<lparr>he_fuel_remaining := he_fuel_remaining env - min used (he_fuel_remaining env),
         he_fuel_consumed := he_fuel_consumed env + used\<rparr>"

definition settle_child :: "VmError + ExecutionResult \<Rightarrow> HostEnv \<Rightarrow> host_result" where
  "settle_child child_result env = (case child_result of
      Inr result \<Rightarrow>
        (let env1 = deduct_child (er_fuel_consumed result) env in
         (Inr (RI32 0), env1\<lparr>he_storage_changes := he_storage_changes env1 @ er_storage_changes result,
            he_transfers := he_transfers env1 @ er_transfers result,
            he_events := he_events env1 @ er_events result,
            he_last_cross_call_return := er_return_data result\<rparr>))
    | Inl e \<Rightarrow>
        (let env1 = (case e of OutOfFuel used _ \<Rightarrow> deduct_child used env | _ \<Rightarrow> env) in
         (Inr (RI32 (- 1)), env1\<lparr>he_last_cross_call_return := []\<rparr>)))"

definition child_context :: "address \<Rightarrow> u128 \<Rightarrow> HostEnv \<Rightarrow> ExecutionContext" where
  "child_context target value env = \<lparr>
     ctx_caller = ctx_contract_address (he_context env), ctx_contract_address = target,
     ctx_block_height = ctx_block_height (he_context env),
     ctx_block_timestamp = ctx_block_timestamp (he_context env), ctx_value = value,
     ctx_fuel_limit = he_fuel_remaining env, ctx_read_only = False, ctx_call_depth = he_call_depth env + 1,
     ctx_executing_contracts = insert target (he_executing_contracts env)\<rparr>"

text \<open>Steps 6 to 12, once the callee's code is known.\<close>

definition enter_contract ::
  "child_engine \<Rightarrow> address \<Rightarrow> bytes \<Rightarrow> string \<Rightarrow> bytes \<Rightarrow> u128 \<Rightarrow> HostEnv \<Rightarrow> host_result" where
  "enter_contract child target code method args value env = (case he_chain_state env of
      None \<Rightarrow> (Inr (RI32 (- 1)), env\<lparr>he_executing_contracts :=
                insert target (he_executing_contracts env) - {target}\<rparr>)
    | Some cs \<Rightarrow>
        (let (answer, executing) = child code method args (child_context target value env) bt_empty cs;
             child_result = (case answer of
               Some r \<Rightarrow> r | None \<Rightarrow> Inl (ExecutionFailed ''cross-contract call timed out'')) in
         settle_child child_result (env\<lparr>he_executing_contracts := executing - {target}\<rparr>)))"

text \<open>The body after the fee.\<close>

definition call_contract_body ::
  "child_engine \<Rightarrow> u32 \<Rightarrow> u32 \<Rightarrow> u32 \<Rightarrow> u32 \<Rightarrow> u32 \<Rightarrow> 64 word \<Rightarrow> 64 word \<Rightarrow> HostEnv \<Rightarrow> host_result" where
  "call_contract_body child addr_ptr method_ptr method_len args_ptr args_len value_lo value_hi env =
     (if ctx_read_only (he_context env)
      then (Inl ''cross-contract call not allowed in read-only (view) call'', env)
      else case read_bytes env addr_ptr 32 of
        Inl e \<Rightarrow> (Inl (''call_contract: bad address: '' @ vm_error_string e), env)
      | Inr target_addr \<Rightarrow>
          if he_call_depth env \<ge> MAX_CALL_DEPTH then (Inr (RI32 (- 3)), env)
          else if target_addr \<in> he_executing_contracts env then (Inr (RI32 (- 2)), env)
          else case read_bytes env method_ptr method_len of
            Inl e \<Rightarrow> (Inl (''call_contract: bad method: '' @ vm_error_string e), env)
          | Inr method_bytes \<Rightarrow> (case from_utf8 method_bytes of
              None \<Rightarrow> (Inl ''call_contract: method name is not valid UTF-8'', env)
            | Some method \<Rightarrow> (case (if args_len > 0 then read_bytes env args_ptr args_len else Inr []) of
                Inl e \<Rightarrow> (Inl (''call_contract: bad args: '' @ vm_error_string e), env)
              | Inr args \<Rightarrow> (case bt_get (he_contract_code env) target_addr of
                  None \<Rightarrow> (Inr (RI32 (- 1)), env)
                | Some code \<Rightarrow> enter_contract child target_addr code method args
                    (join_halves value_lo value_hi) env))))"

definition host_call_contract ::
  "child_engine \<Rightarrow> u32 \<Rightarrow> u32 \<Rightarrow> u32 \<Rightarrow> u32 \<Rightarrow> u32 \<Rightarrow> 64 word \<Rightarrow> 64 word \<Rightarrow> HostEnv \<Rightarrow> host_result" where
  "host_call_contract child addr_ptr method_ptr method_len args_ptr args_len value_lo value_hi =
     check_fuel CROSS_CALL_BASE_FUEL
       (call_contract_body child addr_ptr method_ptr method_len args_ptr args_len value_lo value_hi)"

definition host_cross_call_return_data :: "u32 \<Rightarrow> HostEnv \<Rightarrow> host_result" where
  "host_cross_call_return_data out_ptr = check_fuel HOST_CALL_BASE_FUEL (\<lambda>env.
     (let data = he_last_cross_call_return env in
      if data = [] then (Inr (RI32 0), env)
      else if length data > MAX_CROSS_CALL_RETURN_SIZE then (Inr (RI32 (- 1)), env)
      else case write_bytes out_ptr data env of
        Inr env' \<Rightarrow> (Inr (RI32 (of_nat (length data))), env')
      | Inl _ \<Rightarrow> (Inr (RI32 (- 1)), env)))"

section \<open>The import table\<close>

datatype host_call =
    H_storage_read u32 u32 u32 | H_storage_write u32 u32 u32 u32 | H_storage_has u32 u32
  | H_storage_delete u32 u32 | H_caller u32 | H_block_height | H_block_timestamp | H_contract_address u32
  | H_value_lo | H_value_hi | H_agent_get_score u32 | H_agent_is_registered u32 | H_token_balance u32
  | H_token_balance_hi u32 | H_token_transfer u32 "64 word" "64 word" | H_log_msg u32 u32
  | H_return_data u32 u32 | H_abort u32 u32 | H_emit_event u32 u32 u32 u32
  | H_call_contract u32 u32 u32 u32 u32 "64 word" "64 word" | H_cross_call_return_data u32

fun import_object :: "child_engine \<Rightarrow> (bytes \<Rightarrow> string) \<Rightarrow> host_call \<Rightarrow> HostEnv \<Rightarrow> host_result" where
  "import_object child lossy (H_storage_read k l v) = host_storage_read k l v"
| "import_object child lossy (H_storage_write k l v n) = host_storage_write k l v n"
| "import_object child lossy (H_storage_has k l) = host_storage_has k l"
| "import_object child lossy (H_storage_delete k l) = host_storage_delete k l"
| "import_object child lossy (H_caller p) = host_caller p"
| "import_object child lossy H_block_height = host_block_height"
| "import_object child lossy H_block_timestamp = host_block_timestamp"
| "import_object child lossy (H_contract_address p) = host_contract_address p"
| "import_object child lossy H_value_lo = host_value_lo"
| "import_object child lossy H_value_hi = host_value_hi"
| "import_object child lossy (H_agent_get_score p) = host_agent_get_score p"
| "import_object child lossy (H_agent_is_registered p) = host_agent_is_registered p"
| "import_object child lossy (H_token_balance p) = host_token_balance p"
| "import_object child lossy (H_token_balance_hi p) = host_token_balance_hi p"
| "import_object child lossy (H_token_transfer p lo hi) = host_token_transfer p lo hi"
| "import_object child lossy (H_log_msg p l) = host_log lossy p l"
| "import_object child lossy (H_return_data p l) = host_return_data p l"
| "import_object child lossy (H_abort p l) = host_abort lossy p l"
| "import_object child lossy (H_emit_event p l q n) = host_emit_event p l q n"
| "import_object child lossy (H_call_contract a p l q n lo hi) = host_call_contract child a p l q n lo hi"
| "import_object child lossy (H_cross_call_return_data p) = host_cross_call_return_data p"

end
