(* ===== verification/Vm_Interface.thy ===== *)
theory Vm_Interface
  imports Vm_Host
begin

text \<open>
  What every host function promises, stated once as a locale and discharged for each import: fuel
  is charged and never created, a call that returns has cost at least the base fee, the fixed part of the
  environment stays as it is, a view call records no change, and without calls of other contracts
  the recorded changes are exactly what the contract's own reads see.
\<close>

section \<open>Invariants of the environment\<close>

definition fuel_ok :: "HostEnv \<Rightarrow> bool" where
  "fuel_ok env \<longleftrightarrow> unat (he_fuel_remaining env) + unat (he_fuel_consumed env) = unat (he_fuel_limit env)"

text \<open>The part of an environment that no host function touches.\<close>

definition host_frame :: "HostEnv \<Rightarrow> HostEnv \<Rightarrow> bool" where
  "host_frame env env' \<longleftrightarrow> he_context env' = he_context env \<and> he_fuel_limit env' = he_fuel_limit env
     \<and> he_chain_state env' = he_chain_state env \<and> he_contract_code env' = he_contract_code env
     \<and> he_call_depth env' = he_call_depth env \<and> he_balances env' = he_balances env
     \<and> he_agent_scores env' = he_agent_scores env \<and> he_registered_agents env' = he_registered_agents env
     \<and> he_executing_contracts env' = he_executing_contracts env
     \<and> map_option length (he_memory env') = map_option length (he_memory env)"

definition unwritten :: "HostEnv \<Rightarrow> HostEnv \<Rightarrow> bool" where
  "unwritten env env' \<longleftrightarrow> he_storage env' = he_storage env
     \<and> he_storage_changes env' = he_storage_changes env \<and> he_transfers env' = he_transfers env"

definition apply_change :: "bytes \<times> bytes option \<Rightarrow> (bytes, bytes) btree \<Rightarrow> (bytes, bytes) btree" where
  "apply_change c m = (case snd c of Some v \<Rightarrow> bt_insert (fst c) v m | None \<Rightarrow> bt_remove (fst c) m)"

text \<open>No contract can be called: every contract with code is already executing.\<close>

definition alone :: "HostEnv \<Rightarrow> bool" where
  "alone env \<longleftrightarrow> (\<forall>a. bt_contains (he_contract_code env) a \<longrightarrow> a \<in> he_executing_contracts env)"

text \<open>For an execution that started on the storage \<open>s0\<close> and calls no other contract.\<close>

definition tidy :: "(bytes, bytes) btree \<Rightarrow> HostEnv \<Rightarrow> bool" where
  "tidy s0 env \<longleftrightarrow> he_storage env = fold apply_change (he_storage_changes env) s0
     \<and> length (he_events env) \<le> MAX_EVENTS_PER_EXECUTION \<and> length (he_logs env) \<le> MAX_LOG_ENTRIES
     \<and> (\<forall>t \<in> set (he_transfers env). snd t \<noteq> 0)"

lemma host_frame_refl [simp]: "host_frame env env"
  by (simp add: host_frame_def)

lemma host_frame_trans: "host_frame a b \<Longrightarrow> host_frame b c \<Longrightarrow> host_frame a c"
  by (simp add: host_frame_def)

lemma unwritten_refl [simp]: "unwritten env env"
  by (simp add: unwritten_def)

lemma unwritten_trans: "unwritten a b \<Longrightarrow> unwritten b c \<Longrightarrow> unwritten a c"
  by (simp add: unwritten_def)

section \<open>The interface\<close>

text \<open>The part of a host function after its fee: it burns no fuel of its own.\<close>

locale host_body =
  fixes body :: "HostEnv \<Rightarrow> host_result"
  assumes body_fuel: "fuel_ok env \<Longrightarrow> fuel_ok (snd (body env))"
    and body_remaining: "he_fuel_remaining (snd (body env)) \<le> he_fuel_remaining env"
    and body_frame: "host_frame env (snd (body env))"
    and body_view: "ctx_read_only (he_context env) \<Longrightarrow> unwritten env (snd (body env))"
    and body_tidy: "alone env \<Longrightarrow> tidy s0 env \<Longrightarrow> tidy s0 (snd (body env))"

locale host_op =
  fixes op :: "HostEnv \<Rightarrow> host_result"
  assumes op_fuel: "fuel_ok env \<Longrightarrow> fuel_ok (snd (op env))"
    and op_pays: "op env = (Inr r, env') \<Longrightarrow>
      unat (he_fuel_remaining env') + 5000 \<le> unat (he_fuel_remaining env)"
    and op_frame: "host_frame env (snd (op env))"
    and op_view: "ctx_read_only (he_context env) \<Longrightarrow> unwritten env (snd (op env))"
    and op_tidy: "alone env \<Longrightarrow> tidy s0 env \<Longrightarrow> tidy s0 (snd (op env))"

lemma consume_fuel_Inr:
  assumes "consume_fuel cost env = Inr env'"
  shows "env' = env\<lparr>he_fuel_remaining := he_fuel_remaining env - cost,
      he_fuel_consumed := he_fuel_consumed env + cost\<rparr>" "cost \<le> he_fuel_remaining env"
  using assms by (auto simp: consume_fuel_def Let_def split: if_splits)

lemma consume_fuel_remaining:
  assumes "consume_fuel cost env = Inr env'"
  shows "unat (he_fuel_remaining env') + unat cost = unat (he_fuel_remaining env)"
  using consume_fuel_Inr[OF assms] by (simp add: unat_sub word_le_nat_alt)

lemma consume_fuel_ok:
  assumes "consume_fuel cost env = Inr env'" and "fuel_ok env"
  shows "fuel_ok env'"
proof -
  note rem = consume_fuel_remaining[OF assms(1)] and env' = consume_fuel_Inr(1)[OF assms(1)]
  have "unat (he_fuel_limit env) < 2 ^ LENGTH(64)" by (rule unsigned_less)
  then have "unat (he_fuel_consumed env) + unat cost < 2 ^ LENGTH(64)"
    using rem assms(2) unfolding fuel_ok_def by simp
  then have "unat (he_fuel_consumed env') = unat (he_fuel_consumed env) + unat cost"
    by (simp add: env' unat_add_exact)
  moreover have "he_fuel_limit env' = he_fuel_limit env" by (simp add: env')
  ultimately show ?thesis using rem assms(2) by (simp add: fuel_ok_def)
qed

lemma consume_fuel_frame:
  assumes "consume_fuel cost env = Inr env'"
  shows "host_frame env env'" "unwritten env env'" "tidy s0 env \<Longrightarrow> tidy s0 env'"
  using consume_fuel_Inr(1)[OF assms] by (simp_all add: host_frame_def unwritten_def tidy_def)

lemma check_fuel_pays:
  assumes "\<And>env. he_fuel_remaining (snd (body env)) \<le> he_fuel_remaining env" and "5000 \<le> unat cost"
    and "check_fuel cost body env = (Inr r, env')"
  shows "unat (he_fuel_remaining env') + 5000 \<le> unat (he_fuel_remaining env)"
proof (cases "consume_fuel cost env")
  case (Inr env1)
  then have "body env1 = (Inr r, env')" using assms(3) by (simp add: check_fuel_def)
  then have "he_fuel_remaining env' \<le> he_fuel_remaining env1" using assms(1)[of env1] by simp
  then show ?thesis using consume_fuel_remaining[OF Inr] assms(2) by (simp add: word_le_nat_alt)
qed (use assms(3) in \<open>simp add: check_fuel_def\<close>)

text \<open>A fee of at least the base fee in front of a body gives a host function.\<close>

lemma check_fuel_op:
  assumes body: "host_body body" and cost: "5000 \<le> unat cost"
  shows "host_op (check_fuel cost body)"
proof
  fix env r env' s0
  note laws = host_body.body_fuel[OF body] host_body.body_remaining[OF body] host_body.body_frame[OF body]
    host_body.body_view[OF body] host_body.body_tidy[OF body]
  consider (exhausted) msg where "check_fuel cost body env = (Inl msg, env)"
    | (paid) env1 where "consume_fuel cost env = Inr env1" "check_fuel cost body env = body env1"
    by (cases "consume_fuel cost env") (auto simp: check_fuel_def)
  note cases = this
  show "fuel_ok (snd (check_fuel cost body env))" if "fuel_ok env"
    by (cases rule: cases) (use that consume_fuel_ok laws(1) in auto)
  show "host_frame env (snd (check_fuel cost body env))"
  proof (cases rule: cases)
    case (paid env1)
    then show ?thesis using host_frame_trans[OF consume_fuel_frame(1)[OF paid(1)] laws(3)] by simp
  qed simp
  show "unwritten env (snd (check_fuel cost body env))" if "ctx_read_only (he_context env)"
  proof (cases rule: cases)
    case (paid env1)
    then have "ctx_read_only (he_context env1)" using that consume_fuel_frame(1)[OF paid(1)] by (simp add: host_frame_def)
    then show ?thesis using paid unwritten_trans[OF consume_fuel_frame(2)[OF paid(1)] laws(4)] by simp
  qed simp
  show "tidy s0 (snd (check_fuel cost body env))" if "alone env" "tidy s0 env"
    by (cases rule: cases) (use that consume_fuel_frame(1,3) laws(5) in \<open>auto simp: host_frame_def alone_def\<close>)
  show "unat (he_fuel_remaining env') + 5000 \<le> unat (he_fuel_remaining env)"
    if "check_fuel cost body env = (Inr r, env')"
    using laws(2) cost that by (rule check_fuel_pays)
qed

section \<open>The imports\<close>

text \<open>A write through a memory view keeps everything but the bytes.\<close>

lemma view_write_length: "view_write mem ptr data = Some mem' \<Longrightarrow> length mem' = length mem"
  by (auto simp: view_write_def split: if_splits)

lemma write_bytes_Inr:
  assumes "write_bytes ptr data env = Inr env'"
  obtains mem mem' where "he_memory env = Some mem" "length mem' = length mem"
    "env' = env\<lparr>he_memory := Some mem'\<rparr>" "view_write mem (unat ptr) data = Some mem'"
  using assms view_write_length by (auto simp: write_bytes_def split: option.splits)

lemma write_bytes_laws:
  assumes "write_bytes ptr data env = Inr env'"
  shows "fuel_ok env' = fuel_ok env" "he_fuel_remaining env' = he_fuel_remaining env" "host_frame env env'"
    "unwritten env env'" "tidy s0 env' = tidy s0 env"
  by (rule write_bytes_Inr[OF assms]; simp add: fuel_ok_def host_frame_def unwritten_def tidy_def)+

text \<open>An update of the recording fields keeps fuel and frame.\<close>

lemma recorded:
  "host_frame env (env\<lparr>he_storage := s, he_storage_changes := c\<rparr>)"
  "host_frame env (env\<lparr>he_transfers := t\<rparr>)" "host_frame env (env\<lparr>he_logs := l\<rparr>)"
  "host_frame env (env\<lparr>he_return_data := d\<rparr>)" "host_frame env (env\<lparr>he_events := e\<rparr>)"
  "fuel_ok (env\<lparr>he_storage := s, he_storage_changes := c\<rparr>) = fuel_ok env"
  "fuel_ok (env\<lparr>he_transfers := t\<rparr>) = fuel_ok env" "fuel_ok (env\<lparr>he_logs := l\<rparr>) = fuel_ok env"
  "fuel_ok (env\<lparr>he_return_data := d\<rparr>) = fuel_ok env" "fuel_ok (env\<lparr>he_events := e\<rparr>) = fuel_ok env"
  "unwritten env (env\<lparr>he_logs := l\<rparr>)" "unwritten env (env\<lparr>he_return_data := d\<rparr>)"
  "unwritten env (env\<lparr>he_events := e\<rparr>)" "tidy s0 (env\<lparr>he_return_data := d\<rparr>) = tidy s0 env"
  by (simp_all add: host_frame_def fuel_ok_def unwritten_def tidy_def)

lemma recorded_tidy:
  "tidy s0 env \<Longrightarrow> tidy s0 (env\<lparr>he_storage := bt_insert k v (he_storage env),
     he_storage_changes := he_storage_changes env @ [(k, Some v)]\<rparr>)"
  "tidy s0 env \<Longrightarrow> tidy s0 (env\<lparr>he_storage := bt_remove k (he_storage env),
     he_storage_changes := he_storage_changes env @ [(k, None)]\<rparr>)"
  "tidy s0 env \<Longrightarrow> a \<noteq> 0 \<Longrightarrow> tidy s0 (env\<lparr>he_transfers := he_transfers env @ [(to, a)]\<rparr>)"
  "tidy s0 env \<Longrightarrow> length (he_logs env) < MAX_LOG_ENTRIES \<Longrightarrow> tidy s0 (env\<lparr>he_logs := he_logs env @ [l]\<rparr>)"
  "tidy s0 env \<Longrightarrow> length (he_events env) < MAX_EVENTS_PER_EXECUTION
    \<Longrightarrow> tidy s0 (env\<lparr>he_events := he_events env @ [e]\<rparr>)"
  by (simp_all add: tidy_def apply_change_def)

lemmas body_cases = sum.split option.split

lemma host_bodyI:
  assumes "\<And>env. \<exists>f. body env = (f, env) \<or>
    (\<exists>env'. body env = (f, env') \<and> fuel_ok env' = fuel_ok env \<and> he_fuel_remaining env' = he_fuel_remaining env
      \<and> host_frame env env' \<and> (ctx_read_only (he_context env) \<longrightarrow> unwritten env env')
      \<and> (\<forall>s0. tidy s0 env \<longrightarrow> tidy s0 env'))"
  shows "host_body body"
proof
  fix env s0
  obtain f env' where b: "body env = (f, env')" and l: "fuel_ok env' = fuel_ok env"
    "he_fuel_remaining env' = he_fuel_remaining env" "host_frame env env'"
    "ctx_read_only (he_context env) \<longrightarrow> unwritten env env'" "\<And>s0. tidy s0 env \<Longrightarrow> tidy s0 env'"
    using assms[of env] by (metis host_frame_refl unwritten_refl)
  show "fuel_ok env \<Longrightarrow> fuel_ok (snd (body env))" "he_fuel_remaining (snd (body env)) \<le> he_fuel_remaining env"
    "host_frame env (snd (body env))" "ctx_read_only (he_context env) \<Longrightarrow> unwritten env (snd (body env))"
    "tidy s0 env \<Longrightarrow> tidy s0 (snd (body env))"
    using l by (simp_all add: b)
qed

lemma write_or_ignore_laws:
  "fuel_ok (write_or_ignore ptr data env) = fuel_ok env"
  "he_fuel_remaining (write_or_ignore ptr data env) = he_fuel_remaining env"
  "host_frame env (write_or_ignore ptr data env)" "unwritten env (write_or_ignore ptr data env)"
  "tidy s0 (write_or_ignore ptr data env) = tidy s0 env"
  using write_bytes_laws[of ptr data env]
  by (auto simp: write_or_ignore_def split: sum.split)

lemmas host_costs = STORAGE_READ_FUEL_def STORAGE_WRITE_FUEL_def STORAGE_DELETE_FUEL_def HOST_CALL_BASE_FUEL_def
  TOKEN_TRANSFER_FUEL_def AGENT_QUERY_FUEL_def EVENT_EMIT_FUEL_def CROSS_CALL_BASE_FUEL_def

lemmas body_laws = recorded recorded_tidy write_bytes_laws write_or_ignore_laws

interpretation storage_read: host_op "host_storage_read key_ptr key_len val_ptr"
  unfolding host_storage_read_def
  by (rule check_fuel_op[OF host_bodyI]) (auto simp: host_costs body_laws split: sum.split option.split)

interpretation storage_write: host_op "host_storage_write key_ptr key_len val_ptr val_len"
  unfolding host_storage_write_def
  by (rule check_fuel_op[OF host_bodyI]) (auto simp: host_costs body_laws split: sum.split)

interpretation storage_has: host_op "host_storage_has key_ptr key_len"
  unfolding host_storage_has_def
  by (rule check_fuel_op[OF host_bodyI]) (auto simp: host_costs split: sum.split)

interpretation storage_delete: host_op "host_storage_delete key_ptr key_len"
  unfolding host_storage_delete_def
  by (rule check_fuel_op[OF host_bodyI]) (auto simp: host_costs body_laws split: sum.split)

interpretation caller_op: host_op "host_caller out_ptr"
  unfolding host_caller_def
  by (rule check_fuel_op[OF host_bodyI]) (auto simp: host_costs body_laws)

interpretation block_height_op: host_op host_block_height
  unfolding host_block_height_def
  by (rule check_fuel_op[OF host_bodyI]) (auto simp: host_costs)

interpretation block_timestamp_op: host_op host_block_timestamp
  unfolding host_block_timestamp_def
  by (rule check_fuel_op[OF host_bodyI]) (auto simp: host_costs)

interpretation contract_address_op: host_op "host_contract_address out_ptr"
  unfolding host_contract_address_def
  by (rule check_fuel_op[OF host_bodyI]) (auto simp: host_costs body_laws)

interpretation value_lo: host_op host_value_lo
  unfolding host_value_lo_def
  by (rule check_fuel_op[OF host_bodyI]) (auto simp: host_costs)

interpretation value_hi: host_op host_value_hi
  unfolding host_value_hi_def
  by (rule check_fuel_op[OF host_bodyI]) (auto simp: host_costs)

interpretation agent_get_score: host_op "host_agent_get_score addr_ptr"
  unfolding host_agent_get_score_def
  by (rule check_fuel_op[OF host_bodyI]) (auto simp: host_costs split: sum.split)

interpretation agent_is_registered: host_op "host_agent_is_registered addr_ptr"
  unfolding host_agent_is_registered_def
  by (rule check_fuel_op[OF host_bodyI]) (auto simp: host_costs split: sum.split)

interpretation token_balance: host_op "host_token_balance addr_ptr"
  unfolding host_token_balance_def
  by (rule check_fuel_op[OF host_bodyI]) (auto simp: host_costs split: sum.split)

interpretation token_balance_hi: host_op "host_token_balance_hi addr_ptr"
  unfolding host_token_balance_hi_def
  by (rule check_fuel_op[OF host_bodyI]) (auto simp: host_costs split: sum.split)

interpretation token_transfer: host_op "host_token_transfer to_ptr amount_lo amount_hi"
  unfolding host_token_transfer_def
  by (rule check_fuel_op[OF host_bodyI]) (auto simp: host_costs body_laws Let_def split: sum.split)

interpretation log_msg: host_op "host_log lossy ptr len"
  unfolding host_log_def
  by (rule check_fuel_op[OF host_bodyI]) (auto simp: host_costs body_laws split: sum.split)

interpretation return_data_op: host_op "host_return_data ptr len"
  unfolding host_return_data_def
  by (rule check_fuel_op[OF host_bodyI]) (auto simp: host_costs body_laws split: sum.split)

interpretation abort_op: host_op "host_abort lossy ptr len"
  by unfold_locales (auto simp: host_abort_def Let_def)

interpretation emit_event: host_op "host_emit_event topic_ptr topic_len data_ptr data_len"
  unfolding host_emit_event_def
  by (rule check_fuel_op[OF host_bodyI]) (auto simp: host_costs body_laws split: sum.split option.split)

interpretation cross_call_return_data: host_op "host_cross_call_return_data out_ptr"
  unfolding host_cross_call_return_data_def
  by (rule check_fuel_op[OF host_bodyI]) (auto simp: host_costs body_laws Let_def split: sum.split)

section \<open>Calls of other contracts\<close>

text \<open>What a caller relies on: the callee reports no more fuel than it was given, and leaves the shared
  set of executing contracts as it was.\<close>

definition answer_ok :: "u64 \<Rightarrow> (VmError + ExecutionResult) option \<Rightarrow> bool" where
  "answer_ok limit answer = (case answer of
      Some (Inr r) \<Rightarrow> er_fuel_consumed r \<le> limit
    | Some (Inl (OutOfFuel used _)) \<Rightarrow> used \<le> limit
    | _ \<Rightarrow> True)"

definition child_ok :: "child_engine \<Rightarrow> bool" where
  "child_ok child \<longleftrightarrow> (\<forall>code meth args ctx st cs. case child code meth args ctx st cs of
     (answer, executing) \<Rightarrow> answer_ok (ctx_fuel_limit ctx) answer \<and> executing = ctx_executing_contracts ctx)"

lemma child_okD:
  assumes "child_ok child" and "child code meth args ctx st cs = (answer, executing)"
  shows "answer_ok (ctx_fuel_limit ctx) answer \<and> executing = ctx_executing_contracts ctx"
proof -
  have "case child code meth args ctx st cs of (answer, executing) \<Rightarrow>
      answer_ok (ctx_fuel_limit ctx) answer \<and> executing = ctx_executing_contracts ctx"
    using assms(1) unfolding child_ok_def by (elim allE)
  then show ?thesis by (simp add: assms(2))
qed

lemma deduct_child_ok:
  assumes "used \<le> he_fuel_remaining env" and "fuel_ok env"
  shows "fuel_ok (deduct_child used env)"
proof -
  have le: "unat used \<le> unat (he_fuel_remaining env)" using assms(1) by (simp add: word_le_nat_alt)
  have "unat (he_fuel_limit env) < 2 ^ LENGTH(64)" by (rule unsigned_less)
  then have "unat (he_fuel_consumed env + used) = unat (he_fuel_consumed env) + unat used"
    using le assms(2) by (intro unat_add_exact) (simp add: fuel_ok_def)
  moreover have "unat (he_fuel_remaining env - used) = unat (he_fuel_remaining env) - unat used"
    using assms(1) by (simp add: unat_sub)
  ultimately show ?thesis
    using le assms by (simp add: fuel_ok_def deduct_child_def min_absorb1)
qed

lemma deduct_child_frame:
  "he_fuel_remaining (deduct_child used env) \<le> he_fuel_remaining env"
  "host_frame env (deduct_child used env)"
proof -
  have "min used (he_fuel_remaining env) \<le> he_fuel_remaining env" by simp
  then show "he_fuel_remaining (deduct_child used env) \<le> he_fuel_remaining env"
    unfolding deduct_child_def by (simp add: word_sub_le)
qed (simp add: deduct_child_def host_frame_def)

lemma settle_child_laws:
  assumes "answer_ok (he_fuel_remaining env) (Some r)"
  shows "fuel_ok env \<Longrightarrow> fuel_ok (snd (settle_child r env))"
    "he_fuel_remaining (snd (settle_child r env)) \<le> he_fuel_remaining env"
    "host_frame env (snd (settle_child r env))"
proof -
  have upd: "fuel_ok (env\<lparr>he_storage_changes := a\<rparr>) = fuel_ok env" "fuel_ok (env\<lparr>he_transfers := b\<rparr>) = fuel_ok env"
    "fuel_ok (env\<lparr>he_events := c\<rparr>) = fuel_ok env" "fuel_ok (env\<lparr>he_last_cross_call_return := d\<rparr>) = fuel_ok env"
    "host_frame x (env\<lparr>he_storage_changes := a\<rparr>) = host_frame x env"
    "host_frame x (env\<lparr>he_transfers := b\<rparr>) = host_frame x env" "host_frame x (env\<lparr>he_events := c\<rparr>) = host_frame x env"
    "host_frame x (env\<lparr>he_last_cross_call_return := d\<rparr>) = host_frame x env" for env x a b c d
    by (simp_all add: fuel_ok_def host_frame_def)
  note deduct = deduct_child_ok deduct_child_frame
  show "fuel_ok env \<Longrightarrow> fuel_ok (snd (settle_child r env))"
    "he_fuel_remaining (snd (settle_child r env)) \<le> he_fuel_remaining env"
    "host_frame env (snd (settle_child r env))"
    using assms deduct
    by (auto simp: settle_child_def answer_ok_def Let_def upd split: sum.splits VmError.splits)
qed

lemma enter_contract_settles:
  assumes "child_ok child" and "target \<notin> he_executing_contracts env" and "he_chain_state env = Some cs"
  shows "\<exists>r. answer_ok (he_fuel_remaining env) (Some r)
    \<and> enter_contract child target code meth args value env = settle_child r env"
proof -
  obtain answer executing where c:
    "child code meth args (child_context target value env) bt_empty cs = (answer, executing)" by force
  have "answer_ok (he_fuel_remaining env) answer \<and> executing = insert target (he_executing_contracts env)"
    using child_okD[OF assms(1) c] by (simp add: child_context_def)
  moreover have "env\<lparr>he_executing_contracts := insert target (he_executing_contracts env) - {target}\<rparr> = env"
    using assms(2) by simp
  ultimately show ?thesis using assms(3) c
    by (cases answer) (auto simp: enter_contract_def answer_ok_def
        intro: exI[of _ "Inl (ExecutionFailed ''cross-contract call timed out'')"])
qed

lemma enter_contract_laws:
  assumes "child_ok child" and "target \<notin> he_executing_contracts env"
  shows "(fuel_ok env \<longrightarrow> fuel_ok (snd (enter_contract child target code meth args value env)))
    \<and> he_fuel_remaining (snd (enter_contract child target code meth args value env)) \<le> he_fuel_remaining env
    \<and> host_frame env (snd (enter_contract child target code meth args value env))"
proof (cases "he_chain_state env")
  case None
  then show ?thesis using assms(2) by (simp add: enter_contract_def)
next
  case (Some cs)
  obtain r where "answer_ok (he_fuel_remaining env) (Some r)"
    "enter_contract child target code meth args value env = settle_child r env"
    using enter_contract_settles[OF assms Some] by blast
  then show ?thesis using settle_child_laws[of env r] by simp
qed

text \<open>The call of a contract either ends before the callee is entered, or enters it.\<close>

lemma call_contract_body_cases:
  obtains (refused) f where
    "call_contract_body child addr_ptr method_ptr method_len args_ptr args_len value_lo value_hi env = (f, env)"
  | (entered) target code meth args where "\<not> ctx_read_only (he_context env)"
    "read_bytes env addr_ptr 32 = Inr target" "he_call_depth env < MAX_CALL_DEPTH"
    "target \<notin> he_executing_contracts env" "bt_get (he_contract_code env) target = Some code"
    "call_contract_body child addr_ptr method_ptr method_len args_ptr args_len value_lo value_hi env =
       enter_contract child target code meth args (join_halves value_lo value_hi) env"
proof (cases "\<exists>f. call_contract_body child addr_ptr method_ptr method_len args_ptr args_len value_lo value_hi env = (f, env)")
  case False
  note no = False[unfolded call_contract_body_def]
  have ro: "\<not> ctx_read_only (he_context env)" using no by auto
  obtain target where t: "read_bytes env addr_ptr 32 = Inr target"
    using no ro by (cases "read_bytes env addr_ptr 32") auto
  have d: "he_call_depth env < MAX_CALL_DEPTH" using no ro t by (auto simp flip: not_le)
  have e: "target \<notin> he_executing_contracts env" using no ro t d by (auto simp flip: not_le)
  obtain mb where mb: "read_bytes env method_ptr method_len = Inr mb"
    using no ro t d e by (cases "read_bytes env method_ptr method_len") (auto simp flip: not_le)
  obtain meth where m: "from_utf8 mb = Some meth"
    using no ro t d e mb by (cases "from_utf8 mb") (auto simp flip: not_le)
  obtain args where a: "(if args_len > 0 then read_bytes env args_ptr args_len else Inr []) = Inr args"
    using no ro t d e mb m
    by (cases "if args_len > 0 then read_bytes env args_ptr args_len else Inr []") (auto simp flip: not_le)
  obtain code where c: "bt_get (he_contract_code env) target = Some code"
    using no ro t d e mb m a by (cases "bt_get (he_contract_code env) target") (auto simp flip: not_le)
  show thesis
    by (rule entered[OF ro t d e c]) (use ro t d e mb m a c in \<open>simp add: call_contract_body_def flip: not_le\<close>)
qed (blast intro: refused)

lemma call_contract_op:
  assumes "child_ok child"
  shows "host_op (host_call_contract child addr_ptr method_ptr method_len args_ptr args_len value_lo value_hi)"
  unfolding host_call_contract_def
proof (rule check_fuel_op)
  let ?body = "call_contract_body child addr_ptr method_ptr method_len args_ptr args_len value_lo value_hi"
  show "host_body ?body"
  proof
    fix env s0
    note cases = call_contract_body_cases[of child addr_ptr method_ptr method_len args_ptr args_len value_lo value_hi env]
    show "fuel_ok env \<Longrightarrow> fuel_ok (snd (?body env))" "he_fuel_remaining (snd (?body env)) \<le> he_fuel_remaining env"
      "host_frame env (snd (?body env))"
      by (rule cases; use enter_contract_laws[OF assms] in simp)+
    show "ctx_read_only (he_context env) \<Longrightarrow> unwritten env (snd (?body env))"
      "alone env \<Longrightarrow> tidy s0 env \<Longrightarrow> tidy s0 (snd (?body env))"
      by (rule cases; auto simp: alone_def bt_contains_def)+
  qed
qed (simp add: host_costs)

lemma import_op: "child_ok child \<Longrightarrow> host_op (import_object child lossy call)"
  by (cases call)
    (simp_all add: call_contract_op storage_read.host_op_axioms storage_write.host_op_axioms
      storage_has.host_op_axioms storage_delete.host_op_axioms caller_op.host_op_axioms
      block_height_op.host_op_axioms block_timestamp_op.host_op_axioms contract_address_op.host_op_axioms
      value_lo.host_op_axioms value_hi.host_op_axioms agent_get_score.host_op_axioms
      agent_is_registered.host_op_axioms token_balance.host_op_axioms token_balance_hi.host_op_axioms
      token_transfer.host_op_axioms log_msg.host_op_axioms return_data_op.host_op_axioms abort_op.host_op_axioms
      emit_event.host_op_axioms cross_call_return_data.host_op_axioms)

text \<open>That every returning call pays needs no assumption on the callee.\<close>

lemma settle_child_remaining: "he_fuel_remaining (snd (settle_child r env)) \<le> he_fuel_remaining env"
  using deduct_child_frame(1)
  by (simp add: settle_child_def Let_def split: sum.split VmError.split)

lemma call_contract_body_remaining:
  "he_fuel_remaining (snd (call_contract_body child a p l q n lo hi env)) \<le> he_fuel_remaining env"
proof (cases rule: call_contract_body_cases[of child a p l q n lo hi env])
  case (entered target code meth args)
  then show ?thesis
    using settle_child_remaining[of _ "env\<lparr>he_executing_contracts := _\<rparr>"]
    by (simp add: enter_contract_def split: option.split prod.split)
qed simp

lemma import_pays:
  assumes "import_object child lossy call env = (Inr r, env')"
  shows "unat (he_fuel_remaining env') + 5000 \<le> unat (he_fuel_remaining env)"
proof (cases call)
  case (H_call_contract a p l q n lo hi)
  then have "check_fuel CROSS_CALL_BASE_FUEL (call_contract_body child a p l q n lo hi) env = (Inr r, env')"
    using assms by (simp add: host_call_contract_def)
  from check_fuel_pays[OF call_contract_body_remaining _ this] show ?thesis by (simp add: host_costs)
qed (use assms in \<open>auto intro: storage_read.op_pays storage_write.op_pays storage_has.op_pays
    storage_delete.op_pays caller_op.op_pays block_height_op.op_pays block_timestamp_op.op_pays
    contract_address_op.op_pays value_lo.op_pays value_hi.op_pays agent_get_score.op_pays
    agent_is_registered.op_pays token_balance.op_pays token_balance_hi.op_pays token_transfer.op_pays
    log_msg.op_pays return_data_op.op_pays abort_op.op_pays emit_event.op_pays
    cross_call_return_data.op_pays\<close>)

end
