(* ===== verification/Vm_Engine.thy ===== *)
theory Vm_Engine
  imports Vm_Interface
begin

text \<open>
  The engine (\<open>vm/src/engine.rs\<close>): the cache of compiled modules, the environment that an execution
  starts with, the run of a method, and the result.

  Compilation and the execution of WebAssembly between two host calls are wasmer's and are parameters
  (\<open>wasm_runtime\<close>). A running guest is a tree of its interactions: it finishes with its memory
  and a result, traps, makes a host call with its current memory and goes on with the memory and the reply, or
  never answers. The tree is codata, because a guest may call for ever; the fuel is what stops it.
\<close>

section \<open>Guests\<close>

codatatype 'r guest =
    Finish bytes 'r
  | Trap string
  | Silent
  | Call bytes host_call "bytes \<Rightarrow> reply \<Rightarrow> 'r guest"

datatype 'r run_end = Returned 'r | Trapped string | Lost

text \<open>The host sees the guest's memory once the instance exists.\<close>

definition share_memory :: "bytes \<Rightarrow> HostEnv \<Rightarrow> HostEnv" where
  "share_memory mem env = (case he_memory env of None \<Rightarrow> env | Some _ \<Rightarrow> env\<lparr>he_memory := Some mem\<rparr>)"

definition guest_memory :: "bytes \<Rightarrow> HostEnv \<Rightarrow> bytes" where
  "guest_memory mem env = (case he_memory env of None \<Rightarrow> mem | Some m \<Rightarrow> m)"

lemma share_memory_simps [simp]:
  "he_fuel_remaining (share_memory mem env) = he_fuel_remaining env"
  "fuel_ok (share_memory mem env) = fuel_ok env" "tidy s0 (share_memory mem env) = tidy s0 env"
  "unwritten env (share_memory mem env)"
  by (simp_all add: share_memory_def fuel_ok_def tidy_def unwritten_def split: option.split)

text \<open>A guest with the imports of an execution. Every call that returns has cost fuel.\<close>

function run_guest ::
  "child_engine \<Rightarrow> (bytes \<Rightarrow> string) \<Rightarrow> 'r guest \<Rightarrow> HostEnv \<Rightarrow> 'r run_end \<times> bytes \<times> HostEnv" where
  "run_guest child lossy g env = (case g of
      Finish mem r \<Rightarrow> (Returned r, mem, share_memory mem env)
    | Trap msg \<Rightarrow> (Trapped msg, [], env)
    | Silent \<Rightarrow> (Lost, [], env)
    | Call mem c k \<Rightarrow> (case import_object child lossy c (share_memory mem env) of
        (Inl msg, env') \<Rightarrow> (Trapped msg, [], env')
      | (Inr r, env') \<Rightarrow> run_guest child lossy (k (guest_memory mem env') r) env'))"
  by pat_completeness auto
termination
  by (relation "measure (\<lambda>(child, lossy, g, env). unat (he_fuel_remaining env))")
    (auto dest!: import_pays[OF sym])

declare run_guest.simps [simp del]

lemma run_guest_simps [simp]:
  "run_guest child lossy (Finish mem r) env = (Returned r, mem, share_memory mem env)"
  "run_guest child lossy (Trap msg) env = (Trapped msg, [], env)"
  "run_guest child lossy Silent env = (Lost, [], env)"
  by (simp_all add: run_guest.simps[of child])

lemma run_guest_Call:
  "run_guest child lossy (Call mem c k) env = (case import_object child lossy c (share_memory mem env) of
      (Inl msg, env') \<Rightarrow> (Trapped msg, [], env')
    | (Inr r, env') \<Rightarrow> run_guest child lossy (k (guest_memory mem env') r) env')"
  by (subst run_guest.simps) simp

section \<open>Modules and the runtime\<close>

text \<open>The exported methods of an instance in its current state: number of parameters and body.\<close>

type_synonym entry_table = "string \<Rightarrow> (nat \<times> (u32 list \<Rightarrow> bytes \<Rightarrow> unit guest)) option"

text \<open>\<open>wi_memory\<close> is the error of the lookup of the export \<open>memory\<close>; \<open>alloc\<close> returns a pointer and the
  methods afterwards.\<close>

record wasm_instance =
  wi_memory :: "string option"
  wi_alloc :: "(u32 \<Rightarrow> bytes \<Rightarrow> (u32 \<times> entry_table) guest) option"
  wi_entries :: entry_table

text \<open>\<open>wm_instantiate\<close>: a link error, or the start section, which yields the instance.\<close>

record wasm_module =
  wm_memories :: "(u32 \<times> u32 option) list"
  wm_instantiate :: "string + wasm_instance guest"

text \<open>\<open>wr_error_text\<close> is the text of a trap, \<open>wr_trim\<close> \<open>str::trim\<close>, \<open>wr_slow\<close> whether a callee needs more
  than ten seconds.\<close>

record wasm_runtime =
  wr_compile :: "bytes \<Rightarrow> string + wasm_module"
  wr_serialize :: "wasm_module \<Rightarrow> bytes option"
  wr_deserialize :: "bytes \<Rightarrow> string + wasm_module"
  wr_error_text :: "string \<Rightarrow> string"
  wr_lossy :: "bytes \<Rightarrow> string"
  wr_trim :: "string \<Rightarrow> string"
  wr_slow :: "bytes \<Rightarrow> string \<Rightarrow> bytes \<Rightarrow> ExecutionContext \<Rightarrow> bool"

section \<open>The module cache\<close>

definition MODULE_CACHE_CAPACITY :: nat where
  [claw_consts]: "MODULE_CACHE_CAPACITY = 64"

text \<open>\<open>mc_order\<close>: least recently used first.\<close>

record ModuleCache =
  mc_entries :: "(hash32, bytes) btree"
  mc_order :: "hash32 list"
  mc_capacity :: nat

definition cache_new :: "nat \<Rightarrow> ModuleCache" where
  "cache_new capacity = \<lparr>mc_entries = bt_empty, mc_order = [], mc_capacity = capacity\<rparr>"

definition cache_get :: "hash32 \<Rightarrow> ModuleCache \<Rightarrow> bytes option \<times> ModuleCache" where
  "cache_get key self =
     (if bt_contains (mc_entries self) key
      then (bt_get (mc_entries self) key,
            self\<lparr>mc_order := filter (\<lambda>k. k \<noteq> key) (mc_order self) @ [key]\<rparr>)
      else (None, self))"

definition cache_put :: "hash32 \<Rightarrow> bytes \<Rightarrow> ModuleCache \<Rightarrow> ModuleCache" where
  "cache_put key value self =
     (let self1 =
        (if bt_contains (mc_entries self) key
         then self\<lparr>mc_order := filter (\<lambda>k. k \<noteq> key) (mc_order self)\<rparr>
         else if bt_len (mc_entries self) \<ge> mc_capacity self
         then (case mc_order self of
             [] \<Rightarrow> self
           | evicted # order \<Rightarrow> self\<lparr>mc_order := order, mc_entries := bt_remove evicted (mc_entries self)\<rparr>)
         else self) in
      self1\<lparr>mc_entries := bt_insert key value (mc_entries self1), mc_order := mc_order self1 @ [key]\<rparr>)"

definition load_module ::
  "externals \<Rightarrow> wasm_runtime \<Rightarrow> bytes \<Rightarrow> ModuleCache \<Rightarrow> (VmError + wasm_module) \<times> ModuleCache" where
  "load_module E R code cache =
     (let code_hash = blake3 E code in
      case cache_get code_hash cache of
        (Some serialized, cache1) \<Rightarrow> (case wr_deserialize R serialized of
            Inl e \<Rightarrow> (Inl (CompilationFailed (''cache deserialize: '' @ e)), cache1)
          | Inr m \<Rightarrow> (Inr m, cache1))
      | (None, cache1) \<Rightarrow> (case wr_compile R code of
            Inl e \<Rightarrow> (Inl (CompilationFailed e), cache1)
          | Inr m \<Rightarrow> (Inr m, case wr_serialize R m of
                Some serialized \<Rightarrow> cache_put code_hash serialized cache1
              | None \<Rightarrow> cache1)))"

section \<open>Executing a method\<close>

definition snapshot_addresses :: "ExecutionContext \<Rightarrow> address list" where
  "snapshot_addresses context = [ctx_caller context, ctx_contract_address context]"

definition new_host_env ::
  "ExecutionContext \<Rightarrow> (bytes, bytes) btree \<Rightarrow> ChainStateSnapshot \<Rightarrow> ChainStateSnapshot option
   \<Rightarrow> (address, bytes) btree \<Rightarrow> HostEnv" where
  "new_host_env context storage cs chain_state code_map = \<lparr>
     he_context = context, he_storage = storage, he_storage_changes = [], he_logs = [], he_transfers = [],
     he_return_data = [], he_events = [],
     he_balances = fold (\<lambda>a m. bt_insert a (bt_get_or (cs_balances cs) 0 a) m) (snapshot_addresses context) bt_empty,
     he_agent_scores = fold (\<lambda>a m. bt_insert a (bt_get_or (cs_agent_scores cs) 0 a) m)
       (snapshot_addresses context) bt_empty,
     he_registered_agents = fold (\<lambda>a m. if bt_contains (cs_registered_agents cs) a then bt_insert a () m else m)
       (snapshot_addresses context) bt_empty,
     he_memory = None, he_fuel_remaining = ctx_fuel_limit context, he_fuel_consumed = 0,
     he_fuel_limit = ctx_fuel_limit context, he_chain_state = chain_state, he_contract_code = code_map,
     he_last_cross_call_return = [], he_call_depth = ctx_call_depth context,
     he_executing_contracts = ctx_executing_contracts context\<rparr>"

text \<open>\<open>msg.split(sep).nth(1)\<close>: the text after the first separator, up to the second.\<close>

fun after_first :: "string \<Rightarrow> string \<Rightarrow> string option" where
  "after_first sep [] = (if sep = [] then Some [] else None)"
| "after_first sep (c # cs) = (if prefix sep (c # cs) then Some (drop (length sep) (c # cs)) else after_first sep cs)"

fun before_first :: "string \<Rightarrow> string \<Rightarrow> string" where
  "before_first sep [] = []"
| "before_first sep (c # cs) = (if prefix sep (c # cs) then [] else c # before_first sep cs)"

definition classify_error :: "wasm_runtime \<Rightarrow> string \<Rightarrow> HostEnv \<Rightarrow> VmError" where
  "classify_error R msg env =
     (if sublist ''out of fuel'' msg \<or> sublist ''fuel exhausted'' msg
      then OutOfFuel (he_fuel_consumed env) (he_fuel_limit env)
      else if sublist ''contract abort:'' msg
      then ContractAbort (case after_first ''contract abort:'' msg of
             Some rest \<Rightarrow> wr_trim R (before_first ''contract abort:'' rest)
           | None \<Rightarrow> msg) (he_fuel_consumed env)
      else ExecutionFailed (msg @ '' (fuel consumed: '' @ show_word (he_fuel_consumed env) @ '')''))"

definition collect_result :: "HostEnv \<Rightarrow> ExecutionResult" where
  "collect_result env = \<lparr>er_return_data = he_return_data env, er_fuel_consumed = he_fuel_consumed env,
     er_storage_changes = he_storage_changes env, er_logs = he_logs env, er_transfers = he_transfers env,
     er_events = he_events env\<rparr>"

text \<open>Step 8: the method in the table of the instance, with a pointer and a length if it takes two
  parameters. \<open>None\<close>: the guest never answers.\<close>

definition call_method ::
  "wasm_runtime \<Rightarrow> child_engine \<Rightarrow> entry_table \<Rightarrow> string \<Rightarrow> bytes \<Rightarrow> u32 option \<Rightarrow> bytes \<Rightarrow> HostEnv
   \<Rightarrow> (VmError + ExecutionResult) option \<times> HostEnv" where
  "call_method R child table method args args_ptr mem env = (case table method of
      None \<Rightarrow> (Some (Inl (MethodNotFound method)), env)
    | Some (params, body) \<Rightarrow>
        (let call_args = (if params = 2
               then (case args_ptr of Some ptr \<Rightarrow> [ptr, of_nat (length args)] | None \<Rightarrow> [0, 0]) else []) in
         case run_guest child (wr_lossy R) (body call_args mem) env of
           (Returned _, _, env') \<Rightarrow> (Some (Inr (collect_result env')), env')
         | (Trapped msg, _, env') \<Rightarrow> (Some (Inl (classify_error R (wr_error_text R msg) env')), env')
         | (Lost, _, env') \<Rightarrow> (None, env')))"

text \<open>Steps 6 and 7: the host gets the memory, and \<open>alloc\<close> makes room for the arguments.\<close>

definition enter_instance ::
  "wasm_runtime \<Rightarrow> child_engine \<Rightarrow> wasm_instance \<Rightarrow> string \<Rightarrow> bytes \<Rightarrow> bytes \<Rightarrow> HostEnv
   \<Rightarrow> (VmError + ExecutionResult) option \<times> HostEnv" where
  "enter_instance R child inst method args mem env0 = (case wi_memory inst of
      Some e \<Rightarrow> (Some (Inl (MemoryError e)), env0)
    | None \<Rightarrow>
        (let env = env0\<lparr>he_memory := Some mem\<rparr> in
         case (if args \<noteq> [] then wi_alloc inst else None) of
           None \<Rightarrow> call_method R child (wi_entries inst) method args None mem env
         | Some alloc \<Rightarrow> (case run_guest child (wr_lossy R) (alloc (of_nat (length args)) mem) env of
             (Returned (ptr, table), mem1, env1) \<Rightarrow> (case view_write mem1 (unat ptr) args of
                 None \<Rightarrow> (Some (Inl (MemoryError ''memory access out of bounds'')), env1)
               | Some mem2 \<Rightarrow> call_method R child table method args (Some ptr) mem2 (env1\<lparr>he_memory := Some mem2\<rparr>))
           | (Trapped msg, _, env1) \<Rightarrow>
               (Some (Inl (ExecutionFailed (''alloc failed: '' @ wr_error_text R msg))), env1)
           | (Lost, _, env1) \<Rightarrow> (None, env1))))"

text \<open>Steps 5 to 9 of both entry points, on a loaded module.\<close>

definition run_module ::
  "wasm_runtime \<Rightarrow> child_engine \<Rightarrow> wasm_module \<Rightarrow> string \<Rightarrow> bytes \<Rightarrow> HostEnv
   \<Rightarrow> (VmError + ExecutionResult) option \<times> HostEnv" where
  "run_module R child m method args env = (case wm_instantiate m of
      Inl e \<Rightarrow> (Some (Inl (InstantiationFailed e)), env)
    | Inr start \<Rightarrow> (case run_guest child (wr_lossy R) start env of
        (Returned inst, mem, env1) \<Rightarrow> enter_instance R child inst method args mem env1
      | (Trapped msg, _, env1) \<Rightarrow> (Some (Inl (InstantiationFailed (wr_error_text R msg))), env1)
      | (Lost, _, env1) \<Rightarrow> (None, env1)))"

definition execute_env ::
  "externals \<Rightarrow> wasm_runtime \<Rightarrow> child_engine \<Rightarrow> bytes \<Rightarrow> string \<Rightarrow> bytes \<Rightarrow> HostEnv
   \<Rightarrow> (VmError + ExecutionResult) option \<times> HostEnv" where
  "execute_env E R child code method args env =
     (case fst (load_module E R code (cache_new MODULE_CACHE_CAPACITY)) of
        Inl e \<Rightarrow> (Some (Inl e), env)
      | Inr m \<Rightarrow> (case check_memory_limits (wm_memories m) of
          Inl e \<Rightarrow> (Some (Inl e), env)
        | Inr _ \<Rightarrow> run_module R child m method args env))"

text \<open>
  \<open>VmEngine::new().execute\<close>: no chain state and no code, so the imported call of a contract
  never reaches a callee; \<open>no_child\<close> stands where an engine would be.
\<close>

definition no_child :: child_engine where
  "no_child code method args ctx storage cs = (None, ctx_executing_contracts ctx)"

definition execute ::
  "externals \<Rightarrow> wasm_runtime \<Rightarrow> bytes \<Rightarrow> string \<Rightarrow> bytes \<Rightarrow> ExecutionContext \<Rightarrow> (bytes, bytes) btree
   \<Rightarrow> ChainStateSnapshot \<Rightarrow> (VmError + ExecutionResult) option \<times> address set" where
  "execute E R code method args context storage cs =
     (let (answer, env) = execute_env E R no_child code method args
            (new_host_env context storage cs None bt_empty) in
      (answer, he_executing_contracts env))"

text \<open>The engine in the thread of a callee, with its ten seconds.\<close>

definition child_execute :: "externals \<Rightarrow> wasm_runtime \<Rightarrow> child_engine" where
  "child_execute E R code method args context storage cs =
     (let (answer, executing) = execute E R code method args context storage cs in
      (if wr_slow R code method args context then None else answer, executing))"

definition execute_with_cross_calls ::
  "externals \<Rightarrow> wasm_runtime \<Rightarrow> bytes \<Rightarrow> string \<Rightarrow> bytes \<Rightarrow> ExecutionContext \<Rightarrow> (bytes, bytes) btree
   \<Rightarrow> ChainStateSnapshot \<Rightarrow> (address, bytes) btree \<Rightarrow> (VmError + ExecutionResult) option" where
  "execute_with_cross_calls E R code method args context storage cs code_map =
     fst (execute_env E R (child_execute E R) code method args
       (new_host_env context storage cs (Some cs) code_map))"

end
