(* ===== verification/Vm_Safety.thy ===== *)
theory Vm_Safety
  imports Vm_Engine
begin

text \<open>
  What an execution guarantees whatever the contract does: the laws of the host functions carry over
  to a run, through instantiation, \<open>alloc\<close> and the method, and from there to the two entry points
  of the engine and to the callee of a cross-contract call.
\<close>

section \<open>Runs keep the laws\<close>

definition kept :: "HostEnv \<Rightarrow> HostEnv \<Rightarrow> bool" where
  "kept env env' \<longleftrightarrow> he_context env' = he_context env \<and> he_fuel_limit env' = he_fuel_limit env
     \<and> he_chain_state env' = he_chain_state env \<and> he_contract_code env' = he_contract_code env
     \<and> he_call_depth env' = he_call_depth env \<and> he_balances env' = he_balances env
     \<and> he_agent_scores env' = he_agent_scores env \<and> he_registered_agents env' = he_registered_agents env
     \<and> he_executing_contracts env' = he_executing_contracts env
     \<and> (fuel_ok env \<longrightarrow> fuel_ok env') \<and> (ctx_read_only (he_context env) \<longrightarrow> unwritten env env')
     \<and> (alone env \<longrightarrow> (\<forall>s0. tidy s0 env \<longrightarrow> tidy s0 env'))"

lemma kept_refl [simp]: "kept env env"
  by (simp add: kept_def)

lemma kept_trans: "kept a b \<Longrightarrow> kept b c \<Longrightarrow> kept a c"
  unfolding kept_def alone_def using unwritten_trans by auto

lemma kept_memory [simp]: "kept env (env\<lparr>he_memory := m\<rparr>)"
  by (simp add: kept_def fuel_ok_def tidy_def unwritten_def)

lemma kept_share [simp]: "kept env (share_memory mem env)"
  by (simp add: share_memory_def split: option.split)

lemma import_kept:
  assumes "child_ok child"
  shows "kept env (snd (import_object child lossy c env))"
proof -
  note op = import_op[OF assms, of lossy c]
  show ?thesis
    using host_op.op_frame[OF op, of env] host_op.op_fuel[OF op, of env] host_op.op_view[OF op, of env]
      host_op.op_tidy[OF op, of env]
    by (simp add: kept_def host_frame_def)
qed

lemma run_kept:
  assumes "child_ok child"
  shows "kept env (snd (snd (run_guest child lossy g env)))"
proof (induction "unat (he_fuel_remaining env)" arbitrary: g env rule: less_induct)
  case less
  show ?case
  proof (cases g)
    case (Call mem c k)
    let ?env = "share_memory mem env"
    obtain res env' where imp: "import_object child lossy c ?env = (res, env')" by force
    then have step: "kept env env'"
      using kept_trans[OF kept_share import_kept[OF assms, of "share_memory mem env" lossy c]] by simp
    show ?thesis
    proof (cases res)
      case (Inl msg)
      then show ?thesis using step imp Call by (simp add: run_guest_Call)
    next
      case (Inr r)
      then have "unat (he_fuel_remaining env') < unat (he_fuel_remaining env)"
        using import_pays[of child lossy c "share_memory mem env" r env'] imp by simp
      from kept_trans[OF step less[OF this]] show ?thesis
        using imp Inr Call by (simp add: run_guest_Call)
    qed
  qed simp_all
qed

lemma method_kept:
  assumes "child_ok child"
  shows "kept env (snd (call_method R child table meth args args_ptr mem env))"
proof (cases "table meth")
  case (Some entry)
  obtain params body where entry: "entry = (params, body)" by force
  let ?call_args = "if params = 2 then (case args_ptr of Some ptr \<Rightarrow> [ptr, of_nat (length args)] | None \<Rightarrow> [0, 0]) else []"
  obtain e m env' where run: "run_guest child (wr_lossy R) (body ?call_args mem) env = (e, m, env')"
    by (rule prod_cases3)
  then have "kept env env'" using run_kept[OF assms, of env "wr_lossy R" "body ?call_args mem"] by simp
  then show ?thesis unfolding call_method_def Some entry option.case prod.case Let_def run
    by (cases e) simp_all
qed (simp add: call_method_def)

lemma instance_kept:
  assumes "child_ok child"
  shows "kept env (snd (enter_instance R child inst meth args mem env))"
proof (cases "wi_memory inst")
  case None
  let ?env = "env\<lparr>he_memory := Some mem\<rparr>"
  show ?thesis
  proof (cases "if args \<noteq> [] then wi_alloc inst else None")
    case None': None
    have "kept env (snd (call_method R child (wi_entries inst) meth args None mem ?env))"
      by (rule kept_trans[OF kept_memory method_kept[OF assms]])
    then show ?thesis unfolding enter_instance_def None None' option.case Let_def .
  next
    case (Some alloc)
    obtain e mem1 env1 where run: "run_guest child (wr_lossy R) (alloc (of_nat (length args)) mem) ?env = (e, mem1, env1)"
      by (rule prod_cases3)
    then have k: "kept env env1"
      using kept_trans[OF kept_memory run_kept[OF assms, of ?env "wr_lossy R" "alloc (of_nat (length args)) mem"]] by simp
    then have "kept env (snd (call_method R child table meth args p mem2 (env1\<lparr>he_memory := Some mem2\<rparr>)))" for table p mem2
      by (rule kept_trans[OF kept_trans[OF _ kept_memory] method_kept[OF assms]])
    then show ?thesis unfolding enter_instance_def None Some option.case Let_def run using k
      by (cases e) (auto split: option.split)
  qed
qed (simp add: enter_instance_def)

lemma execute_env_kept:
  assumes "child_ok child"
  shows "kept env (snd (execute_env E R child code meth args env))"
proof -
  have "kept env (snd (run_module R child m meth args env))" for m
  proof (cases "wm_instantiate m")
    case (Inr start)
    obtain e mem1 env1 where run: "run_guest child (wr_lossy R) start env = (e, mem1, env1)"
      by (rule prod_cases3)
    then have k: "kept env env1" using run_kept[OF assms, of env "wr_lossy R" start] by simp
    have "kept env (snd (enter_instance R child inst meth args mem1 env1))" for inst
      by (rule kept_trans[OF k instance_kept[OF assms]])
    then show ?thesis unfolding run_module_def Inr sum.case run using k by (cases e) simp_all
  qed (simp add: run_module_def)
  then show ?thesis by (simp add: execute_env_def split: sum.split)
qed

section \<open>Answers\<close>

text \<open>An answer reports the fuel and the changes of the environment it leaves.\<close>

definition faithful :: "(VmError + ExecutionResult) option \<times> HostEnv \<Rightarrow> bool" where
  "faithful x \<longleftrightarrow> (\<forall>r. fst x = Some (Inr r) \<longrightarrow> r = collect_result (snd x))
     \<and> (\<forall>used limit. fst x = Some (Inl (OutOfFuel used limit)) \<longrightarrow> used = he_fuel_consumed (snd x))"

lemma faithful_simps [simp]:
  "faithful (None, env)" "faithful (Some (Inr (collect_result env)), env)"
  "faithful (Some (Inl e), env) \<longleftrightarrow> (\<forall>used limit. e = OutOfFuel used limit \<longrightarrow> used = he_fuel_consumed env)"
  by (auto simp: faithful_def)

lemma method_faithful: "faithful (call_method R child table meth args args_ptr mem env)"
  by (auto simp: call_method_def Let_def classify_error_def split: option.split prod.split run_end.split)

lemma execute_env_faithful: "faithful (execute_env E R child code meth args env)"
proof -
  have "faithful (enter_instance R child inst meth args mem env)" for inst mem env
    using method_faithful
    by (auto simp: enter_instance_def Let_def split: option.split prod.split run_end.split)
  then have "faithful (run_module R child m meth args env)" for m
    by (auto simp: run_module_def split: sum.split prod.split run_end.split)
  moreover have "check_memory_limits ms = Inl e \<Longrightarrow> e \<noteq> OutOfFuel used limit" for ms e used limit
    by (induction ms rule: check_memory_limits.induct) (auto split: if_splits option.splits)
  moreover have "fst (load_module E R code c) = Inl e \<Longrightarrow> e \<noteq> OutOfFuel used limit" for c e used limit
    by (auto simp: load_module_def Let_def split: option.splits sum.splits prod.splits)
  ultimately show ?thesis by (auto simp: execute_env_def split: sum.split)
qed

lemma fuel_ok_consumed: "fuel_ok env \<Longrightarrow> he_fuel_consumed env \<le> he_fuel_limit env"
  by (simp add: fuel_ok_def word_le_nat_alt)

lemma new_host_env_simps [simp]:
  "fuel_ok (new_host_env ctx st cs chain code)" "tidy st (new_host_env ctx st cs chain code)"
  "he_context (new_host_env ctx st cs chain code) = ctx"
  "he_fuel_limit (new_host_env ctx st cs chain code) = ctx_fuel_limit ctx"
  "he_contract_code (new_host_env ctx st cs chain code) = code"
  "he_executing_contracts (new_host_env ctx st cs chain code) = ctx_executing_contracts ctx"
  "he_storage_changes (new_host_env ctx st cs chain code) = []"
  "he_transfers (new_host_env ctx st cs chain code) = []"
  "he_storage (new_host_env ctx st cs chain code) = st"
  by (simp_all add: new_host_env_def fuel_ok_def tidy_def)

lemma execute_env_answer:
  assumes "child_ok child" and "execute_env E R child code meth args (new_host_env ctx st cs chain code_map) = (answer, env)"
  shows "answer_ok (ctx_fuel_limit ctx) answer" "kept (new_host_env ctx st cs chain code_map) env" "fuel_ok env"
    "\<And>r. answer = Some (Inr r) \<Longrightarrow> r = collect_result env"
proof -
  let ?env = "new_host_env ctx st cs chain code_map"
  show k: "kept ?env env" using execute_env_kept[OF assms(1), of ?env E R code meth args] assms(2) by simp
  then show f: "fuel_ok env" by (simp add: kept_def)
  have fa: "faithful (answer, env)" using execute_env_faithful[of E R child code meth args ?env] assms(2) by simp
  then show "r = collect_result env" if "answer = Some (Inr r)" for r using that by (simp add: faithful_def)
  have "he_fuel_consumed env \<le> ctx_fuel_limit ctx" using fuel_ok_consumed[OF f] k by (simp add: kept_def)
  then show "answer_ok (ctx_fuel_limit ctx) answer"
    using fa by (auto simp: answer_ok_def faithful_def collect_result_def split: option.split sum.split VmError.split)
qed

lemma no_child_ok: "child_ok no_child"
  by (simp add: child_ok_def no_child_def answer_ok_def)

text \<open>The engine in the callee's thread keeps what its caller relies on.\<close>

lemma child_execute_ok: "child_ok (child_execute E R)"
proof -
  have "answer_ok (ctx_fuel_limit ctx) answer \<and> executing = ctx_executing_contracts ctx"
    if run: "child_execute E R code meth args ctx st cs = (answer, executing)"
    for code meth args ctx st cs answer executing
  proof -
    obtain a env where e: "execute_env E R no_child code meth args (new_host_env ctx st cs None bt_empty) = (a, env)"
      by force
    note ans = execute_env_answer[OF no_child_ok e]
    have "executing = he_executing_contracts env" "answer = (if wr_slow R code meth args ctx then None else a)"
      using run e by (auto simp: child_execute_def execute_def Let_def)
    then show ?thesis using ans(1,2) by (simp add: kept_def answer_ok_def)
  qed
  then show ?thesis by (simp add: child_ok_def split: prod.split)
qed

end
