(* ===== verification/Vm_Results.thy ===== *)
theory Vm_Results
  imports Vm_Safety
begin

unbundle bit_operations_syntax

text \<open>
  What the virtual machine guarantees to the chain: every run ends after a bounded number of host calls,
  fuel is accounted exactly, view calls change nothing, and what is written back to the contract's storage is what the
  contract itself read at the end. And what it does not: the effects of a callee are booked on its caller,
  third parties' balances read as zero, and a callee cannot call on.
\<close>

section \<open>Runs end\<close>

text \<open>\<open>n\<close> host calls are answered one after the other.\<close>

inductive serves ::
  "child_engine \<Rightarrow> (bytes \<Rightarrow> string) \<Rightarrow> nat \<Rightarrow> 'r guest \<Rightarrow> HostEnv \<Rightarrow> 'r guest \<Rightarrow> HostEnv \<Rightarrow> bool"
  for child lossy where
  serves_0: "serves child lossy 0 g env g env"
| serves_Suc: "import_object child lossy c (share_memory mem env) = (Inr r, env1)
    \<Longrightarrow> serves child lossy n (k (guest_memory mem env1) r) env1 g' env'
    \<Longrightarrow> serves child lossy (Suc n) (Call mem c k) env g' env'"

text \<open>The guest does not go on: it has finished, trapped, fallen silent, or its host call traps.\<close>

definition stops ::
  "child_engine \<Rightarrow> (bytes \<Rightarrow> string) \<Rightarrow> 'r guest \<Rightarrow> HostEnv \<Rightarrow> 'r run_end \<times> bytes \<times> HostEnv \<Rightarrow> bool" where
  "stops child lossy g env out = (case g of
      Finish mem r \<Rightarrow> out = (Returned r, mem, share_memory mem env)
    | Trap msg \<Rightarrow> out = (Trapped msg, [], env)
    | Silent \<Rightarrow> out = (Lost, [], env)
    | Call mem c k \<Rightarrow> (case import_object child lossy c (share_memory mem env) of
        (Inl msg, env') \<Rightarrow> out = (Trapped msg, [], env')
      | (Inr _, _) \<Rightarrow> False))"

lemma serves_pays:
  "serves child lossy n g env g' env' \<Longrightarrow>
     n * 5000 + unat (he_fuel_remaining env') \<le> unat (he_fuel_remaining env)"
  by (induction rule: serves.induct) (auto dest!: import_pays)

lemma serves_kept:
  assumes "child_ok child"
  shows "serves child lossy n g env g' env' \<Longrightarrow> kept env env'"
proof (induction rule: serves.induct)
  case (serves_Suc c mem env r env1 n k g' env')
  then show ?case
    using kept_trans[OF kept_share kept_trans[OF _ serves_Suc.IH], of mem env] import_kept[OF assms, of "share_memory mem env" lossy c]
    by simp
qed simp

lemma run_guest_serves:
  "\<exists>n g' env'. serves child lossy n g env g' env' \<and> stops child lossy g' env' (run_guest child lossy g env)"
proof (induction "unat (he_fuel_remaining env)" arbitrary: g env rule: less_induct)
  case less
  have here: ?case if "stops child lossy g env (run_guest child lossy g env)"
    using that serves_0 by blast
  show ?case
  proof (cases g)
    case (Call mem c k)
    obtain res env1 where imp: "import_object child lossy c (share_memory mem env) = (res, env1)" by force
    show ?thesis
    proof (cases res)
      case (Inr r)
      then have "unat (he_fuel_remaining env1) < unat (he_fuel_remaining env)"
        using import_pays[of child lossy c "share_memory mem env" r env1] imp by simp
      from less[OF this, of "k (guest_memory mem env1) r"] show ?thesis
        using serves_Suc[of child lossy c mem env r env1] imp Inr Call by (simp add: run_guest_Call) blast
    qed (rule here, use imp Call in \<open>simp add: stops_def run_guest_Call\<close>)
  qed (rule here; simp add: stops_def)+
qed

text \<open>
  C14. Whatever a contract does, even if it makes host calls for ever, its run stops after at most
  one answered host call per 5000 units of fuel (2000 calls for the default limit of ten million):
  it returns, traps, falls silent, or its next host call traps.
\<close>

theorem every_run_stops:
  "\<exists>n g' env'. serves child lossy n g env g' env' \<and> n * 5000 \<le> unat (he_fuel_remaining env)
     \<and> stops child lossy g' env' (run_guest child lossy g env)"
proof -
  obtain n g' env' where s: "serves child lossy n g env g' env'"
    "stops child lossy g' env' (run_guest child lossy g env)"
    using run_guest_serves by blast
  with serves_pays[OF s(1)] have "n * 5000 \<le> unat (he_fuel_remaining env)" by simp
  with s show ?thesis by blast
qed

section \<open>Answers of the engine\<close>

lemma execute_cross_env:
  assumes "execute_with_cross_calls E R code method args ctx st cs code_map = answer"
  obtains env where "execute_env E R (child_execute E R) code method args
      (new_host_env ctx st cs (Some cs) code_map) = (answer, env)"
  using assms unfolding execute_with_cross_calls_def by (metis prod.collapse)

text \<open>
  A contract never reports more fuel than it was given, callees included, whether it succeeds or runs
  out of fuel.
\<close>

theorem fuel_within_limit:
  "answer_ok (ctx_fuel_limit ctx) (execute_with_cross_calls E R code method args ctx st cs code_map)"
  by (rule execute_cross_env[OF refl]) (rule execute_env_answer(1)[OF child_execute_ok])

text \<open>
  C21. A view call records no storage change and no transfer, whatever the contract and whatever
  contracts it tries to call.
\<close>

theorem view_call_changes_nothing:
  assumes "ctx_read_only ctx"
    and "execute_with_cross_calls E R code method args ctx st cs code_map = Some (Inr r)"
  shows "er_storage_changes r = [] \<and> er_transfers r = []"
proof -
  obtain env where run: "execute_env E R (child_execute E R) code method args
      (new_host_env ctx st cs (Some cs) code_map) = (Some (Inr r), env)"
    using execute_cross_env[OF assms(2)] .
  have "r = collect_result env" by (rule execute_env_answer(4)[OF child_execute_ok run refl])
  moreover have "unwritten (new_host_env ctx st cs (Some cs) code_map) env"
    using execute_env_answer(2)[OF child_execute_ok run] assms(1) by (simp add: kept_def)
  ultimately show ?thesis by (simp add: collect_result_def unwritten_def)
qed

section \<open>Halves of a 128-bit value\<close>

lemma low_half_bits: "bit (low_half v) n \<longleftrightarrow> n < 64 \<and> bit v n"
proof -
  have eq: "(0xFFFFFFFFFFFFFFFF :: u128) = mask 64" by (simp add: mask_eq_exp_minus_1)
  show ?thesis unfolding low_half_def eq by (auto simp: bit_ucast_iff bit_and_iff bit_mask_iff simp del: mask_numeral)
qed

lemma high_half_bits: "bit (high_half v) n \<longleftrightarrow> n < 64 \<and> bit v (n + 64)"
  by (auto simp: high_half_def bit_ucast_iff bit_drop_bit_eq ac_simps)

lemma join_halves_bits:
  "bit (join_halves lo hi) n \<longleftrightarrow> n < 128 \<and> (if n < 64 then bit lo n else bit hi (n - 64))"
  by (auto simp: join_halves_def bit_or_iff bit_ucast_iff bit_push_bit_iff not_less
      dest: bit_imp_le_length)

text \<open>
  Values and balances reach a contract in two 64-bit halves; putting the halves together gives the
  value back, and the halves of a joined value are the two arguments.
\<close>

theorem halves_roundtrip:
  "join_halves (low_half v) (high_half v) = v
   \<and> low_half (join_halves lo hi) = lo \<and> high_half (join_halves lo hi) = hi"
  by (intro conjI; rule bit_word_eqI) (auto simp: low_half_bits high_half_bits join_halves_bits)

section \<open>The engine on the chain\<close>

text \<open>The thread that \<open>execute_with_timeout\<close> starts: \<open>busy\<close> if no permit is free, \<open>late\<close> if five seconds pass.\<close>

definition with_engine :: "wasm_runtime \<Rightarrow> bool \<Rightarrow> bool \<Rightarrow> externals \<Rightarrow> externals" where
  "with_engine R busy late E = E\<lparr>vm_outcome := (\<lambda>code method args ctx storage snapshot.
     if busy then NoPermit
     else if late then TimedOut
     else case execute_with_cross_calls E R code method args ctx storage snapshot (cs_contract_code snapshot) of
         None \<Rightarrow> TimedOut
       | Some r \<Rightarrow> Answered r)\<rparr>"

lemma with_engine_decodes [simp]: "dec_contract_call (with_engine R busy late E) = dec_contract_call E"
  by (simp add: with_engine_def)

lemma execute_with_timeout_engine:
  assumes "execute_with_timeout (with_engine R busy late E) code method args ctx st s = Inr r"
  shows "execute_with_cross_calls E R code method args ctx st
      (capture_from_world s [ctx_caller ctx, ctx_contract_address ctx]) (contract_code s) = Some (Inr r)"
  using assms
  by (auto simp: execute_with_timeout_def with_engine_def Let_def capture_from_world_def
      split: if_splits option.splits)

text \<open>A successful call, taken apart.\<close>

lemma contract_call_runs:
  assumes "handle_contract_call E i s tx = (Inr x, s')" and "dec_contract_call E (tx_payload tx) = Inr p"
  obtains code r where
    "bt_get (contract_code s) (ccp_contract p) = Some code"
    "execute_with_timeout E code (ccp_method p) (ccp_args p)
       (new_top_level (tx_from tx) (ccp_contract p) (block_height s) (block_timestamp s) (ccp_value p)
         DEFAULT_FUEL_LIMIT False)
       (storage_of (ccp_contract p) s) (send_value (tx_from tx) (ccp_contract p) (ccp_value p) s) = Inr r"
    "s' = apply_transfers (ccp_contract p) (er_transfers r)
       (apply_storage_changes (ccp_contract p) (er_storage_changes r)
         (send_value (tx_from tx) (ccp_contract p) (ccp_value p) s))"
    "x = (block_events (ccp_contract p) i r, execution_receipt E tx r)"
proof -
  have frame: "contract_code (send_value a c v s) = contract_code s" "block_height (send_value a c v s) = block_height s"
    "block_timestamp (send_value a c v s) = block_timestamp s"
    "storage_of d (send_value a c v s) = storage_of d s" for a c v d
    by (simp_all add: send_value_def credit_def debit_def storage_of_def)
  show thesis
    using assms
    by (auto simp: handle_contract_call_def Let_def frame split: contract_splits intro: that)
qed

lemma storage_after_call:
  "bt_get (storage_of c (apply_transfers c ts (apply_storage_changes c ch s))) k
     = bt_get (fold apply_change ch (storage_of c s)) k"
proof -
  have "contract_storage (apply_transfers c ts w) = contract_storage w" for w
    by (induction ts arbitrary: w) (auto simp: apply_transfers_def credit_def debit_def)
  then have "bt_get (storage_of c (apply_transfers c ts w)) k = bt_get (storage_of c w) k" for w
    by (simp add: storage_of_get)
  moreover have "bt_get (storage_of c (apply_storage_changes c ch s)) k = bt_get (fold apply_change ch m) k"
    if "\<And>k. bt_get m k = bt_get (storage_of c s) k" for m
    using that
  proof (induction ch arbitrary: s m)
    case (Cons e ch)
    show ?case
      using Cons.IH[of "apply_change e m" "apply_storage_changes c [e] s"] Cons.prems
      by (cases e) (auto simp: apply_storage_changes_def apply_change_def storage_of_get split: option.splits)
  qed (simp add: apply_storage_changes_def)
  ultimately show ?thesis by simp
qed

text \<open>
  C11. From transaction to storage: when a contract call succeeds and no other contract could be called, the storage
  that the next call of the contract starts from is the storage that this execution's own reads
  saw at its end, the receipt lists at most fifty events and at most a hundred logs, and its fuel is within
  the limit.
\<close>

theorem call_persists_final_storage:
  assumes "handle_contract_call (with_engine R busy late E) i s tx = (Inr x, s')"
    and "dec_contract_call E (tx_payload tx) = Inr p"
    and "\<forall>a. bt_contains (contract_code s) a \<longrightarrow> a = ccp_contract p"
  shows "\<exists>code cs env. bt_get (contract_code s) (ccp_contract p) = Some code
    \<and> execute_env E R (child_execute E R) code (ccp_method p) (ccp_args p)
        (new_host_env (new_top_level (tx_from tx) (ccp_contract p) (block_height s) (block_timestamp s)
           (ccp_value p) DEFAULT_FUEL_LIMIT False) (storage_of (ccp_contract p) s) cs (Some cs) (contract_code s))
        = (Some (Inr (collect_result env)), env)
    \<and> (\<forall>k. bt_get (storage_of (ccp_contract p) s') k = bt_get (he_storage env) k)
    \<and> length (tr_events (snd x)) \<le> 50 \<and> length (tr_logs (snd x)) \<le> 100
    \<and> tr_fuel_consumed (snd x) \<le> DEFAULT_FUEL_LIMIT"
proof -
  let ?c = "ccp_contract p"
  let ?s1 = "send_value (tx_from tx) ?c (ccp_value p) s"
  let ?ctx = "new_top_level (tx_from tx) ?c (block_height s) (block_timestamp s) (ccp_value p) DEFAULT_FUEL_LIMIT False"
  have st: "contract_code ?s1 = contract_code s" "storage_of ?c ?s1 = storage_of ?c s"
    by (simp_all add: send_value_def credit_def debit_def storage_of_def)
  obtain code r where code: "bt_get (contract_code s) ?c = Some code"
    and run: "execute_with_timeout (with_engine R busy late E) code (ccp_method p) (ccp_args p) ?ctx (storage_of ?c s) ?s1 = Inr r"
    and s': "s' = apply_transfers ?c (er_transfers r) (apply_storage_changes ?c (er_storage_changes r) ?s1)"
    and x: "x = (block_events ?c i r, execution_receipt (with_engine R busy late E) tx r)"
    by (rule contract_call_runs[OF assms(1)]) (use assms(2) in simp)
  let ?cs = "capture_from_world ?s1 [ctx_caller ?ctx, ctx_contract_address ?ctx]"
  let ?env = "new_host_env ?ctx (storage_of ?c s) ?cs (Some ?cs) (contract_code s)"
  obtain env where e: "execute_env E R (child_execute E R) code (ccp_method p) (ccp_args p) ?env = (Some (Inr r), env)"
    using execute_cross_env[OF execute_with_timeout_engine[OF run, unfolded st]] .
  note ans = execute_env_answer[OF child_execute_ok e]
  have r: "r = collect_result env" using ans(4) by simp
  have "alone ?env" using assms(3) by (simp add: alone_def) (simp add: new_top_level_def)
  then have tidy: "tidy (storage_of ?c s) env" using ans(2) by (simp add: kept_def)
  then have "he_storage env = fold apply_change (er_storage_changes r) (storage_of ?c s)"
    by (simp add: tidy_def r collect_result_def)
  then have "bt_get (storage_of ?c s') k = bt_get (he_storage env) k" for k
    by (simp add: s' storage_after_call st)
  moreover have "length (tr_events (snd x)) \<le> 50" "length (tr_logs (snd x)) \<le> 100"
    using tidy by (simp_all add: x execution_receipt_def receipt_events_def r collect_result_def tidy_def claw_consts)
  moreover have "tr_fuel_consumed (snd x) \<le> DEFAULT_FUEL_LIMIT"
    using ans(1) by (simp add: x execution_receipt_def answer_ok_def) (simp add: new_top_level_def)
  ultimately show ?thesis using code e r by blast
qed

section \<open>What the engine gets wrong\<close>

text \<open>Sample runtimes: \<open>script\<close> gives the body of the only method \<open>run\<close> of the module compiled from a code.\<close>

definition scripted :: "bytes \<Rightarrow> (bytes \<Rightarrow> unit guest) \<Rightarrow> wasm_runtime" where
  "scripted mem script = \<lparr>
     wr_compile = (\<lambda>code. Inr \<lparr>wm_memories = [(1, Some 1)], wm_instantiate = Inr (Finish mem
       \<lparr>wi_memory = None, wi_alloc = None, wi_entries = [''run'' \<mapsto> (0, \<lambda>_ _. script code)]\<rparr>)\<rparr>),
     wr_serialize = (\<lambda>_. None), wr_deserialize = (\<lambda>_. Inl ''''), wr_error_text = id,
     wr_lossy = bytes_string, wr_trim = id, wr_slow = (\<lambda>_ _ _ _. False)\<rparr>"

lemma scripted_run:
  assumes "he_memory env = None"
  shows "execute_env E (scripted mem script) child code ''run'' [] env =
    (case run_guest child bytes_string (script code) (env\<lparr>he_memory := Some mem\<rparr>) of
       (Returned _, _, env') \<Rightarrow> (Some (Inr (collect_result env')), env')
     | (Trapped msg, _, env') \<Rightarrow>
         (Some (Inl (classify_error (scripted mem script) msg env')), env')
     | (Lost, _, env') \<Rightarrow> (None, env'))"
  using assms
  by (simp add: execute_env_def load_module_def cache_get_def cache_new_def scripted_def run_module_def Let_def
      enter_instance_def call_method_def share_memory_def MAX_WASM_MEMORY_PAGES_def
      split: prod.split run_end.split)

text \<open>Carol's address, the name of the method, and a key and a value, in the memory of both contracts.\<close>

abbreviation carol :: address where
  "carol \<equiv> replicate 32 3"

definition sample_memory :: bytes where
  "sample_memory = carol @ string_bytes ''run'' @ [7, 9]"

text \<open>The code \<open>[0]\<close> at bob calls carol. The code \<open>[1]\<close> at carol writes the key and sends four coins to herself.\<close>

definition sample_script :: "bytes \<Rightarrow> unit guest" where
  "sample_script code =
     (if code = [0] then Call sample_memory (H_call_contract 0 32 3 0 0 0 0) (\<lambda>m _. Finish m ())
      else Call sample_memory (H_storage_write 35 1 36 1) (\<lambda>m _.
             Call m (H_token_transfer 0 4 0) (\<lambda>m' _. Finish m' ())))"

lemma sample_reads:
  assumes "he_memory env = Some sample_memory"
  shows "read_bytes env 0 32 = Inr carol" "read_bytes env 32 3 = Inr (string_bytes ''run'')"
    "read_bytes env 35 1 = Inr [7]" "read_bytes env 36 1 = Inr [9]"
  using assms by (simp_all add: read_bytes_def sample_memory_def view_read_def string_bytes_def MAX_HOST_BUFFER_SIZE_def)

lemma sample_value [simp]: "join_halves 4 0 = 4" "join_halves 0 0 = 0"
  by (simp_all add: join_halves_def)

lemma callee_runs:
  assumes "he_fuel_remaining env = 9800000" "\<not> ctx_read_only (he_context env)" "he_memory env = None"
    "he_context env = ctx"
  shows "fst (execute_env E (scripted sample_memory sample_script) child [1] ''run'' [] env)
    = Some (Inr \<lparr>er_return_data = he_return_data env, er_fuel_consumed = he_fuel_consumed env + 150000,
        er_storage_changes = he_storage_changes env @ [([7], Some [9])], er_logs = he_logs env,
        er_transfers = he_transfers env @ [(carol, 4)], er_events = he_events env\<rparr>)"
  using assms
  by (simp add: scripted_run sample_script_def run_guest_Call share_memory_def guest_memory_def sample_reads
      host_storage_write_def host_token_transfer_def check_fuel_def consume_fuel_def STORAGE_WRITE_FUEL_def
      TOKEN_TRANSFER_FUEL_def Let_def collect_result_def add.assoc)

text \<open>The host's part of bob's contract: the call is answered with zero, and the callee's records are taken over.\<close>

lemma scripted_never_slow [simp]: "wr_slow (scripted mem script) code method args ctx = False"
  "wr_lossy (scripted mem script) = bytes_string"
  by (simp_all add: scripted_def)

lemma sample_caller_runs:
  assumes "ctx = new_top_level alice bob h ts 0 DEFAULT_FUEL_LIMIT False"
    and "env0 = new_host_env ctx st cs (Some cs) (bt_insert carol [1] (bt_insert bob [0] bt_empty))"
    and "R = scripted sample_memory sample_script"
  shows "\<exists>env. execute_env E R (child_execute E R) [0] ''run'' [] env0 = (Some (Inr (collect_result env)), env)
    \<and> he_storage_changes env = [([7], Some [9])] \<and> he_transfers env = [(carol, 4)] \<and> he_events env = []"
proof -
  define env1 where "env1 = env0\<lparr>he_memory := Some sample_memory, he_fuel_remaining := 9800000, he_fuel_consumed := 200000\<rparr>"
  let ?ctx = "child_context carol 0 env1"
  let ?r = "\<lparr>er_return_data = [], er_fuel_consumed = 150000, er_storage_changes = [([7], Some [9])],
        er_logs = [], er_transfers = [(carol, 4)], er_events = []\<rparr>"
  have "fst (execute_env E R no_child [1] ''run'' [] (new_host_env ?ctx bt_empty cs None bt_empty)) = Some (Inr ?r)"
    unfolding assms(3)
    by (subst callee_runs[OF _ _ _ refl]) (simp_all add: new_host_env_def child_context_def env1_def)
  then obtain env2 where
    "execute_env E R no_child [1] ''run'' [] (new_host_env ?ctx bt_empty cs None bt_empty) = (Some (Inr ?r), env2)"
    by (metis prod.collapse)
  then have child: "child_execute E R [1] ''run'' [] ?ctx bt_empty cs = (Some (Inr ?r), he_executing_contracts env2)"
    by (simp add: child_execute_def execute_def assms(3))
  have start: "env0\<lparr>he_memory := Some sample_memory\<rparr> = env1\<lparr>he_fuel_remaining := 10000000, he_fuel_consumed := 0\<rparr>"
    by (simp add: env1_def assms(1,2) new_host_env_def new_top_level_def DEFAULT_FUEL_LIMIT_def)
  have call: "call_contract_body (child_execute E R) 0 32 3 0 0 0 0 env1
      = settle_child (Inr ?r) (env1\<lparr>he_executing_contracts := he_executing_contracts env2 - {carol}\<rparr>)"
  proof -
    have "\<not> ctx_read_only (he_context env1)" "he_call_depth env1 = 0" "he_executing_contracts env1 = {bob}"
      "he_memory env1 = Some sample_memory" "he_chain_state env1 = Some cs" "bt_get (he_contract_code env1) carol = Some [1]"
      by (simp_all add: env1_def assms(1,2) new_host_env_def new_top_level_def)
    moreover have "from_utf8 (string_bytes ''run'') = Some ''run''"
      by code_simp
    ultimately show ?thesis
      using child by (simp add: call_contract_body_def enter_contract_def sample_reads MAX_CALL_DEPTH_def)
  qed
  have "host_call_contract (child_execute E R) 0 32 3 0 0 0 0 (env0\<lparr>he_memory := Some sample_memory\<rparr>)
      = call_contract_body (child_execute E R) 0 32 3 0 0 0 0 env1"
    unfolding host_call_contract_def check_fuel_def start
    by (simp add: consume_fuel_def CROSS_CALL_BASE_FUEL_def) (simp add: env1_def)
  then show ?thesis
    unfolding assms(3) call[unfolded assms(3)]
    by (subst scripted_run) (simp_all add: sample_script_def run_guest_Call share_memory_def settle_child_def
        deduct_child_def Let_def env1_def assms(2) new_host_env_def)
qed

definition two_contracts :: WorldState where
  "two_contracts = sample_world\<lparr>balances := bt_insert alice 10 (bt_insert bob 4 bt_empty),
     contracts := bt_insert carol (sample_instance\<lparr>ci_address := carol\<rparr>) (bt_insert bob sample_instance bt_empty),
     contract_code := bt_insert carol [1] (bt_insert bob [0] bt_empty)\<rparr>"

definition two_contracts_call :: externals where
  "two_contracts_call = sample_externals\<lparr>dec_contract_call := (\<lambda>_. Inr \<lparr>ccp_contract = bob, ccp_method = ''run'',
     ccp_args = [], ccp_value = 0\<rparr>)\<rparr>"


text \<open>The concrete inputs of the claims above: a view call of carol's contract, and a call of it with no other contract deployed.\<close>

lemma sample_view_runs:
  "execute_with_cross_calls E (scripted [7, 9] (\<lambda>_. Call [7, 9] (H_return_data 0 1) (\<lambda>m _. Finish m ()))) [1] ''run'' []
     (new_top_level alice bob 0 0 0 5000 True) st cs code_map
   = Some (Inr \<lparr>er_return_data = [7], er_fuel_consumed = 5000, er_storage_changes = [], er_logs = [],
       er_transfers = [], er_events = []\<rparr>)"
  by (simp add: execute_with_cross_calls_def scripted_run new_host_env_def new_top_level_def run_guest_Call
      share_memory_def guest_memory_def host_return_data_def check_fuel_def consume_fuel_def HOST_CALL_BASE_FUEL_def
      read_bytes_def MAX_HOST_BUFFER_SIZE_def view_read_def collect_result_def)

theorem view_call_changes_nothing_witness:
  "ctx_read_only (new_top_level alice bob 0 0 0 5000 True)
   \<and> (\<exists>r. execute_with_cross_calls sample_externals
        (scripted [7, 9] (\<lambda>_. Call [7, 9] (H_return_data 0 1) (\<lambda>m _. Finish m ()))) [1] ''run'' []
        (new_top_level alice bob 0 0 0 5000 True) bt_empty (capture two_contracts []) bt_empty = Some (Inr r)
      \<and> er_return_data r = [7] \<and> er_storage_changes r = [])"
proof -
  have "ctx_read_only (new_top_level alice bob 0 0 0 5000 True)" by (simp add: new_top_level_def)
  with view_call_changes_nothing[OF this sample_view_runs] show ?thesis by (simp add: sample_view_runs)
qed

lemma snapshot_third_party:
  assumes "a \<noteq> ctx_caller ctx" and "a \<noteq> ctx_contract_address ctx"
  shows "bt_get_or (he_balances (new_host_env ctx st cs chain code_map)) 0 a = 0"
  using assms by (simp add: new_host_env_def snapshot_addresses_def)

text \<open>
  The balance of an address other than the caller and the contract itself is always reported as
  zero, at any point of a method and whatever that account holds in the snapshot of the chain.
\<close>

theorem third_party_balance_reads_zero:
  assumes "child_ok child"
    and "serves child lossy n g ((new_host_env ctx st cs chain code_map)\<lparr>he_memory := mem\<rparr>) g' env"
    and "read_bytes env ptr 32 = Inr a" and "a \<noteq> ctx_caller ctx" and "a \<noteq> ctx_contract_address ctx"
    and "host_token_balance ptr env = (Inr x, env1)"
  shows "x = RI64 0"
proof -
  have "he_balances env = he_balances (new_host_env ctx st cs chain code_map)"
    using kept_trans[OF kept_memory serves_kept[OF assms(1,2)]] by (simp add: kept_def)
  then have "bt_get_or (he_balances env) 0 a = 0" using snapshot_third_party[OF assms(4,5)] by simp
  moreover have "read_bytes env2 ptr 32 = Inr a" "he_balances env2 = he_balances env"
    if "consume_fuel HOST_CALL_BASE_FUEL env = Inr env2" for env2
    using consume_fuel_Inr(1)[OF that] assms(3) by (simp_all add: read_bytes_def MAX_HOST_BUFFER_SIZE_def)
  ultimately show ?thesis
    using assms(6) by (auto simp: host_token_balance_def check_fuel_def low_half_def split: sum.splits)
qed

text \<open>
  A callee cannot call on: in the engine that runs a callee every call of a contract is refused, so calls
  nest one level deep and the limit of four levels is never the reason of a refusal.
\<close>

theorem callee_cannot_call:
  assumes "serves no_child lossy n g ((new_host_env ctx st cs None bt_empty)\<lparr>he_memory := mem\<rparr>) g' env"
    and "host_call_contract child addr_ptr method_ptr method_len args_ptr args_len value_lo value_hi env = (Inr x, env1)"
  shows "x \<in> {RI32 (- 1), RI32 (- 2), RI32 (- 3)}
    \<and> (ctx_call_depth ctx \<le> 1 \<longrightarrow> x \<noteq> RI32 (- 3))"
proof -
  have k: "he_contract_code env = bt_empty" "he_call_depth env = ctx_call_depth ctx"
    using kept_trans[OF kept_memory serves_kept[OF no_child_ok assms(1)]]
    by (simp_all add: kept_def) (simp add: new_host_env_def)
  obtain env2 where paid: "consume_fuel CROSS_CALL_BASE_FUEL env = Inr env2"
    and body: "call_contract_body child addr_ptr method_ptr method_len args_ptr args_len value_lo value_hi env2 = (Inr x, env1)"
    using assms(2) by (auto simp: host_call_contract_def check_fuel_def split: sum.splits)
  have "he_contract_code env2 = bt_empty" "he_call_depth env2 = ctx_call_depth ctx"
    using consume_fuel_Inr(1)[OF paid] k by simp_all
  then show ?thesis using body
    by (auto simp: call_contract_body_def MAX_CALL_DEPTH_def word_le_nat_alt
        split: if_splits sum.splits option.splits)
qed

text \<open>Alice calls bob's contract and asks for carol's balance, who is rich; and carol's contract calls bob's.\<close>

definition rich_carol :: ChainStateSnapshot where
  "rich_carol = (capture two_contracts [])\<lparr>cs_balances := bt_insert carol 1000 bt_empty\<rparr>"

definition method_env :: "(address, bytes) btree \<Rightarrow> HostEnv" where
  "method_env code_map = (new_host_env (new_top_level alice bob 0 0 0 1000000 False) bt_empty rich_carol None code_map)
     \<lparr>he_memory := Some sample_memory\<rparr>"

lemma method_env_reads: "read_bytes (method_env code_map) 0 32 = Inr carol"
  by (rule sample_reads(1)) (simp add: method_env_def)

lemma method_env_balance:
  "host_token_balance 0 (method_env code_map) = (Inr (RI64 0), (method_env code_map)
     \<lparr>he_fuel_remaining := 995000, he_fuel_consumed := 5000\<rparr>)"
proof -
  let ?env = "(method_env code_map)\<lparr>he_fuel_remaining := 995000, he_fuel_consumed := 5000\<rparr>"
  have "consume_fuel HOST_CALL_BASE_FUEL (method_env code_map) = Inr ?env"
    by (simp add: consume_fuel_def method_env_def new_host_env_def new_top_level_def HOST_CALL_BASE_FUEL_def)
  moreover have "read_bytes ?env 0 32 = Inr carol"
    by (rule sample_reads(1)) (simp add: method_env_def)
  moreover have "bt_get_or (he_balances (method_env code_map)) 0 carol = 0"
    using snapshot_third_party[of carol "new_top_level alice bob 0 0 0 1000000 False"]
    by (simp add: method_env_def) (simp add: new_top_level_def)
  ultimately show ?thesis by (simp add: host_token_balance_def check_fuel_def low_half_def)
qed

theorem third_party_balance_reads_zero_witness:
  "bt_get (cs_balances rich_carol) carol = Some 1000
   \<and> (\<exists>x env1. host_token_balance 0 (method_env bt_empty) = (Inr x, env1) \<and> x = RI64 0)"
proof -
  let ?ctx = "new_top_level alice bob 0 0 0 1000000 False"
  have s: "serves no_child bytes_string 0 (Finish [] ()) ((new_host_env ?ctx bt_empty rich_carol None bt_empty)
      \<lparr>he_memory := Some sample_memory\<rparr>) (Finish [] ()) (method_env bt_empty)"
    unfolding method_env_def by (rule serves_0)
  have "carol \<noteq> ctx_caller ?ctx" "carol \<noteq> ctx_contract_address ?ctx" by (simp_all add: new_top_level_def)
  from third_party_balance_reads_zero[OF no_child_ok s method_env_reads this method_env_balance]
  show ?thesis using method_env_balance by (simp add: rich_carol_def)
qed

theorem callee_cannot_call_witness:
  "\<exists>x env1. host_call_contract no_child 0 32 3 0 0 0 0 (method_env bt_empty) = (Inr x, env1)
     \<and> x \<in> {RI32 (- 1), RI32 (- 2), RI32 (- 3)}"
proof -
  let ?ctx = "new_top_level alice bob 0 0 0 1000000 False"
  have s: "serves no_child bytes_string 0 (Finish [] ()) ((new_host_env ?ctx bt_empty rich_carol None bt_empty)
      \<lparr>he_memory := Some sample_memory\<rparr>) (Finish [] ()) (method_env bt_empty)"
    unfolding method_env_def by (rule serves_0)
  let ?env = "(method_env bt_empty)\<lparr>he_fuel_remaining := 800000, he_fuel_consumed := 200000\<rparr>"
  have m: "he_memory ?env = Some sample_memory" by (simp add: method_env_def)
  have f: "from_utf8 (string_bytes ''run'') = Some ''run''" by code_simp
  have "host_call_contract no_child 0 32 3 0 0 0 0 (method_env bt_empty) = call_contract_body no_child 0 32 3 0 0 0 0 ?env"
    by (simp add: host_call_contract_def check_fuel_def consume_fuel_def method_env_def new_host_env_def
        new_top_level_def CROSS_CALL_BASE_FUEL_def)
  also have "\<dots> = (Inr (RI32 (- 1)), ?env)"
    unfolding call_contract_body_def sample_reads[OF m]
    by (simp add: f) (simp add: method_env_def new_host_env_def new_top_level_def MAX_CALL_DEPTH_def)
  finally show ?thesis using callee_cannot_call[OF s] by blast
qed

text \<open>A call of bob's contract when it is the only one: it stores the value 9 under the key 7.\<close>

definition lonely_runtime :: wasm_runtime where
  "lonely_runtime = scripted [7, 9] (\<lambda>_. Call [7, 9] (H_storage_write 0 1 1 1) (\<lambda>m _. Finish m ()))"

lemma lonely_runs:
  "\<exists>x s'. handle_contract_call (with_engine lonely_runtime False False two_contracts_call) 0 sample_world sample_tx = (Inr x, s')"
proof -
  let ?ctx = "new_top_level alice bob 0 (block_timestamp sample_world) 0 DEFAULT_FUEL_LIMIT False"
  have "execute_with_cross_calls two_contracts_call lonely_runtime [0] ''run'' [] ?ctx st cs code_map
    = Some (Inr \<lparr>er_return_data = [], er_fuel_consumed = 50000, er_storage_changes = [([7], Some [9])],
        er_logs = [], er_transfers = [], er_events = []\<rparr>)" for st cs code_map
    by (simp add: execute_with_cross_calls_def lonely_runtime_def scripted_run new_host_env_def new_top_level_def
        run_guest_Call share_memory_def guest_memory_def host_storage_write_def check_fuel_def consume_fuel_def
        STORAGE_WRITE_FUEL_def DEFAULT_FUEL_LIMIT_def read_bytes_def MAX_HOST_BUFFER_SIZE_def view_read_def
        collect_result_def)
  then have run: "execute_with_timeout (with_engine lonely_runtime False False two_contracts_call) [0] ''run'' [] ?ctx st sample_world
    = Inr \<lparr>er_return_data = [], er_fuel_consumed = 50000, er_storage_changes = [([7], Some [9])],
        er_logs = [], er_transfers = [], er_events = []\<rparr>" for st
    by (simp add: execute_with_timeout_def with_engine_def Let_def)
  have "dec_contract_call two_contracts_call (tx_payload sample_tx) = Inr \<lparr>ccp_contract = bob, ccp_method = ''run'',
        ccp_args = [], ccp_value = 0\<rparr>" "tx_from sample_tx = alice"
    by (simp_all add: two_contracts_call_def sample_tx_def)
  then show ?thesis by (simp add: handle_contract_call_def Let_def send_value_def run)
qed

theorem call_persists_final_storage_witness:
  "\<exists>x s'. handle_contract_call (with_engine lonely_runtime False False two_contracts_call) 0 sample_world sample_tx = (Inr x, s')
     \<and> length (tr_events (snd x)) \<le> 50 \<and> tr_fuel_consumed (snd x) \<le> DEFAULT_FUEL_LIMIT"
proof -
  obtain x s' where run: "handle_contract_call (with_engine lonely_runtime False False two_contracts_call) 0
      sample_world sample_tx = (Inr x, s')"
    using lonely_runs by blast
  have p: "dec_contract_call two_contracts_call (tx_payload sample_tx) = Inr \<lparr>ccp_contract = bob, ccp_method = ''run'',
        ccp_args = [], ccp_value = 0\<rparr>"
    by (simp add: two_contracts_call_def)
  from call_persists_final_storage[OF run p] show ?thesis using run by auto
qed

end
