(* ===== verification/Vm_Cache.thy ===== *)
theory Vm_Cache
  imports Vm_Engine
begin

text \<open>
  The cache of compiled modules (\<open>ModuleCache\<close> and \<open>load_module\<close> of \<open>vm/src/engine.rs\<close>): a least-recently-used
  list next to a map. The list holds exactly the keys of the map, never more than the capacity, and loading
  through the cache is the same as compiling, provided that serialization is faithful and the hashes of
  the codes differ.
\<close>

definition cache_wf :: "ModuleCache \<Rightarrow> bool" where
  "cache_wf c \<longleftrightarrow> distinct (mc_order c) \<and> set (mc_order c) = set (bt_keys (mc_entries c))
     \<and> bt_len (mc_entries c) \<le> mc_capacity c \<and> 0 < mc_capacity c"

text \<open>Every entry is the image of the compiled module of a known code.\<close>

definition cache_sound :: "externals \<Rightarrow> wasm_runtime \<Rightarrow> bytes set \<Rightarrow> ModuleCache \<Rightarrow> bool" where
  "cache_sound E R codes c \<longleftrightarrow> (\<forall>key img. bt_get (mc_entries c) key = Some img \<longrightarrow>
     (\<exists>code m. code \<in> codes \<and> blake3 E code = key \<and> wr_compile R code = Inr m \<and> wr_deserialize R img = Inr m))"

lemma bt_len_keys: "bt_len m = length (bt_keys m)"
  by (simp add: bt_len_def bt_keys_def)

lemma bt_len_set: "bt_len m = card (set (bt_keys m))"
  by (simp add: bt_len_keys distinct_card bt_keys_distinct)

lemma keys_insert: "set (bt_keys (bt_insert k v m)) = insert k (set (bt_keys m))"
  by (auto simp: bt_keys_mem split: if_splits)

lemma keys_remove: "set (bt_keys (bt_remove k m)) = set (bt_keys m) - {k}"
  by (auto simp: bt_keys_mem split: if_splits)

lemma contains_keys: "bt_contains m k \<longleftrightarrow> k \<in> set (bt_keys m)"
  by (auto simp: bt_contains_def bt_keys_mem)

lemma cache_new_wf: "0 < n \<Longrightarrow> cache_wf (cache_new n)" "cache_sound E R codes (cache_new n)"
proof -
  have "set (bt_keys (bt_empty :: (hash32, bytes) btree)) = {}"
    unfolding set_eq_iff bt_keys_mem by simp
  then show "0 < n \<Longrightarrow> cache_wf (cache_new n)" "cache_sound E R codes (cache_new n)"
    by (simp_all add: cache_wf_def cache_sound_def cache_new_def bt_len_set)
qed

lemma cache_get_laws:
  assumes "cache_get key c = (found, c')"
  shows "found = bt_get (mc_entries c) key" "mc_entries c' = mc_entries c" "mc_capacity c' = mc_capacity c"
    "cache_wf c \<Longrightarrow> cache_wf c'"
proof -
  show "found = bt_get (mc_entries c) key" "mc_entries c' = mc_entries c" "mc_capacity c' = mc_capacity c"
    using assms by (auto simp: cache_get_def bt_contains_def split: if_splits)
  have "set (filter (\<lambda>k. k \<noteq> key) (mc_order c) @ [key]) = set (mc_order c)" if "key \<in> set (mc_order c)"
    using that by auto
  then show "cache_wf c \<Longrightarrow> cache_wf c'"
    using assms by (auto simp: cache_get_def cache_wf_def contains_keys split: if_splits)
qed

lemma cache_put_wf:
  assumes "cache_wf c"
  shows "cache_wf (cache_put key img c)" "mc_capacity (cache_put key img c) = mc_capacity c"
proof -
  note laws = cache_wf_def keys_insert keys_remove bt_len_set contains_keys
  show "mc_capacity (cache_put key img c) = mc_capacity c"
    by (simp add: cache_put_def Let_def split: list.split)
  show "cache_wf (cache_put key img c)"
  proof (cases "bt_contains (mc_entries c) key")
    case True
    then show ?thesis using assms by (auto simp: cache_put_def laws insert_absorb)
  next
    case False
    note miss = False
    have fin: "finite (set (bt_keys (mc_entries c)))" by simp
    show ?thesis
    proof (cases "bt_len (mc_entries c) \<ge> mc_capacity c")
      case True
      then obtain old order where o: "mc_order c = old # order"
        using assms by (cases "mc_order c") (auto simp: laws)
      then have mem: "old \<in> set (bt_keys (mc_entries c))" "old \<notin> set order"
        "set order = set (bt_keys (mc_entries c)) - {old}" "distinct order"
        using assms by (auto simp: cache_wf_def)
      then have "card (insert key (set (bt_keys (mc_entries c)) - {old})) \<le> mc_capacity c"
        using assms miss card_Suc_Diff1[OF fin mem(1)] by (simp add: laws card_insert_if)
      then show ?thesis using miss True assms o mem by (simp add: cache_put_def laws)
    qed (use miss assms in \<open>auto simp: cache_put_def laws\<close>)
  qed
qed

lemma cache_put_sound:
  assumes "cache_sound E R codes c" and "code \<in> codes" and "wr_compile R code = Inr m"
    and "wr_deserialize R img = Inr m"
  shows "cache_sound E R codes (cache_put (blake3 E code) img c)"
proof -
  have shape: "mc_entries (cache_put key img c) = bt_insert key img (mc_entries c)
      \<or> (\<exists>old. mc_entries (cache_put key img c) = bt_insert key img (bt_remove old (mc_entries c)))" for key
    by (auto simp: cache_put_def Let_def split: list.split)
  have old: "bt_get (mc_entries c) k = Some i"
    if "bt_get (mc_entries (cache_put key img c)) k = Some i" "k \<noteq> key" for key k i
    using shape[of key] that by (auto split: if_splits)
  have new: "bt_get (mc_entries (cache_put key img c)) key = Some img" for key
    by (simp add: cache_put_def Let_def)
  show ?thesis
    unfolding cache_sound_def
  proof (intro allI impI)
    fix k i
    assume k: "bt_get (mc_entries (cache_put (blake3 E code) img c)) k = Some i"
    show "\<exists>code m. code \<in> codes \<and> blake3 E code = k \<and> wr_compile R code = Inr m \<and> wr_deserialize R i = Inr m"
    proof (cases "k = blake3 E code")
      case True
      then show ?thesis using k new assms(2-4) by auto
    next
      case False
      then show ?thesis using old[OF k] assms(1) unfolding cache_sound_def by blast
    qed
  qed
qed

text \<open>Loading codes one after the other through one engine.\<close>

fun load_all :: "externals \<Rightarrow> wasm_runtime \<Rightarrow> bytes list \<Rightarrow> ModuleCache \<Rightarrow> (VmError + wasm_module) list \<times> ModuleCache" where
  "load_all E R [] cache = ([], cache)"
| "load_all E R (code # codes) cache =
     (let (m, cache1) = load_module E R code cache; (ms, cache2) = load_all E R codes cache1 in (m # ms, cache2))"

definition compile_module :: "wasm_runtime \<Rightarrow> bytes \<Rightarrow> VmError + wasm_module" where
  "compile_module R code = (case wr_compile R code of Inl e \<Rightarrow> Inl (CompilationFailed e) | Inr m \<Rightarrow> Inr m)"

lemma load_module_compiles:
  assumes "cache_wf c" and "cache_sound E R codes c" and "code \<in> codes" and inj: "inj_on (blake3 E) codes"
    and faithful: "\<And>m img. wr_serialize R m = Some img \<Longrightarrow> wr_deserialize R img = Inr m"
  shows "fst (load_module E R code c) = compile_module R code" "cache_wf (snd (load_module E R code c))"
    "cache_sound E R codes (snd (load_module E R code c))" "mc_capacity (snd (load_module E R code c)) = mc_capacity c"
proof -
  obtain found c1 where g: "cache_get (blake3 E code) c = (found, c1)" by force
  note laws = cache_get_laws[OF g]
  have wf: "cache_wf c1" and sound: "cache_sound E R codes c1"
    using laws assms by (auto simp: cache_sound_def)
  have hit: "\<exists>m. wr_compile R code = Inr m \<and> wr_deserialize R img = Inr m" if "found = Some img" for img
    using that assms(2,3) laws(1) inj_onD[OF inj] unfolding cache_sound_def by metis
  have "fst (load_module E R code c) = compile_module R code \<and> cache_wf (snd (load_module E R code c))
    \<and> cache_sound E R codes (snd (load_module E R code c)) \<and> mc_capacity (snd (load_module E R code c)) = mc_capacity c"
  proof (cases found)
    case (Some img)
    then show ?thesis using hit[OF Some] wf sound laws(3) g by (auto simp: load_module_def compile_module_def)
  next
    case None
    show ?thesis
    proof (cases "wr_compile R code")
      case (Inr m)
      then show ?thesis
        using None wf sound laws(3) g faithful[of m] cache_put_wf[OF wf] cache_put_sound[OF sound assms(3) Inr]
        by (auto simp: load_module_def compile_module_def split: option.split)
    qed (use None wf sound laws(3) g in \<open>auto simp: load_module_def compile_module_def\<close>)
  qed
  then show "fst (load_module E R code c) = compile_module R code" "cache_wf (snd (load_module E R code c))"
    "cache_sound E R codes (snd (load_module E R code c))" "mc_capacity (snd (load_module E R code c)) = mc_capacity c"
    by auto
qed

lemma load_all_compiles:
  assumes "cache_wf c" and "cache_sound E R codes c" and "set cs \<subseteq> codes" and "inj_on (blake3 E) codes"
    and "\<And>m img. wr_serialize R m = Some img \<Longrightarrow> wr_deserialize R img = Inr m"
  shows "fst (load_all E R cs c) = map (compile_module R) cs \<and> cache_wf (snd (load_all E R cs c))
    \<and> mc_capacity (snd (load_all E R cs c)) = mc_capacity c"
  using assms(1-3)
proof (induction cs arbitrary: c)
  case (Cons code cs)
  note step = load_module_compiles[OF Cons.prems(1,2) _ assms(4,5), of code]
  show ?case using Cons.IH[of "snd (load_module E R code c)"] step Cons.prems(3)
    by (simp add: case_prod_unfold Let_def)
qed simp

text \<open>
  A fresh engine gives for any sequence of codes, repetitions included, exactly what compiling each of them
  would give, and its cache is well-formed with at most 64 modules afterwards, provided that wasmer's serialization is
  faithful and no two of the codes have the same hash.
\<close>

theorem module_cache_transparent:
  assumes "inj_on (blake3 E) (set codes)"
    and "\<forall>m img. wr_serialize R m = Some img \<longrightarrow> wr_deserialize R img = Inr m"
  shows "fst (load_all E R codes (cache_new MODULE_CACHE_CAPACITY)) = map (compile_module R) codes
    \<and> cache_wf (snd (load_all E R codes (cache_new MODULE_CACHE_CAPACITY)))
    \<and> bt_len (mc_entries (snd (load_all E R codes (cache_new MODULE_CACHE_CAPACITY)))) \<le> 64"
proof -
  let ?c = "cache_new MODULE_CACHE_CAPACITY"
  have "cache_wf ?c" "cache_sound E R (set codes) ?c" using cache_new_wf by (simp_all add: MODULE_CACHE_CAPACITY_def)
  from load_all_compiles[OF this subset_refl assms(1)] assms(2)
  have "fst (load_all E R codes ?c) = map (compile_module R) codes \<and> cache_wf (snd (load_all E R codes ?c))
    \<and> mc_capacity (snd (load_all E R codes ?c)) = mc_capacity ?c" by simp
  then show ?thesis by (simp add: cache_wf_def cache_new_def MODULE_CACHE_CAPACITY_def)
qed

text \<open>A runtime whose modules have the number of their memories as image.\<close>

definition counting_runtime :: wasm_runtime where
  "counting_runtime = \<lparr>wr_compile = (\<lambda>code. if code = [] then Inl ''empty''
       else Inr \<lparr>wm_memories = [], wm_instantiate = Inl ''none''\<rparr>),
     wr_serialize = (\<lambda>m. if m = \<lparr>wm_memories = [], wm_instantiate = Inl ''none''\<rparr> then Some [1] else None),
     wr_deserialize = (\<lambda>_. Inr \<lparr>wm_memories = [], wm_instantiate = Inl ''none''\<rparr>), wr_error_text = id,
     wr_lossy = (\<lambda>_. ''''), wr_trim = id, wr_slow = (\<lambda>_ _ _ _. False)\<rparr>"

theorem module_cache_transparent_witness:
  "fst (load_all (sample_externals\<lparr>blake3 := id\<rparr>) counting_runtime [[1], [2], [], [1]] (cache_new MODULE_CACHE_CAPACITY))
     = map (compile_module counting_runtime) [[1], [2], [], [1]]"
  using module_cache_transparent[of "sample_externals\<lparr>blake3 := id\<rparr>" "[[1], [2], [], [1]]" counting_runtime]
  by (simp add: counting_runtime_def)

end
