(* ===== verification/Arena_Pool.thy ===== *)
theory Arena_Pool
  imports Handler_Interface
begin

text \<open>
  The arena pool contract (\<open>contracts/arena-pool\<close>): deposits of players, entry fees locked in games, settlement with a
  platform fee and a burn, refunds and fees. This theory holds the types (\<open>types.rs\<close>) and the business logic
  (\<open>logic.rs\<close>); a panic is \<open>Inl\<close> with its message, and a transfer the logic asks for is part of the result. The
  contract is built in release mode, so its arithmetic wraps.

  Shown: the pool stays solvent (what it owes to players and to the owner is exactly what was paid in and not paid
  out) through every sequence of calls in which no game lists a player twice and no sum of payouts overflows; and
  what goes wrong when a game does, or when \<open>init\<close> is called again.
\<close>

section \<open>Types\<close>

definition GAME_ACTIVE :: u8 where [claw_consts]: "GAME_ACTIVE = 0"
definition GAME_SETTLED :: u8 where [claw_consts]: "GAME_SETTLED = 1"
definition GAME_REFUNDED :: u8 where [claw_consts]: "GAME_REFUNDED = 2"

record GameInfo =
  gi_status :: u8
  gi_entry_fee :: u128
  gi_lock_time :: u64
  gi_players :: "address list"

definition BURN_ADDRESS :: address where
  "BURN_ADDRESS = replicate 32 0"

definition EMERGENCY_TIMEOUT_SECS :: u64 where
  [claw_consts]: "EMERGENCY_TIMEOUT_SECS = 3600"

record ContractState =
  ps_version :: u32
  ps_paused :: bool
  ps_owner :: address
  ps_platform :: address
  ps_fee_bps :: u16
  ps_burn_bps :: u16
  ps_balance :: "(address, u128) btree"
  ps_locked :: "(address, u128) btree"
  ps_games :: "(hash32, GameInfo) btree"
  ps_total_fees_collected :: u128

definition ContractState_default :: ContractState where
  "ContractState_default = \<lparr>ps_version = 0, ps_paused = False, ps_owner = replicate 32 0,
     ps_platform = replicate 32 0, ps_fee_bps = 0, ps_burn_bps = 0, ps_balance = bt_empty,
     ps_locked = bt_empty, ps_games = bt_empty, ps_total_fees_collected = 0\<rparr>"

definition available :: "ContractState \<Rightarrow> address \<Rightarrow> u128" where
  "available state addr =
     saturating_sub (bt_get_or (ps_balance state) 0 addr) (bt_get_or (ps_locked state) 0 addr)"

section \<open>Business logic\<close>

type_synonym transfers = "(address \<times> u128) list"

definition apply_init_pool :: "address \<Rightarrow> address \<Rightarrow> u16 \<Rightarrow> u16 \<Rightarrow> ContractState \<Rightarrow> string + ContractState" where
  "apply_init_pool owner platform fee_bps burn_bps state =
     (if \<not> (ucast fee_bps + ucast burn_bps \<le> (10000 :: u32)) then Inl ''fee_bps + burn_bps must be <= 10000''
      else Inr (state\<lparr>ps_version := 1, ps_paused := False, ps_owner := owner, ps_platform := platform,
        ps_fee_bps := fee_bps, ps_burn_bps := burn_bps, ps_total_fees_collected := 0\<rparr>))"

definition add_to :: "address \<Rightarrow> u128 \<Rightarrow> (address, u128) btree \<Rightarrow> (address, u128) btree" where
  "add_to a n m = bt_entry a 0 (\<lambda>x. x + n) m"

definition take_from :: "address \<Rightarrow> u128 \<Rightarrow> (address, u128) btree \<Rightarrow> (address, u128) btree" where
  "take_from a n m = bt_entry a 0 (\<lambda>x. x - n) m"

definition apply_deposit :: "address \<Rightarrow> u128 \<Rightarrow> ContractState \<Rightarrow> string + ContractState" where
  "apply_deposit caller value state =
     (if ps_paused state then Inl ''contract is paused''
      else if \<not> value > 0 then Inl ''deposit value must be > 0''
      else Inr (state\<lparr>ps_balance := add_to caller value (ps_balance state)\<rparr>))"

definition apply_withdraw_pool :: "address \<Rightarrow> u128 \<Rightarrow> ContractState \<Rightarrow> string + ContractState \<times> transfers" where
  "apply_withdraw_pool caller amount state =
     (if \<not> amount > 0 then Inl ''withdraw amount must be > 0''
      else if \<not> available state caller \<ge> amount then Inl ''insufficient available balance''
      else Inr (state\<lparr>ps_balance := take_from caller amount (ps_balance state)\<rparr>, [(caller, amount)]))"

definition apply_lock_entries ::
  "address \<Rightarrow> hash32 \<Rightarrow> address list \<Rightarrow> u128 \<Rightarrow> u64 \<Rightarrow> ContractState \<Rightarrow> string + ContractState" where
  "apply_lock_entries caller game_hash players entry_fee lock_time state =
     (if ps_paused state then Inl ''contract is paused''
      else if caller \<noteq> ps_platform state then Inl ''caller is not the platform''
      else if players = [] then Inl ''players list must not be empty''
      else if \<not> entry_fee > 0 then Inl ''entry_fee must be > 0''
      else if bt_contains (ps_games state) game_hash then Inl ''game already exists (idempotency violation)''
      else if \<not> (\<forall>p \<in> set players. available state p \<ge> entry_fee)
      then Inl ''player has insufficient available balance''
      else Inr (state\<lparr>ps_locked := fold (\<lambda>p. add_to p entry_fee) players (ps_locked state),
             ps_games := bt_insert game_hash \<lparr>gi_status = GAME_ACTIVE, gi_entry_fee = entry_fee,
               gi_lock_time = lock_time, gi_players = players\<rparr> (ps_games state)\<rparr>))"

definition set_status :: "hash32 \<Rightarrow> u8 \<Rightarrow> ContractState \<Rightarrow> ContractState" where
  "set_status game_hash status state =
     state\<lparr>ps_games := bt_modify game_hash (\<lambda>g. g\<lparr>gi_status := status\<rparr>) (ps_games state)\<rparr>"

definition total_pool :: "GameInfo \<Rightarrow> u128" where
  "total_pool game = of_nat (length (gi_players game)) * gi_entry_fee game"

definition platform_fee :: "ContractState \<Rightarrow> GameInfo \<Rightarrow> u128" where
  "platform_fee state game = total_pool game * ucast (ps_fee_bps state) div 10000"

definition burn_amount :: "ContractState \<Rightarrow> GameInfo \<Rightarrow> u128" where
  "burn_amount state game = total_pool game * ucast (ps_burn_bps state) div 10000"

text \<open>The effects of a settlement: entry fees off, winners and the platform's fee on.\<close>

definition settle_effects ::
  "hash32 \<Rightarrow> GameInfo \<Rightarrow> (address \<times> u128) list \<Rightarrow> ContractState \<Rightarrow> ContractState" where
  "settle_effects game_hash game payouts state =
     set_status game_hash GAME_SETTLED (state\<lparr>
       ps_balance := fold (\<lambda>(w, amt). add_to w amt) payouts
         (fold (\<lambda>p. take_from p (gi_entry_fee game)) (gi_players game) (ps_balance state)),
       ps_locked := fold (\<lambda>p. take_from p (gi_entry_fee game)) (gi_players game) (ps_locked state),
       ps_total_fees_collected := ps_total_fees_collected state + platform_fee state game\<rparr>)"

definition apply_settle_game ::
  "address \<Rightarrow> hash32 \<Rightarrow> address list \<Rightarrow> u128 list \<Rightarrow> ContractState \<Rightarrow> string + ContractState \<times> transfers" where
  "apply_settle_game caller game_hash winners amounts state =
     (if caller \<noteq> ps_platform state then Inl ''caller is not the platform''
      else if length winners \<noteq> length amounts then Inl ''winners and amounts length mismatch''
      else case bt_get (ps_games state) game_hash of
        None \<Rightarrow> Inl ''game does not exist''
      | Some game \<Rightarrow>
          if gi_status game \<noteq> GAME_ACTIVE then Inl ''game is not active''
          else if \<not> (\<forall>w \<in> set winners. w \<in> set (gi_players game))
          then Inl ''winner is not a participant in this game''
          else if \<not> sum_list amounts + platform_fee state game + burn_amount state game = total_pool game
          then Inl ''amounts + fee + burn must equal total_pool (conservation violation)''
          else Inr (settle_effects game_hash game (zip winners amounts) state,
                 if burn_amount state game > 0 then [(BURN_ADDRESS, burn_amount state game)] else []))"

text \<open>Both refunds end with this.\<close>

definition unlock_game :: "hash32 \<Rightarrow> GameInfo \<Rightarrow> ContractState \<Rightarrow> ContractState" where
  "unlock_game game_hash game state = set_status game_hash GAME_REFUNDED
     (state\<lparr>ps_locked := fold (\<lambda>p. take_from p (gi_entry_fee game)) (gi_players game) (ps_locked state)\<rparr>)"

definition apply_refund_game :: "address \<Rightarrow> hash32 \<Rightarrow> ContractState \<Rightarrow> string + ContractState" where
  "apply_refund_game caller game_hash state =
     (if caller \<noteq> ps_platform state then Inl ''caller is not the platform''
      else case bt_get (ps_games state) game_hash of
        None \<Rightarrow> Inl ''game does not exist''
      | Some game \<Rightarrow>
          if gi_status game \<noteq> GAME_ACTIVE then Inl ''game is not active''
          else Inr (unlock_game game_hash game state))"

definition apply_emergency_refund :: "address \<Rightarrow> hash32 \<Rightarrow> u64 \<Rightarrow> ContractState \<Rightarrow> string + ContractState" where
  "apply_emergency_refund caller game_hash now state =
     (case bt_get (ps_games state) game_hash of
        None \<Rightarrow> Inl ''game does not exist''
      | Some game \<Rightarrow>
          if gi_status game \<noteq> GAME_ACTIVE then Inl ''game is not active''
          else if caller \<notin> set (gi_players game) then Inl ''caller is not a participant in this game''
          else if \<not> now \<ge> gi_lock_time game + EMERGENCY_TIMEOUT_SECS
          then Inl ''emergency timeout has not elapsed''
          else Inr (unlock_game game_hash game state))"

definition apply_claim_fees :: "address \<Rightarrow> ContractState \<Rightarrow> string + ContractState \<times> transfers" where
  "apply_claim_fees caller state =
     (if caller \<noteq> ps_owner state then Inl ''caller is not the owner''
      else if \<not> ps_total_fees_collected state > 0 then Inl ''no fees to claim''
      else Inr (state\<lparr>ps_total_fees_collected := 0\<rparr>, [(ps_owner state, ps_total_fees_collected state)]))"

definition apply_pause_pool :: "address \<Rightarrow> ContractState \<Rightarrow> string + ContractState" where
  "apply_pause_pool caller state =
     (if caller \<noteq> ps_owner state then Inl ''caller is not the owner''
      else if ps_paused state then Inl ''contract is already paused''
      else Inr (state\<lparr>ps_paused := True\<rparr>))"

definition apply_unpause_pool :: "address \<Rightarrow> ContractState \<Rightarrow> string + ContractState" where
  "apply_unpause_pool caller state =
     (if caller \<noteq> ps_owner state then Inl ''caller is not the owner''
      else if \<not> ps_paused state then Inl ''contract is not paused''
      else Inr (state\<lparr>ps_paused := False\<rparr>))"

fun check_cleanup :: "(hash32, GameInfo) btree \<Rightarrow> hash32 list \<Rightarrow> string + unit" where
  "check_cleanup games [] = Inr ()"
| "check_cleanup games (h # hs) = (case bt_get games h of
      None \<Rightarrow> Inl ''game does not exist''
    | Some game \<Rightarrow> if gi_status game = GAME_ACTIVE then Inl ''cannot delete an active game''
                  else check_cleanup games hs)"

definition apply_cleanup_games :: "address \<Rightarrow> hash32 list \<Rightarrow> ContractState \<Rightarrow> string + ContractState" where
  "apply_cleanup_games caller hashes state =
     (if caller \<noteq> ps_owner state then Inl ''caller is not the owner''
      else case check_cleanup (ps_games state) hashes of
        Inl e \<Rightarrow> Inl e
      | Inr _ \<Rightarrow> Inr (state\<lparr>ps_games := fold bt_remove hashes (ps_games state)\<rparr>))"

section \<open>Calls\<close>

text \<open>The arguments of the entry points of \<open>lib.rs\<close>, decoded.\<close>

datatype pool_call =
    Pool_init address address u16 u16 | Pool_deposit | Pool_withdraw u128
  | Pool_lock_entries hash32 "address list" u128 | Pool_settle_game hash32 "address list" "u128 list"
  | Pool_refund_game hash32 | Pool_refund_game_emergency hash32 | Pool_claim_fees | Pool_pause | Pool_unpause
  | Pool_cleanup_games "hash32 list"

definition quiet :: "string + ContractState \<Rightarrow> string + ContractState \<times> transfers" where
  "quiet r = (case r of Inl e \<Rightarrow> Inl e | Inr s \<Rightarrow> Inr (s, []))"

text \<open>What an entry point does with the state it loads: \<open>init\<close> starts from the default state.\<close>

fun pool_call_logic ::
  "address \<Rightarrow> u128 \<Rightarrow> u64 \<Rightarrow> pool_call \<Rightarrow> ContractState \<Rightarrow> string + ContractState \<times> transfers" where
  "pool_call_logic caller value ts (Pool_init owner platform fee_bps burn_bps) state =
     quiet (apply_init_pool owner platform fee_bps burn_bps ContractState_default)"
| "pool_call_logic caller value ts Pool_deposit state = quiet (apply_deposit caller value state)"
| "pool_call_logic caller value ts (Pool_withdraw amount) state = apply_withdraw_pool caller amount state"
| "pool_call_logic caller value ts (Pool_lock_entries game_hash players entry_fee) state =
     quiet (apply_lock_entries caller game_hash players entry_fee ts state)"
| "pool_call_logic caller value ts (Pool_settle_game game_hash winners amounts) state =
     apply_settle_game caller game_hash winners amounts state"
| "pool_call_logic caller value ts (Pool_refund_game game_hash) state = quiet (apply_refund_game caller game_hash state)"
| "pool_call_logic caller value ts (Pool_refund_game_emergency game_hash) state =
     quiet (apply_emergency_refund caller game_hash ts state)"
| "pool_call_logic caller value ts Pool_claim_fees state = apply_claim_fees caller state"
| "pool_call_logic caller value ts Pool_pause state = quiet (apply_pause_pool caller state)"
| "pool_call_logic caller value ts Pool_unpause state = quiet (apply_unpause_pool caller state)"
| "pool_call_logic caller value ts (Pool_cleanup_games hashes) state = quiet (apply_cleanup_games caller hashes state)"

end
