(* ===== verification/Arena_Solvency.thy ===== *)
theory Arena_Solvency
  imports Arena_Pool
begin

text \<open>
  Solvency of the arena pool. The bookkeeping of \<open>Arena_Pool\<close> is read as integers: what every player owns, what
  the active games hold of it, and the fees. The invariant ties the three to the coins paid in and not paid out; every
  operation keeps it, so every payout is covered.
\<close>

section \<open>Purses\<close>

definition coins_of :: "(address, u128) btree \<Rightarrow> address \<Rightarrow> int" where
  "coins_of m a = uint (bt_get_or m 0 a)"

definition money :: "(address, u128) btree \<Rightarrow> int" where
  "money m = bt_sum (\<lambda>_ b. uint b) m"

lemma coins_of_nonneg [simp]: "0 \<le> coins_of m a"
  by (simp add: coins_of_def)

lemma money_nonneg: "0 \<le> money m"
  by (auto simp: money_def bt_sum_def intro: sum_list_nonneg)

lemma coins_of_le_money: "coins_of m a \<le> money m"
proof (cases "bt_get m a")
  case None
  then show ?thesis using money_nonneg[of m] by (simp add: coins_of_def bt_get_or_def)
next
  case (Some b)
  then show ?thesis
    using bt_sum_nonneg_mono[of "\<lambda>_ b. uint b" m a b] by (simp add: coins_of_def money_def bt_get_or_def)
qed

lemma add_to_exact:
  assumes "coins_of m a + uint n < 2 ^ 128"
  shows "coins_of (add_to a n m) b = coins_of m b + (if b = a then uint n else 0)"
    and "money (add_to a n m) = money m + uint n"
  using assms by (simp_all add: coins_of_def money_def add_to_def bt_sum_entry uint_add_u128)

lemma take_from_exact:
  assumes "uint n \<le> coins_of m a"
  shows "coins_of (take_from a n m) b = coins_of m b - (if b = a then uint n else 0)"
    and "money (take_from a n m) = money m - uint n"
proof -
  have "n \<le> bt_get_or m 0 a" using assms by (simp add: coins_of_def word_le_def)
  then show "coins_of (take_from a n m) b = coins_of m b - (if b = a then uint n else 0)"
    "money (take_from a n m) = money m - uint n"
    by (simp_all add: coins_of_def money_def take_from_def bt_sum_entry uint_sub_exact)
qed

lemma take_all_exact:
  assumes "\<And>a. int (count_list ps a) * uint n \<le> coins_of m a"
  shows "coins_of (fold (\<lambda>p. take_from p n) ps m) a = coins_of m a - int (count_list ps a) * uint n"
    and "money (fold (\<lambda>p. take_from p n) ps m) = money m - int (length ps) * uint n"
proof -
  have "(\<forall>a. coins_of (fold (\<lambda>p. take_from p n) ps m) a = coins_of m a - int (count_list ps a) * uint n)
    \<and> money (fold (\<lambda>p. take_from p n) ps m) = money m - int (length ps) * uint n"
    using assms
  proof (induction ps arbitrary: m)
    case (Cons p ps)
    have "uint n + int (count_list ps p) * uint n \<le> coins_of m p"
      using Cons.prems[of p] by (simp add: algebra_simps)
    then have first: "uint n \<le> coins_of m p" by (smt (verit) mult_nonneg_nonneg of_nat_0_le_iff uint_nonnegative)
    have "int (count_list ps a) * uint n \<le> coins_of (take_from p n m) a" for a
      using Cons.prems[of a] by (auto simp: take_from_exact(1)[OF first] algebra_simps split: if_splits)
    from Cons.IH[OF this] show ?case
      by (simp add: take_from_exact[OF first]) (simp add: algebra_simps)
  qed simp
  then show "coins_of (fold (\<lambda>p. take_from p n) ps m) a = coins_of m a - int (count_list ps a) * uint n"
    "money (fold (\<lambda>p. take_from p n) ps m) = money m - int (length ps) * uint n" by auto
qed

lemma add_all_exact:
  assumes "\<And>a. coins_of m a + int (count_list ps a) * uint n < 2 ^ 128"
  shows "coins_of (fold (\<lambda>p. add_to p n) ps m) a = coins_of m a + int (count_list ps a) * uint n"
  using assms
proof (induction ps arbitrary: m)
  case (Cons p ps)
  have "coins_of m p + uint n + int (count_list ps p) * uint n < 2 ^ 128"
    using Cons.prems[of p] by (simp add: algebra_simps)
  then have first: "coins_of m p + uint n < 2 ^ 128" by (smt (verit) mult_nonneg_nonneg of_nat_0_le_iff uint_nonnegative)
  have "coins_of (add_to p n m) a + int (count_list ps a) * uint n < 2 ^ 128" for a
    using Cons.prems[of a] by (auto simp: add_to_exact(1)[OF first] algebra_simps split: if_splits)
  from Cons.IH[OF this] show ?case by (simp add: add_to_exact(1)[OF first]) (simp add: algebra_simps)
qed simp

definition owed :: "transfers \<Rightarrow> int" where
  "owed ts = (\<Sum>(a, n) \<leftarrow> ts. uint n)"

lemma owed_simps [simp]: "owed [] = 0" "owed ((a, n) # ts) = uint n + owed ts"
  by (simp_all add: owed_def)

lemma owed_nonneg: "0 \<le> owed ts"
  by (induction ts) auto

lemma pay_all_exact:
  assumes "money m + owed ps < 2 ^ 128"
  shows "money (fold (\<lambda>(w, amt). add_to w amt) ps m) = money m + owed ps"
    and "coins_of m a \<le> coins_of (fold (\<lambda>(w, amt). add_to w amt) ps m) a"
proof -
  have "money (fold (\<lambda>(w, amt). add_to w amt) ps m) = money m + owed ps
    \<and> (\<forall>a. coins_of m a \<le> coins_of (fold (\<lambda>(w, amt). add_to w amt) ps m) a)"
    using assms
  proof (induction ps arbitrary: m)
    case (Cons p ps)
    obtain w amt where p: "p = (w, amt)" by force
    have first: "coins_of m w + uint amt < 2 ^ 128"
      using Cons.prems coins_of_le_money[of m w] owed_nonneg[of ps] by (simp add: p)
    have "money (add_to w amt m) + owed ps < 2 ^ 128"
      using Cons.prems by (simp add: p add_to_exact(2)[OF first])
    from Cons.IH[OF this] show ?case
      by (auto simp: p add_to_exact[OF first]) (smt (verit) uint_nonnegative)
  qed simp
  then show "money (fold (\<lambda>(w, amt). add_to w amt) ps m) = money m + owed ps"
    "coins_of m a \<le> coins_of (fold (\<lambda>(w, amt). add_to w amt) ps m) a" by auto
qed

section \<open>What the games hold\<close>

definition stake_in :: "GameInfo \<Rightarrow> address \<Rightarrow> int" where
  "stake_in g a = (if gi_status g = GAME_ACTIVE then int (count_list (gi_players g) a) * uint (gi_entry_fee g) else 0)"

definition held :: "(hash32, GameInfo) btree \<Rightarrow> address \<Rightarrow> int" where
  "held games a = bt_sum (\<lambda>_ g. stake_in g a) games"

lemma stake_in_nonneg [simp]: "0 \<le> stake_in g a"
  by (simp add: stake_in_def)

lemma stake_in_le_held: "bt_get games h = Some g \<Longrightarrow> stake_in g a \<le> held games a"
  unfolding held_def by (rule bt_sum_nonneg_mono[of "\<lambda>_ g. stake_in g a"]) simp

lemma held_insert:
  "\<not> bt_contains games h \<Longrightarrow> held (bt_insert h g games) a = held games a + stake_in g a"
  by (simp add: held_def bt_sum_insert bt_contains_def)

lemma held_closed:
  assumes "bt_get games h = Some g" and "st \<noteq> GAME_ACTIVE"
  shows "held (bt_modify h (\<lambda>g. g\<lparr>gi_status := st\<rparr>) games) a = held games a - stake_in g a"
  using assms by (simp add: held_def bt_modify_def bt_sum_insert stake_in_def)

lemma held_cleanup:
  assumes "check_cleanup games hs = Inr ()"
  shows "held (fold bt_remove hs games) a = held games a"
proof -
  have "\<forall>h \<in> set hs. \<exists>g. bt_get games h = Some g \<and> gi_status g \<noteq> GAME_ACTIVE"
    using assms by (induction hs) (auto split: option.splits if_splits)
  then have "\<forall>h \<in> set hs. \<forall>g. bt_get games h = Some g \<longrightarrow> stake_in g a = 0" by (auto simp: stake_in_def)
  then show ?thesis
  proof (induction hs arbitrary: games)
    case (Cons h hs)
    have "held (bt_remove h games) a = held games a"
      using Cons.prems by (auto simp: held_def bt_sum_remove split: option.split)
    moreover have "held (fold bt_remove hs (bt_remove h games)) a = held (bt_remove h games) a"
      by (rule Cons.IH) (use Cons.prems in auto)
    ultimately show ?case by simp
  qed simp
qed

section \<open>The invariant\<close>

text \<open>
  \<open>funds\<close> is what was paid in and not paid out. The bound keeps the products of the fee computation within 128
  bits; the supply of the chain is below it by a factor of more than \<open>2 ^ 50\<close>.
\<close>

definition pool_inv :: "int \<Rightarrow> ContractState \<Rightarrow> bool" where
  "pool_inv funds s \<longleftrightarrow> (\<forall>a. coins_of (ps_locked s) a = held (ps_games s) a)
     \<and> (\<forall>a. coins_of (ps_locked s) a \<le> coins_of (ps_balance s) a)
     \<and> money (ps_balance s) + uint (ps_total_fees_collected s) = funds \<and> funds < 2 ^ 112
     \<and> uint (ps_fee_bps s) + uint (ps_burn_bps s) \<le> 10000"

lemma pool_invD:
  assumes "pool_inv funds s"
  shows "coins_of (ps_locked s) a = held (ps_games s) a" "coins_of (ps_locked s) a \<le> coins_of (ps_balance s) a"
    "money (ps_balance s) + uint (ps_total_fees_collected s) = funds" "funds < 2 ^ 112"
    "uint (ps_fee_bps s) + uint (ps_burn_bps s) \<le> 10000" "coins_of (ps_balance s) a < 2 ^ 112" "money (ps_balance s) \<le> funds"
    "0 \<le> funds"
proof -
  show "money (ps_balance s) + uint (ps_total_fees_collected s) = funds" "funds < 2 ^ 112"
    "coins_of (ps_locked s) a = held (ps_games s) a" "coins_of (ps_locked s) a \<le> coins_of (ps_balance s) a"
    "uint (ps_fee_bps s) + uint (ps_burn_bps s) \<le> 10000"
    using assms by (auto simp: pool_inv_def)
  then show le: "money (ps_balance s) \<le> funds" using uint_nonnegative[of "ps_total_fees_collected s"] by linarith
  show "coins_of (ps_balance s) a < 2 ^ 112"
    using le coins_of_le_money[of "ps_balance s" a] \<open>funds < 2 ^ 112\<close> by linarith
  show "0 \<le> funds" using le money_nonneg[of "ps_balance s"] by linarith
qed

lemma available_exact:
  assumes "pool_inv funds s"
  shows "uint (available s a) = coins_of (ps_balance s) a - coins_of (ps_locked s) a"
proof -
  have "bt_get_or (ps_locked s) 0 a \<le> bt_get_or (ps_balance s) 0 a"
    using pool_invD(2)[OF assms, of a] by (simp add: coins_of_def word_le_def)
  then show ?thesis by (simp add: available_def saturating_sub_def coins_of_def uint_sub_exact)
qed

text \<open>The calls that the invariant needs: no player twice in one game, payouts that do not overflow, deposits within the supply.\<close>

fun careful :: "int \<Rightarrow> u128 \<Rightarrow> pool_call \<Rightarrow> bool" where
  "careful funds value (Pool_init owner platform fee burn) = False"
| "careful funds value Pool_deposit = (funds + uint value < 2 ^ 112)"
| "careful funds value (Pool_lock_entries h players fee) = distinct players"
| "careful funds value (Pool_settle_game h winners amounts) = (sum_list (map uint amounts) < 2 ^ 112)"
| "careful funds value _ = True"

fun paid_in :: "u128 \<Rightarrow> pool_call \<Rightarrow> int" where
  "paid_in value Pool_deposit = uint value"
| "paid_in value _ = 0"

section \<open>The operations keep it\<close>

lemma deposit_keeps:
  assumes "pool_inv funds s" and "funds + uint v < 2 ^ 112" and "apply_deposit c v s = Inr s'"
  shows "pool_inv (funds + uint v) s'"
proof -
  note inv = pool_invD[OF assms(1)]
  have fit: "coins_of (ps_balance s) c + uint v < 2 ^ 128"
    using assms(2) inv(7) coins_of_le_money[of "ps_balance s" c] by simp
  have s': "s' = s\<lparr>ps_balance := add_to c v (ps_balance s)\<rparr>"
    using assms(3) by (auto simp: apply_deposit_def split: if_splits)
  have "coins_of (ps_locked s) a \<le> coins_of (add_to c v (ps_balance s)) a" for a
    using inv(2)[of a] by (auto simp: add_to_exact(1)[OF fit] add_increasing2)
  then show ?thesis using assms(2) inv by (simp add: s' pool_inv_def add_to_exact(2)[OF fit])
qed

lemma withdraw_keeps:
  assumes "pool_inv funds s" and "apply_withdraw_pool c n s = Inr (s', ts)"
  shows "pool_inv (funds - owed ts) s'"
proof -
  note inv = pool_invD[OF assms(1)]
  have r: "n \<le> available s c" "s' = s\<lparr>ps_balance := take_from c n (ps_balance s)\<rparr>" "ts = [(c, n)]"
    using assms(2) by (auto simp: apply_withdraw_pool_def split: if_splits)
  then have avail: "uint n \<le> coins_of (ps_balance s) c - coins_of (ps_locked s) c"
    using available_exact[OF assms(1), of c] by (simp add: word_le_def)
  then have cover: "uint n \<le> coins_of (ps_balance s) c" using coins_of_nonneg[of "ps_locked s" c] by linarith
  have "coins_of (ps_locked s) a \<le> coins_of (take_from c n (ps_balance s)) a" for a
    using inv(2)[of a] avail by (auto simp: take_from_exact(1)[OF cover])
  moreover have "funds - uint n < 2 ^ 112" using inv(4) uint_nonnegative[of n] by linarith
  ultimately show ?thesis using inv by (simp add: r pool_inv_def take_from_exact(2)[OF cover])
qed

lemma lock_keeps:
  assumes "pool_inv funds s" and "distinct players" and "apply_lock_entries c h players fee ts s = Inr s'"
  shows "pool_inv funds s'"
proof -
  note inv = pool_invD[OF assms(1)]
  let ?g = "\<lparr>gi_status = GAME_ACTIVE, gi_entry_fee = fee, gi_lock_time = ts, gi_players = players\<rparr>"
  have r: "\<not> bt_contains (ps_games s) h" "\<forall>p \<in> set players. fee \<le> available s p"
    "s' = s\<lparr>ps_locked := fold (\<lambda>p. add_to p fee) players (ps_locked s), ps_games := bt_insert h ?g (ps_games s)\<rparr>"
    using assms(3) by (auto simp: apply_lock_entries_def split: if_splits)
  have once: "int (count_list players a) * uint fee = (if a \<in> set players then uint fee else 0)" for a
    using assms(2) by (induction players) auto
  have cover: "coins_of (ps_locked s) a + int (count_list players a) * uint fee \<le> coins_of (ps_balance s) a" for a
    using r(2) available_exact[OF assms(1), of a] inv(2)[of a] by (auto simp: once word_le_def)
  have "coins_of (ps_locked s) a + int (count_list players a) * uint fee < 2 ^ 128" for a
    using cover[of a] inv(6)[of a] by simp
  note locked = add_all_exact[of "ps_locked s" players fee, OF this]
  have "stake_in ?g a = int (count_list players a) * uint fee" for a by (simp add: stake_in_def)
  then show ?thesis using inv cover by (simp add: r(3) pool_inv_def locked held_insert[OF r(1)])
qed

lemma unlock_keeps:
  assumes "pool_inv funds s" and "bt_get (ps_games s) h = Some g" and "gi_status g = GAME_ACTIVE"
  shows "pool_inv funds (unlock_game h g s)"
proof -
  note inv = pool_invD[OF assms(1)]
  have stake: "stake_in g a = int (count_list (gi_players g) a) * uint (gi_entry_fee g)" for a
    using assms(3) by (simp add: stake_in_def)
  have "int (count_list (gi_players g) a) * uint (gi_entry_fee g) \<le> coins_of (ps_locked s) a" for a
    using stake_in_le_held[OF assms(2), of a] inv(1)[of a] by (simp add: stake)
  note locked = take_all_exact(1)[of "gi_players g" "gi_entry_fee g" "ps_locked s", OF this]
  have closed: "held (bt_modify h (\<lambda>g. g\<lparr>gi_status := GAME_REFUNDED\<rparr>) (ps_games s)) a
      = held (ps_games s) a - stake_in g a" for a
    by (rule held_closed[OF assms(2)]) (simp add: GAME_ACTIVE_def GAME_REFUNDED_def)
  have "coins_of (ps_locked s) a - stake_in g a \<le> coins_of (ps_balance s) a" for a
    using inv(2)[of a] stake_in_nonneg[of g a] by linarith
  then show ?thesis using inv
    by (simp add: unlock_game_def set_status_def pool_inv_def locked closed stake)
qed

text \<open>The arithmetic of a settlement does not wrap within the bound.\<close>

lemma share_exact:
  assumes "uint p < 2 ^ 112"
  shows "uint (p * ucast (b :: u16) div 10000 :: u128) = uint p * uint b div 10000"
proof -
  have "uint b < 2 ^ 16" using uint_lt2p[of b] by simp
  then have "uint p * uint b < 2 ^ 112 * 2 ^ 16"
    using assms by (intro mult_strict_mono') simp_all
  then have "uint (p * ucast b) = uint p * uint b"
    by (simp add: uint_word_ariths uint_up_ucast is_up_def source_size target_size)
  then show ?thesis by (simp add: uint_div)
qed

lemma sum_exact:
  fixes ns :: "u128 list"
  assumes "sum_list (map uint ns) < 2 ^ 128"
  shows "uint (sum_list ns) = sum_list (map uint ns)"
  using assms
proof (induction ns)
  case (Cons n ns)
  have "0 \<le> sum_list (map uint ns)" by (intro sum_list_nonneg) auto
  then have "uint (sum_list ns) = sum_list (map uint ns)"
    using Cons.prems by (intro Cons.IH) (simp, smt (verit) uint_nonnegative)
  then show ?case using Cons.prems uint_add_u128[of n "sum_list ns"] by simp
qed simp

lemma pool_exact:
  assumes "int (length (gi_players g)) * uint (gi_entry_fee g) < 2 ^ 128"
  shows "uint (total_pool g) = int (length (gi_players g)) * uint (gi_entry_fee g)"
proof -
  have "uint (total_pool g) = (int (length (gi_players g)) * uint (gi_entry_fee g)) mod 2 ^ 128"
    unfolding total_pool_def uint_word_ariths(3) by (simp add: unsigned_of_nat take_bit_eq_mod zmod_int mod_mult_left_eq)
  then show ?thesis using assms by (simp add: mod_pos_pos_trivial)
qed

lemma owed_zip: "length ws = length ns \<Longrightarrow> owed (zip ws ns) = sum_list (map uint ns)"
  by (induction ws ns rule: list_induct2) auto

text \<open>
  The conservation check means what it says: with a pool within the bound, payouts, fee and burn add up to the pool as
  integers.
\<close>

lemma settle_conserves:
  assumes pool: "uint (total_pool g) < 2 ^ 112" and "uint (ps_fee_bps s) + uint (ps_burn_bps s) \<le> 10000"
    and sum_bound: "sum_list (map uint amounts) < 2 ^ 112"
    and check: "sum_list amounts + platform_fee s g + burn_amount s g = total_pool g"
  shows "sum_list (map uint amounts) + uint (platform_fee s g) + uint (burn_amount s g) = uint (total_pool g)"
    and "uint (platform_fee s g) < 2 ^ 112"
proof -
  let ?pf = "uint (platform_fee s g)" and ?burn = "uint (burn_amount s g)"
  have bps: "uint (ps_fee_bps s) \<le> 10000" "uint (ps_burn_bps s) \<le> 10000"
    using assms(2) uint_nonnegative[of "ps_fee_bps s"] uint_nonnegative[of "ps_burn_bps s"] by linarith+
  have share_le: "uint (total_pool g) * uint b div 10000 \<le> uint (total_pool g)" if "uint b \<le> 10000" for b :: u16
    using that mult_left_mono[of "uint b" 10000 "uint (total_pool g)"] by simp
  have "?pf \<le> uint (total_pool g)" "?burn \<le> uint (total_pool g)"
    using share_le[OF bps(1)] share_le[OF bps(2)] by (simp_all add: platform_fee_def burn_amount_def share_exact[OF pool])
  then have bound: "?pf < 2 ^ 112" "?burn < 2 ^ 112" using pool by linarith+
  have sum: "uint (sum_list amounts) = sum_list (map uint amounts)" using sum_bound by (intro sum_exact) simp
  have "uint (sum_list amounts + platform_fee s g) = sum_list (map uint amounts) + ?pf"
    using uint_add_u128[of "sum_list amounts" "platform_fee s g"] bound sum_bound by (simp add: sum)
  moreover from this have "uint (sum_list amounts + platform_fee s g + burn_amount s g)
      = sum_list (map uint amounts) + ?pf + ?burn"
    using uint_add_u128[of "sum_list amounts + platform_fee s g" "burn_amount s g"] bound sum_bound by simp
  ultimately show "sum_list (map uint amounts) + ?pf + ?burn = uint (total_pool g)" using check by simp
  show "?pf < 2 ^ 112" by (rule bound(1))
qed

lemma settle_keeps:
  assumes "pool_inv funds s" and "sum_list (map uint amounts) < 2 ^ 112"
    and "apply_settle_game c h winners amounts s = Inr (s', ts)"
  shows "pool_inv (funds - owed ts) s'"
proof -
  note inv = pool_invD[OF assms(1)]
  obtain g where g: "bt_get (ps_games s) h = Some g" "gi_status g = GAME_ACTIVE" "length winners = length amounts"
    and check: "sum_list amounts + platform_fee s g + burn_amount s g = total_pool g"
    and s': "s' = settle_effects h g (zip winners amounts) s"
    and ts: "owed ts = uint (burn_amount s g)"
    using assms(3) by (auto simp: apply_settle_game_def word_gt_0 split: if_splits option.splits)
  let ?n = "uint (gi_entry_fee g)" and ?len = "int (length (gi_players g))"
  have stake: "stake_in g a = int (count_list (gi_players g) a) * ?n" for a using g(2) by (simp add: stake_in_def)
  have in_locked: "int (count_list (gi_players g) a) * ?n \<le> coins_of (ps_locked s) a" for a
    using stake_in_le_held[OF g(1), of a] inv(1)[of a] by (simp add: stake)
  then have in_balance: "int (count_list (gi_players g) a) * ?n \<le> coins_of (ps_balance s) a" for a
    using inv(2)[of a] by (meson order_trans)
  note locked = take_all_exact(1)[of "gi_players g" "gi_entry_fee g" "ps_locked s", OF in_locked]
  note taken = take_all_exact[of "gi_players g" "gi_entry_fee g" "ps_balance s", OF in_balance]
  let ?bal = "fold (\<lambda>p. take_from p (gi_entry_fee g)) (gi_players g) (ps_balance s)"
  have "0 \<le> ?len * ?n" by simp
  then have bal: "money ?bal < 2 ^ 112" "?len * ?n < 2 ^ 112"
    using money_nonneg[of ?bal] taken(2) inv(4,7) by linarith+
  then have pool: "uint (total_pool g) = ?len * ?n" by (intro pool_exact) simp
  note conserved = settle_conserves[OF bal(2)[folded pool] inv(5) assms(2) check, unfolded pool]
  have zip: "owed (zip winners amounts) = sum_list (map uint amounts)" using g(3) by (rule owed_zip)
  then have "money ?bal + owed (zip winners amounts) < 2 ^ 128" using bal(1) assms(2) by simp
  note paid = pay_all_exact[OF this]
  have fees: "uint (ps_total_fees_collected s + platform_fee s g) = uint (ps_total_fees_collected s) + uint (platform_fee s g)"
    using uint_add_u128[of "ps_total_fees_collected s" "platform_fee s g"] conserved(2) inv(3,4)
      money_nonneg[of "ps_balance s"] by simp
  have closed: "held (bt_modify h (\<lambda>g. g\<lparr>gi_status := GAME_SETTLED\<rparr>) (ps_games s)) a = held (ps_games s) a - stake_in g a" for a
    by (rule held_closed[OF g(1)]) (simp add: GAME_ACTIVE_def GAME_SETTLED_def)
  have "coins_of (ps_locked s) a - stake_in g a \<le> coins_of (fold (\<lambda>(w, amt). add_to w amt) (zip winners amounts) ?bal) a" for a
    using inv(2)[of a] paid(2)[of a] taken(1)[of a] stake[of a] by linarith
  moreover have "funds - uint (burn_amount s g) < 2 ^ 112" using inv(4) uint_nonnegative[of "burn_amount s g"] by linarith
  ultimately show ?thesis
    using inv(1,3,5) paid(1) taken(2) zip conserved(1)
    by (simp add: s' ts settle_effects_def set_status_def pool_inv_def locked closed stake fees)
qed

lemma claim_fees_keeps:
  assumes "pool_inv funds s" and "apply_claim_fees c s = Inr (s', ts)"
  shows "pool_inv (funds - owed ts) s'"
proof -
  have "money (ps_balance s) < 2 ^ 112" using pool_invD(4,7)[OF assms(1)] by linarith
  then show ?thesis using assms by (auto simp: apply_claim_fees_def pool_inv_def split: if_splits)
qed

lemma cleanup_keeps: "pool_inv funds s \<Longrightarrow> apply_cleanup_games c hs s = Inr s' \<Longrightarrow> pool_inv funds s'"
  by (auto simp: apply_cleanup_games_def pool_inv_def held_cleanup split: if_splits sum.splits)

lemma call_keeps:
  assumes "pool_inv funds s" and "careful funds v c" and "pool_call_logic caller v ts c s = Inr (s', out)"
  shows "pool_inv (funds + paid_in v c - owed out) s'"
proof (cases c)
  case (Pool_settle_game h ws ns)
  then show ?thesis using settle_keeps[OF assms(1)] assms by simp
next
  case (Pool_refund_game h)
  then show ?thesis using unlock_keeps[OF assms(1)] assms(3)
    by (auto simp: quiet_def apply_refund_game_def split: sum.splits if_splits option.splits)
next
  case (Pool_refund_game_emergency h)
  then show ?thesis using unlock_keeps[OF assms(1)] assms(3)
    by (auto simp: quiet_def apply_emergency_refund_def split: sum.splits if_splits option.splits)
next
  case Pool_pause
  then show ?thesis using assms by (auto simp: quiet_def apply_pause_pool_def pool_inv_def split: sum.splits if_splits)
next
  case Pool_unpause
  then show ?thesis using assms by (auto simp: quiet_def apply_unpause_pool_def pool_inv_def split: sum.splits if_splits)
next
  case Pool_deposit
  then show ?thesis using deposit_keeps[OF assms(1)] assms by (auto simp: quiet_def split: sum.splits)
next
  case (Pool_withdraw n)
  then show ?thesis using withdraw_keeps[OF assms(1)] assms by simp
next
  case (Pool_lock_entries h ps fee)
  then show ?thesis using lock_keeps[OF assms(1)] assms by (auto simp: quiet_def split: sum.splits)
next
  case Pool_claim_fees
  then show ?thesis using claim_fees_keeps[OF assms(1)] assms by simp
next
  case (Pool_cleanup_games hs)
  then show ?thesis using cleanup_keeps[OF assms(1)] assms by (auto simp: quiet_def split: sum.splits)
qed (use assms in simp)

section \<open>Solvency\<close>

text \<open>A history of calls: caller, attached value, block time and call; a call that panics changes nothing.\<close>

type_synonym pool_history = "(address \<times> u128 \<times> u64 \<times> pool_call) list"

fun pool_run :: "pool_history \<Rightarrow> ContractState \<Rightarrow> ContractState \<times> transfers" where
  "pool_run [] s = (s, [])"
| "pool_run ((caller, v, ts, c) # calls) s = (case pool_call_logic caller v ts c s of
      Inl _ \<Rightarrow> pool_run calls s
    | Inr (s1, out) \<Rightarrow> (let (s2, outs) = pool_run calls s1 in (s2, out @ outs)))"

text \<open>The deposits that were accepted.\<close>

fun deposits :: "pool_history \<Rightarrow> ContractState \<Rightarrow> int" where
  "deposits [] s = 0"
| "deposits ((caller, v, ts, c) # calls) s = (case pool_call_logic caller v ts c s of
      Inl _ \<Rightarrow> deposits calls s
    | Inr (s1, _) \<Rightarrow> paid_in v c + deposits calls s1)"

definition attached :: "pool_history \<Rightarrow> int" where
  "attached calls = sum_list (map (\<lambda>call. uint (fst (snd call))) calls)"

lemma attached_Cons [simp]: "attached ((caller, v, ts, c) # calls) = uint v + attached calls"
  by (simp add: attached_def)

lemma attached_nonneg: "0 \<le> attached calls"
  unfolding attached_def by (intro sum_list_nonneg) auto

text \<open>No second \<open>init\<close>, games with distinct players, payouts below the bound, and no more coins than the bound.\<close>

definition prudent :: "pool_history \<Rightarrow> bool" where
  "prudent calls \<longleftrightarrow> (\<forall>(caller, v, ts, c) \<in> set calls. careful 0 0 c)
     \<and> attached calls < 2 ^ 112"

lemma owed_append: "owed (a @ b) = owed a + owed b"
  by (simp add: owed_def)

lemma paid_in_le: "0 \<le> paid_in v c" "paid_in v c \<le> uint v"
  by (cases c; simp)+

lemma careful_within: "careful 0 0 c \<Longrightarrow> funds + uint v < 2 ^ 112 \<Longrightarrow> careful funds v c"
  by (cases c) auto

lemma run_keeps:
  assumes "pool_inv funds s" and "\<forall>(caller, v, ts, c) \<in> set calls. careful 0 0 c"
    and "funds + attached calls < 2 ^ 112"
  shows "pool_inv (funds + deposits calls s - owed (snd (pool_run calls s))) (fst (pool_run calls s))"
  using assms
proof (induction calls arbitrary: funds s)
  case (Cons call calls)
  obtain caller v ts c where call: "call = (caller, v, ts, c)" by (cases call)
  note rest = attached_nonneg[of calls]
  show ?case
  proof (cases "pool_call_logic caller v ts c s")
    case (Inl e)
    have "funds + attached calls < 2 ^ 112"
      using Cons.prems(3) uint_nonnegative[of v] unfolding call attached_Cons by linarith
    then show ?thesis using Cons.IH[OF Cons.prems(1)] Cons.prems(2) Inl by (simp add: call)
  next
    case (Inr r)
    obtain s1 out where r: "r = (s1, out)" by force
    have "funds + uint v < 2 ^ 112" using Cons.prems(3) rest unfolding call attached_Cons by linarith
    then have "careful funds v c" using Cons.prems(2) careful_within[of c funds v] by (simp add: call)
    from call_keeps[OF Cons.prems(1) this Inr[unfolded r]]
    have inv: "pool_inv (funds + paid_in v c - owed out) s1" .
    have "funds + paid_in v c - owed out + attached calls < 2 ^ 112"
      using Cons.prems(3) paid_in_le(2)[of v c] owed_nonneg[of out] unfolding call attached_Cons by linarith
    with Cons.IH[OF inv] Cons.prems(2)
    have "pool_inv (funds + paid_in v c - owed out + deposits calls s1 - owed (snd (pool_run calls s1)))
        (fst (pool_run calls s1))" by (simp add: call)
    then show ?thesis using Inr r
      by (simp add: call owed_append case_prod_unfold Let_def algebra_simps)
  qed
qed simp

lemma init_inv:
  assumes "apply_init_pool owner platform fee burn ContractState_default = Inr s"
  shows "pool_inv 0 s"
proof -
  have "ucast fee + ucast burn \<le> (10000 :: u32)" using assms by (auto simp: apply_init_pool_def split: if_splits)
  moreover have "uint (ucast fee + ucast burn :: u32) = uint fee + uint burn"
    using uint_lt2p[of fee] uint_lt2p[of burn]
    by (simp add: uint_word_ariths uint_up_ucast is_up_def source_size target_size)
  ultimately have "uint fee + uint burn \<le> 10000" by (simp add: word_le_def)
  then show ?thesis using assms
    by (auto simp: apply_init_pool_def ContractState_default_def pool_inv_def coins_of_def money_def held_def split: if_splits)
qed

text \<open>
  C16. The arena pool is solvent: after \<open>init\<close> and any prudent history of calls, refused ones included, what the players
  own plus the unclaimed fees is exactly what was deposited less what was paid out or burnt, so the pool never pays more than it
  received; no player has more locked than it owns, and what is locked is exactly what the active games hold.
\<close>

theorem pool_solvent:
  assumes "apply_init_pool owner platform fee burn ContractState_default = Inr s0" and "prudent calls"
  shows "money (ps_balance (fst (pool_run calls s0))) + uint (ps_total_fees_collected (fst (pool_run calls s0)))
      = deposits calls s0 - owed (snd (pool_run calls s0))
    \<and> owed (snd (pool_run calls s0)) \<le> deposits calls s0
    \<and> (\<forall>a. coins_of (ps_locked (fst (pool_run calls s0))) a = held (ps_games (fst (pool_run calls s0))) a
        \<and> coins_of (ps_locked (fst (pool_run calls s0))) a \<le> coins_of (ps_balance (fst (pool_run calls s0))) a)"
proof -
  have "pool_inv (deposits calls s0 - owed (snd (pool_run calls s0))) (fst (pool_run calls s0))"
    using run_keeps[OF init_inv[OF assms(1)], of calls] assms(2) by (simp add: prudent_def)
  from pool_invD[OF this] show ?thesis by auto
qed

text \<open>A match: alice and bob pay ten coins each, alice wins, the platform and the burn take their share.\<close>

definition sample_match :: pool_history where
  "sample_match = [(alice, 10, 0, Pool_deposit), (bob, 10, 0, Pool_deposit),
     (replicate 32 9, 0, 1, Pool_lock_entries [1] [alice, bob] 10),
     (replicate 32 9, 0, 2, Pool_settle_game [1] [alice] [16]), (alice, 0, 3, Pool_withdraw 16)]"

definition sample_pool :: ContractState where
  "sample_pool = ContractState_default\<lparr>ps_version := 1, ps_owner := replicate 32 8, ps_platform := replicate 32 9,
     ps_fee_bps := 1000, ps_burn_bps := 1000\<rparr>"

lemma sample_pool_init:
  "apply_init_pool (replicate 32 8) (replicate 32 9) 1000 1000 ContractState_default = Inr sample_pool"
  by (simp add: apply_init_pool_def sample_pool_def ContractState_default_def)

theorem pool_solvent_witness:
  "prudent sample_match \<and> owed (snd (pool_run sample_match sample_pool)) \<le> deposits sample_match sample_pool"
proof -
  have "prudent sample_match" by (simp add: prudent_def sample_match_def attached_def)
  with pool_solvent[OF sample_pool_init this] show ?thesis by simp
qed

text \<open>
  No player is stuck in a game: an hour after the lock, any participant can call the emergency refund, paused or not,
  and every participant has its entry fee available again.
\<close>

theorem emergency_refund_frees_players:
  assumes "pool_inv funds s" and "bt_get (ps_games s) h = Some g" and "gi_status g = GAME_ACTIVE"
    and "caller \<in> set (gi_players g)" and "gi_lock_time g + EMERGENCY_TIMEOUT_SECS \<le> now"
  shows "\<exists>s'. pool_call_logic caller v now (Pool_refund_game_emergency h) s = Inr (s', [])
    \<and> (\<forall>a. uint (available s' a) = uint (available s a) + int (count_list (gi_players g) a) * uint (gi_entry_fee g))
    \<and> (\<forall>a. coins_of (ps_balance s') a = coins_of (ps_balance s) a)"
proof -
  let ?s' = "unlock_game h g s"
  have keeps: "pool_inv funds ?s'" by (rule unlock_keeps[OF assms(1-3)])
  have stake: "stake_in g a = int (count_list (gi_players g) a) * uint (gi_entry_fee g)" for a
    using assms(3) by (simp add: stake_in_def)
  have closed: "held (ps_games ?s') a = held (ps_games s) a - stake_in g a" for a
    using held_closed[OF assms(2), of GAME_REFUNDED a]
    by (simp add: unlock_game_def set_status_def GAME_ACTIVE_def GAME_REFUNDED_def)
  have bal: "ps_balance ?s' = ps_balance s" by (simp add: unlock_game_def set_status_def)
  have "uint (available ?s' a) = uint (available s a) + stake_in g a" for a
    using available_exact[OF keeps, of a] available_exact[OF assms(1), of a] pool_invD(1)[OF keeps, of a]
      pool_invD(1)[OF assms(1), of a] closed[of a] bal by simp
  moreover have "pool_call_logic caller v now (Pool_refund_game_emergency h) s = Inr (?s', [])"
    using assms by (simp add: quiet_def apply_emergency_refund_def)
  ultimately show ?thesis using bal by (auto simp: stake)
qed

text \<open>The match above, before its settlement.\<close>

definition locked_pool :: ContractState where
  "locked_pool = fst (pool_run (take 3 sample_match) sample_pool)"

lemma locked_pool_game:
  "bt_get (ps_games locked_pool) [1] = Some \<lparr>gi_status = GAME_ACTIVE, gi_entry_fee = 10, gi_lock_time = 1, gi_players = [alice, bob]\<rparr>"
  by (simp add: locked_pool_def sample_match_def sample_pool_def ContractState_default_def quiet_def apply_deposit_def
      apply_lock_entries_def available_def saturating_sub_def add_to_def)

theorem emergency_refund_frees_players_witness:
  "\<exists>s'. pool_call_logic bob 0 3601 (Pool_refund_game_emergency [1]) locked_pool = Inr (s', [])
     \<and> uint (available s' alice) = uint (available locked_pool alice) + 10"
proof -
  have "prudent (take 3 sample_match)" by (simp add: prudent_def sample_match_def attached_def)
  then have inv: "pool_inv (0 + deposits (take 3 sample_match) sample_pool - owed (snd (pool_run (take 3 sample_match) sample_pool)))
      locked_pool"
    unfolding locked_pool_def by (intro run_keeps[OF init_inv[OF sample_pool_init]]) (auto simp: prudent_def)
  have "bob \<in> set (gi_players \<lparr>gi_status = GAME_ACTIVE, gi_entry_fee = 10, gi_lock_time = 1, gi_players = [alice, bob]\<rparr>)"
    by simp
  with emergency_refund_frees_players[OF inv locked_pool_game, of bob 3601 0]
  obtain s' where "pool_call_logic bob 0 3601 (Pool_refund_game_emergency [1]) locked_pool = Inr (s', [])"
    "\<forall>a. uint (available s' a) = uint (available locked_pool a) + int (count_list [alice, bob] a) * uint (10 :: u128)"
    by (auto simp: EMERGENCY_TIMEOUT_SECS_def)
  then show ?thesis by (auto dest: spec[of _ alice])
qed

section \<open>Beyond the hypotheses\<close>

text \<open>
  Listing a player twice ruins the pool: the availability check looks at each entry alone, the fee is locked twice,
  and the settlement subtracts it twice from a balance that holds it once. With ten coins each of alice and bob in the pool, a
  game of alice, alice and bob that bob wins leaves alice a balance of \<open>2 ^ 128 - 10\<close> and bob twenty-four coins.
\<close>

theorem duplicate_player_breaks_pool:
  "\<exists>s out. pool_run [(alice, 10, 0, Pool_deposit), (bob, 10, 0, Pool_deposit),
       (replicate 32 9, 0, 1, Pool_lock_entries [1] [alice, alice, bob] 10),
       (replicate 32 9, 0, 2, Pool_settle_game [1] [bob] [24])] sample_pool = (s, out)
     \<and> bt_get_or (ps_balance s) 0 alice = - 10 \<and> bt_get_or (ps_balance s) 0 bob = 24
     \<and> available s alice = - 10"
  by (simp add: sample_pool_def ContractState_default_def quiet_def apply_deposit_def apply_lock_entries_def
      apply_settle_game_def settle_effects_def set_status_def available_def saturating_sub_def add_to_def take_from_def
      platform_fee_def burn_amount_def total_pool_def GAME_ACTIVE_def Let_def)

text \<open>
  Anybody can take the contract over: \<open>init\<close> asks neither who calls it nor whether it ran before, and it starts from the
  empty state, so every balance, lock, game and fee is forgotten and the caller's choice of owner and platform rules.
\<close>

theorem init_erases_pool:
  assumes "uint fee + uint burn \<le> 10000"
  shows "\<exists>s'. pool_call_logic mallory v ts (Pool_init mallory mallory fee burn) s = Inr (s', [])
    \<and> ps_owner s' = mallory \<and> ps_platform s' = mallory \<and> money (ps_balance s') = 0 \<and> ps_games s' = bt_empty
    \<and> ps_total_fees_collected s' = 0"
proof -
  have "uint (ucast fee + ucast burn :: u32) = uint fee + uint burn"
    using uint_lt2p[of fee] uint_lt2p[of burn]
    by (simp add: uint_word_ariths uint_up_ucast is_up_def source_size target_size)
  then have "ucast fee + ucast burn \<le> (10000 :: u32)" using assms by (simp add: word_le_def)
  then show ?thesis
    by (simp add: quiet_def apply_init_pool_def ContractState_default_def money_def)
qed

theorem init_erases_pool_witness:
  "\<exists>s'. pool_call_logic bob 0 0 (Pool_init bob bob 0 0) (fst (pool_run sample_match sample_pool)) = Inr (s', [])
    \<and> ps_owner s' = bob"
  using init_erases_pool[of 0 0 bob 0 0 "fst (pool_run sample_match sample_pool)"] by auto

end
