(* ===== verification/Sdk.thy ===== *)
theory Sdk
  imports Vm_Safety
begin

unbundle bit_operations_syntax

text \<open>
  The contract SDK (\<open>sdk/src/env.rs\<close>, \<open>storage.rs\<close>, \<open>contract.rs\<close>): the wrappers around the host functions that contracts
  are written with, as guests of the engine. A wrapper is written with its continuation. Where a slice lies in linear memory is
  the compiler's choice; here the arguments and buffers of one host call lie one after the other at the start, followed
  by \<open>rest\<close>, the remaining memory. A Rust panic in a contract is the trap of an \<open>unreachable\<close> instruction.
\<close>

section \<open>Host calls\<close>

type_synonym 'a sdk = "('a \<Rightarrow> unit guest) \<Rightarrow> unit guest"

definition i32_of :: "reply \<Rightarrow> 32 word" where
  "i32_of r = (case r of RI32 v \<Rightarrow> v | _ \<Rightarrow> 0)"

definition i64_of :: "reply \<Rightarrow> 64 word" where
  "i64_of r = (case r of RI64 v \<Rightarrow> v | _ \<Rightarrow> 0)"

definition STORAGE_READ_BUF :: nat where
  [claw_consts]: "STORAGE_READ_BUF = 16 * 1024"

definition CROSS_CALL_RETURN_BUF :: nat where
  [claw_consts]: "CROSS_CALL_RETURN_BUF = 16 * 1024"

definition unreachable :: "unit guest" where
  "unreachable = Trap ''unreachable''"

definition sdk_get_caller :: "bytes \<Rightarrow> address sdk" where
  "sdk_get_caller rest k = Call (replicate 32 0 @ rest) (H_caller 0) (\<lambda>m _. k (take 32 m))"

definition sdk_get_block_height :: "bytes \<Rightarrow> u64 sdk" where
  "sdk_get_block_height rest k = Call rest H_block_height (\<lambda>_ r. k (i64_of r))"

definition sdk_get_block_timestamp :: "bytes \<Rightarrow> u64 sdk" where
  "sdk_get_block_timestamp rest k = Call rest H_block_timestamp (\<lambda>_ r. k (i64_of r))"

definition sdk_get_contract_address :: "bytes \<Rightarrow> address sdk" where
  "sdk_get_contract_address rest k = Call (replicate 32 0 @ rest) (H_contract_address 0) (\<lambda>m _. k (take 32 m))"

text \<open>\<open>(hi as u128) << 64 | (lo as u128)\<close>.\<close>

definition sdk_get_value :: "bytes \<Rightarrow> u128 sdk" where
  "sdk_get_value rest k = Call rest H_value_lo (\<lambda>_ lo. Call rest H_value_hi (\<lambda>_ hi.
     k (join_halves (i64_of lo) (i64_of hi))))"

definition sdk_storage_get :: "bytes \<Rightarrow> bytes \<Rightarrow> bytes option sdk" where
  "sdk_storage_get rest key k = Call (key @ replicate STORAGE_READ_BUF 0 @ rest)
     (H_storage_read 0 (of_nat (length key)) (of_nat (length key)))
     (\<lambda>m r. if i32_of r <s 0 then k None
            else k (Some (take (unat (i32_of r)) (take STORAGE_READ_BUF (drop (length key) m)))))"

definition sdk_storage_set :: "bytes \<Rightarrow> bytes \<Rightarrow> bytes \<Rightarrow> unit sdk" where
  "sdk_storage_set rest key value k = Call (key @ value @ rest)
     (H_storage_write 0 (of_nat (length key)) (of_nat (length key)) (of_nat (length value))) (\<lambda>_ _. k ())"

definition sdk_storage_exists :: "bytes \<Rightarrow> bytes \<Rightarrow> bool sdk" where
  "sdk_storage_exists rest key k = Call (key @ rest) (H_storage_has 0 (of_nat (length key))) (\<lambda>_ r. k (i32_of r \<noteq> 0))"

definition sdk_storage_remove :: "bytes \<Rightarrow> bytes \<Rightarrow> unit sdk" where
  "sdk_storage_remove rest key k = Call (key @ rest) (H_storage_delete 0 (of_nat (length key))) (\<lambda>_ _. k ())"

definition sdk_get_agent_score :: "bytes \<Rightarrow> address \<Rightarrow> u64 sdk" where
  "sdk_get_agent_score rest addr k = Call (addr @ rest) (H_agent_get_score 0) (\<lambda>_ r. k (i64_of r))"

definition sdk_is_agent_registered :: "bytes \<Rightarrow> address \<Rightarrow> bool sdk" where
  "sdk_is_agent_registered rest addr k = Call (addr @ rest) (H_agent_is_registered 0) (\<lambda>_ r. k (i32_of r \<noteq> 0))"

definition sdk_get_balance :: "bytes \<Rightarrow> address \<Rightarrow> u128 sdk" where
  "sdk_get_balance rest addr k = Call (addr @ rest) (H_token_balance 0) (\<lambda>_ lo.
     Call (addr @ rest) (H_token_balance_hi 0) (\<lambda>_ hi. k (join_halves (i64_of lo) (i64_of hi))))"

text \<open>The host answers zero for success; the wrapper answers true for every other number.\<close>

definition sdk_transfer :: "bytes \<Rightarrow> address \<Rightarrow> u128 \<Rightarrow> bool sdk" where
  "sdk_transfer rest to amount k = Call (to @ rest) (H_token_transfer 0 (ucast amount) (ucast (drop_bit 64 amount)))
     (\<lambda>_ r. k (i32_of r \<noteq> 0))"

definition sdk_log :: "bytes \<Rightarrow> string \<Rightarrow> unit sdk" where
  "sdk_log rest msg k = Call (string_bytes msg @ rest) (H_log_msg 0 (of_nat (length msg))) (\<lambda>_ _. k ())"

definition sdk_set_return_data :: "bytes \<Rightarrow> bytes \<Rightarrow> unit sdk" where
  "sdk_set_return_data rest data k = Call (data @ rest) (H_return_data 0 (of_nat (length data))) (\<lambda>_ _. k ())"

definition sdk_emit_event_raw :: "bytes \<Rightarrow> string \<Rightarrow> bytes \<Rightarrow> unit sdk" where
  "sdk_emit_event_raw rest topic data k = Call (string_bytes topic @ data @ rest)
     (H_emit_event 0 (of_nat (length topic)) (of_nat (length topic)) (of_nat (length data))) (\<lambda>_ _. k ())"

datatype CrossCallError = Failed | Reentrancy | MaxDepth

definition sdk_call_contract_invoke ::
  "bytes \<Rightarrow> address \<Rightarrow> string \<Rightarrow> bytes \<Rightarrow> u128 \<Rightarrow> (CrossCallError + bytes) sdk" where
  "sdk_call_contract_invoke rest address mname args value k =
     (let p1 = length address; p2 = p1 + length mname in
      Call (address @ string_bytes mname @ args @ rest)
        (H_call_contract 0 (of_nat p1) (of_nat (length mname)) (of_nat p2) (of_nat (length args))
           (ucast value) (ucast (drop_bit 64 value)))
        (\<lambda>_ r. if i32_of r = 0
               then Call (replicate CROSS_CALL_RETURN_BUF 0 @ rest) (H_cross_call_return_data 0) (\<lambda>m l.
                      if i32_of l <s 0 then k (Inr [])
                      else k (Inr (take (unat (i32_of l)) (take CROSS_CALL_RETURN_BUF m))))
               else if i32_of r = - 2 then k (Inl Reentrancy)
               else if i32_of r = - 3 then k (Inl MaxDepth)
               else k (Inl Failed)))"

text \<open>The host's abort does not return; the loop after it would never end.\<close>

definition sdk_panic_msg :: "bytes \<Rightarrow> string \<Rightarrow> unit guest" where
  "sdk_panic_msg rest msg = Call (string_bytes msg @ rest) (H_abort 0 (of_nat (length msg))) (\<lambda>_ _. Silent)"

definition sdk_require :: "bytes \<Rightarrow> bool \<Rightarrow> string \<Rightarrow> unit guest \<Rightarrow> unit guest" where
  "sdk_require rest cond msg k = (if \<not> cond then sdk_panic_msg rest msg else k)"

section \<open>Typed storage\<close>

definition sdk_get_u64 :: "bytes \<Rightarrow> bytes \<Rightarrow> u64 option sdk" where
  "sdk_get_u64 rest key k = sdk_storage_get rest key (\<lambda>v. k (case v of
      None \<Rightarrow> None | Some b \<Rightarrow> if length b \<ge> 8 then Some (from_le_bytes (take 8 b)) else None))"

definition sdk_set_u64 :: "bytes \<Rightarrow> bytes \<Rightarrow> u64 \<Rightarrow> unit sdk" where
  "sdk_set_u64 rest key value = sdk_storage_set rest key (to_le_bytes value)"

definition sdk_get_u128 :: "bytes \<Rightarrow> bytes \<Rightarrow> u128 option sdk" where
  "sdk_get_u128 rest key k = sdk_storage_get rest key (\<lambda>v. k (case v of
      None \<Rightarrow> None | Some b \<Rightarrow> if length b \<ge> 16 then Some (from_le_bytes (take 16 b)) else None))"

definition sdk_set_u128 :: "bytes \<Rightarrow> bytes \<Rightarrow> u128 \<Rightarrow> unit sdk" where
  "sdk_set_u128 rest key value = sdk_storage_set rest key (to_le_bytes value)"

section \<open>Entry points\<close>

text \<open>The macro \<open>entry!\<close>: arguments decoded from memory, the body, and its result as return data.\<close>

definition sdk_entry :: "(bytes \<Rightarrow> 'a option) \<Rightarrow> (bytes \<Rightarrow> 'a \<Rightarrow> bytes sdk) \<Rightarrow> u32 list \<Rightarrow> bytes \<Rightarrow> unit guest" where
  "sdk_entry decode body ptr_len mem =
     (case decode (take (unat (ptr_len ! 1)) (drop (unat (ptr_len ! 0)) mem)) of
        None \<Rightarrow> unreachable
      | Some args \<Rightarrow> body mem args (\<lambda>result.
          if result \<noteq> [] then sdk_set_return_data mem result (\<lambda>_. Finish mem ()) else Finish mem ()))"

section \<open>What a run that returns went through\<close>

text \<open>
  If the guest returns, a host call it made was answered; what the answer leaves is described by the rules below, one for each
  wrapper. They carry the proofs about contracts.
\<close>

definition returns :: "child_engine \<Rightarrow> (bytes \<Rightarrow> string) \<Rightarrow> unit guest \<Rightarrow> HostEnv \<Rightarrow> HostEnv \<Rightarrow> bool" where
  "returns child lossy g env env' \<longleftrightarrow> (\<exists>m. run_guest child lossy g env = (Returned (), m, env'))"

lemma returns_Finish [simp]: "returns child lossy (Finish m ()) env env' \<longleftrightarrow> env' = share_memory m env"
  by (auto simp: returns_def)

lemma returns_Trap [simp]: "\<not> returns child lossy (Trap m) env env'" "\<not> returns child lossy Silent env env'"
  "\<not> returns child lossy unreachable env env'"
  by (simp_all add: returns_def unreachable_def)

lemma returns_Call:
  assumes "returns child lossy (Call mem c k) env env'"
  obtains r env1 where "import_object child lossy c (share_memory mem env) = (Inr r, env1)"
    "returns child lossy (k (guest_memory mem env1) r) env1 env'"
  using assms by (auto simp: returns_def run_guest_Call split: prod.splits sum.splits)

lemma returns_panic [simp]: "\<not> returns child lossy (sdk_panic_msg rest msg) env env'"
  by (auto simp: sdk_panic_msg_def host_abort_def Let_def elim!: returns_Call)

lemma returns_require [simp]:
  "returns child lossy (sdk_require rest cond msg k) env env' \<longleftrightarrow> cond \<and> returns child lossy k env env'"
  by (simp add: sdk_require_def)

text \<open>Most host calls leave the transfers as they are; all keep the context, and the memory once it is there.\<close>

definition calm :: "HostEnv \<Rightarrow> HostEnv \<Rightarrow> bool" where
  "calm env env' \<longleftrightarrow> he_transfers env' = he_transfers env \<and> he_context env' = he_context env
     \<and> (he_memory env \<noteq> None \<longrightarrow> he_memory env' \<noteq> None)"

lemma calm_refl [simp]: "calm env env"
  by (simp add: calm_def)

lemma calm_trans [trans]: "calm a b \<Longrightarrow> calm b c \<Longrightarrow> calm a c"
  by (simp add: calm_def)

lemma calm_share [simp]: "calm env (share_memory mem env)"
  by (auto simp: calm_def share_memory_def split: option.split)

fun pays_out :: "host_call \<Rightarrow> bool" where
  "pays_out (H_token_transfer p lo hi) = True"
| "pays_out (H_call_contract a p l q n lo hi) = True"
| "pays_out c = False"

lemma write_or_ignore_calm: "calm env (write_or_ignore ptr data env)"
  by (auto simp: write_or_ignore_def write_bytes_def calm_def split: sum.split option.split)

lemma write_bytes_calm: "write_bytes ptr data env = Inr env' \<Longrightarrow> calm env env'"
  by (auto simp: write_bytes_def calm_def split: option.splits)

lemma check_fuel_calm:
  assumes "\<And>env r env1. body env = (Inr r, env1) \<Longrightarrow> calm env env1" and "check_fuel cost body env = (Inr r, env1)"
  shows "calm env env1"
proof -
  obtain env2 where c: "consume_fuel cost env = Inr env2" and b: "body env2 = (Inr r, env1)"
    using assms(2) by (auto simp: check_fuel_def split: sum.splits)
  have "calm env env2" using consume_fuel_Inr(1)[OF c] by (simp add: calm_def)
  then show ?thesis using assms(1)[OF b] by (rule calm_trans)
qed

lemma import_calm:
  assumes "import_object child lossy c env = (Inr r, env1)" and "\<not> pays_out c"
  shows "calm env env1"
proof -
  note defs = host_storage_read_def host_storage_write_def host_storage_has_def host_storage_delete_def
    host_caller_def host_block_height_def host_block_timestamp_def host_contract_address_def host_value_lo_def
    host_value_hi_def host_agent_get_score_def host_agent_is_registered_def host_token_balance_def
    host_token_balance_hi_def host_log_def host_return_data_def host_emit_event_def host_cross_call_return_data_def
  show ?thesis
    using assms
    by (cases c)
      (auto simp: defs host_abort_def Let_def write_or_ignore_calm elim!: check_fuel_calm[rotated]
        dest: write_bytes_calm split: sum.splits option.splits if_splits simp: calm_def[of _ "_\<lparr>he_storage := _, he_storage_changes := _\<rparr>"]
        calm_def[of _ "_\<lparr>he_logs := _\<rparr>"] calm_def[of _ "_\<lparr>he_return_data := _\<rparr>"] calm_def[of _ "_\<lparr>he_events := _\<rparr>"])
qed

lemma returns_quiet_call:
  assumes "returns child lossy (Call mem c k) env env'" and "\<not> pays_out c"
  obtains m r env1 where "calm env env1" "returns child lossy (k m r) env1 env'"
proof (rule returns_Call[OF assms(1)])
  fix r env1
  assume imp: "import_object child lossy c (share_memory mem env) = (Inr r, env1)"
    and ret: "returns child lossy (k (guest_memory mem env1) r) env1 env'"
  have "calm env env1" using calm_trans[OF calm_share import_calm[OF imp assms(2)]] .
  then show thesis using ret by (rule that)
qed

section \<open>The interface of the wrappers\<close>

text \<open>A guest is thrifty if no run of it that returns has asked for a transfer.\<close>

definition thrifty :: "child_engine \<Rightarrow> (bytes \<Rightarrow> string) \<Rightarrow> unit guest \<Rightarrow> bool" where
  "thrifty child lossy g \<longleftrightarrow> (\<forall>env env'. returns child lossy g env env' \<longrightarrow> he_transfers env' = he_transfers env)"

lemma thriftyD: "thrifty child lossy g \<Longrightarrow> returns child lossy g env env' \<Longrightarrow> he_transfers env' = he_transfers env"
  by (simp add: thrifty_def)

lemma thrifty_simps [simp]:
  "thrifty child lossy (Finish m ())" "thrifty child lossy unreachable" "thrifty child lossy (sdk_panic_msg rest msg)"
  by (simp_all add: thrifty_def share_memory_def split: option.split)

lemma thrifty_require: "(cond \<Longrightarrow> thrifty child lossy k) \<Longrightarrow> thrifty child lossy (sdk_require rest cond msg k)"
  by (simp add: thrifty_def)

text \<open>A wrapper around host calls that ask for nothing.\<close>

locale quiet_op =
  fixes w :: "'a sdk" and child :: child_engine and lossy :: "bytes \<Rightarrow> string"
  assumes passes: "returns child lossy (w k) env env' \<Longrightarrow> \<exists>x env1. calm env env1 \<and> returns child lossy (k x) env1 env'"
begin

lemma thrift:
  assumes "\<And>x. thrifty child lossy (k x)"
  shows "thrifty child lossy (w k)"
  unfolding thrifty_def
proof (intro allI impI)
  fix env env'
  assume "returns child lossy (w k) env env'"
  then obtain x env1 where "calm env env1" "returns child lossy (k x) env1 env'" using passes by blast
  then show "he_transfers env' = he_transfers env" using thriftyD[OF assms] by (simp add: calm_def)
qed

text \<open>If what follows cannot return in any environment that has a memory, neither can the whole.\<close>

lemma stuck:
  assumes "\<And>x env1. he_memory env1 \<noteq> None \<Longrightarrow> \<not> returns child lossy (k x) env1 env'" and "he_memory env \<noteq> None"
  shows "\<not> returns child lossy (w k) env env'"
  using passes[of k env env'] assms by (auto simp: calm_def)

end

lemma quiet_call:
  assumes "\<not> pays_out c" and "\<And>k. w k = Call mem c (\<lambda>m r. k (f m r))"
  shows "quiet_op w child lossy"
proof
  fix k env env'
  assume "returns child lossy (w k) env env'"
  then have "returns child lossy (Call mem c (\<lambda>m r. k (f m r))) env env'" by (simp only: assms(2))
  then show "\<exists>x env1. calm env env1 \<and> returns child lossy (k x) env1 env'"
    using assms(1) by (rule returns_quiet_call) blast
qed

lemma quiet_two_calls:
  assumes "\<not> pays_out c" "\<not> pays_out d" and "\<And>k. w k = Call mem c (\<lambda>m r. Call mem' d (\<lambda>m' r'. k (f r r')))"
  shows "quiet_op w child lossy"
proof
  fix k env env'
  assume "returns child lossy (w k) env env'"
  then have "returns child lossy (Call mem c (\<lambda>m r. Call mem' d (\<lambda>m' r'. k (f r r')))) env env'" by (simp only: assms(3))
  then obtain r env1 where c1: "calm env env1" "returns child lossy (Call mem' d (\<lambda>m' r'. k (f r r'))) env1 env'"
    using assms(1) by (rule returns_quiet_call)
  from c1(2) assms(2) obtain r' env2 where "calm env1 env2" "returns child lossy (k (f r r')) env2 env'"
    by (rule returns_quiet_call)
  then show "\<exists>x env1. calm env env1 \<and> returns child lossy (k x) env1 env'" using calm_trans[OF c1(1)] by blast
qed

interpretation get_caller: quiet_op "sdk_get_caller rest" child lossy for rest child lossy
  by (rule quiet_call[where c = "H_caller 0" and f = "\<lambda>m _. take 32 m"]) (simp_all add: sdk_get_caller_def)

interpretation get_block_height: quiet_op "sdk_get_block_height rest" child lossy for rest child lossy
  by (rule quiet_call[where c = H_block_height and f = "\<lambda>_ r. i64_of r"]) (simp_all add: sdk_get_block_height_def)

interpretation get_block_timestamp: quiet_op "sdk_get_block_timestamp rest" child lossy for rest child lossy
  by (rule quiet_call[where c = H_block_timestamp and f = "\<lambda>_ r. i64_of r"]) (simp_all add: sdk_get_block_timestamp_def)

interpretation get_contract_address: quiet_op "sdk_get_contract_address rest" child lossy for rest child lossy
  by (rule quiet_call[where c = "H_contract_address 0" and f = "\<lambda>m _. take 32 m"]) (simp_all add: sdk_get_contract_address_def)

interpretation get_value: quiet_op "sdk_get_value rest" child lossy for rest child lossy
  by (rule quiet_two_calls[where c = H_value_lo and d = H_value_hi and f = "\<lambda>lo hi. join_halves (i64_of lo) (i64_of hi)"])
    (simp_all add: sdk_get_value_def)

interpretation get_balance: quiet_op "sdk_get_balance rest addr" child lossy for rest addr child lossy
  by (rule quiet_two_calls[where c = "H_token_balance 0" and d = "H_token_balance_hi 0"
        and f = "\<lambda>lo hi. join_halves (i64_of lo) (i64_of hi)"]) (simp_all add: sdk_get_balance_def)

interpretation storage_get: quiet_op "sdk_storage_get rest key" child lossy for rest key child lossy
  by (rule quiet_call[where c = "H_storage_read 0 (of_nat (length key)) (of_nat (length key))"
        and f = "\<lambda>m r. if i32_of r <s 0 then None
          else Some (take (unat (i32_of r)) (take STORAGE_READ_BUF (drop (length key) m)))"])
    (simp_all add: sdk_storage_get_def if_distrib cong: if_cong)

interpretation storage_set: quiet_op "sdk_storage_set rest key value" child lossy for rest key "value" child lossy
  by (rule quiet_call[where c = "H_storage_write 0 (of_nat (length key)) (of_nat (length key)) (of_nat (length value))"
        and f = "\<lambda>_ _. ()"]) (simp_all add: sdk_storage_set_def)

interpretation storage_exists: quiet_op "sdk_storage_exists rest key" child lossy for rest key child lossy
  by (rule quiet_call[where c = "H_storage_has 0 (of_nat (length key))" and f = "\<lambda>_ r. i32_of r \<noteq> 0"])
    (simp_all add: sdk_storage_exists_def)

interpretation storage_remove: quiet_op "sdk_storage_remove rest key" child lossy for rest key child lossy
  by (rule quiet_call[where c = "H_storage_delete 0 (of_nat (length key))" and f = "\<lambda>_ _. ()"])
    (simp_all add: sdk_storage_remove_def)

interpretation log_text: quiet_op "sdk_log rest msg" child lossy for rest msg child lossy
  by (rule quiet_call[where c = "H_log_msg 0 (of_nat (length msg))" and f = "\<lambda>_ _. ()"]) (simp_all add: sdk_log_def)

interpretation set_return_data: quiet_op "sdk_set_return_data rest data" child lossy for rest data child lossy
  by (rule quiet_call[where c = "H_return_data 0 (of_nat (length data))" and f = "\<lambda>_ _. ()"])
    (simp_all add: sdk_set_return_data_def)

text \<open>Reading through a decoder is quiet as well.\<close>

lemma quiet_decoded:
  assumes "quiet_op w child lossy" and "\<And>k. v k = w (\<lambda>x. k (f x))"
  shows "quiet_op v child lossy"
proof
  fix k env env'
  assume "returns child lossy (v k) env env'"
  then have "returns child lossy (w (\<lambda>x. k (f x))) env env'" by (simp only: assms(2))
  from quiet_op.passes[OF assms(1) this]
  show "\<exists>x env1. calm env env1 \<and> returns child lossy (k x) env1 env'" by blast
qed

interpretation get_u64: quiet_op "sdk_get_u64 rest key" child lossy for rest key child lossy
  by (rule quiet_decoded[OF storage_get.quiet_op_axioms]) (rule sdk_get_u64_def)

interpretation get_u128: quiet_op "sdk_get_u128 rest key" child lossy for rest key child lossy
  by (rule quiet_decoded[OF storage_get.quiet_op_axioms]) (rule sdk_get_u128_def)

interpretation set_u64: quiet_op "sdk_set_u64 rest key value" child lossy for rest key "value" child lossy
  unfolding sdk_set_u64_def by (rule storage_set.quiet_op_axioms)

interpretation set_u128: quiet_op "sdk_set_u128 rest key value" child lossy for rest key "value" child lossy
  unfolding sdk_set_u128_def by (rule storage_set.quiet_op_axioms)

section \<open>Transfers\<close>

text \<open>The wrapper answers true only if the host has refused the transfer.\<close>

lemma returns_transfer:
  assumes "returns child lossy (sdk_transfer rest to amount k) env env'"
  shows "\<exists>ok env1. returns child lossy (k ok) env1 env'
    \<and> (ok \<longrightarrow> calm env env1 \<and> (amount = 0 \<or> he_memory env = None \<or> length to + length rest < 32))"
  using assms unfolding sdk_transfer_def
proof (rule returns_Call)
  fix r env1
  let ?mem = "to @ rest"
  assume imp: "import_object child lossy (H_token_transfer 0 (ucast amount) (ucast (drop_bit 64 amount)))
      (share_memory ?mem env) = (Inr r, env1)"
    and ret: "returns child lossy (k (i32_of r \<noteq> 0)) env1 env'"
  obtain env2 where paid: "consume_fuel TOKEN_TRANSFER_FUEL (share_memory ?mem env) = Inr env2"
    using imp by (auto simp: host_token_transfer_def check_fuel_def split: sum.splits)
  note env2 = consume_fuel_Inr(1)[OF paid]
  have "calm env env2" by (rule calm_trans[OF calm_share[of env ?mem]]) (simp add: env2 calm_def)
  moreover have "he_memory env2 = Some ?mem" if "he_memory env \<noteq> None"
    using that by (auto simp: env2 share_memory_def)
  then have "\<exists>b. read_bytes env2 0 32 = Inr b" if "he_memory env \<noteq> None" "32 \<le> length to + length rest"
    using that by (simp add: read_bytes_def view_read_def MAX_HOST_BUFFER_SIZE_def)
  moreover have "join_halves (ucast amount) (ucast (drop_bit 64 amount)) = amount"
    by (rule bit_word_eqI) (auto simp: join_halves_def bit_or_iff bit_ucast_iff bit_push_bit_iff bit_drop_bit_eq)
  ultimately have "i32_of r \<noteq> 0 \<longrightarrow> calm env env1 \<and> (amount = 0 \<or> he_memory env = None \<or> length to + length rest < 32)"
    using imp paid
    by (auto simp: host_token_transfer_def check_fuel_def i32_of_def Let_def not_le split: sum.splits if_splits) (cases "he_memory env"; simp)
  then show ?thesis using ret by blast
qed

section \<open>Entry points and transfers\<close>

lemma entry_thrifty:
  assumes "\<And>rest a k. (\<And>x. thrifty child lossy (k x)) \<Longrightarrow> thrifty child lossy (body rest a k)"
  shows "thrifty child lossy (sdk_entry decode body ptr_len mem)"
proof -
  have "thrifty child lossy (if result \<noteq> [] then sdk_set_return_data mem result (\<lambda>_. Finish mem ()) else Finish mem ())"
    for result by (auto intro: set_return_data.thrift)
  from assms[OF this] show ?thesis by (simp add: sdk_entry_def split: option.split)
qed

lemma transfer_thrifty:
  assumes "thrifty child lossy k"
  shows "thrifty child lossy (sdk_transfer rest to amount (\<lambda>ok. sdk_require rest ok msg k))"
  unfolding thrifty_def
proof (intro allI impI)
  fix env env'
  assume "returns child lossy (sdk_transfer rest to amount (\<lambda>ok. sdk_require rest ok msg k)) env env'"
  then obtain ok env1 where "returns child lossy (sdk_require rest ok msg k) env1 env'" "ok \<longrightarrow> calm env env1"
    by (meson returns_transfer)
  then show "he_transfers env' = he_transfers env" using thriftyD[OF assms] by (auto simp: calm_def)
qed

lemma require_stuck: "\<not> returns child lossy k env env' \<Longrightarrow> \<not> returns child lossy (sdk_require rest cond msg k) env env'"
  by simp

text \<open>A guest that insists on the wrapper's answer does not get past a transfer that the host has taken.\<close>

lemma transfer_stuck:
  assumes "amount > 0" and "he_memory env \<noteq> None" and "32 \<le> length to + length rest"
  shows "\<not> returns child lossy (sdk_transfer rest to amount (\<lambda>ok. sdk_require rest ok msg k)) env env'"
  using returns_transfer[of child lossy rest to amount "\<lambda>ok. sdk_require rest ok msg k" env env'] assms by auto

end
