(* ===== verification/Arena_Entry.thy ===== *)
theory Arena_Entry
  imports Arena_Solvency Sdk Vm_Results
begin

text \<open>
  The entry points of the arena pool (\<open>contracts/arena-pool/src/lib.rs\<close>) as guests of the engine, written with the SDK: load the
  state, apply the logic, save the state, flush the transfers. Borsh is a parameter.

  Shown: no entry point that returns has asked for a transfer, because the SDK reads the host's answer the wrong
  way round; so a withdrawal never succeeds, on the chain, in any state, for anybody.
\<close>

record pool_codec =
  pc_dec_state :: "bytes \<Rightarrow> ContractState option"
  pc_enc_state :: "ContractState \<Rightarrow> bytes"
  pc_dec_init :: "bytes \<Rightarrow> (address \<times> address \<times> u16 \<times> u16) option"
  pc_dec_unit :: "bytes \<Rightarrow> unit option"
  pc_dec_withdraw :: "bytes \<Rightarrow> u128 option"
  pc_dec_lock :: "bytes \<Rightarrow> (hash32 \<times> address list \<times> u128) option"
  pc_dec_settle :: "bytes \<Rightarrow> (hash32 \<times> address list \<times> u128 list) option"
  pc_dec_game :: "bytes \<Rightarrow> hash32 option"
  pc_dec_cleanup :: "bytes \<Rightarrow> hash32 list option"

definition load_state :: "pool_codec \<Rightarrow> bytes \<Rightarrow> ContractState sdk" where
  "load_state K rest k = sdk_storage_get rest (string_bytes ''__state__'') (\<lambda>v. case v of
      Some bytes \<Rightarrow> (case pc_dec_state K bytes of Some s \<Rightarrow> k s | None \<Rightarrow> unreachable)
    | None \<Rightarrow> k ContractState_default)"

definition save_state :: "pool_codec \<Rightarrow> bytes \<Rightarrow> ContractState \<Rightarrow> unit sdk" where
  "save_state K rest state = sdk_storage_set rest (string_bytes ''__state__'') (pc_enc_state K state)"

fun flush_transfers :: "bytes \<Rightarrow> transfers \<Rightarrow> unit guest \<Rightarrow> unit guest" where
  "flush_transfers rest [] k = k"
| "flush_transfers rest ((to, amount) # ts) k =
     (if amount > 0 then sdk_transfer rest to amount (\<lambda>ok. sdk_require rest ok ''token_transfer failed''
        (flush_transfers rest ts k))
      else flush_transfers rest ts k)"

text \<open>The tail of every entry point: a panic of the logic is an \<open>unreachable\<close>.\<close>

definition finish_with ::
  "pool_codec \<Rightarrow> bytes \<Rightarrow> (bytes \<Rightarrow> unit guest) \<Rightarrow> string + ContractState \<times> transfers \<Rightarrow> unit guest" where
  "finish_with K rest k outcome = (case outcome of
      Inl _ \<Rightarrow> unreachable
    | Inr (state, ts) \<Rightarrow> save_state K rest state (\<lambda>_. flush_transfers rest ts (k (string_bytes ''ok''))))"

definition arena_init :: "pool_codec \<Rightarrow> u32 list \<Rightarrow> bytes \<Rightarrow> unit guest" where
  "arena_init K = sdk_entry (pc_dec_init K) (\<lambda>rest (owner, platform, fee_bps, burn_bps) k.
     finish_with K rest k (quiet (apply_init_pool owner platform fee_bps burn_bps ContractState_default)))"

definition arena_deposit :: "pool_codec \<Rightarrow> u32 list \<Rightarrow> bytes \<Rightarrow> unit guest" where
  "arena_deposit K = sdk_entry (pc_dec_unit K) (\<lambda>rest _ k.
     sdk_get_caller rest (\<lambda>caller. sdk_get_value rest (\<lambda>v. load_state K rest (\<lambda>state.
       finish_with K rest k (quiet (apply_deposit caller v state))))))"

definition arena_withdraw :: "pool_codec \<Rightarrow> u32 list \<Rightarrow> bytes \<Rightarrow> unit guest" where
  "arena_withdraw K = sdk_entry (pc_dec_withdraw K) (\<lambda>rest amount k.
     sdk_get_caller rest (\<lambda>caller. load_state K rest (\<lambda>state.
       finish_with K rest k (apply_withdraw_pool caller amount state))))"

definition arena_lock_entries :: "pool_codec \<Rightarrow> u32 list \<Rightarrow> bytes \<Rightarrow> unit guest" where
  "arena_lock_entries K = sdk_entry (pc_dec_lock K) (\<lambda>rest (game_hash, players, entry_fee) k.
     sdk_get_caller rest (\<lambda>caller. sdk_get_block_timestamp rest (\<lambda>ts. load_state K rest (\<lambda>state.
       finish_with K rest k (quiet (apply_lock_entries caller game_hash players entry_fee ts state))))))"

definition arena_settle_game :: "pool_codec \<Rightarrow> u32 list \<Rightarrow> bytes \<Rightarrow> unit guest" where
  "arena_settle_game K = sdk_entry (pc_dec_settle K) (\<lambda>rest (game_hash, winners, amounts) k.
     sdk_get_caller rest (\<lambda>caller. load_state K rest (\<lambda>state.
       finish_with K rest k (apply_settle_game caller game_hash winners amounts state))))"

definition arena_refund_game :: "pool_codec \<Rightarrow> u32 list \<Rightarrow> bytes \<Rightarrow> unit guest" where
  "arena_refund_game K = sdk_entry (pc_dec_game K) (\<lambda>rest game_hash k.
     sdk_get_caller rest (\<lambda>caller. load_state K rest (\<lambda>state.
       finish_with K rest k (quiet (apply_refund_game caller game_hash state)))))"

definition arena_refund_game_emergency :: "pool_codec \<Rightarrow> u32 list \<Rightarrow> bytes \<Rightarrow> unit guest" where
  "arena_refund_game_emergency K = sdk_entry (pc_dec_game K) (\<lambda>rest game_hash k.
     sdk_get_caller rest (\<lambda>caller. sdk_get_block_timestamp rest (\<lambda>now. load_state K rest (\<lambda>state.
       finish_with K rest k (quiet (apply_emergency_refund caller game_hash now state))))))"

definition arena_claim_fees :: "pool_codec \<Rightarrow> u32 list \<Rightarrow> bytes \<Rightarrow> unit guest" where
  "arena_claim_fees K = sdk_entry (pc_dec_unit K) (\<lambda>rest _ k.
     sdk_get_caller rest (\<lambda>caller. load_state K rest (\<lambda>state.
       finish_with K rest k (apply_claim_fees caller state))))"

definition arena_pause :: "pool_codec \<Rightarrow> u32 list \<Rightarrow> bytes \<Rightarrow> unit guest" where
  "arena_pause K = sdk_entry (pc_dec_unit K) (\<lambda>rest _ k.
     sdk_get_caller rest (\<lambda>caller. load_state K rest (\<lambda>state.
       finish_with K rest k (quiet (apply_pause_pool caller state)))))"

definition arena_unpause :: "pool_codec \<Rightarrow> u32 list \<Rightarrow> bytes \<Rightarrow> unit guest" where
  "arena_unpause K = sdk_entry (pc_dec_unit K) (\<lambda>rest _ k.
     sdk_get_caller rest (\<lambda>caller. load_state K rest (\<lambda>state.
       finish_with K rest k (quiet (apply_unpause_pool caller state)))))"

definition arena_cleanup_games :: "pool_codec \<Rightarrow> u32 list \<Rightarrow> bytes \<Rightarrow> unit guest" where
  "arena_cleanup_games K = sdk_entry (pc_dec_cleanup K) (\<lambda>rest hashes k.
     sdk_get_caller rest (\<lambda>caller. load_state K rest (\<lambda>state.
       finish_with K rest k (quiet (apply_cleanup_games caller hashes state)))))"

text \<open>The exports.\<close>

definition arena_entries :: "pool_codec \<Rightarrow> entry_table" where
  "arena_entries K = map_option (\<lambda>f. (2, f)) \<circ> map_of [(''init'', arena_init K), (''deposit'', arena_deposit K),
     (''withdraw'', arena_withdraw K), (''lock_entries'', arena_lock_entries K), (''settle_game'', arena_settle_game K),
     (''refund_game'', arena_refund_game K), (''refund_game_emergency'', arena_refund_game_emergency K),
     (''claim_fees'', arena_claim_fees K), (''pause'', arena_pause K), (''unpause'', arena_unpause K),
     (''cleanup_games'', arena_cleanup_games K)]"

section \<open>Nothing is paid\<close>

lemma load_state_quiet: "quiet_op (\<lambda>k. load_state K rest k) child lossy"
proof
  fix k env env'
  assume "returns child lossy (load_state K rest k) env env'"
  then obtain v env1 where "calm env env1" and r: "returns child lossy (case v of
      Some bytes \<Rightarrow> (case pc_dec_state K bytes of Some s \<Rightarrow> k s | None \<Rightarrow> unreachable)
    | None \<Rightarrow> k ContractState_default) env1 env'"
    unfolding load_state_def using storage_get.passes by blast
  then show "\<exists>x env1. calm env env1 \<and> returns child lossy (k x) env1 env'"
    by (cases v) (auto split: option.splits)
qed

interpretation load_state: quiet_op "load_state K rest" child lossy for K rest child lossy
  using load_state_quiet by simp

interpretation save_state: quiet_op "save_state K rest state" child lossy for K rest state child lossy
  unfolding save_state_def by (rule storage_set.quiet_op_axioms)

lemma flush_thrifty: "thrifty child lossy k \<Longrightarrow> thrifty child lossy (flush_transfers rest ts k)"
  by (induction ts) (auto intro: transfer_thrifty)

lemma finish_thrifty: "(\<And>x. thrifty child lossy (k x)) \<Longrightarrow> thrifty child lossy (finish_with K rest k outcome)"
  by (auto simp: finish_with_def intro: save_state.thrift flush_thrifty split: sum.split)

lemmas arena_defs = arena_init_def arena_deposit_def arena_withdraw_def arena_lock_entries_def arena_settle_game_def
  arena_refund_game_def arena_refund_game_emergency_def arena_claim_fees_def arena_pause_def arena_unpause_def
  arena_cleanup_games_def

lemmas thrift_rules = entry_thrifty get_caller.thrift get_value.thrift get_block_timestamp.thrift load_state.thrift
  finish_thrifty

text \<open>
  No call of the arena pool ever pays anything out: whatever the entry point, the arguments and the state, a run that
  returns has asked for no transfer. The SDK takes the host's zero, which means success, for a failure and aborts.
\<close>

theorem arena_never_pays:
  assumes "arena_entries K mname = Some (n, body)"
    and "run_guest child lossy (body ptr_len mem) env = (Returned (), m, env')"
  shows "he_transfers env' = he_transfers env"
proof -
  have "thrifty child lossy (body ptr_len mem)"
    using assms(1) by (auto simp: arena_entries_def arena_defs split: if_splits intro!: thrift_rules)
  moreover have "returns child lossy (body ptr_len mem) env env'" using assms(2) by (auto simp: returns_def)
  ultimately show ?thesis by (rule thriftyD)
qed

section \<open>A withdrawal never succeeds\<close>

lemma returns_get_caller:
  assumes "returns child lossy (sdk_get_caller rest k) env env'"
  obtains x env1 where "calm env env1" "length x = 32" "returns child lossy (k x) env1 env'"
  using assms unfolding sdk_get_caller_def
proof (rule returns_Call)
  fix r env1
  let ?mem = "replicate 32 0 @ rest"
  assume imp: "import_object child lossy (H_caller 0) (share_memory ?mem env) = (Inr r, env1)"
    and ret: "returns child lossy (k (take 32 (guest_memory ?mem env1))) env1 env'"
  have "map_option length (he_memory env1) = map_option length (he_memory (share_memory ?mem env))"
    using caller_op.op_frame[of "share_memory ?mem env" 0] imp by (simp add: host_frame_def)
  then have "32 \<le> length (guest_memory ?mem env1)"
    by (cases "he_memory env"; cases "he_memory env1") (auto simp: guest_memory_def share_memory_def)
  then show thesis using ret by (intro that[OF calm_trans[OF calm_share import_calm[OF imp]]]) simp_all
qed

lemma withdraw_stuck:
  assumes "he_memory env \<noteq> None"
  shows "\<not> returns child lossy (arena_withdraw K ptr_len mem) env env'"
proof
  assume run: "returns child lossy (arena_withdraw K ptr_len mem) env env'"
  have flush: "\<not> returns child lossy (flush_transfers rest [(caller, amount)] k) env env'"
    if "length caller = 32" "amount > 0" "he_memory env \<noteq> None" for rest caller amount k env
    using that transfer_stuck[of amount env caller rest] by simp
  have finish: "\<not> returns child lossy (finish_with K rest k (apply_withdraw_pool caller amount state)) env env'"
    if "length caller = 32" "he_memory env \<noteq> None" for rest k caller amount state env
    using that flush save_state.stuck
    by (auto simp: finish_with_def apply_withdraw_pool_def split: if_splits sum.splits)
  obtain amount k where "returns child lossy (sdk_get_caller mem (\<lambda>caller. load_state K mem (\<lambda>state.
       finish_with K mem k (apply_withdraw_pool caller amount state)))) env env'"
    using run by (auto simp: arena_withdraw_def sdk_entry_def split: option.splits)
  then obtain caller env1 where "calm env env1" "length caller = 32" "returns child lossy (load_state K mem (\<lambda>state.
       finish_with K mem k (apply_withdraw_pool caller amount state))) env1 env'"
    by (rule returns_get_caller)
  then show False using load_state.stuck finish assms by (auto simp: calm_def)
qed

text \<open>The module that the contract compiles to; the allocator's choice of an address is a parameter.\<close>

definition arena_module :: "pool_codec \<Rightarrow> bytes \<Rightarrow> (u32 \<Rightarrow> bytes \<Rightarrow> u32) \<Rightarrow> wasm_module" where
  "arena_module K mem alloc_at = \<lparr>wm_memories = [(1, None)], wm_instantiate = Inr (Finish mem
     \<lparr>wi_memory = None, wi_alloc = Some (\<lambda>size m. Finish m (alloc_at size m, arena_entries K)), wi_entries = arena_entries K\<rparr>)\<rparr>"

lemma arena_withdraw_fails:
  assumes "wr_compile R code = Inr (arena_module K mem alloc_at)"
  shows "execute_with_cross_calls E R code ''withdraw'' args ctx st cs code_map \<noteq> Some (Inr r)"
proof
  assume "execute_with_cross_calls E R code ''withdraw'' args ctx st cs code_map = Some (Inr r)"
  then obtain env where e: "execute_env E R (child_execute E R) code ''withdraw'' args
      (new_host_env ctx st cs (Some cs) code_map) = (Some (Inr r), env)"
    by (rule execute_cross_env)
  have entry: "arena_entries K ''withdraw'' = Some (2, arena_withdraw K)" by (simp add: arena_entries_def)
  have never: "call_method R child (arena_entries K) ''withdraw'' as p m (env\<lparr>he_memory := Some m'\<rparr>) \<noteq> (Some (Inr r), env')"
    for child as p m m' env env'
    using withdraw_stuck[of "env\<lparr>he_memory := Some m'\<rparr>" child "wr_lossy R" K]
    by (auto simp: call_method_def entry returns_def Let_def split: prod.splits run_end.splits)
  have "fst (load_module E R code (cache_new MODULE_CACHE_CAPACITY)) = Inr (arena_module K mem alloc_at)"
    using assms by (simp add: load_module_def cache_get_def cache_new_def Let_def)
  then have "run_module R (child_execute E R) (arena_module K mem alloc_at) ''withdraw'' args
      (new_host_env ctx st cs (Some cs) code_map) = (Some (Inr r), env)"
    using e by (simp add: execute_env_def arena_module_def MAX_WASM_MEMORY_PAGES_def)
  then show False
    by (auto simp: never run_module_def arena_module_def enter_instance_def Let_def split: if_splits option.splits)
qed

text \<open>
  C40. Coins in the arena pool cannot be withdrawn: a transaction that calls \<open>withdraw\<close> on a contract with this code is rejected,
  whoever sends it, whatever it has deposited and however busy the node is.
\<close>

theorem arena_withdraw_always_rejected:
  assumes "dec_contract_call E (tx_payload tx) = Inr p" and "ccp_method p = ''withdraw''"
    and "bt_get (contract_code s) (ccp_contract p) = Some code"
    and "wr_compile R code = Inr (arena_module K mem alloc_at)"
  shows "\<exists>e. fst (handle_contract_call (with_engine R busy late E) i s tx) = Inl e"
proof (rule ccontr)
  assume "\<not> ?thesis"
  then obtain x s' where run: "handle_contract_call (with_engine R busy late E) i s tx = (Inr x, s')"
    by (metis prod.collapse sum.exhaust_sel)
  have p: "dec_contract_call (with_engine R busy late E) (tx_payload tx) = Inr p" using assms(1) by simp
  show False
    by (rule contract_call_runs[OF run p])
      (use assms arena_withdraw_fails[OF assms(4)] in \<open>auto dest!: execute_with_timeout_engine\<close>)
qed

text \<open>A pool with an owner's coins in it, and a codec that decodes everything to a withdrawal of five coins.\<close>

definition sample_codec :: pool_codec where
  "sample_codec = \<lparr>pc_dec_state = (\<lambda>_. Some (sample_pool\<lparr>ps_balance := bt_insert alice 5 bt_empty\<rparr>)), pc_enc_state = (\<lambda>_. []),
     pc_dec_init = (\<lambda>_. None), pc_dec_unit = (\<lambda>_. Some ()), pc_dec_withdraw = (\<lambda>_. Some 5), pc_dec_lock = (\<lambda>_. None),
     pc_dec_settle = (\<lambda>_. None), pc_dec_game = (\<lambda>_. None), pc_dec_cleanup = (\<lambda>_. None)\<rparr>"

theorem arena_withdraw_always_rejected_witness:
  "let R = (scripted [] (\<lambda>_. Silent))\<lparr>wr_compile := (\<lambda>_. Inr (arena_module sample_codec [] (\<lambda>_ _. 0)))\<rparr>;
       E = sample_externals\<lparr>dec_contract_call := (\<lambda>_. Inr \<lparr>ccp_contract = bob, ccp_method = ''withdraw'', ccp_args = [],
         ccp_value = 0\<rparr>)\<rparr> in
   \<exists>e. fst (handle_contract_call (with_engine R False False E) 0 sample_world sample_tx) = Inl e"
  unfolding Let_def
  by (rule arena_withdraw_always_rejected[where code = "[0]" and K = sample_codec and mem = "[]" and alloc_at = "\<lambda>_ _. 0"
      and p = "\<lparr>ccp_contract = bob, ccp_method = ''withdraw'', ccp_args = [], ccp_value = 0\<rparr>"]) simp_all

text \<open>A call of \<open>init\<close> that returns.\<close>

definition init_codec :: pool_codec where
  "init_codec = sample_codec\<lparr>pc_dec_init := (\<lambda>_. Some (alice, bob, 0, 0))\<rparr>"

lemma init_returns:
  "\<exists>m env'. run_guest no_child bytes_string (arena_init init_codec [0, 0] []) (method_env bt_empty) = (Returned (), m, env')"
proof -
  have "of_nat (length (string_bytes ''__state__'')) = (9 :: u32)" "length (string_bytes ''__state__'') = 9"
    by (simp_all add: string_bytes_def)
  then show ?thesis
    by (simp add: arena_init_def sdk_entry_def init_codec_def sample_codec_def finish_with_def quiet_def apply_init_pool_def
        save_state_def sdk_storage_set_def sdk_set_return_data_def run_guest_Call share_memory_def guest_memory_def method_env_def
        new_host_env_def new_top_level_def host_storage_write_def host_return_data_def check_fuel_def consume_fuel_def
        STORAGE_WRITE_FUEL_def HOST_CALL_BASE_FUEL_def read_bytes_def MAX_HOST_BUFFER_SIZE_def view_read_def
        string_bytes_def)
qed

theorem arena_never_pays_witness:
  "\<exists>m env'. run_guest no_child bytes_string (arena_init init_codec [0, 0] []) (method_env bt_empty) = (Returned (), m, env')
     \<and> he_transfers env' = he_transfers (method_env bt_empty)"
proof -
  obtain m env' where run: "run_guest no_child bytes_string (arena_init init_codec [0, 0] []) (method_env bt_empty)
      = (Returned (), m, env')"
    using init_returns by blast
  have "arena_entries init_codec ''init'' = Some (2, arena_init init_codec)" by (simp add: arena_entries_def)
  from arena_never_pays[OF this run] show ?thesis using run by blast
qed

end
