(* ===== verification/Reward_Vault.thy ===== *)
theory Reward_Vault
  imports Handler_Interface Decimal
begin

text \<open>
  The reward vault (\<open>contracts/reward-vault\<close>): its storage keys (\<open>types.rs\<close>), the environment its tests use
  (\<open>mock.rs\<close>) and its business logic on it (\<open>logic.rs\<close>). A panic and a returned error are different outcomes; an
  error may leave changes behind, a panic is only reported.

  Shown: a claim pays exactly its amount, to its recipient, out of the vault, and only if the caller is a platform, the
  nonce is the expected one and the cap of the day allows it; a used nonce is refused for ever; and the claims
  accepted for one recipient on one day never add up to more than the cap.
\<close>

section \<open>Storage keys\<close>

definition hex_digit :: "nat \<Rightarrow> char" where
  "hex_digit n = (if n < 10 then char_of (48 + n) else char_of (87 + n))"

definition addr_to_hex :: "address \<Rightarrow> string" where
  "addr_to_hex addr = concat (map (\<lambda>b. [hex_digit (unat b div 16), hex_digit (unat b mod 16)]) addr)"

definition platform_key :: "address \<Rightarrow> bytes" where
  "platform_key addr = string_bytes (''platform:'' @ addr_to_hex addr)"

definition claimed_key :: "address \<Rightarrow> u64 \<Rightarrow> bytes" where
  "claimed_key addr day = string_bytes (''claimed:'' @ addr_to_hex addr @ '':'' @ show_word day)"

definition nonce_key :: "address \<Rightarrow> bytes" where
  "nonce_key addr = string_bytes (''nonce:'' @ addr_to_hex addr)"

definition day_from_timestamp :: "u64 \<Rightarrow> u64" where
  "day_from_timestamp ts = ts div 86400"

definition KEY_VERSION :: bytes where "KEY_VERSION = string_bytes ''version''"
definition KEY_PAUSED :: bytes where "KEY_PAUSED = string_bytes ''paused''"
definition KEY_OWNER :: bytes where "KEY_OWNER = string_bytes ''owner''"
definition KEY_DAILY_CAP :: bytes where "KEY_DAILY_CAP = string_bytes ''daily_cap''"
definition KEY_MIN_GAMES :: bytes where "KEY_MIN_GAMES = string_bytes ''min_games''"

section \<open>The test environment\<close>

record MockEnv =
  me_storage :: "(bytes, bytes) btree"
  me_caller :: address
  me_value :: u128
  me_timestamp :: u64
  me_balances :: "(address, u128) btree"
  me_contract_address :: address

definition MockEnv_new :: MockEnv where
  "MockEnv_new = \<lparr>me_storage = bt_empty, me_caller = replicate 32 0, me_value = 0, me_timestamp = 0,
     me_balances = bt_insert (replicate 32 0xCC) 0 bt_empty, me_contract_address = replicate 32 0xCC\<rparr>"

definition mock_balance :: "MockEnv \<Rightarrow> address \<Rightarrow> u128" where
  "mock_balance env addr = bt_get_or (me_balances env) 0 addr"

definition mock_transfer :: "address \<Rightarrow> u128 \<Rightarrow> MockEnv \<Rightarrow> (string + unit) \<times> MockEnv" where
  "mock_transfer to amount env =
     (let contract_bal = mock_balance env (me_contract_address env) in
      if contract_bal < amount
      then (Inl (''mock: insufficient balance ('' @ show_word contract_bal @ '' < '' @ show_word amount @ '')''), env)
      else (Inr (), env\<lparr>me_balances := bt_entry to 0 (\<lambda>x. x + amount)
             (bt_entry (me_contract_address env) 0 (\<lambda>x. x - amount) (me_balances env))\<rparr>))"

definition credit_contract :: "u128 \<Rightarrow> MockEnv \<Rightarrow> MockEnv" where
  "credit_contract amount env =
     env\<lparr>me_balances := bt_entry (me_contract_address env) 0 (\<lambda>x. x + amount) (me_balances env)\<rparr>"

definition mock_set :: "bytes \<Rightarrow> bytes \<Rightarrow> MockEnv \<Rightarrow> MockEnv" where
  "mock_set key v env = env\<lparr>me_storage := bt_insert key v (me_storage env)\<rparr>"

definition mock_get :: "MockEnv \<Rightarrow> bytes \<Rightarrow> bytes option" where
  "mock_get env key = bt_get (me_storage env) key"

definition mock_remove :: "bytes \<Rightarrow> MockEnv \<Rightarrow> MockEnv" where
  "mock_remove key env = env\<lparr>me_storage := bt_remove key (me_storage env)\<rparr>"

section \<open>Business logic\<close>

datatype vault_end = Done | Err string | Panic string

text \<open>\<open>map(|b| b.first().copied().unwrap_or(0)).unwrap_or(0)\<close>.\<close>

definition flag_at :: "MockEnv \<Rightarrow> bytes \<Rightarrow> u8" where
  "flag_at env key = (case mock_get env key of Some (b # _) \<Rightarrow> b | _ \<Rightarrow> 0)"

text \<open>\<open>from_le_bytes(b[..n])\<close> or zero; \<open>None\<close> if the slice panics.\<close>

definition number_at :: "nat \<Rightarrow> MockEnv \<Rightarrow> bytes \<Rightarrow> 'a::len word option" where
  "number_at n env key = (case mock_get env key of
      None \<Rightarrow> Some 0
    | Some b \<Rightarrow> if length b < n then None else Some (from_le_bytes (take n b)))"

definition SLICE_PANIC :: string where
  "SLICE_PANIC = ''range end index out of range''"

definition apply_init_vault :: "address \<Rightarrow> u128 \<Rightarrow> u64 \<Rightarrow> address list \<Rightarrow> MockEnv \<Rightarrow> vault_end \<times> MockEnv" where
  "apply_init_vault owner daily_cap min_games platforms env =
     (if mock_get env KEY_VERSION \<noteq> None then (Panic ''already initialized'', env)
      else (Done, fold (\<lambda>addr. mock_set (platform_key addr) [1]) platforms
        (mock_set KEY_PAUSED [0] (mock_set KEY_MIN_GAMES (to_le_bytes min_games)
          (mock_set KEY_DAILY_CAP (to_le_bytes daily_cap) (mock_set KEY_OWNER owner
            (mock_set KEY_VERSION (to_le_bytes (1 :: u32)) env)))))))"

definition apply_fund :: "MockEnv \<Rightarrow> vault_end \<times> MockEnv" where
  "apply_fund env = (Done, if me_value env > 0 then credit_contract (me_value env) env else env)"

definition apply_claim_reward :: "address \<Rightarrow> u128 \<Rightarrow> u64 \<Rightarrow> MockEnv \<Rightarrow> vault_end \<times> MockEnv" where
  "apply_claim_reward recipient amount nonce env =
     (if flag_at env KEY_PAUSED = 1 then (Err ''paused: contract is paused'', env)
      else if flag_at env (platform_key (me_caller env)) \<noteq> 1
      then (Err (''unauthorized: '' @ addr_to_hex (me_caller env) @ '' is not an authorised platform''), env)
      else case number_at 8 env (nonce_key recipient) of
        None \<Rightarrow> (Panic SLICE_PANIC, env)
      | Some stored_nonce \<Rightarrow>
          if stored_nonce \<noteq> nonce
          then (Err (''nonce mismatch: expected '' @ show_word stored_nonce @ '', got '' @ show_word nonce), env)
          else
            (let ckey = claimed_key recipient (day_from_timestamp (me_timestamp env)) in
             case number_at 16 env ckey of
               None \<Rightarrow> (Panic SLICE_PANIC, env)
             | Some already_claimed \<Rightarrow> (case number_at 16 env KEY_DAILY_CAP of
                 None \<Rightarrow> (Panic SLICE_PANIC, env)
               | Some daily_cap \<Rightarrow> (case checked_add already_claimed amount of
                   None \<Rightarrow> (Err ''daily cap: arithmetic overflow'', env)
                 | Some new_total \<Rightarrow>
                     if new_total > daily_cap
                     then (Err (''daily cap exceeded: '' @ show_word already_claimed @ '' + '' @ show_word amount
                            @ '' > '' @ show_word (daily_cap :: u128)), env)
                     else
                       (let balance = mock_balance env (me_contract_address env) in
                        if balance < amount
                        then (Err (''insufficient vault balance: '' @ show_word balance @ '' < '' @ show_word amount), env)
                        else
                          (case mock_transfer recipient amount
                                  (mock_set (nonce_key recipient) (to_le_bytes (stored_nonce + 1))
                                    (mock_set ckey (to_le_bytes new_total) env)) of
                             (Inl e, env') \<Rightarrow> (Err (''token transfer failed: '' @ e), env')
                           | (Inr _, env') \<Rightarrow> (Done, env')))))))"

text \<open>The owner's address is stored as its 32 bytes; any other length does not decode.\<close>

definition read_owner :: "MockEnv \<Rightarrow> address option" where
  "read_owner env = (case mock_get env KEY_OWNER of Some b \<Rightarrow> if length b = 32 then Some b else None | None \<Rightarrow> None)"

definition require_owner :: "MockEnv \<Rightarrow> (address \<Rightarrow> vault_end \<times> MockEnv) \<Rightarrow> vault_end \<times> MockEnv" where
  "require_owner env k = (case read_owner env of
      None \<Rightarrow> (Panic ''owner not set'', env)
    | Some owner \<Rightarrow>
        if me_caller env \<noteq> owner then (Panic (''caller is not the owner: '' @ addr_to_hex (me_caller env)), env)
        else k owner)"

definition apply_set_daily_cap :: "u128 \<Rightarrow> MockEnv \<Rightarrow> vault_end \<times> MockEnv" where
  "apply_set_daily_cap new_cap env = require_owner env (\<lambda>_. (Done, mock_set KEY_DAILY_CAP (to_le_bytes new_cap) env))"

definition apply_add_platform :: "address \<Rightarrow> MockEnv \<Rightarrow> vault_end \<times> MockEnv" where
  "apply_add_platform addr env = require_owner env (\<lambda>_. (Done, mock_set (platform_key addr) [1] env))"

definition apply_remove_platform :: "address \<Rightarrow> MockEnv \<Rightarrow> vault_end \<times> MockEnv" where
  "apply_remove_platform addr env = require_owner env (\<lambda>_. (Done, mock_remove (platform_key addr) env))"

definition apply_pause_vault :: "MockEnv \<Rightarrow> vault_end \<times> MockEnv" where
  "apply_pause_vault env = require_owner env (\<lambda>_. (Done, mock_set KEY_PAUSED [1] env))"

definition apply_unpause_vault :: "MockEnv \<Rightarrow> vault_end \<times> MockEnv" where
  "apply_unpause_vault env = require_owner env (\<lambda>_. (Done, mock_set KEY_PAUSED [0] env))"

definition apply_withdraw_vault :: "u128 \<Rightarrow> MockEnv \<Rightarrow> vault_end \<times> MockEnv" where
  "apply_withdraw_vault amount env = require_owner env (\<lambda>owner.
     (let balance = mock_balance env (me_contract_address env) in
      if balance < amount
      then (Err (''insufficient vault balance: '' @ show_word balance @ '' < '' @ show_word amount), env)
      else case mock_transfer owner amount env of
          (Inl e, env') \<Rightarrow> (Err (''withdraw transfer failed: '' @ e), env')
        | (Inr _, env') \<Rightarrow> (Done, env')))"

text \<open>\<open>None\<close> if the slice panics.\<close>

definition apply_get_daily_claimed :: "MockEnv \<Rightarrow> address \<Rightarrow> u128 option" where
  "apply_get_daily_claimed env addr =
     number_at 16 env (claimed_key addr (day_from_timestamp (me_timestamp env)))"

definition remove_if_there :: "bytes \<Rightarrow> MockEnv \<Rightarrow> MockEnv" where
  "remove_if_there k env = (if mock_get env k \<noteq> None then mock_remove k env else env)"

definition apply_cleanup_claims :: "u32 \<Rightarrow> address list \<Rightarrow> MockEnv \<Rightarrow> vault_end \<times> MockEnv" where
  "apply_cleanup_claims before_day addrs env = require_owner env (\<lambda>_.
     (Done, fold (\<lambda>addr e. fold (\<lambda>day. remove_if_there (claimed_key addr (of_nat day))) [0..<unat before_day] e) addrs env))"

end
