(* ===== verification/Vault_Safety.thy ===== *)
theory Vault_Safety
  imports Reward_Vault
begin

text \<open>
  What the reward vault's logic guarantees. The storage keys do not collide, so the vault is read as three tables
  (nonces, claims of a day, settings); histories of calls are followed on these tables.
\<close>

section \<open>Keys\<close>

lemma unat_of_char: "unat (of_char c :: u8) = of_char c"
proof -
  have "(of_char c :: nat) < 256" by simp
  moreover have "(of_char c :: u8) = of_nat (of_char c)" by (simp add: of_char_def horner_sum_of_bool_2_less)
  ultimately show ?thesis by (simp add: unat_of_nat)
qed

lemma string_bytes_inject [simp]: "string_bytes s = string_bytes t \<longleftrightarrow> s = t"
proof -
  have "inj (of_char :: char \<Rightarrow> u8)" by (rule injI) (metis unat_of_char of_char_eq_iff)
  then show ?thesis by (simp add: string_bytes_def inj_map_eq_map)
qed

lemma hex_digit_code: "n < 16 \<Longrightarrow> of_char (hex_digit n) = (if n < 10 then 48 + n else 87 + n)"
  by (simp add: hex_digit_def)

lemma hex_digit_inject:
  assumes "m < 16" "n < 16" "hex_digit m = hex_digit n"
  shows "m = n"
proof -
  have "(if m < 10 then 48 + m else 87 + m) = (if n < 10 then 48 + n else 87 + n)"
    using hex_digit_code[OF assms(1)] hex_digit_code[OF assms(2)] assms(3) by simp
  then show ?thesis by (auto split: if_splits)
qed

lemma hex_digit_no_colon: "n < 16 \<Longrightarrow> hex_digit n \<noteq> CHR '':''"
proof
  assume "n < 16" "hex_digit n = CHR '':''"
  then have "(if n < 10 then 48 + n else 87 + n) = (58 :: nat)" using hex_digit_code[of n] by simp
  then show False using \<open>n < 16\<close> by (auto split: if_splits)
qed

lemma addr_to_hex_Cons: "addr_to_hex (b # bs) = hex_digit (unat b div 16) # hex_digit (unat b mod 16) # addr_to_hex bs"
  by (simp add: addr_to_hex_def)

lemma byte_halves: "unat (b :: u8) div 16 < 16" "unat b mod 16 < 16"
proof -
  have "unat b < 2 ^ LENGTH(8)" by (rule unsigned_less)
  then show "unat b div 16 < 16" "unat b mod 16 < 16" by simp_all
qed

lemma addr_to_hex_inject [simp]: "addr_to_hex a = addr_to_hex b \<longleftrightarrow> a = b"
proof
  show "addr_to_hex a = addr_to_hex b \<Longrightarrow> a = b"
  proof (induction a arbitrary: b)
    case Nil
    then show ?case by (cases b) (simp_all add: addr_to_hex_Cons, simp add: addr_to_hex_def)
  next
    case (Cons x a)
    then obtain y b' where b: "b = y # b'" by (cases b) (simp_all add: addr_to_hex_Cons, simp add: addr_to_hex_def)
    have "unat x div 16 = unat y div 16" "unat x mod 16 = unat y mod 16" "addr_to_hex a = addr_to_hex b'"
      using Cons.prems hex_digit_inject byte_halves by (auto simp: b addr_to_hex_Cons)
    then show ?case using Cons.IH[of b'] by (simp add: b) (metis div_mult_mod_eq word_unat_eq_iff)
  qed
qed simp

lemma addr_to_hex_no_colon: "CHR '':'' \<notin> set (addr_to_hex a)"
  by (induction a) (auto simp: addr_to_hex_Cons hex_digit_no_colon[symmetric] byte_halves, simp add: addr_to_hex_def)

lemma show_word_inject [simp]: "show_word (v :: 'a::len word) = show_word w \<longleftrightarrow> v = w"
  by (metis parse_show option.inject)

lemma claimed_key_inject [simp]: "claimed_key a d = claimed_key b e \<longleftrightarrow> a = b \<and> d = e"
proof -
  have "a = b \<and> d = e" if eq: "addr_to_hex a @ '':'' @ show_word d = addr_to_hex b @ '':'' @ show_word e"
  proof -
    have split: "takeWhile (\<lambda>c. c \<noteq> CHR '':'') (addr_to_hex x @ '':'' @ show_word y) = addr_to_hex x" for x and y :: u64
      using addr_to_hex_no_colon[of x] by (subst takeWhile_append2) auto
    from arg_cong[OF eq, of "takeWhile (\<lambda>c. c \<noteq> CHR '':'')"] have "addr_to_hex a = addr_to_hex b"
      unfolding split .
    then show ?thesis using eq by simp
  qed
  then show ?thesis by (auto simp: claimed_key_def)
qed

lemma key_inject [simp]:
  "nonce_key a = nonce_key b \<longleftrightarrow> a = b" "platform_key a = platform_key b \<longleftrightarrow> a = b"
  by (simp_all add: nonce_key_def platform_key_def)

lemmas key_defs = nonce_key_def platform_key_def claimed_key_def KEY_VERSION_def KEY_PAUSED_def KEY_OWNER_def
  KEY_DAILY_CAP_def KEY_MIN_GAMES_def

lemma keys_differ [simp]:
  "nonce_key a \<noteq> claimed_key b d" "nonce_key a \<noteq> platform_key b" "claimed_key a d \<noteq> platform_key b"
  "nonce_key a \<noteq> KEY_VERSION" "nonce_key a \<noteq> KEY_PAUSED" "nonce_key a \<noteq> KEY_OWNER" "nonce_key a \<noteq> KEY_DAILY_CAP"
  "nonce_key a \<noteq> KEY_MIN_GAMES" "claimed_key a d \<noteq> KEY_VERSION" "claimed_key a d \<noteq> KEY_PAUSED" "claimed_key a d \<noteq> KEY_OWNER"
  "claimed_key a d \<noteq> KEY_DAILY_CAP" "claimed_key a d \<noteq> KEY_MIN_GAMES" "KEY_DAILY_CAP \<noteq> platform_key a" "KEY_PAUSED \<noteq> platform_key a"
  "KEY_OWNER \<noteq> platform_key a" "KEY_DAILY_CAP \<noteq> KEY_PAUSED" "KEY_DAILY_CAP \<noteq> KEY_MIN_GAMES" "KEY_DAILY_CAP \<noteq> KEY_OWNER"
  "KEY_DAILY_CAP \<noteq> KEY_VERSION" "KEY_VERSION \<noteq> KEY_PAUSED" "KEY_VERSION \<noteq> KEY_MIN_GAMES" "KEY_VERSION \<noteq> KEY_OWNER"
  "KEY_VERSION \<noteq> platform_key a" "KEY_OWNER \<noteq> KEY_PAUSED" "KEY_OWNER \<noteq> KEY_MIN_GAMES"
  by (simp_all add: key_defs)

lemmas keys_differ_sym [simp] = keys_differ[symmetric]

section \<open>Tables\<close>

definition nonce_of :: "MockEnv \<Rightarrow> address \<Rightarrow> u64 option" where
  "nonce_of env r = number_at 8 env (nonce_key r)"

definition claimed_on :: "MockEnv \<Rightarrow> address \<Rightarrow> u64 \<Rightarrow> u128 option" where
  "claimed_on env r d = number_at 16 env (claimed_key r d)"

definition cap_of :: "MockEnv \<Rightarrow> u128 option" where
  "cap_of env = number_at 16 env KEY_DAILY_CAP"

text \<open>Everything a history can see of the tables.\<close>

lemma mock_get_set [simp]: "mock_get (mock_set k v env) l = (if l = k then Some v else mock_get env l)"
  by (simp add: mock_get_def mock_set_def)

lemma mock_get_remove [simp]: "mock_get (mock_remove k env) l = (if l = k then None else mock_get env l)"
  by (simp add: mock_get_def mock_remove_def)

lemma mock_get_transfer [simp]: "mock_get (snd (mock_transfer to n env)) l = mock_get env l"
  by (simp add: mock_transfer_def mock_get_def Let_def)

lemma mock_set_fields [simp]:
  "me_balances (mock_set k v env) = me_balances env" "me_contract_address (mock_set k v env) = me_contract_address env"
  "me_caller (mock_set k v env) = me_caller env" "me_timestamp (mock_set k v env) = me_timestamp env"
  by (simp_all add: mock_set_def)

lemma number_at_cong: "mock_get env k = mock_get env' k' \<Longrightarrow> number_at n env k = number_at n env' k'"
  by (simp add: number_at_def)

lemma number_at_stored [simp]:
  "mock_get env k = Some (to_le_bytes (v :: u128)) \<Longrightarrow> number_at 16 env k = Some v"
  "mock_get env k = Some (to_le_bytes (w :: u64)) \<Longrightarrow> number_at 8 env k = Some w"
  by (simp_all add: number_at_def)

section \<open>A claim\<close>

lemma claim_done:
  assumes "apply_claim_reward r n nonce env = (Done, env')"
  obtains total cap where "flag_at env KEY_PAUSED \<noteq> 1" "flag_at env (platform_key (me_caller env)) = 1"
    "nonce_of env r = Some nonce" "claimed_on env r (day_from_timestamp (me_timestamp env)) = Some total"
    "cap_of env = Some cap" "unat total + unat n \<le> unat cap" "n \<le> mock_balance env (me_contract_address env)"
    "env' = snd (mock_transfer r n (mock_set (nonce_key r) (to_le_bytes (nonce + 1))
       (mock_set (claimed_key r (day_from_timestamp (me_timestamp env))) (to_le_bytes (total + n)) env)))"
proof -
  let ?key = "claimed_key r (day_from_timestamp (me_timestamp env))"
  obtain total cap new where c: "flag_at env KEY_PAUSED \<noteq> 1" "flag_at env (platform_key (me_caller env)) = 1"
    "number_at 8 env (nonce_key r) = Some nonce" "number_at 16 env ?key = Some total" "number_at 16 env KEY_DAILY_CAP = Some cap"
    "checked_add total n = Some new" "\<not> new > cap" "\<not> mock_balance env (me_contract_address env) < n"
    "env' = snd (mock_transfer r n (mock_set (nonce_key r) (to_le_bytes (nonce + 1)) (mock_set ?key (to_le_bytes new) env)))"
    using assms by (auto simp: apply_claim_reward_def Let_def split: if_splits option.splits prod.splits sum.splits)
  from c(6) have new: "new = total + n" "unat new = unat total + unat n"
    by (auto simp: checked_add_def unat_add_exact split: if_splits)
  show thesis
    by (rule that[OF c(1,2)]) (use c(3-5,7-9) new in \<open>simp_all add: nonce_of_def claimed_on_def cap_of_def word_le_nat_alt not_less\<close>)
qed

section \<open>Histories\<close>

datatype vault_call =
    Vault_init address u128 u64 "address list" | Vault_fund | Vault_claim_reward address u128 u64 | Vault_set_daily_cap u128
  | Vault_add_platform address | Vault_remove_platform address | Vault_pause | Vault_unpause | Vault_withdraw u128
  | Vault_cleanup_claims u32 "address list"

fun vault_apply :: "vault_call \<Rightarrow> MockEnv \<Rightarrow> vault_end \<times> MockEnv" where
  "vault_apply (Vault_init owner cap games platforms) = apply_init_vault owner cap games platforms"
| "vault_apply Vault_fund = apply_fund"
| "vault_apply (Vault_claim_reward r n nonce) = apply_claim_reward r n nonce"
| "vault_apply (Vault_set_daily_cap cap) = apply_set_daily_cap cap"
| "vault_apply (Vault_add_platform a) = apply_add_platform a"
| "vault_apply (Vault_remove_platform a) = apply_remove_platform a"
| "vault_apply Vault_pause = apply_pause_vault"
| "vault_apply Vault_unpause = apply_unpause_vault"
| "vault_apply (Vault_withdraw n) = apply_withdraw_vault n"
| "vault_apply (Vault_cleanup_claims day addrs) = apply_cleanup_claims day addrs"

text \<open>One call: caller, attached value, block time; an error or a panic undoes the call.\<close>

type_synonym vault_tx = "address \<times> u128 \<times> u64 \<times> vault_call"

definition vault_step :: "vault_tx \<Rightarrow> MockEnv \<Rightarrow> bool \<times> MockEnv" where
  "vault_step tx env = (case tx of (caller, v, ts, call) \<Rightarrow>
     let env1 = env\<lparr>me_caller := caller, me_value := v, me_timestamp := ts\<rparr> in
     case vault_apply call env1 of (Done, env2) \<Rightarrow> (True, env2) | _ \<Rightarrow> (False, env1))"

text \<open>The claims that a history pays: recipient, amount, nonce and day.\<close>

fun paid_claims :: "vault_tx list \<Rightarrow> MockEnv \<Rightarrow> (address \<times> u128 \<times> u64 \<times> u64) list" where
  "paid_claims [] env = []"
| "paid_claims (tx # txs) env = (let (accepted, env') = vault_step tx env in
     (case tx of (_, _, ts, Vault_claim_reward r n nonce) \<Rightarrow>
          if accepted then [(r, n, nonce, day_from_timestamp ts)] else []
        | _ \<Rightarrow> []) @ paid_claims txs env')"

fun vault_after :: "vault_tx list \<Rightarrow> MockEnv \<Rightarrow> MockEnv" where
  "vault_after [] env = env"
| "vault_after (tx # txs) env = vault_after txs (snd (vault_step tx env))"

lemma mock_get_fields [simp]:
  "mock_get (env\<lparr>me_caller := c, me_value := v, me_timestamp := ts\<rparr>) k = mock_get env k"
  "mock_get (env\<lparr>me_balances := b\<rparr>) k = mock_get env k"
  by (simp_all add: mock_get_def)

lemma mock_get_platforms:
  "k \<notin> range platform_key \<Longrightarrow> mock_get (fold (\<lambda>a. mock_set (platform_key a) [1]) as env) k = mock_get env k"
  by (induction as arbitrary: env) auto

lemma mock_get_cleanup:
  assumes "\<And>a day. day < unat before \<Longrightarrow> k \<noteq> claimed_key a (of_nat day)"
  shows "mock_get (fold (\<lambda>a e. fold (\<lambda>day. remove_if_there (claimed_key a (of_nat day))) [0..<unat before] e) as env) k
    = mock_get env k"
proof -
  have "mock_get (fold (\<lambda>day. remove_if_there (claimed_key a (of_nat day))) days env) k = mock_get env k"
    if "set days \<subseteq> {..<unat before}" for a days env
    using that assms by (induction days arbitrary: env) (auto simp: remove_if_there_def)
  then have "mock_get (fold (\<lambda>day. remove_if_there (claimed_key a (of_nat day))) [0..<unat before] env) k = mock_get env k"
    for a env by (simp add: subset_eq)
  then show ?thesis by (induction as arbitrary: env) simp_all
qed

lemma require_owner_done:
  assumes "require_owner env k = (Done, env')"
  obtains owner where "k owner = (Done, env')"
  using assms by (auto simp: require_owner_def split: option.splits if_splits)

text \<open>Only claims write nonces; only claims, the cleanup of earlier days and \<open>init\<close> or a new cap touch the rest.\<close>

definition spared :: "vault_call \<Rightarrow> MockEnv \<Rightarrow> bytes \<Rightarrow> bool" where
  "spared call env k \<longleftrightarrow> k \<in> range nonce_key
     \<or> (\<exists>a d. k = claimed_key a d \<and> (\<forall>before as. call = Vault_cleanup_claims before as \<longrightarrow> unat before \<le> unat d))
     \<or> (k = KEY_DAILY_CAP \<and> (\<forall>cap. call \<noteq> Vault_set_daily_cap cap) \<or> k = KEY_VERSION) \<and> mock_get env KEY_VERSION \<noteq> None"

lemma other_calls_keep:
  assumes "vault_apply call env = (Done, env')" and "\<forall>r n nonce. call \<noteq> Vault_claim_reward r n nonce"
    and "spared call env k"
  shows "mock_get env' k = mock_get env k"
proof -
  have no_platform: "k \<notin> range platform_key" using assms(3) by (auto simp: spared_def)
  have day: "of_nat m \<noteq> d" if "m < unat before" "unat before \<le> unat d" for m and d :: u64 and before :: u32
  proof -
    have "unat before < 2 ^ LENGTH(32)" by (rule unsigned_less)
    then have "unat (of_nat m :: u64) = m" using that(1) by (simp add: unat_of_nat)
    then show ?thesis using that by auto
  qed
  show ?thesis
    using assms(1)
  proof (cases call)
    case (Vault_init owner cap games platforms)
    then show ?thesis using assms no_platform
      by (auto simp: spared_def apply_init_vault_def mock_get_platforms split: if_splits)
  next
    case (Vault_cleanup_claims before as)
    then show ?thesis using assms day
      by (auto simp: spared_def apply_cleanup_claims_def elim!: require_owner_done intro!: mock_get_cleanup)
  next
    case (Vault_withdraw n)
    then show ?thesis using assms(1)
      by (auto simp: apply_withdraw_vault_def mock_transfer_def Let_def elim!: require_owner_done split: if_splits)
  next
    case (Vault_claim_reward r n nonce)
    then show ?thesis using assms(2) by blast
  qed (use assms no_platform in \<open>auto simp: spared_def apply_fund_def credit_contract_def apply_set_daily_cap_def apply_add_platform_def
      apply_remove_platform_def apply_pause_vault_def apply_unpause_vault_def elim!: require_owner_done\<close>)
qed

text \<open>The tables after one call.\<close>

lemma step_rejected: "vault_step tx env = (False, env') \<Longrightarrow> mock_get env' k = mock_get env k"
  by (auto simp: vault_step_def Let_def split: prod.splits vault_end.splits)

lemma step_other:
  assumes "vault_step (c, v, ts, call) env = (acc, env')" and "\<forall>r n nonce. call \<noteq> Vault_claim_reward r n nonce"
    and "spared call env k"
  shows "mock_get env' k = mock_get env k"
proof (cases acc)
  case True
  then have "vault_apply call (env\<lparr>me_caller := c, me_value := v, me_timestamp := ts\<rparr>) = (Done, env')"
    using assms(1) by (auto simp: vault_step_def Let_def split: prod.splits vault_end.splits)
  from other_calls_keep[OF this assms(2), of k] assms(3) show ?thesis by (simp add: spared_def)
qed (use assms(1) step_rejected in simp)

lemma step_claim:
  assumes "vault_step (c, v, ts, Vault_claim_reward r n nonce) env = (True, env')"
  obtains total cap where "nonce_of env r = Some nonce" "nonce_of env' r = Some (nonce + 1)"
    "claimed_on env r (day_from_timestamp ts) = Some total" "claimed_on env' r (day_from_timestamp ts) = Some (total + n)"
    "cap_of env = Some cap" "unat total + unat n \<le> unat cap"
    "\<And>k. k \<noteq> nonce_key r \<Longrightarrow> k \<noteq> claimed_key r (day_from_timestamp ts) \<Longrightarrow> mock_get env' k = mock_get env k"
proof -
  let ?env = "env\<lparr>me_caller := c, me_value := v, me_timestamp := ts\<rparr>"
  have "apply_claim_reward r n nonce ?env = (Done, env')"
    using assms by (auto simp: vault_step_def Let_def split: prod.splits vault_end.splits)
  then show thesis
  proof (rule claim_done)
    fix total cap
    assume c: "nonce_of ?env r = Some nonce" "claimed_on ?env r (day_from_timestamp (me_timestamp ?env)) = Some total"
      "cap_of ?env = Some cap" "unat total + unat n \<le> unat cap"
      and env': "env' = snd (mock_transfer r n (mock_set (nonce_key r) (to_le_bytes (nonce + 1))
        (mock_set (claimed_key r (day_from_timestamp (me_timestamp ?env))) (to_le_bytes (total + n)) ?env)))"
    have get: "mock_get env' k = (if k = nonce_key r then Some (to_le_bytes (nonce + 1))
        else if k = claimed_key r (day_from_timestamp ts) then Some (to_le_bytes (total + n)) else mock_get env k)" for k
      by (simp add: env')
    have same: "number_at m ?env k = number_at m env k" for m k by (rule number_at_cong) simp
    show thesis
      by (rule that[of total cap])
        (use c get in \<open>simp_all add: nonce_of_def claimed_on_def cap_of_def same\<close>)
  qed
qed

text \<open>The nonces that a history pays for one recipient.\<close>

definition nonces_paid :: "address \<Rightarrow> vault_tx list \<Rightarrow> MockEnv \<Rightarrow> u64 list" where
  "nonces_paid r txs env = map (\<lambda>(_, _, nonce, _). nonce) (filter (\<lambda>(r', _). r' = r) (paid_claims txs env))"

lemma nonces_paid_step:
  assumes "nonce_of env r = Some m" and "vault_step tx env = (acc, env')"
  shows "\<exists>first. nonces_paid r (tx # txs) env = first @ nonces_paid r txs env'
    \<and> (first = [] \<and> nonce_of env' r = Some m \<or> first = [m] \<and> nonce_of env' r = Some (m + 1))"
proof -
  obtain c v ts call where tx: "tx = (c, v, ts, call)" by (cases tx)
  have frame: "nonce_of env' r = Some m" if "mock_get env' (nonce_key r) = mock_get env (nonce_key r)"
    using assms(1) that by (simp add: nonce_of_def number_at_def)
  show ?thesis
  proof (cases "\<exists>r' n nonce. call = Vault_claim_reward r' n nonce")
    case True
    then obtain r' n nonce where call: "call = Vault_claim_reward r' n nonce" by blast
    show ?thesis
    proof (cases acc)
      case True
      then have acc: "vault_step (c, v, ts, Vault_claim_reward r' n nonce) env = (True, env')"
        using assms(2) by (simp add: tx call)
      from acc show ?thesis
      proof (rule step_claim)
        fix total cap
        assume s: "nonce_of env r' = Some nonce" "nonce_of env' r' = Some (nonce + 1)"
          "\<And>k. k \<noteq> nonce_key r' \<Longrightarrow> k \<noteq> claimed_key r' (day_from_timestamp ts) \<Longrightarrow> mock_get env' k = mock_get env k"
        show ?thesis
          using assms s acc frame by (cases "r' = r") (simp_all add: nonces_paid_def tx call Let_def)
      qed
    next
      case False
      then show ?thesis using assms step_rejected[of tx env env'] frame
        by (simp add: nonces_paid_def tx call)
    qed
  next
    case False
    have "mock_get env' (nonce_key r) = mock_get env (nonce_key r)"
      by (rule step_other[OF assms(2)[unfolded tx]]) (use False in \<open>auto simp: spared_def\<close>)
    moreover have "nonces_paid r (tx # txs) env = nonces_paid r txs env'"
      using False assms(2) by (cases call) (auto simp: nonces_paid_def tx)
    ultimately show ?thesis using frame by simp
  qed
qed

lemma nonces_consecutive:
  assumes "nonce_of env r = Some m"
  shows "nonces_paid r txs env = map (\<lambda>i. m + of_nat i) [0..<length (nonces_paid r txs env)]"
  using assms
proof (induction txs arbitrary: env m)
  case (Cons tx txs)
  obtain acc env' where step: "vault_step tx env = (acc, env')" by force
  from nonces_paid_step[OF Cons.prems step, of txs] consider
      (skip) "nonces_paid r (tx # txs) env = nonces_paid r txs env'" "nonce_of env' r = Some m"
    | (pay) "nonces_paid r (tx # txs) env = m # nonces_paid r txs env'" "nonce_of env' r = Some (m + 1)"
    by auto
  then show ?case
  proof cases
    case skip
    then show ?thesis using Cons.IH[OF skip(2)] by simp
  next
    case pay
    have "map (\<lambda>i. m + 1 + of_nat i) [0..<l] = map (\<lambda>i. m + of_nat i) [Suc 0..<Suc l]" for l
      by (simp add: map_Suc_upt[symmetric] comp_def ac_simps del: upt_Suc)
    then show ?thesis using Cons.IH[OF pay(2)] by (simp add: pay(1) upt_conv_Cons del: upt_Suc)
  qed
qed (simp add: nonces_paid_def)

text \<open>
  C17. No reward is paid twice: in any history of calls of a vault, by any callers and with pauses, cap changes and cleanups in
  between, the claims paid to one recipient carry consecutive nonces, so no two carry the same (histories shorter
  than \<open>2 ^ 64\<close> calls).
\<close>

theorem claims_never_replayed:
  assumes "nonce_of env r = Some m" and "length (nonces_paid r txs env) \<le> 2 ^ 64"
  shows "nonces_paid r txs env = map (\<lambda>i. m + of_nat i) [0..<length (nonces_paid r txs env)]
    \<and> distinct (nonces_paid r txs env)"
proof -
  note eq = nonces_consecutive[OF assms(1), of txs]
  have "inj_on (\<lambda>i. m + of_nat i) {0..<length (nonces_paid r txs env)}"
  proof (rule inj_onI)
    fix i j assume "i \<in> {0..<length (nonces_paid r txs env)}" "j \<in> {0..<length (nonces_paid r txs env)}"
      and "m + of_nat i = m + of_nat j"
    then have "i < 2 ^ 64" "j < 2 ^ 64" "(of_nat i :: u64) = of_nat j" using assms(2) by auto
    then have "unat (of_nat i :: u64) = unat (of_nat j :: u64)" "i mod 2 ^ 64 = i" "j mod 2 ^ 64 = j" by simp_all
    then show "i = j" unfolding unat_of_nat by simp
  qed
  then have "distinct (map (\<lambda>i. m + of_nat i :: u64) [0..<length (nonces_paid r txs env)])" by (simp add: distinct_map)
  then show ?thesis using eq by simp
qed

section \<open>The daily cap\<close>

definition paid_on :: "address \<Rightarrow> u64 \<Rightarrow> vault_tx list \<Rightarrow> MockEnv \<Rightarrow> nat" where
  "paid_on r d txs env = sum_list (map (\<lambda>(_, n, _, _). unat n)
     (filter (\<lambda>(r', _, _, d'). r' = r \<and> d' = d) (paid_claims txs env)))"

text \<open>Calls that leave the cap and the records of day \<open>d\<close> to the claims.\<close>

fun ordinary :: "u64 \<Rightarrow> vault_tx \<Rightarrow> bool" where
  "ordinary d (_, _, _, Vault_set_daily_cap _) = False"
| "ordinary d (_, _, _, Vault_cleanup_claims before _) = (unat before \<le> unat d)"
| "ordinary d _ = True"

lemma cap_stage:
  assumes "vault_step tx env = (acc, env')" and "ordinary d tx" and "mock_get env KEY_VERSION \<noteq> None"
    and "cap_of env = Some cap" and "claimed_on env r d = Some sofar" and "unat sofar \<le> unat cap"
  shows "mock_get env' KEY_VERSION \<noteq> None \<and> cap_of env' = Some cap
    \<and> (\<exists>sofar'. claimed_on env' r d = Some sofar' \<and> unat sofar' \<le> unat cap
       \<and> paid_on r d (tx # txs) env + unat sofar = paid_on r d txs env' + unat sofar')"
proof -
  obtain c v ts call where tx: "tx = (c, v, ts, call)" by (cases tx)
  have frame: "mock_get env' KEY_VERSION \<noteq> None \<and> cap_of env' = Some cap \<and> claimed_on env' r d = Some sofar"
    if "\<And>k. k \<in> {KEY_VERSION, KEY_DAILY_CAP, claimed_key r d} \<Longrightarrow> mock_get env' k = mock_get env k"
    using assms(3-5) that by (simp add: cap_of_def claimed_on_def number_at_def)
  show ?thesis
  proof (cases "\<exists>r' n nonce. call = Vault_claim_reward r' n nonce \<and> acc")
    case True
    then obtain r' n nonce where call: "call = Vault_claim_reward r' n nonce" and acc: acc by blast
    then have step: "vault_step (c, v, ts, Vault_claim_reward r' n nonce) env = (True, env')" using assms(1) by (simp add: tx)
    from step show ?thesis
    proof (rule step_claim)
      fix total1 cap1
      let ?d = "day_from_timestamp ts"
      assume s: "claimed_on env r' ?d = Some total1" "claimed_on env' r' ?d = Some (total1 + n)" "cap_of env = Some cap1"
        "unat total1 + unat n \<le> unat cap1" "\<And>k. k \<noteq> nonce_key r' \<Longrightarrow> k \<noteq> claimed_key r' ?d \<Longrightarrow> mock_get env' k = mock_get env k"
      have cap: "cap1 = cap" using s(3) assms(4) by simp
      have "unat cap < 2 ^ LENGTH(128)" by (rule unsigned_less)
      then have add: "unat (total1 + n) = unat total1 + unat n" using s(4) unfolding cap by (intro unat_add_exact) linarith
      show ?thesis
      proof (cases "r' = r \<and> ?d = d")
        case True
        then show ?thesis using assms(3-5) s step add cap
          by (simp add: paid_on_def tx call cap_of_def number_at_def Let_def)
      next
        case False
        then have "paid_on r d (tx # txs) env = paid_on r d txs env'" using step by (auto simp: paid_on_def tx call)
        moreover have "mock_get env' k = mock_get env k" if "k \<in> {KEY_VERSION, KEY_DAILY_CAP, claimed_key r d}" for k
          using that False by (intro s(5)) auto
        ultimately show ?thesis using frame assms(6) by auto
      qed
    qed
  next
    case False
    have "mock_get env' k = mock_get env k" if "k \<in> {KEY_VERSION, KEY_DAILY_CAP, claimed_key r d}" for k
    proof (cases "\<exists>r' n nonce. call = Vault_claim_reward r' n nonce")
      case True
      then show ?thesis using False assms(1) step_rejected[of tx env env' k] by auto
    next
      case no_claim: False
      then show ?thesis
        using that assms(2,3) by (intro step_other[OF assms(1)[unfolded tx]]) (auto simp: spared_def tx)
    qed
    moreover have "paid_on r d (tx # txs) env = paid_on r d txs env'"
      using False assms(1) by (cases call) (auto simp: paid_on_def tx)
    ultimately show ?thesis using frame assms(6) by auto
  qed
qed

text \<open>
  C18. The daily cap binds: in any history in which the cap is not changed and no record of the day is cleaned up, the claims
  paid to one recipient on one day, together with what was recorded before, never exceed the cap.
\<close>

theorem daily_cap_binds:
  assumes "mock_get env KEY_VERSION \<noteq> None" and "cap_of env = Some cap" and "claimed_on env r d = Some sofar"
    and "unat sofar \<le> unat cap" and "list_all (ordinary d) txs"
  shows "unat sofar + paid_on r d txs env \<le> unat cap"
  using assms
proof (induction txs arbitrary: env sofar)
  case (Cons tx txs)
  obtain acc env' where step: "vault_step tx env = (acc, env')" by force
  obtain sofar' where n: "mock_get env' KEY_VERSION \<noteq> None" "cap_of env' = Some cap" "claimed_on env' r d = Some sofar'"
    "unat sofar' \<le> unat cap" "paid_on r d (tx # txs) env + unat sofar = paid_on r d txs env' + unat sofar'"
    using cap_stage[OF step _ Cons.prems(1-4), of txs] Cons.prems(5) by auto
  have "unat sofar' + paid_on r d txs env' \<le> unat cap"
    by (rule Cons.IH[OF n(1-4)]) (use Cons.prems(5) in simp)
  then show ?case using n(5) by simp
qed (simp add: paid_on_def)

text \<open>A vault with a cap of ten coins: two claims of six, of which the second is refused, and a replay.\<close>

definition sample_vault :: MockEnv where
  "sample_vault = credit_contract 100 (snd (apply_init_vault alice 10 0 [bob] MockEnv_new))"

definition sample_claims :: "vault_tx list" where
  "sample_claims = [(bob, 0, 0, Vault_claim_reward alice 6 0), (bob, 0, 0, Vault_claim_reward alice 6 1),
     (bob, 0, 0, Vault_claim_reward alice 6 0), (bob, 0, 86400, Vault_claim_reward alice 6 1)]"

lemma sample_vault_tables:
  "mock_get sample_vault KEY_VERSION \<noteq> None" "cap_of sample_vault = Some 10" "nonce_of sample_vault r = Some 0"
  "claimed_on sample_vault r d = Some 0"
proof -
  have get: "mock_get sample_vault k = (if k = platform_key bob then Some [1] else if k = KEY_PAUSED then Some [0]
      else if k = KEY_MIN_GAMES then Some (to_le_bytes (0 :: u64)) else if k = KEY_DAILY_CAP then Some (to_le_bytes (10 :: u128))
      else if k = KEY_OWNER then Some alice else if k = KEY_VERSION then Some (to_le_bytes (1 :: u32)) else None)" for k
    by (simp add: sample_vault_def credit_contract_def apply_init_vault_def) (simp add: MockEnv_new_def mock_get_def)
  show "mock_get sample_vault KEY_VERSION \<noteq> None" by (simp add: get)
  have "mock_get sample_vault KEY_DAILY_CAP = Some (to_le_bytes (10 :: u128))" by (simp add: get)
  then show "cap_of sample_vault = Some 10" by (simp add: cap_of_def)
  have "mock_get sample_vault (nonce_key r) = None" "mock_get sample_vault (claimed_key r d) = None" by (simp_all add: get)
  then show "nonce_of sample_vault r = Some 0" "claimed_on sample_vault r d = Some 0"
    by (simp_all add: nonce_of_def claimed_on_def number_at_def)
qed

theorem daily_cap_binds_witness:
  "list_all (ordinary 0) sample_claims \<and> paid_on alice 0 sample_claims sample_vault \<le> 10"
proof -
  have "list_all (ordinary 0) sample_claims" by (simp add: sample_claims_def)
  with daily_cap_binds[OF sample_vault_tables(1,2) sample_vault_tables(4)[of alice 0], of sample_claims] show ?thesis by simp
qed

lemma paid_claims_length: "length (paid_claims txs env) \<le> length txs"
proof (induction txs arbitrary: env)
  case (Cons tx txs)
  obtain c v ts call where tx: "tx = (c, v, ts, call)" by (cases tx)
  obtain acc env' where step: "vault_step tx env = (acc, env')" by force
  have "length (paid_claims (tx # txs) env) \<le> Suc (length (paid_claims txs env'))"
    using step by (cases call) (auto simp: tx)
  then show ?case using Cons.IH[of env'] by simp
qed simp

theorem claims_never_replayed_witness:
  "distinct (nonces_paid alice sample_claims sample_vault)"
proof -
  have "length (nonces_paid alice sample_claims sample_vault) \<le> length (paid_claims sample_claims sample_vault)"
    by (simp add: nonces_paid_def)
  also have "\<dots> \<le> 4" using paid_claims_length[of sample_claims sample_vault] by (simp add: sample_claims_def)
  finally have "length (nonces_paid alice sample_claims sample_vault) \<le> 2 ^ 64" by simp
  from claims_never_replayed[OF sample_vault_tables(3) this] show ?thesis by simp
qed

end
