(* ===== verification/Vault_Entry.thy ===== *)
theory Vault_Entry
  imports Vault_Safety Sdk Vm_Results
begin

text \<open>
  The entry points of the reward vault as deployed (\<open>contracts/reward-vault/src/lib.rs\<close>), written with the SDK. They repeat the
  logic of \<open>Reward_Vault\<close> on the host's storage. Borsh decoding of arguments is a parameter.

  Shown: as in the arena pool, no entry point that returns has asked for a transfer; a claim of a positive amount never
  returns, although the same claim is paid in the environment of the tests.
\<close>

record vault_codec =
  vc_dec_init :: "bytes \<Rightarrow> (address \<times> u128 \<times> u64 \<times> address list) option"
  vc_dec_claim :: "bytes \<Rightarrow> (address \<times> u128 \<times> u64) option"
  vc_dec_unit :: "bytes \<Rightarrow> unit option"
  vc_dec_amount :: "bytes \<Rightarrow> u128 option"
  vc_dec_addr :: "bytes \<Rightarrow> address option"
  vc_dec_cleanup :: "bytes \<Rightarrow> (u32 \<times> address list) option"

text \<open>A loop over a list.\<close>

fun sdk_each :: "('a \<Rightarrow> unit guest \<Rightarrow> unit guest) \<Rightarrow> 'a list \<Rightarrow> unit guest \<Rightarrow> unit guest" where
  "sdk_each f [] k = k"
| "sdk_each f (x # xs) k = f x (sdk_each f xs k)"

definition vault_require_owner :: "bytes \<Rightarrow> unit guest \<Rightarrow> unit guest" where
  "vault_require_owner rest k = sdk_get_caller rest (\<lambda>caller. sdk_storage_get rest KEY_OWNER (\<lambda>v. case v of
      Some owner \<Rightarrow> if length owner = 32 then sdk_require rest (caller = owner) ''caller is not the owner'' k else unreachable
    | None \<Rightarrow> unreachable))"

definition vault_init :: "vault_codec \<Rightarrow> u32 list \<Rightarrow> bytes \<Rightarrow> unit guest" where
  "vault_init K = sdk_entry (vc_dec_init K) (\<lambda>rest (owner, daily_cap, min_games, platforms) k.
     sdk_storage_get rest KEY_VERSION (\<lambda>v.
       sdk_require rest (case v of Some b \<Rightarrow> length b \<noteq> 4 | None \<Rightarrow> True) ''already initialized''
       (sdk_storage_set rest KEY_VERSION (to_le_bytes (1 :: u32)) (\<lambda>_. sdk_storage_set rest KEY_OWNER owner (\<lambda>_.
        sdk_set_u128 rest KEY_DAILY_CAP daily_cap (\<lambda>_. sdk_set_u64 rest KEY_MIN_GAMES min_games (\<lambda>_.
        sdk_storage_set rest KEY_PAUSED [0] (\<lambda>_.
        sdk_each (\<lambda>addr n. sdk_storage_set rest (platform_key addr) [1] (\<lambda>_. n)) platforms
        (sdk_log rest ''reward-vault: initialized'' (\<lambda>_. k []))))))))))"

text \<open>The first byte of a flag, or zero.\<close>

definition flag_of :: "bytes option \<Rightarrow> u8" where
  "flag_of v = (case v of Some (b # _) \<Rightarrow> b | _ \<Rightarrow> 0)"

definition or_zero :: "'a::zero option \<Rightarrow> 'a" where
  "or_zero v = (case v of Some x \<Rightarrow> x | None \<Rightarrow> 0)"

definition vault_claim_reward :: "vault_codec \<Rightarrow> u32 list \<Rightarrow> bytes \<Rightarrow> unit guest" where
  "vault_claim_reward K = sdk_entry (vc_dec_claim K) (\<lambda>rest (recipient, amount, nonce) k.
     sdk_storage_get rest KEY_PAUSED (\<lambda>paused. sdk_require rest (flag_of paused = 0) ''paused''
     (sdk_get_caller rest (\<lambda>caller. sdk_storage_get rest (platform_key caller) (\<lambda>is_platform.
      sdk_require rest (flag_of is_platform = 1) ''unauthorized: caller is not a platform''
     (sdk_get_u64 rest (nonce_key recipient) (\<lambda>stored_nonce.
      sdk_require rest (or_zero stored_nonce = nonce) ''nonce mismatch''
     (sdk_get_block_timestamp rest (\<lambda>ts. let ckey = claimed_key recipient (day_from_timestamp ts) in
      sdk_get_u128 rest ckey (\<lambda>already. sdk_get_u128 rest KEY_DAILY_CAP (\<lambda>daily_cap.
      sdk_require rest ((case checked_add (or_zero already) amount of Some t \<Rightarrow> t | None \<Rightarrow> - 1) \<le> or_zero daily_cap)
        ''daily cap exceeded''
     (sdk_get_contract_address rest (\<lambda>self_addr. sdk_get_balance rest self_addr (\<lambda>balance.
      sdk_require rest (balance \<ge> amount) ''insufficient vault balance''
     (sdk_set_u128 rest ckey (or_zero already + amount) (\<lambda>_.
      sdk_set_u64 rest (nonce_key recipient) (or_zero stored_nonce + 1) (\<lambda>_.
      sdk_transfer rest recipient amount (\<lambda>ok. sdk_require rest ok ''token transfer failed''
     (sdk_log rest (''reward-vault: claimed '' @ show_word amount @ '' to '' @ addr_to_hex recipient @ '' nonce=''
        @ show_word nonce) (\<lambda>_. k []))))))))))))))))))))"

definition vault_fund :: "vault_codec \<Rightarrow> u32 list \<Rightarrow> bytes \<Rightarrow> unit guest" where
  "vault_fund K = sdk_entry (vc_dec_unit K) (\<lambda>rest _ k. sdk_get_value rest (\<lambda>v.
     sdk_log rest (''reward-vault: funded with '' @ show_word v) (\<lambda>_. k [])))"

definition vault_set_daily_cap :: "vault_codec \<Rightarrow> u32 list \<Rightarrow> bytes \<Rightarrow> unit guest" where
  "vault_set_daily_cap K = sdk_entry (vc_dec_amount K) (\<lambda>rest new_cap k. vault_require_owner rest
     (sdk_set_u128 rest KEY_DAILY_CAP new_cap (\<lambda>_.
       sdk_log rest (''reward-vault: daily_cap set to '' @ show_word new_cap) (\<lambda>_. k []))))"

definition vault_add_platform :: "vault_codec \<Rightarrow> u32 list \<Rightarrow> bytes \<Rightarrow> unit guest" where
  "vault_add_platform K = sdk_entry (vc_dec_addr K) (\<lambda>rest addr k. vault_require_owner rest
     (sdk_storage_set rest (platform_key addr) [1] (\<lambda>_.
       sdk_log rest (''reward-vault: platform added '' @ addr_to_hex addr) (\<lambda>_. k []))))"

definition vault_remove_platform :: "vault_codec \<Rightarrow> u32 list \<Rightarrow> bytes \<Rightarrow> unit guest" where
  "vault_remove_platform K = sdk_entry (vc_dec_addr K) (\<lambda>rest addr k. vault_require_owner rest
     (sdk_storage_remove rest (platform_key addr) (\<lambda>_.
       sdk_log rest (''reward-vault: platform removed '' @ addr_to_hex addr) (\<lambda>_. k []))))"

definition vault_pause :: "vault_codec \<Rightarrow> u32 list \<Rightarrow> bytes \<Rightarrow> unit guest" where
  "vault_pause K = sdk_entry (vc_dec_unit K) (\<lambda>rest _ k. vault_require_owner rest
     (sdk_storage_set rest KEY_PAUSED [1] (\<lambda>_. sdk_log rest ''reward-vault: paused'' (\<lambda>_. k []))))"

definition vault_unpause :: "vault_codec \<Rightarrow> u32 list \<Rightarrow> bytes \<Rightarrow> unit guest" where
  "vault_unpause K = sdk_entry (vc_dec_unit K) (\<lambda>rest _ k. vault_require_owner rest
     (sdk_storage_set rest KEY_PAUSED [0] (\<lambda>_. sdk_log rest ''reward-vault: unpaused'' (\<lambda>_. k []))))"

definition vault_withdraw :: "vault_codec \<Rightarrow> u32 list \<Rightarrow> bytes \<Rightarrow> unit guest" where
  "vault_withdraw K = sdk_entry (vc_dec_amount K) (\<lambda>rest amount k. vault_require_owner rest
     (sdk_get_contract_address rest (\<lambda>self_addr. sdk_get_balance rest self_addr (\<lambda>balance.
      sdk_require rest (balance \<ge> amount) ''insufficient vault balance''
     (sdk_storage_get rest KEY_OWNER (\<lambda>v. case v of
         Some owner \<Rightarrow> if length owner = 32
           then sdk_transfer rest owner amount (\<lambda>ok. sdk_require rest ok ''token transfer failed''
             (sdk_log rest (''reward-vault: withdrew '' @ show_word amount) (\<lambda>_. k [])))
           else unreachable
       | None \<Rightarrow> unreachable))))))"

definition vault_get_daily_claimed :: "vault_codec \<Rightarrow> u32 list \<Rightarrow> bytes \<Rightarrow> unit guest" where
  "vault_get_daily_claimed K = sdk_entry (vc_dec_addr K) (\<lambda>rest addr k. sdk_get_block_timestamp rest (\<lambda>ts.
     sdk_get_u128 rest (claimed_key addr (day_from_timestamp ts)) (\<lambda>claimed. k (to_le_bytes (or_zero claimed)))))"

text \<open>The dash in two messages, in UTF-8.\<close>

definition em_dash :: string where
  "em_dash = map char_of [0xE2, 0x80, 0x94 :: nat]"

definition vault_cleanup_claims :: "vault_codec \<Rightarrow> u32 list \<Rightarrow> bytes \<Rightarrow> unit guest" where
  "vault_cleanup_claims K = sdk_entry (vc_dec_cleanup K) (\<lambda>rest (before_day, addrs) k. vault_require_owner rest
     (sdk_require rest (before_day \<le> 365) (''before_day too large '' @ em_dash @ '' max 365'')
     (sdk_require rest (length addrs \<le> 50) (''too many addresses '' @ em_dash @ '' max 50'')
     (sdk_each (\<lambda>addr. sdk_each (\<lambda>day n. let key = claimed_key addr (of_nat day) in
         sdk_storage_exists rest key (\<lambda>there. if there then sdk_storage_remove rest key (\<lambda>_. n) else n))
         [0..<unat before_day]) addrs
     (sdk_log rest (''reward-vault: cleaned up days before '' @ show_word before_day) (\<lambda>_. k []))))))"

definition vault_entries :: "vault_codec \<Rightarrow> entry_table" where
  "vault_entries K = map_option (\<lambda>f. (2, f)) \<circ> map_of [(''init'', vault_init K), (''claim_reward'', vault_claim_reward K),
     (''fund'', vault_fund K), (''set_daily_cap'', vault_set_daily_cap K), (''add_platform'', vault_add_platform K),
     (''remove_platform'', vault_remove_platform K), (''pause'', vault_pause K), (''unpause'', vault_unpause K),
     (''withdraw'', vault_withdraw K), (''get_daily_claimed'', vault_get_daily_claimed K),
     (''cleanup_claims'', vault_cleanup_claims K)]"

section \<open>Nothing is paid\<close>

lemma each_thrifty:
  assumes "\<And>x k. thrifty child lossy k \<Longrightarrow> thrifty child lossy (f x k)" and "thrifty child lossy k"
  shows "thrifty child lossy (sdk_each f xs k)"
  using assms(2) by (induction xs) (auto intro: assms(1))

lemma owner_thrifty: "thrifty child lossy k \<Longrightarrow> thrifty child lossy (vault_require_owner rest k)"
  unfolding vault_require_owner_def
  by (auto intro!: get_caller.thrift storage_get.thrift thrifty_require split: option.split)

lemmas vault_defs = vault_init_def vault_claim_reward_def vault_fund_def vault_set_daily_cap_def vault_add_platform_def
  vault_remove_platform_def vault_pause_def vault_unpause_def vault_withdraw_def vault_get_daily_claimed_def
  vault_cleanup_claims_def

lemmas vault_thrift_rules = entry_thrifty transfer_thrifty owner_thrifty each_thrifty thrifty_require get_caller.thrift
  get_value.thrift get_block_timestamp.thrift get_contract_address.thrift get_balance.thrift storage_get.thrift
  storage_set.thrift storage_exists.thrift storage_remove.thrift log_text.thrift get_u64.thrift get_u128.thrift
  set_u64.thrift set_u128.thrift

text \<open>
  No call of the reward vault ever pays anything out: whatever the entry point, the arguments and the storage, a run
  that returns has asked for no transfer.
\<close>

theorem vault_never_pays:
  assumes "vault_entries K mname = Some (n, body)"
    and "run_guest child lossy (body ptr_len mem) env = (Returned (), m, env')"
  shows "he_transfers env' = he_transfers env"
proof -
  have "thrifty child lossy (body ptr_len mem)"
    using assms(1)
    by (auto simp: vault_entries_def vault_defs Let_def split: if_splits option.split intro!: vault_thrift_rules)
  moreover have "returns child lossy (body ptr_len mem) env env'" using assms(2) by (auto simp: returns_def)
  ultimately show ?thesis by (rule thriftyD)
qed

text \<open>
  A claim of a positive amount always aborts on the chain, whoever makes it and whatever the storage holds (a contract's memory has
  at least one page of 64 KiB).
\<close>

theorem vault_claim_never_returns:
  assumes "vc_dec_claim K (take (unat (ptr_len ! 1)) (drop (unat (ptr_len ! 0)) mem)) = Some (r, amount, nonce)"
    and "amount > 0" and "65536 \<le> length mem" and "he_memory env \<noteq> None"
  shows "fst (run_guest child lossy (vault_claim_reward K ptr_len mem) env) \<noteq> Returned ()"
proof -
  have "\<not> returns child lossy (vault_claim_reward K ptr_len mem) env env'" for env'
    unfolding vault_claim_reward_def sdk_entry_def assms(1) option.case prod.case Let_def
    by (intro storage_get.stuck require_stuck get_caller.stuck get_u64.stuck get_block_timestamp.stuck get_u128.stuck
        get_contract_address.stuck get_balance.stuck set_u128.stuck set_u64.stuck transfer_stuck assms(2,4)) (use assms(3) in simp_all)
  then show ?thesis by (metis returns_def prod.collapse)
qed

definition sample_vault_codec :: vault_codec where
  "sample_vault_codec = \<lparr>vc_dec_init = (\<lambda>_. None), vc_dec_claim = (\<lambda>_. Some (alice, 6, 0)), vc_dec_unit = (\<lambda>_. Some ()),
     vc_dec_amount = (\<lambda>_. None), vc_dec_addr = (\<lambda>_. Some alice), vc_dec_cleanup = (\<lambda>_. None)\<rparr>"

theorem vault_claim_never_returns_witness:
  "fst (run_guest no_child bytes_string (vault_claim_reward sample_vault_codec [0, 0] (replicate 65536 0)) (method_env bt_empty))
     \<noteq> Returned ()"
  by (rule vault_claim_never_returns[where r = alice and amount = 6 and nonce = 0])
    (simp_all add: sample_vault_codec_def method_env_def)

lemma fund_returns:
  "\<exists>m env'. run_guest no_child (\<lambda>_. '''') (vault_fund sample_vault_codec [0, 0] []) (method_env bt_empty) = (Returned (), m, env')"
  by (simp add: vault_fund_def sdk_entry_def sample_vault_codec_def sdk_get_value_def sdk_log_def i64_of_def run_guest_Call
      share_memory_def guest_memory_def method_env_def new_host_env_def new_top_level_def host_value_lo_def host_value_hi_def
      host_log_def check_fuel_def consume_fuel_def HOST_CALL_BASE_FUEL_def MAX_LOG_ENTRIES_def read_bytes_def
      MAX_HOST_BUFFER_SIZE_def view_read_def split: option.split)

theorem vault_never_pays_witness:
  "\<exists>m env'. run_guest no_child (\<lambda>_. '''') (vault_fund sample_vault_codec [0, 0] []) (method_env bt_empty) = (Returned (), m, env')
     \<and> he_transfers env' = he_transfers (method_env bt_empty)"
proof -
  obtain m env' where run: "run_guest no_child (\<lambda>_. '''') (vault_fund sample_vault_codec [0, 0] []) (method_env bt_empty)
      = (Returned (), m, env')"
    using fund_returns by blast
  have "vault_entries sample_vault_codec ''fund'' = Some (2, vault_fund sample_vault_codec)" by (simp add: vault_entries_def)
  from vault_never_pays[OF this run] show ?thesis using run by blast
qed

end
