(* ===== verification/Test_Framework.thy ===== *)
theory Test_Framework
  imports Vm_Results
begin

text \<open>
  The test framework of contract developers (\<open>test-framework/src/lib.rs\<close>): an environment with balances,
  code and storage of its own that runs contracts on the engine.

  Whether a test says something about the chain is the question of this theory. A call that the
  chain accepts does the same in the test environment, provided the engine answers the same there
  (\<open>same_run\<close>: the test environment knows no agents and no other contracts). Calls that the chain
  rejects are another matter: the environment keeps the value of a failed call and pays what a contract can
  still afford.
\<close>

section \<open>The environment\<close>

record CallResult =
  cr_return_data :: bytes
  cr_events :: "ContractEvent list"
  cr_fuel_consumed :: u64

definition from_execution_result :: "ExecutionResult \<Rightarrow> CallResult" where
  "from_execution_result r = \<lparr>cr_return_data = er_return_data r, cr_events = er_events r,
     cr_fuel_consumed = er_fuel_consumed r\<rparr>"

record TestEnv =
  te_balances :: "(address, u128) btree"
  te_contract_code :: "(address, bytes) btree"
  te_storage :: "(address \<times> bytes, bytes) btree"
  te_block_height :: u64
  te_block_timestamp :: u64
  te_deploy_nonces :: "(address, u64) btree"

definition TestEnv_new :: TestEnv where
  "TestEnv_new = \<lparr>te_balances = bt_empty, te_contract_code = bt_empty, te_storage = bt_empty, te_block_height = 0,
     te_block_timestamp = 0, te_deploy_nonces = bt_empty\<rparr>"

definition test_set_balance :: "address \<Rightarrow> u128 \<Rightarrow> TestEnv \<Rightarrow> TestEnv" where
  "test_set_balance a amount t = t\<lparr>te_balances := bt_insert a amount (te_balances t)\<rparr>"

definition test_get_balance :: "TestEnv \<Rightarrow> address \<Rightarrow> u128" where
  "test_get_balance t a = bt_get_or (te_balances t) 0 a"

definition test_advance_blocks :: "u64 \<Rightarrow> TestEnv \<Rightarrow> TestEnv" where
  "test_advance_blocks n t = t\<lparr>te_block_height := te_block_height t + n\<rparr>"

definition test_advance_block :: "TestEnv \<Rightarrow> TestEnv" where
  "test_advance_block t = t\<lparr>te_block_height := te_block_height t + 1\<rparr>"

definition test_set_timestamp :: "u64 \<Rightarrow> TestEnv \<Rightarrow> TestEnv" where
  "test_set_timestamp ts t = t\<lparr>te_block_timestamp := ts\<rparr>"

definition test_get_storage :: "TestEnv \<Rightarrow> address \<Rightarrow> bytes \<Rightarrow> bytes option" where
  "test_get_storage t contract key = bt_get (te_storage t) (contract, key)"

text \<open>\<open>TestChainState\<close>: balances only.\<close>

definition test_chain_state :: "TestEnv \<Rightarrow> ChainStateSnapshot" where
  "test_chain_state t = \<lparr>cs_balances = te_balances t, cs_agent_scores = bt_empty, cs_registered_agents = bt_empty,
     cs_contract_storage = bt_empty, cs_contract_code = bt_empty\<rparr>"

definition contract_storage_snapshot :: "address \<Rightarrow> TestEnv \<Rightarrow> (bytes, bytes) btree" where
  "contract_storage_snapshot contract t =
     fold (\<lambda>p m. bt_insert (snd (fst p)) (snd p) m)
       (filter (\<lambda>p. fst (fst p) = contract) (entries (te_storage t))) bt_empty"

fun test_apply_storage_changes :: "address \<Rightarrow> (bytes \<times> bytes option) list \<Rightarrow> TestEnv \<Rightarrow> TestEnv" where
  "test_apply_storage_changes contract [] t = t"
| "test_apply_storage_changes contract ((key, maybe_val) # changes) t =
     test_apply_storage_changes contract changes (case maybe_val of
         Some v \<Rightarrow> t\<lparr>te_storage := bt_insert (contract, key) v (te_storage t)\<rparr>
       | None \<Rightarrow> t\<lparr>te_storage := bt_remove (contract, key) (te_storage t)\<rparr>)"

definition test_move :: "address \<Rightarrow> address \<Rightarrow> u128 \<Rightarrow> TestEnv \<Rightarrow> TestEnv" where
  "test_move from to amount t =
     t\<lparr>te_balances := bt_entry to 0 (\<lambda>b. b + amount) (bt_entry from 0 (\<lambda>b. b - amount) (te_balances t))\<rparr>"

fun test_apply_transfers :: "address \<Rightarrow> (address \<times> u128) list \<Rightarrow> TestEnv \<Rightarrow> TestEnv" where
  "test_apply_transfers from [] t = t"
| "test_apply_transfers from ((to, amount) # transfers) t =
     test_apply_transfers from transfers
       (if bt_get_or (te_balances t) 0 from \<ge> amount then test_move from to amount t else t)"

section \<open>Deploying and calling\<close>

datatype TestError =
    EmptyWasm
  | ValidationFailed VmError
  | InitFailed VmError
  | NotDeployed address
  | TestInsufficient u128 u128
  | CallFailed VmError

text \<open>\<open>None\<close>: the contract never returns, and neither does the test.\<close>

definition test_deploy ::
  "externals \<Rightarrow> wasm_runtime \<Rightarrow> address \<Rightarrow> bytes \<Rightarrow> string \<Rightarrow> bytes \<Rightarrow> TestEnv \<Rightarrow> (TestError + address) option \<times> TestEnv" where
  "test_deploy E R deployer wasm init_method init_args t =
     (if wasm = [] then (Some (Inl EmptyWasm), t)
      else case validate E wasm of
          Inl e \<Rightarrow> (Some (Inl (ValidationFailed e)), t)
        | Inr _ \<Rightarrow>
            (let nonce = bt_get_or (te_deploy_nonces t) 0 deployer;
                 contract_address = derive_contract_address E deployer nonce;
                 context = new_top_level deployer contract_address (te_block_height t) (te_block_timestamp t) 0
                   DEFAULT_FUEL_LIMIT False in
             case fst (execute E R wasm init_method init_args context (contract_storage_snapshot contract_address t)
                    (test_chain_state t)) of
               None \<Rightarrow> (None, t)
             | Some (Inl e) \<Rightarrow> (Some (Inl (InitFailed e)), t)
             | Some (Inr result) \<Rightarrow>
                 (let t1 = test_apply_storage_changes contract_address (er_storage_changes result) t;
                      t2 = test_apply_transfers contract_address (er_transfers result) t1 in
                  (Some (Inr contract_address),
                   t2\<lparr>te_contract_code := bt_insert contract_address wasm (te_contract_code t2),
                      te_deploy_nonces := bt_insert deployer (nonce + 1) (te_deploy_nonces t2)\<rparr>))))"

definition test_call ::
  "externals \<Rightarrow> wasm_runtime \<Rightarrow> address \<Rightarrow> address \<Rightarrow> string \<Rightarrow> bytes \<Rightarrow> u128 \<Rightarrow> TestEnv
   \<Rightarrow> (TestError + CallResult) option \<times> TestEnv" where
  "test_call E R caller contract meth args val t = (case bt_get (te_contract_code t) contract of
      None \<Rightarrow> (Some (Inl (NotDeployed contract)), t)
    | Some wasm \<Rightarrow>
        (let caller_bal = bt_get_or (te_balances t) 0 caller in
         if val > 0 \<and> caller_bal < val then (Some (Inl (TestInsufficient caller_bal val)), t)
         else
           (let t1 = (if val > 0 then test_move caller contract val t else t);
                context = new_top_level caller contract (te_block_height t1) (te_block_timestamp t1) val
                  DEFAULT_FUEL_LIMIT False in
            case fst (execute E R wasm meth args context (contract_storage_snapshot contract t1) (test_chain_state t1)) of
              None \<Rightarrow> (None, t1)
            | Some (Inl e) \<Rightarrow> (Some (Inl (CallFailed e)), t1)
            | Some (Inr result) \<Rightarrow>
                (Some (Inr (from_execution_result result)),
                 test_apply_transfers contract (er_transfers result)
                   (test_apply_storage_changes contract (er_storage_changes result) t1)))))"

section \<open>The environment and the chain\<close>

definition mirrors :: "TestEnv \<Rightarrow> WorldState \<Rightarrow> bool" where
  "mirrors t w \<longleftrightarrow> te_balances t = balances w \<and> te_contract_code t = contract_code w
     \<and> te_storage t = contract_storage w \<and> te_block_height t = block_height w
     \<and> te_block_timestamp t = block_timestamp w"

lemma mirrors_snapshot: "mirrors t w \<Longrightarrow> contract_storage_snapshot c t = storage_of c w"
  by (simp add: contract_storage_snapshot_def storage_of_def mirrors_def)

lemma mirrors_storage:
  "mirrors t w \<Longrightarrow> mirrors (test_apply_storage_changes c changes t) (apply_storage_changes c changes w)"
proof (induction changes arbitrary: t w)
  case (Cons x changes)
  obtain key v where x: "x = (key, v)" by force
  show ?case
  proof (cases v)
    case None
    then have "mirrors (t\<lparr>te_storage := bt_remove (c, key) (te_storage t)\<rparr>)
        (w\<lparr>contract_storage := bt_remove (c, key) (contract_storage w)\<rparr>)"
      using Cons.prems by (simp add: mirrors_def)
    from Cons.IH[OF this] show ?thesis by (simp add: x None apply_storage_changes_def)
  next
    case (Some a)
    then have "mirrors (t\<lparr>te_storage := bt_insert (c, key) a (te_storage t)\<rparr>)
        (w\<lparr>contract_storage := bt_insert (c, key) a (contract_storage w)\<rparr>)"
      using Cons.prems by (simp add: mirrors_def)
    from Cons.IH[OF this] show ?thesis by (simp add: x Some apply_storage_changes_def)
  qed
qed (simp add: apply_storage_changes_def)

lemma mirrors_move: "mirrors t w \<Longrightarrow> mirrors (test_move from to amount t) (credit to amount (debit from amount w))"
  by (simp add: mirrors_def test_move_def credit_def debit_def)

text \<open>
  The chain looks at the sum of the transfers first, the environment at one after the other: if the
  sum is covered, so is each of them.
\<close>

lemma move_balance:
  assumes "amount \<le> bt_get_or (te_balances t) 0 from"
  shows "bt_get_or (te_balances t) 0 from - amount \<le> bt_get_or (te_balances (test_move from to amount t)) 0 from"
proof -
  have "bt_get_or (te_balances t) 0 from - amount \<le> bt_get_or (te_balances t) 0 from"
    using assms by (simp add: word_le_nat_alt unat_sub)
  then show ?thesis by (auto simp: test_move_def)
qed

lemma covered_step:
  fixes bal spent amount held :: u128
  assumes "saturating_add spent amount \<le> bal" "unat bal < 2 ^ 128 - 1" "spent \<le> bal" "bal - spent \<le> held"
  shows "amount \<le> held" and "bal - saturating_add spent amount \<le> held - amount"
proof -
  have "unat (saturating_add spent amount) \<le> unat bal" using assms(1) by (simp add: word_le_nat_alt)
  then have s: "unat (saturating_add spent amount) = unat spent + unat amount"
    using assms(2) by (simp add: unat_saturating_add)
  have h: "unat bal - unat spent \<le> unat held" using assms(3,4) by (simp add: word_le_nat_alt unat_sub)
  then show amount: "amount \<le> held" using s assms(1) by (simp add: word_le_nat_alt)
  show "bal - saturating_add spent amount \<le> held - amount"
    using s h amount assms(1) by (simp add: word_le_nat_alt unat_sub)
qed

lemma covered_transfers:
  assumes "check_transfers bal spent transfers = Inr ()" and "unat bal < 2 ^ 128 - 1" and "spent \<le> bal"
    and "bal - spent \<le> bt_get_or (te_balances t) 0 from" and "mirrors t w"
  shows "mirrors (test_apply_transfers from transfers t) (apply_transfers from transfers w)"
  using assms
proof (induction transfers arbitrary: spent t w)
  case (Cons x transfers)
  obtain to amount where x: "x = (to, amount)" by force
  have le: "saturating_add spent amount \<le> bal" and rest: "check_transfers bal (saturating_add spent amount) transfers = Inr ()"
    using Cons.prems(1) by (simp_all add: x Let_def split: if_splits)
  have fits: "amount \<le> bt_get_or (te_balances t) 0 from"
    and left: "bal - saturating_add spent amount \<le> bt_get_or (te_balances t) 0 from - amount"
    using covered_step[OF le Cons.prems(2-4)] by blast+
  have "mirrors (test_apply_transfers from transfers (test_move from to amount t))
      (apply_transfers from transfers (credit to amount (debit from amount w)))"
    by (rule Cons.IH[OF rest Cons.prems(2) le order.trans[OF left move_balance[OF fits]] mirrors_move[OF Cons.prems(5)]])
  then show ?case using fits by (simp add: x apply_transfers_def)
qed (simp add: apply_transfers_def)

text \<open>The engine answers a run in the test environment as it does on the chain.\<close>

definition same_run :: "externals \<Rightarrow> wasm_runtime \<Rightarrow> address \<Rightarrow> ContractCallPayload \<Rightarrow> WorldState \<Rightarrow> TestEnv \<Rightarrow> bool" where
  "same_run E R caller p w t \<longleftrightarrow>
     (let ctx = new_top_level caller (ccp_contract p) (block_height w) (block_timestamp w) (ccp_value p)
            DEFAULT_FUEL_LIMIT False;
          code = bt_get_or (contract_code w) [] (ccp_contract p);
          storage = storage_of (ccp_contract p) w in
      fst (execute E R code (ccp_method p) (ccp_args p) ctx storage (test_chain_state t))
        = Some (execute_with_timeout E code (ccp_method p) (ccp_args p) ctx storage w))"

lemma send_value_frame [simp]:
  "contract_code (send_value f c v w) = contract_code w" "block_height (send_value f c v w) = block_height w"
  "block_timestamp (send_value f c v w) = block_timestamp w"
  by (simp_all add: send_value_def credit_def debit_def)

lemma mirrors_send: "mirrors t w \<Longrightarrow> mirrors (if v > 0 then test_move f c v t else t) (send_value f c v w)"
  by (simp add: send_value_def mirrors_move)

text \<open>
  C26. A test says what the chain does: if the environment holds what the chain holds and the chain
  accepts a call of a contract, and the engine answers the run in the environment as on the chain, then the
  same call succeeds in the test environment, which afterwards holds what the chain holds: the
  balances with the attached value and the contract's transfers, and the storage.
\<close>

theorem test_call_mirrors_chain:
  assumes "mirrors t w" and "dec_contract_call E (tx_payload tx) = Inr p"
    and "handle_contract_call E i w tx = (Inr reply, w')"
    and "same_run E R (tx_from tx) p (send_value (tx_from tx) (ccp_contract p) (ccp_value p) w)
      (if ccp_value p > 0 then test_move (tx_from tx) (ccp_contract p) (ccp_value p) t else t)"
    and "unat (bt_get_or (balances (send_value (tx_from tx) (ccp_contract p) (ccp_value p) w)) 0 (ccp_contract p)) < 2 ^ 128 - 1"
  shows "\<exists>res t'. test_call E R (tx_from tx) (ccp_contract p) (ccp_method p) (ccp_args p) (ccp_value p) t = (Some (Inr res), t')
    \<and> mirrors t' w'"
proof -
  let ?w1 = "send_value (tx_from tx) (ccp_contract p) (ccp_value p) w"
  let ?t1 = "if ccp_value p > 0 then test_move (tx_from tx) (ccp_contract p) (ccp_value p) t else t"
  let ?ctx = "new_top_level (tx_from tx) (ccp_contract p) (block_height w) (block_timestamp w) (ccp_value p)
      DEFAULT_FUEL_LIMIT False"
  have m1: "mirrors ?t1 ?w1" by (rule mirrors_send[OF assms(1)])
  obtain code result where code: "bt_get (contract_code w) (ccp_contract p) = Some code"
    and funds: "\<not> (ccp_value p > 0 \<and> bt_get_or (balances w) 0 (tx_from tx) < ccp_value p)"
    and run: "execute_with_timeout E code (ccp_method p) (ccp_args p) ?ctx (storage_of (ccp_contract p) ?w1) ?w1 = Inr result"
    and chk: "check_transfers (bt_get_or (balances ?w1) 0 (ccp_contract p)) 0 (er_transfers result) = Inr ()"
    and w': "w' = apply_transfers (ccp_contract p) (er_transfers result)
        (apply_storage_changes (ccp_contract p) (er_storage_changes result) ?w1)"
    using assms(2,3)
    by (auto simp: handle_contract_call_def Let_def split: contract_splits)
  have exec: "fst (execute E R code (ccp_method p) (ccp_args p) ?ctx (contract_storage_snapshot (ccp_contract p) ?t1)
      (test_chain_state ?t1)) = Some (Inr result)"
    using assms(4) run code mirrors_snapshot[OF m1] by (simp add: same_run_def Let_def bt_get_or_def)
  let ?t2 = "test_apply_storage_changes (ccp_contract p) (er_storage_changes result) ?t1"
  have m2: "mirrors ?t2 (apply_storage_changes (ccp_contract p) (er_storage_changes result) ?w1)"
    by (rule mirrors_storage[OF m1])
  have "bt_get_or (te_balances ?t2) 0 (ccp_contract p) = bt_get_or (balances ?w1) 0 (ccp_contract p)"
    using m2 by (simp add: mirrors_def)
  then have "mirrors (test_apply_transfers (ccp_contract p) (er_transfers result) ?t2) w'"
    unfolding w' by (intro covered_transfers[OF chk assms(5) _ _ m2]) simp_all
  moreover have "te_contract_code t = contract_code w" "te_balances t = balances w"
    "te_block_height ?t1 = block_height w" "te_block_timestamp ?t1 = block_timestamp w"
    using assms(1) m1 by (simp_all add: mirrors_def test_move_def)
  ultimately show ?thesis
    using code funds exec by (simp add: test_call_def Let_def)
qed

text \<open>Alice calls bob's contract, which stores the value 9 under the key 7.\<close>

definition test_world :: TestEnv where
  "test_world = \<lparr>te_balances = balances sample_world, te_contract_code = contract_code sample_world,
     te_storage = contract_storage sample_world, te_block_height = block_height sample_world,
     te_block_timestamp = block_timestamp sample_world, te_deploy_nonces = bt_empty\<rparr>"

lemma lonely_everywhere:
  assumes "env = new_host_env (new_top_level alice bob h ts 0 DEFAULT_FUEL_LIMIT False) st cs child code_map"
  shows "fst (execute_env E lonely_runtime ch [0] ''run'' [] env)
    = Some (Inr \<lparr>er_return_data = [], er_fuel_consumed = 50000, er_storage_changes = [([7], Some [9])],
        er_logs = [], er_transfers = [], er_events = []\<rparr>)"
  unfolding assms
  by (simp add: lonely_runtime_def scripted_run new_host_env_def new_top_level_def
      run_guest_Call share_memory_def guest_memory_def host_storage_write_def check_fuel_def consume_fuel_def
      STORAGE_WRITE_FUEL_def DEFAULT_FUEL_LIMIT_def read_bytes_def MAX_HOST_BUFFER_SIZE_def view_read_def
      collect_result_def)

theorem test_call_mirrors_chain_witness:
  "\<exists>x w' res t'. handle_contract_call (with_engine lonely_runtime False False two_contracts_call) 0 sample_world sample_tx
      = (Inr x, w')
    \<and> test_call (with_engine lonely_runtime False False two_contracts_call) lonely_runtime alice bob ''run'' [] 0 test_world
      = (Some (Inr res), t')
    \<and> mirrors t' w'"
proof -
  let ?E = "with_engine lonely_runtime False False two_contracts_call"
  let ?p = "\<lparr>ccp_contract = bob, ccp_method = ''run'', ccp_args = [], ccp_value = 0\<rparr>"
  obtain x w' where run: "handle_contract_call ?E 0 sample_world sample_tx = (Inr x, w')" using lonely_runs by blast
  have m: "mirrors test_world sample_world" by (simp add: mirrors_def test_world_def)
  have p: "dec_contract_call ?E (tx_payload sample_tx) = Inr ?p" by (simp add: two_contracts_call_def)
  have sender: "tx_from sample_tx = alice" by (simp add: sample_tx_def)
  have s: "send_value alice bob 0 sample_world = sample_world" by (simp add: send_value_def)
  have same: "same_run ?E lonely_runtime alice ?p sample_world test_world"
    using lonely_everywhere[OF refl]
    by (simp add: same_run_def Let_def execute_def execute_with_timeout_def with_engine_def execute_with_cross_calls_def
      case_prod_beta)
  have "\<exists>res t'. test_call ?E lonely_runtime (tx_from sample_tx) (ccp_contract ?p) (ccp_method ?p) (ccp_args ?p)
      (ccp_value ?p) test_world = (Some (Inr res), t') \<and> mirrors t' w'"
    by (rule test_call_mirrors_chain[OF m p run]) (simp_all add: sender s same)
  then show ?thesis using run by (auto simp: sender)
qed

section \<open>Where tests and chain part\<close>

text \<open>
  A call that fails on the chain gives the attached value back; in the test environment the contract keeps it.
\<close>

lemma failed_test_call_keeps_value:
  assumes "bt_get (te_contract_code t) contract = Some wasm" and "val > 0" and "val \<le> bt_get_or (te_balances t) 0 caller"
    and "fst (execute E R wasm meth args (new_top_level caller contract (te_block_height t) (te_block_timestamp t) val
        DEFAULT_FUEL_LIMIT False) (contract_storage_snapshot contract t) (test_chain_state (test_move caller contract val t)))
      = Some (Inl e)"
  shows "test_call E R caller contract meth args val t = (Some (Inl (CallFailed e)), test_move caller contract val t)"
proof -
  have "te_block_height (test_move caller contract val t) = te_block_height t"
    "te_block_timestamp (test_move caller contract val t) = te_block_timestamp t"
    "contract_storage_snapshot contract (test_move caller contract val t) = contract_storage_snapshot contract t"
    by (simp_all add: test_move_def contract_storage_snapshot_def)
  then show ?thesis using assms by (simp add: test_call_def Let_def not_less)
qed

text \<open>
  A transfer that the contract cannot pay rejects the whole call on the chain; the test environment leaves
  it out and reports success.
\<close>

lemma unaffordable_transfer:
  assumes "bt_get_or (te_balances t) 0 contract < amount"
  shows "test_apply_transfers contract [(to, amount)] t = t"
    and "\<exists>e. check_transfers (bt_get_or (te_balances t) 0 contract) 0 [(to, amount)] = Inl e"
proof -
  show "test_apply_transfers contract [(to, amount)] t = t" using assms by (simp add: not_le)
  have "saturating_add 0 amount = amount" using unsigned_less[of amount, where 'a = nat] by (simp add: saturating_add_def)
  then show "\<exists>e. check_transfers (bt_get_or (te_balances t) 0 contract) 0 [(to, amount)] = Inl e"
    using assms by (simp add: Let_def)
qed

text \<open>Every deployment has an address of its own, as long as the hash does not collide.\<close>

lemma test_deploy_nonce:
  assumes "test_deploy E R deployer wasm init_method init_args t = (Some (Inr a), t')"
  shows "a = derive_contract_address E deployer (bt_get_or (te_deploy_nonces t) 0 deployer)"
    and "bt_get_or (te_deploy_nonces t') 0 deployer = bt_get_or (te_deploy_nonces t) 0 deployer + 1"
    and "bt_get (te_contract_code t') a = Some wasm"
  using assms by (auto simp: test_deploy_def Let_def split: if_splits sum.splits option.splits)

end
