(* ===== verification/P2p_Wire.thy ===== *)
theory P2p_Wire
  imports Chain_Events
begin

text \<open>
  The wire protocol (\<open>p2p/src/protocol.rs\<close>) and the framing of synchronisation messages
  (\<open>SyncCodec\<close> of \<open>p2p/src/behaviour.rs\<close>): topic names, gossip messages, and frames of a
  four-byte big-endian length followed by the payload.

  A stream is the list of the bytes that the peer has written and that are not yet read. Reading
  past its end is the error \<open>UnexpectedEof\<close>, which leaves nothing to read.
\<close>

section \<open>Limits, topics and messages\<close>

definition MAX_P2P_MESSAGE_SIZE :: nat where
  "MAX_P2P_MESSAGE_SIZE = 1024 * 1024"

definition MAX_PEER_CONNECTIONS :: nat where
  "MAX_PEER_CONNECTIONS = 128"

definition topic_tx :: "string \<Rightarrow> string" where
  "topic_tx chain_id = ''claw/'' @ chain_id @ ''/tx/1''"

definition topic_block :: "string \<Rightarrow> string" where
  "topic_block chain_id = ''claw/'' @ chain_id @ ''/block/1''"

definition topic_vote :: "string \<Rightarrow> string" where
  "topic_vote chain_id = ''claw/'' @ chain_id @ ''/vote/1''"

definition topic_miner_checkin :: "string \<Rightarrow> string" where
  "topic_miner_checkin chain_id = ''claw/'' @ chain_id @ ''/miner-checkin/1''"

definition sync_protocol :: "string \<Rightarrow> string" where
  "sync_protocol chain_id = ''/claw/'' @ chain_id @ ''/sync/1''"

lemmas topic_defs = topic_tx_def topic_block_def topic_vote_def topic_miner_checkin_def

datatype GossipMessage =
    GossipNewTx Transaction
  | GossipNewBlock Block
  | GossipBlockVote BlockVote
  | GossipMinerCheckin MinerCheckinWitness

text \<open>The four topics of a chain, in the order in which the network subscribes to them.\<close>

definition chain_topics :: "string \<Rightarrow> string list" where
  "chain_topics chain_id =
     [topic_tx chain_id, topic_block chain_id, topic_vote chain_id, topic_miner_checkin chain_id]"

lemma topic_kinds_differ:
  "topic_tx c \<noteq> topic_block d" "topic_tx c \<noteq> topic_vote d" "topic_tx c \<noteq> topic_miner_checkin d"
  "topic_block c \<noteq> topic_vote d" "topic_block c \<noteq> topic_miner_checkin d" "topic_vote c \<noteq> topic_miner_checkin d"
proof -
  have last3: "x \<noteq> y" if "rev x ! 2 \<noteq> rev y ! 2" for x y :: string
    using that by auto
  show "topic_tx c \<noteq> topic_block d" "topic_tx c \<noteq> topic_vote d" "topic_tx c \<noteq> topic_miner_checkin d"
    "topic_block c \<noteq> topic_vote d" "topic_block c \<noteq> topic_miner_checkin d" "topic_vote c \<noteq> topic_miner_checkin d"
    by (rule last3, simp add: topic_defs)+
qed

lemma topic_inject [simp]:
  "topic_tx c = topic_tx d \<longleftrightarrow> c = d" "topic_block c = topic_block d \<longleftrightarrow> c = d"
  "topic_vote c = topic_vote d \<longleftrightarrow> c = d" "topic_miner_checkin c = topic_miner_checkin d \<longleftrightarrow> c = d"
  by (simp_all add: topic_defs)

text \<open>Nodes of different chains share no gossip topic and no synchronisation protocol.\<close>

lemma chains_do_not_overhear:
  assumes "c \<noteq> d"
  shows "set (chain_topics c) \<inter> set (chain_topics d) = {}" and "sync_protocol c \<noteq> sync_protocol d"
  using assms by (auto simp: chain_topics_def topic_kinds_differ topic_kinds_differ[symmetric] sync_protocol_def)

lemma distinct_chain_topics: "distinct (chain_topics c)"
  by (simp add: chain_topics_def topic_kinds_differ)

section \<open>Frames\<close>

datatype IoError = UnexpectedEof | InvalidData string

type_synonym 'a io = "(IoError + 'a) \<times> bytes"

definition to_be_bytes :: "'a::len word \<Rightarrow> bytes" where
  "to_be_bytes w = rev (to_le_bytes w)"

definition from_be_bytes :: "bytes \<Rightarrow> 'a::len word" where
  "from_be_bytes bs = from_le_bytes (rev bs)"

definition read_exact :: "nat \<Rightarrow> bytes \<Rightarrow> bytes io" where
  "read_exact n stream = (if n \<le> length stream then (Inr (take n stream), drop n stream) else (Inl UnexpectedEof, []))"

definition read_request :: "bytes \<Rightarrow> bytes io" where
  "read_request stream = (case read_exact 4 stream of
      (Inl e, stream') \<Rightarrow> (Inl e, stream')
    | (Inr len_buf, stream') \<Rightarrow>
        (let len = unat (from_be_bytes len_buf :: u32) in
         if len > MAX_P2P_MESSAGE_SIZE then (Inl (InvalidData ''message too large''), stream')
         else read_exact len stream'))"

definition read_response :: "bytes \<Rightarrow> bytes io" where
  "read_response stream = read_request stream"

definition write_request :: "bytes \<Rightarrow> bytes \<Rightarrow> bytes" where
  "write_request req stream = stream @ to_be_bytes (of_nat (length req) :: u32) @ req"

definition write_response :: "bytes \<Rightarrow> bytes \<Rightarrow> bytes" where
  "write_response resp stream = write_request resp stream"

lemma from_to_be_bytes [simp]: "from_be_bytes (to_be_bytes w) = (w :: u32)"
  by (simp add: from_be_bytes_def to_be_bytes_def)

lemma read_exact_append [simp]: "n = length xs \<Longrightarrow> read_exact n (xs @ ys) = (Inr xs, ys)"
  by (simp add: read_exact_def)

lemma length_to_be_bytes [simp]: "length (to_be_bytes (w :: u32)) = 4"
  by (simp add: to_be_bytes_def)

text \<open>What the reader makes of a written frame, whatever its size: the length is kept modulo \<open>2 ^ 32\<close>.\<close>

lemma read_of_written:
  "read_request (write_request req [] @ rest) =
     (let len = length req mod 2 ^ 32 in
      if len > MAX_P2P_MESSAGE_SIZE then (Inl (InvalidData ''message too large''), req @ rest)
      else (Inr (take len req), drop len req @ rest))"
proof -
  have "unat (of_nat (length req) :: u32) = length req mod 2 ^ 32"
    by (simp add: unat_of_nat)
  moreover have "length req mod 2 ^ 32 \<le> length req" by simp
  ultimately show ?thesis
    by (simp add: read_request_def write_request_def read_exact_def Let_def)
qed

lemma frame_fits:
  assumes "length req \<le> MAX_P2P_MESSAGE_SIZE"
  shows "read_request (write_request req [] @ rest) = (Inr req, rest)"
proof -
  have "length req mod 2 ^ 32 = length req" using assms by (simp add: MAX_P2P_MESSAGE_SIZE_def)
  then show ?thesis using assms by (simp add: read_of_written Let_def)
qed

lemma frame_too_large:
  assumes "MAX_P2P_MESSAGE_SIZE < length req" and "length req < 2 ^ 32"
  shows "fst (read_request (write_request req [] @ rest)) = Inl (InvalidData ''message too large'')"
  using assms by (simp add: read_of_written Let_def)

text \<open>
  A stream of frames, each within the limit, is read back as the messages that were written, in
  their order and to the last byte.
\<close>

fun read_frames :: "nat \<Rightarrow> bytes \<Rightarrow> bytes list io" where
  "read_frames 0 stream = (Inr [], stream)"
| "read_frames (Suc n) stream = (case read_request stream of
      (Inl e, stream') \<Rightarrow> (Inl e, stream')
    | (Inr m, stream') \<Rightarrow> (case read_frames n stream' of
        (Inl e, stream'') \<Rightarrow> (Inl e, stream'')
      | (Inr ms, stream'') \<Rightarrow> (Inr (m # ms), stream'')))"

lemma write_request_append: "write_request req stream = stream @ write_request req []"
  by (simp add: write_request_def)

lemma fold_write: "fold write_request ms stream = stream @ fold write_request ms []"
proof (induction ms arbitrary: stream)
  case (Cons m ms)
  show ?case
    using Cons[of "write_request m stream"] Cons[of "write_request m []"]
    by (simp add: write_request_append[of m stream])
qed simp

lemma frames_roundtrip:
  assumes "\<forall>m \<in> set ms. length m \<le> MAX_P2P_MESSAGE_SIZE"
  shows "read_frames (length ms) (fold write_request ms []) = (Inr ms, [])"
  using assms
proof (induction ms)
  case (Cons m ms)
  then show ?case
    using frame_fits[of m "fold write_request ms []"]
    by (simp add: fold_write[of ms "write_request m []"])
qed simp

end
