(* ===== verification/Files.thy ===== *)
theory Files
  imports Prelude
begin

text \<open>
  The files of a node's data directory, as far as the key and configuration code uses them: whole
  files by name, with their content and their Unix permission bits.

  What the operating system answers is a parameter (\<open>fs_env\<close>): whether a directory can be made, a
  file read, written or given permissions, and the mode of a new file (the umask). A call that
  fails leaves the disk as it was. \<open>fs::write\<close> keeps the mode of a file that exists.
\<close>

record File =
  fl_content :: bytes
  fl_mode :: nat

type_synonym disk = "string \<Rightarrow> File option"

record fs_env =
  fs_mkdir :: bool
  fs_can_read :: "string \<Rightarrow> bool"
  fs_can_write :: "string \<Rightarrow> bool"
  fs_can_chmod :: "string \<Rightarrow> bool"
  fs_new_mode :: nat

definition OWNER_ONLY :: nat where
  "OWNER_ONLY = 6 * 8 ^ 2"

definition fs_exists :: "string \<Rightarrow> disk \<Rightarrow> bool" where
  "fs_exists name d \<longleftrightarrow> d name \<noteq> None"

definition fs_read :: "fs_env \<Rightarrow> string \<Rightarrow> disk \<Rightarrow> bytes option" where
  "fs_read F name d = (if fs_can_read F name then map_option fl_content (d name) else None)"

definition fs_write :: "fs_env \<Rightarrow> string \<Rightarrow> bytes \<Rightarrow> disk \<Rightarrow> bool \<times> disk" where
  "fs_write F name content d =
     (if fs_can_write F name
      then (True, d(name \<mapsto> \<lparr>fl_content = content,
               fl_mode = (case d name of Some f \<Rightarrow> fl_mode f | None \<Rightarrow> fs_new_mode F)\<rparr>))
      else (False, d))"

definition fs_set_permissions :: "fs_env \<Rightarrow> string \<Rightarrow> nat \<Rightarrow> disk \<Rightarrow> bool \<times> disk" where
  "fs_set_permissions F name mode d = (case d name of
      Some f \<Rightarrow> if fs_can_chmod F name then (True, d(name \<mapsto> f\<lparr>fl_mode := mode\<rparr>)) else (False, d)
    | None \<Rightarrow> (False, d))"

text \<open>A \<open>String\<close> is its UTF-8 bytes.\<close>

definition text_of_bytes :: "bytes \<Rightarrow> string" where
  "text_of_bytes bs = map (\<lambda>b. char_of (unat b)) bs"

lemma char_of_byte [simp]: "char_of (unat (of_char c :: byte)) = c"
proof -
  have "unat (of_char c :: byte) = of_char c"
    by (cases c) (simp add: of_char_def unat_of_nat)
  then show ?thesis by simp
qed

lemma text_of_string_bytes [simp]: "text_of_bytes (string_bytes s) = s"
  by (simp add: text_of_bytes_def string_bytes_def comp_def)

definition fs_read_to_string :: "fs_env \<Rightarrow> string \<Rightarrow> disk \<Rightarrow> string option" where
  "fs_read_to_string F name d = map_option text_of_bytes (fs_read F name d)"

text \<open>Every answer of an operating system that refuses nothing.\<close>

definition fs_healthy :: "fs_env \<Rightarrow> bool" where
  "fs_healthy F \<longleftrightarrow> fs_mkdir F \<and> (\<forall>name. fs_can_read F name \<and> fs_can_write F name \<and> fs_can_chmod F name)"

lemma fs_write_frame: "fs_write F name content d = (ok, d') \<Longrightarrow> other \<noteq> name \<Longrightarrow> d' other = d other"
  by (auto simp: fs_write_def split: if_splits)

lemma fs_set_permissions_frame:
  "fs_set_permissions F name mode d = (ok, d') \<Longrightarrow> other \<noteq> name \<Longrightarrow> d' other = d other"
  by (auto simp: fs_set_permissions_def split: if_splits option.splits)

section \<open>Results\<close>

text \<open>The operator \<open>?\<close> and \<open>ok_or\<close> on \<open>Result\<close> and \<open>Option\<close>.\<close>

definition ok_or :: "'e \<Rightarrow> 'a option \<Rightarrow> 'e + 'a" where
  "ok_or e x = (case x of Some a \<Rightarrow> Inr a | None \<Rightarrow> Inl e)"

definition try_then :: "'e + 'a \<Rightarrow> ('a \<Rightarrow> 'e + 'b) \<Rightarrow> 'e + 'b" where
  "try_then r f = (case r of Inl e \<Rightarrow> Inl e | Inr a \<Rightarrow> f a)"

lemma ok_or_simps [simp]: "ok_or e (Some a) = Inr a" "ok_or e None = Inl e"
  by (simp_all add: ok_or_def)

lemma ok_or_Inr [simp]: "ok_or e x = Inr a \<longleftrightarrow> x = Some a"
  by (simp add: ok_or_def split: option.splits)

lemma try_then_simps [simp]: "try_then (Inr a) f = f a" "try_then (Inl e) f = Inl e"
  by (simp_all add: try_then_def)

lemma try_then_Inr: "try_then r f = Inr b \<longleftrightarrow> (\<exists>a. r = Inr a \<and> f a = Inr b)"
  by (simp add: try_then_def split: sum.splits)

end
