(* ===== verification/P2p_Network.thy ===== *)
theory P2p_Network
  imports P2p_Wire Files
begin

text \<open>
  The network task of a node (\<open>p2p/src/network.rs\<close>): it turns the commands of the chain into
  calls of the libp2p swarm and the events of the swarm into events for the chain, and keeps the
  set of peers it tracks.

  libp2p is a parameter. What the task asks of the swarm is returned as a list of actions, and what
  the swarm answers at a moment is a \<open>swarm_env\<close>: whether a publish succeeds, which peers are
  connected, which topics each known peer has subscribed to. The Borsh codecs of the messages are
  the parameter \<open>p2p_codec\<close>. Log lines are left out; the channel to the chain is the list of the
  events that were sent on it.
\<close>

section \<open>Data\<close>

record p2p_codec =
  enc_gossip :: "GossipMessage \<Rightarrow> bytes"
  dec_gossip :: "bytes \<Rightarrow> GossipMessage option"
  enc_sync_request :: "SyncRequest \<Rightarrow> bytes"
  dec_sync_request :: "bytes \<Rightarrow> SyncRequest option"
  enc_sync_response :: "SyncResponse \<Rightarrow> bytes"
  dec_sync_response :: "bytes \<Rightarrow> SyncResponse option"

text \<open>A multiaddress is the sequence of its protocols; only \<open>/p2p/<id>\<close> is looked at.\<close>

datatype multiaddr_protocol = P2p PeerId | OtherProtocol string

type_synonym Multiaddr = "multiaddr_protocol list"

record swarm_env =
  sw_publish :: "string \<Rightarrow> bytes \<Rightarrow> bool"
  sw_connected_peers :: "PeerId list"
  sw_all_peers :: "(PeerId \<times> string list) list"

datatype swarm_action =
    ListenOn u16
  | Dial Multiaddr
  | Subscribe string
  | Unsubscribe string
  | Publish string bytes
  | SendRequest PeerId bytes
  | SendResponse nat bytes

datatype OutboundFailure = UnsupportedProtocols | OtherFailure string

datatype SwarmEvent =
    GossipsubMessage bytes
  | RequestMessage PeerId nat bytes
  | ResponseMessage PeerId bytes
  | RequestOutboundFailure PeerId OutboundFailure
  | RequestInboundFailure PeerId string
  | ResponseSent PeerId
  | MdnsDiscovered "(PeerId \<times> Multiaddr) list"
  | MdnsExpired "(PeerId \<times> Multiaddr) list"
  | NewListenAddr Multiaddr
  | ConnectionEstablished PeerId u32
  | ConnectionClosed PeerId u32
  | OtherSwarmEvent

record P2pNetwork =
  pn_peers :: "PeerId set"
  pn_incompatible_peers :: "PeerId set"
  pn_tx_topic :: string
  pn_block_topic :: string
  pn_vote_topic :: string
  pn_checkin_topic :: string
  pn_bootstrap_addrs :: "Multiaddr list"

section \<open>The identity file\<close>

text \<open>
  \<open>load_or_generate_keypair\<close>: the decoder and the encoder of libp2p key pairs, and the fresh key
  pair, are arguments. An unreadable or undecodable file is an error, never replaced.
\<close>

datatype KeyFileError = KeyRead | KeyDecode | KeyEncode | KeyDir | KeyWrite | KeyMode

definition P2P_KEY_FILE :: string where
  "P2P_KEY_FILE = ''p2p_key''"

definition load_or_generate_keypair ::
  "fs_env \<Rightarrow> (bytes \<Rightarrow> 'k option) \<Rightarrow> ('k \<Rightarrow> bytes option) \<Rightarrow> 'k \<Rightarrow> disk \<Rightarrow> (KeyFileError + 'k) \<times> disk" where
  "load_or_generate_keypair F from_protobuf to_protobuf fresh d =
     (if fs_exists P2P_KEY_FILE d
      then (case fs_read F P2P_KEY_FILE d of
          None \<Rightarrow> (Inl KeyRead, d)
        | Some bs \<Rightarrow> (case from_protobuf bs of
              None \<Rightarrow> (Inl KeyDecode, d)
            | Some keypair \<Rightarrow> (Inr keypair, d)))
      else (case to_protobuf fresh of
          None \<Rightarrow> (Inl KeyEncode, d)
        | Some bs \<Rightarrow>
            if \<not> fs_mkdir F then (Inl KeyDir, d)
            else (case fs_write F P2P_KEY_FILE bs d of
                (False, d1) \<Rightarrow> (Inl KeyWrite, d1)
              | (True, d1) \<Rightarrow> (case fs_set_permissions F P2P_KEY_FILE OWNER_ONLY d1 of
                    (False, d2) \<Rightarrow> (Inl KeyMode, d2)
                  | (True, d2) \<Rightarrow> (Inr fresh, d2)))))"

section \<open>Start\<close>

text \<open>Bootstrap addresses are dialled once each, in their order (\<open>seen_addrs.insert\<close>).\<close>

fun dedup_addrs :: "Multiaddr list \<Rightarrow> Multiaddr list \<Rightarrow> Multiaddr list" where
  "dedup_addrs seen [] = []"
| "dedup_addrs seen (a # as) = (if a \<in> set seen then dedup_addrs seen as else a # dedup_addrs (a # seen) as)"

definition network_new :: "u16 \<Rightarrow> Multiaddr list \<Rightarrow> string \<Rightarrow> swarm_action list \<times> P2pNetwork" where
  "network_new p2p_port bootstrap_addrs chain_id =
     (let stored_bootstrap = dedup_addrs [] bootstrap_addrs in
      ([Subscribe (topic_tx chain_id), Subscribe (topic_block chain_id), Subscribe (topic_vote chain_id),
        Subscribe (topic_miner_checkin chain_id), ListenOn p2p_port] @ map Dial stored_bootstrap,
       \<lparr>pn_peers = {}, pn_incompatible_peers = {}, pn_tx_topic = topic_tx chain_id,
        pn_block_topic = topic_block chain_id, pn_vote_topic = topic_vote chain_id,
        pn_checkin_topic = topic_miner_checkin chain_id, pn_bootstrap_addrs = stored_bootstrap\<rparr>))"

text \<open>
  \<open>P2pNetwork::new\<close>: the identity first, then libp2p is set up, which may fail (\<open>swarm_error\<close>:
  building the behaviour or the swarm, a subscription, listening on the port).
\<close>

datatype StartP2pError = IdentityFailed KeyFileError | SwarmFailed string

definition p2p_new ::
  "fs_env \<Rightarrow> (bytes \<Rightarrow> 'k option) \<Rightarrow> ('k \<Rightarrow> bytes option) \<Rightarrow> 'k \<Rightarrow> string option \<Rightarrow> u16 \<Rightarrow> Multiaddr list \<Rightarrow> string
   \<Rightarrow> disk \<Rightarrow> (StartP2pError + 'k \<times> swarm_action list \<times> P2pNetwork) \<times> disk" where
  "p2p_new F from_protobuf to_protobuf fresh swarm_error p2p_port bootstrap_addrs chain_id d =
     (case load_or_generate_keypair F from_protobuf to_protobuf fresh d of
        (Inl e, d') \<Rightarrow> (Inl (IdentityFailed e), d')
      | (Inr local_key, d') \<Rightarrow> (case swarm_error of
            Some e \<Rightarrow> (Inl (SwarmFailed e), d')
          | None \<Rightarrow> (Inr (local_key, network_new p2p_port bootstrap_addrs chain_id), d')))"

section \<open>Commands of the chain\<close>

definition publish_bounded :: "string \<Rightarrow> bytes \<Rightarrow> swarm_action list" where
  "publish_bounded topic bs = (if length bs > MAX_P2P_MESSAGE_SIZE then [] else [Publish topic bs])"

definition broadcast_tx :: "p2p_codec \<Rightarrow> Transaction \<Rightarrow> P2pNetwork \<Rightarrow> swarm_action list" where
  "broadcast_tx C tx n = publish_bounded (pn_tx_topic n) (enc_gossip C (GossipNewTx tx))"

definition broadcast_block :: "p2p_codec \<Rightarrow> Block \<Rightarrow> P2pNetwork \<Rightarrow> swarm_action list" where
  "broadcast_block C block n = publish_bounded (pn_block_topic n) (enc_gossip C (GossipNewBlock block))"

definition broadcast_vote :: "p2p_codec \<Rightarrow> BlockVote \<Rightarrow> P2pNetwork \<Rightarrow> swarm_action list" where
  "broadcast_vote C vote n = publish_bounded (pn_vote_topic n) (enc_gossip C (GossipBlockVote vote))"

text \<open>A check-in that cannot be published is pushed to every connected peer as a request.\<close>

definition broadcast_checkin ::
  "p2p_codec \<Rightarrow> swarm_env \<Rightarrow> MinerCheckinWitness \<Rightarrow> P2pNetwork \<Rightarrow> swarm_action list" where
  "broadcast_checkin C S witness n =
     (let bs = enc_gossip C (GossipMinerCheckin witness) in
      if length bs > MAX_P2P_MESSAGE_SIZE then []
      else if sw_publish S (pn_checkin_topic n) bs then [Publish (pn_checkin_topic n) bs]
      else Publish (pn_checkin_topic n) bs
           # map (\<lambda>peer_id. SendRequest peer_id (enc_sync_request C (PushMinerCheckin witness)))
               (sw_connected_peers S))"

definition send_sync_request :: "p2p_codec \<Rightarrow> PeerId \<Rightarrow> SyncRequest \<Rightarrow> swarm_action list" where
  "send_sync_request C peer request = [SendRequest peer (enc_sync_request C request)]"

definition send_sync_response :: "p2p_codec \<Rightarrow> nat \<Rightarrow> SyncResponse \<Rightarrow> swarm_action list" where
  "send_sync_response C channel response = [SendResponse channel (enc_sync_response C response)]"

definition peer_count :: "P2pNetwork \<Rightarrow> nat" where
  "peer_count n = card (pn_peers n)"

definition on_command :: "p2p_codec \<Rightarrow> swarm_env \<Rightarrow> P2pCommand \<Rightarrow> P2pNetwork \<Rightarrow> swarm_action list" where
  "on_command C S cmd n = (case cmd of
      SendSyncRequest peer request \<Rightarrow> send_sync_request C peer request
    | SendSyncResponse channel response \<Rightarrow> send_sync_response C channel response
    | BroadcastBlock block \<Rightarrow> broadcast_block C block n
    | BroadcastVote vote \<Rightarrow> broadcast_vote C vote n
    | BroadcastTx tx \<Rightarrow> broadcast_tx C tx n
    | BroadcastCheckin witness \<Rightarrow> broadcast_checkin C S witness n)"

section \<open>The redial tick\<close>

fun embedded_peer :: "Multiaddr \<Rightarrow> PeerId option" where
  "embedded_peer [] = None"
| "embedded_peer (P2p peer # ps) = Some peer"
| "embedded_peer (OtherProtocol _ # ps) = embedded_peer ps"

definition should_redial_bootstrap :: "Multiaddr \<Rightarrow> PeerId set \<Rightarrow> bool" where
  "should_redial_bootstrap addr connected_peers = (case embedded_peer addr of
      Some pid \<Rightarrow> pid \<notin> connected_peers
    | None \<Rightarrow> True)"

definition redial_tick :: "swarm_env \<Rightarrow> P2pNetwork \<Rightarrow> swarm_action list" where
  "redial_tick S n =
     map Dial (filter (\<lambda>addr. should_redial_bootstrap addr (pn_peers n)) (pn_bootstrap_addrs n))
     @ (if length (sw_connected_peers S) > 0
           \<and> \<not> (\<exists>x \<in> set (sw_all_peers S). pn_checkin_topic n \<in> set (snd x))
        then [Unsubscribe (pn_checkin_topic n), Subscribe (pn_checkin_topic n)] else [])"

section \<open>Events of the swarm\<close>

fun gossip_event :: "GossipMessage \<Rightarrow> NetworkEvent" where
  "gossip_event (GossipNewTx tx) = NewTx tx"
| "gossip_event (GossipNewBlock block) = NewBlock block"
| "gossip_event (GossipBlockVote vote) = GossipVote vote"
| "gossip_event (GossipMinerCheckin witness) = GossipCheckin witness"

definition on_gossip :: "p2p_codec \<Rightarrow> bytes \<Rightarrow> NetworkEvent list" where
  "on_gossip C dat =
     (if length dat > MAX_P2P_MESSAGE_SIZE then []
      else case dec_gossip C dat of Some m \<Rightarrow> [gossip_event m] | None \<Rightarrow> [])"

definition track_peer :: "PeerId \<Rightarrow> P2pNetwork \<Rightarrow> P2pNetwork" where
  "track_peer p n = n\<lparr>pn_peers := insert p (pn_peers n)\<rparr>"

definition drop_peer :: "PeerId \<Rightarrow> P2pNetwork \<Rightarrow> P2pNetwork" where
  "drop_peer p n = n\<lparr>pn_peers := pn_peers n - {p}\<rparr>"

text \<open>The loop over discovered peers: two \<open>continue\<close>s and the \<open>break\<close> at the limit.\<close>

fun on_discovered :: "(PeerId \<times> Multiaddr) list \<Rightarrow> P2pNetwork \<Rightarrow> NetworkEvent list \<times> P2pNetwork" where
  "on_discovered [] n = ([], n)"
| "on_discovered ((peer_id, addr) # ps) n =
     (if peer_id \<in> pn_peers n then on_discovered ps n
      else if peer_id \<in> pn_incompatible_peers n then on_discovered ps n
      else if card (pn_peers n) \<ge> MAX_PEER_CONNECTIONS then ([], n)
      else (case on_discovered ps (track_peer peer_id n) of (es, n') \<Rightarrow> (PeerConnected peer_id # es, n')))"

fun on_expired :: "(PeerId \<times> Multiaddr) list \<Rightarrow> P2pNetwork \<Rightarrow> NetworkEvent list \<times> P2pNetwork" where
  "on_expired [] n = ([], n)"
| "on_expired ((peer_id, _) # ps) n =
     (case on_expired ps (drop_peer peer_id n) of (es, n') \<Rightarrow> (PeerDisconnected peer_id # es, n'))"

definition on_outbound_failure :: "PeerId \<Rightarrow> OutboundFailure \<Rightarrow> P2pNetwork \<Rightarrow> NetworkEvent list \<times> P2pNetwork" where
  "on_outbound_failure peer error n =
     (if error = UnsupportedProtocols
      then ([PeerDisconnected peer],
            drop_peer peer (n\<lparr>pn_incompatible_peers := insert peer (pn_incompatible_peers n)\<rparr>))
      else ([], n))"

definition on_established :: "PeerId \<Rightarrow> u32 \<Rightarrow> P2pNetwork \<Rightarrow> NetworkEvent list \<times> P2pNetwork" where
  "on_established peer_id num_established n =
     (if num_established = 1
      then if card (pn_peers n) \<ge> MAX_PEER_CONNECTIONS then ([], n)
           else ([PeerConnected peer_id], track_peer peer_id n)
      else ([], n))"

definition on_closed :: "PeerId \<Rightarrow> u32 \<Rightarrow> P2pNetwork \<Rightarrow> NetworkEvent list \<times> P2pNetwork" where
  "on_closed peer_id num_established n =
     (if num_established = 0 then ([PeerDisconnected peer_id], drop_peer peer_id n) else ([], n))"

definition on_swarm_event :: "p2p_codec \<Rightarrow> SwarmEvent \<Rightarrow> P2pNetwork \<Rightarrow> NetworkEvent list \<times> P2pNetwork" where
  "on_swarm_event C event n = (case event of
      GossipsubMessage dat \<Rightarrow> (on_gossip C dat, n)
    | RequestMessage peer channel request \<Rightarrow> (case dec_sync_request C request of
          Some req \<Rightarrow> ([PeerRequest peer channel req], n)
        | None \<Rightarrow> ([], n))
    | ResponseMessage peer response \<Rightarrow> (case dec_sync_response C response of
          Some resp \<Rightarrow> ([PeerResponse peer resp], n)
        | None \<Rightarrow> ([], n))
    | RequestOutboundFailure peer error \<Rightarrow> on_outbound_failure peer error n
    | RequestInboundFailure peer error \<Rightarrow> ([], n)
    | ResponseSent peer \<Rightarrow> ([], n)
    | MdnsDiscovered peers \<Rightarrow> on_discovered peers n
    | MdnsExpired peers \<Rightarrow> on_expired peers n
    | NewListenAddr _ \<Rightarrow> ([], n)
    | ConnectionEstablished peer_id num_established \<Rightarrow> on_established peer_id num_established n
    | ConnectionClosed peer_id num_established \<Rightarrow> on_closed peer_id num_established n
    | OtherSwarmEvent \<Rightarrow> ([], n))"

section \<open>The loop\<close>

datatype loop_input = RedialTick | Command P2pCommand | Swarm SwarmEvent

definition loop_step ::
  "p2p_codec \<Rightarrow> swarm_env \<times> loop_input \<Rightarrow> P2pNetwork \<Rightarrow> (swarm_action list \<times> NetworkEvent list) \<times> P2pNetwork" where
  "loop_step C x n = (case snd x of
      RedialTick \<Rightarrow> ((redial_tick (fst x) n, []), n)
    | Command cmd \<Rightarrow> ((on_command C (fst x) cmd n, []), n)
    | Swarm event \<Rightarrow> (case on_swarm_event C event n of (es, n') \<Rightarrow> (([], es), n')))"

fun network_run ::
  "p2p_codec \<Rightarrow> (swarm_env \<times> loop_input) list \<Rightarrow> P2pNetwork \<Rightarrow> (swarm_action list \<times> NetworkEvent list) \<times> P2pNetwork" where
  "network_run C [] n = (([], []), n)"
| "network_run C (x # xs) n = (case loop_step C x n of ((as, es), n1) \<Rightarrow>
     (case network_run C xs n1 of ((as', es'), n2) \<Rightarrow> ((as @ as', es @ es'), n2)))"

end
