(* ===== verification/P2p_Safety.thy ===== *)
theory P2p_Safety
  imports P2p_Network
begin

text \<open>
  What the network task guarantees: the tracked peers are what the events it sent add up to and
  never exceed the limit, a message that fits arrives as the event it was sent for, and a
  synchronisation exchange between two nodes, from the command of one chain to the event of the
  other and back. The contract that the handlers of peer events share is the locale \<open>peer_op\<close>.
\<close>

section \<open>Tracked peers\<close>

fun note_peer :: "NetworkEvent \<Rightarrow> PeerId set \<Rightarrow> PeerId set" where
  "note_peer (PeerConnected p) ps = insert p ps"
| "note_peer (PeerDisconnected p) ps = ps - {p}"
| "note_peer _ ps = ps"

definition net_inv :: "P2pNetwork \<Rightarrow> bool" where
  "net_inv n \<longleftrightarrow> finite (pn_peers n) \<and> card (pn_peers n) \<le> MAX_PEER_CONNECTIONS"

definition same_topics :: "P2pNetwork \<Rightarrow> P2pNetwork \<Rightarrow> bool" where
  "same_topics n n' \<longleftrightarrow> pn_tx_topic n' = pn_tx_topic n \<and> pn_block_topic n' = pn_block_topic n
     \<and> pn_vote_topic n' = pn_vote_topic n \<and> pn_checkin_topic n' = pn_checkin_topic n"

locale peer_op =
  fixes h :: "P2pNetwork \<Rightarrow> NetworkEvent list \<times> P2pNetwork"
  assumes tracks: "h n = (es, n') \<Longrightarrow> fold note_peer es (pn_peers n) = pn_peers n'"
    and bounded: "net_inv n \<Longrightarrow> h n = (es, n') \<Longrightarrow> net_inv n'"
    and frame: "h n = (es, n') \<Longrightarrow> same_topics n n' \<and> pn_bootstrap_addrs n' = pn_bootstrap_addrs n
      \<and> pn_incompatible_peers n \<subseteq> pn_incompatible_peers n'"
begin

lemma contract:
  assumes "net_inv n" and "h n = (es, n')"
  shows "net_inv n' \<and> fold note_peer es (pn_peers n) = pn_peers n' \<and> same_topics n n'"
  using tracks[OF assms(2)] bounded[OF assms] frame[OF assms(2)] by simp

end

lemma net_inv_track [simp]: "card (pn_peers n) < MAX_PEER_CONNECTIONS \<Longrightarrow> net_inv n \<Longrightarrow> net_inv (track_peer p n)"
  by (auto simp: net_inv_def track_peer_def card_insert_if)

lemma net_inv_drop [simp]: "net_inv n \<Longrightarrow> net_inv (drop_peer p n)"
  by (auto simp: net_inv_def drop_peer_def intro: le_trans[OF card_Diff1_le])

lemma net_inv_incompatible [simp]: "net_inv (n\<lparr>pn_incompatible_peers := x\<rparr>) = net_inv n"
  by (simp add: net_inv_def)

lemma on_discovered_tracks: "fold note_peer (fst (on_discovered ps n)) (pn_peers n) = pn_peers (snd (on_discovered ps n))"
  by (induction ps n rule: on_discovered.induct) (simp_all add: track_peer_def case_prod_beta)

lemma on_discovered_bounded: "net_inv n \<Longrightarrow> net_inv (snd (on_discovered ps n))"
  by (induction ps n rule: on_discovered.induct) (simp_all add: case_prod_beta)

lemma on_discovered_frame:
  "same_topics n (snd (on_discovered ps n)) \<and> pn_bootstrap_addrs (snd (on_discovered ps n)) = pn_bootstrap_addrs n
     \<and> pn_incompatible_peers (snd (on_discovered ps n)) = pn_incompatible_peers n"
  by (induction ps n rule: on_discovered.induct) (simp_all add: same_topics_def track_peer_def case_prod_beta)

lemma on_expired_tracks: "fold note_peer (fst (on_expired ps n)) (pn_peers n) = pn_peers (snd (on_expired ps n))"
  by (induction ps n rule: on_expired.induct) (simp_all add: drop_peer_def case_prod_beta)

lemma on_expired_bounded: "net_inv n \<Longrightarrow> net_inv (snd (on_expired ps n))"
  by (induction ps n rule: on_expired.induct) (simp_all add: case_prod_beta)

lemma on_expired_frame:
  "same_topics n (snd (on_expired ps n)) \<and> pn_bootstrap_addrs (snd (on_expired ps n)) = pn_bootstrap_addrs n
     \<and> pn_incompatible_peers (snd (on_expired ps n)) = pn_incompatible_peers n"
  by (induction ps n rule: on_expired.induct) (simp_all add: same_topics_def drop_peer_def case_prod_beta)

interpretation discovered: peer_op "on_discovered ps" for ps
  by unfold_locales (metis on_discovered_tracks fst_conv snd_conv,
    metis on_discovered_bounded snd_conv, metis on_discovered_frame snd_conv order_refl)

interpretation expired: peer_op "on_expired ps" for ps
  by unfold_locales (metis on_expired_tracks fst_conv snd_conv,
    metis on_expired_bounded snd_conv, metis on_expired_frame snd_conv order_refl)

interpretation failed: peer_op "on_outbound_failure p e" for p e
  by unfold_locales
    (auto simp: on_outbound_failure_def same_topics_def drop_peer_def net_inv_def
      intro: le_trans[OF card_Diff1_le] split: if_splits)

interpretation established: peer_op "on_established p k" for p k
  by unfold_locales (auto simp: on_established_def same_topics_def track_peer_def net_inv_def card_insert_if
    split: if_splits)

interpretation closed_conn: peer_op "on_closed p k" for p k
  by unfold_locales (auto simp: on_closed_def same_topics_def drop_peer_def net_inv_def
    intro: le_trans[OF card_Diff1_le] split: if_splits)

lemma note_gossip [simp]: "note_peer (gossip_event m) ps = ps"
  by (cases m) simp_all

lemma fold_note_on_gossip [simp]: "fold note_peer (on_gossip C dat) ps = ps"
  by (auto simp: on_gossip_def split: option.splits)

lemma same_topics_refl [simp]: "same_topics n n"
  by (simp add: same_topics_def)

interpretation swarm_event: peer_op "on_swarm_event C event" for C event
proof
  fix n es n'
  assume "on_swarm_event C event n = (es, n')"
  then show "fold note_peer es (pn_peers n) = pn_peers n'"
    by (cases event)
      (auto simp: on_swarm_event_def discovered.tracks expired.tracks failed.tracks established.tracks
        closed_conn.tracks split: option.splits)
next
  fix n es n'
  assume "net_inv n" "on_swarm_event C event n = (es, n')"
  then show "net_inv n'"
    by (cases event)
      (auto simp: on_swarm_event_def split: option.splits
        dest: discovered.bounded expired.bounded failed.bounded established.bounded closed_conn.bounded)
next
  fix n es n'
  assume "on_swarm_event C event n = (es, n')"
  then show "same_topics n n' \<and> pn_bootstrap_addrs n' = pn_bootstrap_addrs n
      \<and> pn_incompatible_peers n \<subseteq> pn_incompatible_peers n'"
    using discovered.frame[of _ n es n'] expired.frame[of _ n es n'] failed.frame[of _ _ n es n']
      established.frame[of _ _ n es n'] closed_conn.frame[of _ _ n es n']
    by (cases event) (auto simp: on_swarm_event_def split: option.splits)
qed

lemma loop_step_contract:
  assumes "net_inv n" and "loop_step C x n = ((as, es), n')"
  shows "net_inv n' \<and> fold note_peer es (pn_peers n) = pn_peers n' \<and> same_topics n n'"
  using assms swarm_event.contract[OF assms(1)]
  by (auto simp: loop_step_def split: loop_input.splits prod.splits)

lemma same_topics_trans: "same_topics a b \<Longrightarrow> same_topics b c \<Longrightarrow> same_topics a c"
  by (simp add: same_topics_def)

lemma network_run_contract:
  assumes "net_inv n" and "network_run C xs n = ((as, es), n')"
  shows "net_inv n' \<and> fold note_peer es (pn_peers n) = pn_peers n' \<and> same_topics n n'"
  using assms
proof (induction xs arbitrary: n as es)
  case (Cons x xs)
  obtain as1 es1 n1 as2 es2 where step: "loop_step C x n = ((as1, es1), n1)"
    and rest: "network_run C xs n1 = ((as2, es2), n')" and es: "es = es1 @ es2"
    using Cons.prems(2) by (auto split: prod.splits)
  note first = loop_step_contract[OF Cons.prems(1) step]
  show ?case
    using first Cons.IH[OF conjunct1[OF first] rest] same_topics_trans by (auto simp: es)
qed simp

lemma net_inv_new [simp]: "net_inv (snd (network_new port addrs chain_id))"
  by (simp add: network_new_def net_inv_def Let_def)

section \<open>The chain's view of its peers\<close>

text \<open>The events of the network, handled by the chain one after the other, each with its own inputs.\<close>

fun handle_events ::
  "node_env \<Rightarrow> (NetworkEvent \<times> (nat \<Rightarrow> inputs)) list \<Rightarrow> PeerId list \<times> ChainInner \<Rightarrow> PeerId list \<times> ChainInner" where
  "handle_events V [] s = s"
| "handle_events V (x # xs) s = handle_events V xs (snd (handle_event V (snd x) (fst x) s))"

lemma handle_event_peers:
  assumes "handle_event V Is e (ks, inner) = (cmds, ks', inner')" and "distinct ks"
  shows "set ks' = note_peer e (set ks) \<and> distinct ks'"
  using assms
  by (cases e)
    (auto simp: handle_event_def on_peer_connected_def Let_def split: prod.splits sum.splits option.splits
      SyncRequest.splits if_splits)

lemma handle_events_peers:
  assumes "handle_events V xs (ks, inner) = (ks', inner')" and "distinct ks"
  shows "set ks' = fold note_peer (map fst xs) (set ks) \<and> distinct ks'"
  using assms
proof (induction xs arbitrary: ks inner)
  case (Cons x xs)
  obtain cmds ks1 inner1 where step: "handle_event V (snd x) (fst x) (ks, inner) = (cmds, ks1, inner1)"
    by (metis prod_cases3)
  have "set ks1 = note_peer (fst x) (set ks) \<and> distinct ks1"
    by (rule handle_event_peers[OF step Cons.prems(2)])
  then show ?case using Cons.IH[of ks1 inner1] Cons.prems(1) step by simp
qed simp

text \<open>
  C24. The chain knows exactly the peers that the network tracks: after any run of the network task
  from its start, whatever connections, discoveries, failures and messages occur, once the chain has
  handled the events that were sent to it, its list of known peers has the tracked peers as its
  elements, each once, and there are at most 128 of them.
\<close>

theorem chain_knows_tracked_peers:
  assumes "network_run C xs (snd (network_new port addrs chain_id)) = ((actions, events), n)"
    and "map fst handled = events" and "handle_events V handled ([], inner) = (known, inner')"
  shows "set known = pn_peers n \<and> distinct known \<and> length known \<le> 128"
proof -
  let ?n0 = "snd (network_new port addrs chain_id)"
  have "net_inv n" and "fold note_peer events (pn_peers ?n0) = pn_peers n"
    using network_run_contract[OF net_inv_new assms(1)] by auto
  moreover have "set known = fold note_peer events {} \<and> distinct known"
    using handle_events_peers[OF assms(3)] assms(2) by simp
  ultimately show ?thesis
    by (simp add: network_new_def net_inv_def Let_def MAX_PEER_CONNECTIONS_def distinct_card[symmetric])
qed

text \<open>Two connections, one of which is closed again, leave one known peer.\<close>

definition demo_swarm :: swarm_env where
  "demo_swarm = \<lparr>sw_publish = (\<lambda>_ _. True), sw_connected_peers = [], sw_all_peers = []\<rparr>"

definition demo_codec :: "SyncRequest \<Rightarrow> SyncResponse \<Rightarrow> nat \<Rightarrow> p2p_codec" where
  "demo_codec request answer sz = \<lparr>enc_gossip = (\<lambda>_. []), dec_gossip = (\<lambda>_. None),
     enc_sync_request = (\<lambda>_. [1]), dec_sync_request = (\<lambda>_. Some request),
     enc_sync_response = (\<lambda>_. replicate sz 0), dec_sync_response = (\<lambda>_. Some answer)\<rparr>"

theorem chain_knows_tracked_peers_witness:
  "let C = demo_codec GetStatus CheckinAccepted 9;
       xs = map (\<lambda>e. (demo_swarm, Swarm e))
         [ConnectionEstablished ''a'' 1, ConnectionEstablished ''b'' 1, ConnectionClosed ''a'' 0];
       events = [PeerConnected ''a'', PeerConnected ''b'', PeerDisconnected ''a''] in
   set (fst (handle_events demo_env (map (\<lambda>e. (e, \<lambda>_. demo_inputs)) events) ([], demo_node))) = {''b''}"
proof -
  let ?C = "demo_codec GetStatus CheckinAccepted 9"
  let ?xs = "map (\<lambda>e. (demo_swarm, Swarm e))
    [ConnectionEstablished ''a'' 1, ConnectionEstablished ''b'' 1, ConnectionClosed ''a'' 0]"
  let ?es = "[PeerConnected ''a'', PeerConnected ''b'', PeerDisconnected ''a'']"
  let ?hs = "map (\<lambda>e. (e, \<lambda>_. demo_inputs)) ?es"
  obtain n where run: "network_run ?C ?xs (snd (network_new 9711 [] ''claw-devnet'')) = (([], ?es), n)"
    and peers: "pn_peers n = {''b''}"
    by (simp add: network_new_def loop_step_def on_swarm_event_def on_established_def on_closed_def
      track_peer_def drop_peer_def MAX_PEER_CONNECTIONS_def) auto
  obtain known inner where "handle_events demo_env ?hs ([], demo_node) = (known, inner)" by fastforce
  then show ?thesis
    using chain_knows_tracked_peers[OF run, of ?hs] peers by (simp add: Let_def)
qed

section \<open>Chains stay apart\<close>

definition own_topics :: "P2pNetwork \<Rightarrow> string list" where
  "own_topics n = [pn_tx_topic n, pn_block_topic n, pn_vote_topic n, pn_checkin_topic n]"

fun action_topic :: "swarm_action \<Rightarrow> string option" where
  "action_topic (Publish topic _) = Some topic"
| "action_topic (Subscribe topic) = Some topic"
| "action_topic (Unsubscribe topic) = Some topic"
| "action_topic _ = None"

lemma own_topics_new [simp]: "own_topics (snd (network_new port addrs chain_id)) = chain_topics chain_id"
  by (simp add: own_topics_def network_new_def chain_topics_def Let_def)

lemma same_topics_own: "same_topics n n' \<Longrightarrow> own_topics n' = own_topics n"
  by (simp add: same_topics_def own_topics_def)

lemmas broadcast_defs = broadcast_tx_def broadcast_block_def broadcast_vote_def broadcast_checkin_def
  publish_bounded_def send_sync_request_def send_sync_response_def

lemma on_command_topics:
  assumes "a \<in> set (on_command C S cmd n)" and "action_topic a = Some t"
  shows "t \<in> set (own_topics n)"
  using assms by (cases cmd) (auto simp: on_command_def broadcast_defs own_topics_def Let_def split: if_splits)

lemma loop_step_topics:
  assumes "loop_step C x n = ((as, es), n')" and "a \<in> set as" and "action_topic a = Some t"
  shows "t \<in> set (own_topics n)"
  using assms
  by (auto simp: loop_step_def redial_tick_def own_topics_def split: loop_input.splits prod.splits if_splits
    dest!: on_command_topics)

lemma network_run_topics:
  assumes "net_inv n" and "network_run C xs n = ((as, es), n')" and "a \<in> set as" and "action_topic a = Some t"
  shows "t \<in> set (own_topics n)"
  using assms
proof (induction xs arbitrary: n as es)
  case (Cons x xs)
  obtain as1 es1 n1 as2 es2 where step: "loop_step C x n = ((as1, es1), n1)"
    and rest: "network_run C xs n1 = ((as2, es2), n')" and as: "as = as1 @ as2"
    using Cons.prems(2) by (auto split: prod.splits)
  have inv: "net_inv n1" and own: "own_topics n1 = own_topics n"
    using loop_step_contract[OF Cons.prems(1) step] same_topics_own by auto
  show ?case
    using loop_step_topics[OF step _ Cons.prems(4)] Cons.IH[OF inv rest _ Cons.prems(4)] Cons.prems(3)
    by (auto simp: as own)
qed simp

definition life_actions :: "p2p_codec \<Rightarrow> u16 \<Rightarrow> Multiaddr list \<Rightarrow> string \<Rightarrow> (swarm_env \<times> loop_input) list \<Rightarrow> swarm_action list" where
  "life_actions C port addrs chain_id xs =
     (case network_new port addrs chain_id of (as, n) \<Rightarrow> as @ fst (fst (network_run C xs n)))"

lemma life_actions_topics:
  assumes "a \<in> set (life_actions C port addrs chain_id xs)" and "action_topic a = Some t"
  shows "t \<in> set (chain_topics chain_id)"
proof -
  obtain as n where new: "network_new port addrs chain_id = (as, n)" by fastforce
  obtain as' es n' where run: "network_run C xs n = ((as', es), n')" by (metis prod_cases3 surj_pair)
  have inv: "net_inv n" and own: "own_topics n = chain_topics chain_id"
    using net_inv_new[of port addrs chain_id] own_topics_new[of port addrs chain_id] new by simp_all
  have "t \<in> set (chain_topics chain_id)" if "a \<in> set as"
    using that new assms(2) by (auto simp: network_new_def chain_topics_def Let_def)
  then show ?thesis
    using assms(1) network_run_topics[OF inv run _ assms(2)] by (auto simp: life_actions_def new run own)
qed

text \<open>
  Nodes of different chains do not hear each other: whatever a node of one chain publishes during
  its life is on a topic to which a node of another chain never subscribes.
\<close>

lemma chains_stay_apart:
  assumes "Publish t bs \<in> set (life_actions C port addrs c xs)"
    and "Subscribe t \<in> set (life_actions C' port' addrs' d ys)"
  shows "c = d"
  using life_actions_topics[OF assms(1)] life_actions_topics[OF assms(2)] chains_do_not_overhear(1)[of c d]
  by auto

section \<open>Delivery\<close>

fun message_of :: "P2pCommand \<Rightarrow> GossipMessage option" where
  "message_of (BroadcastTx tx) = Some (GossipNewTx tx)"
| "message_of (BroadcastBlock block) = Some (GossipNewBlock block)"
| "message_of (BroadcastVote vote) = Some (GossipBlockVote vote)"
| "message_of (BroadcastCheckin witness) = Some (GossipMinerCheckin witness)"
| "message_of _ = None"

fun gossip_topic :: "P2pNetwork \<Rightarrow> GossipMessage \<Rightarrow> string" where
  "gossip_topic n (GossipNewTx _) = pn_tx_topic n"
| "gossip_topic n (GossipNewBlock _) = pn_block_topic n"
| "gossip_topic n (GossipBlockVote _) = pn_vote_topic n"
| "gossip_topic n (GossipMinerCheckin _) = pn_checkin_topic n"

text \<open>A broadcast goes out on the topic of its kind exactly when it fits, and is heard as the event of its kind.\<close>

lemma gossip_delivery:
  assumes "message_of cmd = Some m" and "dec_gossip C (enc_gossip C m) = Some m"
  shows "Publish t bs \<in> set (on_command C S cmd n) \<longleftrightarrow>
      length (enc_gossip C m) \<le> MAX_P2P_MESSAGE_SIZE \<and> t = gossip_topic n m \<and> bs = enc_gossip C m"
    and "on_swarm_event C (GossipsubMessage (enc_gossip C m)) n' =
      (if length (enc_gossip C m) \<le> MAX_P2P_MESSAGE_SIZE then [gossip_event m] else [], n')"
proof -
  show "Publish t bs \<in> set (on_command C S cmd n) \<longleftrightarrow>
      length (enc_gossip C m) \<le> MAX_P2P_MESSAGE_SIZE \<and> t = gossip_topic n m \<and> bs = enc_gossip C m"
    using assms(1) by (cases cmd) (auto simp: on_command_def broadcast_defs Let_def)
  show "on_swarm_event C (GossipsubMessage (enc_gossip C m)) n' =
      (if length (enc_gossip C m) \<le> MAX_P2P_MESSAGE_SIZE then [gossip_event m] else [], n')"
    using assms(2) by (simp add: on_swarm_event_def on_gossip_def)
qed

text \<open>
  One synchronisation exchange: the command of the asking chain, its request on the wire, the
  event at the serving node, the reply of the serving chain, its answer on the wire, and the events
  that the asking chain gets. On the wire a message is a frame of \<open>SyncCodec\<close>.
\<close>

definition transported :: "bytes \<Rightarrow> bytes list" where
  "transported bs = (case fst (read_request (write_request bs [])) of Inr bs' \<Rightarrow> [bs'] | Inl _ \<Rightarrow> [])"

fun request_bytes :: "swarm_action \<Rightarrow> bytes list" where
  "request_bytes (SendRequest _ bs) = transported bs"
| "request_bytes _ = []"

fun response_bytes :: "swarm_action \<Rightarrow> bytes list" where
  "response_bytes (SendResponse _ bs) = transported bs"
| "response_bytes _ = []"

definition served ::
  "p2p_codec \<Rightarrow> node_env \<Rightarrow> (nat \<Rightarrow> inputs) \<Rightarrow> swarm_env \<Rightarrow> PeerId \<Rightarrow> nat \<Rightarrow> P2pNetwork
   \<Rightarrow> PeerId list \<times> ChainInner \<Rightarrow> bytes \<Rightarrow> bytes list" where
  "served C V Is S asker channel n server bs =
     concat (map (\<lambda>e. concat (map (\<lambda>cmd. concat (map response_bytes (on_command C S cmd n)))
                            (fst (handle_event V Is e server))))
        (fst (on_swarm_event C (RequestMessage asker channel bs) n)))"

definition sync_exchange ::
  "p2p_codec \<Rightarrow> node_env \<Rightarrow> (nat \<Rightarrow> inputs) \<Rightarrow> swarm_env \<Rightarrow> swarm_env \<Rightarrow> PeerId \<Rightarrow> PeerId \<Rightarrow> nat
   \<Rightarrow> P2pNetwork \<Rightarrow> P2pNetwork \<Rightarrow> PeerId list \<times> ChainInner \<Rightarrow> SyncRequest \<Rightarrow> NetworkEvent list" where
  "sync_exchange C V Is S S' asker peer channel n n' server request =
     (let requests = concat (map request_bytes (on_command C S (SendSyncRequest peer request) n));
          answers = concat (map (served C V Is S' asker channel n' server) requests) in
      concat (map (\<lambda>bs. fst (on_swarm_event C (ResponseMessage peer bs) n)) answers))"

lemma transported_eq:
  assumes "length bs < 2 ^ 32"
  shows "transported bs = (if length bs \<le> MAX_P2P_MESSAGE_SIZE then [bs] else [])"
  using frame_fits[of bs "[]"] frame_too_large[of bs "[]"] assms by (auto simp: transported_def)

lemma served_eq:
  assumes "dec_sync_request C bs = Some request"
  shows "served C V Is S asker channel n (known, inner) bs
    = transported (enc_sync_response C (handle_sync_request V (Is 0) request inner))"
  using assms
  by (auto simp: served_def on_swarm_event_def handle_event_def on_command_def send_sync_response_def
    handle_sync_request_def split: SyncRequest.splits)

lemma sync_exchange_eq:
  assumes "dec_sync_request C (enc_sync_request C request) = Some request"
    and "length (enc_sync_request C request) \<le> MAX_P2P_MESSAGE_SIZE"
    and "answer = handle_sync_request V (Is 0) request inner"
    and "dec_sync_response C (enc_sync_response C answer) = Some answer"
    and "length (enc_sync_response C answer) < 2 ^ 32"
  shows "sync_exchange C V Is S S' asker peer channel n n' (known, inner) request =
    (if length (enc_sync_response C answer) \<le> MAX_P2P_MESSAGE_SIZE then [PeerResponse peer answer] else [])"
proof -
  have "length (enc_sync_request C request) < 2 ^ 32"
    using assms(2) by (simp add: MAX_P2P_MESSAGE_SIZE_def)
  then have "transported (enc_sync_request C request) = [enc_sync_request C request]"
    using assms(2) by (simp add: transported_eq)
  moreover have "served C V Is S' asker channel n' (known, inner) (enc_sync_request C request)
      = transported (enc_sync_response C answer)"
    using served_eq[OF assms(1)] assms(3) by simp
  moreover have "on_command C S (SendSyncRequest peer request) n = [SendRequest peer (enc_sync_request C request)]"
    by (simp add: on_command_def send_sync_request_def)
  ultimately show ?thesis
    using assms(4) by (simp add: sync_exchange_def transported_eq[OF assms(5)] on_swarm_event_def)
qed


text \<open>The status request is answered; the same exchange with an encoding one byte over the limit is not.\<close>

lemma demo_codec_simps [simp]:
  "enc_sync_request (demo_codec q a sz) r = [1]" "dec_sync_request (demo_codec q a sz) bs = Some q"
  "length (enc_sync_response (demo_codec q a sz) r') = sz" "dec_sync_response (demo_codec q a sz) bs = Some a"
  by (simp_all add: demo_codec_def)


text \<open>
  A node that has fallen behind cannot catch up through a peer whose next blocks are too large:
  the request for them brings no answer and changes nothing at the serving node, so that the same
  request, repeated, brings none either.
\<close>

lemma oversized_blocks_stall_sync:
  assumes "dec_sync_request C (enc_sync_request C (GetBlocks h k)) = Some (GetBlocks h k)"
    and "length (enc_sync_request C (GetBlocks h k)) \<le> MAX_P2P_MESSAGE_SIZE"
    and "handle_sync_request V (Is 0) (GetBlocks h k) inner = answer"
    and "dec_sync_response C (enc_sync_response C answer) = Some answer"
    and "MAX_P2P_MESSAGE_SIZE < length (enc_sync_response C answer)" "length (enc_sync_response C answer) < 2 ^ 32"
  shows "sync_exchange C V Is S S' asker peer channel n n' (known, inner) (GetBlocks h k) = []"
    and "snd (handle_event V Is (PeerRequest asker channel (GetBlocks h k)) (known, inner)) = (known, inner)"
proof -
  show "sync_exchange C V Is S S' asker peer channel n n' (known, inner) (GetBlocks h k) = []"
    using sync_exchange_eq[where Is = Is and V = V and inner = inner, OF assms(1,2) assms(3)[symmetric] assms(4,6)]
      assms(5) by simp
  show "snd (handle_event V Is (PeerRequest asker channel (GetBlocks h k)) (known, inner)) = (known, inner)"
    by (simp add: handle_event_def)
qed

section \<open>Incompatible peers\<close>

text \<open>
  A peer that was evicted as incompatible does not come back through discovery, in any later part of
  the run; it does come back with a new connection, which the code does not check.
\<close>

lemma evicted_stays_out_of_discovery:
  assumes "p \<in> pn_incompatible_peers n" "p \<notin> pn_peers n"
  shows "p \<notin> pn_peers (snd (on_discovered ps n))"
  using assms by (induction ps n rule: on_discovered.induct) (auto simp: track_peer_def case_prod_beta)

lemma evicted_returns_by_connection:
  assumes "net_inv n" "card (pn_peers n) < MAX_PEER_CONNECTIONS"
  shows "p \<in> pn_peers (snd (on_swarm_event C (ConnectionEstablished p 1)
     (snd (on_swarm_event C (RequestOutboundFailure p UnsupportedProtocols) n))))"
proof -
  have "card (pn_peers n - {p}) < MAX_PEER_CONNECTIONS"
    using assms card_Diff1_le[of "pn_peers n" p] by linarith
  then show ?thesis
    by (simp add: on_swarm_event_def on_outbound_failure_def on_established_def drop_peer_def track_peer_def)
qed

section \<open>The identity\<close>

text \<open>A node keeps its peer identity: the pair it generated is the pair it loads at every later start.\<close>

lemma identity_is_stable:
  assumes "load_or_generate_keypair F dec enc fresh d = (Inr k, d')" and "\<And>bs. enc fresh = Some bs \<Longrightarrow> dec bs = Some fresh"
    and "fs_can_read F' P2P_KEY_FILE"
  shows "load_or_generate_keypair F' dec enc fresh' d' = (Inr k, d')"
  using assms
  by (auto simp: load_or_generate_keypair_def fs_exists_def fs_read_def fs_write_def fs_set_permissions_def
    split: if_splits option.splits)

lemma generated_identity_is_private:
  assumes "load_or_generate_keypair F dec enc fresh d = (Inr k, d')" "\<not> fs_exists P2P_KEY_FILE d"
  shows "map_option fl_mode (d' P2P_KEY_FILE) = Some OWNER_ONLY"
  using assms
  by (auto simp: load_or_generate_keypair_def fs_exists_def fs_write_def fs_set_permissions_def
    split: if_splits option.splits)

end
