(* ===== verification/Rpc_Server.thy ===== *)
theory Rpc_Server
  imports Chain_Queries Chain_Events Files
begin

text \<open>
  The JSON-RPC server (\<open>node/src/rpc_server.rs\<close>): the dispatch of a request, the answers of every
  method, the rate limit of view calls and the cool-down of the faucet, and the other endpoints.

  The HTTP layer hands over a parsed request; its identifier and its parameters stay of open types,
  and \<open>rpc_env\<close> has the accessors of \<open>serde_json\<close> that the code uses on parameters, hexadecimal and
  Borsh decoding, the texts of errors and the engine of view calls. An answer is a \<open>json\<close> value as the
  code builds it; a value that is handed to a derived serializer is kept as it is (\<open>JData\<close>), and the
  serializer's error, if any, is a parameter. Instants are nanoseconds of the monotonic clock.
\<close>

section \<open>Data\<close>

datatype rpc_data =
    DBlock Block "hash32 list"
  | DAgent AgentIdentity
  | DReputation "ReputationAttestation list"
  | DServices "ServiceEntry list"
  | DToken TokenDef
  | DMiner MinerInfo
  | DMiners "MinerInfo list"
  | DTxType TxType
  | DValidatorDetail ValidatorDetail
  | DSupplyAudit SupplyAudit
  | DSupplyInfo SupplyInfo
  | DMiningStats MiningStats

datatype json =
    JNull
  | JBool bool
  | JNum int
  | JStr string
  | JArr "json list"
  | JObj "(string \<times> json) list"
  | JData rpc_data

record 'p rpc_env =
  re_param_str :: "'p \<Rightarrow> nat \<Rightarrow> string option"
  re_param_u64 :: "'p \<Rightarrow> nat \<Rightarrow> u64 option"
  re_param_bool :: "'p \<Rightarrow> nat \<Rightarrow> bool option"
  re_unhex :: "string \<Rightarrow> string + bytes"
  re_dec_tx :: "bytes \<Rightarrow> string + Transaction"
  re_dec_checkin :: "bytes \<Rightarrow> string + MinerCheckinWitness"
  re_submit_error :: "SubmitError \<Rightarrow> string"
  re_checkin_error :: "CheckinError \<Rightarrow> string"
  re_serialize_error :: "rpc_data \<Rightarrow> string option"
  re_view_vm :: "bytes \<Rightarrow> string \<Rightarrow> bytes \<Rightarrow> ExecutionContext \<Rightarrow> (bytes, bytes) btree \<Rightarrow> ViewSnapshot
     \<Rightarrow> (VmError + ExecutionResult) option"
  re_hash_order :: "MinerInfo list \<Rightarrow> MinerInfo list"
  re_version :: string

record ('i, 'p) RpcRequest =
  rq_jsonrpc :: string
  rq_id :: 'i
  rq_method :: string
  rq_params :: 'p

record RpcError =
  rr_code :: int
  rr_message :: string

record 'i RpcResponse =
  rs_jsonrpc :: string
  rs_id :: 'i
  rs_result :: "json option"
  rs_error :: "RpcError option"

definition rpc_ok :: "'i \<Rightarrow> json \<Rightarrow> 'i RpcResponse" where
  "rpc_ok i result = \<lparr>rs_jsonrpc = ''2.0'', rs_id = i, rs_result = Some result, rs_error = None\<rparr>"

definition rpc_err :: "'i \<Rightarrow> int \<Rightarrow> string \<Rightarrow> 'i RpcResponse" where
  "rpc_err i code message = \<lparr>rs_jsonrpc = ''2.0'', rs_id = i, rs_result = None,
     rs_error = Some \<lparr>rr_code = code, rr_message = message\<rparr>\<rparr>"

definition FAUCET_COOLDOWN_SECS :: u64 where
  "FAUCET_COOLDOWN_SECS = 3600"

definition CONTRACT_VIEW_RATE_LIMIT :: u32 where
  "CONTRACT_VIEW_RATE_LIMIT = 10"

definition CONTRACT_VIEW_RATE_WINDOW :: nat where
  "CONTRACT_VIEW_RATE_WINDOW = 10 ^ 9"

type_synonym IpAddr = string

text \<open>The statics of the module and the chain behind the server.\<close>

record rpc_state =
  rp_chain :: ChainInner
  rp_faucet_enabled :: "bool option"
  rp_p2p_connected :: bool
  rp_faucet_last_drip :: "address \<Rightarrow> nat option"
  rp_view_rate :: "IpAddr \<Rightarrow> (nat \<times> u32) option"

text \<open>What a request meets from outside: the caller's address, the clock at each reading, the node's inputs.\<close>

record rpc_inputs =
  ri_peer_ip :: IpAddr
  ri_now :: nat
  ri_now2 :: nat
  ri_now3 :: nat
  ri_node :: inputs

section \<open>Parameters and shared answers\<close>

definition rpc_parse_address :: "'p rpc_env \<Rightarrow> 'p \<Rightarrow> nat \<Rightarrow> string + address" where
  "rpc_parse_address E params i =
     try_then (ok_or (''missing param at index '' @ dec_digits i) (re_param_str E params i)) (\<lambda>hex_str.
     try_then (case re_unhex E hex_str of Inl e \<Rightarrow> Inl (''invalid hex: '' @ e) | Inr bs \<Rightarrow> Inr bs) (\<lambda>bs.
     if length bs = 32 then Inr bs else Inl ''expected 32 bytes''))"

definition u64_or :: "'p rpc_env \<Rightarrow> 'p \<Rightarrow> nat \<Rightarrow> u64 \<Rightarrow> u64" where
  "u64_or E params i d = (case re_param_u64 E params i of Some n \<Rightarrow> n | None \<Rightarrow> d)"

definition str_or :: "'p rpc_env \<Rightarrow> 'p \<Rightarrow> nat \<Rightarrow> string \<Rightarrow> string" where
  "str_or E params i d = (case re_param_str E params i of Some s \<Rightarrow> s | None \<Rightarrow> d)"

definition to_value :: "'p rpc_env \<Rightarrow> string \<Rightarrow> rpc_data \<Rightarrow> string + json" where
  "to_value E pre x = (case re_serialize_error E x of Some e \<Rightarrow> Inl (pre @ e) | None \<Rightarrow> Inr (JData x))"

definition j_hex :: "node_env \<Rightarrow> bytes \<Rightarrow> json" where
  "j_hex V bs = JStr (hex_encode (ne_ext V) bs)"

definition j_word :: "'a::len word \<Rightarrow> json" where
  "j_word w = JNum (uint w)"

definition j_text :: "'a::len word \<Rightarrow> json" where
  "j_text w = JStr (show_word w)"

definition j_opt :: "('a \<Rightarrow> json) \<Rightarrow> 'a option \<Rightarrow> json" where
  "j_opt f x = (case x of Some a \<Rightarrow> f a | None \<Rightarrow> JNull)"

fun tx_type_name :: "TxType \<Rightarrow> string" where
  "tx_type_name AgentRegister = ''AgentRegister''"
| "tx_type_name TokenTransfer = ''TokenTransfer''"
| "tx_type_name TokenCreate = ''TokenCreate''"
| "tx_type_name TokenMintTransfer = ''TokenMintTransfer''"
| "tx_type_name ReputationAttest = ''ReputationAttest''"
| "tx_type_name ServiceRegister = ''ServiceRegister''"
| "tx_type_name ContractDeploy = ''ContractDeploy''"
| "tx_type_name ContractCall = ''ContractCall''"
| "tx_type_name StakeDeposit = ''StakeDeposit''"
| "tx_type_name StakeWithdraw = ''StakeWithdraw''"
| "tx_type_name StakeClaim = ''StakeClaim''"
| "tx_type_name PlatformActivityReport = ''PlatformActivityReport''"
| "tx_type_name TokenApprove = ''TokenApprove''"
| "tx_type_name TokenBurn = ''TokenBurn''"
| "tx_type_name ChangeDelegation = ''ChangeDelegation''"
| "tx_type_name MinerRegister = ''MinerRegister''"
| "tx_type_name MinerHeartbeat = ''MinerHeartbeat''"
| "tx_type_name ContractUpgradeAnnounce = ''ContractUpgradeAnnounce''"
| "tx_type_name ContractUpgradeExecute = ''ContractUpgradeExecute''"

definition shown :: "string + 'x \<Rightarrow> ('x \<Rightarrow> 'y option \<times> 'z option) \<Rightarrow> 'y option \<times> 'z option" where
  "shown r f = (case r of Inr p \<Rightarrow> f p | Inl _ \<Rightarrow> (None, None))"

text \<open>The receiver and the amount shown for a transaction, as hexadecimal and decimal text.\<close>

definition extract_to_and_amount :: "node_env \<Rightarrow> Transaction \<Rightarrow> string option \<times> string option" where
  "extract_to_and_amount V tx =
     (let X = ne_ext V; h = hex_encode X; payload = tx_payload tx;
          staked = (\<lambda>validator. if validator = replicate 32 0 then None else Some (h validator)) in
      case tx_type tx of
        TokenTransfer \<Rightarrow> shown (dec_token_transfer X payload) (\<lambda>p. (Some (h (ttp_to p)), Some (show_word (ttp_amount p))))
      | TokenMintTransfer \<Rightarrow>
          shown (dec_token_mint_transfer X payload) (\<lambda>p. (Some (h (tmp_to p)), Some (show_word (tmp_amount p))))
      | ReputationAttest \<Rightarrow> shown (dec_reputation_attest (ne_codec V) payload) (\<lambda>p. (Some (h (rap_to p)), None))
      | TokenApprove \<Rightarrow> shown (dec_token_approve X payload) (\<lambda>p. (Some (h (tap_spender p)), Some (show_word (tap_amount p))))
      | TokenBurn \<Rightarrow> shown (dec_token_burn X payload) (\<lambda>p. (None, Some (show_word (tbp_amount p))))
      | ContractCall \<Rightarrow> shown (dec_contract_call X payload) (\<lambda>p. (Some (h (ccp_contract p)), Some (show_word (ccp_value p))))
      | StakeDeposit \<Rightarrow> shown (dec_stake_deposit X payload) (\<lambda>p. (staked (sdp_validator p), Some (show_word (sdp_amount p))))
      | StakeWithdraw \<Rightarrow> shown (dec_stake_withdraw X payload) (\<lambda>p. (staked (swp_validator p), Some (show_word (swp_amount p))))
      | ChangeDelegation \<Rightarrow> shown (dec_change_delegation X payload) (\<lambda>p. (Some (h (cgp_new_owner p)), None))
      | _ \<Rightarrow> (None, None))"

section \<open>Blocks and transactions\<close>

definition rpc_block_number :: "ChainInner \<Rightarrow> string + json" where
  "rpc_block_number inner = Inr (j_word (bl_height (ch_latest_block inner)))"

definition rpc_transaction_count :: "ChainInner \<Rightarrow> string + json" where
  "rpc_transaction_count inner = Inr (j_word (ch_total_tx_count inner))"

text \<open>The serializer's error of this method has a code of its own (\<open>-32603\<close>); see \<open>handle_rpc\<close>.\<close>

definition rpc_get_block :: "'p rpc_env \<Rightarrow> node_env \<Rightarrow> inputs \<Rightarrow> ChainInner \<Rightarrow> 'p \<Rightarrow> string + json" where
  "rpc_get_block E V I inner params = (case chain_get_block V I inner (u64_or E params 0 0) of
      Some block \<Rightarrow> to_value E ''Serialization error: '' (DBlock block (map (tx_hash (ne_ext V)) (bl_transactions block)))
    | None \<Rightarrow> Inr JNull)"

definition receipt_members :: "node_env \<Rightarrow> TransactionReceipt \<Rightarrow> (string \<times> json) list" where
  "receipt_members V r =
     [(''success'', JBool (tr_success r)), (''fuelConsumed'', j_word (tr_fuel_consumed r)),
      (''fuelLimit'', j_word (tr_fuel_limit r)), (''returnData'', j_hex V (tr_return_data r)),
      (''errorMessage'', j_opt JStr (tr_error_message r)),
      (''events'', JArr (map (\<lambda>e. JObj [(''topic'', JStr (re_topic e)), (''data'', j_hex V (re_data e))]) (tr_events r))),
      (''logs'', JArr (map JStr (tr_logs r)))]"

definition rpc_transaction_receipt :: "'p rpc_env \<Rightarrow> node_env \<Rightarrow> inputs \<Rightarrow> ChainInner \<Rightarrow> 'p \<Rightarrow> string + json" where
  "rpc_transaction_receipt E V I inner params = try_then (rpc_parse_address E params 0) (\<lambda>h.
     Inr (j_opt (\<lambda>resp. JObj ([(''blockHeight'', j_word (tr_block_height resp)),
         (''transactionIndex'', JNum (int (tr_transaction_index resp)))]
       @ (case tr_receipt resp of Some r \<Rightarrow> receipt_members V r | None \<Rightarrow> [])))
       (get_tx_receipt V I inner h)))"

definition tx_summary :: "node_env \<Rightarrow> Transaction \<Rightarrow> u64 \<Rightarrow> u64 \<Rightarrow> json" where
  "tx_summary V tx height timestamp =
     (let (to, amount) = extract_to_and_amount V tx in
      JObj [(''hash'', j_hex V (tx_hash (ne_ext V) tx)), (''txType'', j_word (tx_type_u8 (tx_type tx))),
        (''typeName'', JStr (tx_type_name (tx_type tx))), (''from'', j_hex V (tx_from tx)), (''to'', j_opt JStr to),
        (''amount'', j_opt JStr amount), (''nonce'', j_word (tx_nonce tx)), (''blockHeight'', j_word height),
        (''timestamp'', j_word timestamp), (''fee'', JStr ''1000000'')])"

definition rpc_transaction_by_hash :: "'p rpc_env \<Rightarrow> node_env \<Rightarrow> inputs \<Rightarrow> ChainInner \<Rightarrow> 'p \<Rightarrow> string + json" where
  "rpc_transaction_by_hash E V I inner params = try_then (rpc_parse_address E params 0) (\<lambda>h.
     Inr (j_opt (\<lambda>(tx, height, timestamp). tx_summary V tx height timestamp) (get_tx_by_hash V I inner h)))"

definition rpc_recent_transactions :: "'p rpc_env \<Rightarrow> node_env \<Rightarrow> inputs \<Rightarrow> ChainInner \<Rightarrow> 'p \<Rightarrow> string + json" where
  "rpc_recent_transactions E V I inner params =
     (let limit = unat (min (u64_or E params 0 50) 200) in
      Inr (JArr (map (\<lambda>(height, _, tx, timestamp). tx_summary V tx height timestamp)
        (get_recent_transactions V I inner limit))))"

text \<open>The rows of an address, each transaction once (\<open>seen.insert\<close> on the text of its hash).\<close>

fun unseen_rows :: "node_env \<Rightarrow> string list \<Rightarrow> tx_row list \<Rightarrow> tx_row list" where
  "unseen_rows V seen [] = []"
| "unseen_rows V seen ((height, i, tx, timestamp) # rows) =
     (let h = hex_encode (ne_ext V) (tx_hash (ne_ext V) tx) in
      if h \<in> set seen then unseen_rows V seen rows
      else (height, i, tx, timestamp) # unseen_rows V (h # seen) rows)"

definition address_row :: "node_env \<Rightarrow> tx_row \<Rightarrow> json" where
  "address_row V row = (case row of (height, _, tx, timestamp) \<Rightarrow>
     (let (to, amount) = extract_to_and_amount V tx in
      JObj [(''hash'', j_hex V (tx_hash (ne_ext V) tx)), (''txType'', JData (DTxType (tx_type tx))),
        (''from'', j_hex V (tx_from tx)), (''to'', j_opt JStr to), (''amount'', j_opt JStr amount),
        (''blockHeight'', j_word height), (''timestamp'', j_word timestamp), (''nonce'', j_word (tx_nonce tx))]))"

definition rpc_transactions_by_address :: "'p rpc_env \<Rightarrow> node_env \<Rightarrow> inputs \<Rightarrow> ChainInner \<Rightarrow> 'p \<Rightarrow> string + json" where
  "rpc_transactions_by_address E V I inner params =
     (let limit = unat (min (u64_or E params 1 50) 200); offset = unat (u64_or E params 2 0) in
      try_then (rpc_parse_address E params 0) (\<lambda>a.
      Inr (JArr (map (address_row V)
        (unseen_rows V [] (chain_transactions_by_address V I inner a limit offset))))))"

definition rpc_block_rewards :: "'p rpc_env \<Rightarrow> node_env \<Rightarrow> inputs \<Rightarrow> ChainInner \<Rightarrow> 'p \<Rightarrow> string + json" where
  "rpc_block_rewards E V I inner params =
     try_then (ok_or ''missing or invalid height param'' (re_param_u64 E params 0)) (\<lambda>h.
     Inr (j_opt (\<lambda>block. JArr (List.map_filter (\<lambda>e. case e of
         RewardDistributed recipient amount reward_type \<Rightarrow>
           Some (JObj [(''recipient'', j_hex V recipient), (''amount'', j_text amount), (''rewardType'', JStr reward_type)])
       | _ \<Rightarrow> None) (bl_events block))) (chain_get_block V I inner h)))"

section \<open>Accounts, tokens, agents\<close>

definition rpc_balance :: "'p rpc_env \<Rightarrow> ChainInner \<Rightarrow> 'p \<Rightarrow> string + json" where
  "rpc_balance E inner params = try_then (rpc_parse_address E params 0) (\<lambda>a. Inr (j_text (get_balance (ch_state inner) a)))"

definition rpc_token_balance :: "'p rpc_env \<Rightarrow> ChainInner \<Rightarrow> 'p \<Rightarrow> string + json" where
  "rpc_token_balance E inner params = (case (rpc_parse_address E params 0, rpc_parse_address E params 1) of
      (Inr a, Inr t) \<Rightarrow> Inr (j_text (get_token_balance (ch_state inner) a t))
    | _ \<Rightarrow> Inl ''invalid params'')"

definition rpc_agent :: "'p rpc_env \<Rightarrow> ChainInner \<Rightarrow> 'p \<Rightarrow> string + json" where
  "rpc_agent E inner params = try_then (rpc_parse_address E params 0) (\<lambda>a.
     case bt_get (agents (ch_state inner)) a of
       Some agent \<Rightarrow> to_value E ''Serialization error: '' (DAgent agent)
     | None \<Rightarrow> Inr JNull)"

definition rpc_reputation :: "'p rpc_env \<Rightarrow> ChainInner \<Rightarrow> 'p \<Rightarrow> string + json" where
  "rpc_reputation E inner params = try_then (rpc_parse_address E params 0) (\<lambda>a.
     to_value E ''Serialization error: '' (DReputation (get_reputation inner a)))"

definition rpc_services :: "'p rpc_env \<Rightarrow> ChainInner \<Rightarrow> 'p \<Rightarrow> string + json" where
  "rpc_services E inner params =
     to_value E ''Serialization error: '' (DServices (get_services inner (re_param_str E params 0)))"

definition rpc_nonce :: "'p rpc_env \<Rightarrow> ChainInner \<Rightarrow> 'p \<Rightarrow> string + json" where
  "rpc_nonce E inner params = try_then (rpc_parse_address E params 0) (\<lambda>a. Inr (j_word (get_nonce (ch_state inner) a)))"

definition rpc_token_info :: "'p rpc_env \<Rightarrow> ChainInner \<Rightarrow> 'p \<Rightarrow> string + json" where
  "rpc_token_info E inner params = try_then (rpc_parse_address E params 0) (\<lambda>t.
     case bt_get (tokens (ch_state inner)) t of
       Some info \<Rightarrow> to_value E ''Serialization error: '' (DToken info)
     | None \<Rightarrow> Inr JNull)"

definition rpc_tokens :: "node_env \<Rightarrow> ChainInner \<Rightarrow> string + json" where
  "rpc_tokens V inner = Inr (JArr (map (\<lambda>t. JObj [(''token_id'', j_hex V (td_id t)), (''name'', JStr (td_name t)),
     (''symbol'', JStr (td_symbol t)), (''decimals'', j_word (td_decimals t)), (''total_supply'', j_text (td_total_supply t)),
     (''creator'', j_hex V (td_issuer t))]) (bt_values (tokens (ch_state inner)))))"

definition rpc_token_holders :: "'p rpc_env \<Rightarrow> node_env \<Rightarrow> ChainInner \<Rightarrow> 'p \<Rightarrow> string + json" where
  "rpc_token_holders E V inner params = try_then (rpc_parse_address E params 0) (\<lambda>tid.
     Inr (JArr (map (\<lambda>(addr, balance). JObj [(''address'', j_hex V addr), (''balance'', j_text balance)])
       (get_token_holders inner tid))))"

definition rpc_token_allowance :: "'p rpc_env \<Rightarrow> ChainInner \<Rightarrow> 'p \<Rightarrow> string + json" where
  "rpc_token_allowance E inner params =
     (case (rpc_parse_address E params 0, rpc_parse_address E params 1, rpc_parse_address E params 2) of
        (Inr owner, Inr spender, Inr t) \<Rightarrow> Inr (j_text (get_token_allowance (ch_state inner) owner spender t))
      | _ \<Rightarrow> Inl ''invalid params: expected (owner, spender, tokenId)'')"

definition rpc_agent_score :: "'p rpc_env \<Rightarrow> ChainInner \<Rightarrow> 'p \<Rightarrow> string + json" where
  "rpc_agent_score E inner params = try_then (rpc_parse_address E params 0) (\<lambda>a.
     let score = compute_agent_score (ch_state inner) a in
     Inr (JObj [(''total'', j_word (sd_total score)), (''activity'', j_word (sd_activity score)),
       (''uptime'', j_word (sd_uptime score)), (''block_production'', j_word (sd_block_production score)),
       (''economic'', j_word (sd_economic score)), (''platform'', j_word (sd_platform score)),
       (''decay_factor'', j_word (sd_decay_factor score))]))"

section \<open>Stakes, validators, miners, supply\<close>

definition rpc_stake :: "'p rpc_env \<Rightarrow> ChainInner \<Rightarrow> 'p \<Rightarrow> string + json" where
  "rpc_stake E inner params = try_then (rpc_parse_address E params 0) (\<lambda>a. Inr (j_text (bt_get_or (stakes (ch_state inner)) 0 a)))"

definition rpc_unbonding :: "'p rpc_env \<Rightarrow> node_env \<Rightarrow> ChainInner \<Rightarrow> 'p \<Rightarrow> string + json" where
  "rpc_unbonding E V inner params = try_then (rpc_parse_address E params 0) (\<lambda>a.
     Inr (JArr (map (\<lambda>e. JObj [(''address'', j_hex V (ub_address e)), (''amount'', j_text (ub_amount e)),
       (''releaseHeight'', j_word (ub_release_height e))]) (get_unbonding inner a))))"

definition rpc_stake_delegation :: "'p rpc_env \<Rightarrow> node_env \<Rightarrow> ChainInner \<Rightarrow> 'p \<Rightarrow> string + json" where
  "rpc_stake_delegation E V inner params = try_then (rpc_parse_address E params 0) (\<lambda>a.
     Inr (j_opt (j_hex V) (bt_get (stake_delegations (ch_state inner)) a)))"

definition get_validators :: "node_env \<Rightarrow> ChainInner \<Rightarrow> json list" where
  "get_validators V inner = map (\<lambda>v. JObj [(''address'', j_hex V (av_address v)), (''stake'', j_text (av_stake v)),
     (''weight'', j_word (av_weight v)), (''agentScore'', j_word (av_agent_score v))]) (ch_active inner)"

definition rpc_user_delegations :: "'p rpc_env \<Rightarrow> node_env \<Rightarrow> ChainInner \<Rightarrow> 'p \<Rightarrow> string + json" where
  "rpc_user_delegations E V inner params = try_then (rpc_parse_address E params 0) (\<lambda>a.
     Inr (JArr (map (\<lambda>(validator, amount, bps). JObj [(''validator'', j_hex V validator), (''amount'', j_text amount),
       (''commission_bps'', j_word bps)]) (user_delegation_rows inner a))))"

definition rpc_validator_detail :: "'p rpc_env \<Rightarrow> ChainInner \<Rightarrow> 'p \<Rightarrow> string + json" where
  "rpc_validator_detail E inner params = try_then (rpc_parse_address E params 0) (\<lambda>a.
     Inr (j_opt (\<lambda>detail. JData (DValidatorDetail detail)) (get_validator_detail inner a)))"

definition rpc_miner_info :: "'p rpc_env \<Rightarrow> ChainInner \<Rightarrow> 'p \<Rightarrow> string + json" where
  "rpc_miner_info E inner params = try_then (rpc_parse_address E params 0) (\<lambda>a.
     case bt_get (miners (ch_state inner)) a of Some m \<Rightarrow> to_value E [] (DMiner m) | None \<Rightarrow> Inr JNull)"

definition rpc_miners :: "'p rpc_env \<Rightarrow> ChainInner \<Rightarrow> 'p \<Rightarrow> string + json" where
  "rpc_miners E inner params =
     (let active = (case re_param_bool E params 0 of Some b \<Rightarrow> b | None \<Rightarrow> True);
          limit = unat (min (u64_or E params 1 100) 500); offset = unat (u64_or E params 2 0) in
      to_value E [] (DMiners (get_miners (re_hash_order E) inner active limit offset)))"

definition rpc_estimate_fee :: "string + json" where
  "rpc_estimate_fee = Inr (JObj [(''fee'', j_text GAS_FEE), (''unit'', JStr ''base''),
     (''description'', JStr ''Fixed fee per transaction'')])"

section \<open>Contracts\<close>

definition rpc_contract_info :: "'p rpc_env \<Rightarrow> node_env \<Rightarrow> ChainInner \<Rightarrow> 'p \<Rightarrow> string + json" where
  "rpc_contract_info E V inner params = try_then (rpc_parse_address E params 0) (\<lambda>a.
     Inr (j_opt (\<lambda>c. JObj [(''address'', j_hex V (ci_address c)), (''codeHash'', j_hex V (ci_code_hash c)),
       (''creator'', j_hex V (ci_creator c)), (''deployedAt'', j_word (ci_deployed_at c))])
       (bt_get (contracts (ch_state inner)) a)))"

definition unhex_as :: "'p rpc_env \<Rightarrow> string \<Rightarrow> string \<Rightarrow> string + bytes" where
  "unhex_as E pre s = (case re_unhex E s of Inl e \<Rightarrow> Inl (pre @ e) | Inr bs \<Rightarrow> Inr bs)"

definition rpc_contract_storage :: "'p rpc_env \<Rightarrow> node_env \<Rightarrow> ChainInner \<Rightarrow> 'p \<Rightarrow> string + json" where
  "rpc_contract_storage E V inner params = try_then (rpc_parse_address E params 0) (\<lambda>a.
     try_then (unhex_as E ''invalid key hex: '' (str_or E params 1 [])) (\<lambda>k.
     Inr (j_opt (j_hex V) (bt_get (contract_storage (ch_state inner)) (a, k)))))"

definition rpc_contract_code :: "'p rpc_env \<Rightarrow> node_env \<Rightarrow> ChainInner \<Rightarrow> 'p \<Rightarrow> string + json" where
  "rpc_contract_code E V inner params = try_then (rpc_parse_address E params 0) (\<lambda>a.
     Inr (j_opt (\<lambda>code. JObj [(''code'', j_hex V code), (''size'', JNum (int (length code)))])
       (bt_get (contract_code (ch_state inner)) a)))"

definition rpc_contract_events :: "'p rpc_env \<Rightarrow> node_env \<Rightarrow> inputs \<Rightarrow> ChainInner \<Rightarrow> 'p \<Rightarrow> string + json" where
  "rpc_contract_events E V I inner params =
     (let from_block = u64_or E params 1 0; to_block = u64_or E params 2 (- 1) in
      try_then (rpc_parse_address E params 0) (\<lambda>a.
      Inr (JArr (List.map_filter (\<lambda>e. case e of
          ContractEventB c tx_index topic dat \<Rightarrow> Some (JObj [(''contract'', j_hex V c), (''txIndex'', j_word tx_index),
            (''topic'', JStr topic), (''data'', j_hex V dat)])
        | _ \<Rightarrow> None) (get_contract_events V I inner a from_block to_block)))))"

definition rpc_contract_view :: "'p rpc_env \<Rightarrow> node_env \<Rightarrow> ChainInner \<Rightarrow> 'p \<Rightarrow> string + json" where
  "rpc_contract_view E V inner params =
     try_then (rpc_parse_address E params 0) (\<lambda>a.
     try_then (unhex_as E ''invalid args hex: '' (str_or E params 2 [])) (\<lambda>arg_bytes.
     try_then (call_contract_view (re_view_vm E) inner a (str_or E params 1 []) arg_bytes) (\<lambda>result.
     Inr (JObj [(''returnData'', j_hex V (er_return_data result)), (''fuelConsumed'', j_word (er_fuel_consumed result)),
       (''logs'', JArr (map JStr (er_logs result)))]))))"

end
