(* ===== verification/Rpc_Dispatch.thy ===== *)
theory Rpc_Dispatch
  imports Rpc_Server
begin

text \<open>
  The methods of the RPC server that have effects, the dispatch, and the remaining endpoints
  (\<open>node/src/rpc_server.rs\<close>). A request is answered with the commands that it sends to the network
  and the server's next state.
\<close>

section \<open>Rate limit and cool-down\<close>

definition check_contract_view_rate ::
  "IpAddr \<Rightarrow> nat \<Rightarrow> (IpAddr \<Rightarrow> (nat \<times> u32) option) \<Rightarrow> bool \<times> (IpAddr \<Rightarrow> (nat \<times> u32) option)" where
  "check_contract_view_rate ip now rates =
     (let entry = (case rates ip of Some e \<Rightarrow> e | None \<Rightarrow> (now, 0)) in
      if now - fst entry \<ge> CONTRACT_VIEW_RATE_WINDOW then (True, rates(ip \<mapsto> (now, 1)))
      else if snd entry < CONTRACT_VIEW_RATE_LIMIT then (True, rates(ip \<mapsto> (fst entry, snd entry + 1)))
      else (False, rates(ip \<mapsto> entry)))"

definition drip_age_secs :: "nat \<Rightarrow> nat \<Rightarrow> nat" where
  "drip_age_secs since now = (now - since) div 10 ^ 9"

definition cooling_down :: "(address \<Rightarrow> nat option) \<Rightarrow> address \<Rightarrow> nat \<Rightarrow> bool" where
  "cooling_down drips a now = (case drips a of
      Some since \<Rightarrow> drip_age_secs since now < unat FAUCET_COOLDOWN_SECS
    | None \<Rightarrow> False)"

definition cooldown_text :: "(address \<Rightarrow> nat option) \<Rightarrow> address \<Rightarrow> nat \<Rightarrow> string" where
  "cooldown_text drips a now =
     ''faucet cooldown: try again in ''
     @ show_word (FAUCET_COOLDOWN_SECS - of_nat (drip_age_secs (the (drips a)) now)) @ ''s''"

section \<open>Methods with effects\<close>

type_synonym rpc_effect = "(string + json) \<times> P2pCommand list \<times> rpc_state"

definition p2p_send :: "rpc_state \<Rightarrow> P2pCommand \<Rightarrow> P2pCommand list" where
  "p2p_send s cmd = (if rp_p2p_connected s then [cmd] else [])"

text \<open>The transaction is broadcast before the node has looked at it.\<close>

definition rpc_send_transaction :: "'p rpc_env \<Rightarrow> node_env \<Rightarrow> 'p \<Rightarrow> rpc_state \<Rightarrow> rpc_effect" where
  "rpc_send_transaction E V params s = (case re_param_str E params 0 of
      None \<Rightarrow> (Inl ''missing tx hex param'', [], s)
    | Some h \<Rightarrow> (case re_unhex E h of
        Inl e \<Rightarrow> (Inl (''invalid hex: '' @ e), [], s)
      | Inr bs \<Rightarrow> (case re_dec_tx E bs of
          Inl e \<Rightarrow> (Inl (''decode tx: '' @ e), [], s)
        | Inr tx \<Rightarrow> (case submit_tx V tx (rp_chain s) of
            (Inr hash, chain') \<Rightarrow> (Inr (j_hex V hash), p2p_send s (BroadcastTx tx), s\<lparr>rp_chain := chain'\<rparr>)
          | (Inl e, chain') \<Rightarrow> (Inl (re_submit_error E e), p2p_send s (BroadcastTx tx), s\<lparr>rp_chain := chain'\<rparr>)))))"

definition rpc_submit_checkin :: "'p rpc_env \<Rightarrow> node_env \<Rightarrow> inputs \<Rightarrow> 'p \<Rightarrow> rpc_state \<Rightarrow> rpc_effect" where
  "rpc_submit_checkin E V I params s = (case re_param_str E params 0 of
      None \<Rightarrow> (Inl ''missing checkin hex param'', [], s)
    | Some h \<Rightarrow> (case re_unhex E h of
        Inl e \<Rightarrow> (Inl (''invalid hex: '' @ e), [], s)
      | Inr bs \<Rightarrow> (case re_dec_checkin E bs of
          Inl e \<Rightarrow> (Inl (''decode checkin: '' @ e), [], s)
        | Inr witness \<Rightarrow> (case submit_miner_checkin V I witness (rp_chain s) of
            (Inr msg, chain') \<Rightarrow> (Inr (JStr msg), p2p_send s (BroadcastCheckin witness), s\<lparr>rp_chain := chain'\<rparr>)
          | (Inl e, chain') \<Rightarrow> (Inl (re_checkin_error E e), [], s\<lparr>rp_chain := chain'\<rparr>)))))"

definition rpc_faucet :: "'p rpc_env \<Rightarrow> node_env \<Rightarrow> rpc_inputs \<Rightarrow> 'p \<Rightarrow> rpc_state \<Rightarrow> rpc_effect" where
  "rpc_faucet E V R params s =
     (if rp_faucet_enabled s \<noteq> Some True then (Inl ''faucet is disabled on this network'', [], s)
      else case rpc_parse_address E params 0 of
          Inl e \<Rightarrow> (Inl e, [], s)
        | Inr a \<Rightarrow>
            if cooling_down (rp_faucet_last_drip s) a (ri_now R)
            then (Inl (cooldown_text (rp_faucet_last_drip s) a (ri_now2 R)), [], s)
            else (case faucet_drip V a (rp_chain s) of
                (Inl e, chain') \<Rightarrow> (Inl (re_submit_error E e), [], s\<lparr>rp_chain := chain'\<rparr>)
              | (Inr hash, chain') \<Rightarrow>
                  (Inr (JObj [(''address'', j_hex V a), (''amount'', JStr ''10000000000''), (''txHash'', j_hex V hash)]), [],
                   s\<lparr>rp_chain := chain', rp_faucet_last_drip := (rp_faucet_last_drip s)(a \<mapsto> ri_now3 R)\<rparr>)))"

section \<open>Dispatch\<close>

text \<open>The methods that only read, with their answers.\<close>

definition query_table ::
  "'p rpc_env \<Rightarrow> node_env \<Rightarrow> inputs \<Rightarrow> ChainInner \<Rightarrow> 'p \<Rightarrow> (string \<times> (string + json)) list" where
  "query_table E V I inner params =
     [(''claw_blockNumber'', rpc_block_number inner),
      (''claw_getTransactionCount'', rpc_transaction_count inner),
      (''claw_getBlockByNumber'', rpc_get_block E V I inner params),
      (''claw_getBalance'', rpc_balance E inner params),
      (''claw_getTokenBalance'', rpc_token_balance E inner params),
      (''claw_getAgent'', rpc_agent E inner params),
      (''claw_getReputation'', rpc_reputation E inner params),
      (''claw_getServices'', rpc_services E inner params),
      (''claw_getTransactionReceipt'', rpc_transaction_receipt E V I inner params),
      (''claw_getTransactionByHash'', rpc_transaction_by_hash E V I inner params),
      (''claw_getNonce'', rpc_nonce E inner params),
      (''claw_getTokenInfo'', rpc_token_info E inner params),
      (''claw_getTransactionsByAddress'', rpc_transactions_by_address E V I inner params),
      (''claw_getContractInfo'', rpc_contract_info E V inner params),
      (''claw_getContractStorage'', rpc_contract_storage E V inner params),
      (''claw_getContractCode'', rpc_contract_code E V inner params),
      (''claw_getContractEvents'', rpc_contract_events E V I inner params),
      (''claw_getBlockRewards'', rpc_block_rewards E V I inner params),
      (''claw_getStake'', rpc_stake E inner params),
      (''claw_getUnbonding'', rpc_unbonding E V inner params),
      (''claw_getAgentScore'', rpc_agent_score E inner params),
      (''claw_getStakeDelegation'', rpc_stake_delegation E V inner params),
      (''claw_getValidators'', Inr (JArr (get_validators V inner))),
      (''claw_getUserDelegations'', rpc_user_delegations E V inner params),
      (''claw_getValidatorDetail'', rpc_validator_detail E inner params),
      (''claw_totalSupply'', Inr (JData (DSupplyAudit (get_total_supply_audit inner)))),
      (''claw_getSupplyInfo'', Inr (JData (DSupplyInfo (get_supply_info inner)))),
      (''claw_estimateFee'', rpc_estimate_fee),
      (''claw_getTokenAllowance'', rpc_token_allowance E inner params),
      (''claw_getMinerInfo'', rpc_miner_info E inner params),
      (''claw_getMiners'', rpc_miners E inner params),
      (''claw_getMiningStats'', Inr (JData (DMiningStats (get_mining_stats inner)))),
      (''claw_getRecentTransactions'', rpc_recent_transactions E V I inner params),
      (''claw_getTokens'', rpc_tokens V inner),
      (''claw_getTokenHolders'', rpc_token_holders E V inner params)]"

definition dispatch_rpc ::
  "'p rpc_env \<Rightarrow> node_env \<Rightarrow> rpc_inputs \<Rightarrow> string \<Rightarrow> 'p \<Rightarrow> rpc_state \<Rightarrow> rpc_effect" where
  "dispatch_rpc E V R meth params s =
     (if meth = ''claw_sendTransaction'' then rpc_send_transaction E V params s
      else if meth = ''claw_faucet'' then rpc_faucet E V R params s
      else if meth = ''claw_submitMinerCheckin'' then rpc_submit_checkin E V (ri_node R) params s
      else if meth = ''claw_callContractView'' then (rpc_contract_view E V (rp_chain s) params, [], s)
      else case map_of (query_table E V (ri_node R) (rp_chain s) params) meth of
          Some r \<Rightarrow> (r, [], s)
        | None \<Rightarrow> (Inl (''method not found: '' @ meth), [], s))"

definition error_code :: "string \<Rightarrow> int" where
  "error_code meth = (if meth = ''claw_getBlockByNumber'' then - 32603 else - 32000)"

definition finish_rpc :: "'i \<Rightarrow> string \<Rightarrow> string + json \<Rightarrow> 'i RpcResponse" where
  "finish_rpc i meth result = (case result of
      Inr val \<Rightarrow> rpc_ok i val
    | Inl msg \<Rightarrow> rpc_err i (error_code meth) msg)"

definition handle_rpc ::
  "'p rpc_env \<Rightarrow> node_env \<Rightarrow> rpc_inputs \<Rightarrow> ('i, 'p) RpcRequest \<Rightarrow> rpc_state
   \<Rightarrow> 'i RpcResponse \<times> P2pCommand list \<times> rpc_state" where
  "handle_rpc E V R req s =
     (if rq_jsonrpc req \<noteq> ''2.0'' then (rpc_err (rq_id req) (- 32600) ''Invalid JSON-RPC version'', [], s)
      else
        (let (admitted, rates) = (if rq_method req = ''claw_callContractView''
               then check_contract_view_rate (ri_peer_ip R) (ri_now R) (rp_view_rate s) else (True, rp_view_rate s));
             s1 = s\<lparr>rp_view_rate := rates\<rparr> in
         if \<not> admitted
         then (rpc_err (rq_id req) (- 32029)
                 ''rate limit exceeded: max 10 callContractView requests per second per IP'', [], s1)
         else (case dispatch_rpc E V R (rq_method req) (rq_params req) s1 of
             (result, cmds, s2) \<Rightarrow> (finish_rpc (rq_id req) (rq_method req) result, cmds, s2))))"

section \<open>The other endpoints\<close>

definition health_status :: "u64 \<Rightarrow> ChainInner \<Rightarrow> string" where
  "health_status now inner =
     (let block_age = saturating_sub now (bl_timestamp (ch_latest_block inner)) in
      if block_age < 60 \<or> bl_height (ch_latest_block inner) = 0 then ''ok'' else ''degraded'')"

definition handle_health :: "'p rpc_env \<Rightarrow> node_env \<Rightarrow> u64 \<Rightarrow> u64 option \<Rightarrow> ChainInner \<Rightarrow> json" where
  "handle_health E V now start_time inner =
     (let start = (case start_time of Some t \<Rightarrow> t | None \<Rightarrow> now) in
      JObj [(''status'', JStr (health_status now inner)), (''version'', JStr (re_version E)),
        (''chain_id'', JStr (ch_chain_id inner)), (''genesis_hash'', j_hex V (ch_genesis_hash inner)),
        (''height'', j_word (bl_height (ch_latest_block inner))), (''epoch'', j_word (va_epoch (ch_validator_set inner))),
        (''peer_count'', JNum (int (length (ch_connected_peer_ids inner)))),
        (''mempool_size'', JNum (int (length (ch_mempool inner)))),
        (''last_block_age_secs'', j_word (saturating_sub now (bl_timestamp (ch_latest_block inner)))),
        (''uptime_secs'', j_word (saturating_sub now start))])"

definition handle_peers :: "ChainInner \<Rightarrow> json" where
  "handle_peers inner = JObj [(''count'', JNum (int (length (ch_connected_peer_ids inner)))),
     (''peers'', JArr (map JStr (ch_connected_peer_ids inner)))]"

definition handle_version :: "'p rpc_env \<Rightarrow> ChainInner \<Rightarrow> json" where
  "handle_version E inner =
     (let current = re_version E;
          fields = (case ch_version_manifest inner of
            Some m \<Rightarrow>
              [(''upgrade_level'', JStr (as_str (check_version current m (Some (bl_height (ch_latest_block inner)))))),
               (''latest_version'', JStr (vm_latest m)), (''minimum_version'', JStr (vm_minimum m)),
               (''release_url'', JStr (vm_release_url m)), (''changelog'', JStr (vm_changelog m)),
               (''announcement'', j_opt JStr (vm_announcement m)), (''halt_height'', j_opt j_word (vm_halt_height m)),
               (''plugin_latest'', j_opt JStr (vm_plugin_latest m)), (''plugin_minimum'', j_opt JStr (vm_plugin_minimum m)),
               (''plugin_changelog'', j_opt JStr (vm_plugin_changelog m))]
          | None \<Rightarrow>
              [(''upgrade_level'', JStr (as_str UpToDate)), (''latest_version'', JStr current),
               (''minimum_version'', JStr current), (''release_url'', JStr []), (''changelog'', JStr []),
               (''announcement'', JNull), (''halt_height'', JNull), (''plugin_latest'', JNull),
               (''plugin_minimum'', JNull), (''plugin_changelog'', JNull)]) in
      JObj ((''node_version'', JStr current) # fields))"

end
