(* ===== verification/Rpc_Safety.thy ===== *)
theory Rpc_Safety
  imports Rpc_Dispatch
begin

text \<open>
  What a client can do to a node through RPC: it can put a transaction into the mempool and a check-in
  into the cache, and nothing else; view calls and faucet drips are limited, whatever requests come in
  whatever order. The contract of the methods is the locale \<open>rpc_method\<close>.
\<close>

section \<open>The contract of the methods\<close>

text \<open>The chain is the same but for one verified transaction more in the mempool, or a check-in in the cache.\<close>

definition fed :: "node_env \<Rightarrow> ChainInner \<Rightarrow> ChainInner \<Rightarrow> bool" where
  "fed V c c' \<longleftrightarrow> c' = c\<lparr>ch_mempool := ch_mempool c', ch_checkin_cache := ch_checkin_cache c'\<rparr>
     \<and> (ch_mempool c' = ch_mempool c
        \<or> (\<exists>tx. ch_mempool c' = ch_mempool c @ [tx] \<and> verify_transaction (ne_ext V) tx))"

lemma fed_refl [simp]: "fed V c c"
  by (simp add: fed_def)

lemma submit_tx_feeds: "submit_tx V tx c = (r, c') \<Longrightarrow> fed V c c'"
  by (auto simp: submit_tx_def fed_def Let_def split: if_splits)

lemma faucet_drip_feeds: "faucet_drip V a c = (r, c') \<Longrightarrow> fed V c c'"
  by (auto simp: faucet_drip_def fed_def Let_def split: if_splits sum.splits)

lemma submit_checkin_feeds: "submit_miner_checkin V I w c = (r, c') \<Longrightarrow> fed V c c'"
  by (auto simp: submit_miner_checkin_def receive_checkin_def fed_def split: if_splits option.splits prod.splits)

locale rpc_method =
  fixes V :: node_env and h :: "rpc_state \<Rightarrow> rpc_effect"
  assumes feeds: "h s = (r, cmds, s') \<Longrightarrow> fed V (rp_chain s) (rp_chain s')"
    and frame: "h s = (r, cmds, s') \<Longrightarrow> rp_view_rate s' = rp_view_rate s \<and> rp_faucet_enabled s' = rp_faucet_enabled s
      \<and> rp_p2p_connected s' = rp_p2p_connected s"
    and quiet: "h s = (r, cmds, s') \<Longrightarrow> \<not> rp_p2p_connected s \<Longrightarrow> cmds = []"
begin

lemma keeps_ledger:
  assumes "h s = (r, cmds, s')"
  shows "ch_state (rp_chain s') = ch_state (rp_chain s) \<and> ch_store (rp_chain s') = ch_store (rp_chain s)
    \<and> ch_latest_block (rp_chain s') = ch_latest_block (rp_chain s)"
proof -
  have "rp_chain s' = (rp_chain s)\<lparr>ch_mempool := ch_mempool (rp_chain s'), ch_checkin_cache := ch_checkin_cache (rp_chain s')\<rparr>"
    using feeds[OF assms] by (simp add: fed_def)
  then show ?thesis by (metis ChainInner.select_convs(1,2,6) ChainInner.surjective ChainInner.update_convs(3,20))
qed

end

interpretation send_transaction: rpc_method V "rpc_send_transaction E V params" for E V params
  by unfold_locales (auto simp: rpc_send_transaction_def p2p_send_def split: option.splits sum.splits prod.splits
    dest: submit_tx_feeds)

interpretation submit_checkin: rpc_method V "rpc_submit_checkin E V I params" for E V I params
  by unfold_locales (auto simp: rpc_submit_checkin_def p2p_send_def split: option.splits sum.splits prod.splits
    dest: submit_checkin_feeds)

interpretation faucet: rpc_method V "rpc_faucet E V R params" for E V R params
  by unfold_locales (auto simp: rpc_faucet_def split: if_splits sum.splits prod.splits dest: faucet_drip_feeds)

lemma dispatch_cases:
  assumes "dispatch_rpc E V R meth params s = (r, cmds, s')"
  shows "rpc_send_transaction E V params s = (r, cmds, s') \<or> rpc_faucet E V R params s = (r, cmds, s')
    \<or> rpc_submit_checkin E V (ri_node R) params s = (r, cmds, s') \<or> cmds = [] \<and> s' = s"
  using assms by (auto simp: dispatch_rpc_def split: if_splits option.splits)

interpretation dispatch: rpc_method V "dispatch_rpc E V R meth params" for E V R meth params
proof
  fix s r cmds s'
  assume run: "dispatch_rpc E V R meth params s = (r, cmds, s')"
  show "fed V (rp_chain s) (rp_chain s')"
    using dispatch_cases[OF run] send_transaction.feeds faucet.feeds submit_checkin.feeds by auto
  show "rp_view_rate s' = rp_view_rate s \<and> rp_faucet_enabled s' = rp_faucet_enabled s
      \<and> rp_p2p_connected s' = rp_p2p_connected s"
    by (metis dispatch_cases[OF run] send_transaction.frame faucet.frame submit_checkin.frame)
  show "cmds = []" if "\<not> rp_p2p_connected s"
    by (metis dispatch_cases[OF run] that send_transaction.quiet faucet.quiet submit_checkin.quiet)
qed

section \<open>A concrete server\<close>

text \<open>A server of the demonstration node for the witnesses: every parameter is one text, which decodes to an address.\<close>

definition demo_rpc :: "unit rpc_env" where
  "demo_rpc = \<lparr>re_param_str = (\<lambda>_ _. Some ''00''), re_param_u64 = (\<lambda>_ _. None), re_param_bool = (\<lambda>_ _. None),
     re_unhex = (\<lambda>_. Inr (replicate 32 1)), re_dec_tx = (\<lambda>_. Inl ''no''), re_dec_checkin = (\<lambda>_. Inl ''no''),
     re_submit_error = (\<lambda>_. ''rejected''), re_checkin_error = (\<lambda>_. ''rejected''), re_serialize_error = (\<lambda>_. None),
     re_view_vm = (\<lambda>_ _ _ _ _ _. None), re_hash_order = (\<lambda>ms. ms), re_version = ''1.0.0''\<rparr>"

definition demo_server :: rpc_state where
  "demo_server = \<lparr>rp_chain = demo_node, rp_faucet_enabled = Some True, rp_p2p_connected = True,
     rp_faucet_last_drip = (\<lambda>_. None), rp_view_rate = (\<lambda>_. None)\<rparr>"

definition demo_at :: "nat \<Rightarrow> rpc_inputs" where
  "demo_at now = \<lparr>ri_peer_ip = ''10.0.0.1'', ri_now = now, ri_now2 = now, ri_now3 = now, ri_node = demo_inputs\<rparr>"

definition demo_request :: "string \<Rightarrow> (nat, unit) RpcRequest" where
  "demo_request meth = \<lparr>rq_jsonrpc = ''2.0'', rq_id = 1, rq_method = meth, rq_params = ()\<rparr>"

section \<open>One request\<close>

definition admission :: "rpc_inputs \<Rightarrow> ('i, 'p) RpcRequest \<Rightarrow> rpc_state \<Rightarrow> bool \<times> (IpAddr \<Rightarrow> (nat \<times> u32) option)" where
  "admission R req s =
     (if rq_jsonrpc req \<noteq> ''2.0'' then (False, rp_view_rate s)
      else if rq_method req = ''claw_callContractView''
      then check_contract_view_rate (ri_peer_ip R) (ri_now R) (rp_view_rate s)
      else (True, rp_view_rate s))"

lemma update_same_rate [simp]: "s\<lparr>rp_view_rate := rp_view_rate s\<rparr> = s"
  by (cases s) simp

lemma handle_rpc_parts:
  assumes "handle_rpc E V R req s = (resp, cmds, s')" and "admission R req s = (granted, rates)"
  shows "\<not> granted \<Longrightarrow> s' = s\<lparr>rp_view_rate := rates\<rparr> \<and> cmds = []"
    and "granted \<Longrightarrow> \<exists>r. dispatch_rpc E V R (rq_method req) (rq_params req) (s\<lparr>rp_view_rate := rates\<rparr>) = (r, cmds, s')
        \<and> resp = finish_rpc (rq_id req) (rq_method req) r"
proof -
  show "s' = s\<lparr>rp_view_rate := rates\<rparr> \<and> cmds = []" if "\<not> granted"
    using assms that by (auto simp: handle_rpc_def admission_def Let_def split: if_splits)
  show "\<exists>r. dispatch_rpc E V R (rq_method req) (rq_params req) (s\<lparr>rp_view_rate := rates\<rparr>) = (r, cmds, s')
        \<and> resp = finish_rpc (rq_id req) (rq_method req) r" if "granted"
    using assms that
    by (cases "dispatch_rpc E V R (rq_method req) (rq_params req) (s\<lparr>rp_view_rate := rates\<rparr>)")
      (auto simp: handle_rpc_def admission_def Let_def split: if_splits)
qed

text \<open>
  C28. Remote calls cannot change the ledger: whatever the request and its parameters, the node
  afterwards differs from the node before at most by one more transaction at the end of the mempool,
  whose signature verifies, and by its cache of check-ins; in particular the world state, the store
  and the tip are the same.
\<close>

theorem rpc_only_feeds_node:
  assumes "handle_rpc E V R req s = (resp, cmds, s')"
  shows "fed V (rp_chain s) (rp_chain s') \<and> ch_state (rp_chain s') = ch_state (rp_chain s)
    \<and> ch_store (rp_chain s') = ch_store (rp_chain s) \<and> ch_latest_block (rp_chain s') = ch_latest_block (rp_chain s)"
proof -
  obtain granted rates where adm: "admission R req s = (granted, rates)" by fastforce
  show ?thesis
  proof (cases granted)
    case True
    then obtain r where "dispatch_rpc E V R (rq_method req) (rq_params req) (s\<lparr>rp_view_rate := rates\<rparr>) = (r, cmds, s')"
      using handle_rpc_parts(2)[OF assms adm] by blast
    from dispatch.feeds[OF this] dispatch.keeps_ledger[OF this] show ?thesis by simp
  next
    case False
    then show ?thesis using handle_rpc_parts(1)[OF assms adm] by simp
  qed
qed

theorem rpc_only_feeds_node_witness:
  "ch_state (rp_chain (snd (snd (handle_rpc demo_rpc demo_env (demo_at 0) (demo_request ''claw_faucet'') demo_server))))
     = ch_state demo_node"
proof -
  obtain resp cmds s' where run: "handle_rpc demo_rpc demo_env (demo_at 0) (demo_request ''claw_faucet'') demo_server
      = (resp, cmds, s')"
    by (metis prod_cases3)
  then show ?thesis using rpc_only_feeds_node[OF run] by (simp only: run snd_conv) (simp add: demo_server_def)
qed

section \<open>The rate of view calls\<close>

text \<open>The calls that pass the limiter, in a sequence of calls with their callers and times.\<close>

fun view_run :: "(IpAddr \<times> nat) list \<Rightarrow> (IpAddr \<Rightarrow> (nat \<times> u32) option) \<Rightarrow> (IpAddr \<times> nat) list" where
  "view_run [] rates = []"
| "view_run ((ip, now) # calls) rates = (case check_contract_view_rate ip now rates of
      (passed, rates') \<Rightarrow> (if passed then [(ip, now)] else []) @ view_run calls rates')"

definition within :: "IpAddr \<Rightarrow> nat \<Rightarrow> (IpAddr \<times> nat) list \<Rightarrow> nat" where
  "within ip t calls = length (filter (\<lambda>(i, now). i = ip \<and> t \<le> now \<and> now < t + CONTRACT_VIEW_RATE_WINDOW) calls)"

text \<open>
  How many calls of a caller can still pass in the second from \<open>t\<close>, given the caller's entry: what the
  window has left if it began in that second; also a whole next window if it began before; and if it
  ends before that second, one call fewer than two windows, since a window begins with a call.
\<close>

definition room :: "nat \<Rightarrow> (nat \<times> u32) option \<Rightarrow> nat" where
  "room t e = (case e of None \<Rightarrow> 19
     | Some (start, n) \<Rightarrow> if t \<le> start then 10 - unat n
         else if start + CONTRACT_VIEW_RATE_WINDOW < t then 19 else 20 - unat n)"

definition entry_ok :: "nat \<Rightarrow> (nat \<times> u32) option \<Rightarrow> bool" where
  "entry_ok now e = (case e of None \<Rightarrow> True | Some (start, n) \<Rightarrow> start \<le> now \<and> 1 \<le> unat n \<and> unat n \<le> 10)"

lemma view_run_subset: "set (view_run calls rates) \<subseteq> set calls"
  by (induction calls rates rule: view_run.induct) (auto split: prod.splits if_splits)

lemma within_none:
  assumes "\<forall>(i, now) \<in> set calls. t + CONTRACT_VIEW_RATE_WINDOW \<le> now"
  shows "within ip t (view_run calls rates) = 0"
  using assms view_run_subset[of calls rates] by (fastforce simp: within_def filter_empty_conv)

lemma unat_suc32: "n < (10 :: u32) \<Longrightarrow> unat (n + 1) = Suc (unat n) \<and> unat n < 10"
  by (simp add: unat_word_ariths word_less_nat_alt)

lemma check_other [simp]: "i \<noteq> ip \<Longrightarrow> check_contract_view_rate i now rates = (b, rates') \<Longrightarrow> rates' ip = rates ip"
  by (auto simp: check_contract_view_rate_def Let_def split: if_splits)

text \<open>One call of the caller: what it uses up of the room, as long as the second is not over.\<close>

lemma check_cases:
  assumes "check_contract_view_rate ip now rates = (b, rates')"
  obtains (fresh) "rates ip = None" "b" "rates' ip = Some (now, 1)"
  | (reset) start n where "rates ip = Some (start, n)" "CONTRACT_VIEW_RATE_WINDOW \<le> now - start" "b" "rates' ip = Some (now, 1)"
  | (inside) start n where "rates ip = Some (start, n)" "n < 10" "now - start < CONTRACT_VIEW_RATE_WINDOW" "b"
      "rates' ip = Some (start, n + 1)"
  | (full) start n where "rates ip = Some (start, n)" "\<not> b" "rates' ip = Some (start, n)"
proof (cases "rates ip")
  case None
  then show ?thesis using assms fresh
    by (auto simp: check_contract_view_rate_def CONTRACT_VIEW_RATE_LIMIT_def CONTRACT_VIEW_RATE_WINDOW_def split: if_splits)
next
  case (Some e)
  then show ?thesis using assms reset inside full
    by (cases e) (auto simp: check_contract_view_rate_def CONTRACT_VIEW_RATE_LIMIT_def Let_def not_le split: if_splits)
qed

lemma check_room:
  assumes "check_contract_view_rate ip now rates = (b, rates')" and "entry_ok now (rates ip)"
  shows "entry_ok now (rates' ip)"
    and "now < t + CONTRACT_VIEW_RATE_WINDOW \<Longrightarrow>
      (if b \<and> t \<le> now then 1 else 0) + room t (rates' ip) \<le> room t (rates ip)"
proof -
  show "entry_ok now (rates' ip)"
    using assms(1)
  proof (cases rule: check_cases)
    case (inside start n)
    then show ?thesis using assms(2) unat_suc32[of n] by (simp add: entry_ok_def)
  qed (use assms(2) in \<open>simp_all add: entry_ok_def\<close>)
  show "(if b \<and> t \<le> now then 1 else 0) + room t (rates' ip) \<le> room t (rates ip)"
    if "now < t + CONTRACT_VIEW_RATE_WINDOW"
    using assms(1)
  proof (cases rule: check_cases)
    case (reset start n)
    have "start \<le> now" "unat n \<le> 10" using assms(2) reset(1) by (simp_all add: entry_ok_def)
    moreover from this(1) reset(2) have "start + CONTRACT_VIEW_RATE_WINDOW \<le> now" by linarith
    ultimately show ?thesis using reset that by (auto simp: room_def)
  next
    case (inside start n)
    have "start \<le> now" using assms(2) inside(1) by (simp add: entry_ok_def)
    with inside(3) have "now < start + CONTRACT_VIEW_RATE_WINDOW" by linarith
    then show ?thesis using inside unat_suc32[OF inside(2)] by (auto simp: room_def)
  qed (simp_all add: room_def)
qed

lemma view_run_room:
  assumes "sorted (map snd calls)" and "\<forall>(i, now) \<in> set calls. entry_ok now (rates ip)"
  shows "within ip t (view_run calls rates) \<le> room t (rates ip)"
  using assms
proof (induction calls rates rule: view_run.induct)
  case (2 i now calls rates)
  obtain b rates' where run: "check_contract_view_rate i now rates = (b, rates')" by fastforce
  have later: "now \<le> now'" if "(j, now') \<in> set calls" for j now' using 2(2) that by fastforce
  have here: "entry_ok now (rates ip)" using 2(3) by simp
  have keep: "entry_ok now (rates' ip)"
  proof (cases "i = ip")
    case True
    then show ?thesis using check_room(1) run here by blast
  next
    case False
    then show ?thesis using check_other[OF False run] here by simp
  qed
  then have entries: "\<forall>(j, now') \<in> set calls. entry_ok now' (rates' ip)"
    using later by (fastforce simp: entry_ok_def split: option.splits)
  have IH: "within ip t (view_run calls rates') \<le> room t (rates' ip)"
    using 2(1)[OF run[symmetric]] 2(2) entries by simp
  have split: "within ip t (view_run ((i, now) # calls) rates) =
    (if b \<and> i = ip \<and> t \<le> now \<and> now < t + CONTRACT_VIEW_RATE_WINDOW then 1 else 0) + within ip t (view_run calls rates')"
    by (simp add: run within_def)
  show ?case
  proof (cases "now < t + CONTRACT_VIEW_RATE_WINDOW")
    case True
    show ?thesis
    proof (cases "i = ip")
      case same: True
      then show ?thesis using check_room(2)[OF _ _ True, of i rates b rates'] run here IH split True by auto
    next
      case False
      then show ?thesis using check_other[OF False run] IH split by simp
    qed
  next
    case False
    then have "within ip t (view_run calls rates') = 0" using later by (intro within_none) fastforce
    then show ?thesis using False split by simp
  qed
qed (simp add: within_def)

text \<open>The view calls that a server executes in a sequence of requests.\<close>

fun rpc_views :: "'p rpc_env \<Rightarrow> node_env \<Rightarrow> (rpc_inputs \<times> ('i, 'p) RpcRequest) list \<Rightarrow> rpc_state \<Rightarrow> (IpAddr \<times> nat) list" where
  "rpc_views E V [] s = []"
| "rpc_views E V ((R, req) # xs) s =
     (if rq_method req = ''claw_callContractView'' \<and> fst (admission R req s) then [(ri_peer_ip R, ri_now R)] else [])
     @ rpc_views E V xs (snd (snd (handle_rpc E V R req s)))"

definition is_view :: "('i, 'p) RpcRequest \<Rightarrow> bool" where
  "is_view req \<longleftrightarrow> rq_jsonrpc req = ''2.0'' \<and> rq_method req = ''claw_callContractView''"

lemma handle_rpc_rates: "rp_view_rate (snd (snd (handle_rpc E V R req s))) = snd (admission R req s)"
proof -
  obtain granted rates where adm: "admission R req s = (granted, rates)" by fastforce
  obtain resp cmds s' where run: "handle_rpc E V R req s = (resp, cmds, s')" by (metis prod_cases3)
  show ?thesis
  proof (cases granted)
    case True
    then obtain r where "dispatch_rpc E V R (rq_method req) (rq_params req) (s\<lparr>rp_view_rate := rates\<rparr>) = (r, cmds, s')"
      using handle_rpc_parts(2)[OF run adm] by blast
    from dispatch.frame[OF this] show ?thesis by (simp add: run adm)
  next
    case False
    then show ?thesis using handle_rpc_parts(1)[OF run adm] by (simp add: run adm)
  qed
qed

lemma rpc_views_run:
  "rpc_views E V xs s = view_run (map (\<lambda>(R, req). (ri_peer_ip R, ri_now R)) (filter (is_view \<circ> snd) xs)) (rp_view_rate s)"
proof (induction xs arbitrary: s)
  case (Cons x xs)
  obtain R req where x: "x = (R, req)" by fastforce
  show ?case
    using Cons[of "snd (snd (handle_rpc E V R req s))"]
    by (auto simp: x handle_rpc_rates admission_def is_view_def split: prod.splits)
qed simp

text \<open>
  C31. View calls are limited: from the start of the server, whatever requests arrive with a clock that
  does not go back, fewer than twenty view calls of one address are executed in any one second.
\<close>

theorem view_calls_are_limited:
  assumes "rp_view_rate s = (\<lambda>_. None)" and "sorted (map (\<lambda>(R, req). ri_now R) xs)"
  shows "within ip t (rpc_views E V xs s) \<le> 19"
proof -
  let ?calls = "map (\<lambda>(R, req). (ri_peer_ip R, ri_now R)) (filter (is_view \<circ> snd) xs)"
  have "map snd ?calls = map (\<lambda>(R, req). ri_now R) (filter (is_view \<circ> snd) xs)"
    by (simp add: case_prod_beta comp_def)
  then have "sorted (map snd ?calls)"
    using sorted_filter[OF assms(2)] by (simp only:)
  then show ?thesis
    using view_run_room[of ?calls "rp_view_rate s" ip t] by (simp add: rpc_views_run assms(1) entry_ok_def room_def)
qed

theorem view_calls_are_limited_witness:
  "within ''10.0.0.1'' 5 (rpc_views demo_rpc demo_env
     (map (\<lambda>now. (demo_at now, demo_request ''claw_callContractView'')) [3, 5, 8]) demo_server) \<le> 19"
  by (rule view_calls_are_limited) (simp_all add: demo_server_def demo_at_def)

text \<open>
  The bound is met: one call, nine calls at the end of its window and ten at the start of the next
  all pass, nineteen of them within two nanoseconds.
\<close>

lemma pass_inside:
  assumes "n + k \<le> 10" and "now - start < CONTRACT_VIEW_RATE_WINDOW"
  shows "view_run (replicate k (ip, now) @ rest) (rates(ip \<mapsto> (start, of_nat n)))
    = replicate k (ip, now) @ view_run rest (rates(ip \<mapsto> (start, of_nat (n + k))))"
  using assms
proof (induction k arbitrary: n)
  case (Suc k)
  have "(of_nat n :: u32) < 10" using Suc.prems(1) by (simp add: word_less_nat_alt unat_of_nat)
  then have step: "check_contract_view_rate ip now (rates(ip \<mapsto> (start, of_nat n))) = (True, rates(ip \<mapsto> (start, of_nat (Suc n))))"
    using Suc.prems(2) by (simp add: check_contract_view_rate_def CONTRACT_VIEW_RATE_LIMIT_def add.commute)
  have "view_run (replicate (Suc k) (ip, now) @ rest) (rates(ip \<mapsto> (start, of_nat n)))
      = (ip, now) # view_run (replicate k (ip, now) @ rest) (rates(ip \<mapsto> (start, of_nat (Suc n))))"
    by (simp only: replicate_Suc append_Cons view_run.simps step prod.case if_True append_Nil)
  then show ?case
    using Suc.IH[of "Suc n"] Suc.prems by (simp only: replicate_Suc append_Cons add_Suc_right add_Suc)
qed simp

lemma nineteen_pass:
  assumes "t + 1 = start + CONTRACT_VIEW_RATE_WINDOW"
  shows "within ip t (view_run ([(ip, start)] @ replicate 9 (ip, t) @ replicate 10 (ip, t + 1)) (\<lambda>_. None)) = 19"
proof -
  have W: "CONTRACT_VIEW_RATE_WINDOW = 1000000000" by (simp add: CONTRACT_VIEW_RATE_WINDOW_def)
  have t: "t - start < CONTRACT_VIEW_RATE_WINDOW" "CONTRACT_VIEW_RATE_WINDOW \<le> t + 1 - start" "start < t"
    using assms by (simp_all add: W)
  have ten: "replicate 10 (ip, t + 1) = (ip, t + 1) # replicate 9 (ip, t + 1) @ []" by (simp add: numeral_eq_Suc)
  have first: "view_run ((ip, start) # calls) (\<lambda>_. None) = (ip, start) # view_run calls ((\<lambda>_. None)(ip \<mapsto> (start, of_nat 1)))" for calls
    by (simp add: check_contract_view_rate_def CONTRACT_VIEW_RATE_LIMIT_def W)
  have reset: "view_run ((ip, t + 1) # calls) ((\<lambda>_. None)(ip \<mapsto> (start, n)))
      = (ip, t + 1) # view_run calls ((\<lambda>_. None)(ip \<mapsto> (t + 1, of_nat 1)))" for calls n
    using t(2) by (simp add: check_contract_view_rate_def)
  have "view_run ([(ip, start)] @ replicate 9 (ip, t) @ replicate 10 (ip, t + 1)) (\<lambda>_. None)
      = (ip, start) # replicate 9 (ip, t) @ (ip, t + 1) # replicate 9 (ip, t + 1)"
    unfolding ten append_Cons append_Nil first pass_inside[of 1 9, simplified numeral_eq_Suc] reset
    by (subst pass_inside, simp, rule t(1), subst reset, subst pass_inside) (simp_all add: W)
  then show ?thesis using t(3) by (simp add: within_def W)
qed

section \<open>The faucet\<close>

text \<open>The drips of a server in a sequence of requests: the receiver, and the time that is remembered.\<close>

definition is_drip :: "('i, 'p) RpcRequest \<Rightarrow> bool" where
  "is_drip req \<longleftrightarrow> rq_jsonrpc req = ''2.0'' \<and> rq_method req = ''claw_faucet''"

fun rpc_drips :: "'p rpc_env \<Rightarrow> node_env \<Rightarrow> (rpc_inputs \<times> ('i, 'p) RpcRequest) list \<Rightarrow> rpc_state \<Rightarrow> (address \<times> nat) list" where
  "rpc_drips E V [] s = []"
| "rpc_drips E V ((R, req) # xs) s =
     (case (is_drip req, rpc_parse_address E (rq_params req) 0, handle_rpc E V R req s) of
        (True, Inr a, (resp, _, _)) \<Rightarrow> if rs_error resp = None then [(a, ri_now3 R)] else []
      | _ \<Rightarrow> [])
     @ rpc_drips E V xs (snd (snd (handle_rpc E V R req s)))"

lemma drip_handled:
  assumes "is_drip req"
  shows "handle_rpc E V R req s = (case rpc_faucet E V R (rq_params req) s of
    (r, cmds, s') \<Rightarrow> (finish_rpc (rq_id req) ''claw_faucet'' r, cmds, s'))"
  using assms by (simp add: handle_rpc_def is_drip_def dispatch_rpc_def)

lemma others_keep_drips:
  assumes "\<not> is_drip req"
  shows "rp_faucet_last_drip (snd (snd (handle_rpc E V R req s))) = rp_faucet_last_drip s"
  using assms
  by (auto simp: handle_rpc_def is_drip_def dispatch_rpc_def rpc_send_transaction_def rpc_submit_checkin_def Let_def
    split: prod.splits option.splits sum.splits)

lemma cooled_down:
  assumes "\<not> cooling_down drips a now" and "drips a = Some since"
  shows "since + 3600 * 10 ^ 9 \<le> now"
proof -
  have "3600 \<le> (now - since) div 10 ^ 9"
    using assms by (simp add: cooling_down_def drip_age_secs_def FAUCET_COOLDOWN_SECS_def)
  then have "3600 * 10 ^ 9 \<le> now - since" by (simp add: less_eq_div_iff_mult_less_eq)
  then show ?thesis by simp
qed

text \<open>One request: no drip, or a drip after the cool-down that is remembered with its time.\<close>

lemma rpc_drips_step:
  fixes req :: "('i, 'p) RpcRequest"
  assumes "s' = snd (snd (handle_rpc E V R req s))"
  obtains (none) "rpc_drips E V ((R, req) # xs) s = rpc_drips E V xs s'" "rp_faucet_last_drip s' = rp_faucet_last_drip s"
  | (drip) a where "rpc_drips E V ((R, req) # xs) s = (a, ri_now3 R) # rpc_drips E V xs s'"
      "rp_faucet_last_drip s' = (rp_faucet_last_drip s)(a \<mapsto> ri_now3 R)"
      "\<not> cooling_down (rp_faucet_last_drip s) a (ri_now R)"
proof (cases "is_drip req")
  case False
  then show ?thesis using none others_keep_drips[OF False, of E V R s] assms by simp
next
  case True
  obtain r cmds s1 where run: "rpc_faucet E V R (rq_params req) s = (r, cmds, s1)" by (metis prod_cases3)
  have handled: "handle_rpc E V R req s = (finish_rpc (rq_id req) ''claw_faucet'' r, cmds, s1)"
    by (simp add: drip_handled[OF True] run)
  then have s': "s' = s1" using assms by simp
  show ?thesis
  proof (cases r)
    case (Inl e)
    then have "rp_faucet_last_drip s1 = rp_faucet_last_drip s"
      using run by (auto simp: rpc_faucet_def split: if_splits sum.splits prod.splits)
    then show ?thesis using none handled Inl s' by (simp add: True finish_rpc_def rpc_err_def split: sum.splits)
  next
    case (Inr v)
    then obtain a where "rpc_parse_address E (rq_params req) 0 = Inr a" "\<not> cooling_down (rp_faucet_last_drip s) a (ri_now R)"
      "rp_faucet_last_drip s1 = (rp_faucet_last_drip s)(a \<mapsto> ri_now3 R)"
      using run by (auto simp: rpc_faucet_def split: if_splits sum.splits prod.splits)
    then show ?thesis using drip handled Inr s' by (simp add: True finish_rpc_def rpc_ok_def)
  qed
qed

lemma drips_after_last:
  fixes xs :: "(rpc_inputs \<times> ('i, 'p) RpcRequest) list"
  assumes "\<forall>(R, req) \<in> set xs. ri_now R \<le> ri_now3 R"
    and "(a, now) \<in> set (rpc_drips E V xs s)" and "rp_faucet_last_drip s a = Some since"
  shows "since + 3600 * 10 ^ 9 \<le> now"
  using assms
proof (induction xs arbitrary: s since)
  case (Cons x xs)
  obtain R req where x: "x = (R, req)" by fastforce
  define s' where "s' = snd (snd (handle_rpc E V R req s))"
  have clock: "ri_now R \<le> ri_now3 R" "\<forall>(R, req) \<in> set xs. ri_now R \<le> ri_now3 R" using Cons.prems(1) by (auto simp: x)
  show ?case
  proof (cases rule: rpc_drips_step[OF s'_def, where xs = xs])
    case 1
    then show ?thesis using Cons.IH[OF clock(2), of s' since] Cons.prems by (simp add: x del: rpc_drips.simps)
  next
    case (2 b)
    show ?thesis
    proof (cases "a = b")
      case True
      then have "since + 3600 * 10 ^ 9 \<le> ri_now3 R"
        using cooled_down[OF 2(3)] Cons.prems(3) clock(1) by fastforce
      then show ?thesis
        using Cons.IH[OF clock(2), of s' "ri_now3 R"] Cons.prems(2) 2 True by (auto simp: x simp del: rpc_drips.simps)
    next
      case False
      then show ?thesis
        using Cons.IH[OF clock(2), of s' since] Cons.prems(2,3) 2 by (auto simp: x simp del: rpc_drips.simps)
    qed
  qed
qed simp

text \<open>
  C32. The faucet cools down: whatever requests a server handles in whatever order, two drips to one
  address are at least an hour apart.
\<close>

theorem faucet_cooldown:
  fixes xs :: "(rpc_inputs \<times> ('i, 'p) RpcRequest) list"
  assumes "\<forall>(R, req) \<in> set xs. ri_now R \<le> ri_now3 R"
  shows "sorted_wrt (\<lambda>(a, now) (b, later). a = b \<longrightarrow> now + 3600 * 10 ^ 9 \<le> later) (rpc_drips E V xs s)"
  using assms
proof (induction xs arbitrary: s)
  case (Cons x xs)
  obtain R req where x: "x = (R, req)" by fastforce
  define s' where "s' = snd (snd (handle_rpc E V R req s))"
  have clock: "\<forall>(R, req) \<in> set xs. ri_now R \<le> ri_now3 R" using Cons.prems by auto
  show ?case
  proof (cases rule: rpc_drips_step[OF s'_def, where xs = xs])
    case 1
    then show ?thesis using Cons.IH[OF clock] by (simp add: x del: rpc_drips.simps)
  next
    case (2 a)
    then show ?thesis
      using Cons.IH[OF clock] drips_after_last[OF clock, of a _ E V s'] by (auto simp: x simp del: rpc_drips.simps)
  qed
qed simp

theorem faucet_cooldown_witness:
  "sorted_wrt (\<lambda>(a, now) (b, later). a = b \<longrightarrow> now + 3600 * 10 ^ 9 \<le> later)
     (rpc_drips demo_rpc demo_env (map (\<lambda>now. (demo_at now, demo_request ''claw_faucet'')) [3, 5, 8]) demo_server)"
  by (rule faucet_cooldown) (simp add: demo_at_def)

section \<open>Broadcasts\<close>

text \<open>
  A transaction that the node itself rejects is broadcast to the network all the same: the method sends
  it before it is looked at. A check-in is broadcast only when the node has accepted it.
\<close>

lemma rejected_transaction_is_broadcast:
  assumes "rp_p2p_connected s" and "re_param_str E params 0 = Some h" "re_unhex E h = Inr bs" "re_dec_tx E bs = Inr tx"
    and "fst (submit_tx V tx (rp_chain s)) = Inl e"
  shows "fst (snd (rpc_send_transaction E V params s)) = [BroadcastTx tx]"
    and "fst (rpc_send_transaction E V params s) = Inl (re_submit_error E e)"
  using assms by (auto simp: rpc_send_transaction_def p2p_send_def split: prod.splits sum.splits)

lemma checkin_broadcast_only_if_accepted:
  assumes "rpc_submit_checkin E V I params s = (r, cmds, s')" and "BroadcastCheckin w \<in> set cmds"
  shows "fst (submit_miner_checkin V I w (rp_chain s)) = Inr ''checkin accepted''"
  using assms
  by (auto simp: rpc_submit_checkin_def p2p_send_def submit_miner_checkin_def
    split: option.splits sum.splits prod.splits if_splits)

section \<open>Answers\<close>

text \<open>The rows of an address carry each transaction once.\<close>

lemma unseen_rows_distinct:
  "distinct (map (\<lambda>(height, i, tx, timestamp). hex_encode (ne_ext V) (tx_hash (ne_ext V) tx)) (unseen_rows V seen rows))
   \<and> set (map (\<lambda>(height, i, tx, timestamp). hex_encode (ne_ext V) (tx_hash (ne_ext V) tx)) (unseen_rows V seen rows)) \<inter> set seen = {}"
  by (induction V seen rows rule: unseen_rows.induct) (auto simp: Let_def)

text \<open>A response has a result or an error, never both, and carries the identifier of its request.\<close>

lemma response_shape:
  assumes "handle_rpc E V R req s = (resp, cmds, s')"
  shows "rs_id resp = rq_id req \<and> (rs_result resp = None \<longleftrightarrow> rs_error resp \<noteq> None)"
  using assms
  by (auto simp: handle_rpc_def finish_rpc_def rpc_ok_def rpc_err_def Let_def split: if_splits prod.splits sum.splits)

end
