(* ===== verification/Key_Store.thy ===== *)
theory Key_Store
  imports Files
begin

text \<open>
  The key file and the configuration file of a node (\<open>node/src/config.rs\<close>), the network presets
  (\<open>node/src/network.rs\<close>) and the synchronisation modes (\<open>node/src/sync.rs\<close>).

  The crates that the code calls are the fields of \<open>key_crates\<close>: hexadecimal text, JSON documents
  (of a type that stays open; the code prints, parses and builds them and reads members that are
  text or truth values), PBKDF2, AES-256-GCM, TOML, and the public key of a secret key. The
  environment variable, the salt, the nonce and the fresh key pair are inputs. Every failure is a
  value of \<open>ConfigError\<close>, one per error context of the source.
\<close>

section \<open>Configuration data\<close>

record NodeSection =
  ns_data_dir :: "string option"
  ns_network :: "string option"

record NetworkSection =
  nw_rpc_port :: "u16 option"
  nw_p2p_port :: "u16 option"
  nw_bootstrap :: "string list"
  nw_single :: "bool option"

record LogSection =
  lg_format :: "string option"
  lg_filter :: "string option"

record FileConfig =
  fc_node :: NodeSection
  fc_network :: NetworkSection
  fc_log :: LogSection

definition FileConfig_default :: FileConfig where
  "FileConfig_default = \<lparr>fc_node = \<lparr>ns_data_dir = None, ns_network = None\<rparr>,
     fc_network = \<lparr>nw_rpc_port = None, nw_p2p_port = None, nw_bootstrap = [], nw_single = None\<rparr>,
     fc_log = \<lparr>lg_format = None, lg_filter = None\<rparr>\<rparr>"

record NodeConfig =
  nc_address :: address
  nc_signing_key_bytes :: bytes

datatype json_scalar = JText string | JFlag bool

record 'j key_crates =
  hex_enc :: "bytes \<Rightarrow> string"
  hex_dec :: "string \<Rightarrow> bytes option"
  json_object :: "(string \<times> json_scalar) list \<Rightarrow> 'j"
  json_to_string_pretty :: "'j \<Rightarrow> string option"
  json_from_str :: "string \<Rightarrow> 'j option"
  json_member_str :: "'j \<Rightarrow> string \<Rightarrow> string option"
  json_member_bool :: "'j \<Rightarrow> string \<Rightarrow> bool option"
  pbkdf2_hmac_sha256 :: "bytes \<Rightarrow> bytes \<Rightarrow> u32 \<Rightarrow> bytes"
  aes_new_from_slice :: "bytes \<Rightarrow> bool"
  aes_gcm_encrypt :: "bytes \<Rightarrow> bytes \<Rightarrow> bytes \<Rightarrow> bytes option"
  aes_gcm_decrypt :: "bytes \<Rightarrow> bytes \<Rightarrow> bytes \<Rightarrow> bytes option"
  toml_from_str :: "string \<Rightarrow> FileConfig option"
  public_key :: "bytes \<Rightarrow> bytes"

record key_inputs =
  ki_password_env :: "string option"
  ki_salt :: bytes
  ki_nonce :: bytes
  ki_secret :: bytes

datatype ConfigError =
    CreateDataDir
  | ReadFile string
  | ParseFile string
  | MissingField string
  | BadHex string
  | BadLength string nat
  | PasswordNotSet
  | AesCipher
  | AesEncrypt
  | AesDecrypt
  | JsonText
  | WriteFile string
  | SetPermissions
  | AlreadyEncrypted

definition PBKDF2_ITERATIONS :: u32 where
  "PBKDF2_ITERATIONS = 100000"

definition KEY_FILE :: string where
  "KEY_FILE = ''key.json''"

definition CONFIG_FILE :: string where
  "CONFIG_FILE = ''config.toml''"

section \<open>The configuration file\<close>

definition load_file_config :: "'j key_crates \<Rightarrow> fs_env \<Rightarrow> disk \<Rightarrow> ConfigError + FileConfig" where
  "load_file_config K F d =
     (if \<not> fs_exists CONFIG_FILE d then Inr FileConfig_default
      else try_then (ok_or (ReadFile CONFIG_FILE) (fs_read_to_string F CONFIG_FILE d))
        (\<lambda>content. ok_or (ParseFile CONFIG_FILE) (toml_from_str K content)))"

definition network_name :: "string \<Rightarrow> string" where
  "network_name chain_id =
     (if chain_id = ''claw-mainnet-1'' then ''mainnet''
      else if chain_id = ''claw-testnet-1'' then ''testnet''
      else ''devnet'')"

definition newline :: string where
  "newline = [CHR 0x0A]"

definition default_config_text :: "string \<Rightarrow> string" where
  "default_config_text chain_id = concat (map (\<lambda>line. line @ newline)
     [''# ClawNetwork node configuration'',
      ''# CLI arguments override these values.'',
      '''',
      ''[node]'',
      ''network = '' @ [CHR 0x22] @ network_name chain_id @ [CHR 0x22],
      '''',
      ''[network]'',
      ''rpc_port = 9710'',
      ''p2p_port = 9711'',
      ''# bootstrap = ['' @ [CHR 0x22] @ ''/ip4/1.2.3.4/tcp/9711'' @ [CHR 0x22] @ '']'',
      ''# single = false'',
      '''',
      ''[log]'',
      ''format = '' @ [CHR 0x22] @ ''text'' @ [CHR 0x22],
      ''# filter = '' @ [CHR 0x22] @ ''claw=info'' @ [CHR 0x22]])"

definition write_default_config :: "fs_env \<Rightarrow> string \<Rightarrow> disk \<Rightarrow> (ConfigError + unit) \<times> disk" where
  "write_default_config F chain_id d =
     (if fs_exists CONFIG_FILE d then (Inr (), d)
      else case fs_write F CONFIG_FILE (string_bytes (default_config_text chain_id)) d of
          (True, d') \<Rightarrow> (Inr (), d')
        | (False, d') \<Rightarrow> (Inl (WriteFile CONFIG_FILE), d'))"

section \<open>Encryption of keys\<close>

definition derive_aes_key :: "'j key_crates \<Rightarrow> string \<Rightarrow> bytes \<Rightarrow> bytes" where
  "derive_aes_key K password salt = pbkdf2_hmac_sha256 K (string_bytes password) salt PBKDF2_ITERATIONS"

definition encrypt_key ::
  "'j key_crates \<Rightarrow> key_inputs \<Rightarrow> bytes \<Rightarrow> string \<Rightarrow> ConfigError + bytes \<times> bytes \<times> bytes" where
  "encrypt_key K I secret_key password =
     (let salt = ki_salt I; nonce = ki_nonce I; aes_key = derive_aes_key K password salt in
      if \<not> aes_new_from_slice K aes_key then Inl AesCipher
      else try_then (ok_or AesEncrypt (aes_gcm_encrypt K aes_key nonce secret_key))
        (\<lambda>ciphertext. Inr (ciphertext, salt, nonce)))"

definition decrypt_key ::
  "'j key_crates \<Rightarrow> bytes \<Rightarrow> string \<Rightarrow> bytes \<Rightarrow> bytes \<Rightarrow> ConfigError + bytes" where
  "decrypt_key K ciphertext password salt nonce =
     (let aes_key = derive_aes_key K password salt in
      if \<not> aes_new_from_slice K aes_key then Inl AesCipher
      else try_then (ok_or AesDecrypt (aes_gcm_decrypt K aes_key nonce ciphertext))
        (\<lambda>plaintext. if length plaintext \<noteq> 32 then Inl (BadLength ''decrypted key'' (length plaintext))
           else Inr plaintext))"

definition read_password_env :: "key_inputs \<Rightarrow> string option" where
  "read_password_env I = (case ki_password_env I of
      Some p \<Rightarrow> if p = [] then None else Some p
    | None \<Rightarrow> None)"

definition build_encrypted_key_json ::
  "'j key_crates \<Rightarrow> address \<Rightarrow> bytes \<Rightarrow> bytes \<Rightarrow> bytes \<Rightarrow> string \<Rightarrow> 'j" where
  "build_encrypted_key_json K addr ciphertext salt nonce chain_id = json_object K
     [(''address'', JText (hex_enc K addr)), (''encrypted'', JFlag True), (''salt'', JText (hex_enc K salt)),
      (''nonce'', JText (hex_enc K nonce)), (''ciphertext'', JText (hex_enc K ciphertext)),
      (''chain_id'', JText chain_id)]"

definition build_plaintext_key_json :: "'j key_crates \<Rightarrow> address \<Rightarrow> bytes \<Rightarrow> string \<Rightarrow> 'j" where
  "build_plaintext_key_json K addr secret_key chain_id = json_object K
     [(''address'', JText (hex_enc K addr)), (''secret_key'', JText (hex_enc K secret_key)),
      (''chain_id'', JText chain_id)]"

definition write_key_file :: "'j key_crates \<Rightarrow> fs_env \<Rightarrow> 'j \<Rightarrow> disk \<Rightarrow> (ConfigError + unit) \<times> disk" where
  "write_key_file K F json d = (case json_to_string_pretty K json of
      None \<Rightarrow> (Inl JsonText, d)
    | Some text \<Rightarrow> (case fs_write F KEY_FILE (string_bytes text) d of
        (False, d1) \<Rightarrow> (Inl (WriteFile KEY_FILE), d1)
      | (True, d1) \<Rightarrow> (case fs_set_permissions F KEY_FILE OWNER_ONLY d1 of
          (False, d2) \<Rightarrow> (Inl SetPermissions, d2)
        | (True, d2) \<Rightarrow> (Inr (), d2))))"

section \<open>Loading\<close>

definition field_str :: "'j key_crates \<Rightarrow> 'j \<Rightarrow> string \<Rightarrow> ConfigError + string" where
  "field_str K json name = ok_or (MissingField name) (json_member_str K json name)"

definition decode_field :: "'j key_crates \<Rightarrow> string \<Rightarrow> string \<Rightarrow> ConfigError + bytes" where
  "decode_field K name text = ok_or (BadHex name) (hex_dec K text)"

definition of_length :: "string \<Rightarrow> nat \<Rightarrow> bytes \<Rightarrow> ConfigError + bytes" where
  "of_length name n bs = (if length bs \<noteq> n then Inl (BadLength name (length bs)) else Inr bs)"

definition is_encrypted :: "'j key_crates \<Rightarrow> 'j \<Rightarrow> bool" where
  "is_encrypted K json = (case json_member_bool K json ''encrypted'' of Some b \<Rightarrow> b | None \<Rightarrow> False)"

definition read_key_json :: "'j key_crates \<Rightarrow> fs_env \<Rightarrow> disk \<Rightarrow> ConfigError + 'j" where
  "read_key_json K F d = try_then (ok_or (ReadFile KEY_FILE) (fs_read_to_string F KEY_FILE d))
     (\<lambda>content. ok_or (ParseFile KEY_FILE) (json_from_str K content))"

definition load_encrypted_key :: "'j key_crates \<Rightarrow> key_inputs \<Rightarrow> 'j \<Rightarrow> ConfigError + bytes" where
  "load_encrypted_key K I json =
     try_then (ok_or PasswordNotSet (read_password_env I)) (\<lambda>password.
     try_then (field_str K json ''salt'') (\<lambda>salt_hex.
     try_then (field_str K json ''nonce'') (\<lambda>nonce_hex.
     try_then (field_str K json ''ciphertext'') (\<lambda>ct_hex.
     try_then (decode_field K ''salt'' salt_hex) (\<lambda>salt_vec.
     try_then (decode_field K ''nonce'' nonce_hex) (\<lambda>nonce_vec.
     try_then (decode_field K ''ciphertext'' ct_hex) (\<lambda>ciphertext.
     try_then (of_length ''salt'' 32 salt_vec) (\<lambda>salt.
     try_then (of_length ''nonce'' 12 nonce_vec) (\<lambda>nonce.
     decrypt_key K ciphertext password salt nonce)))))))))"

definition load_plaintext_key :: "'j key_crates \<Rightarrow> 'j \<Rightarrow> ConfigError + bytes" where
  "load_plaintext_key K json =
     try_then (field_str K json ''secret_key'') (\<lambda>sk_hex.
     try_then (decode_field K ''secret_key'' sk_hex) (\<lambda>sk_bytes.
     of_length ''secret_key'' 32 sk_bytes))"

definition load_config :: "'j key_crates \<Rightarrow> fs_env \<Rightarrow> key_inputs \<Rightarrow> disk \<Rightarrow> ConfigError + NodeConfig" where
  "load_config K F I d =
     try_then (read_key_json K F d) (\<lambda>json.
     try_then (field_str K json ''address'') (\<lambda>addr_hex.
     try_then (decode_field K ''address'' addr_hex) (\<lambda>addr_bytes.
     try_then (of_length ''address'' 32 addr_bytes) (\<lambda>addr.
     try_then (if is_encrypted K json then load_encrypted_key K I json else load_plaintext_key K json)
       (\<lambda>signing_key_bytes. Inr \<lparr>nc_address = addr, nc_signing_key_bytes = signing_key_bytes\<rparr>)))))"

section \<open>Creating, importing, exporting, encrypting\<close>

text \<open>The choice of format that \<open>init_node\<close> and \<open>import_key\<close> share.\<close>

definition key_data ::
  "'j key_crates \<Rightarrow> key_inputs \<Rightarrow> address \<Rightarrow> bytes \<Rightarrow> string \<Rightarrow> ConfigError + 'j" where
  "key_data K I addr secret_key chain_id = (case read_password_env I of
      Some pw \<Rightarrow> try_then (encrypt_key K I secret_key pw)
        (\<lambda>(ciphertext, salt, nonce). Inr (build_encrypted_key_json K addr ciphertext salt nonce chain_id))
    | None \<Rightarrow> Inr (build_plaintext_key_json K addr secret_key chain_id))"

definition store_key ::
  "'j key_crates \<Rightarrow> fs_env \<Rightarrow> key_inputs \<Rightarrow> address \<Rightarrow> bytes \<Rightarrow> string \<Rightarrow> disk \<Rightarrow> (ConfigError + unit) \<times> disk" where
  "store_key K F I addr secret_key chain_id d = (case key_data K I addr secret_key chain_id of
      Inl e \<Rightarrow> (Inl e, d)
    | Inr json \<Rightarrow> (case write_key_file K F json d of
        (Inl e, d') \<Rightarrow> (Inl e, d')
      | (Inr _, d') \<Rightarrow> write_default_config F chain_id d'))"

definition init_node ::
  "'j key_crates \<Rightarrow> fs_env \<Rightarrow> key_inputs \<Rightarrow> string \<Rightarrow> disk \<Rightarrow> (ConfigError + unit) \<times> disk" where
  "init_node K F I chain_id d =
     (if \<not> fs_mkdir F then (Inl CreateDataDir, d)
      else if fs_exists KEY_FILE d
      then (case load_config K F I d of
          Inl e \<Rightarrow> (Inl e, d)
        | Inr cfg \<Rightarrow> write_default_config F chain_id d)
      else store_key K F I (public_key K (ki_secret I)) (ki_secret I) chain_id d)"

definition import_key ::
  "'j key_crates \<Rightarrow> fs_env \<Rightarrow> key_inputs \<Rightarrow> bytes \<Rightarrow> string \<Rightarrow> disk \<Rightarrow> (ConfigError + address) \<times> disk" where
  "import_key K F I secret_key chain_id d =
     (if \<not> fs_mkdir F then (Inl CreateDataDir, d)
      else (let addr = public_key K secret_key in
        case store_key K F I addr secret_key chain_id d of
          (Inl e, d') \<Rightarrow> (Inl e, d')
        | (Inr _, d') \<Rightarrow> (Inr addr, d')))"

definition export_key :: "'j key_crates \<Rightarrow> fs_env \<Rightarrow> key_inputs \<Rightarrow> disk \<Rightarrow> ConfigError + bytes \<times> address" where
  "export_key K F I d = try_then (load_config K F I d) (\<lambda>cfg. Inr (nc_signing_key_bytes cfg, nc_address cfg))"

text \<open>The document that \<open>encrypt_existing_key\<close> writes: every check of it comes before the first write.\<close>

definition encrypted_document :: "'j key_crates \<Rightarrow> fs_env \<Rightarrow> key_inputs \<Rightarrow> disk \<Rightarrow> ConfigError + 'j" where
  "encrypted_document K F I d =
     try_then (read_key_json K F d) (\<lambda>json.
     if is_encrypted K json then Inl AlreadyEncrypted
     else try_then (ok_or PasswordNotSet (read_password_env I)) (\<lambda>password.
     try_then (field_str K json ''address'') (\<lambda>addr_hex.
     try_then (field_str K json ''secret_key'') (\<lambda>sk_hex.
     let chain_id = (case json_member_str K json ''chain_id'' of Some c \<Rightarrow> c | None \<Rightarrow> ''claw-devnet'') in
     try_then (decode_field K ''address'' addr_hex) (\<lambda>addr_bytes.
     try_then (decode_field K ''secret_key'' sk_hex) (\<lambda>sk_bytes.
     try_then (of_length ''address'' 32 addr_bytes) (\<lambda>addr.
     try_then (of_length ''secret_key'' 32 sk_bytes) (\<lambda>secret_key.
     try_then (encrypt_key K I secret_key password) (\<lambda>(ciphertext, salt, nonce).
     Inr (build_encrypted_key_json K addr ciphertext salt nonce chain_id))))))))))"

definition encrypt_existing_key ::
  "'j key_crates \<Rightarrow> fs_env \<Rightarrow> key_inputs \<Rightarrow> disk \<Rightarrow> (ConfigError + unit) \<times> disk" where
  "encrypt_existing_key K F I d = (case encrypted_document K F I d of
      Inl e \<Rightarrow> (Inl e, d)
    | Inr json \<Rightarrow> write_key_file K F json d)"

section \<open>Networks and synchronisation modes\<close>

datatype Network = Mainnet | Testnet | Devnet

record NetworkConfig =
  nt_chain_id :: string
  nt_bootstrap_peers :: "string list"
  nt_is_local :: bool
  nt_faucet_enabled :: bool

fun network_config :: "Network \<Rightarrow> NetworkConfig" where
  "network_config Mainnet = \<lparr>nt_chain_id = ''claw-mainnet-1'', nt_bootstrap_peers = [],
     nt_is_local = False, nt_faucet_enabled = False\<rparr>"
| "network_config Testnet = \<lparr>nt_chain_id = ''claw-testnet-1'', nt_bootstrap_peers = [''/ip4/39.102.144.231/tcp/9711''],
     nt_is_local = False, nt_faucet_enabled = True\<rparr>"
| "network_config Devnet = \<lparr>nt_chain_id = ''claw-devnet'', nt_bootstrap_peers = [],
     nt_is_local = True, nt_faucet_enabled = True\<rparr>"

datatype SyncMode = Full | Fast | Light

text \<open>\<open>str::to_lowercase\<close> on ASCII letters; other characters never spell one of the two names.\<close>

definition lower_char :: "char \<Rightarrow> char" where
  "lower_char c = (let n = of_char c :: nat in if 65 \<le> n \<and> n \<le> 90 then char_of (n + 32) else c)"

definition sync_mode_parse :: "string \<Rightarrow> SyncMode" where
  "sync_mode_parse s =
     (let t = map lower_char s in
      if t = ''fast'' then Fast else if t = ''light'' then Light else Full)"

fun sync_mode_display :: "SyncMode \<Rightarrow> string" where
  "sync_mode_display Full = ''full''"
| "sync_mode_display Fast = ''fast''"
| "sync_mode_display Light = ''light''"

end
