(* ===== verification/Key_Safety.thy ===== *)
theory Key_Safety
  imports Key_Store
begin

text \<open>
  What the key file guarantees: a stored key is read back, in either format, by whoever has the
  password; encrypting a key file in place keeps the key; an existing key survives initialisation;
  the file ends up readable by its owner only. The laws of the crates are collected in \<open>crates_ok\<close>.
  The three operations that write the key file share the contract \<open>key_writer\<close>.
\<close>

section \<open>The laws of the crates\<close>

definition crates_ok :: "'j key_crates \<Rightarrow> bool" where
  "crates_ok K \<longleftrightarrow> (\<forall>bs. hex_dec K (hex_enc K bs) = Some bs)
     \<and> (\<forall>kvs text. json_to_string_pretty K (json_object K kvs) = Some text
          \<longrightarrow> json_from_str K text = Some (json_object K kvs))
     \<and> (\<forall>kvs name. json_member_str K (json_object K kvs) name =
          (case map_of kvs name of Some (JText s) \<Rightarrow> Some s | _ \<Rightarrow> None))
     \<and> (\<forall>kvs name. json_member_bool K (json_object K kvs) name =
          (case map_of kvs name of Some (JFlag b) \<Rightarrow> Some b | _ \<Rightarrow> None))
     \<and> (\<forall>k n p c. aes_gcm_encrypt K k n p = Some c \<longrightarrow> aes_gcm_decrypt K k n c = Some p)
     \<and> (\<forall>sk. length (public_key K sk) = 32)"

lemma crates_okD:
  assumes "crates_ok K"
  shows "hex_dec K (hex_enc K bs) = Some bs"
    and "json_to_string_pretty K (json_object K kvs) = Some text \<Longrightarrow> json_from_str K text = Some (json_object K kvs)"
    and "json_member_str K (json_object K kvs) name = (case map_of kvs name of Some (JText s) \<Rightarrow> Some s | _ \<Rightarrow> None)"
    and "json_member_bool K (json_object K kvs) name = (case map_of kvs name of Some (JFlag b) \<Rightarrow> Some b | _ \<Rightarrow> None)"
    and "aes_gcm_encrypt K k n p = Some c \<Longrightarrow> aes_gcm_decrypt K k n c = Some p"
    and "length (public_key K sk) = 32"
  using assms unfolding crates_ok_def by blast+

text \<open>The arrays of the code have their lengths by type.\<close>

definition inputs_ok :: "key_inputs \<Rightarrow> bool" where
  "inputs_ok I \<longleftrightarrow> length (ki_salt I) = 32 \<and> length (ki_nonce I) = 12 \<and> length (ki_secret I) = 32"

section \<open>Files that hold a key\<close>

text \<open>
  A document holds a key for a password if loading it with that password gives the key: either it is
  the plain document, or the encrypted one for the password.
\<close>

definition holds :: "'j key_crates \<Rightarrow> string option \<Rightarrow> address \<Rightarrow> bytes \<Rightarrow> 'j \<Rightarrow> bool" where
  "holds K pw addr sk json \<longleftrightarrow>
     (\<exists>cid. json = build_plaintext_key_json K addr sk cid)
     \<or> (\<exists>password ct salt nonce cid. pw = Some password \<and> length salt = 32 \<and> length nonce = 12
          \<and> decrypt_key K ct password salt nonce = Inr sk
          \<and> json = build_encrypted_key_json K addr ct salt nonce cid)"

lemma encrypt_then_decrypt:
  assumes "crates_ok K" and "encrypt_key K I sk pw = Inr (ct, salt, nonce)" and "length sk = 32"
  shows "decrypt_key K ct pw salt nonce = Inr sk"
  using assms crates_okD(5)[OF assms(1)]
  by (auto simp: encrypt_key_def decrypt_key_def Let_def try_then_Inr split: if_splits)

lemma encrypt_key_arrays:
  "encrypt_key K I sk pw = Inr (ct, salt, nonce) \<Longrightarrow> salt = ki_salt I \<and> nonce = ki_nonce I"
  by (auto simp: encrypt_key_def Let_def try_then_Inr split: if_splits)

lemma key_data_holds:
  assumes "crates_ok K" "inputs_ok I" "length sk = 32" and "key_data K I addr sk cid = Inr json"
  shows "holds K (read_password_env I) addr sk json"
  using assms encrypt_then_decrypt[OF assms(1) _ assms(3)] encrypt_key_arrays[of K I sk]
  by (fastforce simp: key_data_def holds_def inputs_ok_def try_then_Inr split: option.splits)

lemma load_holds:
  assumes "crates_ok K" "length addr = 32" "length sk = 32"
    and "holds K (read_password_env I) addr sk json" and "read_key_json K F d = Inr json"
  shows "load_config K F I d = Inr \<lparr>nc_address = addr, nc_signing_key_bytes = sk\<rparr>"
  using assms(4)
proof (cases "is_encrypted K json")
  case True
  then obtain password ct salt nonce cid where "read_password_env I = Some password" "length salt = 32" "length nonce = 12"
      "decrypt_key K ct password salt nonce = Inr sk" "json = build_encrypted_key_json K addr ct salt nonce cid"
    using assms(4) crates_okD(4)[OF assms(1)]
    by (auto simp: holds_def is_encrypted_def build_plaintext_key_json_def split: if_splits)
  then show ?thesis using True assms(2,5) crates_okD[OF assms(1)]
    by (simp add: load_config_def load_encrypted_key_def field_str_def decode_field_def of_length_def
      build_encrypted_key_json_def)
next
  case False
  then obtain cid where "json = build_plaintext_key_json K addr sk cid"
    using assms(4) crates_okD(4)[OF assms(1)] by (auto simp: holds_def is_encrypted_def build_encrypted_key_json_def)
  then show ?thesis using False assms(2,3,5) crates_okD[OF assms(1)]
    by (simp add: load_config_def load_plaintext_key_def field_str_def decode_field_def of_length_def
      build_plaintext_key_json_def)
qed

lemma write_key_file_read:
  assumes "crates_ok K" and "write_key_file K F (json_object K kvs) d = (Inr (), d')" and "fs_can_read F' KEY_FILE"
  shows "read_key_json K F' d' = Inr (json_object K kvs)" and "map_option fl_mode (d' KEY_FILE) = Some OWNER_ONLY"
    and "other \<noteq> KEY_FILE \<Longrightarrow> d' other = d other"
  using assms crates_okD(2)[OF assms(1)]
  by (auto simp: write_key_file_def read_key_json_def fs_write_def fs_set_permissions_def fs_read_to_string_def
    fs_read_def split: option.splits if_splits)

lemma write_default_config_key: "write_default_config F cid d = (r, d') \<Longrightarrow> d' KEY_FILE = d KEY_FILE"
  by (auto simp: write_default_config_def KEY_FILE_def CONFIG_FILE_def fs_write_def split: if_splits)

lemma read_key_json_cong: "d' KEY_FILE = d KEY_FILE \<Longrightarrow> read_key_json K F d' = read_key_json K F d"
  by (simp add: read_key_json_def fs_read_to_string_def fs_read_def)

lemma key_data_object: "key_data K I addr sk cid = Inr json \<Longrightarrow> \<exists>kvs. json = json_object K kvs"
  by (auto simp: key_data_def try_then_Inr build_encrypted_key_json_def build_plaintext_key_json_def
    split: option.splits)

section \<open>The contract of the writers\<close>

text \<open>
  An operation that writes the key file: when it succeeds, the key of the given address is read back
  under the password it was written with, and the file is private.
\<close>

locale key_writer =
  fixes K :: "'j key_crates" and op :: "fs_env \<Rightarrow> key_inputs \<Rightarrow> disk \<Rightarrow> (ConfigError + 'r) \<times> disk"
    and addr :: "fs_env \<Rightarrow> key_inputs \<Rightarrow> disk \<Rightarrow> address" and sk :: "fs_env \<Rightarrow> key_inputs \<Rightarrow> disk \<Rightarrow> bytes"
  assumes writes: "crates_ok K \<Longrightarrow> inputs_ok I \<Longrightarrow> op F I d = (Inr r, d') \<Longrightarrow> fs_can_read F' KEY_FILE \<Longrightarrow>
      \<exists>json. read_key_json K F' d' = Inr json \<and> holds K (read_password_env I) (addr F I d) (sk F I d) json
        \<and> length (addr F I d) = 32 \<and> length (sk F I d) = 32"
    and owner_only: "crates_ok K \<Longrightarrow> inputs_ok I \<Longrightarrow> op F I d = (Inr r, d') \<Longrightarrow>
      map_option fl_mode (d' KEY_FILE) = Some OWNER_ONLY"
begin

lemma read_back:
  assumes "crates_ok K" "inputs_ok I" "op F I d = (Inr r, d')" "fs_can_read F' KEY_FILE"
    and "read_password_env I' = read_password_env I"
  shows "load_config K F' I' d' = Inr \<lparr>nc_address = addr F I d, nc_signing_key_bytes = sk F I d\<rparr>"
proof -
  obtain json where "read_key_json K F' d' = Inr json" "holds K (read_password_env I') (addr F I d) (sk F I d) json"
    "length (addr F I d) = 32" "length (sk F I d) = 32"
    using writes[OF assms(1-4)] assms(5) by auto
  then show ?thesis using load_holds[OF assms(1)] by blast
qed

lemma export_back:
  assumes "crates_ok K" "inputs_ok I" "op F I d = (Inr r, d')" "fs_can_read F' KEY_FILE"
    and "read_password_env I' = read_password_env I"
  shows "export_key K F' I' d' = Inr (sk F I d, addr F I d)"
  using read_back[OF assms] by (simp add: export_key_def)

end

lemma store_key_contract:
  assumes "crates_ok K" "inputs_ok I" "length sk = 32" and "store_key K F I addr sk cid d = (Inr (), d')"
  shows "fs_can_read F' KEY_FILE \<Longrightarrow>
      \<exists>json. read_key_json K F' d' = Inr json \<and> holds K (read_password_env I) addr sk json"
    and "map_option fl_mode (d' KEY_FILE) = Some OWNER_ONLY"
proof -
  obtain json d1 where data: "key_data K I addr sk cid = Inr json" and w: "write_key_file K F json d = (Inr (), d1)"
    and c: "write_default_config F cid d1 = (Inr (), d')"
    using assms(4) by (auto simp: store_key_def split: sum.splits prod.splits)
  obtain kvs where kvs: "json = json_object K kvs" using key_data_object[OF data] by blast
  note keep = write_default_config_key[OF c]
  show "\<exists>json. read_key_json K F' d' = Inr json \<and> holds K (read_password_env I) addr sk json"
    if "fs_can_read F' KEY_FILE"
    using write_key_file_read(1)[OF assms(1) w[unfolded kvs] that] read_key_json_cong[of d' d1 K F', OF keep]
      key_data_holds[OF assms(1-3) data] kvs by auto
  show "map_option fl_mode (d' KEY_FILE) = Some OWNER_ONLY"
    using write_key_file_read(2)[OF assms(1) w[unfolded kvs], of "\<lparr>fs_mkdir = True, fs_can_read = \<lambda>_. True,
      fs_can_write = \<lambda>_. True, fs_can_chmod = \<lambda>_. True, fs_new_mode = 0\<rparr>"] keep by simp
qed

text \<open>\<open>store_key\<close> with a fixed key, \<open>init_node\<close> on a fresh directory, \<open>encrypt_existing_key\<close> on a plain file.\<close>

interpretation import_writer: key_writer K
    "\<lambda>F I d. if length sk = 32 then import_key K F I sk cid d else (Inl CreateDataDir, d)"
    "\<lambda>_ _ _. public_key K sk" "\<lambda>_ _ _. sk"
  for K :: "'j key_crates" and sk cid
  by unfold_locales (auto simp: import_key_def crates_okD(6) Let_def split: if_splits sum.splits prod.splits
    dest: store_key_contract)

interpretation init_writer: key_writer K
    "\<lambda>F I d. if fs_exists KEY_FILE d then (Inl CreateDataDir, d) else init_node K F I cid d"
    "\<lambda>_ I _. public_key K (ki_secret I)" "\<lambda>_ I _. ki_secret I"
  for K :: "'j key_crates" and cid
  by unfold_locales (auto simp: init_node_def crates_okD(6) inputs_ok_def split: if_splits dest: store_key_contract)

text \<open>What a plain key file contains, as \<open>load_config\<close> reads it.\<close>

definition loaded :: "'j key_crates \<Rightarrow> fs_env \<Rightarrow> key_inputs \<Rightarrow> disk \<Rightarrow> NodeConfig" where
  "loaded K F I d = (case load_config K F I d of Inr cfg \<Rightarrow> cfg
     | Inl _ \<Rightarrow> \<lparr>nc_address = [], nc_signing_key_bytes = []\<rparr>)"

lemma encrypt_existing_parts:
  assumes "encrypt_existing_key K F I d = (Inr (), d')"
  obtains addr sk pw ct salt nonce cid where
    "load_config K F I d = Inr \<lparr>nc_address = addr, nc_signing_key_bytes = sk\<rparr>" "length addr = 32" "length sk = 32"
    "read_password_env I = Some pw" "encrypt_key K I sk pw = Inr (ct, salt, nonce)"
    "write_key_file K F (build_encrypted_key_json K addr ct salt nonce cid) d = (Inr (), d')"
proof -
  obtain out where doc: "encrypted_document K F I d = Inr out" and w: "write_key_file K F out d = (Inr (), d')"
    using assms by (auto simp: encrypt_existing_key_def split: sum.splits)
  obtain json pw addr_hex sk_hex addr sk cid ct salt nonce where
    json: "read_key_json K F d = Inr json" "\<not> is_encrypted K json" and pw: "read_password_env I = Some pw"
    and fields: "field_str K json ''address'' = Inr addr_hex" "field_str K json ''secret_key'' = Inr sk_hex"
      "decode_field K ''address'' addr_hex = Inr addr" "decode_field K ''secret_key'' sk_hex = Inr sk"
      "length addr = 32" "length sk = 32"
    and enc: "encrypt_key K I sk pw = Inr (ct, salt, nonce)"
    and out: "out = build_encrypted_key_json K addr ct salt nonce cid"
    using doc
    by (clarsimp simp: encrypted_document_def try_then_Inr of_length_def Let_def split: if_splits)
  have "load_config K F I d = Inr \<lparr>nc_address = addr, nc_signing_key_bytes = sk\<rparr>"
    using json fields by (simp add: load_config_def load_plaintext_key_def of_length_def)
  then show ?thesis using that fields(5,6) pw enc w out by blast
qed

interpretation encrypt_writer: key_writer K "encrypt_existing_key K"
    "\<lambda>F I d. nc_address (loaded K F I d)" "\<lambda>F I d. nc_signing_key_bytes (loaded K F I d)"
  for K :: "'j key_crates"
proof
  fix I F d r d' F'
  assume ok: "crates_ok K" "inputs_ok I" and run: "encrypt_existing_key K F I d = (Inr r, d')"
  then obtain addr sk pw ct salt nonce cid where cfg: "load_config K F I d = Inr \<lparr>nc_address = addr, nc_signing_key_bytes = sk\<rparr>"
    "length addr = 32" "length sk = 32" "read_password_env I = Some pw" and enc: "encrypt_key K I sk pw = Inr (ct, salt, nonce)"
    and w: "write_key_file K F (build_encrypted_key_json K addr ct salt nonce cid) d = (Inr (), d')"
    using encrypt_existing_parts by (metis old.unit.exhaust)
  note read = write_key_file_read[OF ok(1) w[unfolded build_encrypted_key_json_def]]
  have "holds K (read_password_env I) addr sk (build_encrypted_key_json K addr ct salt nonce cid)"
    using encrypt_then_decrypt[OF ok(1) enc cfg(3)] encrypt_key_arrays[OF enc] ok(2) cfg(4)
    unfolding holds_def inputs_ok_def by blast
  then show "\<exists>json. read_key_json K F' d' = Inr json
      \<and> holds K (read_password_env I) (nc_address (loaded K F I d)) (nc_signing_key_bytes (loaded K F I d)) json
      \<and> length (nc_address (loaded K F I d)) = 32 \<and> length (nc_signing_key_bytes (loaded K F I d)) = 32"
    if "fs_can_read F' KEY_FILE"
    using read(1)[OF that] cfg by (auto simp: loaded_def build_encrypted_key_json_def)
  show "map_option fl_mode (d' KEY_FILE) = Some OWNER_ONLY"
    using read(2)[of "\<lparr>fs_mkdir = True, fs_can_read = \<lambda>_. True, fs_can_write = \<lambda>_. True, fs_can_chmod = \<lambda>_. True,
      fs_new_mode = 0\<rparr>"] by simp
qed

section \<open>Concrete crates\<close>

text \<open>
  Crates for the witnesses: a document is its list of members, printed with every character marked
  and every text closed by a full stop; the cipher reverses; every key derives the zero key.
\<close>

fun mark :: "string \<Rightarrow> string" where
  "mark [] = ''.''"
| "mark (c # cs) = CHR ''c'' # c # mark cs"

fun unmark :: "string \<Rightarrow> (string \<times> string) option" where
  "unmark [] = None"
| "unmark [c] = (if c = CHR ''.'' then Some ([], []) else None)"
| "unmark (c # d # r) =
     (if c = CHR ''.'' then Some ([], d # r)
      else map_option (\<lambda>(s, r'). (d # s, r')) (unmark r))"

fun print_members :: "(string \<times> json_scalar) list \<Rightarrow> string" where
  "print_members [] = []"
| "print_members ((k, JText s) # kvs) = CHR ''t'' # mark k @ mark s @ print_members kvs"
| "print_members ((k, JFlag b) # kvs) = (if b then CHR ''y'' else CHR ''n'') # mark k @ print_members kvs"

fun parse_members :: "nat \<Rightarrow> string \<Rightarrow> (string \<times> json_scalar) list option" where
  "parse_members 0 r = (if r = [] then Some [] else None)"
| "parse_members (Suc fuel) [] = Some []"
| "parse_members (Suc fuel) (c # r) = (case unmark r of
      None \<Rightarrow> None
    | Some (k, r1) \<Rightarrow>
        if c = CHR ''t''
        then (case unmark r1 of None \<Rightarrow> None
          | Some (s, r2) \<Rightarrow> map_option (Cons (k, JText s)) (parse_members fuel r2))
        else map_option (Cons (k, JFlag (c = CHR ''y''))) (parse_members fuel r1))"

lemma unmark_mark: "unmark (mark s @ r) = Some (s, r)"
proof (induction s)
  case Nil
  then show ?case by (cases r) simp_all
qed simp

lemma parse_print_members: "length kvs \<le> n \<Longrightarrow> parse_members n (print_members kvs) = Some kvs"
proof (induction kvs arbitrary: n rule: print_members.induct)
  case 1
  then show ?case by (cases n) simp_all
next
  case (2 k s kvs)
  then show ?case by (cases n) (simp_all add: unmark_mark)
next
  case (3 k b kvs)
  then show ?case by (cases n) (simp_all add: unmark_mark)
qed

lemma length_print_members: "length kvs \<le> length (print_members kvs)"
  by (induction kvs rule: print_members.induct) auto

definition demo_crates :: "(string \<times> json_scalar) list key_crates" where
  "demo_crates = \<lparr>hex_enc = text_of_bytes, hex_dec = (\<lambda>s. Some (string_bytes s)), json_object = (\<lambda>kvs. kvs),
     json_to_string_pretty = (\<lambda>kvs. Some (print_members kvs)),
     json_from_str = (\<lambda>s. parse_members (length s) s),
     json_member_str = (\<lambda>kvs k. case map_of kvs k of Some (JText s) \<Rightarrow> Some s | _ \<Rightarrow> None),
     json_member_bool = (\<lambda>kvs k. case map_of kvs k of Some (JFlag b) \<Rightarrow> Some b | _ \<Rightarrow> None),
     pbkdf2_hmac_sha256 = (\<lambda>_ _ _. replicate 32 0), aes_new_from_slice = (\<lambda>k. length k = 32),
     aes_gcm_encrypt = (\<lambda>_ _ p. Some (rev p)), aes_gcm_decrypt = (\<lambda>_ _ c. Some (rev c)),
     toml_from_str = (\<lambda>_. None), public_key = (\<lambda>_. replicate 32 1)\<rparr>"

lemma string_bytes_of_text [simp]: "string_bytes (text_of_bytes bs) = bs"
proof -
  have "(of_char (char_of (unat b)) :: byte) = b" for b :: byte
  proof -
    have "unat b < 2 ^ LENGTH(8)" by (rule unsigned_less)
    then have "unat b < 256" by simp
    then have "(of_char (char_of (unat b)) :: nat) = unat b" by simp
    then show ?thesis by (metis of_nat_of_char of_nat_unat ucast_id)
  qed
  then show ?thesis by (simp add: string_bytes_def text_of_bytes_def comp_def)
qed

lemma demo_crates_ok: "crates_ok demo_crates"
  by (simp add: crates_ok_def demo_crates_def parse_print_members length_print_members)

definition demo_fs :: fs_env where
  "demo_fs = \<lparr>fs_mkdir = True, fs_can_read = (\<lambda>_. True), fs_can_write = (\<lambda>_. True), fs_can_chmod = (\<lambda>_. True),
     fs_new_mode = 420\<rparr>"

definition demo_key_inputs :: "string option \<Rightarrow> key_inputs" where
  "demo_key_inputs pw = \<lparr>ki_password_env = pw, ki_salt = replicate 32 7, ki_nonce = replicate 12 8,
     ki_secret = replicate 32 9\<rparr>"

lemma demo_key_inputs_ok: "inputs_ok (demo_key_inputs pw)"
  by (simp add: inputs_ok_def demo_key_inputs_def)

section \<open>Properties\<close>

text \<open>
  C30. A key that was imported is the key that is exported: with the same password in the
  environment (or none at both times), whether or not the file was encrypted, exporting gives the
  imported secret key and the address of its public key, and the key file is readable and writable by
  its owner only.
\<close>

theorem imported_key_is_exported:
  assumes "crates_ok K" and "inputs_ok I" and "length sk = 32"
    and "import_key K F I sk chain_id d = (Inr addr, d')"
    and "fs_can_read F' KEY_FILE" and "read_password_env I' = read_password_env I"
  shows "addr = public_key K sk \<and> export_key K F' I' d' = Inr (sk, addr)
    \<and> map_option fl_mode (d' KEY_FILE) = Some OWNER_ONLY"
proof -
  have "addr = public_key K sk"
    using assms(4) by (auto simp: import_key_def Let_def split: if_splits sum.splits prod.splits)
  moreover have "export_key K F' I' d' = Inr (sk, public_key K sk)"
    by (rule import_writer.export_back[OF assms(1,2) _ assms(5,6), where r = addr and F = F and d = d and cid = chain_id])
      (simp add: assms)
  moreover have "map_option fl_mode (d' KEY_FILE) = Some OWNER_ONLY"
    by (rule import_writer.owner_only[OF assms(1,2), where r = addr and F = F and d = d and cid = chain_id and sk = sk])
      (simp add: assms)
  ultimately show ?thesis by simp
qed

lemma demo_import:
  "\<exists>d'. import_key demo_crates demo_fs (demo_key_inputs pw) (replicate 32 5) ''c'' (\<lambda>_. None) = (Inr (replicate 32 1), d')"
  by (auto simp: import_key_def store_key_def key_data_def encrypt_key_def derive_aes_key_def write_key_file_def
    write_default_config_def fs_write_def fs_set_permissions_def demo_crates_def demo_fs_def Let_def
    split: option.splits)

theorem imported_key_is_exported_witness:
  "\<exists>d'. import_key demo_crates demo_fs (demo_key_inputs (Some ''pw'')) (replicate 32 5) ''c'' (\<lambda>_. None)
      = (Inr (replicate 32 1), d')
    \<and> export_key demo_crates demo_fs (demo_key_inputs (Some ''pw'')) d' = Inr (replicate 32 5, replicate 32 1)"
proof -
  obtain d' where run: "import_key demo_crates demo_fs (demo_key_inputs (Some ''pw'')) (replicate 32 5) ''c'' (\<lambda>_. None)
      = (Inr (replicate 32 1), d')"
    using demo_import by blast
  show ?thesis
    using run imported_key_is_exported[OF demo_crates_ok demo_key_inputs_ok _ run, of demo_fs
      "demo_key_inputs (Some ''pw'')"]
    by (simp add: demo_fs_def)
qed

text \<open>
  Encrypting a key file in place keeps the key: if it succeeds, the file is loaded with the
  password as the configuration it gave before, and without a password it is not loaded at all.
\<close>

lemma encryption_in_place_keeps_key:
  assumes "crates_ok K" and "inputs_ok I" and "encrypt_existing_key K F I d = (Inr (), d')"
    and "fs_can_read F' KEY_FILE" and "read_password_env I' = read_password_env I"
  shows "load_config K F' I' d' = load_config K F I d
    \<and> (read_password_env I'' = None \<longrightarrow> load_config K F' I'' d' = Inl PasswordNotSet)"
proof -
  obtain addr sk pw ct salt nonce cid where cfg: "load_config K F I d = Inr \<lparr>nc_address = addr, nc_signing_key_bytes = sk\<rparr>"
      "length addr = 32"
    and w: "write_key_file K F (build_encrypted_key_json K addr ct salt nonce cid) d = (Inr (), d')"
    using encrypt_existing_parts[OF assms(3)] by metis
  have "load_config K F' I' d' = load_config K F I d"
    using encrypt_writer.read_back[OF assms(1-5)] cfg by (simp add: loaded_def)
  moreover have "read_key_json K F' d' = Inr (build_encrypted_key_json K addr ct salt nonce cid)"
    using write_key_file_read(1)[OF assms(1) w[unfolded build_encrypted_key_json_def] assms(4)]
    by (simp add: build_encrypted_key_json_def)
  then have "load_config K F' I'' d' = Inl PasswordNotSet" if "read_password_env I'' = None"
    using that cfg(2) crates_okD[OF assms(1)]
    by (simp add: load_config_def load_encrypted_key_def field_str_def decode_field_def of_length_def is_encrypted_def
      build_encrypted_key_json_def)
  ultimately show ?thesis by blast
qed

text \<open>Initialisation never replaces a key, and what it generates is loaded afterwards.\<close>

lemma init_keeps_existing_key:
  assumes "fs_exists KEY_FILE d" and "init_node K F I chain_id d = (r, d')"
  shows "d' KEY_FILE = d KEY_FILE"
  using assms by (auto simp: init_node_def split: if_splits sum.splits dest: write_default_config_key)

lemma initialised_key_is_loaded:
  assumes "crates_ok K" "inputs_ok I" "\<not> fs_exists KEY_FILE d" and "init_node K F I chain_id d = (Inr (), d')"
    and "fs_can_read F' KEY_FILE" "read_password_env I' = read_password_env I"
  shows "load_config K F' I' d' = Inr \<lparr>nc_address = public_key K (ki_secret I), nc_signing_key_bytes = ki_secret I\<rparr>"
  by (rule init_writer.read_back[OF assms(1,2) _ assms(5,6), where r = "()" and F = F and d = d and cid = chain_id])
    (simp add: assms)

text \<open>
  Loading trusts the address in the file: a plain key file with the address of somebody else is
  loaded as it stands.
\<close>

lemma foreign_address_is_loaded:
  assumes "crates_ok K" "length addr = 32" "length sk = 32"
    and "read_key_json K F d = Inr (build_plaintext_key_json K addr sk cid)"
  shows "load_config K F I d = Inr \<lparr>nc_address = addr, nc_signing_key_bytes = sk\<rparr>"
  using load_holds[OF assms(1-3) _ assms(4)] by (auto simp: holds_def)

section \<open>Presets and modes\<close>

lemma network_name_of_preset:
  "network_name (nt_chain_id (network_config Mainnet)) = ''mainnet''"
  "network_name (nt_chain_id (network_config Testnet)) = ''testnet''"
  "network_name (nt_chain_id (network_config Devnet)) = ''devnet''"
  by (simp_all add: network_name_def)

lemma presets_are_apart: "nt_chain_id (network_config a) = nt_chain_id (network_config b) \<longleftrightarrow> a = b"
  by (cases a; cases b) simp_all

lemma sync_mode_roundtrip: "sync_mode_parse (sync_mode_display mode) = mode"
  by (cases mode) (simp_all add: sync_mode_parse_def lower_char_def Let_def)

end
