(* ===== verification/Cli.thy ===== *)
theory Cli
  imports Rpc_Safety Key_Safety Decimal
begin

text \<open>
  The command-line client in \<open>node/src/main.rs\<close>: amounts and addresses, and the commands that build
  a transaction or a check-in, sign it with the key file and hand it to a node by RPC.

  The node is a parameter \<open>call\<close>, which answers a method with its parameters and may change its own
  state; \<open>server_call\<close> is the RPC server of this repository in that role. The Borsh encoders of the
  payloads are the fields of \<open>cli_env\<close>. What a command prints is left out.
\<close>

section \<open>Errors and sequencing\<close>

datatype CliError =
    CliConfig ConfigError
  | CliText string
  | CliRpc int string
  | CliPanic string

type_synonym ('s, 'a) cli = "'s \<Rightarrow> (CliError + 'a) \<times> 's"

type_synonym 's rpc_client = "string \<Rightarrow> json list \<Rightarrow> ('s, json) cli"

definition cli_do :: "('s, 'a) cli \<Rightarrow> ('a \<Rightarrow> ('s, 'b) cli) \<Rightarrow> ('s, 'b) cli" where
  "cli_do m f s = (case m s of (Inl e, s') \<Rightarrow> (Inl e, s') | (Inr a, s') \<Rightarrow> f a s')"

definition cli_lift :: "CliError + 'a \<Rightarrow> ('s, 'a) cli" where
  "cli_lift r s = (r, s)"

definition config_result :: "ConfigError + 'a \<Rightarrow> CliError + 'a" where
  "config_result r = (case r of Inl e \<Rightarrow> Inl (CliConfig e) | Inr a \<Rightarrow> Inr a)"

record cli_env =
  ce_unhex :: "string \<Rightarrow> string + bytes"
  ce_data_member :: "rpc_data \<Rightarrow> string \<Rightarrow> json option"
  ce_enc_transfer :: "TokenTransferPayload \<Rightarrow> string + bytes"
  ce_enc_stake_deposit :: "StakeDepositPayload \<Rightarrow> string + bytes"
  ce_enc_stake_withdraw :: "StakeWithdrawPayload \<Rightarrow> string + bytes"
  ce_enc_stake_claim :: "unit \<Rightarrow> string + bytes"
  ce_enc_change_delegation :: "ChangeDelegationPayload \<Rightarrow> string + bytes"
  ce_enc_agent_register :: "AgentRegisterPayload \<Rightarrow> string + bytes"
  ce_enc_mint_transfer :: "TokenMintTransferPayload \<Rightarrow> string + bytes"
  ce_enc_token_create :: "TokenCreatePayload \<Rightarrow> string + bytes"
  ce_enc_token_approve :: "TokenApprovePayload \<Rightarrow> string + bytes"
  ce_enc_token_burn :: "TokenBurnPayload \<Rightarrow> string + bytes"
  ce_enc_deploy :: "ContractDeployPayload \<Rightarrow> string + bytes"
  ce_enc_call :: "ContractCallPayload \<Rightarrow> string + bytes"
  ce_enc_service :: "ServiceRegisterPayload \<Rightarrow> string + bytes"
  ce_enc_miner_register :: "MinerRegisterPayload \<Rightarrow> string + bytes"
  ce_enc_heartbeat :: "MinerHeartbeatPayload \<Rightarrow> string + bytes"
  ce_enc_checkin :: "MinerCheckinWitness \<Rightarrow> string + bytes"

text \<open>The accessors of JSON values that the client uses.\<close>

fun as_text :: "json \<Rightarrow> string option" where
  "as_text (JStr s) = Some s"
| "as_text _ = None"

fun as_u64 :: "json \<Rightarrow> u64 option" where
  "as_u64 (JNum n) = (if 0 \<le> n \<and> n < 2 ^ 64 then Some (word_of_int n) else None)"
| "as_u64 _ = None"

fun json_get :: "cli_env \<Rightarrow> json \<Rightarrow> string \<Rightarrow> json option" where
  "json_get C (JObj kvs) k = map_of kvs k"
| "json_get C (JData x) k = ce_data_member C x k"
| "json_get C _ k = None"

fun as_items :: "json \<Rightarrow> json list option" where
  "as_items (JArr xs) = Some xs"
| "as_items _ = None"

definition or_default :: "'a \<Rightarrow> 'a option \<Rightarrow> 'a" where
  "or_default d x = (case x of Some a \<Rightarrow> a | None \<Rightarrow> d)"

section \<open>Amounts and addresses\<close>

text \<open>\<open>str::trim\<close> on the ASCII white space of command lines.\<close>

definition blank :: "char \<Rightarrow> bool" where
  "blank c \<longleftrightarrow> of_char c \<in> {9, 10, 11, 12, 13, 32 :: nat}"

definition trim :: "string \<Rightarrow> string" where
  "trim s = rev (dropWhile blank (rev (dropWhile blank s)))"

definition CLAW_UNIT :: u128 where
  "CLAW_UNIT = 1000000000"

definition parse_u128 :: "string \<Rightarrow> string \<Rightarrow> CliError + u128" where
  "parse_u128 what s = (case parse_unsigned s of Some n \<Rightarrow> Inr n | None \<Rightarrow> Inl (CliText what))"

definition parse_claw_amount :: "string \<Rightarrow> CliError + u128" where
  "parse_claw_amount text =
     (let s = trim text in
      if CHR ''.'' \<in> set s
      then (let whole_str = takeWhile (\<lambda>c. c \<noteq> CHR ''.'') s; frac_str = tl (dropWhile (\<lambda>c. c \<noteq> CHR ''.'') s) in
        try_then (parse_u128 ''invalid amount'' whole_str) (\<lambda>whole.
        if length frac_str > 9 then Inl (CliText ''too many decimal places (max 9)'')
        else try_then (parse_u128 ''invalid decimal'' frac_str) (\<lambda>frac.
        Inr (whole * CLAW_UNIT + frac * 10 ^ (9 - length frac_str)))))
      else try_then (parse_u128 ''invalid amount'' s) (\<lambda>whole. Inr (whole * CLAW_UNIT + 0)))"

definition parse_hex_address :: "cli_env \<Rightarrow> string \<Rightarrow> CliError + address" where
  "parse_hex_address C s = (case ce_unhex C s of
      Inl e \<Rightarrow> Inl (CliText (''invalid hex address: '' @ e))
    | Inr bs \<Rightarrow> if length bs \<noteq> 32
        then Inl (CliText (''address must be 64 hex chars (32 bytes), got '' @ dec_digits (length bs)))
        else Inr bs)"

definition optional_hex :: "cli_env \<Rightarrow> string \<Rightarrow> string \<Rightarrow> CliError + bytes" where
  "optional_hex C what s = (if s = [] then Inr [] else case ce_unhex C s of
      Inl e \<Rightarrow> Inl (CliText (what @ e))
    | Inr bs \<Rightarrow> Inr bs)"

text \<open>\<open>key import\<close>: 64 characters after trimming, decoded, then stored.\<close>

definition key_import_cli ::
  "cli_env \<Rightarrow> 'j key_crates \<Rightarrow> fs_env \<Rightarrow> key_inputs \<Rightarrow> string \<Rightarrow> disk \<Rightarrow> (CliError + address) \<times> disk" where
  "key_import_cli C K F I text d =
     (let private_key_hex = trim text in
      if length private_key_hex \<noteq> 64
      then (Inl (CliText (''private key must be 64 hex characters (32 bytes), got ''
              @ dec_digits (length private_key_hex) @ '' chars'')), d)
      else (case ce_unhex C private_key_hex of
          Inl e \<Rightarrow> (Inl (CliText (''invalid hex: '' @ e)), d)
        | Inr sk_bytes \<Rightarrow>
            (case import_key K F I sk_bytes ''claw-devnet'' d of (r, d') \<Rightarrow> (config_result r, d'))))"

section \<open>Sending a transaction\<close>

type_synonym 'j wallet = "'j key_crates \<times> fs_env \<times> key_inputs \<times> disk"

definition wallet_config :: "'j wallet \<Rightarrow> CliError + NodeConfig" where
  "wallet_config W = (case W of (K, F, I, d) \<Rightarrow> config_result (load_config K F I d))"

definition cli_submit_tx ::
  "node_env \<Rightarrow> 's rpc_client \<Rightarrow> 'j wallet \<Rightarrow> TxType \<Rightarrow> bytes \<Rightarrow> ('s, string) cli" where
  "cli_submit_tx V call W ty payload_bytes =
     cli_do (cli_lift (wallet_config W)) (\<lambda>cfg.
     cli_do (call ''claw_getNonce'' [JStr (hex_encode (ne_ext V) (nc_address cfg))]) (\<lambda>nonce_result.
     let current_nonce = or_default 0 (as_u64 nonce_result);
         tx = sign_transaction V \<lparr>tx_type = ty, tx_from = nc_address cfg, tx_nonce = current_nonce + 1,
           tx_payload = payload_bytes, tx_signature = replicate 64 0\<rparr> (nc_signing_key_bytes cfg);
         tx_hex = hex_encode (ne_ext V) (borsh_tx (ne_ext V) tx) in
     cli_do (call ''claw_sendTransaction'' [JStr tx_hex]) (\<lambda>result.
     cli_lift (Inr (or_default ''unknown'' (as_text result))))))"

definition encoded :: "string + bytes \<Rightarrow> CliError + bytes" where
  "encoded r = (case r of Inl e \<Rightarrow> Inl (CliText e) | Inr bs \<Rightarrow> Inr bs)"

text \<open>The common end of the commands: encode the payload, then submit.\<close>

definition cli_send ::
  "node_env \<Rightarrow> 's rpc_client \<Rightarrow> 'j wallet \<Rightarrow> TxType \<Rightarrow> string + bytes \<Rightarrow> ('s, string) cli" where
  "cli_send V call W ty payload = cli_do (cli_lift (encoded payload)) (cli_submit_tx V call W ty)"

definition reported_balance :: "json \<Rightarrow> u128" where
  "reported_balance r = (case Option.bind (as_text r) parse_unsigned of
      Some n \<Rightarrow> n
    | None \<Rightarrow> or_default 0 (map_option ucast (as_u64 r)))"

definition check_balance :: "node_env \<Rightarrow> 's rpc_client \<Rightarrow> NodeConfig \<Rightarrow> u128 \<Rightarrow> ('s, unit) cli" where
  "check_balance V call cfg raw_amount =
     cli_do (call ''claw_getBalance'' [JStr (hex_encode (ne_ext V) (nc_address cfg))]) (\<lambda>r.
     cli_lift (if reported_balance r < raw_amount then Inl (CliText ''insufficient balance'') else Inr ()))"

section \<open>The commands\<close>

definition handle_transfer_cli ::
  "cli_env \<Rightarrow> node_env \<Rightarrow> 's rpc_client \<Rightarrow> 'j wallet \<Rightarrow> string \<Rightarrow> string \<Rightarrow> ('s, string) cli" where
  "handle_transfer_cli C V call W to amount =
     cli_do (cli_lift (parse_hex_address C to)) (\<lambda>to_addr.
     cli_do (cli_lift (parse_claw_amount amount)) (\<lambda>raw_amount.
     cli_do (cli_lift (wallet_config W)) (\<lambda>cfg.
     cli_do (check_balance V call cfg raw_amount) (\<lambda>_.
     cli_send V call W TokenTransfer (ce_enc_transfer C \<lparr>ttp_to = to_addr, ttp_amount = raw_amount\<rparr>)))))"

definition commission_ok :: "u16 \<Rightarrow> CliError + unit" where
  "commission_ok c = (if c > 10000
     then Inl (CliText (''commission must be 0-10000 basis points, got '' @ show_word c)) else Inr ())"

definition validator_or_self :: "cli_env \<Rightarrow> string option \<Rightarrow> CliError + address" where
  "validator_or_self C key = (case key of Some hex_str \<Rightarrow> parse_hex_address C hex_str | None \<Rightarrow> Inr (replicate 32 0))"

definition handle_stake_cli ::
  "cli_env \<Rightarrow> node_env \<Rightarrow> 's rpc_client \<Rightarrow> 'j wallet \<Rightarrow> string \<Rightarrow> string option \<Rightarrow> u16 \<Rightarrow> ('s, string) cli" where
  "handle_stake_cli C V call W amount validator_key commission =
     cli_do (cli_lift (parse_claw_amount amount)) (\<lambda>raw_amount.
     cli_do (cli_lift (commission_ok commission)) (\<lambda>_.
     cli_do (cli_lift (wallet_config W)) (\<lambda>cfg.
     cli_do (check_balance V call cfg raw_amount) (\<lambda>_.
     cli_do (cli_lift (validator_or_self C validator_key)) (\<lambda>validator.
     cli_send V call W StakeDeposit (ce_enc_stake_deposit C
       \<lparr>sdp_amount = raw_amount, sdp_validator = validator, sdp_commission_bps = commission\<rparr>))))))"

definition handle_change_delegation_cli ::
  "cli_env \<Rightarrow> node_env \<Rightarrow> 's rpc_client \<Rightarrow> 'j wallet \<Rightarrow> string \<Rightarrow> string \<Rightarrow> u16 \<Rightarrow> ('s, string) cli" where
  "handle_change_delegation_cli C V call W validator_key new_owner commission =
     cli_do (cli_lift (commission_ok commission)) (\<lambda>_.
     cli_do (cli_lift (parse_hex_address C validator_key)) (\<lambda>validator.
     cli_do (cli_lift (parse_hex_address C new_owner)) (\<lambda>owner.
     cli_do (cli_lift (wallet_config W)) (\<lambda>cfg.
     cli_send V call W ChangeDelegation (ce_enc_change_delegation C
       \<lparr>cgp_validator = validator, cgp_new_owner = owner, cgp_commission_bps = commission\<rparr>)))))"

definition handle_unstake_cli ::
  "cli_env \<Rightarrow> node_env \<Rightarrow> 's rpc_client \<Rightarrow> 'j wallet \<Rightarrow> string \<Rightarrow> string option \<Rightarrow> ('s, string) cli" where
  "handle_unstake_cli C V call W amount validator_key =
     cli_do (cli_lift (parse_claw_amount amount)) (\<lambda>raw_amount.
     cli_do (cli_lift (wallet_config W)) (\<lambda>cfg.
     cli_do (cli_lift (validator_or_self C validator_key)) (\<lambda>validator.
     cli_send V call W StakeWithdraw (ce_enc_stake_withdraw C \<lparr>swp_amount = raw_amount, swp_validator = validator\<rparr>))))"

text \<open>\<open>None\<close> when there is nothing to claim.\<close>

definition handle_claim_stake_cli ::
  "cli_env \<Rightarrow> node_env \<Rightarrow> 's rpc_client \<Rightarrow> 'j wallet \<Rightarrow> ('s, string option) cli" where
  "handle_claim_stake_cli C V call W =
     cli_do (cli_lift (wallet_config W)) (\<lambda>cfg.
     cli_do (call ''claw_getUnbonding'' [JStr (hex_encode (ne_ext V) (nc_address cfg))]) (\<lambda>unbonding.
     if as_items unbonding = None \<or> as_items unbonding = Some [] then cli_lift (Inr None)
     else cli_do (cli_send V call W StakeClaim (ce_enc_stake_claim C ())) (\<lambda>h. cli_lift (Inr (Some h)))))"

text \<open>\<open>splitn(2, '=')\<close> on every entry; a later entry for a key replaces an earlier one.\<close>

fun parse_metadata :: "string list \<Rightarrow> (string, string) btree \<Rightarrow> CliError + (string, string) btree" where
  "parse_metadata [] m = Inr m"
| "parse_metadata (entry # rest) m =
     (if CHR ''='' \<notin> set entry
      then Inl (CliText (''invalid metadata format '' @ [CHR 0x27] @ entry @ [CHR 0x27] @ '', expected key=value''))
      else parse_metadata rest (bt_insert (takeWhile (\<lambda>c. c \<noteq> CHR ''='') entry)
             (tl (dropWhile (\<lambda>c. c \<noteq> CHR ''='') entry)) m))"

definition handle_register_agent_cli ::
  "cli_env \<Rightarrow> node_env \<Rightarrow> 's rpc_client \<Rightarrow> 'j wallet \<Rightarrow> string \<Rightarrow> string list \<Rightarrow> ('s, string) cli" where
  "handle_register_agent_cli C V call W name metadata_args =
     cli_do (cli_lift (wallet_config W)) (\<lambda>cfg.
     cli_do (cli_lift (parse_metadata metadata_args bt_empty)) (\<lambda>metadata.
     cli_send V call W AgentRegister (ce_enc_agent_register C \<lparr>arp_name = name, arp_metadata = metadata\<rparr>)))"

definition handle_transfer_token_cli ::
  "cli_env \<Rightarrow> node_env \<Rightarrow> 's rpc_client \<Rightarrow> 'j wallet \<Rightarrow> string \<Rightarrow> string \<Rightarrow> string \<Rightarrow> ('s, string) cli" where
  "handle_transfer_token_cli C V call W token_id to amount =
     cli_do (cli_lift (parse_hex_address C token_id)) (\<lambda>token.
     cli_do (cli_lift (parse_hex_address C to)) (\<lambda>to_addr.
     cli_do (cli_lift (parse_u128 ''invalid amount'' amount)) (\<lambda>raw_amount.
     cli_do (cli_lift (wallet_config W)) (\<lambda>cfg.
     cli_send V call W TokenMintTransfer (ce_enc_mint_transfer C
       \<lparr>tmp_token_id = token, tmp_to = to_addr, tmp_amount = raw_amount\<rparr>)))))"

definition handle_create_token_cli ::
  "cli_env \<Rightarrow> node_env \<Rightarrow> 's rpc_client \<Rightarrow> 'j wallet \<Rightarrow> string \<Rightarrow> string \<Rightarrow> u8 \<Rightarrow> string \<Rightarrow> ('s, string) cli" where
  "handle_create_token_cli C V call W name symbol decimals initial_supply =
     cli_do (cli_lift (parse_u128 ''invalid supply'' initial_supply)) (\<lambda>total.
     cli_do (cli_lift (wallet_config W)) (\<lambda>cfg.
     cli_send V call W TokenCreate (ce_enc_token_create C
       \<lparr>tcp_name = name, tcp_symbol = symbol, tcp_decimals = decimals, tcp_total_supply = total\<rparr>)))"

definition handle_approve_token_cli ::
  "cli_env \<Rightarrow> node_env \<Rightarrow> 's rpc_client \<Rightarrow> 'j wallet \<Rightarrow> string \<Rightarrow> string \<Rightarrow> string \<Rightarrow> ('s, string) cli" where
  "handle_approve_token_cli C V call W token_id spender amount =
     cli_do (cli_lift (parse_hex_address C token_id)) (\<lambda>token.
     cli_do (cli_lift (parse_hex_address C spender)) (\<lambda>spender_bytes.
     cli_do (cli_lift (parse_u128 ''invalid amount'' amount)) (\<lambda>raw_amount.
     cli_do (cli_lift (wallet_config W)) (\<lambda>cfg.
     cli_send V call W TokenApprove (ce_enc_token_approve C
       \<lparr>tap_token_id = token, tap_spender = spender_bytes, tap_amount = raw_amount\<rparr>)))))"

definition handle_burn_token_cli ::
  "cli_env \<Rightarrow> node_env \<Rightarrow> 's rpc_client \<Rightarrow> 'j wallet \<Rightarrow> string \<Rightarrow> string \<Rightarrow> ('s, string) cli" where
  "handle_burn_token_cli C V call W token_id amount =
     cli_do (cli_lift (parse_hex_address C token_id)) (\<lambda>token.
     cli_do (cli_lift (parse_u128 ''invalid amount'' amount)) (\<lambda>raw_amount.
     cli_do (cli_lift (wallet_config W)) (\<lambda>cfg.
     cli_send V call W TokenBurn (ce_enc_token_burn C \<lparr>tbp_token_id = token, tbp_amount = raw_amount\<rparr>))))"

text \<open>\<open>wasm\<close> is what reading the file gave.\<close>

definition handle_deploy_contract_cli ::
  "cli_env \<Rightarrow> node_env \<Rightarrow> 's rpc_client \<Rightarrow> 'j wallet \<Rightarrow> bytes option \<Rightarrow> string \<Rightarrow> string \<Rightarrow> ('s, string) cli" where
  "handle_deploy_contract_cli C V call W wasm init_method init_args =
     cli_do (cli_lift (ok_or (CliText ''failed to read wasm file'') wasm)) (\<lambda>code.
     cli_do (cli_lift (optional_hex C ''invalid hex init-args: '' init_args)) (\<lambda>init_args_bytes.
     cli_do (cli_lift (wallet_config W)) (\<lambda>cfg.
     cli_send V call W ContractDeploy (ce_enc_deploy C
       \<lparr>cdp_code = code, cdp_init_method = init_method, cdp_init_args = init_args_bytes\<rparr>))))"

definition handle_call_contract_cli ::
  "cli_env \<Rightarrow> node_env \<Rightarrow> 's rpc_client \<Rightarrow> 'j wallet \<Rightarrow> string \<Rightarrow> string \<Rightarrow> string \<Rightarrow> string \<Rightarrow> ('s, string) cli" where
  "handle_call_contract_cli C V call W addr meth args val =
     cli_do (cli_lift (parse_hex_address C addr)) (\<lambda>contract_addr.
     cli_do (cli_lift (optional_hex C ''invalid hex args: '' args)) (\<lambda>args_bytes.
     cli_do (cli_lift (parse_claw_amount val)) (\<lambda>raw_value.
     cli_do (cli_lift (wallet_config W)) (\<lambda>cfg.
     cli_send V call W ContractCall (ce_enc_call C
       \<lparr>ccp_contract = contract_addr, ccp_method = meth, ccp_args = args_bytes, ccp_value = raw_value\<rparr>)))))"

definition handle_register_service_cli ::
  "cli_env \<Rightarrow> node_env \<Rightarrow> 's rpc_client \<Rightarrow> 'j wallet \<Rightarrow> string \<Rightarrow> string \<Rightarrow> string \<Rightarrow> string \<Rightarrow> ('s, string) cli" where
  "handle_register_service_cli C V call W service_type endpoint price description =
     cli_do (cli_lift (parse_claw_amount price)) (\<lambda>price_amount.
     cli_do (cli_lift (wallet_config W)) (\<lambda>cfg.
     cli_send V call W ServiceRegister (ce_enc_service C \<lparr>srp_service_type = service_type,
       srp_description = description, srp_price_token = replicate 32 0, srp_price_amount = price_amount,
       srp_endpoint = endpoint, srp_active = True\<rparr>)))"

definition handle_register_miner_cli ::
  "cli_env \<Rightarrow> node_env \<Rightarrow> 's rpc_client \<Rightarrow> 'j wallet \<Rightarrow> string \<Rightarrow> ('s, string) cli" where
  "handle_register_miner_cli C V call W name =
     cli_do (cli_lift (wallet_config W)) (\<lambda>cfg.
     cli_send V call W MinerRegister (ce_enc_miner_register C
       \<lparr>mrp_tier = 1, mrp_ip_addr = [0, 0, 0, 0], mrp_name = name\<rparr>))"

section \<open>Heartbeats and check-ins\<close>

text \<open>A text of 64 characters that decodes replaces the zero hash.\<close>

definition hash_of_text :: "cli_env \<Rightarrow> string \<Rightarrow> hash32" where
  "hash_of_text C s = (if length s = 64 then (case ce_unhex C s of Inr bs \<Rightarrow> bs | Inl _ \<Rightarrow> replicate 32 0)
     else replicate 32 0)"

definition handle_miner_heartbeat_cli ::
  "cli_env \<Rightarrow> node_env \<Rightarrow> 's rpc_client \<Rightarrow> 'j wallet \<Rightarrow> ('s, string) cli" where
  "handle_miner_heartbeat_cli C V call W =
     cli_do (call ''claw_blockNumber'' []) (\<lambda>block_number.
     let height = or_default 0 (as_u64 block_number) in
     cli_do (call ''claw_getBlockByNumber'' [j_word height]) (\<lambda>block.
     let hash_hex = or_default [] (Option.bind (json_get C block ''hash'') as_text) in
     cli_send V call W MinerHeartbeat (ce_enc_heartbeat C
       \<lparr>mhp_latest_block_hash = hash_of_text C hash_hex, mhp_latest_height = height\<rparr>)))"

text \<open>
  The check-in reads the key file itself: it wants the plain secret key, and takes the first 32 bytes
  of it, which panics if there are fewer.
\<close>

definition checkin_key :: "'j wallet \<Rightarrow> CliError + bytes" where
  "checkin_key W = (case W of (K, F, _, d) \<Rightarrow>
     try_then (ok_or (CliText ''cannot read key file'') (fs_read_to_string F KEY_FILE d)) (\<lambda>content.
     try_then (ok_or (CliText ''invalid key file'') (json_from_str K content)) (\<lambda>json.
     try_then (ok_or (CliText ''missing secret_key in key file'') (json_member_str K json ''secret_key'')) (\<lambda>secret_hex.
     try_then (ok_or (CliText ''invalid hex'') (hex_dec K secret_hex)) (\<lambda>secret_bytes.
     if length secret_bytes < 32 then Inl (CliPanic ''range end index 32 out of range'') else Inr (take 32 secret_bytes))))))"

definition checkin_height :: "u64 \<Rightarrow> u64" where
  "checkin_height tip =
     (let epoch_start = (tip div MINER_EPOCH_LENGTH) * MINER_EPOCH_LENGTH in max (saturating_sub tip 2) epoch_start)"

definition block_hash_of :: "cli_env \<Rightarrow> json \<Rightarrow> hash32" where
  "block_hash_of C block = (case Option.bind (json_get C block ''hash'') as_text of
      Some hash_str \<Rightarrow> hash_of_text C hash_str
    | None \<Rightarrow> (case Option.bind (json_get C block ''hash'') as_items of
        Some hash_arr \<Rightarrow>
          (let bs = List.map_filter (\<lambda>v. map_option (\<lambda>n. ucast n :: u8) (as_u64 v)) hash_arr in
           if length bs = 32 then bs else replicate 32 0)
      | None \<Rightarrow> replicate 32 0))"

definition build_checkin :: "node_env \<Rightarrow> bytes \<Rightarrow> u64 \<Rightarrow> hash32 \<Rightarrow> MinerCheckinWitness" where
  "build_checkin V key tip ref_hash =
     (let epoch = tip div MINER_EPOCH_LENGTH in
      \<lparr>w_miner = verifying_key V key, w_epoch = epoch, w_ref_block_hash = ref_hash,
       w_ref_block_height = checkin_height tip,
       w_signature = sign V key (checkin_signable_bytes (ne_ext V) epoch ref_hash)\<rparr>)"

definition handle_miner_checkin_cli ::
  "cli_env \<Rightarrow> node_env \<Rightarrow> 's rpc_client \<Rightarrow> 'j wallet \<Rightarrow> ('s, json) cli" where
  "handle_miner_checkin_cli C V call W =
     cli_do (cli_lift (checkin_key W)) (\<lambda>key.
     cli_do (call ''claw_blockNumber'' []) (\<lambda>block_number.
     let tip = or_default 0 (as_u64 block_number) in
     cli_do (call ''claw_getBlockByNumber'' [j_word (checkin_height tip)]) (\<lambda>block.
     cli_do (cli_lift (encoded (ce_enc_checkin C (build_checkin V key tip (block_hash_of C block))))) (\<lambda>witness_bytes.
     call ''claw_submitMinerCheckin'' [JStr (hex_encode (ne_ext V) witness_bytes)]))))"

section \<open>The server as the node of the client\<close>

definition server_call :: "json list rpc_env \<Rightarrow> node_env \<Rightarrow> rpc_inputs \<Rightarrow> rpc_state rpc_client" where
  "server_call E V R meth params s =
     (case handle_rpc E V R \<lparr>rq_jsonrpc = ''2.0'', rq_id = (), rq_method = meth, rq_params = params\<rparr> s of
        (resp, _, s') \<Rightarrow> (case rs_error resp of
            Some e \<Rightarrow> (Inl (CliRpc (rr_code e) (rr_message e)), s')
          | None \<Rightarrow> (Inr (or_default JNull (rs_result resp)), s')))"

end
