(* ===== verification/Cli_Safety.thy ===== *)
theory Cli_Safety
  imports Cli
begin

text \<open>
  What the command line guarantees: the amounts it understands, with the wrap-around of the code, and
  the way of a transfer from the key file through the RPC server into the mempool of the node.
\<close>

section \<open>Amounts\<close>

lemma dec_digits_chars: "c \<in> set (dec_digits n) \<Longrightarrow> 48 \<le> (of_char c :: nat) \<and> (of_char c :: nat) \<le> 57"
proof (induction n rule: dec_digits.induct)
  case (1 n)
  show ?case
  proof (cases "n < 10")
    case True
    then show ?thesis using 1(2) by (simp add: dec_digits.simps[of n])
  next
    case False
    have "n mod 10 < 10" by simp
    then show ?thesis using 1 False by (auto simp: dec_digits.simps[of n])
  qed
qed

lemma trim_plain:
  assumes "\<And>c. c \<in> set s \<Longrightarrow> \<not> blank c"
  shows "trim s = s"
proof -
  have keep: "dropWhile blank xs = xs" if "set xs = set s" for xs
    using assms that by (cases xs) auto
  then show ?thesis by (simp add: trim_def)
qed

lemma digits_plain: "c \<in> set (show_word w) \<Longrightarrow> \<not> blank c \<and> c \<noteq> CHR ''.''"
  using dec_digits_chars[of c "unat w"] by (auto simp: show_word_def blank_def)

text \<open>
  A whole amount is multiplied by the unit in 128 bits: exactly as long as it fits, and otherwise
  without complaint modulo \<open>2 ^ 128\<close>.
\<close>

lemma whole_amount: "parse_claw_amount (show_word (w :: u128)) = Inr (w * CLAW_UNIT)"
  using digits_plain[of _ w] trim_plain[of "show_word w"]
  by (auto simp: parse_claw_amount_def parse_u128_def Let_def)

lemma whole_amount_exact:
  fixes w :: u128
  assumes "unat w * 10 ^ 9 < 2 ^ 128"
  shows "\<exists>raw. parse_claw_amount (show_word w) = Inr raw \<and> unat raw = unat w * 10 ^ 9"
proof -
  have "unat (w * CLAW_UNIT) = unat w * unat CLAW_UNIT"
    using assms by (intro unat_mult_exact) (simp add: CLAW_UNIT_def)
  then show ?thesis by (simp add: whole_amount CLAW_UNIT_def)
qed

lemma huge_amount_wraps:
  "parse_claw_amount (show_word (340282366920938463463374607432 :: u128)) = Inr 231788544"
  by (simp add: whole_amount CLAW_UNIT_def)

section \<open>The client against the server\<close>

lemma reported_balance_text [simp]: "reported_balance (j_text w) = w"
  by (simp add: reported_balance_def j_text_def)

lemma as_u64_word [simp]: "as_u64 (j_word (n :: u64)) = Some n"
  using uint_lt2p[of n] by (simp add: j_word_def)

lemma server_balance:
  assumes "rpc_parse_address E params 0 = Inr a"
  shows "server_call E V R ''claw_getBalance'' params s = (Inr (j_text (get_balance (ch_state (rp_chain s)) a)), s)"
  using assms
  by (simp add: server_call_def handle_rpc_def dispatch_rpc_def query_table_def rpc_balance_def finish_rpc_def rpc_ok_def
    or_default_def)

lemma server_nonce:
  assumes "rpc_parse_address E params 0 = Inr a"
  shows "server_call E V R ''claw_getNonce'' params s = (Inr (j_word (get_nonce (ch_state (rp_chain s)) a)), s)"
  using assms
  by (simp add: server_call_def handle_rpc_def dispatch_rpc_def query_table_def rpc_nonce_def finish_rpc_def rpc_ok_def
    or_default_def)

lemma server_send:
  assumes "re_param_str E params 0 = Some h" "re_unhex E h = Inr bs" "re_dec_tx E bs = Inr tx"
    and "submit_tx V tx (rp_chain s) = (Inr hash, c)"
  shows "server_call E V R ''claw_sendTransaction'' params s = (Inr (j_hex V hash), s\<lparr>rp_chain := c\<rparr>)"
  using assms
  by (simp add: server_call_def handle_rpc_def dispatch_rpc_def rpc_send_transaction_def finish_rpc_def rpc_ok_def
    or_default_def)

text \<open>What the client and the server must agree on: parameters, hexadecimal text and the encoding of transactions.\<close>

definition speaks :: "json list rpc_env \<Rightarrow> node_env \<Rightarrow> Transaction \<Rightarrow> bool" where
  "speaks E V tx \<longleftrightarrow> (\<forall>h. re_param_str E [JStr h] 0 = Some h)
     \<and> (\<forall>bs. re_unhex E (hex_encode (ne_ext V) bs) = Inr bs)
     \<and> re_dec_tx E (borsh_tx (ne_ext V) tx) = Inr tx"

lemma speaks_address:
  "speaks E V tx \<Longrightarrow> length a = 32 \<Longrightarrow> rpc_parse_address E [JStr (hex_encode (ne_ext V) a)] 0 = Inr a"
  by (simp add: speaks_def rpc_parse_address_def)

definition next_tx :: "node_env \<Rightarrow> NodeConfig \<Rightarrow> ChainInner \<Rightarrow> TxType \<Rightarrow> bytes \<Rightarrow> Transaction" where
  "next_tx V cfg c ty payload = sign_transaction V \<lparr>tx_type = ty, tx_from = nc_address cfg,
     tx_nonce = get_nonce (ch_state c) (nc_address cfg) + 1, tx_payload = payload, tx_signature = replicate 64 0\<rparr>
     (nc_signing_key_bytes cfg)"

text \<open>The node has room for the transaction, and has not seen it.\<close>

definition takes :: "node_env \<Rightarrow> ChainInner \<Rightarrow> Transaction \<Rightarrow> bool" where
  "takes V c tx \<longleftrightarrow> length (ch_mempool c) < MAX_MEMPOOL_SIZE \<and> verify_transaction (ne_ext V) tx
     \<and> (\<forall>m \<in> set (ch_mempool c). tx_hash (ne_ext V) m \<noteq> tx_hash (ne_ext V) tx)"

lemma cli_submit_reaches_mempool:
  assumes "wallet_config W = Inr cfg" and "length (nc_address cfg) = 32"
    and "verifying_key V (nc_signing_key_bytes cfg) = nc_address cfg"
    and "tx = next_tx V cfg (rp_chain s) ty payload" and "speaks E V tx" and "takes V (rp_chain s) tx"
  shows "cli_submit_tx V (server_call E V R) W ty payload s =
    (Inr (hex_encode (ne_ext V) (tx_hash (ne_ext V) tx)),
     s\<lparr>rp_chain := (rp_chain s)\<lparr>ch_mempool := ch_mempool (rp_chain s) @ [tx]\<rparr>\<rparr>)"
proof -
  have nonce: "server_call E V R ''claw_getNonce'' [JStr (hex_encode (ne_ext V) (nc_address cfg))] s
      = (Inr (j_word (get_nonce (ch_state (rp_chain s)) (nc_address cfg))), s)"
    by (rule server_nonce[OF speaks_address[OF assms(5,2)]])
  have "tx_from tx = nc_address cfg" "tx_nonce tx = get_nonce (ch_state (rp_chain s)) (nc_address cfg) + 1"
    using assms(3,4) by (simp_all add: next_tx_def sign_transaction_def Let_def)
  then have "submit_tx V tx (rp_chain s) = (Inr (tx_hash (ne_ext V) tx),
      (rp_chain s)\<lparr>ch_mempool := ch_mempool (rp_chain s) @ [tx]\<rparr>)"
    using assms(6) by (auto simp: submit_tx_def takes_def Let_def)
  then have sent: "server_call E V R ''claw_sendTransaction''
      [JStr (hex_encode (ne_ext V) (borsh_tx (ne_ext V) tx))] s = (Inr (j_hex V (tx_hash (ne_ext V) tx)),
        s\<lparr>rp_chain := (rp_chain s)\<lparr>ch_mempool := ch_mempool (rp_chain s) @ [tx]\<rparr>\<rparr>)"
    using assms(5) by (intro server_send) (auto simp: speaks_def)
  show ?thesis
    using nonce sent assms(1,4)
    by (simp add: cli_submit_tx_def cli_do_def cli_lift_def next_tx_def Let_def or_default_def j_hex_def)
qed


text \<open>A client whose encoders and hexadecimal texts are those of the demonstration crates, against a node with an empty mempool.\<close>

definition demo_cli :: cli_env where
  "demo_cli = \<lparr>ce_unhex = (\<lambda>s. Inr (string_bytes s)), ce_data_member = (\<lambda>_ _. None), ce_enc_transfer = (\<lambda>_. Inr []),
     ce_enc_stake_deposit = (\<lambda>_. Inr []), ce_enc_stake_withdraw = (\<lambda>_. Inr []), ce_enc_stake_claim = (\<lambda>_. Inr []),
     ce_enc_change_delegation = (\<lambda>_. Inr []), ce_enc_agent_register = (\<lambda>_. Inr []), ce_enc_mint_transfer = (\<lambda>_. Inr []),
     ce_enc_token_create = (\<lambda>_. Inr []), ce_enc_token_approve = (\<lambda>_. Inr []), ce_enc_token_burn = (\<lambda>_. Inr []),
     ce_enc_deploy = (\<lambda>_. Inr []), ce_enc_call = (\<lambda>_. Inr []), ce_enc_service = (\<lambda>_. Inr []),
     ce_enc_miner_register = (\<lambda>_. Inr []), ce_enc_heartbeat = (\<lambda>_. Inr []), ce_enc_checkin = (\<lambda>_. Inr [])\<rparr>"

definition demo_hex_env :: node_env where
  "demo_hex_env = demo_env\<lparr>ne_ext := (ne_ext demo_env)\<lparr>hex_encode := text_of_bytes\<rparr>\<rparr>"

definition demo_rpc_for :: "Transaction \<Rightarrow> json list rpc_env" where
  "demo_rpc_for tx = \<lparr>re_param_str = (\<lambda>ps i. if i < length ps then as_text (ps ! i) else None),
     re_param_u64 = (\<lambda>_ _. None), re_param_bool = (\<lambda>_ _. None),
     re_unhex = (\<lambda>s. Inr (string_bytes s)), re_dec_tx = (\<lambda>_. Inr tx), re_dec_checkin = (\<lambda>_. Inl ''no''),
     re_submit_error = (\<lambda>_. ''rejected''), re_checkin_error = (\<lambda>_. ''rejected''), re_serialize_error = (\<lambda>_. None),
     re_view_vm = (\<lambda>_ _ _ _ _ _. None), re_hash_order = (\<lambda>ms. ms), re_version = ''1.0.0''\<rparr>"

definition demo_idle :: rpc_state where
  "demo_idle = demo_server\<lparr>rp_chain := demo_node\<lparr>ch_mempool := []\<rparr>\<rparr>"

lemma demo_wallet:
  "\<exists>d. wallet_config (demo_crates, demo_fs, demo_key_inputs None, d)
     = Inr \<lparr>nc_address = alice, nc_signing_key_bytes = replicate 32 5\<rparr>"
proof -
  obtain d where run: "import_key demo_crates demo_fs (demo_key_inputs None) (replicate 32 5) ''c'' (\<lambda>_. None)
      = (Inr alice, d)"
    using demo_import by blast
  have "load_config demo_crates demo_fs (demo_key_inputs None) d
      = Inr \<lparr>nc_address = public_key demo_crates (replicate 32 5), nc_signing_key_bytes = replicate 32 5\<rparr>"
    by (rule import_writer.read_back[OF demo_crates_ok demo_key_inputs_ok[of None], where r = alice and F = demo_fs
      and d = "\<lambda>_. None" and cid = "''c''"])
      (simp add: run, simp add: demo_fs_def, simp)
  moreover have "public_key demo_crates (replicate 32 5) = alice" by (simp add: demo_crates_def)
  ultimately have "wallet_config (demo_crates, demo_fs, demo_key_inputs None, d)
      = Inr \<lparr>nc_address = alice, nc_signing_key_bytes = replicate 32 5\<rparr>"
    by (simp add: wallet_config_def config_result_def)
  then show ?thesis by blast
qed


section \<open>Check-ins\<close>

text \<open>
  The reference of a check-in is in the epoch of the check-in and at most two blocks behind the tip.
\<close>

lemma checkin_height_in_epoch:
  "checkin_height tip div MINER_EPOCH_LENGTH = tip div MINER_EPOCH_LENGTH \<and> checkin_height tip \<le> tip
   \<and> unat tip \<le> unat (checkin_height tip) + 2"
proof -
  define t where "t = unat tip"
  have start: "unat (tip div MINER_EPOCH_LENGTH * MINER_EPOCH_LENGTH) = t div 100 * 100"
  proof -
    have "t div 100 * 100 \<le> t" by simp
    then have "t div 100 * 100 < 2 ^ LENGTH(64)" using unsigned_less[of tip, where 'a = nat] by (simp add: t_def)
    then have "unat (tip div MINER_EPOCH_LENGTH * MINER_EPOCH_LENGTH)
        = unat (tip div MINER_EPOCH_LENGTH) * unat (MINER_EPOCH_LENGTH :: u64)"
      by (intro unat_mult_exact) (simp add: MINER_EPOCH_LENGTH_def unat_div_distrib t_def)
    then show ?thesis by (simp add: MINER_EPOCH_LENGTH_def unat_div_distrib t_def)
  qed
  have h: "unat (checkin_height tip) = max (t - 2) (t div 100 * 100)"
    using start by (simp add: checkin_height_def Let_def max_def word_le_nat_alt unat_saturating_sub t_def)
  have "max (t - 2) (t div 100 * 100) div 100 = t div 100" by (simp add: max_def) linarith
  then have "checkin_height tip div MINER_EPOCH_LENGTH = tip div MINER_EPOCH_LENGTH"
    by (simp add: word_eq_iff_unsigned[where 'a = nat] MINER_EPOCH_LENGTH_def unat_div_distrib h t_def)
  moreover have "max (t - 2) (t div 100 * 100) \<le> t" by simp
  ultimately show ?thesis using h by (simp add: word_le_nat_alt t_def)
qed

text \<open>
  A node whose key file is encrypted cannot check in from the command line, whatever the password: the
  command reads the key file itself and wants a plain key.
\<close>

lemma encrypted_key_cannot_check_in:
  assumes "crates_ok K" and "read_key_json K F d = Inr (build_encrypted_key_json K addr ct salt nonce cid)"
  shows "handle_miner_checkin_cli C V call (K, F, I, d) s = (Inl (CliText ''missing secret_key in key file''), s)"
proof -
  obtain content where "fs_read_to_string F KEY_FILE d = Some content"
      "json_from_str K content = Some (build_encrypted_key_json K addr ct salt nonce cid)"
    using assms(2) by (auto simp: read_key_json_def try_then_Inr)
  then have "checkin_key (K, F, I, d) = Inl (CliText ''missing secret_key in key file'')"
    using crates_okD(3)[OF assms(1)] by (simp add: checkin_key_def build_encrypted_key_json_def)
  then show ?thesis by (simp add: handle_miner_checkin_cli_def cli_do_def cli_lift_def)
qed

end
