(* ===== verification/Node_Start.thy ===== *)
theory Node_Start
  imports P2p_Safety Cli_Safety Chain_Run Version
begin

text \<open>
  The start of a node: the command \<open>start\<close> of \<open>node/src/main.rs\<close>, \<open>rpc_server::start\<close> and the
  pruning of light nodes in \<open>node/src/sync.rs\<close>.

  The start composes what the other theories model: the version check, the configuration file and the
  presets, the key file, the genesis, the chain on its store, the network task and the RPC server.
  The result is the node as its three tasks find it: the state of the RPC server with the shared
  chain, the network if there is one, and whether old blocks are pruned. Third-party parsers are the
  fields of \<open>start_env\<close>, what the world answers during the start those of \<open>start_inputs\<close>.
\<close>

section \<open>Arguments and surroundings\<close>

record start_args =
  sa_network :: "Network option"
  sa_rpc_port :: "u16 option"
  sa_p2p_port :: "u16 option"
  sa_bootstrap :: "string list"
  sa_single :: bool
  sa_sync_mode :: string
  sa_allow_genesis :: bool
  sa_skip_version_check :: bool

record ('j, 'k) start_env =
  sn_crates :: "'j key_crates"
  sn_fs :: fs_env
  sn_node :: node_env
  sn_unhex :: "string \<Rightarrow> bytes option"
  sn_genesis_json :: "string \<Rightarrow> GenesisConfig option"
  sn_multiaddr :: "string \<Rightarrow> Multiaddr option"
  sn_from_protobuf :: "bytes \<Rightarrow> 'k option"
  sn_to_protobuf :: "'k \<Rightarrow> bytes option"
  sn_version :: string

record 'k start_inputs =
  sx_manifest :: "VersionManifest option"
  sx_key :: key_inputs
  sx_store :: inputs
  sx_store_again :: inputs
  sx_remove :: "string option"
  sx_identity :: 'k
  sx_swarm_error :: "string option"
  sx_bind_error :: "string option"

datatype NodeStartError =
    VersionBlocked
  | StartConfig ConfigError
  | StartGenesis string
  | StartChain StartError
  | StartRpc string

record 'k running =
  rn_rpc :: rpc_state
  rn_network :: "('k \<times> swarm_action list \<times> P2pNetwork) option"
  rn_rpc_port :: u16
  rn_light :: bool

section \<open>Resolving the configuration\<close>

definition parse_network :: "string \<Rightarrow> Network option" where
  "parse_network s =
     (let t = map lower_char s in
      if t = ''mainnet'' then Some Mainnet
      else if t = ''testnet'' then Some Testnet
      else if t = ''devnet'' then Some Devnet
      else None)"

definition resolved_network :: "start_args \<Rightarrow> FileConfig \<Rightarrow> Network" where
  "resolved_network A file_cfg = (case sa_network A of
      Some n \<Rightarrow> n
    | None \<Rightarrow> or_default Devnet (Option.bind (ns_network (fc_node file_cfg)) parse_network))"

definition resolved_port :: "u16 option \<Rightarrow> u16 option \<Rightarrow> u16 \<Rightarrow> u16" where
  "resolved_port cli file def = (case cli of Some p \<Rightarrow> p | None \<Rightarrow> or_default def file)"

definition resolved_single :: "start_args \<Rightarrow> FileConfig \<Rightarrow> bool" where
  "resolved_single A file_cfg \<longleftrightarrow> sa_single A \<or> or_default False (nw_single (fc_network file_cfg))"

fun genesis_name :: "Network \<Rightarrow> string" where
  "genesis_name Mainnet = ''mainnet''"
| "genesis_name Testnet = ''testnet''"
| "genesis_name Devnet = ''devnet''"

text \<open>The manifest that is kept, unless the version is refused; a manifest that cannot be fetched refuses nothing.\<close>

definition version_gate :: "string \<Rightarrow> start_args \<Rightarrow> VersionManifest option \<Rightarrow> NodeStartError + VersionManifest option" where
  "version_gate current A fetched =
     (if sa_skip_version_check A then Inr None
      else case fetched of
          None \<Rightarrow> Inr None
        | Some manifest \<Rightarrow>
            if check_version current manifest None = Critical then Inl VersionBlocked else Inr (Some manifest))"

definition GENESIS_FILE :: string where
  "GENESIS_FILE = ''genesis.json''"

definition genesis_file :: "fs_env \<Rightarrow> disk \<Rightarrow> string option option" where
  "genesis_file F d = (if fs_exists GENESIS_FILE d then Some (fs_read_to_string F GENESIS_FILE d) else None)"

definition all_bootstrap :: "start_args \<Rightarrow> FileConfig \<Rightarrow> NetworkConfig \<Rightarrow> string list" where
  "all_bootstrap A file_cfg net_cfg = nt_bootstrap_peers net_cfg @ nw_bootstrap (fc_network file_cfg) @ sa_bootstrap A"

section \<open>The steps of the start\<close>

definition file_config :: "('j, 'k) start_env \<Rightarrow> disk \<Rightarrow> FileConfig" where
  "file_config E d = (case load_file_config (sn_crates E) (sn_fs E) d of Inr c \<Rightarrow> c | Inl _ \<Rightarrow> FileConfig_default)"

definition ensure_key :: "('j, 'k) start_env \<Rightarrow> 'k start_inputs \<Rightarrow> string \<Rightarrow> disk \<Rightarrow> (ConfigError + unit) \<times> disk" where
  "ensure_key E X chain_id d =
     (if \<not> fs_exists KEY_FILE d then init_node (sn_crates E) (sn_fs E) (sx_key X) chain_id d else (Inr (), d))"

definition open_chain ::
  "('j, 'k) start_env \<Rightarrow> 'k start_inputs \<Rightarrow> start_args \<Rightarrow> Network \<Rightarrow> NodeConfig \<Rightarrow> disk \<Rightarrow> ChainStore
   \<Rightarrow> NodeStartError + ChainInner" where
  "open_chain E X A net cfg d st =
     (case load_genesis_config (ne_ext (sn_node E)) (sn_unhex E) (sn_genesis_json E) GENESIS_FILE (genesis_file (sn_fs E) d)
         (genesis_name net) (Some (nc_address cfg)) of
        Inl e \<Rightarrow> Inl (StartGenesis e)
      | Inr genesis_cfg \<Rightarrow>
          (case chain_new (sn_node E) (sx_store X) (sx_store_again X) (sx_remove X) (sn_unhex E) genesis_cfg
              (sa_allow_genesis A \<or> net = Devnet) (nc_signing_key_bytes cfg) (nt_chain_id (network_config net)) st of
             Inl e \<Rightarrow> Inl (StartChain e)
           | Inr chain \<Rightarrow> Inr chain))"

definition prepare_chain :: "VersionManifest option \<Rightarrow> SyncMode \<Rightarrow> ChainInner \<Rightarrow> ChainInner" where
  "prepare_chain manifest mode chain =
     (let chain1 = (case manifest of Some m \<Rightarrow> set_version_manifest m chain | None \<Rightarrow> chain) in
      if mode = Fast then set_fast_sync chain1 else chain1)"

definition rpc_start :: "string option \<Rightarrow> bool \<Rightarrow> bool \<Rightarrow> ChainInner \<Rightarrow> NodeStartError + rpc_state" where
  "rpc_start bind_error faucet_enabled p2p chain = (case bind_error of
      Some e \<Rightarrow> Inl (StartRpc e)
    | None \<Rightarrow> Inr \<lparr>rp_chain = chain, rp_faucet_enabled = Some faucet_enabled, rp_p2p_connected = p2p,
        rp_faucet_last_drip = (\<lambda>_. None), rp_view_rate = (\<lambda>_. None)\<rparr>)"

definition serve ::
  "'k start_inputs \<Rightarrow> u16 \<Rightarrow> SyncMode \<Rightarrow> bool \<Rightarrow> ('k \<times> swarm_action list \<times> P2pNetwork) option \<Rightarrow> ChainInner
   \<Rightarrow> NodeStartError + 'k running" where
  "serve X port mode faucet network chain =
     try_then (rpc_start (sx_bind_error X) faucet (network \<noteq> None) chain) (\<lambda>rpc.
     Inr \<lparr>rn_rpc = rpc, rn_network = network, rn_rpc_port = port, rn_light = (mode = Light)\<rparr>)"

definition with_bootstrap_ids :: "Multiaddr list \<Rightarrow> ChainInner \<Rightarrow> ChainInner" where
  "with_bootstrap_ids addrs chain =
     (let ids = List.map_filter embedded_peer addrs in if ids = [] then chain else set_bootstrap_peers ids chain)"

text \<open>The network, or none in single mode and when libp2p does not start.\<close>

definition start_network ::
  "('j, 'k) start_env \<Rightarrow> 'k start_inputs \<Rightarrow> bool \<Rightarrow> u16 \<Rightarrow> Multiaddr list \<Rightarrow> string \<Rightarrow> ChainInner \<Rightarrow> disk
   \<Rightarrow> ('k \<times> swarm_action list \<times> P2pNetwork) option \<times> ChainInner \<times> disk" where
  "start_network E X run_single p2p_port bootstrap_addrs chain_id chain d =
     (if run_single then (None, chain, d)
      else (case p2p_new (sn_fs E) (sn_from_protobuf E) (sn_to_protobuf E) (sx_identity X) (sx_swarm_error X)
                p2p_port bootstrap_addrs chain_id d of
          (Inr network, d') \<Rightarrow> (Some network, with_bootstrap_ids bootstrap_addrs chain, d')
        | (Inl _, d') \<Rightarrow> (None, with_bootstrap_ids bootstrap_addrs chain, d')))"

definition start_node ::
  "('j, 'k) start_env \<Rightarrow> 'k start_inputs \<Rightarrow> start_args \<Rightarrow> disk \<Rightarrow> ChainStore \<Rightarrow> (NodeStartError + 'k running) \<times> disk" where
  "start_node E X A d st =
     (let file_cfg = file_config E d in
      case version_gate (sn_version E) A (sx_manifest X) of
        Inl e \<Rightarrow> (Inl e, d)
      | Inr manifest \<Rightarrow>
          (let mode = sync_mode_parse (sa_sync_mode A);
               net = resolved_network A file_cfg;
               net_cfg = network_config net;
               rpc_port = resolved_port (sa_rpc_port A) (nw_rpc_port (fc_network file_cfg)) 9710;
               p2p_port = resolved_port (sa_p2p_port A) (nw_p2p_port (fc_network file_cfg)) 9711;
               run_single = (resolved_single A file_cfg \<or> nt_is_local net_cfg);
               bootstrap_addrs = List.map_filter (sn_multiaddr E) (all_bootstrap A file_cfg net_cfg) in
           case ensure_key E X (nt_chain_id net_cfg) d of
             (Inl e, d1) \<Rightarrow> (Inl (StartConfig e), d1)
           | (Inr _, d1) \<Rightarrow> (case load_config (sn_crates E) (sn_fs E) (sx_key X) d1 of
               Inl e \<Rightarrow> (Inl (StartConfig e), d1)
             | Inr cfg \<Rightarrow> (case open_chain E X A net cfg d1 st of
                 Inl e \<Rightarrow> (Inl e, d1)
               | Inr chain \<Rightarrow>
                   (case start_network E X run_single p2p_port bootstrap_addrs (nt_chain_id net_cfg)
                           (prepare_chain manifest mode chain) d1 of
                      (network, chain', d2) \<Rightarrow> (serve X rpc_port mode (nt_faucet_enabled net_cfg) network chain', d2))))))"

section \<open>Light nodes\<close>

definition LIGHT_MODE_KEEP_BLOCKS :: u64 where
  "LIGHT_MODE_KEEP_BLOCKS = 1000"

definition prune_tick :: "inputs \<Rightarrow> ChainInner \<Rightarrow> ChainInner" where
  "prune_tick I chain = prune_old_blocks I LIGHT_MODE_KEEP_BLOCKS chain"

text \<open>Pruning keeps the last thousand blocks and the first.\<close>

lemma prune_keeps_recent:
  assumes "h = 0 \<or> saturating_sub (bl_height (ch_latest_block chain)) LIGHT_MODE_KEEP_BLOCKS \<le> h"
  shows "get_block K db (ch_store (prune_tick I chain)) h = get_block K db (ch_store chain) h"
proof -
  have "bt_get (fold bt_remove ks m) h = bt_get m h" if "h \<notin> set ks" for ks and m :: "(u64, bytes) btree"
    using that by (induction ks arbitrary: m) auto
  then show ?thesis
    using assms by (auto simp: prune_tick_def prune_old_blocks_def prune_blocks_below_def get_block_def Let_def not_less
      split: option.splits)
qed

section \<open>What a started node is made of\<close>

lemma height_of_empty: "get_latest_height None store_empty = Inr None"
  by (simp add: get_latest_height_def get_meta_def store_empty_def)

lemma chain_new_key:
  assumes "chain_new V I I' remove unhex config allow key cid st = Inr chain"
  shows "ch_signing_key chain = key" "ch_validator_address chain = verifying_key V key"
  using assms
  by (auto simp: chain_new_def new_from_genesis_def boot_def Let_def split: sum.splits option.splits prod.splits if_splits)

lemma prepare_chain_keys [simp]:
  "ch_signing_key (prepare_chain m mode chain) = ch_signing_key chain"
  "ch_validator_address (prepare_chain m mode chain) = ch_validator_address chain"
  "ch_signing_key (with_bootstrap_ids addrs chain) = ch_signing_key chain"
  "ch_validator_address (with_bootstrap_ids addrs chain) = ch_validator_address chain"
  by (simp_all add: prepare_chain_def with_bootstrap_ids_def set_version_manifest_def set_fast_sync_def
    set_bootstrap_peers_def Let_def split: option.splits)

lemma start_node_parts:
  assumes "start_node E X A d st = (Inr n, d')"
  obtains file_cfg net manifest mode d1 cfg chain network
  where "file_cfg = file_config E d" and "net = resolved_network A file_cfg" and "version_gate (sn_version E) A (sx_manifest X) = Inr manifest"
    and "mode = sync_mode_parse (sa_sync_mode A)"
    and "load_config (sn_crates E) (sn_fs E) (sx_key X) d1 = Inr cfg"
    and "fs_exists KEY_FILE d \<Longrightarrow> d1 = d"
    and "open_chain E X A net cfg d1 st = Inr chain"
    and "start_network E X (resolved_single A file_cfg \<or> nt_is_local (network_config net))
        (resolved_port (sa_p2p_port A) (nw_p2p_port (fc_network file_cfg)) 9711)
        (List.map_filter (sn_multiaddr E) (all_bootstrap A file_cfg (network_config net)))
        (nt_chain_id (network_config net)) (prepare_chain manifest mode chain) d1 = (network, rp_chain (rn_rpc n), d')"
    and "rn_network n = network" and "rp_p2p_connected (rn_rpc n) \<longleftrightarrow> network \<noteq> None"
proof -
  define file_cfg where "file_cfg = file_config E d"
  define net where "net = resolved_network A file_cfg"
  obtain manifest where v: "version_gate (sn_version E) A (sx_manifest X) = Inr manifest"
    using assms by (cases "version_gate (sn_version E) A (sx_manifest X)") (simp_all add: start_node_def Let_def)
  obtain r d1 where k: "ensure_key E X (nt_chain_id (network_config net)) d = (r, d1)" by force
  note run = assms[unfolded start_node_def Let_def, folded file_cfg_def, folded net_def, simplified v k sum.case prod.case]
  obtain u where r: "r = Inr u" using run by (cases r) simp_all
  obtain cfg where l: "load_config (sn_crates E) (sn_fs E) (sx_key X) d1 = Inr cfg"
    using run r by (cases "load_config (sn_crates E) (sn_fs E) (sx_key X) d1") simp_all
  obtain chain where o: "open_chain E X A net cfg d1 st = Inr chain"
    using run r l by (cases "open_chain E X A net cfg d1 st") simp_all
  obtain network chain' d2 where s: "start_network E X (resolved_single A file_cfg \<or> nt_is_local (network_config net))
        (resolved_port (sa_p2p_port A) (nw_p2p_port (fc_network file_cfg)) 9711)
        (List.map_filter (sn_multiaddr E) (all_bootstrap A file_cfg (network_config net)))
        (nt_chain_id (network_config net)) (prepare_chain manifest (sync_mode_parse (sa_sync_mode A)) chain) d1
      = (network, chain', d2)"
    by (metis prod_cases3)
  have fin: "d2 = d'" "chain' = rp_chain (rn_rpc n)" "rn_network n = network" "rp_p2p_connected (rn_rpc n) \<longleftrightarrow> network \<noteq> None"
    using run r l o s by (auto simp: serve_def rpc_start_def try_then_Inr split: option.splits)
  have "d1 = d" if "fs_exists KEY_FILE d" using k that by (simp add: ensure_key_def)
  then show ?thesis using that[OF file_cfg_def net_def v refl l _ o] s fin by simp
qed

text \<open>A node without a network broadcasts nothing, whatever it is asked.\<close>

lemma rpc_silent:
  assumes "handle_rpc E V R req s = (resp, cmds, s')" and "\<not> rp_p2p_connected s"
  shows "cmds = []"
proof -
  obtain granted rates where adm: "admission R req s = (granted, rates)" by fastforce
  show ?thesis
  proof (cases granted)
    case True
    then obtain r where "dispatch_rpc E V R (rq_method req) (rq_params req) (s\<lparr>rp_view_rate := rates\<rparr>) = (r, cmds, s')"
      using handle_rpc_parts(2)[OF assms(1) adm] by blast
    then show ?thesis using assms(2)
      by (auto simp: dispatch_rpc_def rpc_send_transaction_def rpc_submit_checkin_def rpc_faucet_def p2p_send_def Let_def
        split: if_splits option.splits sum.splits prod.splits)
  next
    case False
    then show ?thesis using handle_rpc_parts(1)[OF assms(1) adm] by simp
  qed
qed

lemma single_node_is_silent:
  assumes "start_node E X A d st = (Inr n, d')" and "rn_network n = None"
    and "handle_rpc R V I req (rn_rpc n) = (resp, cmds, s')"
  shows "cmds = []"
  using assms(2) by (intro rpc_silent[OF assms(3)]) (rule start_node_parts[OF assms(1)], simp)

text \<open>A devnet node never opens a network, whatever the arguments.\<close>

lemma devnet_is_single:
  assumes "start_node E X A d st = (Inr n, d')" and "resolved_network A (file_config E d) = Devnet"
  shows "rn_network n = None"
  using assms(2) by (rule_tac start_node_parts[OF assms(1)]) (auto simp: start_network_def)

text \<open>A version below the critical minimum stops the start before anything is written.\<close>

lemma critical_version_stops_start:
  assumes "sx_manifest X = Some m" "vm_critical_minimum m = Some c" "version_less_than (sn_version E) c"
    and "\<not> sa_skip_version_check A"
  shows "start_node E X A d st = (Inl VersionBlocked, d)"
  using assms by (simp add: start_node_def version_gate_def check_version_def Let_def)

section \<open>Restarting\<close>

text \<open>Loading depends on the key file and the password only.\<close>

lemma load_config_cong:
  assumes "d KEY_FILE = d' KEY_FILE" and "read_password_env I = read_password_env I'"
  shows "load_config K F I d = load_config K F I' d'"
proof -
  have "read_key_json K F d = read_key_json K F d'"
    using assms(1) by (simp add: read_key_json_def fs_read_to_string_def fs_read_def)
  moreover have "load_encrypted_key K I json = load_encrypted_key K I' json" for json
    using assms(2) by (simp add: load_encrypted_key_def)
  ultimately show ?thesis by (simp add: load_config_def cong: if_cong)
qed

lemma identity_frame:
  assumes "load_or_generate_keypair F dec enc fresh d = (r, d')"
  shows "d' KEY_FILE = d KEY_FILE"
  using assms
  by (auto simp: load_or_generate_keypair_def fs_write_def fs_set_permissions_def KEY_FILE_def P2P_KEY_FILE_def
    split: if_splits option.splits prod.splits)

lemma start_network_frame:
  assumes "start_network E X single port addrs cid chain d = (network, chain', d')"
  shows "d' KEY_FILE = d KEY_FILE" and "ch_signing_key chain' = ch_signing_key chain"
    and "ch_validator_address chain' = ch_validator_address chain"
    and "network = Some (k, rest) \<Longrightarrow>
      load_or_generate_keypair (sn_fs E) (sn_from_protobuf E) (sn_to_protobuf E) (sx_identity X) d = (Inr k, d')"
  using assms identity_frame
  by (auto simp: start_network_def p2p_new_def split: if_splits sum.splits prod.splits option.splits)

text \<open>After a start the key file holds the key the node signs with.\<close>

lemma started_key:
  assumes "start_node E X A d st = (Inr n, d')"
  obtains cfg where "load_config (sn_crates E) (sn_fs E) (sx_key X) d' = Inr cfg"
    and "ch_signing_key (rp_chain (rn_rpc n)) = nc_signing_key_bytes cfg"
    and "ch_validator_address (rp_chain (rn_rpc n)) = verifying_key (sn_node E) (nc_signing_key_bytes cfg)"
proof (rule start_node_parts[OF assms])
  fix file_cfg net manifest mode d1 cfg chain network
  assume l: "load_config (sn_crates E) (sn_fs E) (sx_key X) d1 = Inr cfg"
    and o: "open_chain E X A net cfg d1 st = Inr chain"
    and s: "start_network E X (resolved_single A file_cfg \<or> nt_is_local (network_config net))
        (resolved_port (sa_p2p_port A) (nw_p2p_port (fc_network file_cfg)) 9711)
        (List.map_filter (sn_multiaddr E) (all_bootstrap A file_cfg (network_config net)))
        (nt_chain_id (network_config net)) (prepare_chain manifest mode chain) d1 = (network, rp_chain (rn_rpc n), d')"
  have "ch_signing_key chain = nc_signing_key_bytes cfg"
    "ch_validator_address chain = verifying_key (sn_node E) (nc_signing_key_bytes cfg)"
    using o chain_new_key by (auto simp: open_chain_def split: sum.splits)
  moreover have "load_config (sn_crates E) (sn_fs E) (sx_key X) d' = Inr cfg"
    using l load_config_cong[of d' d1 "sx_key X" "sx_key X" "sn_crates E" "sn_fs E"] start_network_frame(1)[OF s] by simp
  ultimately show thesis using that start_network_frame(2,3)[OF s] by simp
qed

lemma loaded_key_exists: "load_config K F I d = Inr cfg \<Longrightarrow> fs_exists KEY_FILE d"
  by (auto simp: load_config_def read_key_json_def fs_read_to_string_def fs_read_def fs_exists_def try_then_Inr
    split: if_splits)

text \<open>The peer identity of a started network is in its file, and a later start finds it there.\<close>

lemma started_identity:
  assumes "start_node E X A d st = (Inr n, d')" and "rn_network n = Some (k, rest)"
  obtains d1 where "load_or_generate_keypair (sn_fs E) (sn_from_protobuf E) (sn_to_protobuf E) (sx_identity X) d1
      = (Inr k, d')" and "fs_exists KEY_FILE d \<Longrightarrow> d1 = d"
  using start_node_parts[OF assms(1)] start_network_frame(4) assms(2) by metis

lemma identity_again:
  assumes "load_or_generate_keypair F dec enc fresh d = (Inr k, d')"
    and "\<And>bs. enc fresh = Some bs \<Longrightarrow> dec bs = Some fresh"
    and "load_or_generate_keypair F dec enc fresh' e = (Inr k', e')" and "e P2P_KEY_FILE = d' P2P_KEY_FILE"
  shows "k' = k"
  using assms
  by (auto simp: load_or_generate_keypair_def fs_exists_def fs_read_def fs_write_def fs_set_permissions_def
    split: if_splits option.splits)

text \<open>
  C25. A node keeps its identity: if a start succeeds and later another one on the same data directory,
  whose two key files nobody touched in between, with the same password (or none at both times), then
  the second node signs blocks and votes with the same key as the first and has the same validator
  address, and if both have a network, the same peer identity, whatever the arguments, the store and
  the rest of the disk.
\<close>

theorem restart_keeps_identity:
  assumes "start_node E X A d st = (Inr n, d')" and "start_node E X' A' e st' = (Inr n', e')"
    and "e KEY_FILE = d' KEY_FILE" and "e P2P_KEY_FILE = d' P2P_KEY_FILE"
    and "read_password_env (sx_key X') = read_password_env (sx_key X)"
    and "\<And>k bs. sn_to_protobuf E k = Some bs \<Longrightarrow> sn_from_protobuf E bs = Some k"
  shows "ch_signing_key (rp_chain (rn_rpc n')) = ch_signing_key (rp_chain (rn_rpc n))
    \<and> ch_validator_address (rp_chain (rn_rpc n')) = ch_validator_address (rp_chain (rn_rpc n))
    \<and> (\<forall>k rest k' rest'. rn_network n = Some (k, rest) \<longrightarrow> rn_network n' = Some (k', rest') \<longrightarrow> k' = k)"
proof -
  obtain cfg where c: "load_config (sn_crates E) (sn_fs E) (sx_key X) d' = Inr cfg"
    "ch_signing_key (rp_chain (rn_rpc n)) = nc_signing_key_bytes cfg"
    "ch_validator_address (rp_chain (rn_rpc n)) = verifying_key (sn_node E) (nc_signing_key_bytes cfg)"
    by (rule started_key[OF assms(1)])
  have again: "load_config (sn_crates E) (sn_fs E) (sx_key X') e = Inr cfg"
    using c(1) load_config_cong[of e d' "sx_key X'" "sx_key X" "sn_crates E" "sn_fs E"] assms(3,5) by simp
  obtain cfg' where c': "load_config (sn_crates E) (sn_fs E) (sx_key X') e' = Inr cfg'"
    "ch_signing_key (rp_chain (rn_rpc n')) = nc_signing_key_bytes cfg'"
    "ch_validator_address (rp_chain (rn_rpc n')) = verifying_key (sn_node E) (nc_signing_key_bytes cfg')"
    by (rule started_key[OF assms(2)])
  have "e' KEY_FILE = e KEY_FILE"
    using start_node_parts[OF assms(2)] start_network_frame(1) loaded_key_exists[OF again] by metis
  then have "cfg' = cfg" using c'(1) again load_config_cong[of e' e "sx_key X'" "sx_key X'" "sn_crates E" "sn_fs E"] by simp
  moreover have "k' = k" if net: "rn_network n = Some (k, rest)" "rn_network n' = Some (k', rest')" for k rest k' rest'
  proof -
    obtain d1 where "load_or_generate_keypair (sn_fs E) (sn_from_protobuf E) (sn_to_protobuf E) (sx_identity X) d1 = (Inr k, d')"
      by (rule started_identity[OF assms(1) net(1)])
    moreover obtain e1 where "load_or_generate_keypair (sn_fs E) (sn_from_protobuf E) (sn_to_protobuf E) (sx_identity X') e1
        = (Inr k', e')" "e1 = e"
      using started_identity[OF assms(2) net(2)] loaded_key_exists[OF again] by metis
    ultimately show ?thesis using identity_again assms(4,6) by metis
  qed
  ultimately show ?thesis using c c' by simp
qed

text \<open>Alice's network of one, started twice; the second start would generate another peer identity.\<close>

definition demo_start :: "((string \<times> json_scalar) list, bytes) start_env" where
  "demo_start = \<lparr>sn_crates = demo_crates, sn_fs = demo_fs, sn_node = demo_base, sn_unhex = (\<lambda>_. Some alice),
     sn_genesis_json = (\<lambda>_. Some solo_config), sn_multiaddr = (\<lambda>_. Some [OtherProtocol ''ip4'']),
     sn_from_protobuf = Some, sn_to_protobuf = Some, sn_version = ''1.0.0''\<rparr>"

definition demo_surroundings :: "bytes \<Rightarrow> bytes start_inputs" where
  "demo_surroundings k = \<lparr>sx_manifest = None, sx_key = demo_key_inputs None, sx_store = demo_inputs,
     sx_store_again = demo_inputs, sx_remove = None, sx_identity = k, sx_swarm_error = None, sx_bind_error = None\<rparr>"

definition demo_args :: start_args where
  "demo_args = \<lparr>sa_network = Some Testnet, sa_rpc_port = None, sa_p2p_port = None, sa_bootstrap = [], sa_single = False,
     sa_sync_mode = ''full'', sa_allow_genesis = True, sa_skip_version_check = False\<rparr>"

lemma genesis_any_key:
  assumes "new_from_genesis V I unhex config True key cid st = Inr n"
  shows "\<exists>n'. new_from_genesis V I unhex config True key' cid' st = Inr n'"
  using assms by (auto simp: new_from_genesis_def Let_def split: sum.splits prod.splits)

lemma start_node_runs:
  assumes "version_gate (sn_version E) A (sx_manifest X) = Inr m" and "fs_exists KEY_FILE d"
    and "load_config (sn_crates E) (sn_fs E) (sx_key X) d = Inr cfg"
    and "open_chain E X A (resolved_network A (file_config E d)) cfg d st = Inr chain" and "sx_bind_error X = None"
  shows "\<exists>n d'. start_node E X A d st = (Inr n, d')"
  using assms by (simp add: start_node_def ensure_key_def serve_def rpc_start_def Let_def split: prod.splits)

lemma demo_start_runs:
  assumes "load_config demo_crates demo_fs (demo_key_inputs None) d = Inr cfg" and "d GENESIS_FILE = Some f"
  shows "\<exists>n d'. start_node demo_start (demo_surroundings k) demo_args d store_empty = (Inr n, d')"
proof -
  obtain n where n: "new_from_genesis demo_base demo_inputs (\<lambda>_. Some alice) solo_config True (nc_signing_key_bytes cfg)
      (nt_chain_id (network_config Testnet)) store_empty = Inr n"
    using solo_node genesis_any_key by metis
  have "in_read demo_inputs = None" by (simp add: demo_inputs_def)
  then have "open_chain demo_start (demo_surroundings k) demo_args Testnet cfg d store_empty = Inr n"
    using n assms(2) solo_starts(1)
    by (simp add: open_chain_def load_genesis_config_def genesis_file_def fs_exists_def fs_read_to_string_def fs_read_def
      chain_new_def height_of_empty demo_start_def demo_surroundings_def demo_args_def demo_fs_def)
  moreover have "resolved_network demo_args (file_config demo_start d) = Testnet"
    by (simp add: resolved_network_def demo_args_def)
  ultimately show ?thesis
    using assms(1) loaded_key_exists[OF assms(1)]
    by (intro start_node_runs[where m = None]) (simp_all add: version_gate_def demo_start_def demo_surroundings_def)
qed

theorem restart_keeps_identity_witness:
  "\<exists>d n d' n' e'. start_node demo_start (demo_surroundings [1]) demo_args d store_empty = (Inr n, d')
    \<and> start_node demo_start (demo_surroundings [2]) demo_args (d'(GENESIS_FILE := d GENESIS_FILE)) store_empty = (Inr n', e')
    \<and> ch_validator_address (rp_chain (rn_rpc n')) = ch_validator_address (rp_chain (rn_rpc n))"
proof -
  obtain d0 where "wallet_config (demo_crates, demo_fs, demo_key_inputs None, d0)
      = Inr \<lparr>nc_address = alice, nc_signing_key_bytes = replicate 32 5\<rparr>"
    using demo_wallet by blast
  then obtain cfg where d0: "load_config demo_crates demo_fs (demo_key_inputs None) d0 = Inr cfg"
    by (cases "load_config demo_crates demo_fs (demo_key_inputs None) d0")
      (simp_all add: wallet_config_def config_result_def)
  have files: "KEY_FILE \<noteq> GENESIS_FILE" "P2P_KEY_FILE \<noteq> GENESIS_FILE"
    by (simp_all add: KEY_FILE_def P2P_KEY_FILE_def GENESIS_FILE_def)
  define d where "d = d0(GENESIS_FILE \<mapsto> \<lparr>fl_content = [], fl_mode = 0\<rparr>)"
  have "load_config demo_crates demo_fs (demo_key_inputs None) d = Inr cfg"
    using d0 load_config_cong[of d d0 "demo_key_inputs None" "demo_key_inputs None" demo_crates demo_fs] files
    by (simp add: d_def)
  then obtain n d' where first: "start_node demo_start (demo_surroundings [1]) demo_args d store_empty = (Inr n, d')"
    using demo_start_runs by (metis d_def fun_upd_same)
  obtain cfg' where "load_config demo_crates demo_fs (demo_key_inputs None) d' = Inr cfg'"
    by (rule started_key[OF first]) (simp add: demo_start_def demo_surroundings_def)
  then have "load_config demo_crates demo_fs (demo_key_inputs None) (d'(GENESIS_FILE := d GENESIS_FILE)) = Inr cfg'"
    using load_config_cong[of "d'(GENESIS_FILE := d GENESIS_FILE)" d' "demo_key_inputs None" "demo_key_inputs None"
      demo_crates demo_fs] files by simp
  then obtain n' e' where second: "start_node demo_start (demo_surroundings [2]) demo_args
      (d'(GENESIS_FILE := d GENESIS_FILE)) store_empty = (Inr n', e')"
    using demo_start_runs by (metis d_def fun_upd_same)
  have "ch_validator_address (rp_chain (rn_rpc n')) = ch_validator_address (rp_chain (rn_rpc n))"
    using restart_keeps_identity[OF first second] files
    by (simp add: demo_start_def demo_surroundings_def)
  then show ?thesis using first second by blast
qed

section \<open>Fast synchronisation\<close>

text \<open>
  A node that is to synchronise from a snapshot asks only the peers whose identity is part of a
  bootstrap address: if no address carries one, as with the preset of the test network, every peer is
  asked for its status and the snapshot stays pending.
\<close>

lemma fast_sync_without_identities:
  assumes "start_node E X A d st = (Inr n, d')"
    and "\<And>s a. s \<in> set (all_bootstrap A (file_config E d) (network_config (resolved_network A (file_config E d))))
      \<Longrightarrow> sn_multiaddr E s = Some a \<Longrightarrow> embedded_peer a = None"
    and "on_peer_connected peer known (rp_chain (rn_rpc n)) = (cmds, known', chain')"
  shows "cmds = [SendSyncRequest peer GetStatus]
    \<and> ch_fast_sync_pending chain' = ch_fast_sync_pending (rp_chain (rn_rpc n))"
proof (rule start_node_parts[OF assms(1)])
  fix file_cfg net manifest mode d1 cfg chain network
  assume f: "file_cfg = file_config E d" "net = resolved_network A file_cfg"
    and o: "open_chain E X A net cfg d1 st = Inr chain"
    and s: "start_network E X (resolved_single A file_cfg \<or> nt_is_local (network_config net))
        (resolved_port (sa_p2p_port A) (nw_p2p_port (fc_network file_cfg)) 9711)
        (List.map_filter (sn_multiaddr E) (all_bootstrap A file_cfg (network_config net)))
        (nt_chain_id (network_config net)) (prepare_chain manifest mode chain) d1 = (network, rp_chain (rn_rpc n), d')"
  have "List.map_filter embedded_peer (List.map_filter (sn_multiaddr E) (all_bootstrap A file_cfg (network_config net))) = []"
    using assms(2) by (auto simp: f List.map_filter_def filter_empty_conv)
  then have "rp_chain (rn_rpc n) = prepare_chain manifest mode chain"
    using s by (auto simp: start_network_def with_bootstrap_ids_def Let_def split: if_splits prod.splits sum.splits)
  moreover have "ch_bootstrap_peer_ids chain = []"
    using o by (auto simp: open_chain_def chain_new_def new_from_genesis_def boot_def Let_def
      split: sum.splits option.splits prod.splits if_splits)
  ultimately have "ch_bootstrap_peer_ids (rp_chain (rn_rpc n)) = []"
    by (simp add: prepare_chain_def set_version_manifest_def set_fast_sync_def Let_def split: option.splits)
  then show ?thesis using assms(3) by (auto simp: on_peer_connected_def Let_def split: if_splits)
qed

section \<open>A fresh node\<close>

text \<open>
  A node started on an empty database is a reachable node of its genesis: what holds of reachable nodes
  holds of it and of everything it becomes.
\<close>

lemma reachable_bootstrap_ids:
  "reachable V unhex config bs chain \<Longrightarrow> reachable V unhex config bs (with_bootstrap_ids addrs chain)"
  by (simp add: with_bootstrap_ids_def Let_def reachable.bootstrap)

lemma genesis_allowed:
  "new_from_genesis V I unhex config allow key cid st = Inr chain
   \<Longrightarrow> new_from_genesis V I unhex config True key cid st = Inr chain"
  by (cases allow) (simp_all add: new_from_genesis_def)

lemma fresh_start_is_reachable:
  assumes "start_node E X A d store_empty = (Inr n, d')" and "sx_manifest X = None \<or> sa_skip_version_check A"
    and "in_read (sx_store X) = None"
  shows "\<exists>config. reachable (sn_node E) (sn_unhex E) config [] (rp_chain (rn_rpc n))"
proof (rule start_node_parts[OF assms(1)])
  fix file_cfg net manifest mode d1 cfg chain network
  assume v: "version_gate (sn_version E) A (sx_manifest X) = Inr manifest"
    and o: "open_chain E X A net cfg d1 store_empty = Inr chain"
    and s: "start_network E X (resolved_single A file_cfg \<or> nt_is_local (network_config net))
        (resolved_port (sa_p2p_port A) (nw_p2p_port (fc_network file_cfg)) 9711)
        (List.map_filter (sn_multiaddr E) (all_bootstrap A file_cfg (network_config net)))
        (nt_chain_id (network_config net)) (prepare_chain manifest mode chain) d1 = (network, rp_chain (rn_rpc n), d')"
  have "manifest = None" using v assms(2) by (auto simp: version_gate_def split: if_splits)
  obtain config where "new_from_genesis (sn_node E) (sx_store X) (sn_unhex E) config True (nc_signing_key_bytes cfg)
      (nt_chain_id (network_config net)) store_empty = Inr chain"
    using o assms(3) by (auto simp: open_chain_def chain_new_def height_of_empty split: sum.splits dest: genesis_allowed)
  then have "reachable (sn_node E) (sn_unhex E) config [] chain" by (rule reachable.start)
  then have "reachable (sn_node E) (sn_unhex E) config [] (prepare_chain manifest mode chain)"
    using \<open>manifest = None\<close> by (simp add: prepare_chain_def Let_def reachable.fast_sync)
  moreover have "prepare_chain manifest mode chain = rp_chain (rn_rpc n)
      \<or> (\<exists>addrs. with_bootstrap_ids addrs (prepare_chain manifest mode chain) = rp_chain (rn_rpc n))"
    using s by (auto simp: start_network_def split: if_splits prod.splits sum.splits)
  ultimately show ?thesis using reachable_bootstrap_ids by metis
qed

end
