(* ===== verification/Commands.thy ===== *)
theory Commands
  imports Node_Start
begin

text \<open>
  The commands of \<open>claw-node\<close> (\<open>main\<close> in \<open>node/src/main.rs\<close>) apart from \<open>start\<close>: the queries of
  contracts, the dispatch of the client commands, and the commands on the local key.

  The commands that query or show something return the lines they print; how JSON values are printed
  is a parameter (\<open>print_env\<close>). The locale \<open>client_call\<close> says what the commands rely on in the node they
  talk to: an invariant that one call keeps is kept by every command.
\<close>

section \<open>Queries of contracts\<close>

datatype ContractAction =
    ActionInfo string
  | ActionStorage string string
  | ActionCode string
  | ActionCall string string string

record print_env =
  pe_pretty :: "json \<Rightarrow> string + string"
  pe_compact :: "json \<Rightarrow> string"
  pe_genesis_json :: "GenesisConfig \<Rightarrow> string + string"

definition printed :: "string + string \<Rightarrow> CliError + string list" where
  "printed r = (case r of Inl e \<Rightarrow> Inl (CliText e) | Inr t \<Rightarrow> Inr [t])"

definition code_lines :: "cli_env \<Rightarrow> json \<Rightarrow> string list" where
  "code_lines C result =
     (let sz = or_default 0 (Option.bind (json_get C result ''size'') as_u64) in
      [''Code size: '' @ show_word sz @ '' bytes'']
      @ (case Option.bind (json_get C result ''code'') as_text of
          Some code \<Rightarrow>
            [if length code > 128 then ''Code (first 64 bytes): '' @ take 128 code @ ''...'' else ''Code: '' @ code]
        | None \<Rightarrow> []))"

definition handle_contract_cli ::
  "cli_env \<Rightarrow> print_env \<Rightarrow> 's rpc_client \<Rightarrow> ContractAction \<Rightarrow> ('s, string list) cli" where
  "handle_contract_cli C P call action = (case action of
      ActionInfo addr \<Rightarrow> cli_do (call ''claw_getContractInfo'' [JStr addr]) (\<lambda>result.
        cli_lift (if result = JNull then Inr [''Contract not found''] else printed (pe_pretty P result)))
    | ActionStorage addr key \<Rightarrow> cli_do (call ''claw_getContractStorage'' [JStr addr, JStr key]) (\<lambda>result.
        cli_lift (Inr [if result = JNull then ''Storage key not found''
          else or_default (pe_compact P result) (as_text result)]))
    | ActionCode addr \<Rightarrow> cli_do (call ''claw_getContractCode'' [JStr addr]) (\<lambda>result.
        cli_lift (Inr (if result = JNull then [''Contract not found''] else code_lines C result)))
    | ActionCall addr meth args \<Rightarrow> cli_do (call ''claw_callContractView'' [JStr addr, JStr meth, JStr args]) (\<lambda>result.
        cli_lift (printed (pe_pretty P result))))"

section \<open>Client commands\<close>

text \<open>The content of the file of a deployment stands for its path.\<close>

datatype ClientCommand =
    CmdTransfer string string
  | CmdStake string "string option" u16
  | CmdUnstake string "string option"
  | CmdClaimStake
  | CmdChangeDelegation string string u16
  | CmdRegisterAgent string "string list"
  | CmdTransferToken string string string
  | CmdCreateToken string string u8 string
  | CmdApproveToken string string string
  | CmdBurnToken string string
  | CmdDeployContract "bytes option" string string
  | CmdCallContract string string string string
  | CmdRegisterService string string string string
  | CmdContract ContractAction
  | CmdRegisterMiner string
  | CmdMinerHeartbeat
  | CmdMinerCheckin

definition cli_done :: "('s, 'a) cli \<Rightarrow> ('s, unit) cli" where
  "cli_done m = cli_do m (\<lambda>_. cli_lift (Inr ()))"

fun run_client ::
  "cli_env \<Rightarrow> print_env \<Rightarrow> node_env \<Rightarrow> 's rpc_client \<Rightarrow> 'j wallet \<Rightarrow> ClientCommand \<Rightarrow> ('s, unit) cli" where
  "run_client C P V call W (CmdTransfer to amount) = cli_done (handle_transfer_cli C V call W to amount)"
| "run_client C P V call W (CmdStake amount validator commission) =
     cli_done (handle_stake_cli C V call W amount validator commission)"
| "run_client C P V call W (CmdUnstake amount validator) = cli_done (handle_unstake_cli C V call W amount validator)"
| "run_client C P V call W CmdClaimStake = cli_done (handle_claim_stake_cli C V call W)"
| "run_client C P V call W (CmdChangeDelegation validator owner commission) =
     cli_done (handle_change_delegation_cli C V call W validator owner commission)"
| "run_client C P V call W (CmdRegisterAgent name metadata) =
     cli_done (handle_register_agent_cli C V call W name metadata)"
| "run_client C P V call W (CmdTransferToken token to amount) =
     cli_done (handle_transfer_token_cli C V call W token to amount)"
| "run_client C P V call W (CmdCreateToken name symbol decimals supply) =
     cli_done (handle_create_token_cli C V call W name symbol decimals supply)"
| "run_client C P V call W (CmdApproveToken token spender amount) =
     cli_done (handle_approve_token_cli C V call W token spender amount)"
| "run_client C P V call W (CmdBurnToken token amount) = cli_done (handle_burn_token_cli C V call W token amount)"
| "run_client C P V call W (CmdDeployContract wasm init_method init_args) =
     cli_done (handle_deploy_contract_cli C V call W wasm init_method init_args)"
| "run_client C P V call W (CmdCallContract addr meth args val) =
     cli_done (handle_call_contract_cli C V call W addr meth args val)"
| "run_client C P V call W (CmdRegisterService service endpoint price description) =
     cli_done (handle_register_service_cli C V call W service endpoint price description)"
| "run_client C P V call W (CmdContract action) = cli_done (handle_contract_cli C P call action)"
| "run_client C P V call W (CmdRegisterMiner name) = cli_done (handle_register_miner_cli C V call W name)"
| "run_client C P V call W CmdMinerHeartbeat = cli_done (handle_miner_heartbeat_cli C V call W)"
| "run_client C P V call W CmdMinerCheckin = cli_done (handle_miner_checkin_cli C V call W)"

section \<open>Local commands\<close>

datatype KeyAction = KeyGenerate | KeyShow | KeyImport string | KeyExport

datatype LocalCommand =
    CmdInit Network
  | CmdStatus
  | CmdKey KeyAction
  | CmdEncryptKey
  | CmdGenesis Network

definition silent :: "(ConfigError + 'a) \<times> disk \<Rightarrow> (CliError + string list) \<times> disk" where
  "silent x = (case x of (r, d) \<Rightarrow> (try_then (config_result r) (\<lambda>_. Inr []), d))"

fun run_key ::
  "cli_env \<Rightarrow> 'j key_crates \<Rightarrow> fs_env \<Rightarrow> key_inputs \<Rightarrow> KeyAction \<Rightarrow> disk \<Rightarrow> (CliError + string list) \<times> disk" where
  "run_key C K F I KeyGenerate d = silent (init_node K F I ''claw-devnet'' d)"
| "run_key C K F I KeyShow d =
     (try_then (config_result (load_config K F I d)) (\<lambda>cfg. Inr [''Address: '' @ hex_enc K (nc_address cfg)]), d)"
| "run_key C K F I (KeyImport text) d = (case key_import_cli C K F I text d of (r, d') \<Rightarrow>
     (try_then r (\<lambda>addr. Inr [''Key imported successfully.'', ''Address: '' @ hex_enc K addr]), d'))"
| "run_key C K F I KeyExport d =
     (try_then (config_result (export_key K F I d)) (\<lambda>(secret_key, addr).
        Inr [''Address:     '' @ hex_enc K addr, ''Private Key: '' @ hex_enc K secret_key]), d)"

definition genesis_for :: "'j key_crates \<Rightarrow> fs_env \<Rightarrow> key_inputs \<Rightarrow> externals \<Rightarrow> Network \<Rightarrow> disk \<Rightarrow> GenesisConfig" where
  "genesis_for K F I E network d =
     default_for_network E (genesis_name network)
       (case load_config K F I d of Inr c \<Rightarrow> Some (nc_address c) | Inl _ \<Rightarrow> None)"

fun run_local ::
  "cli_env \<Rightarrow> print_env \<Rightarrow> externals \<Rightarrow> 'j key_crates \<Rightarrow> fs_env \<Rightarrow> key_inputs \<Rightarrow> LocalCommand \<Rightarrow> disk
   \<Rightarrow> (CliError + string list) \<times> disk" where
  "run_local C P E K F I (CmdInit network) d = silent (init_node K F I (nt_chain_id (network_config network)) d)"
| "run_local C P E K F I CmdStatus d = (Inr [''claw-node status: use RPC at http://localhost:9710''], d)"
| "run_local C P E K F I (CmdKey action) d = run_key C K F I action d"
| "run_local C P E K F I CmdEncryptKey d = silent (encrypt_existing_key K F I d)"
| "run_local C P E K F I (CmdGenesis network) d = (printed (pe_genesis_json P (genesis_for K F I E network d)), d)"

section \<open>The node behind the client\<close>

locale client_call =
  fixes call :: "'s rpc_client" and good :: "'s \<Rightarrow> bool"
  assumes call_keeps: "call meth params s = (r, s') \<Longrightarrow> good s \<Longrightarrow> good s'"
begin

definition keeps :: "('s, 'a) cli \<Rightarrow> bool" where
  "keeps m \<longleftrightarrow> (\<forall>s r s'. m s = (r, s') \<longrightarrow> good s \<longrightarrow> good s')"

lemma keeps_call [simp]: "keeps (call meth params)"
  using call_keeps by (auto simp: keeps_def)

lemma keeps_lift [simp]: "keeps (cli_lift r)"
  by (simp add: keeps_def cli_lift_def)

lemma keeps_do: "keeps m \<Longrightarrow> (\<And>a. keeps (f a)) \<Longrightarrow> keeps (cli_do m f)"
  unfolding keeps_def cli_do_def by (auto split: sum.splits prod.splits)

lemma keeps_submit: "keeps (cli_submit_tx V call W ty payload)"
  by (auto simp: cli_submit_tx_def Let_def intro!: keeps_do)

lemma keeps_send: "keeps (cli_send V call W ty payload)"
  by (auto simp: cli_send_def intro!: keeps_do keeps_submit)

lemma keeps_check: "keeps (check_balance V call cfg raw)"
  by (auto simp: check_balance_def intro!: keeps_do)

lemmas handlers = handle_transfer_cli_def handle_stake_cli_def handle_unstake_cli_def handle_claim_stake_cli_def
  handle_change_delegation_cli_def handle_register_agent_cli_def handle_transfer_token_cli_def
  handle_create_token_cli_def handle_approve_token_cli_def handle_burn_token_cli_def handle_deploy_contract_cli_def
  handle_call_contract_cli_def handle_register_service_cli_def handle_contract_cli_def handle_register_miner_cli_def
  handle_miner_heartbeat_cli_def handle_miner_checkin_cli_def

lemma keeps_command: "keeps (run_client C P V call W cmd)"
  by (cases cmd) (auto simp: cli_done_def handlers Let_def split: ContractAction.splits
    intro!: keeps_do keeps_send keeps_check)

end

text \<open>The RPC server keeps the ledger that its chain had at the start.\<close>

definition same_ledger :: "ChainInner \<Rightarrow> rpc_state \<Rightarrow> bool" where
  "same_ledger c s \<longleftrightarrow> ch_state (rp_chain s) = ch_state c \<and> ch_store (rp_chain s) = ch_store c
     \<and> ch_latest_block (rp_chain s) = ch_latest_block c"

lemma rpc_keeps_ledger:
  assumes "handle_rpc E V R req s = (resp, cmds, s')" and "same_ledger c s"
  shows "same_ledger c s'"
proof -
  obtain granted rates where adm: "admission R req s = (granted, rates)" by fastforce
  show ?thesis
  proof (cases granted)
    case True
    then obtain r where "dispatch_rpc E V R (rq_method req) (rq_params req) (s\<lparr>rp_view_rate := rates\<rparr>) = (r, cmds, s')"
      using handle_rpc_parts(2)[OF assms(1) adm] by blast
    from dispatch.keeps_ledger[OF this] show ?thesis using assms(2) by (simp add: same_ledger_def)
  next
    case False
    then show ?thesis using handle_rpc_parts(1)[OF assms(1) adm] assms(2) by (simp add: same_ledger_def)
  qed
qed

interpretation own_server: client_call "server_call E V R" "same_ledger c"
  for E V R c
  by unfold_locales (auto simp: server_call_def split: prod.splits option.splits elim: rpc_keeps_ledger)

text \<open>A client command changes nothing of the ledger of the node it talks to: blocks do.\<close>

lemma client_keeps_ledger:
  assumes "run_client C P V (server_call E V R) W cmd s = (r, s')"
  shows "same_ledger (rp_chain s) s'"
  using own_server.keeps_command[where c = "rp_chain s"] assms by (fastforce simp: own_server.keeps_def same_ledger_def)

section \<open>Keys\<close>

text \<open>What \<open>key import\<close> stored is what \<open>key export\<close> prints.\<close>

lemma imported_key_is_printed:
  assumes "crates_ok K" "inputs_ok I" and "run_key C K F I (KeyImport text) d = (Inr out, d')"
    and "ce_unhex C (trim text) = Inr sk" "length sk = 32"
    and "fs_can_read F' KEY_FILE" "read_password_env I' = read_password_env I"
  shows "fst (run_key C K F' I' KeyExport d') = Inr [''Address:     '' @ hex_enc K (public_key K sk), ''Private Key: '' @ hex_enc K sk]"
proof -
  obtain addr where "import_key K F I sk ''claw-devnet'' d = (Inr addr, d')"
    using assms(3,4)
    by (auto simp: key_import_cli_def config_result_def Let_def try_then_Inr split: if_splits prod.splits sum.splits)
  then have "export_key K F' I' d' = Inr (sk, public_key K sk)"
    by (intro import_writer.export_back[OF assms(1,2) _ assms(6,7), where r = addr and F = F and d = d and
        cid = "''claw-devnet''"]) (simp add: assms(5))
  then show ?thesis by (simp add: config_result_def)
qed

text \<open>No local command but \<open>init\<close>, \<open>key generate\<close>, \<open>key import\<close> and \<open>encrypt-key\<close> changes the disk.\<close>

lemma showing_changes_nothing:
  "cmd \<in> {CmdStatus, CmdKey KeyShow, CmdKey KeyExport} \<or> cmd = CmdGenesis network \<Longrightarrow> snd (run_local C P E K F I cmd d) = d"
  by auto

end
