(* ===== verification/Contract_Tool.thy ===== *)
theory Contract_Tool
  imports Commands
begin

text \<open>
  The tool of contract developers, \<open>src/tools/claw-contract\<close>: keys (\<open>key.rs\<close>), arguments (\<open>args.rs\<close>),
  transactions (\<open>tx.rs\<close>), its RPC client (\<open>rpc.rs\<close>) and the commands of \<open>main.rs\<close>.

  As for the client of the node, the node is a parameter \<open>call\<close>; \<open>wait\<close> is what happens to it while the
  tool sleeps between two questions. The disk is the one of \<open>Files\<close>, with paths as names. Borsh, the
  printer of WebAssembly text and the programs that the tool starts (cargo, wasm-opt, claw-node) are fields of
  \<open>tool_env\<close>. The templates of \<open>new\<close> are left out.
\<close>

section \<open>Errors and sequencing\<close>

datatype ToolError =
    KeyFileUnreadable string
  | KeyFileNotFound string
  | KeyLength nat
  | HexInvalid string
  | HexOddLength nat
  | WasmUnreadable string
  | RpcFailed string CliError
  | NoResult string
  | NoTxHash json
  | NotConfirmed u64 string
  | AddressLength nat
  | FieldMissing string
  | NoCargoToml
  | CargoTomlUnreadable
  | NoPackageName
  | ProcessNotRun string
  | ProcessFailed string
  | NoWasmOutput string
  | HashMismatch string string
  | WatFailed
  | WriteFailed string
  | RenameFailed
  | NoNodeBinary

type_synonym ('s, 'a) tool = "'s \<Rightarrow> (ToolError + 'a) \<times> 's"

definition tool_do :: "('s, 'a) tool \<Rightarrow> ('a \<Rightarrow> ('s, 'b) tool) \<Rightarrow> ('s, 'b) tool" where
  "tool_do m f s = (case m s of (Inl e, s') \<Rightarrow> (Inl e, s') | (Inr a, s') \<Rightarrow> f a s')"

definition tool_lift :: "ToolError + 'a \<Rightarrow> ('s, 'a) tool" where
  "tool_lift r s = (r, s)"

text \<open>The structures that the tool hands to Borsh, in the layout of the node's.\<close>

record ContractDeployPayloadBorsh =
  db_code :: bytes
  db_init_method :: string
  db_init_args :: bytes

record ContractCallPayloadBorsh =
  cb_contract :: address
  cb_method :: string
  cb_args :: bytes
  cb_value :: u128

record TransactionBorsh =
  xb_tx_type :: u8
  xb_from :: address
  xb_nonce :: u64
  xb_payload :: bytes
  xb_signature :: bytes

record tool_env =
  to_enc_deploy :: "ContractDeployPayloadBorsh \<Rightarrow> bytes"
  to_enc_call :: "ContractCallPayloadBorsh \<Rightarrow> bytes"
  to_enc_tx :: "TransactionBorsh \<Rightarrow> bytes"
  to_print_wat :: "bytes \<Rightarrow> string option"
  to_cargo_build :: "string \<Rightarrow> disk \<Rightarrow> bool option \<times> disk"
  to_wasm_opt :: "string \<Rightarrow> string \<Rightarrow> disk \<Rightarrow> bool option \<times> disk"
  to_can_rename :: bool
  to_run_node :: "string \<Rightarrow> string list \<Rightarrow> bool option"

section \<open>Keys and arguments\<close>

definition strip_0x :: "string \<Rightarrow> string" where
  "strip_0x s = (if take 2 s = ''0x'' then drop 2 s else s)"

definition parse_hex_key :: "cli_env \<Rightarrow> string \<Rightarrow> ToolError + bytes" where
  "parse_hex_key C hex_str =
     (let stripped = strip_0x hex_str in
      if length stripped \<noteq> 64 then Inl (KeyLength (length stripped))
      else case ce_unhex C stripped of
          Inl e \<Rightarrow> Inl (HexInvalid e)
        | Inr bs \<Rightarrow> if length bs \<noteq> 32 then Inl (KeyLength (length bs)) else Inr bs)"

definition load_signing_key :: "cli_env \<Rightarrow> fs_env \<Rightarrow> disk \<Rightarrow> string \<Rightarrow> ToolError + bytes" where
  "load_signing_key C F d input =
     (if fs_exists input d
      then (case fs_read_to_string F input d of
          None \<Rightarrow> Inl (KeyFileUnreadable input)
        | Some contents \<Rightarrow> parse_hex_key C (trim contents))
      else if CHR ''/'' \<in> set input \<or> CHR 0x5C \<in> set input then Inl (KeyFileNotFound input)
      else parse_hex_key C input)"

definition parse_hex_or_empty :: "cli_env \<Rightarrow> string \<Rightarrow> ToolError + bytes" where
  "parse_hex_or_empty C input =
     (let stripped = strip_0x input in
      if stripped = [] then Inr []
      else if length stripped mod 2 \<noteq> 0 then Inl (HexOddLength (length stripped))
      else case ce_unhex C stripped of Inl e \<Rightarrow> Inl (HexInvalid e) | Inr bs \<Rightarrow> Inr bs)"

section \<open>Transactions\<close>

datatype ToolTxType = ToolDeploy | ToolCall

fun tool_tx_u8 :: "ToolTxType \<Rightarrow> u8" where
  "tool_tx_u8 ToolDeploy = 6"
| "tool_tx_u8 ToolCall = 7"

record SignedTransaction =
  sg_tx_type :: ToolTxType
  sg_from :: address
  sg_nonce :: u64
  sg_payload :: bytes
  sg_signature :: bytes

definition encode_contract_deploy_payload :: "tool_env \<Rightarrow> bytes \<Rightarrow> string \<Rightarrow> bytes \<Rightarrow> bytes" where
  "encode_contract_deploy_payload T code init_method init_args =
     to_enc_deploy T \<lparr>db_code = code, db_init_method = init_method, db_init_args = init_args\<rparr>"

definition encode_contract_call_payload :: "tool_env \<Rightarrow> address \<Rightarrow> string \<Rightarrow> bytes \<Rightarrow> u128 \<Rightarrow> bytes" where
  "encode_contract_call_payload T contract meth args val =
     to_enc_call T \<lparr>cb_contract = contract, cb_method = meth, cb_args = args, cb_value = val\<rparr>"

definition tool_derive_contract_address :: "node_env \<Rightarrow> address \<Rightarrow> u64 \<Rightarrow> address" where
  "tool_derive_contract_address V deployer nonce =
     blake3 (ne_ext V) (string_bytes ''claw_contract_v1:'' @ deployer @ to_le_bytes nonce)"

definition build_and_sign_transaction :: "node_env \<Rightarrow> ToolTxType \<Rightarrow> signing_key \<Rightarrow> u64 \<Rightarrow> bytes \<Rightarrow> SignedTransaction" where
  "build_and_sign_transaction V ty key nonce payload =
     (let from = verifying_key V key;
          signable = [tool_tx_u8 ty] @ from @ to_le_bytes nonce @ payload in
      \<lparr>sg_tx_type = ty, sg_from = from, sg_nonce = nonce, sg_payload = payload, sg_signature = sign V key signable\<rparr>)"

definition serialize_transaction_for_rpc :: "tool_env \<Rightarrow> SignedTransaction \<Rightarrow> bytes" where
  "serialize_transaction_for_rpc T tx =
     to_enc_tx T \<lparr>xb_tx_type = tool_tx_u8 (sg_tx_type tx), xb_from = sg_from tx, xb_nonce = sg_nonce tx,
       xb_payload = sg_payload tx, xb_signature = sg_signature tx\<rparr>"

section \<open>The RPC client\<close>

text \<open>A response without a result and one with the result \<open>null\<close> are the same to the tool.\<close>

definition body_result :: "json \<Rightarrow> json option" where
  "body_result j = (if j = JNull then None else Some j)"

definition tool_rpc :: "'s rpc_client \<Rightarrow> string \<Rightarrow> json list \<Rightarrow> ('s, json option) tool" where
  "tool_rpc call meth params s = (case call meth params s of
      (Inl e, s') \<Rightarrow> (Inl (RpcFailed meth e), s')
    | (Inr j, s') \<Rightarrow> (Inr (body_result j), s'))"

definition fetch_nonce :: "'s rpc_client \<Rightarrow> string \<Rightarrow> ('s, u64) tool" where
  "fetch_nonce call pubkey_hex =
     tool_do (tool_rpc call ''claw_getNonce'' [JStr pubkey_hex]) (\<lambda>r.
     tool_lift (Inr (or_default 0 (Option.bind r as_u64))))"

definition hash_of_answer :: "cli_env \<Rightarrow> json option \<Rightarrow> ToolError + string" where
  "hash_of_answer C r = (case r of
      None \<Rightarrow> Inl (NoResult ''submit_transaction'')
    | Some result \<Rightarrow> (case as_text result of
        Some s \<Rightarrow> Inr s
      | None \<Rightarrow> (case Option.bind (json_get C result ''hash'') as_text of
          Some h \<Rightarrow> Inr h
        | None \<Rightarrow> Inl (NoTxHash result))))"

definition submit_transaction ::
  "cli_env \<Rightarrow> tool_env \<Rightarrow> node_env \<Rightarrow> 's rpc_client \<Rightarrow> SignedTransaction \<Rightarrow> ('s, string) tool" where
  "submit_transaction C T V call tx =
     tool_do (tool_rpc call ''claw_sendTransaction'' [JStr (hex_encode (ne_ext V) (serialize_transaction_for_rpc T tx))])
       (\<lambda>r. tool_lift (hash_of_answer C r))"

definition confirmed :: "cli_env \<Rightarrow> json \<Rightarrow> bool" where
  "confirmed C j \<longleftrightarrow> (case body_result j of
      None \<Rightarrow> False
    | Some data \<Rightarrow> json_get C data ''block_height'' \<noteq> None
        \<or> Option.bind (json_get C data ''status'') as_text = Some ''confirmed'')"

fun poll_attempts :: "cli_env \<Rightarrow> 's rpc_client \<Rightarrow> (nat \<Rightarrow> 's \<Rightarrow> 's) \<Rightarrow> string \<Rightarrow> nat \<Rightarrow> 's \<Rightarrow> bool \<times> 's" where
  "poll_attempts C call wait hash_hex 0 s = (False, s)"
| "poll_attempts C call wait hash_hex (Suc n) s =
     (case call ''claw_getTransactionByHash'' [JStr hash_hex] (wait n s) of
        (Inr j, s') \<Rightarrow> if confirmed C j then (True, s') else poll_attempts C call wait hash_hex n s'
      | (Inl _, s') \<Rightarrow> poll_attempts C call wait hash_hex n s')"

definition poll_confirmation ::
  "cli_env \<Rightarrow> 's rpc_client \<Rightarrow> (nat \<Rightarrow> 's \<Rightarrow> 's) \<Rightarrow> string \<Rightarrow> u64 \<Rightarrow> ('s, unit) tool" where
  "poll_confirmation C call wait hash_hex max_seconds s =
     (case poll_attempts C call wait hash_hex (unat (max_seconds div 2)) s of
        (found, s') \<Rightarrow> (if found then Inr () else Inl (NotConfirmed max_seconds hash_hex), s'))"

record ContractInfo =
  nf_address :: string
  nf_code_hash :: string
  nf_creator :: string
  nf_deployed_at :: u64

definition contract_info_of :: "cli_env \<Rightarrow> string \<Rightarrow> json option \<Rightarrow> ToolError + ContractInfo" where
  "contract_info_of C address_hex r = (case r of
      None \<Rightarrow> Inl (NoResult ''claw_getContractInfo'')
    | Some result \<Rightarrow> (case Option.bind (json_get C result ''codeHash'') as_text of
        None \<Rightarrow> Inl (FieldMissing ''codeHash'')
      | Some code_hash \<Rightarrow>
          Inr \<lparr>nf_address = or_default address_hex (Option.bind (json_get C result ''address'') as_text),
            nf_code_hash = code_hash, nf_creator = or_default [] (Option.bind (json_get C result ''creator'') as_text),
            nf_deployed_at = or_default 0 (Option.bind (json_get C result ''deployedAt'') as_u64)\<rparr>))"

definition fetch_contract_info :: "cli_env \<Rightarrow> 's rpc_client \<Rightarrow> string \<Rightarrow> ('s, ContractInfo) tool" where
  "fetch_contract_info C call address_hex =
     tool_do (tool_rpc call ''claw_getContractInfo'' [JStr address_hex]) (\<lambda>r. tool_lift (contract_info_of C address_hex r))"

definition code_of_answer :: "cli_env \<Rightarrow> json option \<Rightarrow> ToolError + bytes" where
  "code_of_answer C r = (case r of
      None \<Rightarrow> Inl (NoResult ''claw_getContractCode'')
    | Some result \<Rightarrow> (case Option.bind (json_get C result ''code'') as_text of
        None \<Rightarrow> Inl (FieldMissing ''code'')
      | Some code_hex \<Rightarrow> (case ce_unhex C code_hex of Inl e \<Rightarrow> Inl (HexInvalid e) | Inr bs \<Rightarrow> Inr bs)))"

definition fetch_contract_code :: "cli_env \<Rightarrow> 's rpc_client \<Rightarrow> string \<Rightarrow> ('s, bytes) tool" where
  "fetch_contract_code C call address_hex =
     tool_do (tool_rpc call ''claw_getContractCode'' [JStr address_hex]) (\<lambda>r. tool_lift (code_of_answer C r))"

section \<open>Deploying and calling\<close>

definition send_and_wait ::
  "cli_env \<Rightarrow> tool_env \<Rightarrow> node_env \<Rightarrow> 's rpc_client \<Rightarrow> (nat \<Rightarrow> 's \<Rightarrow> 's) \<Rightarrow> ToolTxType \<Rightarrow> signing_key \<Rightarrow> bytes
   \<Rightarrow> ('s, SignedTransaction) tool" where
  "send_and_wait C T V call wait ty key payload =
     tool_do (fetch_nonce call (hex_encode (ne_ext V) (verifying_key V key))) (\<lambda>nonce.
     let signed = build_and_sign_transaction V ty key (nonce + 1) payload in
     tool_do (submit_transaction C T V call signed) (\<lambda>tx_hash.
     tool_do (poll_confirmation C call wait tx_hash 30) (\<lambda>_.
     tool_lift (Inr signed))))"

definition cmd_deploy ::
  "cli_env \<Rightarrow> tool_env \<Rightarrow> node_env \<Rightarrow> fs_env \<Rightarrow> 's rpc_client \<Rightarrow> (nat \<Rightarrow> 's \<Rightarrow> 's) \<Rightarrow> disk \<Rightarrow> string \<Rightarrow> string \<Rightarrow> string \<Rightarrow> string
   \<Rightarrow> ('s, address) tool" where
  "cmd_deploy C T V F call wait d wasm_file meth args_hex key_input =
     tool_do (tool_lift (ok_or (WasmUnreadable wasm_file) (fs_read F wasm_file d))) (\<lambda>code.
     tool_do (tool_lift (parse_hex_or_empty C args_hex)) (\<lambda>init_args.
     tool_do (tool_lift (load_signing_key C F d key_input)) (\<lambda>key.
     tool_do (send_and_wait C T V call wait ToolDeploy key (encode_contract_deploy_payload T code meth init_args)) (\<lambda>signed.
     tool_lift (Inr (tool_derive_contract_address V (sg_from signed) (sg_nonce signed)))))))"

definition contract_of_hex :: "cli_env \<Rightarrow> string \<Rightarrow> ToolError + address" where
  "contract_of_hex C contract_hex = (case ce_unhex C (strip_0x contract_hex) of
      Inl e \<Rightarrow> Inl (HexInvalid e)
    | Inr bs \<Rightarrow> if length bs \<noteq> 32 then Inl (AddressLength (length bs)) else Inr bs)"

definition cmd_call ::
  "cli_env \<Rightarrow> tool_env \<Rightarrow> node_env \<Rightarrow> fs_env \<Rightarrow> 's rpc_client \<Rightarrow> (nat \<Rightarrow> 's \<Rightarrow> 's) \<Rightarrow> disk \<Rightarrow> string \<Rightarrow> string \<Rightarrow> string \<Rightarrow> u128
   \<Rightarrow> string \<Rightarrow> ('s, unit) tool" where
  "cmd_call C T V F call wait d contract_hex meth args_hex val key_input =
     tool_do (tool_lift (contract_of_hex C contract_hex)) (\<lambda>contract.
     tool_do (tool_lift (parse_hex_or_empty C args_hex)) (\<lambda>call_args.
     tool_do (tool_lift (load_signing_key C F d key_input)) (\<lambda>key.
     tool_do (send_and_wait C T V call wait ToolCall key (encode_contract_call_payload T contract meth call_args val)) (\<lambda>_.
     tool_lift (Inr ())))))"

section \<open>Building and verifying\<close>

text \<open>\<open>str::lines\<close>: no line after the last line feed, and no carriage return at the end of a line.\<close>

fun lines_of :: "string \<Rightarrow> string \<Rightarrow> string list" where
  "lines_of line [] = (if line = [] then [] else [rev line])"
| "lines_of line (c # cs) =
     (if c = CHR 0x0A
      then rev (if line \<noteq> [] \<and> hd line = CHR 0x0D then tl line else line) # lines_of [] cs
      else lines_of (c # line) cs)"

definition trim_quotes :: "string \<Rightarrow> string" where
  "trim_quotes s = rev (dropWhile (\<lambda>c. c = CHR 0x22) (rev (dropWhile (\<lambda>c. c = CHR 0x22) s)))"

definition name_of_line :: "string \<Rightarrow> string option" where
  "name_of_line line =
     (let trimmed = trim line in
      if take 4 trimmed = ''name''
      then (let rest = trim (drop 4 trimmed) in
            if take 1 rest = ''=''
            then (let name = trim_quotes (trim (drop 1 rest)) in if name \<noteq> [] then Some name else None)
            else None)
      else None)"

fun first_name :: "string list \<Rightarrow> string option" where
  "first_name [] = None"
| "first_name (l # ls) = (case name_of_line l of Some n \<Rightarrow> Some n | None \<Rightarrow> first_name ls)"

definition extract_package_name :: "string \<Rightarrow> string option" where
  "extract_package_name cargo_toml = first_name (lines_of [] cargo_toml)"

definition wasm_path_of :: "string \<Rightarrow> string" where
  "wasm_path_of pkg_name = ''target/wasm32-unknown-unknown/release/''
     @ map (\<lambda>c. if c = CHR ''-'' then CHR ''_'' else c) pkg_name @ ''.wasm''"

definition package_of :: "fs_env \<Rightarrow> string \<Rightarrow> disk \<Rightarrow> ToolError + string" where
  "package_of F cargo_toml d =
     (if \<not> fs_exists cargo_toml d then Inl NoCargoToml
      else try_then (ok_or CargoTomlUnreadable (fs_read_to_string F cargo_toml d)) (\<lambda>text.
        ok_or NoPackageName (extract_package_name text)))"

definition cargo_build :: "tool_env \<Rightarrow> string \<Rightarrow> disk \<Rightarrow> (ToolError + unit) \<times> disk" where
  "cargo_build T dir d = (case to_cargo_build T dir d of
      (None, d') \<Rightarrow> (Inl (ProcessNotRun ''cargo build''), d')
    | (Some success, d') \<Rightarrow> (if success then Inr () else Inl (ProcessFailed ''cargo build''), d'))"

text \<open>A missing or failing optimiser is a warning; the file is replaced only by a finished result.\<close>

definition run_wasm_opt :: "tool_env \<Rightarrow> string \<Rightarrow> disk \<Rightarrow> (ToolError + unit) \<times> disk" where
  "run_wasm_opt T wasm_path d =
     (let optimized_path = wasm_path @ ''.opt'' in
      case to_wasm_opt T wasm_path optimized_path d of
        (Some True, d') \<Rightarrow>
          if to_can_rename T \<and> fs_exists optimized_path d'
          then (Inr (), d'(wasm_path := d' optimized_path, optimized_path := None)) else (Inl RenameFailed, d')
      | (Some False, d') \<Rightarrow> (Inr (), d'(optimized_path := None))
      | (None, d') \<Rightarrow> (Inr (), d'))"

definition cmd_build :: "tool_env \<Rightarrow> fs_env \<Rightarrow> bool \<Rightarrow> disk \<Rightarrow> (ToolError + string) \<times> disk" where
  "cmd_build T F optimize d = (case package_of F ''Cargo.toml'' d of
      Inl e \<Rightarrow> (Inl e, d)
    | Inr pkg_name \<Rightarrow> (case cargo_build T ''.'' d of
        (Inl e, d1) \<Rightarrow> (Inl e, d1)
      | (Inr _, d1) \<Rightarrow>
          (let wasm_path = wasm_path_of pkg_name in
           if optimize
           then (case run_wasm_opt T wasm_path d1 of (r, d2) \<Rightarrow> (try_then r (\<lambda>_. Inr wasm_path), d2))
           else (Inr wasm_path, d1))))"

definition path_join :: "string \<Rightarrow> string \<Rightarrow> string" where
  "path_join dir file = dir @ ''/'' @ file"

definition compare_hashes :: "string \<Rightarrow> ContractInfo \<Rightarrow> ToolError + ContractInfo" where
  "compare_hashes local_hash_hex info =
     (if local_hash_hex = nf_code_hash info then Inr info else Inl (HashMismatch local_hash_hex (nf_code_hash info)))"

definition cmd_verify ::
  "cli_env \<Rightarrow> tool_env \<Rightarrow> node_env \<Rightarrow> fs_env \<Rightarrow> 's rpc_client \<Rightarrow> string \<Rightarrow> string \<Rightarrow> disk
   \<Rightarrow> disk \<times> ('s, ContractInfo) tool" where
  "cmd_verify C T V F call contract_hex source_dir d = (case package_of F (path_join source_dir ''Cargo.toml'') d of
      Inl e \<Rightarrow> (d, tool_lift (Inl e))
    | Inr pkg_name \<Rightarrow> (case cargo_build T source_dir d of
        (Inl e, d1) \<Rightarrow> (d1, tool_lift (Inl e))
      | (Inr _, d1) \<Rightarrow>
          (let wasm_path = path_join source_dir (wasm_path_of pkg_name) in
           (d1, if \<not> fs_exists wasm_path d1 then tool_lift (Inl (NoWasmOutput wasm_path))
             else tool_do (tool_lift (ok_or (WasmUnreadable wasm_path) (fs_read F wasm_path d1))) (\<lambda>wasm_bytes.
               tool_do (fetch_contract_info C call (strip_0x contract_hex)) (\<lambda>info.
               tool_lift (compare_hashes (hex_encode (ne_ext V) (blake3 (ne_ext V) wasm_bytes)) info)))))))"

definition cmd_disassemble ::
  "cli_env \<Rightarrow> tool_env \<Rightarrow> fs_env \<Rightarrow> 's rpc_client \<Rightarrow> string \<Rightarrow> disk \<Rightarrow> ('s, string) tool" where
  "cmd_disassemble C T F call target d =
     tool_do (if fs_exists target d then tool_lift (ok_or (WasmUnreadable target) (fs_read F target d))
              else fetch_contract_code C call (strip_0x target)) (\<lambda>wasm_bytes.
     tool_lift (ok_or WatFailed (to_print_wat T wasm_bytes)))"

definition write_wat :: "fs_env \<Rightarrow> string option \<Rightarrow> string \<Rightarrow> disk \<Rightarrow> (ToolError + unit) \<times> disk" where
  "write_wat F output wat d = (case output of
      None \<Rightarrow> (Inr (), d)
    | Some path \<Rightarrow> (case fs_write F path (string_bytes wat) d of
        (True, d') \<Rightarrow> (Inr (), d')
      | (False, d') \<Rightarrow> (Inl (WriteFailed path), d')))"

section \<open>The local node\<close>

fun first_existing :: "disk \<Rightarrow> string list \<Rightarrow> string option" where
  "first_existing d [] = None"
| "first_existing d (p # ps) = (if fs_exists p d then Some p else first_existing d ps)"

fun split_on :: "char \<Rightarrow> string \<Rightarrow> string \<Rightarrow> string list" where
  "split_on sep part [] = [rev part]"
| "split_on sep part (c # cs) = (if c = sep then rev part # split_on sep [] cs else split_on sep (c # part) cs)"

definition which_claw_node :: "string option \<Rightarrow> disk \<Rightarrow> string option" where
  "which_claw_node path_env d = (case path_env of
      None \<Rightarrow> None
    | Some path \<Rightarrow> first_existing d (map (\<lambda>dir. path_join dir ''claw-node'') (split_on (CHR '':'') [] path)))"

definition find_claw_node_binary :: "string option \<Rightarrow> disk \<Rightarrow> string option" where
  "find_claw_node_binary path_env d =
     (case first_existing d [''../../claw-node/target/release/claw-node'', ''claw-node/target/release/claw-node'', ''claw-node''] of
        Some p \<Rightarrow> Some p
      | None \<Rightarrow> which_claw_node path_env d)"

definition cmd_devnet :: "tool_env \<Rightarrow> string option \<Rightarrow> disk \<Rightarrow> ToolError + unit" where
  "cmd_devnet T path_env d = (case find_claw_node_binary path_env d of
      None \<Rightarrow> Inl NoNodeBinary
    | Some bin \<Rightarrow> (case to_run_node T bin [''--network'', ''devnet'', ''--single''] of
        None \<Rightarrow> Inl (ProcessNotRun bin)
      | Some success \<Rightarrow> if success then Inr () else Inl (ProcessFailed ''claw-node'')))"

end
