(* ===== verification/Tool_Safety.thy ===== *)
theory Tool_Safety
  imports Contract_Tool
begin

text \<open>
  The tool of contract developers against the node of this repository: it signs as the node's own
  client does, and its transactions arrive; but it waits for a field that the node calls otherwise, so that
  every deployment and every call ends in an error, and the address it would show is not the one of the contract.
\<close>

section \<open>Transactions\<close>

fun node_type :: "ToolTxType \<Rightarrow> TxType" where
  "node_type ToolDeploy = ContractDeploy"
| "node_type ToolCall = ContractCall"

definition as_node_tx :: "SignedTransaction \<Rightarrow> Transaction" where
  "as_node_tx tx = \<lparr>tx_type = node_type (sg_tx_type tx), tx_from = sg_from tx, tx_nonce = sg_nonce tx,
     tx_payload = sg_payload tx, tx_signature = sg_signature tx\<rparr>"

lemma node_type_u8 [simp]: "tx_type_u8 (node_type ty) = tool_tx_u8 ty"
  by (cases ty) simp_all

text \<open>The tool signs what the node's signer signs.\<close>

lemma tool_signs_as_node:
  "as_node_tx (build_and_sign_transaction V ty key nonce payload)
   = sign_transaction V \<lparr>tx_type = node_type ty, tx_from = anybody, tx_nonce = nonce, tx_payload = payload,
       tx_signature = anything\<rparr> key"
  by (simp add: as_node_tx_def build_and_sign_transaction_def sign_transaction_def tx_signable_bytes_def Let_def)

lemma tool_derives_as_node: "tool_derive_contract_address V a n = derive_contract_address (ne_ext V) a n"
  by (simp add: tool_derive_contract_address_def derive_contract_address_def)

text \<open>What the tool and the server must agree on.\<close>

definition tool_speaks :: "json list rpc_env \<Rightarrow> tool_env \<Rightarrow> node_env \<Rightarrow> SignedTransaction \<Rightarrow> bool" where
  "tool_speaks E T V tx \<longleftrightarrow> (\<forall>h. re_param_str E [JStr h] 0 = Some h)
     \<and> (\<forall>bs. re_unhex E (hex_encode (ne_ext V) bs) = Inr bs)
     \<and> re_dec_tx E (serialize_transaction_for_rpc T tx) = Inr (as_node_tx tx)"

lemma word_result [simp]: "body_result (j_word n) = Some (j_word n)"
  by (simp add: body_result_def j_word_def)

lemma tool_reaches_mempool:
  assumes "tx = build_and_sign_transaction V ty key (get_nonce (ch_state (rp_chain s)) (verifying_key V key) + 1) payload"
    and "tool_speaks E T V tx" and "takes V (rp_chain s) (as_node_tx tx)" and "length (verifying_key V key) = 32"
  shows "fetch_nonce (server_call E V R) (hex_encode (ne_ext V) (verifying_key V key)) s
      = (Inr (get_nonce (ch_state (rp_chain s)) (verifying_key V key)), s)"
    and "submit_transaction C T V (server_call E V R) tx s = (Inr (hex_encode (ne_ext V) (tx_hash (ne_ext V) (as_node_tx tx))),
      s\<lparr>rp_chain := (rp_chain s)\<lparr>ch_mempool := ch_mempool (rp_chain s) @ [as_node_tx tx]\<rparr>\<rparr>)"
proof -
  have "rpc_parse_address E [JStr (hex_encode (ne_ext V) (verifying_key V key))] 0 = Inr (verifying_key V key)"
    using assms(2,4) by (simp add: tool_speaks_def rpc_parse_address_def)
  from server_nonce[OF this] show "fetch_nonce (server_call E V R) (hex_encode (ne_ext V) (verifying_key V key)) s
      = (Inr (get_nonce (ch_state (rp_chain s)) (verifying_key V key)), s)"
    by (simp add: fetch_nonce_def tool_do_def tool_rpc_def tool_lift_def or_default_def)
  have "tx_from (as_node_tx tx) = verifying_key V key"
    "tx_nonce (as_node_tx tx) = get_nonce (ch_state (rp_chain s)) (verifying_key V key) + 1"
    using assms(1) by (simp_all add: as_node_tx_def build_and_sign_transaction_def Let_def)
  then have "submit_tx V (as_node_tx tx) (rp_chain s) = (Inr (tx_hash (ne_ext V) (as_node_tx tx)),
      (rp_chain s)\<lparr>ch_mempool := ch_mempool (rp_chain s) @ [as_node_tx tx]\<rparr>)"
    using assms(3) by (auto simp: submit_tx_def takes_def Let_def)
  then have "server_call E V R ''claw_sendTransaction''
      [JStr (hex_encode (ne_ext V) (serialize_transaction_for_rpc T tx))] s
      = (Inr (j_hex V (tx_hash (ne_ext V) (as_node_tx tx))),
         s\<lparr>rp_chain := (rp_chain s)\<lparr>ch_mempool := ch_mempool (rp_chain s) @ [as_node_tx tx]\<rparr>\<rparr>)"
    using assms(2) by (intro server_send) (auto simp: tool_speaks_def)
  then show "submit_transaction C T V (server_call E V R) tx s
      = (Inr (hex_encode (ne_ext V) (tx_hash (ne_ext V) (as_node_tx tx))),
         s\<lparr>rp_chain := (rp_chain s)\<lparr>ch_mempool := ch_mempool (rp_chain s) @ [as_node_tx tx]\<rparr>\<rparr>)"
    by (simp add: submit_transaction_def tool_do_def tool_rpc_def tool_lift_def body_result_def hash_of_answer_def j_hex_def)
qed

section \<open>Confirmations\<close>

text \<open>The node never answers with the field the tool looks for.\<close>

lemma answer_unconfirmed:
  assumes "server_call E V R ''claw_getTransactionByHash'' params s = (Inr j, s')"
  shows "\<not> confirmed C j" and "s' = s"
proof -
  have r: "dispatch_rpc E V R ''claw_getTransactionByHash'' params (s\<lparr>rp_view_rate := rp_view_rate s\<rparr>)
      = (rpc_transaction_by_hash E V (ri_node R) (rp_chain s) params, [], s)"
    by (simp add: dispatch_rpc_def query_table_def)
  show "s' = s"
    using assms r by (auto simp: server_call_def handle_rpc_def split: option.splits)
  show "\<not> confirmed C j"
    using assms r
    by (auto simp: server_call_def handle_rpc_def finish_rpc_def rpc_ok_def rpc_err_def or_default_def
      rpc_transaction_by_hash_def try_then_def confirmed_def body_result_def j_opt_def tx_summary_def Let_def
      split: option.splits sum.splits prod.splits if_splits)
qed

lemma answer_error:
  assumes "server_call E V R ''claw_getTransactionByHash'' params s = (Inl e, s')"
  shows "s' = s"
  using assms
  by (auto simp: server_call_def handle_rpc_def dispatch_rpc_def query_table_def split: option.splits)

fun asleep :: "(nat \<Rightarrow> 's \<Rightarrow> 's) \<Rightarrow> nat \<Rightarrow> 's \<Rightarrow> 's" where
  "asleep wait 0 s = s"
| "asleep wait (Suc n) s = asleep wait n (wait n s)"

lemma poll_never_confirms: "poll_attempts C (server_call E V R) wait h n s = (False, asleep wait n s)"
proof (induction n arbitrary: s)
  case (Suc n)
  obtain r s' where c: "server_call E V R ''claw_getTransactionByHash'' [JStr h] (wait n s) = (r, s')" by force
  show ?case
  proof (cases r)
    case (Inl e)
    then have "s' = wait n s" using answer_error c by blast
    then show ?thesis using Suc Inl by (simp add: c)
  next
    case (Inr j)
    then show ?thesis using Suc answer_unconfirmed[of E V R "[JStr h]" "wait n s" j s'] c by (simp add: c)
  qed
qed simp

text \<open>
  C27. The tool never reports a deployment: with the node of this repository, whatever happens to the
  node while the tool waits (also when the contract is deployed), a deployment whose arguments and key
  are right puts the signed transaction into the mempool and then, after fifteen questions, fails as
  unconfirmed: the tool looks for \<open>block_height\<close>, the node answers \<open>blockHeight\<close>.
\<close>

theorem tool_deploy_never_confirmed:
  assumes "fs_read F wasm_file d = Some code" and "parse_hex_or_empty C args_hex = Inr init_args"
    and "load_signing_key C F d key_input = Inr key" and "length (verifying_key V key) = 32"
    and "tx = build_and_sign_transaction V ToolDeploy key
      (get_nonce (ch_state (rp_chain s)) (verifying_key V key) + 1) (encode_contract_deploy_payload T code meth init_args)"
    and "tool_speaks E T V tx" and "takes V (rp_chain s) (as_node_tx tx)"
  shows "cmd_deploy C T V F (server_call E V R) wait d wasm_file meth args_hex key_input s =
    (Inl (NotConfirmed 30 (hex_encode (ne_ext V) (tx_hash (ne_ext V) (as_node_tx tx)))),
     asleep wait 15 (s\<lparr>rp_chain := (rp_chain s)\<lparr>ch_mempool := ch_mempool (rp_chain s) @ [as_node_tx tx]\<rparr>\<rparr>))"
proof -
  note steps = tool_reaches_mempool[OF assms(5-7,4)]
  show ?thesis
    using assms(1-3) steps(1)[where R = R] steps(2)[where R = R and C = C]
    unfolding assms(5)
    by (simp add: cmd_deploy_def send_and_wait_def tool_do_def tool_lift_def poll_confirmation_def poll_never_confirms Let_def)
qed

text \<open>A developer deploys a file to the demonstration node, which does nothing while the tool waits.\<close>

definition demo_developer :: cli_env where
  "demo_developer = demo_cli\<lparr>ce_unhex := (\<lambda>s. Inr (replicate (length s div 2) 5))\<rparr>"

definition demo_tool :: tool_env where
  "demo_tool = \<lparr>to_enc_deploy = db_code, to_enc_call = cb_args,
     to_enc_tx = (\<lambda>x. to_le_bytes (xb_nonce x)), to_print_wat = (\<lambda>_. None), to_cargo_build = (\<lambda>_ d. (None, d)),
     to_wasm_opt = (\<lambda>_ _ d. (None, d)), to_can_rename = True, to_run_node = (\<lambda>_ _. None)\<rparr>"

definition demo_project :: disk where
  "demo_project = [''c.wasm'' \<mapsto> \<lparr>fl_content = [0], fl_mode = 0\<rparr>]"

theorem tool_deploy_never_confirmed_witness:
  "\<exists>tx. tx_nonce tx = 1 \<and> cmd_deploy demo_developer demo_tool demo_hex_env demo_fs
      (server_call (demo_rpc_for tx) demo_hex_env (demo_at 0)) (\<lambda>_ s. s) demo_project ''c.wasm'' ''init'' ''0x''
      (replicate 64 CHR ''a'') demo_idle
    = (Inl (NotConfirmed 30 (hex_encode (ne_ext demo_hex_env) (tx_hash (ne_ext demo_hex_env) tx))),
       demo_idle\<lparr>rp_chain := demo_node\<lparr>ch_mempool := [tx]\<rparr>\<rparr>)"
proof -
  let ?V = demo_hex_env
  define tx where "tx = build_and_sign_transaction ?V ToolDeploy (replicate 32 5)
    (get_nonce (ch_state (rp_chain demo_idle)) (verifying_key ?V (replicate 32 5)) + 1) (encode_contract_deploy_payload demo_tool [0] ''init'' [])"
  note env = demo_hex_env_def demo_env_def demo_base_def transfer_externals_def sample_externals_def
  have code: "fs_read demo_fs ''c.wasm'' demo_project = Some [0]"
    by (simp add: fs_read_def demo_fs_def demo_project_def)
  have args: "parse_hex_or_empty demo_developer ''0x'' = Inr []"
    by (simp add: parse_hex_or_empty_def strip_0x_def)
  have key: "load_signing_key demo_developer demo_fs demo_project (replicate 64 CHR ''a'') = Inr (replicate 32 5)"
  proof -
    have "strip_0x (replicate 64 CHR ''a'') = replicate 64 CHR ''a''" "replicate 64 CHR ''a'' \<noteq> ''c.wasm''"
      by (simp_all add: strip_0x_def numeral_eq_Suc)
    then show ?thesis
      by (simp add: load_signing_key_def parse_hex_key_def fs_exists_def demo_project_def demo_developer_def)
  qed
  have pk: "length (verifying_key ?V (replicate 32 5)) = 32" by (simp add: env)
  have speaks: "tool_speaks (demo_rpc_for (as_node_tx tx)) demo_tool ?V tx"
    by (simp add: tool_speaks_def demo_rpc_for_def demo_hex_env_def)
  have takes: "takes ?V (rp_chain demo_idle) (as_node_tx tx)"
    by (simp add: takes_def demo_idle_def demo_server_def verify_transaction_def env MAX_MEMPOOL_SIZE_def)
  have nonce: "tx_nonce (as_node_tx tx) = 1"
    by (simp add: as_node_tx_def tx_def build_and_sign_transaction_def demo_idle_def demo_server_def demo_node_def
      funded_world_def WorldState_default_def get_nonce_def Let_def)
  have idle: "asleep (\<lambda>_ s. s) n s = s" for n and s :: rpc_state by (induction n) simp_all
  have pool: "ch_mempool (rp_chain demo_idle) = []" "(rp_chain demo_idle)\<lparr>ch_mempool := [as_node_tx tx]\<rparr>
      = demo_node\<lparr>ch_mempool := [as_node_tx tx]\<rparr>"
    by (simp_all add: demo_idle_def)
  show ?thesis
    using tool_deploy_never_confirmed[OF code args key pk tx_def speaks takes, of "demo_at 0" "\<lambda>_ s. s"] nonce
    by (intro exI[of _ "as_node_tx tx"]) (simp add: idle pool)
qed

section \<open>The address\<close>

text \<open>
  A deployment is registered under the nonce that the sender had before it, while the tool derives
  the address from the nonce of the transaction, one more.
\<close>

lemma deploy_registers:
  assumes "handle_contract_deploy E i w tx = (Inr r, w')"
  shows "contracts w' = bt_insert (derive_contract_address E (tx_from tx) (get_nonce w (tx_from tx)))
     (the (bt_get (contracts w') (derive_contract_address E (tx_from tx) (get_nonce w (tx_from tx))))) (contracts w)"
  using assms
  by (auto simp: handle_contract_deploy_def get_nonce_def register_contract_def Let_def split: contract_splits)

lemma deployed_address:
  assumes "tx_type tx = ContractDeploy" and "apply_tx E i w tx = (Inr r, w')"
  shows "\<exists>inst. contracts w' = bt_insert (derive_contract_address E (tx_from tx) (tx_nonce tx - 1)) inst (contracts w)"
proof -
  have n: "tx_nonce tx - 1 = get_nonce w (tx_from tx)"
    using assms(2) by (auto simp: apply_tx_def get_nonce_def Let_def split: if_splits)
  obtain r1 w1 where d: "handle_contract_deploy E i (debit (tx_from tx) GAS_FEE w) tx = (Inr r1, w1)"
    and w': "contracts w' = contracts w1"
    using assms
    by (auto simp: apply_tx_def dispatch_def handler_for_def with_receipt_def gas_free_def record_success_def count_activity_def
      Let_def split: if_splits prod.splits sum.splits)
  have "get_nonce (debit (tx_from tx) GAS_FEE w) (tx_from tx) = get_nonce w (tx_from tx)"
    "contracts (debit (tx_from tx) GAS_FEE w) = contracts w"
    by (simp_all add: debit_def get_nonce_def)
  then show ?thesis using deploy_registers[OF d] by (simp add: w' n) blast
qed

text \<open>
  The tool shows the address of the nonce after the one of the contract. Unless the two hashes collide,
  there is no contract at the address it shows.
\<close>

lemma tool_shows_another_address:
  assumes "apply_tx (ne_ext V) i w (as_node_tx stx) = (Inr r, w')" and "sg_tx_type stx = ToolDeploy"
    and "tool_derive_contract_address V (sg_from stx) (sg_nonce stx)
      \<noteq> tool_derive_contract_address V (sg_from stx) (sg_nonce stx - 1)"
  shows "bt_contains (contracts w') (tool_derive_contract_address V (sg_from stx) (sg_nonce stx - 1))"
    and "bt_get (contracts w') (tool_derive_contract_address V (sg_from stx) (sg_nonce stx))
      = bt_get (contracts w) (tool_derive_contract_address V (sg_from stx) (sg_nonce stx))"
proof -
  have "tx_type (as_node_tx stx) = ContractDeploy" "tx_from (as_node_tx stx) = sg_from stx"
    "tx_nonce (as_node_tx stx) = sg_nonce stx"
    using assms(2) by (simp_all add: as_node_tx_def)
  then obtain inst where c: "contracts w' = bt_insert (tool_derive_contract_address V (sg_from stx) (sg_nonce stx - 1))
      inst (contracts w)"
    using deployed_address[OF _ assms(1)] by (auto simp: tool_derives_as_node)
  show "bt_contains (contracts w') (tool_derive_contract_address V (sg_from stx) (sg_nonce stx - 1))"
    by (simp add: c bt_contains_def)
  show "bt_get (contracts w') (tool_derive_contract_address V (sg_from stx) (sg_nonce stx))
      = bt_get (contracts w) (tool_derive_contract_address V (sg_from stx) (sg_nonce stx))"
    using assms(3) by (simp add: c)
qed

section \<open>Verification of source code\<close>

text \<open>
  A verified contract exists at the address, and its recorded code hash is, as text, the hash of the
  local build.
\<close>

lemma verified_contract_matches:
  assumes "snd (cmd_verify C T V F (server_call E V R) contract_hex dir d) s = (Inr info, s')"
    and "rpc_parse_address E [JStr (strip_0x contract_hex)] 0 = Inr a"
  shows "\<exists>inst wasm path. bt_get (contracts (ch_state (rp_chain s))) a = Some inst
    \<and> fs_read F path (fst (cmd_verify C T V F (server_call E V R) contract_hex dir d)) = Some wasm
    \<and> hex_encode (ne_ext V) (blake3 (ne_ext V) wasm) = hex_encode (ne_ext V) (ci_code_hash inst) \<and> s' = s"
proof -
  have info: "server_call E V R ''claw_getContractInfo'' [JStr (strip_0x contract_hex)] s
      = (Inr (j_opt (\<lambda>c. JObj [(''address'', j_hex V (ci_address c)), (''codeHash'', j_hex V (ci_code_hash c)),
         (''creator'', j_hex V (ci_creator c)), (''deployedAt'', j_word (ci_deployed_at c))])
         (bt_get (contracts (ch_state (rp_chain s))) a)), s)"
    using assms(2)
    by (simp add: server_call_def handle_rpc_def dispatch_rpc_def query_table_def rpc_contract_info_def finish_rpc_def
      rpc_ok_def or_default_def)
  show ?thesis
    using assms(1) info
    by (auto simp: cmd_verify_def tool_do_def tool_lift_def fetch_contract_info_def tool_rpc_def contract_info_of_def
      body_result_def j_opt_def j_hex_def compare_hashes_def Let_def split: sum.splits prod.splits if_splits option.splits)
qed

text \<open>The name of a package survives the manifest that \<open>claw-contract new\<close> writes.\<close>

lemma package_name_of_manifest:
  "extract_package_name (''[package]'' @ [CHR 0x0A] @ ''name = '' @ [CHR 0x22] @ ''my-token'' @ [CHR 0x22] @ [CHR 0x0A])
     = Some ''my-token''"
  by (simp add: extract_package_name_def name_of_line_def trim_def blank_def trim_quotes_def Let_def)

end
