(* ===== verification/Rpc_Limits.thy ===== *)
theory Rpc_Limits
  imports Rpc_Safety
begin

text \<open>
  The crate \<open>rpc\<close> (\<open>rpc/src/lib.rs\<close>): a rate limiter with its middleware and the checks of addresses and
  sizes. The server of the node does not use it but has a limiter of its own; the two decide alike.
\<close>

definition MAX_REQUEST_BODY_SIZE :: nat where
  "MAX_REQUEST_BODY_SIZE = 2 * 1024 * 1024"

definition RATE_LIMIT_PER_SECOND :: u32 where
  "RATE_LIMIT_PER_SECOND = 100"

definition MAX_ADDRESS_HEX_LEN :: nat where
  "MAX_ADDRESS_HEX_LEN = 64"

definition MAX_TX_RPC_SIZE :: nat where
  "MAX_TX_RPC_SIZE = 1536 * 1024"

section \<open>The rate limiter\<close>

record RateState =
  ra_count :: u32
  ra_window_start :: nat

record RateLimiter =
  rl_inner :: "IpAddr \<Rightarrow> RateState option"
  rl_max_per_second :: u32

definition limiter_new :: "u32 \<Rightarrow> RateLimiter" where
  "limiter_new max_per_second = \<lparr>rl_inner = (\<lambda>_. None), rl_max_per_second = max_per_second\<rparr>"

text \<open>Instants are nanoseconds, as in the server; \<open>as_secs\<close> drops the fraction.\<close>

definition secs_since :: "nat \<Rightarrow> nat \<Rightarrow> nat" where
  "secs_since start now = (now - start) div 10 ^ 9"

definition limiter_check :: "IpAddr \<Rightarrow> nat \<Rightarrow> RateLimiter \<Rightarrow> bool \<times> RateLimiter" where
  "limiter_check ip now self =
     (let state0 = (case rl_inner self ip of Some st \<Rightarrow> st | None \<Rightarrow> \<lparr>ra_count = 0, ra_window_start = now\<rparr>);
          state1 = (if secs_since (ra_window_start state0) now \<ge> 1 then \<lparr>ra_count = 0, ra_window_start = now\<rparr> else state0) in
      if ra_count state1 \<ge> rl_max_per_second self then (False, self\<lparr>rl_inner := (rl_inner self)(ip \<mapsto> state1)\<rparr>)
      else (True, self\<lparr>rl_inner := (rl_inner self)(ip \<mapsto> state1\<lparr>ra_count := ra_count state1 + 1\<rparr>)\<rparr>))"

definition limiter_cleanup :: "nat \<Rightarrow> RateLimiter \<Rightarrow> RateLimiter" where
  "limiter_cleanup now self = self\<lparr>rl_inner := (\<lambda>ip. case rl_inner self ip of
      Some st \<Rightarrow> if secs_since (ra_window_start st) now < 60 then Some st else None
    | None \<Rightarrow> None)\<rparr>"

text \<open>The middleware answers itself or hands the request on; \<open>429\<close> is \<open>TOO_MANY_REQUESTS\<close>.\<close>

definition rate_limit_middleware ::
  "IpAddr \<Rightarrow> nat \<Rightarrow> ('req \<Rightarrow> nat \<times> string) \<Rightarrow> 'req \<Rightarrow> RateLimiter \<Rightarrow> (nat \<times> string) \<times> RateLimiter" where
  "rate_limit_middleware ip now next_handler request limiter = (case limiter_check ip now limiter of
      (False, limiter') \<Rightarrow>
        ((429, ''Rate limit exceeded: max '' @ show_word (rl_max_per_second limiter) @ '' requests/second''), limiter')
    | (True, limiter') \<Rightarrow> (next_handler request, limiter'))"

section \<open>Checks\<close>

definition validate_address_hex :: "(string \<Rightarrow> string + bytes) \<Rightarrow> string \<Rightarrow> string + address" where
  "validate_address_hex unhex hex_str =
     (if length hex_str \<noteq> MAX_ADDRESS_HEX_LEN
      then Inl (''address must be exactly '' @ dec_digits MAX_ADDRESS_HEX_LEN @ '' hex characters, got ''
             @ dec_digits (length hex_str))
      else case unhex hex_str of
          Inl e \<Rightarrow> Inl (''invalid hex: '' @ e)
        | Inr bs \<Rightarrow> if length bs \<noteq> 32 then Inl ''address must decode to exactly 32 bytes'' else Inr bs)"

definition validate_tx_size :: "bytes \<Rightarrow> string + unit" where
  "validate_tx_size tx_json =
     (if length tx_json > MAX_TX_RPC_SIZE
      then Inl (''transaction too large: '' @ dec_digits (length tx_json) @ '' bytes (max '' @ dec_digits MAX_TX_RPC_SIZE @ '')'')
      else Inr ())"

section \<open>Two limiters\<close>

definition same_rates :: "RateLimiter \<Rightarrow> (IpAddr \<Rightarrow> (nat \<times> u32) option) \<Rightarrow> bool" where
  "same_rates l rates \<longleftrightarrow> rates = (\<lambda>ip. map_option (\<lambda>st. (ra_window_start st, ra_count st)) (rl_inner l ip))"

lemma secs_since_window: "secs_since start now \<ge> 1 \<longleftrightarrow> now - start \<ge> CONTRACT_VIEW_RATE_WINDOW"
  unfolding secs_since_def CONTRACT_VIEW_RATE_WINDOW_def by (simp add: less_eq_div_iff_mult_less_eq del: One_nat_def)

lemma same_rates_upd:
  "same_rates l rates \<Longrightarrow>
   same_rates (l\<lparr>rl_inner := (rl_inner l)(ip \<mapsto> st)\<rparr>) (rates(ip \<mapsto> (ra_window_start st, ra_count st)))"
  by (simp add: same_rates_def fun_eq_iff)

text \<open>With the limit of the server the limiter of the crate lets the same calls pass, and goes on doing so.\<close>

lemma limiters_agree:
  assumes "rl_max_per_second l = CONTRACT_VIEW_RATE_LIMIT" and "same_rates l rates"
    and "limiter_check ip now l = (passed, l')" and "check_contract_view_rate ip now rates = (passed', rates')"
  shows "passed = passed' \<and> same_rates l' rates' \<and> rl_max_per_second l' = CONTRACT_VIEW_RATE_LIMIT"
proof (cases "rl_inner l ip")
  case None
  then have "rates ip = None" using assms(2) by (simp add: same_rates_def)
  moreover have "secs_since now now = 0" by (simp add: secs_since_def)
  ultimately show ?thesis
    using assms None same_rates_upd[OF assms(2), of ip "\<lparr>ra_count = 1, ra_window_start = now\<rparr>"]
    by (auto simp: limiter_check_def check_contract_view_rate_def CONTRACT_VIEW_RATE_LIMIT_def
      CONTRACT_VIEW_RATE_WINDOW_def Let_def)
next
  case (Some st)
  then have r: "rates ip = Some (ra_window_start st, ra_count st)" using assms(2) by (simp add: same_rates_def)
  note upd = same_rates_upd[OF assms(2), of ip]
  show ?thesis
  proof (cases "secs_since (ra_window_start st) now \<ge> 1")
    case True
    then show ?thesis
      using assms(1,3,4) r Some secs_since_window[of "ra_window_start st" now] upd[of "\<lparr>ra_count = 1, ra_window_start = now\<rparr>"]
      by (auto simp: limiter_check_def check_contract_view_rate_def CONTRACT_VIEW_RATE_LIMIT_def Let_def)
  next
    case False
    then show ?thesis
      using assms(1,3,4) r Some secs_since_window[of "ra_window_start st" now] upd[of st]
        upd[of "st\<lparr>ra_count := ra_count st + 1\<rparr>"]
      by (cases "CONTRACT_VIEW_RATE_LIMIT \<le> ra_count st")
        (auto simp: limiter_check_def check_contract_view_rate_def Let_def simp flip: not_le)
  qed
qed

text \<open>Cleaning up changes no decision: an entry that old would start a new window.\<close>

lemma cleanup_changes_nothing:
  "fst (limiter_check ip now (limiter_cleanup now l)) = fst (limiter_check ip now l)
   \<and> rl_inner (snd (limiter_check ip now (limiter_cleanup now l))) ip = rl_inner (snd (limiter_check ip now l)) ip"
  by (auto simp: limiter_check_def limiter_cleanup_def Let_def split: option.splits)

text \<open>A rejected request never reaches the handler.\<close>

lemma rejected_not_handled:
  assumes "fst (limiter_check ip now l) = False"
  shows "fst (fst (rate_limit_middleware ip now f request l)) = 429"
  using assms by (cases "limiter_check ip now l") (simp add: rate_limit_middleware_def)

end
