(* ===== verification/Spec2Isabelle.thy ===== *)
theory Spec2Isabelle
  imports Apply Rewards Voting Election Merkle Score Chain_Events Chain_Queries Vm_Results Vm_Cache Arena_Entry Vault_Entry
    Test_Framework Tool_Safety Rpc_Limits
begin

text \<open>
  ClawNetwork: a verification library for the node in \<open>src/claw-node\<close>, the contracts in \<open>src/contracts\<close> and the developer
  tool in \<open>src/tools\<close>.

  The program. A node keeps a world state (accounts, tokens, stakes, miners, contracts), applies transactions to it in blocks,
  decides with other validators which blocks count, and stores blocks and state on disk. Contracts are WebAssembly modules that
  the virtual machine runs with a table of host functions; two contracts and the SDK they are written with are part of the
  repository. The crates below \<open>src/claw-node/crates\<close> and the theories that model them:

  \<^item> \<^bold>\<open>Foundations.\<close> \<open>Prelude\<close>: machine integers as words, \<open>BTreeMap\<close> as the type \<open>btree\<close> (an interpretation of the locale
    \<open>ordered_map\<close>), byte images, decimal text. \<open>Decimal\<close>: \<open>str::parse\<close>. \<open>Types\<close>: the records of \<open>types/src\<close> and \<open>vm/src/types.rs\<close>.
  \<^item> \<^bold>\<open>State\<close> (\<open>state/src\<close>). \<open>World\<close>: \<open>WorldState\<close>, its old layouts, \<open>state_root\<close>, \<open>total_supply\<close>, and the record \<open>externals\<close> of
    third-party functions (hash, signatures, borsh decoding, wasm). \<open>Handler_Interface\<close>: the locales of the handlers
    (atomic, conserving, keeping the invariant, only the sender pays). \<open>Ledger\<close>, \<open>Staking\<close>, \<open>Mining_Tx\<close>, \<open>Contracts\<close>: the handlers of
    \<open>handlers.rs\<close>, each an interpretation of these locales. \<open>Apply\<close>: \<open>apply_tx\<close>. \<open>Rewards\<close>: \<open>rewards.rs\<close>. \<open>Score\<close>: \<open>score.rs\<close>.
  \<^item> \<^bold>\<open>Consensus\<close> (\<open>consensus/src\<close>). \<open>Consensus_Types\<close>, \<open>Voting\<close>, \<open>Slashing\<close>, \<open>Validator_Set\<close>, \<open>Election\<close>. \<open>Merkle\<close>:
    \<open>crypto/src/merkle.rs\<close>.
  \<^item> \<^bold>\<open>Node\<close> (\<open>node/src\<close>, \<open>storage/src\<close>). \<open>Store\<close>: the tables of \<open>store.rs\<close>. \<open>Genesis\<close>, \<open>Version\<close>. \<open>Block_Execution\<close>: what a block does
    to the world state. \<open>Chain_State\<close>: mempool, check-ins, votes. \<open>Chain\<close>: \<open>produce_block\<close> and \<open>apply_remote_block_inner\<close>.
    \<open>Chain_Safety\<close>, \<open>Chain_Run\<close>: what follows for one block and for every reachable node. \<open>Chain_Sync\<close>: catch-up, snapshots,
    start-up. \<open>Chain_Events\<close>: the block loop and the network loop. \<open>Chain_Queries\<close>: the queries of the RPC server.
  \<^item> \<^bold>\<open>Virtual machine\<close> (\<open>vm/src\<close>). \<open>Vm_Host\<close>: the host functions of \<open>host.rs\<close> on an explicit environment and guest memory.
    \<open>Vm_Interface\<close>: the locales \<open>host_body\<close> and \<open>host_op\<close>, interpreted for every import. \<open>Vm_Engine\<close>: guests as codata, the
    module cache and the two entry points of \<open>engine.rs\<close>. \<open>Vm_Safety\<close>: the laws of the imports carried over to executions.
    \<open>Vm_Results\<close>, \<open>Vm_Cache\<close>: what follows for the chain.
  \<^item> \<^bold>\<open>Contracts.\<close> \<open>Sdk\<close>: the wrappers of \<open>sdk/src\<close> as guests, with the locale \<open>quiet_op\<close>. \<open>Arena_Pool\<close>, \<open>Arena_Solvency\<close>,
    \<open>Arena_Entry\<close>: the arena pool's logic, its solvency, and its entry points on the engine. \<open>Reward_Vault\<close>, \<open>Vault_Safety\<close>,
    \<open>Vault_Entry\<close>: the same for the reward vault.

  \<^item> \<^bold>\<open>Network\<close> (\<open>p2p/src\<close>). \<open>P2p_Wire\<close>: topics, gossip messages and the framing of requests (\<open>protocol.rs\<close>, \<open>behaviour.rs\<close>).
    \<open>P2p_Network\<close>: the network task of \<open>network.rs\<close> with its start, commands, swarm events and redialling. \<open>P2p_Safety\<close>: the
    locale \<open>peer_op\<close> of operations on the peer set, the agreement of network and chain about peers, and the delivery of messages.
  \<^item> \<^bold>\<open>Around the chain\<close> (\<open>node/src\<close>, \<open>rpc/src\<close>). \<open>Files\<close>: the data directory. \<open>Key_Store\<close>, \<open>Key_Safety\<close>: \<open>config.rs\<close>, the presets of
    \<open>network.rs\<close> and the sync modes, with the locale \<open>key_writer\<close> of everything that writes a key. \<open>Rpc_Server\<close>, \<open>Rpc_Dispatch\<close>: the methods
    of \<open>rpc_server.rs\<close>, its rate limit, faucet and dispatch; \<open>Rpc_Safety\<close>: the locale \<open>rpc_method\<close> and what it gives. \<open>Rpc_Limits\<close>: the
    crate \<open>rpc\<close>. \<open>Cli\<close>, \<open>Cli_Safety\<close>: the client commands of \<open>main.rs\<close>, and their way into the mempool. \<open>Node_Start\<close>: the start of a node.
    \<open>Commands\<close>: the other commands, with the locale \<open>client_call\<close> of the node behind a client.
  \<^item> \<^bold>\<open>Developers.\<close> \<open>Test_Framework\<close>: \<open>test-framework/src\<close> against the contract handler of the chain. \<open>Contract_Tool\<close>,
    \<open>Tool_Safety\<close>: \<open>src/tools/claw-contract\<close> against the RPC server.

  How code becomes definitions. A struct is a record and an enum a datatype; integers are words of their width and
  wrap where the release build wraps; checked and saturating operations are written out. A function that mutates returns the
  new state also on its error branches, because block production keeps what a failed transaction leaves behind. Errors are values with
  the source's variants and texts. Time, randomness, the answers of the disk and the iteration order of hash maps are inputs.
  Code that is not part of the repository is a parameter: \<open>externals\<close> (hashing, signatures, borsh), \<open>node_env\<close> (codecs, keys),
  \<open>wasm_runtime\<close> (compilation, text of traps), \<open>child_engine\<close> (the thread of a callee), \<open>p2p_codec\<close> and \<open>swarm_env\<close> (libp2p),
  \<open>key_crates\<close> (JSON, TOML, hex, key derivation, encryption), \<open>fs_env\<close> (the operating system), \<open>rpc_env\<close>, \<open>cli_env\<close>, \<open>start_env\<close>,
  \<open>tool_env\<close> (parsers, encoders and started programs of the server, the clients and the tool); what a property needs of it is a
  hypothesis of the property.

  What is shown, by group of lemmas:
  \<^item> Money: no transaction mints (\<open>Apply\<close>), fees and rewards are split exactly (\<open>Rewards\<close>), the supply of every reachable node is
    the genesis supply less the burned fees (\<open>Chain_Run\<close>), and the node's own check of it never fires (\<open>Chain_Safety\<close>).
  \<^item> Integrity: the invariant of the world state, replay protection, atomicity of errors with the exceptions, who may lose coins,
    when contract code may change (\<open>Apply\<close>, \<open>Contracts\<close>, \<open>Staking\<close>).
  \<^item> Agreement: quorum intersection and accountable safety (\<open>Voting\<close>), producer and follower compute the same state
    (\<open>Chain_Safety\<close>), a node never votes twice at a height (\<open>Chain_Events\<close>), the active set and the weighted election are right.
  \<^item> Persistence: stored blocks and address histories read back (\<open>Store\<close>), a restart restores a node and catch-up ends (\<open>Chain_Sync\<close>).
  \<^item> Execution: fuel bounds every run and every answer, view calls change nothing, what is written back to a contract's storage is
    what the contract saw (\<open>Vm_Results\<close>), the module cache is transparent (\<open>Vm_Cache\<close>).
  \<^item> Contracts: the arena pool is solvent and nobody is stuck in a game (\<open>Arena_Solvency\<close>), the vault's nonces and its daily cap
    bind (\<open>Vault_Safety\<close>).
  \<^item> Operation: a key that was imported is exported again (\<open>Key_Safety\<close>) and a restarted node keeps its identities (\<open>Node_Start\<close>); remote calls
    change nothing but the mempool and the check-in cache, and view calls and faucet payments are limited (\<open>Rpc_Safety\<close>); a transfer typed at the
    command line arrives in the mempool (\<open>Cli_Safety\<close>); network and chain agree about the peers, and a sync exchange delivers exactly
    the messages within the limit (\<open>P2p_Safety\<close>); a test of a contract does what the chain does (\<open>Test_Framework\<close>).
  \<^item> Defects, proved: a failed claim destroys the unbonding queue (\<open>Staking\<close>), a snapshot's height is unchecked (\<open>Chain_Sync\<close>),
    a callee writes and pays for its caller (\<open>Vm_Results\<close>), the SDK reads the result of a transfer the wrong way round so that neither contract
    can pay anything out (\<open>Arena_Entry\<close>, \<open>Vault_Entry\<close>), the developer tool never sees a confirmation (\<open>Tool_Safety\<close>), and others next to the code they concern.

  Termination and fuel. Every loop of the source is a total function: structural recursion, or a measure where
  the loop is not structural (the Merkle levels, decimal digits, catch-up batches). A guest may run for ever; \<open>run_guest\<close> ends because
  every answered host call costs at least 5000 units of fuel, and a guest that computes without host calls is a
  constructor of its own (\<open>Silent\<close>), which the timeout of the code turns into an error. Bounds that appear in
  hypotheses (sums below \<open>2 ^ 128\<close>, pool funds below \<open>2 ^ 112\<close>, fewer than \<open>2 ^ 64\<close> claims) are far above the supply of \<open>10 ^ 18\<close> units.

  Not modelled: the HTTP layer of the servers (axum, CORS, connection limits), metrics, the inside of libp2p, the parsing of command-line
  arguments, logging and the progress messages of commands, the tokio tasks as such (their steps are \<open>block_tick\<close>, \<open>handle_event\<close>,
  \<open>loop_step\<close>, \<open>handle_rpc\<close> and \<open>prune_tick\<close>, interleaved arbitrarily), and the texts of the files that the developer tool writes into a new
  project. Cryptography is third-party and a parameter. Log lines and floating-point display values are left out throughout. The execution of
  WebAssembly instructions is arbitrary: every property of the engine holds for every module.
\<close>

end
